(* ===== verification/Prelude.thy ===== *)
theory Prelude
  imports Main "HOL-Library.AList"
begin

text \<open>
  Shared vocabulary of the development: identifiers, the database clock, JSON values as the
  code stores them in JSON columns, and tables of rows with the one kind of write the durable
  components use, a conditional UPDATE whose row count decides what happened.

  A table is the list of its rows in insertion order. \<open>update_where P f t\<close> is the statement
  \<open>UPDATE t SET f WHERE P\<close>, \<open>matching P t\<close> is its \<open>rowcount\<close> and \<open>row_of key k t\<close> is
  \<open>SELECT ... WHERE key = k\<close> read with \<open>scalar_one_or_none\<close>. The locale \<open>pk_update\<close> is the
  contract every guarded single-row UPDATE of the components meets: its guard pins the
  primary key, and its values leave the primary key alone. What follows from the two laws
  (at most one row is hit, the row count tells whether, every other row is untouched) is
  proved once there.
\<close>

named_theorems row_simps

section \<open>Identifiers, time and JSON\<close>

type_synonym uuid = nat
type_synonym time = int

text \<open>Timestamps count microseconds, as \<open>datetime\<close> does; \<open>seconds n\<close> is \<open>timedelta(seconds=n)\<close>.\<close>

definition seconds :: "int \<Rightarrow> time" where
  "seconds n = n * 1000000"

lemma seconds_mono [simp]: "seconds a \<le> seconds b \<longleftrightarrow> a \<le> b"
  by (simp add: seconds_def)

lemma seconds_pos [simp]: "0 < seconds a \<longleftrightarrow> 0 < a"
  by (simp add: seconds_def)

text \<open>
  Text that embeds identifiers is a list of pieces: an f-string such as
  \<open>f"user:{user_id}"\<close> is \<open>[Txt ''user:'', Uid user_id]\<close>, so two labels are equal exactly when
  their pieces are.
\<close>

datatype piece = Txt string | Uid uuid | NoId

type_synonym label = "piece list"

text \<open>
  \<open>JId u\<close> is the JSON string \<open>str(u)\<close> of an identifier, \<open>JText l\<close> a JSON string that embeds
  identifiers.
\<close>

datatype json =
    JNull
  | JBool bool
  | JInt int
  | JStr string
  | JId uuid
  | JText label
  | JList "json list"
  | JDict "(string \<times> json) list"

type_synonym dict = "(string \<times> json) list"

definition opt_piece :: "uuid option \<Rightarrow> piece" where
  "opt_piece x = (case x of None \<Rightarrow> NoId | Some u \<Rightarrow> Uid u)"

text \<open>Decimal text of an integer, as an f-string prints it.\<close>

fun show_nat :: "nat \<Rightarrow> string" where
  "show_nat n = (if n < 10 then [char_of (48 + n)] else show_nat (n div 10) @ [char_of (48 + n mod 10)])"

declare show_nat.simps [simp del]

definition show_int :: "int \<Rightarrow> string" where
  "show_int i = (if i < 0 then ''-'' @ show_nat (nat (- i)) else show_nat (nat i))"

text \<open>\<open>d.get(key)\<close> where the value is text.\<close>

definition dict_str :: "dict \<Rightarrow> string \<Rightarrow> string option" where
  "dict_str d k = (case map_of d k of Some (JStr s) \<Rightarrow> Some s | _ \<Rightarrow> None)"

text \<open>\<open>d or {}\<close> and \<open>s or None\<close>.\<close>

definition dict_or_empty :: "dict option \<Rightarrow> dict" where
  "dict_or_empty d = (case d of None \<Rightarrow> [] | Some d \<Rightarrow> d)"

definition text_or_none :: "string \<Rightarrow> string option" where
  "text_or_none s = (if s = [] then None else Some s)"

text \<open>\<open>str.isspace()\<close> of one character and \<open>str.strip()\<close>, on the first 256 code points.\<close>

definition is_space :: "char \<Rightarrow> bool" where
  "is_space c \<longleftrightarrow> (of_char c :: nat) \<in> {9, 10, 11, 12, 13, 28, 29, 30, 31, 32, 133, 160}"

definition py_strip :: "string \<Rightarrow> string" where
  "py_strip s = rev (dropWhile is_space (rev (dropWhile is_space s)))"

text \<open>\<open>s.startswith(p)\<close> and \<open>s.endswith(p)\<close>.\<close>

definition starts_with :: "string \<Rightarrow> string \<Rightarrow> bool" where
  "starts_with p s \<longleftrightarrow> take (length p) s = p"

definition ends_with :: "string \<Rightarrow> string \<Rightarrow> bool" where
  "ends_with p s \<longleftrightarrow> length p \<le> length s \<and> drop (length s - length p) s = p"

text \<open>\<open>not v\<close> of a JSON value.\<close>

definition falsy :: "json \<Rightarrow> bool" where
  "falsy v \<longleftrightarrow> v \<in> {JNull, JBool False, JInt 0, JStr [], JList [], JDict []}"

text \<open>
  What \<open>record_audit\<close> (\<open>src/nexus/governance/audit_service.py\<close>) is asked to write.
\<close>

record audit_row =
  au_company_id :: uuid
  au_action :: string
  au_actor_type :: string
  au_actor_id :: "label option"
  au_resource_type :: string
  au_resource_id :: uuid
  au_details :: dict

text \<open>\<open>{**a, **b}\<close>: a later key replaces the value in place, a new key is appended.\<close>

definition dict_merge :: "dict \<Rightarrow> dict \<Rightarrow> dict" where
  "dict_merge a b = fold (\<lambda>(k, v) d. AList.update k v d) b a"

definition opt_json :: "('a \<Rightarrow> json) \<Rightarrow> 'a option \<Rightarrow> json" where
  "opt_json f x = (case x of None \<Rightarrow> JNull | Some v \<Rightarrow> f v)"

lemma dict_merge_lookup:
  "map_of (dict_merge a b) k = (case map_of (rev b) k of None \<Rightarrow> map_of a k | Some v \<Rightarrow> Some v)"
proof (induction b arbitrary: a)
  case Nil
  show ?case by (simp add: dict_merge_def)
next
  case (Cons kv b)
  obtain k' v where kv: "kv = (k', v)" by (cases kv)
  have "dict_merge a (kv # b) = dict_merge (AList.update k' v a) b"
    by (simp add: dict_merge_def kv)
  then show ?case
    by (simp add: Cons.IH kv update_conv' map_add_def split: option.splits)
qed

section \<open>Tables and conditional updates\<close>

definition matching :: "('r \<Rightarrow> bool) \<Rightarrow> 'r list \<Rightarrow> nat" where
  "matching P t = length (filter P t)"

definition update_where :: "('r \<Rightarrow> bool) \<Rightarrow> ('r \<Rightarrow> 'r) \<Rightarrow> 'r list \<Rightarrow> 'r list" where
  "update_where P f t = map (\<lambda>r. if P r then f r else r) t"

definition row_of :: "('r \<Rightarrow> 'k) \<Rightarrow> 'k \<Rightarrow> 'r list \<Rightarrow> 'r option" where
  "row_of key k t = find (\<lambda>r. key r = k) t"

lemma find_append: "find P (xs @ ys) = (case find P xs of None \<Rightarrow> find P ys | Some x \<Rightarrow> Some x)"
  by (induction xs) auto

lemma find_map: "find P (map f xs) = map_option f (find (\<lambda>x. P (f x)) xs)"
  by (induction xs) simp_all

lemma find_SomeD: "find P xs = Some x \<Longrightarrow> x \<in> set xs \<and> P x"
  by (auto simp: find_Some_iff)

lemma row_of_Nil [simp]: "row_of key k [] = None"
  by (simp add: row_of_def)

lemma row_of_Cons [simp]:
  "row_of key k (r # t) = (if key r = k then Some r else row_of key k t)"
  by (simp add: row_of_def)

lemma row_of_append:
  "row_of key k (t @ u) = (case row_of key k t of None \<Rightarrow> row_of key k u | Some r \<Rightarrow> Some r)"
  by (induction t) auto

lemma row_of_SomeD: "row_of key k t = Some r \<Longrightarrow> r \<in> set t \<and> key r = k"
  by (induction t) (auto split: if_splits)

lemma row_of_None_iff: "row_of key k t = None \<longleftrightarrow> k \<notin> key ` set t"
  by (induction t) auto

lemma row_of_in: "distinct (map key t) \<Longrightarrow> r \<in> set t \<Longrightarrow> row_of key (key r) t = Some r"
  by (induction t) auto

lemma row_of_iff:
  "distinct (map key t) \<Longrightarrow> row_of key k t = Some r \<longleftrightarrow> r \<in> set t \<and> key r = k"
  using row_of_SomeD row_of_in by metis

lemma same_key_same_row:
  "distinct (map key t) \<Longrightarrow> r \<in> set t \<Longrightarrow> s \<in> set t \<Longrightarrow> key r = key s \<Longrightarrow> r = s"
  by (metis option.inject row_of_in)

lemma set_update_where [row_simps]:
  "set (update_where P f t) = (\<lambda>r. if P r then f r else r) ` set t"
  by (simp add: update_where_def)

lemma length_update_where [simp]: "length (update_where P f t) = length t"
  by (simp add: update_where_def)

lemma update_where_Nil [simp]: "update_where P f [] = []"
  by (simp add: update_where_def)

lemma update_where_none: "\<forall>r \<in> set t. \<not> P r \<Longrightarrow> update_where P f t = t"
  by (simp add: update_where_def map_idI)

lemma map_update_where [row_simps]:
  "(\<And>r. P r \<Longrightarrow> g (f r) = g r) \<Longrightarrow> map g (update_where P f t) = map g t"
  by (auto simp add: update_where_def)

lemma matching_0_iff: "matching P t = 0 \<longleftrightarrow> (\<forall>r \<in> set t. \<not> P r)"
  by (auto simp add: matching_def filter_empty_conv)

lemma in_update_where:
  "r' \<in> set (update_where P f t) \<longleftrightarrow> (\<exists>r \<in> set t. r' = (if P r then f r else r))"
  by (auto simp add: set_update_where)

lemma row_of_update_where:
  "(\<And>r. P r \<Longrightarrow> key (f r) = key r) \<Longrightarrow>
   row_of key k (update_where P f t) = map_option (\<lambda>r. if P r then f r else r) (row_of key k t)"
  by (induction t) (auto simp add: update_where_def)

text \<open>\<open>t'\<close> is \<open>t\<close> with the row \<open>old\<close> rewritten to \<open>new\<close>.\<close>

definition replaced :: "('r \<Rightarrow> 'k) \<Rightarrow> 'r \<Rightarrow> 'r \<Rightarrow> 'r list \<Rightarrow> 'r list \<Rightarrow> bool" where
  "replaced key old new t t' \<longleftrightarrow> old \<in> set t \<and> key new = key old \<and> map key t' = map key t \<and>
     set t' = insert new (set t - {old})"

lemma replaced_cases:
  assumes "replaced key old new t t'" and "r' \<in> set t'"
  obtains "r' = new" | "r' \<in> set t" "r' \<noteq> old"
  using assms by (auto simp: replaced_def)

lemma replaced_keys: "replaced key old new t t' \<Longrightarrow> map key t' = map key t"
  by (simp add: replaced_def)

lemma replaced_trans:
  assumes d: "distinct (map key t)" and r1: "replaced key old mid t t1"
    and r2: "replaced key mid new t1 t2"
  shows "replaced key old new t t2"
proof (cases "mid = old")
  case True
  with r1 r2 show ?thesis by (auto simp: replaced_def)
next
  case False
  with r1 have "mid \<notin> set t"
    using same_key_same_row [OF d] by (fastforce simp: replaced_def)
  with r1 r2 show ?thesis by (auto simp: replaced_def)
qed

section \<open>Guarded updates of one row\<close>

locale pk_update =
  fixes key :: "'r \<Rightarrow> 'k"
    and guard :: "'k \<Rightarrow> 'a \<Rightarrow> 'r \<Rightarrow> bool"
    and vals :: "'a \<Rightarrow> 'r \<Rightarrow> 'r"
  assumes guard_key: "guard k a r \<Longrightarrow> key r = k"
    and vals_key: "key (vals a r) = key r"
begin

lemma keys_kept: "map key (update_where (guard k a) (vals a) t) = map key t"
  by (simp add: map_update_where vals_key)

lemma rowcount_one_iff:
  assumes "distinct (map key t)"
  shows "matching (guard k a) t = 1 \<longleftrightarrow> (\<exists>r. row_of key k t = Some r \<and> guard k a r)"
  using assms
proof (induction t)
  case Nil
  show ?case by (simp add: matching_def)
next
  case (Cons r t)
  show ?case
  proof (cases "guard k a r")
    case True
    with Cons.prems have "\<forall>s \<in> set t. \<not> guard k a s"
      using guard_key by (fastforce simp: image_iff)
    then have "matching (guard k a) t = 0" by (simp add: matching_0_iff)
    with True show ?thesis using guard_key by (auto simp: matching_def)
  next
    case False
    moreover have "key r = k \<Longrightarrow> matching (guard k a) t = 0"
      using Cons.prems guard_key by (fastforce simp: matching_0_iff image_iff)
    ultimately show ?thesis using Cons by (auto simp: matching_def)
  qed
qed

lemma rowcount_le_one: "distinct (map key t) \<Longrightarrow> matching (guard k a) t \<le> 1"
proof (induction t)
  case Nil
  show ?case by (simp add: matching_def)
next
  case (Cons r t)
  have "guard k a r \<Longrightarrow> matching (guard k a) t = 0"
    using Cons.prems guard_key by (fastforce simp: matching_0_iff image_iff)
  with Cons show ?case by (auto simp: matching_def)
qed

lemma miss_unchanged:
  assumes "distinct (map key t)" and "matching (guard k a) t \<noteq> 1"
  shows "update_where (guard k a) (vals a) t = t"
proof -
  have "matching (guard k a) t = 0"
    using rowcount_le_one [OF assms(1), of k a] assms(2) by simp
  then show ?thesis by (simp add: matching_0_iff update_where_none)
qed

lemma hit_row:
  assumes "row_of key k t = Some r" and "guard k a r"
  shows "row_of key k' (update_where (guard k a) (vals a) t) =
    (if k' = k then Some (vals a r) else row_of key k' t)"
proof (cases "row_of key k' t")
  case None
  with assms(1) show ?thesis by (auto simp: row_of_update_where vals_key)
next
  case (Some s)
  then have "key s = k'" by (auto dest: row_of_SomeD)
  with Some assms guard_key show ?thesis by (fastforce simp: row_of_update_where vals_key)
qed

lemma hit_replaces:
  assumes d: "distinct (map key t)" and m: "matching (guard k a) t = 1"
  shows "\<exists>old. guard k a old \<and>
    replaced key old (vals a old) t (update_where (guard k a) (vals a) t)"
proof -
  obtain old where r: "row_of key k t = Some old" and g: "guard k a old"
    using m rowcount_one_iff [OF d] by blast
  from r have old: "old \<in> set t" "key old = k" by (auto dest: row_of_SomeD)
  have "guard k a s \<longleftrightarrow> s = old" if "s \<in> set t" for s
    using that g old guard_key same_key_same_row [OF d] by blast
  then have "set (update_where (guard k a) (vals a) t) = insert (vals a old) (set t - {old})"
    using old by (auto simp: set_update_where)
  with g old show ?thesis
    by (auto simp: replaced_def keys_kept vals_key)
qed

lemma other_rows:
  "r \<in> set t \<Longrightarrow> key r \<noteq> k \<Longrightarrow> r \<in> set (update_where (guard k a) (vals a) t)"
  using guard_key by (force simp: set_update_where)

end

end
