(* ===== verification/RBAC.thy ===== *)
theory RBAC
  imports Prelude
begin

text \<open>
  Role-based access control, \<open>src/nexus/governance/rbac.py\<close>: permission entries with
  wildcards, the four standard roles, the stateless check \<open>role_allows\<close> that request
  authorization uses, and the stateful \<open>RBACManager\<close> with its role and grant tables.
  The lemmas say what each role may do, that the manager's check is exactly membership of a
  granting entry among the effective permissions, and how grants and revocations change it.
\<close>

section \<open>Permissions and roles\<close>

text \<open>The \<open>conditions\<close> field is stored by the code and read by no check; it is kept as data.\<close>

record permission =
  perm_id :: uuid
  perm_action :: string
  perm_resource_type :: string
  perm_resource_id :: string
  perm_conditions :: dict

record role =
  role_name :: string
  role_description :: string
  role_permissions :: "permission list"

definition entry :: "string \<Rightarrow> string \<Rightarrow> permission" where
  "entry a t = \<lparr>perm_id = 0, perm_action = a, perm_resource_type = t, perm_resource_id = ''*'',
     perm_conditions = []\<rparr>"

definition ROLE_ADMIN :: role where
  "ROLE_ADMIN = \<lparr>role_name = ''admin'',
     role_description = ''Full system access - can manage all resources and configurations'',
     role_permissions = [entry ''*'' ''*'']\<rparr>"

definition ROLE_MANAGER :: role where
  "ROLE_MANAGER = \<lparr>role_name = ''manager'',
     role_description = ''Can manage agents, tasks, and view budgets within their scope'',
     role_permissions =
      [entry ''read'' ''*'',
       entry ''write'' ''task'',
       entry ''write'' ''agent'',
       entry ''write'' ''goal'',
       entry ''write'' ''session'',
       entry ''write'' ''mcp_binding'',
       entry ''write'' ''pipeline'',
       entry ''execute'' ''pipeline'',
       entry ''execute'' ''tool'',
       entry ''approve'' ''approval'',
       entry ''write'' ''worktree'']\<rparr>"

definition ROLE_AGENT :: role where
  "ROLE_AGENT = \<lparr>role_name = ''agent'',
     role_description = ''Can execute assigned tasks and use permitted tools'',
     role_permissions =
      [entry ''read'' ''task'',
       entry ''write'' ''task'',
       entry ''read'' ''goal'',
       entry ''execute'' ''tool'',
       entry ''read'' ''memory'',
       entry ''write'' ''memory'']\<rparr>"

definition ROLE_VIEWER :: role where
  "ROLE_VIEWER = \<lparr>role_name = ''viewer'',
     role_description = ''Read-only access to resources'',
     role_permissions = [entry ''read'' ''*'']\<rparr>"

definition STANDARD_ROLES :: "(string \<times> role) list" where
  "STANDARD_ROLES =
    [(''admin'', ROLE_ADMIN), (''manager'', ROLE_MANAGER),
     (''agent'', ROLE_AGENT), (''viewer'', ROLE_VIEWER)]"

text \<open>The resource id is optional; \<open>None\<close> and the empty string skip the id comparison.\<close>

definition permission_grants :: "permission \<Rightarrow> string \<Rightarrow> string \<Rightarrow> string option \<Rightarrow> bool" where
  "permission_grants p action resource_type resource_id =
    (if perm_action p \<noteq> ''*'' \<and> perm_action p \<noteq> action then False
     else if perm_resource_type p \<noteq> ''*'' \<and> perm_resource_type p \<noteq> resource_type then False
     else case resource_id of
       None \<Rightarrow> True
     | Some r \<Rightarrow> \<not> (r \<noteq> [] \<and> perm_resource_id p \<noteq> ''*'' \<and> perm_resource_id p \<noteq> r))"

definition role_allows :: "string \<Rightarrow> string \<Rightarrow> string \<Rightarrow> string option \<Rightarrow> bool" where
  "role_allows name action resource_type resource_id =
    (case map_of STANDARD_ROLES name of
       None \<Rightarrow> False
     | Some r \<Rightarrow>
         list_ex (\<lambda>p. permission_grants p action resource_type resource_id) (role_permissions r))"

lemmas role_defs = STANDARD_ROLES_def ROLE_ADMIN_def ROLE_MANAGER_def ROLE_AGENT_def ROLE_VIEWER_def

lemma entry_grants [simp]:
  "permission_grants (entry a t) action rt rid \<longleftrightarrow>
     (a = ''*'' \<or> a = action) \<and> (t = ''*'' \<or> t = rt)"
  by (simp add: permission_grants_def entry_def split: option.splits)

lemma viewer_allows: "role_allows ''viewer'' a t r \<longleftrightarrow> a = ''read''"
  by (auto simp: role_allows_def role_defs)

lemma admin_allows: "role_allows ''admin'' a t r"
  by (simp add: role_allows_def role_defs)

lemma agent_allows:
  "role_allows ''agent'' a t r \<longleftrightarrow>
     (a, t) \<in> {(''read'', ''task''), (''write'', ''task''), (''read'', ''goal''),
       (''execute'', ''tool''), (''read'', ''memory''), (''write'', ''memory'')}"
  by (auto simp: role_allows_def role_defs)

lemma manager_allows:
  "role_allows ''manager'' a t r \<longleftrightarrow> a = ''read'' \<or>
     (a = ''write'' \<and> t \<in> {''task'', ''agent'', ''goal'', ''session'', ''mcp_binding'',
        ''pipeline'', ''worktree''}) \<or>
     (a = ''execute'' \<and> t \<in> {''pipeline'', ''tool''}) \<or> (a = ''approve'' \<and> t = ''approval'')"
  by (auto simp: role_allows_def role_defs)

lemma role_allows_known:
  "role_allows name a t r \<Longrightarrow> name \<in> {''admin'', ''manager'', ''agent'', ''viewer''}"
  by (auto simp: role_allows_def STANDARD_ROLES_def split: if_splits)

section \<open>The manager with its tables\<close>

record rbac =
  rb_roles :: "(string \<times> role) list"
  rb_actor_permissions :: "uuid \<Rightarrow> permission list option"
  rb_actor_roles :: "uuid \<Rightarrow> string option"

text \<open>\<open>roles or STANDARD_ROLES\<close>: an absent or empty table of roles falls back to the standard one.\<close>

definition new_rbac :: "(string \<times> role) list option \<Rightarrow> rbac" where
  "new_rbac roles = \<lparr>
     rb_roles = (case roles of None \<Rightarrow> STANDARD_ROLES
                 | Some rs \<Rightarrow> if rs = [] then STANDARD_ROLES else rs),
     rb_actor_permissions = (\<lambda>_. None), rb_actor_roles = (\<lambda>_. None)\<rparr>"

definition assign_role :: "rbac \<Rightarrow> uuid \<Rightarrow> string \<Rightarrow> rbac \<times> bool" where
  "assign_role m actor name =
    (if map_of (rb_roles m) name = None then (m, False)
     else (m\<lparr>rb_actor_roles := (rb_actor_roles m)(actor \<mapsto> name)\<rparr>, True))"

definition perms_of :: "rbac \<Rightarrow> uuid \<Rightarrow> permission list" where
  "perms_of m actor = (case rb_actor_permissions m actor of None \<Rightarrow> [] | Some ps \<Rightarrow> ps)"

definition grant_permission :: "rbac \<Rightarrow> uuid \<Rightarrow> permission \<Rightarrow> rbac" where
  "grant_permission m actor p =
    m\<lparr>rb_actor_permissions := (rb_actor_permissions m)(actor \<mapsto> perms_of m actor @ [p])\<rparr>"

fun pop_perm :: "uuid \<Rightarrow> permission list \<Rightarrow> permission list option" where
  "pop_perm pid [] = None"
| "pop_perm pid (p # ps) =
    (if perm_id p = pid then Some ps else map_option (\<lambda>qs. p # qs) (pop_perm pid ps))"

definition revoke_permission :: "rbac \<Rightarrow> uuid \<Rightarrow> permission \<Rightarrow> rbac \<times> bool" where
  "revoke_permission m actor p =
    (case pop_perm (perm_id p) (perms_of m actor) of
       None \<Rightarrow> (m, False)
     | Some ps \<Rightarrow>
         (m\<lparr>rb_actor_permissions := (rb_actor_permissions m)(actor \<mapsto> ps)\<rparr>, True))"

definition role_perms_of :: "rbac \<Rightarrow> uuid \<Rightarrow> permission list" where
  "role_perms_of m actor =
    (case rb_actor_roles m actor of
       None \<Rightarrow> []
     | Some name \<Rightarrow> if name = [] then []
         else (case map_of (rb_roles m) name of None \<Rightarrow> [] | Some r \<Rightarrow> role_permissions r))"

definition check_permission ::
  "rbac \<Rightarrow> uuid \<Rightarrow> string \<Rightarrow> string \<Rightarrow> string \<Rightarrow> string option \<Rightarrow> bool" where
  "check_permission m actor actor_type action resource_type resource_id =
    (if list_ex (\<lambda>p. permission_grants p action resource_type resource_id) (role_perms_of m actor)
     then True
     else if list_ex (\<lambda>p. permission_grants p action resource_type resource_id) (perms_of m actor)
     then True
     else False)"

definition get_permissions :: "rbac \<Rightarrow> uuid \<Rightarrow> permission list" where
  "get_permissions m actor = role_perms_of m actor @ perms_of m actor"

definition get_role :: "rbac \<Rightarrow> uuid \<Rightarrow> string option" where
  "get_role m actor = rb_actor_roles m actor"

section \<open>Lemmas\<close>

lemma check_iff_effective:
  "check_permission m actor ty a t r \<longleftrightarrow>
     (\<exists>p \<in> set (get_permissions m actor). permission_grants p a t r)"
  by (auto simp: check_permission_def get_permissions_def list_ex_iff)

lemma role_perms_grant [simp]:
  "role_perms_of (grant_permission m actor p) b = role_perms_of m b"
  by (simp add: role_perms_of_def grant_permission_def split: option.split)

lemma perms_grant:
  "perms_of (grant_permission m actor p) b = (if b = actor then perms_of m b @ [p] else perms_of m b)"
  by (simp add: perms_of_def grant_permission_def)

lemma check_grant:
  "check_permission (grant_permission m actor p) b ty a t r \<longleftrightarrow>
     check_permission m b ty a t r \<or> (b = actor \<and> permission_grants p a t r)"
  by (auto simp: check_permission_def perms_grant)

lemma pop_perm_append_fresh:
  "pid \<notin> perm_id ` set ps \<Longrightarrow> perm_id p = pid \<Longrightarrow> pop_perm pid (ps @ [p]) = Some ps"
  by (induction ps) auto

lemma pop_perm_subset: "pop_perm pid ps = Some qs \<Longrightarrow> set qs \<subseteq> set ps"
  by (induction ps arbitrary: qs) (auto split: if_splits)

lemma perms_revoke:
  "perms_of (fst (revoke_permission m actor p)) b =
     (if b = actor then (case pop_perm (perm_id p) (perms_of m actor) of
        None \<Rightarrow> perms_of m actor | Some ps \<Rightarrow> ps) else perms_of m b)"
  by (simp add: perms_of_def revoke_permission_def split: option.splits)

lemma role_perms_revoke [simp]:
  "role_perms_of (fst (revoke_permission m actor p)) b = role_perms_of m b"
  by (simp add: role_perms_of_def revoke_permission_def split: option.splits)

lemma check_revoke_subset:
  "check_permission (fst (revoke_permission m actor p)) b ty a t r \<Longrightarrow>
     check_permission m b ty a t r"
  by (auto simp: check_permission_def perms_revoke list_ex_iff split: if_splits option.splits
      dest!: pop_perm_subset)

end
