(* ===== verification/Identity.thy ===== *)
theory Identity
  imports RBAC
begin

text \<open>
  Who a call is made for: the authenticated principal (\<open>src/nexus/auth/principal.py\<close>), the
  execution context a governed call carries (\<open>src/nexus/tools/context.py\<close>) and the test that
  a principal is a person (\<open>is_human\<close> of \<open>src/nexus/services/ceo_service.py\<close>).
\<close>

datatype principal_kind = User | Service | Run

record principal =
  p_kind :: principal_kind
  p_company_id :: uuid
  p_role :: string
  p_user_id :: "uuid option"
  p_email :: string
  p_session_id :: "uuid option"
  p_api_key_id :: "uuid option"
  p_run_id :: "uuid option"
  p_agent_id :: "uuid option"
  p_label :: string

definition display_name :: "principal \<Rightarrow> label" where
  "display_name p =
    (if p_label p \<noteq> [] then [Txt (p_label p)]
     else if p_kind p = Service then
       [Txt ''service:'', (case p_api_key_id p of None \<Rightarrow> Txt ''auth-disabled'' | Some k \<Rightarrow> Uid k)]
     else if p_kind p = Run then
       [Txt ''run:'', opt_piece (p_run_id p), Txt '':agent:'', opt_piece (p_agent_id p)]
     else if p_email p \<noteq> [] then [Txt (p_email p)]
     else [Txt ''user:'', opt_piece (p_user_id p)])"

definition has_permission :: "principal \<Rightarrow> string \<Rightarrow> string \<Rightarrow> string option \<Rightarrow> bool" where
  "has_permission p action resource_type resource_id =
    role_allows (p_role p) action resource_type resource_id"

definition dev_fallback :: "bool \<Rightarrow> principal \<Rightarrow> bool" where
  "dev_fallback auth_bypass_active p \<longleftrightarrow>
    auth_bypass_active \<and> p_kind p = Service \<and> p_api_key_id p = None \<and> p_label p = []"

definition is_human :: "bool \<Rightarrow> principal \<Rightarrow> bool" where
  "is_human auth_bypass_active p \<longleftrightarrow> p_kind p = User \<or> dev_fallback auth_bypass_active p"

section \<open>Execution contexts\<close>

record exec_context =
  ec_company_id :: uuid
  ec_principal_id :: label
  ec_principal_role :: string
  ec_source :: string
  ec_agent_id :: "uuid option"
  ec_session_id :: "uuid option"
  ec_adapter :: "string option"
  ec_model :: "string option"
  ec_work_mode :: "string option"
  ec_manager_tools_required :: bool
  ec_turn_id :: "uuid option"
  ec_turn_execution :: "uuid option"
  ec_turn_attempt :: "int option"

datatype context_error = PermissionError

definition plain_context :: "uuid \<Rightarrow> label \<Rightarrow> string \<Rightarrow> string \<Rightarrow> uuid option \<Rightarrow> uuid option \<Rightarrow>
    string option \<Rightarrow> string option \<Rightarrow> exec_context" where
  "plain_context company pid role source agent session adapter model =
    \<lparr>ec_company_id = company, ec_principal_id = pid, ec_principal_role = role, ec_source = source,
     ec_agent_id = agent, ec_session_id = session, ec_adapter = adapter, ec_model = model,
     ec_work_mode = None, ec_manager_tools_required = False, ec_turn_id = None,
     ec_turn_execution = None, ec_turn_attempt = None\<rparr>"

definition for_principal :: "principal \<Rightarrow> string \<Rightarrow> uuid option \<Rightarrow> uuid option \<Rightarrow>
    string option \<Rightarrow> string option \<Rightarrow> context_error + exec_context" where
  "for_principal p source agent session adapter model =
    (if p_kind p = Run then
       (if agent \<noteq> None \<and> agent \<noteq> p_agent_id p then Inl PermissionError
        else Inr (plain_context (p_company_id p) [Txt ''run:'', opt_piece (p_run_id p)] (p_role p)
               source (p_agent_id p) session adapter model))
     else if p_kind p = Service then
       Inr (plain_context (p_company_id p) (display_name p) (p_role p) source agent session
              adapter model)
     else
       Inr (plain_context (p_company_id p) [Txt ''user:'', opt_piece (p_user_id p)] (p_role p)
              source agent session adapter model))"

record agent =
  ag_id :: uuid
  ag_company_id :: uuid
  ag_name :: string
  ag_status :: string
  ag_adapter_type :: "string option"
  ag_model :: "string option"
  ag_connection_id :: "uuid option"
  ag_department_id :: "uuid option"
  ag_autonomy_policy :: "dict option"

definition opt_or :: "'a option \<Rightarrow> 'a option \<Rightarrow> 'a option" where
  "opt_or a b = (case a of None \<Rightarrow> b | Some _ \<Rightarrow> a)"

text \<open>\<open>adapter or agent.adapter_type\<close>: an empty string is replaced like an absent one.\<close>

definition str_or :: "string option \<Rightarrow> string option \<Rightarrow> string option" where
  "str_or a b = (case a of None \<Rightarrow> b | Some s \<Rightarrow> if s = [] then b else Some s)"

definition for_agent :: "agent \<Rightarrow> string \<Rightarrow> uuid option \<Rightarrow> string option \<Rightarrow> string option \<Rightarrow>
    exec_context" where
  "for_agent ag source session adapter model =
    plain_context (ag_company_id ag) [Txt ''agent:'', Uid (ag_id ag)] ''agent'' source
      (Some (ag_id ag)) session (str_or adapter (ag_adapter_type ag)) (str_or model (ag_model ag))"

definition for_call :: "agent \<Rightarrow> principal option \<Rightarrow> string \<Rightarrow> uuid option \<Rightarrow>
    string option \<Rightarrow> string option \<Rightarrow> context_error + exec_context" where
  "for_call ag p source session adapter model =
    (case p of
       None \<Rightarrow> Inr (for_agent ag source session adapter model)
     | Some q \<Rightarrow> for_principal q source (Some (ag_id ag)) session adapter model)"

section \<open>Lemmas\<close>

lemmas context_defs = for_call_def for_principal_def for_agent_def plain_context_def

lemma for_call_company:
  "for_call ag p src s a m = Inr c \<Longrightarrow>
     ec_company_id c = (case p of None \<Rightarrow> ag_company_id ag | Some q \<Rightarrow> p_company_id q)"
  by (auto simp: context_defs split: option.splits if_splits)

lemma for_call_agent:
  "for_call ag p src s a m = Inr c \<Longrightarrow> ec_agent_id c = Some (ag_id ag)"
  by (auto simp: context_defs split: option.splits if_splits)

lemma for_call_role:
  "for_call ag p src s a m = Inr c \<Longrightarrow>
     ec_principal_role c = (case p of None \<Rightarrow> ''agent'' | Some q \<Rightarrow> p_role q)"
  by (auto simp: context_defs split: option.splits if_splits)

lemma for_call_refused_iff:
  "for_call ag p src s a m = Inl PermissionError \<longleftrightarrow>
     (\<exists>q. p = Some q \<and> p_kind q = Run \<and> p_agent_id q \<noteq> Some (ag_id ag))"
  by (auto simp: context_defs split: option.splits)

lemma run_is_not_human: "p_kind p = Run \<Longrightarrow> \<not> is_human b p"
  by (simp add: is_human_def dev_fallback_def)

lemma api_key_is_not_human:
  "p_kind p = Service \<Longrightarrow> p_api_key_id p \<noteq> None \<Longrightarrow> \<not> is_human b p"
  by (simp add: is_human_def dev_fallback_def)

end
