(* ===== verification/Sessions.thy ===== *)
theory Sessions
  imports Identity
begin

text \<open>
  Agent sessions, \<open>src/nexus/services/session_service.py\<close> with the record and transition
  table of \<open>src/nexus/models/agent_session.py\<close>: the lifecycle, the adapter and model pin, the
  allocation of timeline sequence numbers, and \<open>begin_session_turn\<close>, which every turn passes
  before anything is stored. The provider table and aliases are those of
  \<open>src/nexus/adapters/uastl.py\<close> and the registered adapters those of
  \<open>src/nexus/adapters/registry.py\<close>.
\<close>

section \<open>The record and its lifecycle\<close>

datatype session_status = Active | Idle | SCompleted | SFailed | Terminated

definition ENDED_STATUSES :: "session_status list" where
  "ENDED_STATUSES = [SCompleted, SFailed, Terminated]"

definition OPEN_STATUSES :: "session_status list" where
  "OPEN_STATUSES = [Active, Idle]"

definition TRANSITIONS :: "session_status \<Rightarrow> session_status list" where
  "TRANSITIONS s = (case s of
      Active \<Rightarrow> [Idle, SCompleted, SFailed, Terminated]
    | Idle \<Rightarrow> [Active, SCompleted, SFailed, Terminated]
    | _ \<Rightarrow> [])"

record agent_session =
  as_id :: uuid
  as_company_id :: uuid
  as_agent_id :: uuid
  as_workspace_id :: "uuid option"
  as_status :: session_status
  as_title :: "string option"
  as_adapter_type :: string
  as_model :: "string option"
  as_llm_connection_id :: "uuid option"
  as_external_session_id :: "string option"
  as_event_seq :: int
  as_created_by :: "string option"
  as_session_metadata :: "dict option"
  as_started_at :: time
  as_last_activity_at :: time
  as_ended_at :: "time option"

datatype session_error =
    SessionStateError session_status session_status
  | PinConnectionUnavailable uuid
  | PinUnknownProvider string
  | PinAdapterNotInstalled string

definition transition ::
  "time \<Rightarrow> agent_session \<Rightarrow> session_status \<Rightarrow> session_error + agent_session" where
  "transition now s to =
    (if to = as_status s \<and> to \<in> set OPEN_STATUSES then Inr s
     else if to \<notin> set (TRANSITIONS (as_status s)) then Inl (SessionStateError (as_status s) to)
     else let s' = s\<lparr>as_status := to\<rparr>
          in Inr (if to \<in> set ENDED_STATUSES then s'\<lparr>as_ended_at := Some now\<rparr> else s'))"

section \<open>Sequence numbers\<close>

text \<open>
  \<open>UPDATE ... SET event_seq = event_seq + 1 ... RETURNING event_seq\<close>. Without the row,
  \<open>scalar_one\<close> raises, which is \<open>None\<close> here.
\<close>

definition next_seq :: "time \<Rightarrow> uuid \<Rightarrow> agent_session list \<Rightarrow> (agent_session list \<times> int) option" where
  "next_seq now sid ss =
    (case row_of as_id sid ss of
       None \<Rightarrow> None
     | Some s \<Rightarrow> Some
         (update_where (\<lambda>r. as_id r = sid)
            (\<lambda>r. r\<lparr>as_event_seq := as_event_seq r + 1, as_last_activity_at := now\<rparr>) ss,
          as_event_seq s + 1))"

section \<open>Adapter and model pinning\<close>

record pin =
  pin_adapter_type :: string
  pin_model :: "string option"
  pin_llm_connection_id :: "uuid option"

definition agent_pin :: "agent \<Rightarrow> pin" where
  "agent_pin a = \<lparr>
     pin_adapter_type = (case ag_adapter_type a of None \<Rightarrow> ''unknown''
       | Some t \<Rightarrow> if t = [] then ''unknown'' else t),
     pin_model = ag_model a,
     pin_llm_connection_id = ag_connection_id a\<rparr>"

definition session_pin :: "agent_session \<Rightarrow> pin" where
  "session_pin s = \<lparr>pin_adapter_type = as_adapter_type s, pin_model = as_model s,
     pin_llm_connection_id = as_llm_connection_id s\<rparr>"

definition is_pinned :: "agent_session \<Rightarrow> bool" where
  "is_pinned s \<longleftrightarrow> as_adapter_type s \<noteq> ''unknown''"

definition apply_pin :: "agent_session \<Rightarrow> pin \<Rightarrow> agent_session" where
  "apply_pin s p = s\<lparr>as_adapter_type := pin_adapter_type p, as_model := pin_model p,
     as_llm_connection_id := pin_llm_connection_id p\<rparr>"

record llm_connection =
  lc_id :: uuid
  lc_company_id :: uuid
  lc_is_active :: bool
  lc_wire_format :: string

text \<open>A provider entry; a key the dict leaves out is \<open>None\<close>, and so is an \<open>env_key\<close> of \<open>None\<close>.\<close>

record provider_info =
  pv_registry_key :: string
  pv_env_key :: "string option"
  pv_default_model :: "string option"
  pv_host :: "string option"
  pv_api_base :: "string option"
  pv_backend :: "string option"
  pv_supports_streaming :: "bool option"
  pv_supports_tools :: "bool option"
  pv_models :: "string list option"

definition provider :: "string \<Rightarrow> string option \<Rightarrow> provider_info" where
  "provider key env = \<lparr>pv_registry_key = key, pv_env_key = env, pv_default_model = None, pv_host = None,
     pv_api_base = None, pv_backend = None, pv_supports_streaming = None, pv_supports_tools = None,
     pv_models = None\<rparr>"

definition PROVIDERS :: "(string \<times> provider_info) list" where
  "PROVIDERS = [
     (''anthropic'', (provider ''anthropic'' (Some ''ANTHROPIC_API_KEY''))
       \<lparr>pv_default_model := Some ''claude-sonnet-4-20250514'',
        pv_supports_streaming := Some True, pv_supports_tools := Some True,
        pv_models := Some [''claude-opus-4'', ''claude-sonnet-4'', ''claude-haiku-4'', ''claude-sonnet-4-5'']\<rparr>),
     (''openai'', (provider ''openai'' (Some ''OPENAI_API_KEY''))
       \<lparr>pv_default_model := Some ''gpt-4o'', pv_supports_streaming := Some True,
        pv_supports_tools := Some True,
        pv_models := Some [''gpt-4o'', ''gpt-4o-mini'', ''o3'', ''o3-mini'', ''gpt-4.1'']\<rparr>),
     (''ollama'', (provider ''ollama'' None)
       \<lparr>pv_default_model := Some ''llama3.1'', pv_host := Some ''http://localhost:11434'',
        pv_supports_streaming := Some False, pv_supports_tools := Some False,
        pv_models := Some [''llama3.1'', ''llama3.2'', ''mistral'', ''codellama'', ''qwen2'']\<rparr>),
     (''google'', (provider ''google_gemini'' (Some ''GOOGLE_API_KEY''))
       \<lparr>pv_default_model := Some ''gemini-2.5-pro'', pv_supports_streaming := Some False,
        pv_supports_tools := Some True,
        pv_models := Some [''gemini-2.5-pro'', ''gemini-2.5-flash'', ''gemini-2.0-flash'']\<rparr>),
     (''azure'', (provider ''azure_openai'' (Some ''AZURE_OPENAI_API_KEY''))
       \<lparr>pv_default_model := Some ''gpt-4o'', pv_supports_streaming := Some True,
        pv_supports_tools := Some True, pv_models := Some [''gpt-4o'', ''gpt-4o-mini'']\<rparr>),
     (''bedrock'', (provider ''bedrock'' (Some ''AWS_SECRET_ACCESS_KEY''))
       \<lparr>pv_default_model := Some ''anthropic.claude-3-5-sonnet'',
        pv_supports_streaming := Some False, pv_supports_tools := Some False,
        pv_models := Some [''anthropic.claude-3-5-sonnet'', ''anthropic.claude-3-haiku'']\<rparr>),
     (''deepseek'', (provider ''openai'' (Some ''DEEPSEEK_API_KEY''))
       \<lparr>pv_api_base := Some ''https://api.deepseek.com/v1'',
        pv_default_model := Some ''deepseek-chat'', pv_supports_streaming := Some True,
        pv_supports_tools := Some True,
        pv_models := Some [''deepseek-chat'', ''deepseek-coder'']\<rparr>),
     (''groq'', (provider ''openai'' (Some ''GROQ_API_KEY''))
       \<lparr>pv_api_base := Some ''https://api.groq.com/openai/v1'',
        pv_default_model := Some ''llama-3.1-70b-versatile'',
        pv_supports_streaming := Some True, pv_supports_tools := Some False,
        pv_models := Some [''llama-3.1-70b-versatile'', ''mixtral-8x7b-32768'']\<rparr>),
     (''hermes'', (provider ''hermes'' None)
       \<lparr>pv_default_model := Some ''hermes3:8b'', pv_host := Some ''http://localhost:11434'',
        pv_supports_streaming := Some True, pv_supports_tools := Some True,
        pv_models := Some [''hermes3:8b'', ''nousresearch/hermes-3-llama-3.1-8b'', ''nousresearch/hermes-3-llama-3.1-405b'']\<rparr>),
     (''hermes-native'', (provider ''hermes_native'' None)
       \<lparr>pv_default_model := Some '''', pv_supports_streaming := Some True,
        pv_supports_tools := Some True, pv_models := Some []\<rparr>),
     (''azure-openai-native'', (provider ''azure_openai_native'' None)
       \<lparr>pv_default_model := Some '''', pv_supports_streaming := Some True,
        pv_supports_tools := Some True, pv_models := Some []\<rparr>),
     (''claude_code'', (provider ''claude_code'' None)
       \<lparr>pv_supports_streaming := Some False, pv_supports_tools := Some True,
        pv_models := Some []\<rparr>),
     (''cli'', (provider ''cli'' None)\<lparr>pv_backend := Some ''claude''\<rparr>),
     (''codex'', (provider ''cli'' None)\<lparr>pv_backend := Some ''codex''\<rparr>),
     (''aider'', (provider ''cli'' None)\<lparr>pv_backend := Some ''aider''\<rparr>),
     (''kiro-cli'', (provider ''cli'' None)\<lparr>pv_backend := Some ''kiro-cli''\<rparr>),
     (''agy'', (provider ''cli'' None)\<lparr>pv_backend := Some ''agy''\<rparr>),
     (''opencode'', (provider ''cli'' None)\<lparr>pv_backend := Some ''opencode''\<rparr>),
     (''cursor'', (provider ''cli'' None)\<lparr>pv_backend := Some ''cursor-agent''\<rparr>),
     (''hermes-cli'', (provider ''hermes'' None)
       \<lparr>pv_default_model := Some ''poolside/laguna-s-2.1:free'',
        pv_host := Some ''http://localhost:11434'', pv_supports_streaming := Some True,
        pv_supports_tools := Some True,
        pv_models := Some [''poolside/laguna-s-2.1:free'', ''nousresearch/hermes-4-405b'', ''nousresearch/hermes-4-70b'', ''anthropic/claude-sonnet-4'', ''deepseek/deepseek-chat'']\<rparr>)]"

definition PROVIDER_ALIASES :: "(string \<times> string) list" where
  "PROVIDER_ALIASES =
    [(''langchain'', ''anthropic''), (''claude'', ''claude_code''),
     (''claude-code'', ''claude_code''), (''claude_code'', ''claude_code''),
     (''claude-cli'', ''claude_code''), (''claude_cli'', ''claude_code''),
     (''antigravity'', ''agy''), (''kiro'', ''kiro-cli'')]"

definition default_adapters :: "string list" where
  "default_adapters =
    [''openai'', ''anthropic'', ''ollama'', ''hermes'', ''hermes_native'', ''claude_code'', ''cli'',
     ''http'', ''mcp'', ''azure_openai'', ''azure_openai_native'', ''bedrock'', ''google_gemini'']"

definition resolve_alias :: "string \<Rightarrow> string" where
  "resolve_alias t = (case map_of PROVIDER_ALIASES t of None \<Rightarrow> t | Some u \<Rightarrow> u)"

definition check_pin ::
  "llm_connection list \<Rightarrow> uuid \<Rightarrow> pin \<Rightarrow> session_error option" where
  "check_pin conns company p =
    (let require_installed = (\<lambda>k. if k \<in> set default_adapters then None
                                   else Some (PinAdapterNotInstalled k))
     in case pin_llm_connection_id p of
          Some cid \<Rightarrow>
            (case find (\<lambda>c. lc_id c = cid \<and> lc_company_id c = company) conns of
               None \<Rightarrow> Some (PinConnectionUnavailable cid)
             | Some c \<Rightarrow> if \<not> lc_is_active c then Some (PinConnectionUnavailable cid)
                         else require_installed (lc_wire_format c))
        | None \<Rightarrow>
            (case map_of PROVIDERS (resolve_alias (pin_adapter_type p)) of
               None \<Rightarrow> Some (PinUnknownProvider (pin_adapter_type p))
             | Some pv \<Rightarrow> require_installed (pv_registry_key pv)))"

text \<open>
  Wake the session, adopt the agent's pin if there is none, check the pin, and return the
  session and the agent as the session runs it.
\<close>

definition begin_session_turn ::
  "time \<Rightarrow> llm_connection list \<Rightarrow> agent_session \<Rightarrow> agent \<Rightarrow>
   session_error + (agent_session \<times> agent)" where
  "begin_session_turn now conns s a =
    (case transition now s Active of
       Inl e \<Rightarrow> Inl e
     | Inr s1 \<Rightarrow>
         let s2 = (if is_pinned s1 then s1 else apply_pin s1 (agent_pin a))
         in case check_pin conns (as_company_id s2) (session_pin s2) of
              Some e \<Rightarrow> Inl e
            | None \<Rightarrow> Inr (s2, a\<lparr>ag_adapter_type := Some (as_adapter_type s2),
                                  ag_model := as_model s2,
                                  ag_connection_id := as_llm_connection_id s2\<rparr>))"

section \<open>Lemmas\<close>

lemmas status_defs = ENDED_STATUSES_def OPEN_STATUSES_def

lemma ended_or_open: "s \<in> set ENDED_STATUSES \<longleftrightarrow> s \<notin> set OPEN_STATUSES"
  by (cases s) (simp_all add: status_defs)

lemma transition_from_ended:
  "as_status s \<in> set ENDED_STATUSES \<Longrightarrow>
     transition now s to = Inl (SessionStateError (as_status s) to)"
  by (cases "as_status s") (auto simp: transition_def status_defs TRANSITIONS_def)

lemma transition_open:
  "as_status s \<in> set OPEN_STATUSES \<Longrightarrow> \<exists>s'. transition now s to = Inr s' \<and> as_status s' = to"
  by (cases "as_status s"; cases to)
    (auto simp: transition_def status_defs TRANSITIONS_def Let_def)

lemma transition_frame:
  "transition now s to = Inr s' \<Longrightarrow>
     as_id s' = as_id s \<and> as_company_id s' = as_company_id s \<and> as_event_seq s' = as_event_seq s \<and>
     session_pin s' = session_pin s"
  by (auto simp: transition_def session_pin_def Let_def split: if_splits)

lemma apply_pin_frame [simp]:
  "as_id (apply_pin s p) = as_id s" "as_company_id (apply_pin s p) = as_company_id s"
  "as_event_seq (apply_pin s p) = as_event_seq s" "as_status (apply_pin s p) = as_status s"
  "session_pin (apply_pin s p) = p"
  by (simp_all add: apply_pin_def session_pin_def)

lemma begin_session_turn_cases:
  assumes "begin_session_turn now conns s a = Inr (s', a')"
  shows "as_status s' = Active" and "as_id s' = as_id s"
    and "as_company_id s' = as_company_id s" and "as_event_seq s' = as_event_seq s"
    and "is_pinned s \<Longrightarrow> session_pin s' = session_pin s"
    and "\<not> is_pinned s \<Longrightarrow> session_pin s' = agent_pin a"
    and "check_pin conns (as_company_id s) (session_pin s') = None"
    and "ag_id a' = ag_id a" and "ag_company_id a' = ag_company_id a"
proof -
  from assms obtain s1 where s1: "transition now s Active = Inr s1"
    by (auto simp: begin_session_turn_def split: sum.splits)
  have st: "as_status s1 = Active"
    using s1 by (auto simp: transition_def Let_def status_defs split: if_splits)
  note fr = transition_frame [OF s1]
  have pinned: "is_pinned s1 = is_pinned s"
    using fr by (auto simp: is_pinned_def session_pin_def)
  let ?s2 = "if is_pinned s1 then s1 else apply_pin s1 (agent_pin a)"
  from assms s1 have s': "s' = ?s2" and ok: "check_pin conns (as_company_id ?s2) (session_pin ?s2) = None"
    and a': "a' = a\<lparr>ag_adapter_type := Some (as_adapter_type ?s2), ag_model := as_model ?s2,
                   ag_connection_id := as_llm_connection_id ?s2\<rparr>"
    by (auto simp: begin_session_turn_def Let_def split: option.splits)
  show "as_status s' = Active" "as_id s' = as_id s" "as_company_id s' = as_company_id s"
    "as_event_seq s' = as_event_seq s"
    using s' st fr by simp_all
  show "is_pinned s \<Longrightarrow> session_pin s' = session_pin s" using s' fr pinned by simp
  show "\<not> is_pinned s \<Longrightarrow> session_pin s' = agent_pin a" using s' pinned by simp
  show "check_pin conns (as_company_id s) (session_pin s') = None"
    using s' ok fr by (cases "is_pinned s1") auto
  show "ag_id a' = ag_id a" "ag_company_id a' = ag_company_id a" using a' by simp_all
qed

lemma next_seq_effect:
  assumes "next_seq now sid ss = Some (ss', n)"
  shows "\<exists>s. row_of as_id sid ss = Some s \<and> n = as_event_seq s + 1"
    and "map as_id ss' = map as_id ss"
    and "row_of as_id k ss' = (if k = sid
           then map_option (\<lambda>s. s\<lparr>as_event_seq := n, as_last_activity_at := now\<rparr>) (row_of as_id sid ss)
           else row_of as_id k ss)"
proof -
  from assms obtain s where s: "row_of as_id sid ss = Some s" and n: "n = as_event_seq s + 1"
    and ss': "ss' = update_where (\<lambda>r. as_id r = sid)
        (\<lambda>r. r\<lparr>as_event_seq := as_event_seq r + 1, as_last_activity_at := now\<rparr>) ss"
    by (auto simp: next_seq_def split: option.splits)
  show "\<exists>s. row_of as_id sid ss = Some s \<and> n = as_event_seq s + 1" using s n by blast
  show "map as_id ss' = map as_id ss" by (simp add: ss' map_update_where)
  show "row_of as_id k ss' = (if k = sid
           then map_option (\<lambda>s. s\<lparr>as_event_seq := n, as_last_activity_at := now\<rparr>) (row_of as_id sid ss)
           else row_of as_id k ss)"
    using s n by (auto simp: ss' row_of_update_where dest: row_of_SomeD
        intro!: option.map_ident_strong)
qed

end
