(* ===== verification/Chat_Turns.thy ===== *)
theory Chat_Turns
  imports Sessions
begin

text \<open>
  Durable employee chat turns, \<open>src/nexus/runtime/chat_turns.py\<close> over the row of
  \<open>src/nexus/models/chat_turn.py\<close>: creation with idempotency keys, the conditional claim,
  lease renewal, the fenced finalize, release, cancellation and lease recovery. Each handler
  is one function on the database state; each \<open>async with tenant_session\<close> block of the code
  is one atomic step. The theory \<open>Turn_System\<close> composes the handlers into the system of
  workers, clients and recovery sweeps and proves its invariants.
\<close>

section \<open>Rows\<close>

datatype turn_status = Queued | Claimed | Running | Completed | Failed | Cancelled | Expired

definition TERMINAL_STATUSES :: "turn_status list" where
  "TERMINAL_STATUSES = [Completed, Failed, Cancelled, Expired]"

definition ACTIVE_STATUSES :: "turn_status list" where
  "ACTIVE_STATUSES = [Claimed, Running]"

fun status_text :: "turn_status \<Rightarrow> string" where
  "status_text Queued = ''queued''"
| "status_text Claimed = ''claimed''"
| "status_text Running = ''running''"
| "status_text Completed = ''completed''"
| "status_text Failed = ''failed''"
| "status_text Cancelled = ''cancelled''"
| "status_text Expired = ''expired''"

record chat_turn =
  ct_id :: uuid
  ct_company_id :: uuid
  ct_agent_id :: uuid
  ct_session_id :: uuid
  ct_idempotency_key :: string
  ct_request_id :: "string option"
  ct_turn_seq :: int
  ct_status :: turn_status
  ct_prompt_message_id :: "uuid option"
  ct_response_message_id :: "uuid option"
  ct_execution_id :: "uuid option"
  ct_adapter_used :: "string option"
  ct_backend_used :: "string option"
  ct_model_used :: "string option"
  ct_claimed_by :: "string option"
  ct_lease_expires_at :: "time option"
  ct_attempt_count :: int
  ct_max_attempts :: int
  ct_cancel_requested_at :: "time option"
  ct_cancelled_by :: "string option"
  ct_error_code :: "string option"
  ct_error_message :: "string option"
  ct_queued_at :: time
  ct_claimed_at :: "time option"
  ct_started_at :: "time option"
  ct_completed_at :: "time option"
  ct_updated_at :: time
  ct_execution_context :: "exec_context option"
  ct_result :: "dict option"

record chat_message =
  cm_id :: uuid
  cm_company_id :: uuid
  cm_agent_id :: uuid
  cm_sender :: string
  cm_text :: string
  cm_model_used :: "string option"
  cm_tokens_used :: int
  cm_session_id :: "uuid option"
  cm_kind :: string
  cm_seq :: "int option"
  cm_payload :: "dict option"
  cm_created_at :: time

record turn_notification =
  tn_company_id :: uuid
  tn_agent_id :: uuid
  tn_title :: string
  tn_description :: string
  tn_type :: string
  tn_module :: string
  tn_priority :: string
  tn_metadata :: dict

record session_event =
  se_type :: string
  se_company_id :: uuid
  se_payload :: dict

record ceo_directive =
  cd_company_id :: uuid
  cd_content :: string
  cd_recorded_by :: label
  cd_session_id :: uuid
  cd_message_id :: uuid
  cd_turn_id :: uuid

text \<open>
  The tables the handlers touch, plus what they announce: session events, process counters,
  cancel hints for the local worker and the calls to the in-process spend tracker.
\<close>

record turn_db =
  db_turns :: "chat_turn list"
  db_messages :: "chat_message list"
  db_sessions :: "agent_session list"
  db_ceos :: "(uuid \<times> uuid) list"
  db_directives :: "ceo_directive list"
  db_audits :: "audit_row list"
  db_notifications :: "turn_notification list"
  db_stats :: "string list"
  db_published :: "session_event list"
  db_cancel_hints :: "uuid list"
  db_spend_calls :: "(uuid \<times> int) list"

record turn_settings =
  chat_turn_lease_seconds :: int
  chat_turn_max_attempts :: int
  chat_turn_queue_ttl_seconds :: int
  auth_bypass_active :: bool

definition default_settings :: turn_settings where
  "default_settings = \<lparr>chat_turn_lease_seconds = 30, chat_turn_max_attempts = 3,
     chat_turn_queue_ttl_seconds = 3600, auth_bypass_active = False\<rparr>"

section \<open>Helpers\<close>

definition count :: "string \<Rightarrow> turn_db \<Rightarrow> turn_db" where
  "count e db = db\<lparr>db_stats := db_stats db @ [e]\<rparr>"

definition scoped :: "uuid \<Rightarrow> uuid \<Rightarrow> chat_turn \<Rightarrow> bool" where
  "scoped tid cid r \<longleftrightarrow> ct_id r = tid \<and> ct_company_id r = cid"

definition no_turn_ahead :: "chat_turn list \<Rightarrow> chat_turn \<Rightarrow> bool" where
  "no_turn_ahead ts t \<longleftrightarrow>
    \<not> list_ex (\<lambda>p. ct_company_id p = ct_company_id t \<and> ct_session_id p = ct_session_id t \<and>
        ct_id p \<noteq> ct_id t \<and>
        (ct_turn_seq p < ct_turn_seq t \<and> ct_status p \<notin> set TERMINAL_STATUSES \<or>
         ct_status p \<in> set ACTIVE_STATUSES)) ts"

definition get_turn :: "uuid \<Rightarrow> uuid \<Rightarrow> chat_turn list \<Rightarrow> chat_turn option" where
  "get_turn cid tid ts = find (scoped tid cid) ts"

definition turn_audit :: "chat_turn \<Rightarrow> string \<Rightarrow> string \<Rightarrow> dict \<Rightarrow> audit_row" where
  "turn_audit t action actor_type details =
    \<lparr>au_company_id = ct_company_id t, au_action = action, au_actor_type = actor_type,
     au_actor_id = None, au_resource_type = ''chat_turn'', au_resource_id = ct_id t,
     au_details = dict_merge
       [(''agent_id'', JId (ct_agent_id t)), (''session_id'', JId (ct_session_id t)),
        (''execution_id'', opt_json JId (ct_execution_id t)),
        (''attempt'', JInt (ct_attempt_count t))] details\<rparr>"

definition audit :: "audit_row \<Rightarrow> turn_db \<Rightarrow> turn_db" where
  "audit a db = db\<lparr>db_audits := db_audits db @ [a]\<rparr>"

definition turn_event :: "chat_turn \<Rightarrow> dict \<Rightarrow> session_event" where
  "turn_event t extra =
    \<lparr>se_type = ''session.turn'', se_company_id = ct_company_id t,
     se_payload = dict_merge
       [(''session_id'', JId (ct_session_id t)), (''agent_id'', JId (ct_agent_id t)),
        (''turn_id'', JId (ct_id t)), (''turn_status'', JStr (status_text (ct_status t))),
        (''execution_id'', opt_json JId (ct_execution_id t))] extra\<rparr>"

definition message_event :: "chat_turn \<Rightarrow> int option \<Rightarrow> session_event" where
  "message_event t seq =
    \<lparr>se_type = ''session.message'', se_company_id = ct_company_id t,
     se_payload =
       [(''session_id'', JId (ct_session_id t)), (''agent_id'', JId (ct_agent_id t)),
        (''turn_id'', JId (ct_id t)), (''seq'', opt_json JInt seq)]\<rparr>"

definition publish :: "session_event \<Rightarrow> turn_db \<Rightarrow> turn_db" where
  "publish e db = db\<lparr>db_published := db_published db @ [e]\<rparr>"

section \<open>Storing a message\<close>

text \<open>
  \<open>_persist_message_to_db\<close>: the row takes the session's next sequence number. \<open>None\<close> is the
  failed write, when the session row is gone or the unique \<open>(session_id, seq)\<close> or the primary
  key refuses the row.
\<close>

definition persist_message ::
  "time \<Rightarrow> uuid \<Rightarrow> uuid \<Rightarrow> uuid \<Rightarrow> string \<Rightarrow> string \<Rightarrow> uuid \<Rightarrow> string option \<Rightarrow> int \<Rightarrow> dict option \<Rightarrow>
   turn_db \<Rightarrow> (turn_db \<times> chat_message) option" where
  "persist_message now mid agent company sender text sid model tokens payload db =
    (case next_seq now sid (db_sessions db) of
       None \<Rightarrow> None
     | Some (ss, seq) \<Rightarrow>
         let m = \<lparr>cm_id = mid, cm_company_id = company, cm_agent_id = agent, cm_sender = sender,
                  cm_text = take 10000 text, cm_model_used = model, cm_tokens_used = tokens,
                  cm_session_id = Some sid, cm_kind = ''message'', cm_seq = Some seq,
                  cm_payload = payload, cm_created_at = now\<rparr>
         in if list_ex (\<lambda>r. cm_id r = mid \<or> (cm_session_id r = Some sid \<and> cm_seq r = Some seq))
                 (db_messages db)
            then None
            else Some (db\<lparr>db_sessions := ss, db_messages := db_messages db @ [m]\<rparr>, m))"

section \<open>Creation\<close>

datatype http_detail = DText string | DDict dict

datatype create_error =
    SessionRefused session_error
  | ConfigurationRequired string
  | AdapterUnresolvable http_detail
  | ForeignPrincipal
  | CeoToolsUnsupported "string option"
  | HumanDecisionRequired
  | NotCeo
  | MessageNotRecorded
  | MemoryRefused int
  | IntegrityConflict

text \<open>The HTTP status of each refusal; \<open>IntegrityConflict\<close> is the exception raised again.\<close>

fun create_status :: "create_error \<Rightarrow> int option" where
  "create_status (SessionRefused _) = Some 409"
| "create_status (ConfigurationRequired _) = Some 409"
| "create_status (AdapterUnresolvable _) = Some 422"
| "create_status ForeignPrincipal = Some 403"
| "create_status (CeoToolsUnsupported _) = Some 409"
| "create_status HumanDecisionRequired = Some 403"
| "create_status NotCeo = Some 409"
| "create_status MessageNotRecorded = Some 503"
| "create_status (MemoryRefused n) = Some n"
| "create_status IntegrityConflict = None"

record turn_request =
  rq_prompt :: string
  rq_principal :: "principal option"
  rq_key :: "string option"
  rq_stream :: bool
  rq_work_mode :: "string option"
  rq_require_manager_tools :: bool
  rq_record_directive :: bool

text \<open>
  Fresh values the handler draws (\<open>uuid4\<close>) and the answers of three collaborators that are not
  modelled here: whether the pinned adapter resolves (\<open>chat._resolve_adapter_type\<close>), whether
  the CEO's backend can carry the manager tools (\<open>ceo_service.tool_support\<close>) and the status of
  the error \<open>ceo_service.remember\<close> refused the directive with, if it did; \<open>db_directives\<close> is the
  log of the directives it was given.
\<close>

record create_env =
  ce_now :: time
  ce_turn_id :: uuid
  ce_message_id :: uuid
  ce_hex_key :: string
  ce_connections :: "llm_connection list"
  ce_adapter_error :: "agent \<Rightarrow> http_detail option"
  ce_tool_support :: "agent \<Rightarrow> bool \<times> string option"
  ce_memory_error :: "int option"

definition find_by_key :: "uuid \<Rightarrow> uuid \<Rightarrow> string \<Rightarrow> chat_turn list \<Rightarrow> chat_turn option" where
  "find_by_key cid sid key ts =
    find (\<lambda>t. ct_company_id t = cid \<and> ct_session_id t = sid \<and> ct_idempotency_key t = key) ts"

text \<open>The primary key and the two unique constraints of \<open>chat_turns\<close>.\<close>

definition unique_ok :: "chat_turn list \<Rightarrow> chat_turn \<Rightarrow> bool" where
  "unique_ok ts n \<longleftrightarrow>
    \<not> list_ex (\<lambda>t. ct_id t = ct_id n \<or>
        (ct_company_id t = ct_company_id n \<and> ct_session_id t = ct_session_id n \<and>
         ct_idempotency_key t = ct_idempotency_key n) \<or>
        (ct_session_id t = ct_session_id n \<and> ct_turn_seq t = ct_turn_seq n)) ts"

text \<open>\<open>dataclasses.replace(context, ...)\<close> for a work mode and for required manager tools.\<close>

definition request_context :: "turn_request \<Rightarrow> exec_context \<Rightarrow> exec_context" where
  "request_context rq c =
    (let c1 = (case rq_work_mode rq of None \<Rightarrow> c | Some w \<Rightarrow> c\<lparr>ec_work_mode := Some w\<rparr>)
     in if rq_require_manager_tools rq then c1\<lparr>ec_manager_tools_required := True\<rparr> else c1)"

text \<open>The refusals that concern the CEO.\<close>

definition ceo_refusal ::
  "turn_settings \<Rightarrow> create_env \<Rightarrow> uuid \<Rightarrow> agent \<Rightarrow> turn_request \<Rightarrow> turn_db \<Rightarrow> create_error option" where
  "ceo_refusal cfg env company pinned rq db =
    (let is_ceo = ((rq_require_manager_tools rq \<or> rq_record_directive rq) \<and>
                   (company, ag_id pinned) \<in> set (db_ceos db))
     in if rq_require_manager_tools rq \<and> is_ceo \<and> \<not> fst (ce_tool_support env pinned)
        then Some (CeoToolsUnsupported (snd (ce_tool_support env pinned)))
        else if rq_record_directive rq \<and>
           (case rq_principal rq of None \<Rightarrow> True
            | Some p \<Rightarrow> \<not> is_human (auth_bypass_active cfg) p)
        then Some HumanDecisionRequired
        else if rq_record_directive rq \<and> \<not> is_ceo then Some NotCeo
        else None)"

text \<open>All refusals, in the order the code raises them, before anything is stored.\<close>

definition admit ::
  "turn_settings \<Rightarrow> create_env \<Rightarrow> agent_session \<Rightarrow> agent \<Rightarrow> turn_request \<Rightarrow> turn_db \<Rightarrow>
   create_error + (agent_session \<times> agent \<times> exec_context)" where
  "admit cfg env s a rq db =
    (case begin_session_turn (ce_now env) (ce_connections env) s a of
       Inl e \<Rightarrow> Inl (SessionRefused e)
     | Inr (s', pinned) \<Rightarrow>
         if ag_status pinned = ''configuration_required''
         then Inl (ConfigurationRequired (ag_name pinned))
         else (case ce_adapter_error env pinned of
           Some d \<Rightarrow> Inl (AdapterUnresolvable d)
         | None \<Rightarrow>
           (case for_call pinned (rq_principal rq) ''chat'' (Some (as_id s)) None None of
              Inl PermissionError \<Rightarrow> Inl ForeignPrincipal
            | Inr c \<Rightarrow>
              (case ceo_refusal cfg env (as_company_id s) pinned rq db of
                 Some e \<Rightarrow> Inl e
               | None \<Rightarrow> Inr (s', pinned, request_context rq c)))))"

definition CONTENT_MAX :: nat where
  "CONTENT_MAX = 2000"

definition new_turn ::
  "turn_settings \<Rightarrow> create_env \<Rightarrow> agent_session \<Rightarrow> agent \<Rightarrow> exec_context \<Rightarrow> turn_request \<Rightarrow>
   chat_message \<Rightarrow> chat_turn" where
  "new_turn cfg env s pinned c rq m =
    \<lparr>ct_id = ce_turn_id env, ct_company_id = as_company_id s, ct_agent_id = ag_id pinned,
     ct_session_id = as_id s,
     ct_idempotency_key = (case rq_key rq of None \<Rightarrow> ce_hex_key env
       | Some k \<Rightarrow> if k = [] then ce_hex_key env else k),
     ct_request_id = rq_key rq,
     ct_turn_seq = (case cm_seq m of None \<Rightarrow> 0 | Some n \<Rightarrow> n),
     ct_status = Queued, ct_prompt_message_id = Some (cm_id m), ct_response_message_id = None,
     ct_execution_id = None, ct_adapter_used = None, ct_backend_used = None, ct_model_used = None,
     ct_claimed_by = None, ct_lease_expires_at = None, ct_attempt_count = 0,
     ct_max_attempts = chat_turn_max_attempts cfg, ct_cancel_requested_at = None,
     ct_cancelled_by = None, ct_error_code = None, ct_error_message = None,
     ct_queued_at = ce_now env, ct_claimed_at = None, ct_started_at = None,
     ct_completed_at = None, ct_updated_at = ce_now env, ct_execution_context = Some c,
     ct_result = (if rq_stream rq then Some [(''stream'', JBool True)] else None)\<rparr>"

text \<open>
  The second half of \<open>create_turn\<close>: store the prompt and its queued turn in one transaction.
  The unique constraints are checked by the insert, so a request that lost the race with one
  of the same key reads the winner's turn.
\<close>

text \<open>The session's columns the handler changed, written when the transaction flushes.\<close>

definition flush_session :: "agent_session \<Rightarrow> agent_session \<Rightarrow> agent_session \<Rightarrow> agent_session" where
  "flush_session s s' r =
    r\<lparr>as_status := (if as_status s' = as_status s then as_status r else as_status s'),
      as_adapter_type := (if as_adapter_type s' = as_adapter_type s then as_adapter_type r
                          else as_adapter_type s'),
      as_model := (if as_model s' = as_model s then as_model r else as_model s'),
      as_llm_connection_id := (if as_llm_connection_id s' = as_llm_connection_id s
                               then as_llm_connection_id r else as_llm_connection_id s')\<rparr>"

definition store_turn ::
  "turn_settings \<Rightarrow> create_env \<Rightarrow> agent_session \<Rightarrow> agent \<Rightarrow> turn_request \<Rightarrow> turn_db \<Rightarrow>
   turn_db \<times> (create_error + (chat_turn \<times> bool))" where
  "store_turn cfg env s a rq db =
    (case admit cfg env s a rq db of
       Inl e \<Rightarrow> (db, Inl e)
     | Inr (s', pinned, c) \<Rightarrow>
         let db1 = db\<lparr>db_sessions := update_where (\<lambda>r. as_id r = as_id s)
                        (flush_session s s') (db_sessions db)\<rparr>
         in case persist_message (ce_now env) (ce_message_id env) (ag_id pinned) (as_company_id s)
                   ''user'' (rq_prompt rq) (as_id s) None 0 None db1 of
              None \<Rightarrow> (db, Inl MessageNotRecorded)
            | Some (db2, m) \<Rightarrow>
                let t = new_turn cfg env s pinned c rq m
                in if \<not> unique_ok (db_turns db2) t then
                     (case find_by_key (as_company_id s) (as_id s) (ct_idempotency_key t)
                             (db_turns db) of
                        None \<Rightarrow> (db, Inl IntegrityConflict)
                      | Some e \<Rightarrow> (count ''duplicate_suppressed'' db, Inr (e, True)))
                   else if rq_record_directive rq \<and> ce_memory_error env \<noteq> None
                   then (db, Inl (MemoryRefused (the (ce_memory_error env))))
                   else
                     let db3 = db2\<lparr>db_turns := db_turns db2 @ [t]\<rparr>;
                         db4 = (if rq_record_directive rq
                                then db3\<lparr>db_directives := db_directives db3 @
                                  [\<lparr>cd_company_id = as_company_id s,
                                    cd_content = take CONTENT_MAX (rq_prompt rq),
                                    cd_recorded_by = ec_principal_id c, cd_session_id = as_id s,
                                    cd_message_id = cm_id m, cd_turn_id = ct_id t\<rparr>]\<rparr>
                                else db3);
                         db5 = audit (turn_audit t ''chat.turn_queued'' ''user''
                                [(''principal'', JText (ec_principal_id c))]) db4;
                         db6 = count ''queued'' db5;
                         db7 = publish (turn_event t [(''seq'', JInt (ct_turn_seq t))]) db6
                     in (publish (message_event t (Some (ct_turn_seq t))) db7, Inr (t, False)))"

definition create_turn ::
  "turn_settings \<Rightarrow> create_env \<Rightarrow> agent_session \<Rightarrow> agent \<Rightarrow> turn_request \<Rightarrow> turn_db \<Rightarrow>
   turn_db \<times> (create_error + (chat_turn \<times> bool))" where
  "create_turn cfg env s a rq db =
    (case rq_key rq of
       Some k \<Rightarrow>
         if k = [] then store_turn cfg env s a rq db
         else (case find_by_key (as_company_id s) (as_id s) k (db_turns db) of
           Some e \<Rightarrow> (count ''duplicate_suppressed'' db, Inr (e, True))
         | None \<Rightarrow> store_turn cfg env s a rq db)
     | None \<Rightarrow> store_turn cfg env s a rq db)"

section \<open>Claim, lease, finalize\<close>

text \<open>The values a conditional UPDATE of a turn is given, per statement.\<close>

definition claim_guard :: "uuid \<Rightarrow> uuid \<times> chat_turn list \<Rightarrow> chat_turn \<Rightarrow> bool" where
  "claim_guard tid a r \<longleftrightarrow> scoped tid (fst a) r \<and> ct_status r = Queued \<and>
     ct_cancel_requested_at r = None \<and> no_turn_ahead (snd a) r"

definition claim_vals :: "time \<Rightarrow> time \<Rightarrow> string \<Rightarrow> uuid \<Rightarrow> chat_turn \<Rightarrow> chat_turn" where
  "claim_vals now lease w e r =
    r\<lparr>ct_status := Claimed, ct_claimed_by := Some w, ct_execution_id := Some e,
      ct_lease_expires_at := Some (now + lease), ct_attempt_count := ct_attempt_count r + 1,
      ct_claimed_at := Some now, ct_started_at := None, ct_updated_at := now\<rparr>"

definition claim ::
  "turn_settings \<Rightarrow> time \<Rightarrow> uuid \<Rightarrow> uuid \<Rightarrow> uuid \<Rightarrow> string \<Rightarrow> turn_db \<Rightarrow> turn_db \<times> chat_turn option" where
  "claim cfg now e tid cid w db =
    (let g = claim_guard tid (cid, db_turns db)
     in if matching g (db_turns db) \<noteq> 1 then (db, None)
        else
          let ts = update_where g (claim_vals now (seconds (chat_turn_lease_seconds cfg)) w e)
                     (db_turns db)
          in case get_turn cid tid ts of
               None \<Rightarrow> (db, None)
             | Some t \<Rightarrow>
                 let db1 = audit (turn_audit t ''chat.turn_claimed'' ''system'' [(''worker'', JStr w)])
                             (db\<lparr>db_turns := ts\<rparr>)
                 in (publish (turn_event t []) (count ''claimed'' db1), Some t))"

text \<open>The guard every write of a worker to its turn carries.\<close>

definition held_by :: "uuid \<Rightarrow> uuid \<times> string \<Rightarrow> chat_turn \<Rightarrow> bool" where
  "held_by tid a r \<longleftrightarrow> scoped tid (fst a) r \<and> ct_claimed_by r = Some (snd a) \<and>
     ct_status r \<in> set ACTIVE_STATUSES"

definition mark_guard :: "uuid \<Rightarrow> uuid \<times> string \<Rightarrow> chat_turn \<Rightarrow> bool" where
  "mark_guard tid a r \<longleftrightarrow> scoped tid (fst a) r \<and> ct_claimed_by r = Some (snd a) \<and>
     ct_status r = Claimed \<and> ct_cancel_requested_at r = None"

definition mark_vals :: "time \<Rightarrow> chat_turn \<Rightarrow> chat_turn" where
  "mark_vals now r = r\<lparr>ct_status := Running, ct_started_at := Some now, ct_updated_at := now\<rparr>"

text \<open>\<open>_mark_running\<close>: the second result is the worker's own copy of the turn.\<close>

definition mark_running ::
  "time \<Rightarrow> chat_turn \<Rightarrow> string \<Rightarrow> turn_db \<Rightarrow> turn_db \<times> chat_turn \<times> bool" where
  "mark_running now t w db =
    (let g = mark_guard (ct_id t) (ct_company_id t, w)
     in if matching g (db_turns db) \<noteq> 1 then (db, t, False)
        else
          let t' = t\<lparr>ct_status := Running, ct_started_at := Some now\<rparr>
          in (audit (turn_audit t' ''chat.turn_started'' ''system'' [(''worker'', JStr w)])
                (db\<lparr>db_turns := update_where g (mark_vals now) (db_turns db)\<rparr>), t', True))"

datatype renewal = Ok | CancelSeen | Lost

definition renew_vals :: "time \<Rightarrow> time \<Rightarrow> chat_turn \<Rightarrow> chat_turn" where
  "renew_vals now lease r = r\<lparr>ct_lease_expires_at := Some (now + lease), ct_updated_at := now\<rparr>"

definition renew ::
  "turn_settings \<Rightarrow> time \<Rightarrow> chat_turn \<Rightarrow> string \<Rightarrow> turn_db \<Rightarrow> turn_db \<times> renewal" where
  "renew cfg now t w db =
    (let g = held_by (ct_id t) (ct_company_id t, w);
         db' = db\<lparr>db_turns := update_where g
                   (renew_vals now (seconds (chat_turn_lease_seconds cfg))) (db_turns db)\<rparr>;
         cancel_at = (case get_turn (ct_company_id t) (ct_id t) (db_turns db') of
                        None \<Rightarrow> None | Some r \<Rightarrow> ct_cancel_requested_at r)
     in (db', if matching g (db_turns db) \<noteq> 1 then Lost
              else if cancel_at \<noteq> None then CancelSeen else Ok))"

text \<open>
  What an execution reports: \<open>finalize\<close>'s keyword arguments. \<open>execution\<close> is the adapter's
  report, a JSON object that holds \<open>execution_id\<close> and, when the adapter reported provenance,
  more keys.
\<close>

record outcome =
  oc_status :: turn_status
  oc_prompt :: string
  oc_text :: "string option"
  oc_model_used :: "string option"
  oc_tokens_used :: int
  oc_execution :: dict
  oc_partial :: bool
  oc_error_code :: "string option"
  oc_error_message :: "string option"
  oc_result :: "dict option"

definition finalize_vals :: "time \<Rightarrow> dict option \<Rightarrow> outcome \<Rightarrow> chat_turn \<Rightarrow> chat_turn" where
  "finalize_vals now held_result oc r =
    r\<lparr>ct_status := oc_status oc, ct_completed_at := Some now, ct_updated_at := now,
      ct_lease_expires_at := None, ct_adapter_used := dict_str (oc_execution oc) ''adapter'',
      ct_backend_used := dict_str (oc_execution oc) ''backend'',
      ct_model_used := oc_model_used oc, ct_error_code := oc_error_code oc,
      ct_error_message := text_or_none (take 2000
        (case oc_error_message oc of None \<Rightarrow> [] | Some m \<Rightarrow> m)),
      ct_result := Some (dict_merge (dict_merge (dict_or_empty held_result)
        (dict_or_empty (oc_result oc))) [(''tokens_used'', JInt (oc_tokens_used oc))])\<rparr>"

definition reply_payload :: "outcome \<Rightarrow> dict option" where
  "reply_payload oc =
    (let payload = (if \<exists>kv \<in> set (oc_execution oc). fst kv \<noteq> ''execution_id''
                    then Some [(''execution'', JDict (oc_execution oc))] else None)
     in if oc_partial oc
        then Some (dict_merge (dict_or_empty payload) [(''partial'', JBool True)])
        else payload)"

text \<open>\<open>_record_chat_audit\<close>: both sides of the turn and its rough spend.\<close>

definition chat_audit :: "chat_turn \<Rightarrow> outcome \<Rightarrow> string \<Rightarrow> turn_db \<Rightarrow> turn_db" where
  "chat_audit t oc text db =
    (let previews = (take 8 (ct_idempotency_key t) \<noteq> ''attempt:'');
         model = JStr (case oc_model_used oc of None \<Rightarrow> [] | Some m \<Rightarrow> m);
         tokens = JInt (oc_tokens_used oc);
         tail = [(''session_id'', JId (ct_session_id t)),
                 (''execution_id'', opt_json JId (ct_execution_id t))];
         sent = \<lparr>au_company_id = ct_company_id t, au_action = ''chat.message_sent'',
            au_actor_type = ''user'', au_actor_id = None, au_resource_type = ''agent'',
            au_resource_id = ct_agent_id t,
            au_details = [if previews then (''prompt_preview'', JStr (take 100 (oc_prompt oc)))
                          else (''prompt_chars'', JInt (int (length (oc_prompt oc)))),
                          (''model'', model), (''tokens'', tokens)] @ tail\<rparr>;
         replied = \<lparr>au_company_id = ct_company_id t, au_action = ''chat.response_generated'',
            au_actor_type = ''agent'', au_actor_id = Some [Uid (ct_agent_id t)],
            au_resource_type = ''chat'', au_resource_id = ct_session_id t,
            au_details = [(''model'', model), (''tokens'', tokens),
                          if previews then (''response_preview'', JStr (take 100 text))
                          else (''response_chars'', JInt (int (length text)))] @ tail\<rparr>;
         db1 = audit replied (audit sent db)
     in if oc_tokens_used oc > 0
        then db1\<lparr>db_spend_calls := db_spend_calls db1 @
               [(ct_company_id t, max 1 (oc_tokens_used oc div 500))]\<rparr>
        else db1)"

datatype finalize_error = ReplyNotStored

definition response_vals :: "uuid \<Rightarrow> chat_turn \<Rightarrow> chat_turn" where
  "response_vals mid r = r\<lparr>ct_response_message_id := Some mid\<rparr>"

text \<open>
  \<open>finalize\<close>: \<open>Inl\<close> is the exception, which rolls the whole transaction back; \<open>Inr None\<close> is
  the discarded result of a worker that no longer holds the turn.
\<close>

definition finalize ::
  "time \<Rightarrow> uuid \<Rightarrow> chat_turn \<Rightarrow> string \<Rightarrow> outcome \<Rightarrow> turn_db \<Rightarrow>
   turn_db \<times> (finalize_error + chat_turn option)" where
  "finalize now mid t w oc db =
    (let g = held_by (ct_id t) (ct_company_id t, w)
     in if matching g (db_turns db) \<noteq> 1 then (count ''result_discarded'' db, Inr None)
        else
          let db1 = db\<lparr>db_turns := update_where g (finalize_vals now (ct_result t) oc) (db_turns db)\<rparr>;
              stored = (case oc_text oc of
                 None \<Rightarrow> Some (db1, None)
               | Some text \<Rightarrow>
                   (case persist_message now mid (ct_agent_id t) (ct_company_id t) ''agent'' text
                          (ct_session_id t) (oc_model_used oc) (oc_tokens_used oc)
                          (reply_payload oc) db1 of
                      None \<Rightarrow> None
                    | Some (db2, m) \<Rightarrow>
                        Some (db2\<lparr>db_turns := update_where (scoped (ct_id t) (ct_company_id t))
                                   (response_vals (cm_id m)) (db_turns db2)\<rparr>, Some m)))
          in case stored of
               None \<Rightarrow> (db, Inl ReplyNotStored)
             | Some (db3, reply) \<Rightarrow>
                 (case get_turn (ct_company_id t) (ct_id t) (db_turns db3) of
                    None \<Rightarrow> (db, Inl ReplyNotStored)
                  | Some fresh \<Rightarrow>
                      let db4 = (case oc_text oc of
                                   Some text \<Rightarrow> if oc_status oc = Completed
                                                then chat_audit t oc text db3 else db3
                                 | None \<Rightarrow> db3);
                          db5 = audit (turn_audit fresh (''chat.turn_'' @ status_text (oc_status oc))
                                  (if oc_status oc = Completed then ''agent'' else ''system'')
                                  [(''error_code'', opt_json JStr (oc_error_code oc)),
                                   (''adapter'', opt_json JStr (dict_str (oc_execution oc) ''adapter'')),
                                   (''backend'', opt_json JStr (dict_str (oc_execution oc) ''backend''))])
                                  db4;
                          db6 = count (status_text (oc_status oc)) db5;
                          seq = (case reply of None \<Rightarrow> None | Some m \<Rightarrow> cm_seq m);
                          db7 = publish (turn_event fresh [(''seq'', opt_json JInt seq)]) db6;
                          db8 = (case reply of None \<Rightarrow> db7
                                 | Some m \<Rightarrow> publish (message_event t (cm_seq m)) db7)
                      in (db8, Inr (Some fresh))))"

definition release_vals :: "time \<Rightarrow> chat_turn \<Rightarrow> chat_turn" where
  "release_vals now r = r\<lparr>ct_status := Queued, ct_claimed_by := None,
     ct_lease_expires_at := None, ct_updated_at := now\<rparr>"

definition release :: "time \<Rightarrow> chat_turn \<Rightarrow> string \<Rightarrow> string \<Rightarrow> turn_db \<Rightarrow> turn_db \<times> bool" where
  "release now t w reason db =
    (let g = held_by (ct_id t) (ct_company_id t, w)
     in if matching g (db_turns db) \<noteq> 1 then (db, False)
        else (count ''recovered''
                (audit (turn_audit t ''chat.turn_recovered'' ''system''
                          [(''reason'', JStr reason), (''worker'', JStr w)])
                   (db\<lparr>db_turns := update_where g (release_vals now) (db_turns db)\<rparr>)), True))"

section \<open>Cancellation\<close>

datatype cancel_error = TurnNotFound uuid

definition queued_guard :: "uuid \<Rightarrow> uuid \<Rightarrow> chat_turn \<Rightarrow> bool" where
  "queued_guard tid cid r \<longleftrightarrow> scoped tid cid r \<and> ct_status r = Queued"

definition cancel_vals :: "time \<Rightarrow> string \<Rightarrow> chat_turn \<Rightarrow> chat_turn" where
  "cancel_vals now who r = r\<lparr>ct_status := Cancelled, ct_cancel_requested_at := Some now,
     ct_cancelled_by := Some who, ct_completed_at := Some now, ct_updated_at := now,
     ct_error_code := Some ''CANCELLED''\<rparr>"

definition flag_guard :: "uuid \<Rightarrow> uuid \<Rightarrow> chat_turn \<Rightarrow> bool" where
  "flag_guard tid cid r \<longleftrightarrow> scoped tid cid r \<and> ct_status r \<in> set ACTIVE_STATUSES \<and>
     ct_cancel_requested_at r = None"

definition flag_vals :: "time \<Rightarrow> string \<Rightarrow> chat_turn \<Rightarrow> chat_turn" where
  "flag_vals now who r = r\<lparr>ct_cancel_requested_at := Some now, ct_cancelled_by := Some who,
     ct_updated_at := now\<rparr>"

text \<open>The two UPDATEs: the second runs only when the first changed nothing.\<close>

definition cancel_rows :: "time \<Rightarrow> uuid \<Rightarrow> uuid \<Rightarrow> string \<Rightarrow> chat_turn list \<Rightarrow> chat_turn list" where
  "cancel_rows now cid tid who ts =
    (if matching (queued_guard tid cid) ts = 1
     then update_where (queued_guard tid cid) (cancel_vals now who) ts
     else update_where (flag_guard tid cid) (flag_vals now who) ts)"

text \<open>What is audited, counted and announced for the row \<open>t\<close> as it now stands.\<close>

definition cancel_announce :: "string \<Rightarrow> chat_turn \<Rightarrow> turn_db \<Rightarrow> turn_db" where
  "cancel_announce who t db =
    (let db1 = audit (turn_audit t ''chat.turn_cancel_requested'' ''user''
                 [(''cancelled_by'', JStr who)]) db;
         db2 = (if ct_status t = Cancelled
                then count ''cancelled'' (audit (turn_audit t ''chat.turn_cancelled'' ''system'' []) db1)
                else db1\<lparr>db_cancel_hints := db_cancel_hints db1 @ [ct_id t]\<rparr>)
     in publish (turn_event t []) db2)"

definition request_cancel ::
  "time \<Rightarrow> uuid \<Rightarrow> uuid \<Rightarrow> uuid \<Rightarrow> string \<Rightarrow> turn_db \<Rightarrow> turn_db \<times> (cancel_error + chat_turn)" where
  "request_cancel now cid sid tid who db =
    (case get_turn cid tid (db_turns db) of
       None \<Rightarrow> (db, Inl (TurnNotFound tid))
     | Some t0 \<Rightarrow>
         if ct_session_id t0 \<noteq> sid then (db, Inl (TurnNotFound tid))
         else if ct_status t0 \<in> set TERMINAL_STATUSES then (db, Inr t0)
         else
           let ts = cancel_rows now cid tid who (db_turns db)
           in case get_turn cid tid ts of
                None \<Rightarrow> (db, Inl (TurnNotFound tid))
              | Some t \<Rightarrow> (cancel_announce who t (db\<lparr>db_turns := ts\<rparr>), Inr t))"

section \<open>Recovery\<close>

datatype recovery = RCompleted | RCancelled | RRecovered | RFailed | RSkipped

fun recovery_text :: "recovery \<Rightarrow> string" where
  "recovery_text RCompleted = ''completed''"
| "recovery_text RCancelled = ''cancelled''"
| "recovery_text RRecovered = ''recovered''"
| "recovery_text RFailed = ''failed''"
| "recovery_text RSkipped = ''skipped''"

text \<open>What the sweep decides from the row it read.\<close>

definition recover_plan :: "chat_turn \<Rightarrow> recovery" where
  "recover_plan t =
    (if ct_response_message_id t \<noteq> None then RCompleted
     else if ct_cancel_requested_at t \<noteq> None then RCancelled
     else if ct_attempt_count t < ct_max_attempts t then RRecovered
     else RFailed)"

text \<open>The values written for that decision; the attempt number in the message is the row read.\<close>

definition recover_vals :: "time \<Rightarrow> chat_turn \<Rightarrow> chat_turn \<Rightarrow> chat_turn" where
  "recover_vals now t r =
    (let r' = r\<lparr>ct_lease_expires_at := None, ct_updated_at := now\<rparr>
     in case recover_plan t of
          RCompleted \<Rightarrow> r'\<lparr>ct_status := Completed, ct_completed_at := Some now\<rparr>
        | RCancelled \<Rightarrow> r'\<lparr>ct_status := Cancelled, ct_completed_at := Some now,
                           ct_error_code := Some ''CANCELLED''\<rparr>
        | RRecovered \<Rightarrow> r'\<lparr>ct_status := Queued, ct_claimed_by := None\<rparr>
        | RFailed \<Rightarrow> r'\<lparr>ct_status := Failed, ct_completed_at := Some now,
                        ct_error_code := Some ''ATTEMPTS_EXHAUSTED'',
                        ct_error_message := Some (''Lease expired on each of '' @
                          show_int (ct_attempt_count t) @ '' attempts'')\<rparr>
        | RSkipped \<Rightarrow> r')"

definition lease_lapsed :: "time \<Rightarrow> chat_turn \<Rightarrow> bool" where
  "lease_lapsed now r \<longleftrightarrow>
    (case ct_lease_expires_at r of None \<Rightarrow> False | Some l \<Rightarrow> l < now)"

definition recover_guard :: "uuid \<Rightarrow> uuid \<times> time \<Rightarrow> chat_turn \<Rightarrow> bool" where
  "recover_guard tid a r \<longleftrightarrow> scoped tid (fst a) r \<and> ct_status r \<in> set ACTIVE_STATUSES \<and>
     lease_lapsed (snd a) r"

definition failed_notice :: "chat_turn \<Rightarrow> turn_notification" where
  "failed_notice t =
    \<lparr>tn_company_id = ct_company_id t, tn_agent_id = ct_agent_id t,
     tn_title = ''Employee chat turn needs help'',
     tn_description = ''A chat turn stopped responding '' @ show_int (ct_attempt_count t) @
       '' times and was not retried again.'',
     tn_type = ''error'', tn_module = ''agents'', tn_priority = ''high'',
     tn_metadata = [(''turn_id'', JId (ct_id t)), (''session_id'', JId (ct_session_id t)),
       (''execution_id'', opt_json JId (ct_execution_id t)),
       (''error_code'', JStr ''ATTEMPTS_EXHAUSTED'')]\<rparr>"

definition recover :: "time \<Rightarrow> chat_turn \<Rightarrow> turn_db \<Rightarrow> turn_db \<times> recovery" where
  "recover now t db =
    (let g = recover_guard (ct_id t) (ct_company_id t, now);
         event = recover_plan t
     in if matching g (db_turns db) \<noteq> 1 then (db, RSkipped)
        else
          let ts = update_where g (recover_vals now t) (db_turns db)
          in case get_turn (ct_company_id t) (ct_id t) ts of
               None \<Rightarrow> (db, RSkipped)
             | Some t' \<Rightarrow>
                 let db1 = audit (turn_audit t'
                        (if event = RRecovered then ''chat.turn_recovered''
                         else ''chat.turn_'' @ recovery_text event) ''system''
                        [(''reason'', JStr ''lease_expired''),
                         (''previous_worker'', opt_json JStr (ct_claimed_by t))])
                        (db\<lparr>db_turns := ts\<rparr>);
                     db2 = (if event = RFailed
                            then db1\<lparr>db_notifications := db_notifications db1 @ [failed_notice t']\<rparr>
                            else db1);
                     db3 = count (recovery_text event) (count ''lease_expired'' db2)
                 in (publish (turn_event t' []) db3, event))"

definition BATCH :: nat where
  "BATCH = 50"

definition expired_turns :: "uuid \<Rightarrow> time \<Rightarrow> chat_turn list \<Rightarrow> chat_turn list" where
  "expired_turns cid now ts = take BATCH
    (filter (\<lambda>r. ct_company_id r = cid \<and> ct_status r \<in> set ACTIVE_STATUSES \<and> lease_lapsed now r) ts)"

definition stale_turns :: "turn_settings \<Rightarrow> uuid \<Rightarrow> time \<Rightarrow> chat_turn list \<Rightarrow> chat_turn list" where
  "stale_turns cfg cid now ts = take BATCH
    (filter (\<lambda>r. ct_company_id r = cid \<and> ct_status r = Queued \<and>
       ct_queued_at r < now - seconds (chat_turn_queue_ttl_seconds cfg)) ts)"

definition expire_vals :: "time \<Rightarrow> chat_turn \<Rightarrow> chat_turn" where
  "expire_vals now r = r\<lparr>ct_status := Expired, ct_completed_at := Some now, ct_updated_at := now,
     ct_error_code := Some ''QUEUE_TTL_EXPIRED''\<rparr>"

definition expire_stale :: "time \<Rightarrow> chat_turn \<Rightarrow> turn_db \<Rightarrow> turn_db \<times> bool" where
  "expire_stale now t db =
    (let g = queued_guard (ct_id t) (ct_company_id t)
     in if matching g (db_turns db) \<noteq> 1 then (db, False)
        else
          let ts = update_where g (expire_vals now) (db_turns db)
          in case get_turn (ct_company_id t) (ct_id t) ts of
               None \<Rightarrow> (db, False)
             | Some t' \<Rightarrow>
                 let db1 = audit (turn_audit t' ''chat.turn_expired'' ''system''
                              [(''reason'', JStr ''queue_ttl'')]) (db\<lparr>db_turns := ts\<rparr>)
                 in (publish (turn_event t' []) (count ''expired'' db1), True))"

fun recover_each :: "time \<Rightarrow> chat_turn list \<Rightarrow> turn_db \<Rightarrow> turn_db \<times> string list" where
  "recover_each now [] db = (db, [])"
| "recover_each now (t # ts) db =
    (let (db1, e) = recover now t db; (db2, es) = recover_each now ts db1
     in (db2, recovery_text e # es))"

fun expire_each :: "time \<Rightarrow> chat_turn list \<Rightarrow> turn_db \<Rightarrow> turn_db \<times> string list" where
  "expire_each now [] db = (db, [])"
| "expire_each now (t # ts) db =
    (let (db1, hit) = expire_stale now t db; (db2, es) = expire_each now ts db1
     in (db2, if hit then ''expired'' # es else es))"

text \<open>One pass over a tenant: both lists are read first, then worked through in order.\<close>

definition recover_company ::
  "turn_settings \<Rightarrow> uuid \<Rightarrow> time \<Rightarrow> turn_db \<Rightarrow> turn_db \<times> string list" where
  "recover_company cfg cid now db =
    (let expired = expired_turns cid now (db_turns db);
         stale = stale_turns cfg cid now (db_turns db);
         (db1, es) = recover_each now expired db;
         (db2, fs) = expire_each now stale db1
     in (db2, es @ fs))"

section \<open>Running a turn\<close>

text \<open>\<open>_candidates\<close> for one company: claimable turns, oldest first.\<close>

definition candidates :: "uuid \<Rightarrow> chat_turn list \<Rightarrow> (uuid \<times> uuid) list" where
  "candidates cid ts = map (\<lambda>t. (ct_id t, ct_company_id t)) (take BATCH
     (sort_key ct_queued_at (filter (\<lambda>t. ct_company_id t = cid \<and> ct_status t = Queued \<and>
        ct_cancel_requested_at t = None \<and> no_turn_ahead ts t) ts)))"

text \<open>What an execution can raise, and \<open>_failure\<close>'s columns for it.\<close>

datatype exec_exception =
    HTTPException int http_detail
  | BudgetInfraUnavailable
  | BudgetExceededError
  | OtherException

definition PROVIDER_UNAVAILABLE_MESSAGE :: string where
  "PROVIDER_UNAVAILABLE_MESSAGE =
    ''I'' @ [CHR 0x27] @ ''m unable to reach the configured model provider right now. Please try again.''"

definition detail_json :: "http_detail \<Rightarrow> json" where
  "detail_json d = (case d of DText s \<Rightarrow> JStr s | DDict kv \<Rightarrow> JDict kv)"

record failure =
  fl_error_code :: string
  fl_error_message :: "string option"
  fl_result :: dict

definition failure_of :: "exec_exception \<Rightarrow> failure" where
  "failure_of e =
    (case e of
       HTTPException st d \<Rightarrow>
         \<lparr>fl_error_code =
            (let code = (case d of DDict kv \<Rightarrow> dict_str kv ''code'' | DText _ \<Rightarrow> None)
             in case code of Some c \<Rightarrow> (if c = [] then ''HTTP_'' @ show_int st else c)
                | None \<Rightarrow> ''HTTP_'' @ show_int st),
          fl_error_message =
            (case d of DDict kv \<Rightarrow> dict_str kv ''message'' | DText s \<Rightarrow> Some s),
          fl_result = [(''http_status'', JInt st), (''detail'', detail_json d)]\<rparr>
     | BudgetInfraUnavailable \<Rightarrow>
         \<lparr>fl_error_code = ''BUDGET_UNAVAILABLE'',
          fl_error_message = Some ''Budget ledger unavailable; the call was refused'',
          fl_result = [(''http_status'', JInt 503)]\<rparr>
     | BudgetExceededError \<Rightarrow>
         \<lparr>fl_error_code = ''BUDGET_EXCEEDED'',
          fl_error_message = Some ''Budget cap reached; the call never reached the provider'',
          fl_result = [(''http_status'', JInt 429)]\<rparr>
     | OtherException \<Rightarrow>
         \<lparr>fl_error_code = ''EXECUTION_ERROR'',
          fl_error_message = Some PROVIDER_UNAVAILABLE_MESSAGE,
          fl_result = [(''http_status'', JInt 500)]\<rparr>)"

text \<open>How the supervised call ended, and the arguments \<open>_execute\<close> finalizes with.\<close>

datatype call_end =
    Done string "string option" int
  | CallCancelled "string list"
  | CallError exec_exception
  | CallLost

definition outcome_of_call :: "string \<Rightarrow> dict \<Rightarrow> call_end \<Rightarrow> outcome option" where
  "outcome_of_call prompt execution c =
    (case c of
       Done text model tokens \<Rightarrow> Some
         \<lparr>oc_status = Completed, oc_prompt = prompt, oc_text = Some text, oc_model_used = model,
          oc_tokens_used = tokens, oc_execution = execution, oc_partial = False,
          oc_error_code = None, oc_error_message = None, oc_result = None\<rparr>
     | CallCancelled chunks \<Rightarrow> Some
         \<lparr>oc_status = Cancelled, oc_prompt = prompt, oc_text = text_or_none (concat chunks),
          oc_model_used = None, oc_tokens_used = 0, oc_execution = execution, oc_partial = True,
          oc_error_code = Some ''CANCELLED'', oc_error_message = Some ''Cancelled by request'',
          oc_result = None\<rparr>
     | CallError e \<Rightarrow> Some
         \<lparr>oc_status = Failed, oc_prompt = prompt, oc_text = None, oc_model_used = None,
          oc_tokens_used = 0, oc_execution = execution, oc_partial = False,
          oc_error_code = Some (fl_error_code (failure_of e)),
          oc_error_message = fl_error_message (failure_of e),
          oc_result = Some (fl_result (failure_of e))\<rparr>
     | CallLost \<Rightarrow> None)"

text \<open>The outcome of a turn whose cancel request was seen before it could start.\<close>

definition cancelled_outcome :: "string \<Rightarrow> outcome" where
  "cancelled_outcome prompt =
    \<lparr>oc_status = Cancelled, oc_prompt = prompt, oc_text = None, oc_model_used = None,
     oc_tokens_used = 0, oc_execution = [], oc_partial = False,
     oc_error_code = Some ''CANCELLED'', oc_error_message = None, oc_result = None\<rparr>"

text \<open>
  The first transaction of \<open>_execute\<close>: read the session, the agent and the prompt, wake the
  session, and mark the turn running. \<open>be_error_text\<close> is the wording of a refused session turn
  and \<open>be_prompt_error\<close> what building the system prompt raised; neither is modelled further.
  A failure rolls the transaction back; a turn that could not be marked still commits the
  session's wake-up.
\<close>

record begin_env =
  be_now :: time
  be_connections :: "llm_connection list"
  be_agents :: "agent list"
  be_error_text :: "session_error \<Rightarrow> string"
  be_prompt_error :: "exec_exception option"

datatype begun =
    Started chat_turn agent string
  | NotStarted string
  | BeginFailed string exec_exception

definition load_agent :: "agent list \<Rightarrow> uuid \<Rightarrow> uuid \<Rightarrow> exec_exception + agent" where
  "load_agent agents aid cid =
    (case find (\<lambda>a. ag_id a = aid \<and> ag_company_id a = cid) agents of
       None \<Rightarrow> Inl (HTTPException 404 (DText (''Agent '' @ show_nat aid @ '' not found'')))
     | Some a \<Rightarrow> Inr a)"

text \<open>What it reads, in order; \<open>Inl\<close> is the prompt known so far and the exception.\<close>

definition begin_reads :: "begin_env \<Rightarrow> chat_turn \<Rightarrow> turn_db \<Rightarrow>
    (string \<times> exec_exception) + (agent_session \<times> agent_session \<times> agent \<times> string)" where
  "begin_reads env t db =
    (case find (\<lambda>s. as_id s = ct_session_id t \<and> as_company_id s = ct_company_id t)
            (db_sessions db) of
       None \<Rightarrow> Inl ([], OtherException)
     | Some s \<Rightarrow>
       (case load_agent (be_agents env) (ct_agent_id t) (ct_company_id t) of
          Inl e \<Rightarrow> Inl ([], e)
        | Inr a0 \<Rightarrow>
          (case begin_session_turn (be_now env) (be_connections env) s a0 of
             Inl e \<Rightarrow> Inl ([], HTTPException 409 (DText (be_error_text env e)))
           | Inr (s', a) \<Rightarrow>
             (case find (\<lambda>m. Some (cm_id m) = ct_prompt_message_id t \<and>
                      cm_company_id m = ct_company_id t) (db_messages db) of
                None \<Rightarrow> Inl ([], OtherException)
              | Some m \<Rightarrow>
                (case be_prompt_error env of
                   Some e \<Rightarrow> Inl (cm_text m, e)
                 | None \<Rightarrow> Inr (s, s', a, cm_text m))))))"

definition execute_begin :: "begin_env \<Rightarrow> chat_turn \<Rightarrow> string \<Rightarrow> turn_db \<Rightarrow> turn_db \<times> begun" where
  "execute_begin env t w db =
    (case begin_reads env t db of
       Inl (prompt, e) \<Rightarrow> (db, BeginFailed prompt e)
     | Inr (s, s', a, prompt) \<Rightarrow>
         (case mark_running (be_now env) t w
                 (db\<lparr>db_sessions := update_where (\<lambda>r. as_id r = as_id s)
                      (flush_session s s') (db_sessions db)\<rparr>) of
            (db', t', running) \<Rightarrow>
              if running then (publish (turn_event t' []) db', Started t' a prompt)
              else (db', NotStarted prompt)))"

section \<open>What the client sees\<close>

definition session_history ::
  "uuid \<Rightarrow> uuid \<Rightarrow> int option \<Rightarrow> nat \<Rightarrow> turn_db \<Rightarrow> (string \<times> string) list" where
  "session_history cid sid before_seq limit db =
    (let replied = (\<lambda>m. find (\<lambda>t. ct_response_message_id t = Some (cm_id m) \<and>
                          ct_company_id t = cid \<and> ct_session_id t = sid) (db_turns db));
         seq = (\<lambda>m. case cm_seq m of None \<Rightarrow> 0 | Some n \<Rightarrow> n);
         place = (\<lambda>m. case replied m of None \<Rightarrow> seq m | Some t \<Rightarrow> ct_turn_seq t);
         rows = filter (\<lambda>m. cm_company_id m = cid \<and> cm_session_id m = Some sid \<and>
                  cm_kind m = ''message'' \<and>
                  (case before_seq of None \<Rightarrow> True | Some b \<Rightarrow> place m < b)) (db_messages db);
         ordered = sort_key (\<lambda>m. - place m) (sort_key (\<lambda>m. - seq m) rows)
     in map (\<lambda>m. (cm_sender m, cm_text m)) (rev (take limit ordered)))"

text \<open>The HTTP error a finished turn amounts to; \<open>None\<close> when it completed.\<close>

definition dict_int :: "dict \<Rightarrow> string \<Rightarrow> int \<Rightarrow> int" where
  "dict_int d k n = (case map_of d k of Some (JInt i) \<Rightarrow> i | _ \<Rightarrow> n)"

definition raise_for_outcome :: "chat_turn \<Rightarrow> (int \<times> json) option" where
  "raise_for_outcome t =
    (if ct_status t = Completed then None
     else if ct_status t = Failed then
       let result = dict_or_empty (ct_result t);
           fallback = JDict [(''code'', opt_json JStr (ct_error_code t)),
                             (''message'', opt_json JStr (ct_error_message t))];
           detail = (case map_of result ''detail'' of
                       None \<Rightarrow> fallback | Some JNull \<Rightarrow> fallback | Some (JStr s) \<Rightarrow>
                         (if s = [] then fallback else JStr s)
                     | Some (JDict d) \<Rightarrow> (if d = [] then fallback else JDict d) | Some d \<Rightarrow> d);
           detail' = (case detail of JDict d \<Rightarrow>
                        JDict (dict_merge d [(''turn_id'', JId (ct_id t))]) | d \<Rightarrow> d)
       in Some (dict_int result ''http_status'' 500, detail')
     else Some (409, JDict
       [(''code'', JStr (if ct_status t = Cancelled then ''TURN_CANCELLED'' else ''TURN_EXPIRED'')),
        (''message'', JStr (''The turn was '' @ status_text (ct_status t))),
        (''turn_id'', JId (ct_id t))]))"

section \<open>Row lemmas\<close>

text \<open>
  Each conditional UPDATE meets the contract \<open>pk_update\<close>; each handler then either leaves the
  table of turns alone or rewrites the one row its guard admits.
\<close>

lemmas guard_defs = claim_guard_def held_by_def mark_guard_def queued_guard_def flag_guard_def
  recover_guard_def scoped_def

lemmas vals_defs = claim_vals_def mark_vals_def renew_vals_def finalize_vals_def release_vals_def
  cancel_vals_def flag_vals_def recover_vals_def expire_vals_def response_vals_def

lemma recover_vals_simps [simp]:
  "ct_id (recover_vals now t r) = ct_id r"
  "ct_company_id (recover_vals now t r) = ct_company_id r"
  "ct_session_id (recover_vals now t r) = ct_session_id r"
  "ct_turn_seq (recover_vals now t r) = ct_turn_seq r"
  "ct_agent_id (recover_vals now t r) = ct_agent_id r"
  "ct_idempotency_key (recover_vals now t r) = ct_idempotency_key r"
  "ct_attempt_count (recover_vals now t r) = ct_attempt_count r"
  "ct_execution_id (recover_vals now t r) = ct_execution_id r"
  "ct_response_message_id (recover_vals now t r) = ct_response_message_id r"
  "ct_lease_expires_at (recover_vals now t r) = None"
  by (simp_all add: recover_vals_def Let_def split: recovery.split)

interpretation claim_upd: pk_update ct_id claim_guard "\<lambda>_. claim_vals now lease w e"
  for now lease w e
  by unfold_locales (auto simp: guard_defs vals_defs)

interpretation mark_upd: pk_update ct_id mark_guard "\<lambda>_. mark_vals now" for now
  by unfold_locales (auto simp: guard_defs vals_defs)

interpretation renew_upd: pk_update ct_id held_by "\<lambda>_. renew_vals now lease" for now lease
  by unfold_locales (auto simp: guard_defs vals_defs)

interpretation finalize_upd: pk_update ct_id held_by "\<lambda>_. finalize_vals now res oc" for now res oc
  by unfold_locales (auto simp: guard_defs vals_defs)

interpretation release_upd: pk_update ct_id held_by "\<lambda>_. release_vals now" for now
  by unfold_locales (auto simp: guard_defs vals_defs)

interpretation cancel_upd: pk_update ct_id queued_guard "\<lambda>_. cancel_vals now who" for now who
  by unfold_locales (auto simp: guard_defs vals_defs)

interpretation flag_upd: pk_update ct_id flag_guard "\<lambda>_. flag_vals now who" for now who
  by unfold_locales (auto simp: guard_defs vals_defs)

interpretation recover_upd: pk_update ct_id recover_guard "\<lambda>_. recover_vals now t" for now t
  by unfold_locales (auto simp: guard_defs)

interpretation expire_upd: pk_update ct_id queued_guard "\<lambda>_. expire_vals now" for now
  by unfold_locales (auto simp: guard_defs vals_defs)

interpretation response_upd: pk_update ct_id "\<lambda>tid cid. scoped tid cid" "\<lambda>_. response_vals mid"
  for mid
  by unfold_locales (auto simp: guard_defs vals_defs)

end
