(* ===== verification/Turn_Rows.thy ===== *)
theory Turn_Rows
  imports Chat_Turns
begin

text \<open>
  What each handler of \<open>Chat_Turns\<close> does to the table of turns: one case rule per handler, with
  a case for every branch. A handler either leaves the turns alone or rewrites exactly the row
  its guard admits (\<open>replaced\<close>); the frame of the other tables is part of the rule.
\<close>

lemma log_frame [simp]:
  "db_turns (audit a db) = db_turns db" "db_messages (audit a db) = db_messages db"
  "db_sessions (audit a db) = db_sessions db"
  "db_turns (count e db) = db_turns db" "db_messages (count e db) = db_messages db"
  "db_sessions (count e db) = db_sessions db"
  "db_turns (publish v db) = db_turns db" "db_messages (publish v db) = db_messages db"
  "db_sessions (publish v db) = db_sessions db"
  by (simp_all add: audit_def count_def publish_def)

lemma chat_audit_frame [simp]:
  "db_turns (chat_audit t oc text db) = db_turns db"
  "db_messages (chat_audit t oc text db) = db_messages db"
  "db_sessions (chat_audit t oc text db) = db_sessions db"
  by (simp_all add: chat_audit_def Let_def)

lemma get_turn_SomeD: "get_turn cid tid ts = Some r \<Longrightarrow> r \<in> set ts \<and> scoped tid cid r"
  by (auto simp: get_turn_def find_Some_iff)

lemma get_turn_None: "get_turn cid tid ts = None \<Longrightarrow> r \<in> set ts \<Longrightarrow> \<not> scoped tid cid r"
  by (auto simp: get_turn_def find_None_iff)

lemma get_turn_in:
  assumes d: "distinct (map ct_id ts)" and r: "r \<in> set ts" "scoped tid cid r"
  shows "get_turn cid tid ts = Some r"
proof (cases "get_turn cid tid ts")
  case None
  then show ?thesis using r by (auto simp: get_turn_def find_None_iff)
next
  case (Some s)
  with same_key_same_row [OF d, of s r] r show ?thesis
    by (auto dest!: get_turn_SomeD simp: scoped_def)
qed

text \<open>Reading back the row a conditional UPDATE just wrote.\<close>

lemma get_turn_replaced:
  assumes d: "distinct (map ct_id ts)" and r: "replaced ct_id old new ts ts'"
    and s: "scoped tid cid new"
  shows "get_turn cid tid ts' = Some new"
  using assms by (intro get_turn_in) (auto simp: replaced_def)

section \<open>Claim, mark, renew, release\<close>

lemma claim_cases:
  assumes c: "claim cfg now e tid cid w db = (db', res)" and d: "distinct (map ct_id (db_turns db))"
  obtains (miss) "res = None" "db' = db" "\<forall>r \<in> set (db_turns db). \<not> claim_guard tid (cid, db_turns db) r"
  | (hit) old new where "claim_guard tid (cid, db_turns db) old"
      "new = claim_vals now (seconds (chat_turn_lease_seconds cfg)) w e old" "res = Some new"
      "replaced ct_id old new (db_turns db) (db_turns db')"
      "db_messages db' = db_messages db" "db_sessions db' = db_sessions db"
proof (cases "matching (claim_guard tid (cid, db_turns db)) (db_turns db) = 1")
  case True
  let ?v = "claim_vals now (seconds (chat_turn_lease_seconds cfg)) w e"
  let ?ts = "update_where (claim_guard tid (cid, db_turns db)) ?v (db_turns db)"
  obtain old where g: "claim_guard tid (cid, db_turns db) old"
    and r: "replaced ct_id old (?v old) (db_turns db) ?ts"
    using claim_upd.hit_replaces [OF d True] by blast
  have "get_turn cid tid ?ts = Some (?v old)"
    using get_turn_replaced [OF d r] g by (simp add: guard_defs vals_defs)
  with c True g r show ?thesis
    by (intro hit [of old "?v old"]) (auto simp: claim_def Let_def)
next
  case False
  then have "matching (claim_guard tid (cid, db_turns db)) (db_turns db) = 0"
    using claim_upd.rowcount_le_one [OF d, of tid "(cid, db_turns db)"] by simp
  with c False show ?thesis by (intro miss) (auto simp: claim_def Let_def matching_0_iff)
qed

lemma mark_cases:
  assumes c: "mark_running now t w db = (db', t', b)" and d: "distinct (map ct_id (db_turns db))"
  obtains (miss) "\<not> b" "t' = t" "db' = db"
  | (hit) old where "b" "t' = t\<lparr>ct_status := Running, ct_started_at := Some now\<rparr>"
      "mark_guard (ct_id t) (ct_company_id t, w) old"
      "replaced ct_id old (mark_vals now old) (db_turns db) (db_turns db')"
      "db_messages db' = db_messages db" "db_sessions db' = db_sessions db"
proof (cases "matching (mark_guard (ct_id t) (ct_company_id t, w)) (db_turns db) = 1")
  case True
  then obtain old where g: "mark_guard (ct_id t) (ct_company_id t, w) old"
    and r: "replaced ct_id old (mark_vals now old) (db_turns db)
      (update_where (mark_guard (ct_id t) (ct_company_id t, w)) (mark_vals now) (db_turns db))"
    using mark_upd.hit_replaces [OF d] by blast
  with c True show ?thesis by (intro hit [of old]) (auto simp: mark_running_def Let_def)
next
  case False
  with c show ?thesis by (intro miss) (auto simp: mark_running_def Let_def)
qed

lemma renew_cases:
  assumes c: "renew cfg now t w db = (db', res)" and d: "distinct (map ct_id (db_turns db))"
  obtains (lost) "res = Lost" "db' = db"
  | (hit) old where "held_by (ct_id t) (ct_company_id t, w) old"
      "replaced ct_id old (renew_vals now (seconds (chat_turn_lease_seconds cfg)) old)
         (db_turns db) (db_turns db')"
      "res = (if ct_cancel_requested_at old \<noteq> None then CancelSeen else Ok)"
      "db_messages db' = db_messages db" "db_sessions db' = db_sessions db"
proof (cases "matching (held_by (ct_id t) (ct_company_id t, w)) (db_turns db) = 1")
  case True
  let ?v = "renew_vals now (seconds (chat_turn_lease_seconds cfg))"
  let ?ts = "update_where (held_by (ct_id t) (ct_company_id t, w)) ?v (db_turns db)"
  obtain old where g: "held_by (ct_id t) (ct_company_id t, w) old"
    and r: "replaced ct_id old (?v old) (db_turns db) ?ts"
    using renew_upd.hit_replaces [OF d True] by blast
  have "get_turn (ct_company_id t) (ct_id t) ?ts = Some (?v old)"
    using get_turn_replaced [OF d r] g by (simp add: guard_defs vals_defs)
  with c True g r show ?thesis
    by (intro hit [of old]) (auto simp: renew_def Let_def renew_vals_def)
next
  case False
  with c renew_upd.miss_unchanged [OF d False] show ?thesis
    by (intro lost) (auto simp: renew_def Let_def)
qed

lemma release_cases:
  assumes c: "release now t w reason db = (db', b)" and d: "distinct (map ct_id (db_turns db))"
  obtains (miss) "\<not> b" "db' = db"
  | (hit) old where "b" "held_by (ct_id t) (ct_company_id t, w) old"
      "replaced ct_id old (release_vals now old) (db_turns db) (db_turns db')"
      "db_messages db' = db_messages db" "db_sessions db' = db_sessions db"
proof (cases "matching (held_by (ct_id t) (ct_company_id t, w)) (db_turns db) = 1")
  case True
  then obtain old where g: "held_by (ct_id t) (ct_company_id t, w) old"
    and r: "replaced ct_id old (release_vals now old) (db_turns db)
      (update_where (held_by (ct_id t) (ct_company_id t, w)) (release_vals now) (db_turns db))"
    using release_upd.hit_replaces [OF d] by blast
  with c True show ?thesis by (intro hit [of old]) (auto simp: release_def Let_def)
next
  case False
  with c show ?thesis by (intro miss) (auto simp: release_def Let_def)
qed

section \<open>Cancellation, recovery and expiry\<close>

lemma cancel_announce_frame [simp]:
  "db_turns (cancel_announce who t db) = db_turns db"
  "db_messages (cancel_announce who t db) = db_messages db"
  "db_sessions (cancel_announce who t db) = db_sessions db"
  by (simp_all add: cancel_announce_def Let_def)

text \<open>The two UPDATEs of a cancel request, on the row \<open>t0\<close> it read as unfinished.\<close>

lemma cancel_rows_cases:
  assumes d: "distinct (map ct_id ts)" and t0: "t0 \<in> set ts" "scoped tid cid t0"
    and nt: "ct_status t0 \<notin> set TERMINAL_STATUSES"
  obtains (queued) "queued_guard tid cid t0"
      "replaced ct_id t0 (cancel_vals now who t0) ts (cancel_rows now cid tid who ts)"
  | (flagged) "flag_guard tid cid t0"
      "replaced ct_id t0 (flag_vals now who t0) ts (cancel_rows now cid tid who ts)"
  | (again) "ct_status t0 \<in> set ACTIVE_STATUSES" "ct_cancel_requested_at t0 \<noteq> None"
      "cancel_rows now cid tid who ts = ts"
proof -
  have row: "row_of ct_id tid ts = Some t0"
    using t0 d by (auto simp: row_of_iff scoped_def)
  have q: "matching (queued_guard tid cid) ts = 1 \<longleftrightarrow> queued_guard tid cid t0"
    and f: "matching (flag_guard tid cid) ts = 1 \<longleftrightarrow> flag_guard tid cid t0"
    using cancel_upd.rowcount_one_iff [OF d] flag_upd.rowcount_one_iff [OF d] row by auto
  have only: "queued_guard tid cid r \<or> flag_guard tid cid r \<Longrightarrow> r \<in> set ts \<Longrightarrow> r = t0" for r
    using t0 same_key_same_row [OF d, of r t0] by (auto simp: guard_defs)
  consider "queued_guard tid cid t0" | "\<not> queued_guard tid cid t0" "flag_guard tid cid t0"
    | "\<not> queued_guard tid cid t0" "\<not> flag_guard tid cid t0" by blast
  then show ?thesis
  proof cases
    case 1
    with q cancel_upd.hit_replaces [OF d, of tid cid now who] only queued show ?thesis
      by (auto simp: cancel_rows_def replaced_def)
  next
    case 2
    with q f flag_upd.hit_replaces [OF d, of tid cid now who] only flagged show ?thesis
      by (auto simp: cancel_rows_def replaced_def)
  next
    case 3
    then have "ct_status t0 \<in> set ACTIVE_STATUSES" "ct_cancel_requested_at t0 \<noteq> None"
      using t0 nt by (cases "ct_status t0";
        simp add: queued_guard_def flag_guard_def ACTIVE_STATUSES_def TERMINAL_STATUSES_def)+
    moreover have "cancel_rows now cid tid who ts = ts"
      using 3 q f flag_upd.miss_unchanged [OF d, of tid cid] by (simp add: cancel_rows_def)
    ultimately show ?thesis by (rule again)
  qed
qed

lemma request_cancel_open:
  assumes d: "distinct (map ct_id (db_turns db))"
    and t0: "t0 \<in> set (db_turns db)" "scoped tid cid t0" "ct_session_id t0 = sid"
      "ct_status t0 \<notin> set TERMINAL_STATUSES"
    and t: "t \<in> set (cancel_rows now cid tid who (db_turns db))" "scoped tid cid t"
    and ids: "map ct_id (cancel_rows now cid tid who (db_turns db)) = map ct_id (db_turns db)"
  shows "request_cancel now cid sid tid who db =
    (cancel_announce who t (db\<lparr>db_turns := cancel_rows now cid tid who (db_turns db)\<rparr>), Inr t)"
  using get_turn_in [OF d t0(1,2)] get_turn_in [OF _ t] d t0 ids
  by (simp add: request_cancel_def)

lemma request_cancel_refused:
  assumes "get_turn cid tid (db_turns db) = None \<or>
    (\<exists>t0. get_turn cid tid (db_turns db) = Some t0 \<and> ct_session_id t0 \<noteq> sid)"
  shows "request_cancel now cid sid tid who db = (db, Inl (TurnNotFound tid))"
  using assms by (auto simp: request_cancel_def)

lemma request_cancel_finished:
  assumes "get_turn cid tid (db_turns db) = Some t0" "ct_session_id t0 = sid"
    "ct_status t0 \<in> set TERMINAL_STATUSES"
  shows "request_cancel now cid sid tid who db = (db, Inr t0)"
  using assms by (simp add: request_cancel_def)

text \<open>All branches of a cancel request, by what happens to the turns.\<close>

lemma request_cancel_cases:
  assumes c: "request_cancel now cid sid tid who db = (db', res)"
    and d: "distinct (map ct_id (db_turns db))"
  obtains (same) "db_turns db' = db_turns db" "db_messages db' = db_messages db"
      "db_sessions db' = db_sessions db"
  | (queued) old where "queued_guard tid cid old"
      "replaced ct_id old (cancel_vals now who old) (db_turns db) (db_turns db')"
      "db_messages db' = db_messages db" "db_sessions db' = db_sessions db"
  | (flagged) old where "flag_guard tid cid old"
      "replaced ct_id old (flag_vals now who old) (db_turns db) (db_turns db')"
      "db_messages db' = db_messages db" "db_sessions db' = db_sessions db"
proof (cases "\<exists>t0. get_turn cid tid (db_turns db) = Some t0 \<and> ct_session_id t0 = sid \<and>
    ct_status t0 \<notin> set TERMINAL_STATUSES")
  case False
  with c have "db' = db"
    by (cases "get_turn cid tid (db_turns db)") (auto simp: request_cancel_def split: if_splits)
  then show ?thesis by (intro same) simp_all
next
  case True
  then obtain t0 where t0: "t0 \<in> set (db_turns db)" "scoped tid cid t0" "ct_session_id t0 = sid"
    "ct_status t0 \<notin> set TERMINAL_STATUSES" by (auto dest: get_turn_SomeD)
  note op = request_cancel_open [OF d t0, of _ now who]
  show ?thesis
  proof (cases rule: cancel_rows_cases [OF d t0(1,2,4), of now who])
    case 1
    then have "request_cancel now cid sid tid who db = (cancel_announce who (cancel_vals now who t0)
        (db\<lparr>db_turns := cancel_rows now cid tid who (db_turns db)\<rparr>), Inr (cancel_vals now who t0))"
      by (intro op) (auto simp: replaced_def queued_guard_def scoped_def cancel_vals_def)
    with c 1 show ?thesis by (intro queued [of t0]) auto
  next
    case 2
    then have "request_cancel now cid sid tid who db = (cancel_announce who (flag_vals now who t0)
        (db\<lparr>db_turns := cancel_rows now cid tid who (db_turns db)\<rparr>), Inr (flag_vals now who t0))"
      by (intro op) (auto simp: replaced_def flag_guard_def scoped_def flag_vals_def)
    with c 2 show ?thesis by (intro flagged [of t0]) auto
  next
    case 3
    then have "request_cancel now cid sid tid who db = (cancel_announce who t0
        (db\<lparr>db_turns := cancel_rows now cid tid who (db_turns db)\<rparr>), Inr t0)"
      using t0 by (intro op) auto
    with c 3 show ?thesis by (intro same) auto
  qed
qed

lemma recover_cases:
  assumes c: "recover now t db = (db', ev)" and d: "distinct (map ct_id (db_turns db))"
  obtains (skipped) "ev = RSkipped" "db' = db"
  | (hit) old where "ev = recover_plan t" "recover_guard (ct_id t) (ct_company_id t, now) old"
      "replaced ct_id old (recover_vals now t old) (db_turns db) (db_turns db')"
      "db_messages db' = db_messages db" "db_sessions db' = db_sessions db"
proof (cases "matching (recover_guard (ct_id t) (ct_company_id t, now)) (db_turns db) = 1")
  case True
  let ?g = "recover_guard (ct_id t) (ct_company_id t, now)"
  let ?ts = "update_where ?g (recover_vals now t) (db_turns db)"
  from recover_upd.hit_replaces [OF d True] obtain old where g: "?g old"
    and r: "replaced ct_id old (recover_vals now t old) (db_turns db) ?ts" by blast
  have "get_turn (ct_company_id t) (ct_id t) ?ts = Some (recover_vals now t old)"
    using get_turn_replaced [OF d r] g by (simp add: guard_defs)
  with c True g r show ?thesis
    by (intro hit [of old]) (auto simp: recover_def Let_def)
next
  case False
  with c show ?thesis by (intro skipped) (auto simp: recover_def Let_def)
qed

lemma expire_cases:
  assumes c: "expire_stale now t db = (db', b)" and d: "distinct (map ct_id (db_turns db))"
  obtains (miss) "\<not> b" "db' = db"
  | (hit) old where "b" "queued_guard (ct_id t) (ct_company_id t) old"
      "replaced ct_id old (expire_vals now old) (db_turns db) (db_turns db')"
      "db_messages db' = db_messages db" "db_sessions db' = db_sessions db"
proof (cases "matching (queued_guard (ct_id t) (ct_company_id t)) (db_turns db) = 1")
  case True
  let ?g = "queued_guard (ct_id t) (ct_company_id t)"
  let ?ts = "update_where ?g (expire_vals now) (db_turns db)"
  from expire_upd.hit_replaces [OF d True] obtain old where g: "?g old"
    and r: "replaced ct_id old (expire_vals now old) (db_turns db) ?ts" by blast
  have "get_turn (ct_company_id t) (ct_id t) ?ts = Some (expire_vals now old)"
    using get_turn_replaced [OF d r] g by (simp add: guard_defs vals_defs)
  with c True g r show ?thesis
    by (intro hit [of old]) (auto simp: expire_stale_def Let_def)
next
  case False
  with c show ?thesis by (intro miss) (auto simp: expire_stale_def Let_def)
qed

section \<open>Messages and creation\<close>

text \<open>No session disappears and no event counter goes back.\<close>

definition sessions_grow :: "agent_session list \<Rightarrow> agent_session list \<Rightarrow> bool" where
  "sessions_grow ss ss' \<longleftrightarrow> (\<forall>k s. row_of as_id k ss = Some s \<longrightarrow>
     (\<exists>s'. row_of as_id k ss' = Some s' \<and> as_event_seq s \<le> as_event_seq s'))"

lemma sessions_grow_refl [simp]: "sessions_grow ss ss"
  by (simp add: sessions_grow_def)

lemma sessions_grow_trans:
  "sessions_grow a b \<Longrightarrow> sessions_grow b c \<Longrightarrow> sessions_grow a c"
  unfolding sessions_grow_def by (meson order_trans)

lemma sessions_grow_seq: "next_seq now sid ss = Some (ss', n) \<Longrightarrow> sessions_grow ss ss'"
  using next_seq_effect(1,3) [of now sid ss ss' n]
  by (fastforce simp: sessions_grow_def)

lemma sessions_grow_flush:
  "sessions_grow ss (update_where (\<lambda>r. as_id r = k) (flush_session s s') ss)"
  by (auto simp: sessions_grow_def row_of_update_where flush_session_def)

lemma persist_message_effect:
  assumes "persist_message now mid agent company sender text sid model tokens payload db
    = Some (db', m)"
  shows "db_turns db' = db_turns db" and "db_messages db' = db_messages db @ [m]"
    and "cm_id m = mid" and "\<forall>r \<in> set (db_messages db). cm_id r \<noteq> mid"
    and "cm_sender m = sender" and "cm_session_id m = Some sid" and "cm_text m = take 10000 text"
    and "cm_company_id m = company"
    and "\<exists>s n. row_of as_id sid (db_sessions db) = Some s \<and> cm_seq m = Some n \<and>
          n = as_event_seq s + 1 \<and>
          (\<exists>s'. row_of as_id sid (db_sessions db') = Some s' \<and> as_event_seq s' = n)"
    and "sessions_grow (db_sessions db) (db_sessions db')"
proof -
  from assms obtain ss n where n: "next_seq now sid (db_sessions db) = Some (ss, n)"
    and m: "m = \<lparr>cm_id = mid, cm_company_id = company, cm_agent_id = agent, cm_sender = sender,
                  cm_text = take 10000 text, cm_model_used = model, cm_tokens_used = tokens,
                  cm_session_id = Some sid, cm_kind = ''message'', cm_seq = Some n,
                  cm_payload = payload, cm_created_at = now\<rparr>"
    and db': "db' = db\<lparr>db_sessions := ss, db_messages := db_messages db @ [m]\<rparr>"
    and fresh: "\<forall>r \<in> set (db_messages db). cm_id r \<noteq> mid"
    by (auto simp: persist_message_def Let_def list_ex_iff split: option.splits if_splits)
  from next_seq_effect(1) [OF n] obtain s where
    s: "row_of as_id sid (db_sessions db) = Some s" "n = as_event_seq s + 1" by blast
  have "row_of as_id sid ss = Some (s\<lparr>as_event_seq := n, as_last_activity_at := now\<rparr>)"
    using next_seq_effect(3) [OF n, of sid] s by simp
  with s m db' show "\<exists>s n. row_of as_id sid (db_sessions db) = Some s \<and> cm_seq m = Some n \<and>
          n = as_event_seq s + 1 \<and>
          (\<exists>s'. row_of as_id sid (db_sessions db') = Some s' \<and> as_event_seq s' = n)" by simp
  show "sessions_grow (db_sessions db) (db_sessions db')"
    using sessions_grow_seq [OF n] db' by simp
qed (use assms in \<open>auto simp: persist_message_def Let_def list_ex_iff split: option.splits if_splits\<close>)

text \<open>A request that stores nothing leaves every table but the counters alone.\<close>

lemma store_turn_cases:
  assumes c: "store_turn cfg env s a rq db = (db', res)"
  obtains (refused) e where "db' = db" "res = Inl e"
  | (duplicate) t where "db' = count ''duplicate_suppressed'' db" "res = Inr (t, True)"
      "find_by_key (as_company_id s) (as_id s) (case rq_key rq of None \<Rightarrow> ce_hex_key env
         | Some k \<Rightarrow> if k = [] then ce_hex_key env else k) (db_turns db) = Some t"
  | (stored) s' pinned c m dbm where "admit cfg env s a rq db = Inr (s', pinned, c)"
      "persist_message (ce_now env) (ce_message_id env) (ag_id pinned) (as_company_id s)
         ''user'' (rq_prompt rq) (as_id s) None 0 None
         (db\<lparr>db_sessions := update_where (\<lambda>r. as_id r = as_id s)
            (flush_session s s') (db_sessions db)\<rparr>) = Some (dbm, m)"
      "unique_ok (db_turns db) (new_turn cfg env s pinned c rq m)"
      "res = Inr (new_turn cfg env s pinned c rq m, False)"
      "db_turns db' = db_turns db @ [new_turn cfg env s pinned c rq m]"
      "db_messages db' = db_messages db @ [m]" "db_sessions db' = db_sessions dbm"
proof (cases "admit cfg env s a rq db")
  case (Inl e)
  with c show ?thesis by (intro refused) (auto simp: store_turn_def)
next
  case (Inr r)
  then obtain s' pinned c' where a: "admit cfg env s a rq db = Inr (s', pinned, c')"
    by (cases r) auto
  let ?db1 = "db\<lparr>db_sessions := update_where (\<lambda>r. as_id r = as_id s)
            (flush_session s s') (db_sessions db)\<rparr>"
  let ?p = "persist_message (ce_now env) (ce_message_id env) (ag_id pinned) (as_company_id s)
         ''user'' (rq_prompt rq) (as_id s) None 0 None ?db1"
  show ?thesis
  proof (cases ?p)
    case None
    with c a show ?thesis by (intro refused) (auto simp: store_turn_def Let_def)
  next
    case (Some q)
    then obtain dbm m where p: "?p = Some (dbm, m)" by (cases q) auto
    note pe = persist_message_effect [OF p]
    have key: "ct_idempotency_key (new_turn cfg env s pinned c' rq m) =
        (case rq_key rq of None \<Rightarrow> ce_hex_key env | Some k \<Rightarrow> if k = [] then ce_hex_key env else k)"
      by (simp add: new_turn_def)
    show ?thesis
    proof (cases "unique_ok (db_turns db) (new_turn cfg env s pinned c' rq m)")
      case True
      show ?thesis
      proof (cases "rq_record_directive rq \<and> ce_memory_error env \<noteq> None")
        case refuse: True
        with c a p pe(1) True show ?thesis by (intro refused) (auto simp: store_turn_def Let_def)
      next
        case False
        with c a p pe(1,2) True show ?thesis
          by (intro stored [OF a p]) (auto simp: store_turn_def Let_def split: if_splits)
      qed
    next
      case False
      with c a p pe(1) key show ?thesis
        by (auto simp: store_turn_def Let_def split: option.splits intro: refused duplicate)
    qed
  qed
qed

lemma create_turn_cases:
  assumes c: "create_turn cfg env s a rq db = (db', res)"
  obtains (replay) k t where "rq_key rq = Some k" "k \<noteq> []"
      "find_by_key (as_company_id s) (as_id s) k (db_turns db) = Some t"
      "db' = count ''duplicate_suppressed'' db" "res = Inr (t, True)"
  | (fresh) "store_turn cfg env s a rq db = (db', res)"
      "\<And>k. rq_key rq = Some k \<Longrightarrow> k \<noteq> [] \<Longrightarrow>
        find_by_key (as_company_id s) (as_id s) k (db_turns db) = None"
  using assms
  by (auto simp: create_turn_def split: option.splits if_splits)

section \<open>Finalize and begin\<close>

text \<open>The row \<open>finalize\<close> leaves: its outcome, and the reply's identifier when there is one.\<close>

definition finalized :: "time \<Rightarrow> uuid \<Rightarrow> chat_turn \<Rightarrow> outcome \<Rightarrow> chat_turn \<Rightarrow> chat_turn" where
  "finalized now mid t oc r =
    (let r' = finalize_vals now (ct_result t) oc r
     in if oc_text oc = None then r' else response_vals mid r')"

lemma finalize_cases:
  assumes c: "finalize now mid t w oc db = (db', res)" and d: "distinct (map ct_id (db_turns db))"
  obtains (discarded) "res = Inr None" "db' = count ''result_discarded'' db"
  | (failed) "res = Inl ReplyNotStored" "db' = db"
  | (stored) old where "held_by (ct_id t) (ct_company_id t, w) old"
      "res = Inr (Some (finalized now mid t oc old))"
      "replaced ct_id old (finalized now mid t oc old) (db_turns db) (db_turns db')"
      "sessions_grow (db_sessions db) (db_sessions db')"
      "oc_text oc = None \<Longrightarrow> db_messages db' = db_messages db"
      "oc_text oc \<noteq> None \<Longrightarrow> \<exists>m. db_messages db' = db_messages db @ [m] \<and> cm_id m = mid \<and>
         cm_sender m = ''agent'' \<and> cm_session_id m = Some (ct_session_id t) \<and>
         (\<forall>r \<in> set (db_messages db). cm_id r \<noteq> mid)"
proof -
  let ?g = "held_by (ct_id t) (ct_company_id t, w)"
  let ?v = "finalize_vals now (ct_result t) oc"
  let ?ts = "update_where ?g ?v (db_turns db)"
  let ?db1 = "db\<lparr>db_turns := ?ts\<rparr>"
  show ?thesis
  proof (cases "matching ?g (db_turns db) = 1")
    case False
    with c show ?thesis by (intro discarded) (auto simp: finalize_def Let_def)
  next
    case True
    from finalize_upd.hit_replaces [OF d True] obtain old where g: "?g old"
      and r: "replaced ct_id old (?v old) (db_turns db) ?ts" by blast
    have dts: "distinct (map ct_id ?ts)" using d replaced_keys [OF r] by simp
    have sc: "scoped (ct_id t) (ct_company_id t) (?v old)"
      using g by (simp add: guard_defs vals_defs)
    show ?thesis
    proof (cases "oc_text oc")
      case None
      then have f: "finalized now mid t oc old = ?v old" by (simp add: finalized_def)
      from None c True get_turn_replaced [OF d r sc] g r f show ?thesis
        by (intro stored [of old]) (auto simp: finalize_def Let_def)
    next
      case (Some reply)
      let ?p = "persist_message now mid (ct_agent_id t) (ct_company_id t) ''agent'' reply
                  (ct_session_id t) (oc_model_used oc) (oc_tokens_used oc) (reply_payload oc) ?db1"
      show ?thesis
      proof (cases ?p)
        case None
        with c True Some show ?thesis by (intro failed) (auto simp: finalize_def Let_def)
      next
        case (Some q)
        then obtain db2 m where p: "?p = Some (db2, m)" by (cases q) auto
        note pe = persist_message_effect [OF p]
        let ?ts2 = "update_where (scoped (ct_id t) (ct_company_id t)) (response_vals mid) ?ts"
        have "matching (scoped (ct_id t) (ct_company_id t)) ?ts = 1"
          using response_upd.rowcount_one_iff [OF dts] sc r row_of_iff [OF dts]
          by (auto simp: replaced_def scoped_def)
        from response_upd.hit_replaces [OF dts this, of mid] obtain o2 where
          o2: "scoped (ct_id t) (ct_company_id t) o2" "replaced ct_id o2 (response_vals mid o2) ?ts ?ts2"
          by blast
        have "o2 = ?v old"
          using o2 sc r same_key_same_row [OF dts, of o2 "?v old"]
          by (auto simp: replaced_def scoped_def)
        with o2 have r2: "replaced ct_id (?v old) (response_vals mid (?v old)) ?ts ?ts2" by simp
        have f: "finalized now mid t oc old = response_vals mid (?v old)"
          using \<open>oc_text oc = Some reply\<close> by (simp add: finalized_def)
        have rr: "replaced ct_id old (finalized now mid t oc old) (db_turns db) ?ts2"
          using replaced_trans [OF d r r2] f by simp
        have "scoped (ct_id t) (ct_company_id t) (finalized now mid t oc old)"
          using sc f by (simp add: scoped_def response_vals_def)
        from get_turn_replaced [OF d rr this] c True p pe \<open>oc_text oc = Some reply\<close> g rr
        show ?thesis
          by (intro stored [of old]) (auto simp: finalize_def Let_def)
      qed
    qed
  qed
qed

lemma execute_begin_cases:
  assumes c: "execute_begin env t w db = (db', res)" and d: "distinct (map ct_id (db_turns db))"
  obtains (unmarked) "db_turns db' = db_turns db" "db_messages db' = db_messages db"
      "sessions_grow (db_sessions db) (db_sessions db')" "\<And>t' a p. res \<noteq> Started t' a p"
  | (started) old a p where "res = Started (t\<lparr>ct_status := Running, ct_started_at := Some (be_now env)\<rparr>) a p"
      "mark_guard (ct_id t) (ct_company_id t, w) old"
      "replaced ct_id old (mark_vals (be_now env) old) (db_turns db) (db_turns db')"
      "db_messages db' = db_messages db" "sessions_grow (db_sessions db) (db_sessions db')"
proof (cases "begin_reads env t db")
  case (Inl pe)
  with c show ?thesis by (cases pe) (auto simp: execute_begin_def intro: unmarked)
next
  case (Inr r)
  then obtain s s' a p where r: "begin_reads env t db = Inr (s, s', a, p)" by (cases r) auto
  let ?db1 = "db\<lparr>db_sessions := update_where (\<lambda>r. as_id r = as_id s)
                (flush_session s s') (db_sessions db)\<rparr>"
  obtain db2 t' b where m: "mark_running (be_now env) t w ?db1 = (db2, t', b)"
    by (cases "mark_running (be_now env) t w ?db1") auto
  have d1: "distinct (map ct_id (db_turns ?db1))" using d by simp
  note grow = sessions_grow_flush [of "db_sessions db" "as_id s" s s']
  show ?thesis
  proof (cases rule: mark_cases [OF m d1])
    case 1
    with c r m grow show ?thesis by (auto simp: execute_begin_def intro: unmarked)
  next
    case (2 old)
    with c r m grow show ?thesis
      by (intro started [of a p old]) (auto simp: execute_begin_def)
  qed
qed

end
