(* ===== verification/Turn_System.thy ===== *)
theory Turn_System
  imports Turn_Rows
begin

text \<open>
  The system of \<open>src/nexus/runtime/chat_turns.py\<close>: any number of clients, workers and recovery
  sweeps working on one database, interleaved at transaction granularity. A world is the
  database, the copies of claimed rows the workers hold in memory, and the rows a sweep has
  read but not yet worked through. Everything a worker believes about a turn is in its copy,
  which may be stale; the theorems are about what the guards make of that.
\<close>

record world =
  w_db :: turn_db
  w_running :: "(string \<times> chat_turn) list"
  w_lapsed :: "chat_turn list"
  w_stale :: "chat_turn list"

text \<open>
  The outcomes \<open>_execute\<close> finalizes with: those of the supervised call (a failed beginning is a
  \<open>CallError\<close>) and the cancellation seen before the turn could start.
\<close>

definition is_report :: "outcome \<Rightarrow> bool" where
  "is_report oc \<longleftrightarrow>
    (\<exists>prompt ex c. outcome_of_call prompt ex c = Some oc) \<or> (\<exists>prompt. oc = cancelled_outcome prompt)"

text \<open>
  A worker drops a copy when its task ends, when its lease is lost and when it crashes
  (\<open>drop\<close>). \<open>_dispatch\<close> skips a turn that is still in \<open>_running\<close>: the side condition of \<open>claim\<close>.
  The sessions and the messages have other writers (\<open>sessions\<close>, \<open>message\<close>).
\<close>

inductive step :: "world \<Rightarrow> world \<Rightarrow> bool" where
  create: "create_turn cfg env s a rq (w_db w) = (db', res) \<Longrightarrow> step w (w\<lparr>w_db := db'\<rparr>)"
| cancel: "request_cancel now cid sid tid who (w_db w) = (db', res) \<Longrightarrow> step w (w\<lparr>w_db := db'\<rparr>)"
| sessions: "sessions_grow (db_sessions (w_db w)) ss \<Longrightarrow>
    step w (w\<lparr>w_db := (w_db w)\<lparr>db_sessions := ss\<rparr>\<rparr>)"
| message: "persist_message now mid agent company sender text sid model tokens payload (w_db w)
      = Some (db', m) \<Longrightarrow> step w (w\<lparr>w_db := db'\<rparr>)"
| claim: "\<forall>c \<in> set (w_running w). \<not> (fst c = wk \<and> ct_id (snd c) = tid) \<Longrightarrow>
    claim cfg now e tid cid wk (w_db w) = (db', Some t) \<Longrightarrow>
    step w (w\<lparr>w_db := db', w_running := w_running w @ [(wk, t)]\<rparr>)"
| begin_turn: "(wk, t) \<in> set (w_running w) \<Longrightarrow>
    execute_begin env t wk (w_db w) = (db', Started t' a p) \<Longrightarrow>
    step w (w\<lparr>w_db := db',
      w_running := map (\<lambda>c. if c = (wk, t) then (wk, t') else c) (w_running w)\<rparr>)"
| no_begin: "(wk, t) \<in> set (w_running w) \<Longrightarrow> execute_begin env t wk (w_db w) = (db', res) \<Longrightarrow>
    (\<And>t' a p. res \<noteq> Started t' a p) \<Longrightarrow> step w (w\<lparr>w_db := db'\<rparr>)"
| renew: "(wk, t) \<in> set (w_running w) \<Longrightarrow> renew cfg now t wk (w_db w) = (db', res) \<Longrightarrow>
    step w (w\<lparr>w_db := db'\<rparr>)"
| finish: "(wk, t) \<in> set (w_running w) \<Longrightarrow> is_report oc \<Longrightarrow>
    finalize now mid t wk oc (w_db w) = (db', res) \<Longrightarrow> step w (w\<lparr>w_db := db'\<rparr>)"
| release: "(wk, t) \<in> set (w_running w) \<Longrightarrow> release now t wk reason (w_db w) = (db', b) \<Longrightarrow>
    step w (w\<lparr>w_db := db'\<rparr>)"
| drop: "step w (w\<lparr>w_running := filter P (w_running w)\<rparr>)"
| sweep: "step w (w\<lparr>w_lapsed := w_lapsed w @ expired_turns cid now (db_turns (w_db w)),
                    w_stale := w_stale w @ stale_turns cfg cid now (db_turns (w_db w))\<rparr>)"
| recover: "t \<in> set (w_lapsed w) \<Longrightarrow> recover now t (w_db w) = (db', ev) \<Longrightarrow>
    step w (w\<lparr>w_db := db', w_lapsed := remove1 t (w_lapsed w)\<rparr>)"
| expire: "t \<in> set (w_stale w) \<Longrightarrow> expire_stale now t (w_db w) = (db', b) \<Longrightarrow>
    step w (w\<lparr>w_db := db', w_stale := remove1 t (w_stale w)\<rparr>)"

definition initial :: "world \<Rightarrow> bool" where
  "initial w \<longleftrightarrow> db_turns (w_db w) = [] \<and> db_messages (w_db w) = [] \<and>
     w_running w = [] \<and> w_lapsed w = [] \<and> w_stale w = []"

inductive reachable :: "world \<Rightarrow> bool" where
  start: "initial w \<Longrightarrow> reachable w"
| next_world: "reachable w \<Longrightarrow> step w w' \<Longrightarrow> reachable w'"

section \<open>The life of one row\<close>

text \<open>The abstract lifecycle every row follows.\<close>

definition LIFECYCLE :: "turn_status \<Rightarrow> turn_status list" where
  "LIFECYCLE s = (case s of
      Queued \<Rightarrow> [Claimed, Cancelled, Expired]
    | Claimed \<Rightarrow> [Claimed, Running, Queued, Completed, Failed, Cancelled]
    | Running \<Rightarrow> [Running, Queued, Completed, Failed, Cancelled]
    | _ \<Rightarrow> [])"

definition active :: "chat_turn \<Rightarrow> bool" where
  "active r \<longleftrightarrow> ct_status r \<in> set ACTIVE_STATUSES"

definition finished :: "chat_turn \<Rightarrow> bool" where
  "finished r \<longleftrightarrow> ct_status r \<in> set TERMINAL_STATUSES"

lemmas class_defs = active_def finished_def ACTIVE_STATUSES_def TERMINAL_STATUSES_def

lemma status_trichotomy: "ct_status r = Queued \<or> active r \<or> finished r"
  by (cases "ct_status r") (simp_all add: class_defs)

text \<open>The columns no handler writes after the insert.\<close>

definition identity ::
  "chat_turn \<Rightarrow> uuid \<times> uuid \<times> uuid \<times> uuid \<times> string \<times> int \<times> uuid option \<times> int \<times> time \<times> exec_context option"
where
  "identity r = (ct_id r, ct_company_id r, ct_agent_id r, ct_session_id r, ct_idempotency_key r,
     ct_turn_seq r, ct_prompt_message_id r, ct_max_attempts r, ct_queued_at r,
     ct_execution_context r)"

definition epoch :: "chat_turn \<Rightarrow> uuid option \<times> int" where
  "epoch r = (ct_execution_id r, ct_attempt_count r)"

definition row_ok :: "chat_turn \<Rightarrow> bool" where
  "row_ok r \<longleftrightarrow>
    (active r \<longleftrightarrow> ct_lease_expires_at r \<noteq> None) \<and>
    (active r \<longrightarrow> ct_claimed_by r \<noteq> None \<and> ct_execution_id r \<noteq> None \<and> 0 < ct_attempt_count r) \<and>
    (ct_status r = Queued \<longrightarrow> ct_claimed_by r = None) \<and>
    (\<not> finished r \<longrightarrow> ct_response_message_id r = None) \<and> 0 \<le> ct_attempt_count r"

text \<open>
  What one handler may do to one row of \<open>ts\<close>: it never touches a finished row or the identity
  columns, follows the lifecycle, and makes a row active only by a claim, which draws the
  next attempt number and passes \<open>_no_turn_ahead\<close>.
\<close>

definition legal :: "chat_turn list \<Rightarrow> chat_turn \<Rightarrow> chat_turn \<Rightarrow> bool" where
  "legal ts old new \<longleftrightarrow>
    identity new = identity old \<and> \<not> finished old \<and>
    ct_status new \<in> set (LIFECYCLE (ct_status old)) \<and>
    (row_ok old \<longrightarrow> row_ok new) \<and>
    (if ct_status old = Queued \<and> active new
     then no_turn_ahead ts old \<and> ct_attempt_count new = ct_attempt_count old + 1
     else epoch new = epoch old) \<and>
    (active old \<and> active new \<longrightarrow> ct_claimed_by new = ct_claimed_by old)"

lemmas legal_defs = legal_def identity_def epoch_def row_ok_def LIFECYCLE_def class_defs
  guard_defs vals_defs

lemma claim_legal: "claim_guard tid (cid, ts) r \<Longrightarrow> legal ts r (claim_vals now l w e r)"
  by (simp add: legal_defs)

lemma mark_legal: "mark_guard tid a r \<Longrightarrow> legal ts r (mark_vals now r)"
  by (simp add: legal_defs)

lemma renew_legal: "held_by tid a r \<Longrightarrow> legal ts r (renew_vals now l r)"
  by (auto simp: legal_defs)

lemma release_legal: "held_by tid a r \<Longrightarrow> legal ts r (release_vals now r)"
  by (auto simp: legal_defs)

lemma cancel_legal: "queued_guard tid cid r \<Longrightarrow> legal ts r (cancel_vals now who r)"
  by (simp add: legal_defs)

lemma flag_legal: "flag_guard tid cid r \<Longrightarrow> legal ts r (flag_vals now who r)"
  by (auto simp: legal_defs)

lemma expire_legal: "queued_guard tid cid r \<Longrightarrow> legal ts r (expire_vals now r)"
  by (simp add: legal_defs)

lemma recover_plan_decides: "recover_plan t \<noteq> RSkipped"
  by (simp add: recover_plan_def)

lemma recover_legal: "recover_guard tid a r \<Longrightarrow> legal ts r (recover_vals now t r)"
  using recover_plan_decides [of t]
  by (cases "recover_plan t") (auto simp: legal_defs Let_def)

lemma outcome_cases:
  assumes "outcome_of_call prompt ex c = Some oc"
  shows "oc_status oc = Completed \<and> oc_text oc \<noteq> None \<or> oc_status oc = Cancelled \<or>
    oc_status oc = Failed \<and> oc_text oc = None"
  using assms by (cases c) (auto simp: outcome_of_call_def)

lemma report_cases:
  assumes "is_report oc"
  obtains (completed) "oc_status oc = Completed" "oc_text oc \<noteq> None"
  | (cancelled) "oc_status oc = Cancelled"
  | (failed) "oc_status oc = Failed" "oc_text oc = None"
proof (cases "\<exists>prompt. oc = cancelled_outcome prompt")
  case True
  then show ?thesis by (intro cancelled) (auto simp: cancelled_outcome_def)
next
  case False
  with assms outcome_cases completed cancelled failed show ?thesis
    unfolding is_report_def by metis
qed

lemma finalize_legal:
  "held_by tid a r \<Longrightarrow> is_report oc \<Longrightarrow> legal ts r (finalized now mid t oc r)"
  by (erule report_cases) (auto simp: legal_defs finalized_def Let_def)

section \<open>What one step does to the turns\<close>

text \<open>A turn as \<open>create_turn\<close> inserts it.\<close>

definition is_new :: "turn_db \<Rightarrow> turn_db \<Rightarrow> chat_turn \<Rightarrow> bool" where
  "is_new db db' t \<longleftrightarrow> ct_status t = Queued \<and> row_ok t \<and> unique_ok (db_turns db) t \<and>
     (\<exists>s s'. row_of as_id (ct_session_id t) (db_sessions db) = Some s \<and>
        ct_turn_seq t = as_event_seq s + 1 \<and>
        row_of as_id (ct_session_id t) (db_sessions db') = Some s' \<and>
        as_event_seq s' = ct_turn_seq t)"

lemma flush_seq:
  "row_of as_id k (update_where (\<lambda>r. as_id r = j) (flush_session s s') ss) = Some r \<Longrightarrow>
   \<exists>r0. row_of as_id k ss = Some r0 \<and> as_event_seq r0 = as_event_seq r"
  by (auto simp: row_of_update_where flush_session_def split: if_splits)

lemma create_effect:
  assumes c: "create_turn cfg env s a rq db = (db', res)"
  obtains (same) "db_turns db' = db_turns db" "db_messages db' = db_messages db"
      "db_sessions db' = db_sessions db"
  | (stored) t m where "db_turns db' = db_turns db @ [t]" "is_new db db' t"
      "db_messages db' = db_messages db @ [m]" "\<forall>r \<in> set (db_messages db). cm_id r \<noteq> cm_id m"
      "cm_sender m = ''user''" "sessions_grow (db_sessions db) (db_sessions db')"
  using c
proof (cases rule: create_turn_cases)
  case (replay k t)
  then show ?thesis by (intro same) simp_all
next
  case fresh
  from fresh(1) show ?thesis
  proof (cases rule: store_turn_cases)
    case (stored s' pinned ctx m dbm)
    note pe = persist_message_effect [OF stored(2)]
    let ?t = "new_turn cfg env s pinned ctx rq m"
    let ?ss = "update_where (\<lambda>r. as_id r = as_id s) (flush_session s s') (db_sessions db)"
    from pe(9) obtain r n r' where r: "row_of as_id (as_id s) ?ss = Some r" "cm_seq m = Some n"
      "n = as_event_seq r + 1" "row_of as_id (as_id s) (db_sessions dbm) = Some r'"
      "as_event_seq r' = n" by auto
    from flush_seq [OF r(1)] obtain r0 where
      r0: "row_of as_id (as_id s) (db_sessions db) = Some r0" "as_event_seq r0 = as_event_seq r" by blast
    have t: "ct_status ?t = Queued" "ct_session_id ?t = as_id s" "ct_turn_seq ?t = n" "row_ok ?t"
      using r(2) by (simp_all add: new_turn_def row_ok_def class_defs)
    have "is_new db db' ?t"
      using t r r0 stored(3,7) by (auto simp: is_new_def)
    moreover have "sessions_grow (db_sessions db) (db_sessions db')"
      using sessions_grow_trans [OF sessions_grow_flush [of "db_sessions db" "as_id s" s s']] pe(10)
        stored(7) by simp
    ultimately show ?thesis using stored pe that(2) by auto
  qed (use same in simp_all)
qed

text \<open>The copies after a step that claims nothing: same worker, same turn, same epoch.\<close>

definition same_copies :: "(string \<times> chat_turn) list \<Rightarrow> (string \<times> chat_turn) list \<Rightarrow> bool" where
  "same_copies cs cs' \<longleftrightarrow> (\<forall>c \<in> set cs'. \<exists>c0 \<in> set cs. fst c0 = fst c \<and>
     identity (snd c0) = identity (snd c) \<and> epoch (snd c0) = epoch (snd c))"

lemma same_copies_refl [simp]: "same_copies cs cs"
  by (auto simp: same_copies_def)

lemma same_copies_filter [simp]: "same_copies cs (filter P cs)"
  unfolding same_copies_def
proof
  fix c
  assume "c \<in> set (filter P cs)"
  then show "\<exists>c0 \<in> set cs. fst c0 = fst c \<and> identity (snd c0) = identity (snd c) \<and>
      epoch (snd c0) = epoch (snd c)"
    by (intro bexI [of _ c]) simp_all
qed

lemma same_copies_started:
  "(wk, t) \<in> set cs \<Longrightarrow> same_copies cs
     (map (\<lambda>c. if c = (wk, t) then (wk, t\<lparr>ct_status := s, ct_started_at := x\<rparr>) else c) cs)"
  by (force simp: same_copies_def identity_def epoch_def)

text \<open>The three shapes of a step: the turns are as they were, one is inserted, one is rewritten.\<close>

definition quiet :: "world \<Rightarrow> world \<Rightarrow> bool" where
  "quiet w w' \<longleftrightarrow> db_turns (w_db w') = db_turns (w_db w) \<and>
     same_copies (w_running w) (w_running w')"

definition inserts :: "chat_turn \<Rightarrow> world \<Rightarrow> world \<Rightarrow> bool" where
  "inserts t w w' \<longleftrightarrow> db_turns (w_db w') = db_turns (w_db w) @ [t] \<and>
     is_new (w_db w) (w_db w') t \<and> w_running w' = w_running w"

definition claims :: "chat_turn \<Rightarrow> chat_turn \<Rightarrow> bool" where
  "claims old new \<longleftrightarrow> ct_status old = Queued \<and> active new"

definition moves :: "chat_turn \<Rightarrow> chat_turn \<Rightarrow> world \<Rightarrow> world \<Rightarrow> bool" where
  "moves old new w w' \<longleftrightarrow> replaced ct_id old new (db_turns (w_db w)) (db_turns (w_db w')) \<and>
     legal (db_turns (w_db w)) old new \<and>
     (if claims old new
      then \<exists>wk. ct_claimed_by new = Some wk \<and> w_running w' = w_running w @ [(wk, new)] \<and>
             (\<forall>c \<in> set (w_running w). \<not> (fst c = wk \<and> ct_id (snd c) = ct_id old))
      else same_copies (w_running w) (w_running w'))"

lemma movesI:
  "replaced ct_id old new (db_turns (w_db w)) (db_turns (w_db w')) \<Longrightarrow>
   legal (db_turns (w_db w)) old new \<Longrightarrow> active old \<or> \<not> active new \<Longrightarrow>
   same_copies (w_running w) (w_running w') \<Longrightarrow> \<exists>old new. moves old new w w'"
  unfolding moves_def claims_def
  by (rule exI [of _ old], rule exI [of _ new]) (auto simp: class_defs)

lemma step_shape:
  assumes st: "step w w'" and d: "distinct (map ct_id (db_turns (w_db w)))"
  shows "quiet w w' \<or> (\<exists>t. inserts t w w') \<or> (\<exists>old new. moves old new w w')"
  using st
proof cases
  case (create cfg env s a rq db' res)
  from create(2) show ?thesis
    by (cases rule: create_effect) (use create(1) in \<open>auto simp: quiet_def inserts_def\<close>)
next
  case (cancel now cid sid tid who db' res)
  from cancel(2) d show ?thesis
  proof (cases rule: request_cancel_cases)
    case (queued old)
    with cancel cancel_legal show ?thesis
      by (intro disjI2, intro movesI [of old]) (auto simp: vals_defs class_defs)
  next
    case (flagged old)
    with cancel flag_legal show ?thesis
      by (intro disjI2, intro movesI [of old]) (auto simp: guard_defs class_defs)
  qed (use cancel in \<open>auto simp: quiet_def\<close>)
next
  case (message now mid agent company sender body sid model tokens payload db' m)
  with persist_message_effect(1) show ?thesis by (auto simp: quiet_def)
next
  case (claim wk tid cfg now e cid db' t)
  from claim(3) d show ?thesis
  proof (cases rule: claim_cases)
    case (hit old new)
    with claim claim_legal have "moves old new w w'"
      by (auto simp: moves_def claims_def class_defs claim_guard_def claim_vals_def scoped_def)
    then show ?thesis by blast
  qed simp
next
  case (begin_turn wk t env db' t' a p)
  from begin_turn(3) d show ?thesis
  proof (cases rule: execute_begin_cases)
    case (started old a p)
    with begin_turn mark_legal same_copies_started [OF begin_turn(2)] show ?thesis
      by (intro disjI2, intro movesI [of old]) (auto simp: guard_defs class_defs)
  qed (use begin_turn in \<open>auto simp: quiet_def\<close>)
next
  case (no_begin wk t env db' res)
  from no_begin(3) d show ?thesis
    by (cases rule: execute_begin_cases) (use no_begin in \<open>auto simp: quiet_def\<close>)
next
  case (renew wk t cfg now db' res)
  from renew(3) d show ?thesis
  proof (cases rule: renew_cases)
    case (hit old)
    with renew renew_legal show ?thesis
      by (intro disjI2, intro movesI [of old]) (auto simp: held_by_def active_def)
  qed (use renew in \<open>auto simp: quiet_def\<close>)
next
  case (finish wk t oc now mid db' res)
  from finish(4) d show ?thesis
  proof (cases rule: finalize_cases)
    case (stored old)
    with finish finalize_legal show ?thesis
      by (intro disjI2, intro movesI [of old]) (auto simp: held_by_def active_def)
  qed (use finish in \<open>auto simp: quiet_def\<close>)
next
  case (release wk t now reason db' b)
  from release(3) d show ?thesis
  proof (cases rule: release_cases)
    case (hit old)
    with release release_legal show ?thesis
      by (intro disjI2, intro movesI [of old]) (auto simp: held_by_def active_def)
  qed (use release in \<open>auto simp: quiet_def\<close>)
next
  case (recover t now db' ev)
  from recover(3) d show ?thesis
  proof (cases rule: recover_cases)
    case (hit old)
    with recover recover_legal show ?thesis
      by (intro disjI2, intro movesI [of old]) (auto simp: recover_guard_def active_def)
  qed (use recover in \<open>auto simp: quiet_def\<close>)
next
  case (expire t now db' b)
  from expire(3) d show ?thesis
  proof (cases rule: expire_cases)
    case (hit old)
    with expire expire_legal show ?thesis
      by (intro disjI2, intro movesI [of old]) (auto simp: vals_defs class_defs)
  qed (use expire in \<open>auto simp: quiet_def\<close>)
qed (auto simp: quiet_def)

section \<open>Sessions, messages and sweeps under a step\<close>

lemma step_sessions: "step w w' \<Longrightarrow> distinct (map ct_id (db_turns (w_db w))) \<Longrightarrow>
   sessions_grow (db_sessions (w_db w)) (db_sessions (w_db w'))"
proof (induction rule: step.induct)
  case (create cfg env s a rq w db' res)
  from create(1) show ?case by (cases rule: create_effect) auto
next
  case (cancel now cid sid tid who w db' res)
  from cancel show ?case by (cases rule: request_cancel_cases) auto
next
  case (message now mid agent company sender body sid model tokens payload w db' m)
  then show ?case by (simp add: persist_message_effect(10))
next
  case (claim w wk tid cfg now e cid db' t)
  from claim(2,3) show ?case by (cases rule: claim_cases) auto
next
  case (begin_turn wk t w env db' t' a p)
  from begin_turn(2,3) show ?case by (cases rule: execute_begin_cases) auto
next
  case (no_begin wk t w env db' res)
  from no_begin(2,4) show ?case by (cases rule: execute_begin_cases) auto
next
  case (renew wk t w cfg now db' res)
  from renew(2,3) show ?case by (cases rule: renew_cases) auto
next
  case (finish wk t w oc now mid db' res)
  from finish(3,4) show ?case by (cases rule: finalize_cases) auto
next
  case (release wk t w now reason db' b)
  from release(2,3) show ?case by (cases rule: release_cases) auto
next
  case (recover t w now db' ev)
  from recover(2,3) show ?case by (cases rule: recover_cases) auto
next
  case (expire t w now db' b)
  from expire(2,3) show ?case by (cases rule: expire_cases) auto
qed simp_all

lemma step_lapsed: "step w w' \<Longrightarrow> t \<in> set (w_lapsed w') \<Longrightarrow>
   t \<in> set (w_lapsed w) \<or> t \<in> set (db_turns (w_db w)) \<and> active t"
  by (induction rule: step.induct)
    (auto simp: expired_turns_def active_def dest: in_set_takeD set_remove1_subset [THEN subsetD])

section \<open>The invariant\<close>

definition same_session :: "chat_turn \<Rightarrow> chat_turn \<Rightarrow> bool" where
  "same_session p t \<longleftrightarrow> ct_company_id p = ct_company_id t \<and> ct_session_id p = ct_session_id t"

definition in_order :: "chat_turn list \<Rightarrow> bool" where
  "in_order ts \<longleftrightarrow> (\<forall>t \<in> set ts. active t \<longrightarrow> no_turn_ahead ts t)"

definition seqs_ok :: "turn_db \<Rightarrow> bool" where
  "seqs_ok db \<longleftrightarrow> (\<forall>t \<in> set (db_turns db). \<exists>s.
     row_of as_id (ct_session_id t) (db_sessions db) = Some s \<and> ct_turn_seq t \<le> as_event_seq s)"

definition keys_ok :: "chat_turn list \<Rightarrow> bool" where
  "keys_ok ts \<longleftrightarrow> distinct (map ct_id ts) \<and>
     distinct (map (\<lambda>t. (ct_company_id t, ct_session_id t, ct_idempotency_key t)) ts) \<and>
     distinct (map (\<lambda>t. (ct_session_id t, ct_turn_seq t)) ts)"

text \<open>A worker's copy is of a stored turn, never ahead of it, and current while the row is held.\<close>

definition copy_ok :: "chat_turn list \<Rightarrow> string \<times> chat_turn \<Rightarrow> bool" where
  "copy_ok ts c \<longleftrightarrow> (\<exists>r \<in> set ts. identity r = identity (snd c) \<and>
     ct_attempt_count (snd c) \<le> ct_attempt_count r \<and>
     (active r \<and> ct_claimed_by r = Some (fst c) \<longrightarrow> epoch r = epoch (snd c)))"

definition inv :: "world \<Rightarrow> bool" where
  "inv w \<longleftrightarrow> keys_ok (db_turns (w_db w)) \<and> (\<forall>r \<in> set (db_turns (w_db w)). row_ok r) \<and>
     in_order (db_turns (w_db w)) \<and> seqs_ok (w_db w) \<and>
     (\<forall>c \<in> set (w_running w). copy_ok (db_turns (w_db w)) c) \<and>
     (\<forall>t \<in> set (w_lapsed w). active t \<and> ct_response_message_id t = None)"

lemma no_turn_ahead_iff:
  "no_turn_ahead ts t \<longleftrightarrow> (\<forall>p \<in> set ts. same_session p t \<and> ct_id p \<noteq> ct_id t \<longrightarrow>
     (ct_turn_seq p < ct_turn_seq t \<longrightarrow> finished p) \<and> \<not> active p)"
  by (auto simp: no_turn_ahead_def list_ex_iff same_session_def active_def finished_def)

lemma identity_eqD:
  assumes "identity a = identity b"
  shows "ct_id a = ct_id b" "ct_company_id a = ct_company_id b" "ct_agent_id a = ct_agent_id b"
    "ct_session_id a = ct_session_id b" "ct_idempotency_key a = ct_idempotency_key b"
    "ct_turn_seq a = ct_turn_seq b" "ct_prompt_message_id a = ct_prompt_message_id b"
    "ct_max_attempts a = ct_max_attempts b" "ct_queued_at a = ct_queued_at b"
    "ct_execution_context a = ct_execution_context b"
  using assms by (simp_all add: identity_def)

lemma legalD:
  assumes "legal ts old new"
  shows "identity new = identity old" "\<not> finished old" "row_ok old \<Longrightarrow> row_ok new"
    "claims old new \<Longrightarrow> no_turn_ahead ts old"
    "claims old new \<Longrightarrow> ct_attempt_count new = ct_attempt_count old + 1"
    "\<not> claims old new \<Longrightarrow> epoch new = epoch old"
    "active old \<Longrightarrow> active new \<Longrightarrow> ct_claimed_by new = ct_claimed_by old"
    "active new \<Longrightarrow> \<not> claims old new \<Longrightarrow> active old"
    "ct_attempt_count old \<le> ct_attempt_count new"
    "ct_status new \<in> set (LIFECYCLE (ct_status old))"
  using assms status_trichotomy [of old]
  by (auto simp: legal_def claims_def epoch_def split: if_splits)

lemma replaced_map_keys:
  assumes r: "replaced ct_id old new ts ts'" and d: "distinct (map ct_id ts)"
    and f: "f new = f old"
  shows "map f ts' = map f ts"
proof (rule nth_equalityI)
  from r have ids: "map ct_id ts' = map ct_id ts" by (simp add: replaced_def)
  then show len: "length (map f ts') = length (map f ts)" by (metis length_map)
  fix i
  assume "i < length (map f ts')"
  then have i: "i < length ts'" "i < length ts" using len by simp_all
  have k: "ct_id (ts' ! i) = ct_id (ts ! i)" using ids i by (metis nth_map)
  have "ts' ! i = new \<and> ts ! i = old \<or> ts' ! i = ts ! i"
  proof -
    have "ts' ! i = new \<or> ts' ! i \<in> set ts" using r i nth_mem [OF i(1)] by (auto simp: replaced_def)
    moreover have "ts' ! i \<in> set ts \<Longrightarrow> ts' ! i = ts ! i"
      using same_key_same_row [OF d] k nth_mem [OF i(2)] by blast
    moreover have "ts' ! i = new \<Longrightarrow> ts ! i = old"
      using same_key_same_row [OF d, of "ts ! i" old] k nth_mem [OF i(2)] r
      by (auto simp: replaced_def)
    ultimately show ?thesis by blast
  qed
  with f i show "map f ts' ! i = map f ts ! i" by auto
qed

lemma moves_identities:
  assumes m: "moves old new w w'" and d: "distinct (map ct_id (db_turns (w_db w)))"
  shows "map identity (db_turns (w_db w')) = map identity (db_turns (w_db w))"
  using m d by (auto simp: moves_def dest: legalD(1) intro!: replaced_map_keys)

lemma keys_ok_identities:
  assumes "map identity ts' = map identity ts"
  shows "keys_ok ts' = keys_ok ts"
proof -
  have "map (g \<circ> identity) ts' = map (g \<circ> identity) ts" for g :: "_ \<Rightarrow> 'z"
    using assms by (metis map_map)
  from this [of fst] this [of "\<lambda>(i, c, a, s, k, rest). (c, s, k)"]
    this [of "\<lambda>(i, c, a, s, k, n, rest). (s, n)"]
  show ?thesis by (simp add: keys_ok_def identity_def comp_def)
qed

lemma no_turn_aheadD:
  assumes "no_turn_ahead ts t" "p \<in> set ts" "same_session p t" "ct_id p \<noteq> ct_id t"
  shows "(ct_turn_seq p < ct_turn_seq t \<longrightarrow> finished p) \<and> \<not> active p"
  using assms by (simp add: no_turn_ahead_iff)

lemma in_orderD: "in_order ts \<Longrightarrow> t \<in> set ts \<Longrightarrow> active t \<Longrightarrow> no_turn_ahead ts t"
  by (simp add: in_order_def)

lemma same_session_cong:
  assumes "identity a = identity b"
  shows "same_session a t = same_session b t" "same_session t a = same_session t b"
  using identity_eqD [OF assms] by (simp_all add: same_session_def)

lemma same_session_sym: "same_session a b \<Longrightarrow> same_session b a"
  by (simp add: same_session_def)

lemma in_order_moves:
  assumes o: "in_order ts" and r: "replaced ct_id old new ts ts'" and l: "legal ts old new"
  shows "in_order ts'"
  unfolding in_order_def
proof (intro ballI impI)
  fix t
  assume t: "t \<in> set ts'" and a: "active t"
  note ld = legalD [OF l] and ieq = identity_eqD [OF legalD(1) [OF l]]
    and ss = same_session_cong [OF legalD(1) [OF l]]
  have old: "old \<in> set ts" using r by (simp add: replaced_def)
  have clear: "no_turn_ahead ts old" if "active new"
    using that ld(4,8) in_orderD [OF o old] by blast
  have ahead: "(ct_turn_seq p < ct_turn_seq t \<longrightarrow> finished p) \<and> \<not> active p"
    if p: "p \<in> set ts'" "same_session p t" "ct_id p \<noteq> ct_id t" for p
  proof -
    consider "t = new" "p = new" | "t = new" "p \<in> set ts" | "p = new" "t \<in> set ts"
      | "t \<in> set ts" "p \<in> set ts"
      using t p(1) r by (auto simp: replaced_def)
    then show ?thesis
    proof cases
      case 1
      with p show ?thesis by simp
    next
      case 2
      with p a ss ieq no_turn_aheadD [OF clear, of p] show ?thesis by simp
    next
      case 3
      then have s: "same_session old t" "ct_id old \<noteq> ct_id t" using p ss ieq by simp_all
      note * = no_turn_aheadD [OF in_orderD [OF o 3(2) a] old s]
      moreover have "\<not> active new"
        using no_turn_aheadD [OF clear 3(2) same_session_sym [OF s(1)]] s(2) a by auto
      ultimately show ?thesis using 3(1) ieq ld(2) by simp
    next
      case 4
      with p show ?thesis by (intro no_turn_aheadD [OF in_orderD [OF o _ a]])
    qed
  qed
  then show "no_turn_ahead ts' t" by (simp add: no_turn_ahead_iff)
qed

lemma in_order_insert:
  assumes o: "in_order (db_turns db)" and n: "is_new db db' t" and s: "seqs_ok db"
  shows "in_order (db_turns db @ [t])"
  unfolding in_order_def no_turn_ahead_iff
proof (intro ballI impI)
  fix u p
  assume u: "u \<in> set (db_turns db @ [t])" "active u" and p: "p \<in> set (db_turns db @ [t])"
    and sp: "same_session p u \<and> ct_id p \<noteq> ct_id u"
  have tq: "ct_status t = Queued" using n by (simp add: is_new_def)
  then have na: "\<not> active t" by (simp add: class_defs)
  with u have u': "u \<in> set (db_turns db)" by auto
  show "(ct_turn_seq p < ct_turn_seq u \<longrightarrow> finished p) \<and> \<not> active p"
  proof (cases "p = t")
    case True
    from n obtain s0 where "row_of as_id (ct_session_id t) (db_sessions db) = Some s0"
      "ct_turn_seq t = as_event_seq s0 + 1" by (auto simp: is_new_def)
    moreover have "ct_session_id u = ct_session_id t" using sp True by (simp add: same_session_def)
    moreover obtain s1 where "row_of as_id (ct_session_id u) (db_sessions db) = Some s1"
      "ct_turn_seq u \<le> as_event_seq s1" using s u' unfolding seqs_ok_def by blast
    ultimately have "ct_turn_seq u < ct_turn_seq t" by simp
    with True na show ?thesis by simp
  next
    case False
    with p have "p \<in> set (db_turns db)" by simp
    with sp show ?thesis by (intro no_turn_aheadD [OF in_orderD [OF o u' u(2)]]) simp_all
  qed
qed

lemma seqs_ok_step:
  assumes "seqs_ok db" and "sessions_grow (db_sessions db) (db_sessions db')"
    and "\<forall>t' \<in> set (db_turns db'). (\<exists>t \<in> set (db_turns db). identity t = identity t') \<or> is_new db db' t'"
  shows "seqs_ok db'"
  unfolding seqs_ok_def
proof
  fix t'
  assume "t' \<in> set (db_turns db')"
  with assms(3) consider t where "t \<in> set (db_turns db)" "identity t = identity t'"
    | "is_new db db' t'" by blast
  then show "\<exists>s. row_of as_id (ct_session_id t') (db_sessions db') = Some s \<and> ct_turn_seq t' \<le> as_event_seq s"
  proof cases
    case 1
    note ieq = identity_eqD [OF 1(2)]
    from assms(1) 1(1) obtain s where
      s: "row_of as_id (ct_session_id t) (db_sessions db) = Some s" "ct_turn_seq t \<le> as_event_seq s"
      unfolding seqs_ok_def by blast
    from assms(2) s(1) obtain s' where "row_of as_id (ct_session_id t) (db_sessions db') = Some s'"
      "as_event_seq s \<le> as_event_seq s'" unfolding sessions_grow_def by blast
    with s ieq show ?thesis by (intro exI [of _ s']) simp
  next
    case 2
    then obtain s' where "row_of as_id (ct_session_id t') (db_sessions db') = Some s'"
      "as_event_seq s' = ct_turn_seq t'" by (auto simp: is_new_def)
    then show ?thesis by (intro exI [of _ s']) simp
  qed
qed

lemma keys_ok_insert:
  assumes "keys_ok (db_turns db)" and "is_new db db' t"
  shows "keys_ok (db_turns db @ [t])"
  using assms by (auto simp: keys_ok_def is_new_def unique_ok_def list_ex_iff)

lemma copy_ok_same:
  assumes c: "\<forall>c \<in> set cs. copy_ok ts c" and s: "same_copies cs cs'"
  shows "\<forall>c \<in> set cs'. copy_ok ts c"
proof
  fix c
  assume "c \<in> set cs'"
  with s obtain c0 where c0: "c0 \<in> set cs" "fst c0 = fst c" "identity (snd c0) = identity (snd c)"
    "epoch (snd c0) = epoch (snd c)" by (auto simp: same_copies_def)
  with c have "copy_ok ts c0" by blast
  with c0 show "copy_ok ts c" by (auto simp: copy_ok_def epoch_def)
qed

lemma copy_ok_moves:
  assumes r: "replaced ct_id old new ts ts'" and l: "legal ts old new"
    and d: "distinct (map ct_id ts)" and c: "copy_ok ts c"
    and cl: "claims old new \<Longrightarrow> ct_id (snd c) = ct_id old \<Longrightarrow> ct_claimed_by new \<noteq> Some (fst c)"
  shows "copy_ok ts' c"
proof -
  from c obtain r0 where r0: "r0 \<in> set ts" "identity r0 = identity (snd c)"
    "ct_attempt_count (snd c) \<le> ct_attempt_count r0"
    "active r0 \<and> ct_claimed_by r0 = Some (fst c) \<longrightarrow> epoch r0 = epoch (snd c)"
    by (auto simp: copy_ok_def)
  note ld = legalD [OF l]
  show ?thesis
  proof (cases "r0 = old")
    case False
    with r r0 show ?thesis by (auto simp: copy_ok_def replaced_def)
  next
    case True
    have "new \<in> set ts'" using r by (simp add: replaced_def)
    moreover have "identity new = identity (snd c)" using ld(1) r0 True by simp
    moreover have "ct_attempt_count (snd c) \<le> ct_attempt_count new" using ld(9) r0 True by simp
    moreover have "epoch new = epoch (snd c)" if "active new" "ct_claimed_by new = Some (fst c)"
    proof (cases "claims old new")
      case True
      with cl that identity_eqD(1) [OF r0(2)] \<open>r0 = old\<close> show ?thesis by simp
    next
      case False
      with that ld r0 \<open>r0 = old\<close> show ?thesis by simp
    qed
    ultimately show ?thesis by (auto simp: copy_ok_def)
  qed
qed

lemma row_ok_active:
  assumes "row_ok r" "active r"
  shows "ct_response_message_id r = None" "ct_lease_expires_at r \<noteq> None" "ct_claimed_by r \<noteq> None"
    "ct_execution_id r \<noteq> None" "0 < ct_attempt_count r"
  using assms by (auto simp: row_ok_def class_defs)

lemma inv_initial: "initial w \<Longrightarrow> inv w"
  by (simp add: initial_def inv_def keys_ok_def in_order_def seqs_ok_def)

lemma inv_step:
  assumes i: "inv w" and s: "step w w'"
  shows "inv w'"
proof -
  let ?ts = "db_turns (w_db w)" and ?ts' = "db_turns (w_db w')"
  have k: "keys_ok ?ts" and ok: "\<forall>r \<in> set ?ts. row_ok r" and o: "in_order ?ts" and q: "seqs_ok (w_db w)"
    and c: "\<forall>c \<in> set (w_running w). copy_ok ?ts c"
    and l: "\<forall>t \<in> set (w_lapsed w). active t \<and> ct_response_message_id t = None"
    using i by (auto simp: inv_def)
  have d: "distinct (map ct_id ?ts)" using k by (simp add: keys_ok_def)
  note grow = step_sessions [OF s d]
  have l': "\<forall>t \<in> set (w_lapsed w'). active t \<and> ct_response_message_id t = None"
    using step_lapsed [OF s] l ok row_ok_active(1) by blast
  from step_shape [OF s d] consider (quiet) "quiet w w'" | (ins) t where "inserts t w w'"
    | (mov) old new where "moves old new w w'" by blast
  then show ?thesis
  proof cases
    case quiet
    then have "seqs_ok (w_db w')" using seqs_ok_step [OF q grow] by (auto simp: quiet_def)
    moreover have "\<forall>c \<in> set (w_running w'). copy_ok ?ts c"
      using quiet by (intro copy_ok_same [OF c]) (simp add: quiet_def)
    ultimately show ?thesis using quiet k ok o l' by (simp add: inv_def quiet_def)
  next
    case ins
    then have n: "is_new (w_db w) (w_db w') t" and ts': "?ts' = ?ts @ [t]"
      and run: "w_running w' = w_running w" by (simp_all add: inserts_def)
    have "seqs_ok (w_db w')" using seqs_ok_step [OF q grow] n ts' by auto
    moreover have "\<forall>c \<in> set (w_running w'). copy_ok ?ts' c"
      using c run ts' by (auto simp: copy_ok_def)
    moreover have "row_ok t" using n by (simp add: is_new_def)
    ultimately show ?thesis
      using keys_ok_insert [OF k n] in_order_insert [OF o n q] ok ts' l' by (simp add: inv_def)
  next
    case mov
    then have r: "replaced ct_id old new ?ts ?ts'" and lg: "legal ?ts old new" by (simp_all add: moves_def)
    have "keys_ok ?ts'" using keys_ok_identities [OF moves_identities [OF mov d]] k by simp
    moreover have "\<forall>r \<in> set ?ts'. row_ok r"
      using r ok legalD(3) [OF lg] by (auto simp: replaced_def)
    moreover have "seqs_ok (w_db w')"
    proof (rule seqs_ok_step [OF q grow], intro ballI disjI1)
      fix t'
      assume "t' \<in> set ?ts'"
      with r legalD(1) [OF lg] show "\<exists>t \<in> set ?ts. identity t = identity t'"
        by (auto simp: replaced_def)
    qed
    moreover have "\<forall>c \<in> set (w_running w'). copy_ok ?ts' c"
    proof (cases "claims old new")
      case False
      then have "same_copies (w_running w) (w_running w')" using mov by (simp add: moves_def)
      moreover have "\<forall>c \<in> set (w_running w). copy_ok ?ts' c"
        using copy_ok_moves [OF r lg d] c False by blast
      ultimately show ?thesis using copy_ok_same by blast
    next
      case True
      with mov obtain wk where wk: "ct_claimed_by new = Some wk"
        "w_running w' = w_running w @ [(wk, new)]"
        "\<forall>c \<in> set (w_running w). \<not> (fst c = wk \<and> ct_id (snd c) = ct_id old)"
        by (auto simp: moves_def)
      have "copy_ok ?ts' c'" if "c' \<in> set (w_running w)" for c'
        using copy_ok_moves [OF r lg d] c wk that by (metis option.inject)
      moreover have "copy_ok ?ts' (wk, new)" using r by (auto simp: copy_ok_def replaced_def)
      ultimately show ?thesis using wk(2) by auto
    qed
    ultimately show ?thesis using in_order_moves [OF o r lg] l' by (simp add: inv_def)
  qed
qed

lemma reachable_inv: "reachable w \<Longrightarrow> inv w"
  by (induction rule: reachable.induct) (auto intro: inv_initial inv_step)

section \<open>Replies\<close>

text \<open>Every stored reply belongs to exactly one turn and is an agent's message of its session.\<close>

definition has_reply :: "chat_message list \<Rightarrow> chat_turn \<Rightarrow> bool" where
  "has_reply ms t \<longleftrightarrow> (case ct_response_message_id t of None \<Rightarrow> True
     | Some k \<Rightarrow> (\<exists>x \<in> set ms. cm_id x = k \<and> cm_sender x = ''agent'' \<and>
                  cm_session_id x = Some (ct_session_id t)))"

definition answered :: "chat_turn list \<Rightarrow> chat_turn set" where
  "answered ts = {t \<in> set ts. ct_response_message_id t \<noteq> None}"

definition replies_ok :: "turn_db \<Rightarrow> bool" where
  "replies_ok db \<longleftrightarrow> (\<forall>t \<in> answered (db_turns db). has_reply (db_messages db) t) \<and>
     inj_on ct_response_message_id (answered (db_turns db))"

lemma has_reply_mono: "has_reply ms t \<Longrightarrow> set ms \<subseteq> set ms' \<Longrightarrow> has_reply ms' t"
  by (auto simp: has_reply_def split: option.splits)

lemma has_reply_in:
  "has_reply ms t \<Longrightarrow> ct_response_message_id t = Some k \<Longrightarrow> k \<in> cm_id ` set ms"
  by (auto simp: has_reply_def)

lemma replies_ok_less:
  assumes ok: "replies_ok db" and m: "set (db_messages db) \<subseteq> set (db_messages db')"
    and t: "answered (db_turns db') \<subseteq> answered (db_turns db)"
  shows "replies_ok db'"
proof -
  have "has_reply (db_messages db') u" if "u \<in> answered (db_turns db')" for u
    using that ok m t has_reply_mono [of "db_messages db" u] by (auto simp: replies_ok_def)
  moreover have "inj_on ct_response_message_id (answered (db_turns db'))"
    using ok t inj_on_subset unfolding replies_ok_def by blast
  ultimately show ?thesis by (simp add: replies_ok_def)
qed

lemma answered_append: "ct_response_message_id t = None \<Longrightarrow> answered (ts @ [t]) = answered ts"
  by (auto simp: answered_def)

lemma answered_replaced:
  assumes "replaced ct_id old new ts ts'"
  shows "answered ts' \<subseteq> (if ct_response_message_id new = None then {} else {new}) \<union> answered ts"
  using assms by (auto simp: answered_def replaced_def)

lemma replies_ok_reply:
  assumes ok: "replies_ok db" and m: "db_messages db' = db_messages db @ [x]"
    and x: "cm_sender x = ''agent''" "cm_session_id x = Some (ct_session_id new)"
      "\<forall>y \<in> set (db_messages db). cm_id y \<noteq> cm_id x"
    and r: "replaced ct_id old new (db_turns db) (db_turns db')"
    and n: "ct_response_message_id new = Some (cm_id x)"
  shows "replies_ok db'"
proof -
  let ?a = "answered (db_turns db)"
  have sub: "answered (db_turns db') \<subseteq> insert new ?a"
    using answered_replaced [OF r] n by simp
  have fresh: "ct_response_message_id u \<noteq> Some (cm_id x)" if "u \<in> ?a" for u
  proof
    assume "ct_response_message_id u = Some (cm_id x)"
    with that ok has_reply_in have "cm_id x \<in> cm_id ` set (db_messages db)"
      unfolding replies_ok_def by blast
    with x(3) show False by (metis imageE)
  qed
  have inj: "inj_on ct_response_message_id (insert new ?a)"
  proof (rule inj_on_insert [THEN iffD2], intro conjI notI)
    show "inj_on ct_response_message_id ?a" using ok by (simp add: replies_ok_def)
    assume "ct_response_message_id new \<in> ct_response_message_id ` (?a - {new})"
    then obtain u where "ct_response_message_id new = ct_response_message_id u" "u \<in> ?a" by blast
    with fresh n show False by metis
  qed
  have "has_reply (db_messages db') new" using m n x by (simp add: has_reply_def)
  moreover have "has_reply (db_messages db') u" if "u \<in> ?a" for u
  proof (rule has_reply_mono)
    show "has_reply (db_messages db) u" using that ok by (simp add: replies_ok_def)
  qed (auto simp: m)
  ultimately have "\<forall>u \<in> answered (db_turns db'). has_reply (db_messages db') u"
    using sub by blast
  with inj_on_subset [OF inj sub] show ?thesis by (simp add: replies_ok_def)
qed

lemma step_messages: "step w w' \<Longrightarrow> distinct (map ct_id (db_turns (w_db w))) \<Longrightarrow>
   \<exists>ms. db_messages (w_db w') = db_messages (w_db w) @ ms"
proof (induction rule: step.induct)
  case (create cfg env s a rq w db' res)
  from create(1) show ?case by (cases rule: create_effect) auto
next
  case (cancel now cid sid tid who w db' res)
  from cancel show ?case by (cases rule: request_cancel_cases) auto
next
  case (message now mid agent company sender body sid model tokens payload w db' m)
  then show ?case by (simp add: persist_message_effect(2))
next
  case (claim w wk tid cfg now e cid db' t)
  from claim(2,3) show ?case by (cases rule: claim_cases) auto
next
  case (begin_turn wk t w env db' t' a p)
  from begin_turn(2,3) show ?case by (cases rule: execute_begin_cases) auto
next
  case (no_begin wk t w env db' res)
  from no_begin(2,4) show ?case by (cases rule: execute_begin_cases) auto
next
  case (renew wk t w cfg now db' res)
  from renew(2,3) show ?case by (cases rule: renew_cases) auto
next
  case (finish wk t w oc now mid db' res)
  from finish(3,4) show ?case
    by (cases rule: finalize_cases; cases "oc_text oc = None") auto
next
  case (release wk t w now reason db' b)
  from release(2,3) show ?case by (cases rule: release_cases) auto
next
  case (recover t w now db' ev)
  from recover(2,3) show ?case by (cases rule: recover_cases) auto
next
  case (expire t w now db' b)
  from expire(2,3) show ?case by (cases rule: expire_cases) auto
qed simp_all

lemma replies_ok_quiet:
  assumes "replies_ok (w_db w)" "step w w'" "distinct (map ct_id (db_turns (w_db w)))"
    "answered (db_turns (w_db w')) \<subseteq> answered (db_turns (w_db w))"
  shows "replies_ok (w_db w')"
proof (rule replies_ok_less [OF assms(1) _ assms(4)])
  show "set (db_messages (w_db w)) \<subseteq> set (db_messages (w_db w'))"
    using step_messages [OF assms(2,3)] by auto
qed

lemma finish_replies:
  assumes ok: "replies_ok db" and rows: "\<forall>r \<in> set (db_turns db). row_ok r"
    and c: "copy_ok (db_turns db) (wk, t)" and d: "distinct (map ct_id (db_turns db))"
    and f: "finalize now mid t wk oc db = (db', res)"
  shows "replies_ok db'"
  using f d
proof (cases rule: finalize_cases)
  case (stored old)
  have act: "active old" "old \<in> set (db_turns db)" "ct_id old = ct_id t"
    using stored(1,3) by (auto simp: held_by_def active_def scoped_def replaced_def)
  with rows have none: "ct_response_message_id old = None" by (auto dest: row_ok_active)
  from c obtain r where r: "r \<in> set (db_turns db)" "identity r = identity t"
    by (auto simp: copy_ok_def)
  with same_key_same_row [OF d r(1) act(2)] act(3) identity_eqD [OF r(2)]
  have sid: "ct_session_id t = ct_session_id old" by simp
  show ?thesis
  proof (cases "oc_text oc = None")
    case True
    then have n: "ct_response_message_id (finalized now mid t oc old) = None"
      using none by (simp add: finalized_def finalize_vals_def)
    show ?thesis
      using answered_replaced [OF stored(3)] n stored(5) [OF True]
      by (intro replies_ok_less [OF ok]) auto
  next
    case False
    from stored(6) [OF False] obtain m where
      m: "db_messages db' = db_messages db @ [m]" "cm_id m = mid" "cm_sender m = ''agent''"
        "cm_session_id m = Some (ct_session_id t)" "\<forall>r \<in> set (db_messages db). cm_id r \<noteq> mid"
      by blast
    show ?thesis
      using m False sid
      by (intro replies_ok_reply [OF ok m(1,3) _ _ stored(3)])
        (auto simp: finalized_def Let_def vals_defs)
  qed
qed (use ok in \<open>simp_all add: replies_ok_def count_def\<close>)

text \<open>Only \<open>finalize\<close> gives a turn a reply.\<close>

definition finishes :: "world \<Rightarrow> world \<Rightarrow> bool" where
  "finishes w w' \<longleftrightarrow> (\<exists>wk t oc now mid db' res. (wk, t) \<in> set (w_running w) \<and> is_report oc \<and>
     finalize now mid t wk oc (w_db w) = (db', res) \<and> w' = w\<lparr>w_db := db'\<rparr>)"

lemma step_response:
  assumes s: "step w w'" and d: "distinct (map ct_id (db_turns (w_db w)))"
    and ok: "\<forall>r \<in> set (db_turns (w_db w)). row_ok r"
  shows "answered (db_turns (w_db w')) \<subseteq> answered (db_turns (w_db w)) \<or> finishes w w'"
proof -
  have keep: "answered ts' \<subseteq> answered (db_turns (w_db w))"
    if "legal (db_turns (w_db w)) old new" "replaced ct_id old new (db_turns (w_db w)) ts'"
      "ct_response_message_id new = ct_response_message_id old" for old new ts'
  proof -
    have "ct_response_message_id old = None"
      using that(2) legalD(2) [OF that(1)] ok by (auto simp: replaced_def row_ok_def)
    with that(3) answered_replaced [OF that(2)] show ?thesis by simp
  qed
  from s show ?thesis
  proof cases
    case (create cfg env s a rq db' res)
    from create(2) show ?thesis
    proof (cases rule: create_effect)
      case (stored t m)
      then have "ct_response_message_id t = None" by (auto simp: is_new_def row_ok_def class_defs)
      with stored create show ?thesis by (simp add: answered_append)
    qed (use create in simp)
  next
    case (cancel now cid sid tid who db' res)
    from cancel(2) d show ?thesis
    proof (cases rule: request_cancel_cases)
      case (queued old)
      with keep [OF cancel_legal [OF queued(1)] queued(2)] cancel show ?thesis by (simp add: vals_defs)
    next
      case (flagged old)
      with keep [OF flag_legal [OF flagged(1)] flagged(2)] cancel show ?thesis by (simp add: vals_defs)
    qed (use cancel in simp)
  next
    case (message now mid agent company sender body sid model tokens payload db' m)
    then show ?thesis by (simp add: persist_message_effect(1))
  next
    case (claim wk tid cfg now e cid db' t)
    from claim(3) d show ?thesis
    proof (cases rule: claim_cases)
      case (hit old new)
      with keep [OF claim_legal [OF hit(1)]] claim show ?thesis by (simp add: vals_defs)
    qed simp
  next
    case (begin_turn wk t env db' t' a p)
    from begin_turn(3) d show ?thesis
    proof (cases rule: execute_begin_cases)
      case (started old a p)
      with keep [OF mark_legal [OF started(2)] started(3)] begin_turn show ?thesis by (simp add: vals_defs)
    qed (use begin_turn in simp)
  next
    case (no_begin wk t env db' res)
    from no_begin(3) d show ?thesis
      by (cases rule: execute_begin_cases) (use no_begin in auto)
  next
    case (renew wk t cfg now db' res)
    from renew(3) d show ?thesis
    proof (cases rule: renew_cases)
      case (hit old)
      with keep [OF renew_legal [OF hit(1)] hit(2)] renew show ?thesis by (simp add: vals_defs)
    qed (use renew in simp)
  next
    case (finish wk t oc now mid db' res)
    then have "finishes w w'" unfolding finishes_def by blast
    then show ?thesis by blast
  next
    case (release wk t now reason db' b)
    from release(3) d show ?thesis
    proof (cases rule: release_cases)
      case (hit old)
      with keep [OF release_legal [OF hit(2)] hit(3)] release show ?thesis by (simp add: vals_defs)
    qed (use release in simp)
  next
    case (recover t now db' ev)
    from recover(3) d show ?thesis
    proof (cases rule: recover_cases)
      case (hit old)
      with keep [OF recover_legal [OF hit(2)] hit(3)] recover show ?thesis by simp
    qed (use recover in simp)
  next
    case (expire t now db' b)
    from expire(3) d show ?thesis
    proof (cases rule: expire_cases)
      case (hit old)
      with keep [OF expire_legal [OF hit(2)] hit(3)] expire show ?thesis by (simp add: vals_defs)
    qed (use expire in simp)
  qed auto
qed

lemma reachable_replies: "reachable w \<Longrightarrow> replies_ok (w_db w)"
proof (induction rule: reachable.induct)
  case (start w)
  then show ?case by (simp add: initial_def replies_ok_def answered_def)
next
  case (next_world w w')
  have i: "inv w" by (rule reachable_inv [OF next_world(1)])
  then have d: "distinct (map ct_id (db_turns (w_db w)))" and ok: "\<forall>r \<in> set (db_turns (w_db w)). row_ok r"
    and c: "\<forall>c \<in> set (w_running w). copy_ok (db_turns (w_db w)) c"
    by (auto simp: inv_def keys_ok_def)
  from step_response [OF next_world(2) d ok] show ?case
  proof
    assume "answered (db_turns (w_db w')) \<subseteq> answered (db_turns (w_db w))"
    then show ?thesis by (rule replies_ok_quiet [OF next_world(3,2) d])
  next
    assume "finishes w w'"
    then obtain wk t oc now mid db' res where "(wk, t) \<in> set (w_running w)"
      "finalize now mid t wk oc (w_db w) = (db', res)" "w' = w\<lparr>w_db := db'\<rparr>"
      unfolding finishes_def by blast
    with finish_replies [OF next_world(3) ok] c d show ?thesis by fastforce
  qed
qed

end
