(* ===== verification/Turn_Properties.thy ===== *)
theory Turn_Properties
  imports Turn_System
begin

text \<open>
  The properties of durable chat turns, on every world the system of \<open>Turn_System\<close> can reach:
  order and exclusion within a session, the lifecycle, fencing of stale workers, one reply per
  turn, idempotent creation, progress, and what a cancel request does. The section
  \<open>A run of the system\<close> builds one concrete reachable world the witnesses use.
\<close>

section \<open>A run of the system\<close>

text \<open>A session of agent 7, company 4, with two queued prompts; the first is claimed.\<close>

definition demo_session :: agent_session where
  "demo_session = \<lparr>as_id = 5, as_company_id = 4, as_agent_id = 7, as_workspace_id = None,
     as_status = Idle, as_title = None, as_adapter_type = ''anthropic'', as_model = None,
     as_llm_connection_id = None, as_external_session_id = None, as_event_seq = 0,
     as_created_by = None, as_session_metadata = None, as_started_at = 0,
     as_last_activity_at = 0, as_ended_at = None\<rparr>"

definition demo_agent :: agent where
  "demo_agent = \<lparr>ag_id = 7, ag_company_id = 4, ag_name = ''Ada'', ag_status = ''idle'',
     ag_adapter_type = Some ''anthropic'', ag_model = None, ag_connection_id = None,
     ag_department_id = None, ag_autonomy_policy = None\<rparr>"

definition demo_env :: "nat \<Rightarrow> create_env" where
  "demo_env n = \<lparr>ce_now = 0, ce_turn_id = 100 + n, ce_message_id = 200 + n, ce_hex_key = ''hex'',
     ce_connections = [], ce_adapter_error = (\<lambda>_. None), ce_tool_support = (\<lambda>_. (True, None)),
     ce_memory_error = None\<rparr>"

definition demo_request :: "string \<Rightarrow> turn_request" where
  "demo_request k = \<lparr>rq_prompt = ''hello'', rq_principal = None, rq_key = Some k, rq_stream = False,
     rq_work_mode = None, rq_require_manager_tools = False, rq_record_directive = False\<rparr>"

definition demo_db0 :: turn_db where
  "demo_db0 = \<lparr>db_turns = [], db_messages = [], db_sessions = [demo_session], db_ceos = [],
     db_directives = [], db_audits = [], db_notifications = [], db_stats = [], db_published = [],
     db_cancel_hints = [], db_spend_calls = []\<rparr>"

definition demo_db1 :: turn_db where
  "demo_db1 = fst (create_turn default_settings (demo_env 11) demo_session demo_agent
     (demo_request ''k1'') demo_db0)"

definition demo_db2 :: turn_db where
  "demo_db2 = fst (create_turn default_settings (demo_env 12) demo_session demo_agent
     (demo_request ''k2'') demo_db1)"

text \<open>The two queued rows, and the first as worker \<open>w\<close> claims it.\<close>

definition demo_row :: "nat \<Rightarrow> string \<Rightarrow> chat_turn" where
  "demo_row n k = \<lparr>ct_id = 100 + n, ct_company_id = 4, ct_agent_id = 7, ct_session_id = 5,
     ct_idempotency_key = k, ct_request_id = Some k, ct_turn_seq = int n - 10, ct_status = Queued,
     ct_prompt_message_id = Some (200 + n), ct_response_message_id = None, ct_execution_id = None,
     ct_adapter_used = None, ct_backend_used = None, ct_model_used = None, ct_claimed_by = None,
     ct_lease_expires_at = None, ct_attempt_count = 0, ct_max_attempts = 3,
     ct_cancel_requested_at = None, ct_cancelled_by = None, ct_error_code = None,
     ct_error_message = None, ct_queued_at = 0, ct_claimed_at = None, ct_started_at = None,
     ct_completed_at = None, ct_updated_at = 0,
     ct_execution_context = Some (for_agent demo_agent ''chat'' (Some 5) None None), ct_result = None\<rparr>"

definition demo_copy :: chat_turn where
  "demo_copy = claim_vals 0 (seconds 30) ''w'' 300 (demo_row 11 ''k1'')"

definition demo_next :: chat_turn where
  "demo_next = demo_row 12 ''k2''"

definition demo_db3 :: turn_db where
  "demo_db3 = fst (claim default_settings 0 300 111 4 ''w'' demo_db2)"

definition demo_world :: world where
  "demo_world = \<lparr>w_db = demo_db3, w_running = [(''w'', demo_copy)], w_lapsed = [], w_stale = []\<rparr>"

lemma create_turn_stores:
  assumes "create_turn cfg env s a rq db = store_turn cfg env s a rq db"
    and "admit cfg env s a rq db = Inr (s', pinned, c)"
    and "persist_message (ce_now env) (ce_message_id env) (ag_id pinned) (as_company_id s)
         ''user'' (rq_prompt rq) (as_id s) None 0 None
         (db\<lparr>db_sessions := update_where (\<lambda>r. as_id r = as_id s)
            (flush_session s s') (db_sessions db)\<rparr>) = Some (dbm, m)"
    and "unique_ok (db_turns db) (new_turn cfg env s pinned c rq m)"
    and "ce_memory_error env = None"
  shows "db_turns (fst (create_turn cfg env s a rq db)) = db_turns db @ [new_turn cfg env s pinned c rq m]"
    and "db_messages (fst (create_turn cfg env s a rq db)) = db_messages db @ [m]"
    and "db_sessions (fst (create_turn cfg env s a rq db)) = db_sessions dbm"
  using assms persist_message_effect(1,2) [OF assms(3)]
  by (simp_all add: store_turn_def Let_def)

definition demo_pinned :: agent where
  "demo_pinned = demo_agent\<lparr>ag_adapter_type := Some ''anthropic'', ag_model := None,
     ag_connection_id := None\<rparr>"

definition demo_context :: exec_context where
  "demo_context = for_agent demo_agent ''chat'' (Some 5) None None"

lemma demo_no_memory_error: "ce_memory_error (demo_env n) = None"
  by (simp add: demo_env_def)

lemma demo_admit:
  "admit default_settings (demo_env n) demo_session demo_agent (demo_request k) db =
     Inr (demo_session\<lparr>as_status := Active\<rparr>, demo_pinned, demo_context)"
proof -
  have "begin_session_turn 0 [] demo_session demo_agent =
      Inr (demo_session\<lparr>as_status := Active\<rparr>, demo_pinned)"
    by (simp add: begin_session_turn_def transition_def status_defs TRANSITIONS_def is_pinned_def
        check_pin_def session_pin_def resolve_alias_def PROVIDER_ALIASES_def PROVIDERS_def provider_def
        default_adapters_def Let_def demo_session_def demo_pinned_def demo_agent_def)
  then show ?thesis
    by (simp add: admit_def ceo_refusal_def request_context_def demo_env_def demo_request_def
        demo_context_def demo_pinned_def
        demo_agent_def for_call_def for_agent_def plain_context_def str_or_def demo_session_def)
qed

definition demo_message :: "nat \<Rightarrow> chat_message" where
  "demo_message n = \<lparr>cm_id = 200 + n, cm_company_id = 4, cm_agent_id = 7, cm_sender = ''user'',
     cm_text = ''hello'', cm_model_used = None, cm_tokens_used = 0, cm_session_id = Some 5,
     cm_kind = ''message'', cm_seq = Some (int n - 10), cm_payload = None, cm_created_at = 0\<rparr>"

lemma demo_first:
  "db_turns demo_db1 = [demo_row 11 ''k1'']" "db_messages demo_db1 = [demo_message 11]"
  "db_sessions demo_db1 = [demo_session\<lparr>as_status := Active, as_event_seq := 1\<rparr>]"
proof -
  let ?db = "demo_db0\<lparr>db_sessions := update_where (\<lambda>r. as_id r = as_id demo_session)
      (flush_session demo_session (demo_session\<lparr>as_status := Active\<rparr>)) (db_sessions demo_db0)\<rparr>"
  have c: "create_turn default_settings (demo_env 11) demo_session demo_agent (demo_request ''k1'') demo_db0
      = store_turn default_settings (demo_env 11) demo_session demo_agent (demo_request ''k1'') demo_db0"
    by (simp add: create_turn_def demo_request_def find_by_key_def demo_db0_def)
  have p: "persist_message (ce_now (demo_env 11)) (ce_message_id (demo_env 11)) (ag_id demo_pinned)
      (as_company_id demo_session) ''user'' (rq_prompt (demo_request ''k1'')) (as_id demo_session)
      None 0 None ?db = Some (?db\<lparr>db_messages := [demo_message 11],
        db_sessions := [demo_session\<lparr>as_status := Active, as_event_seq := 1\<rparr>]\<rparr>, demo_message 11)"
    by (simp add: persist_message_def next_seq_def demo_env_def demo_db0_def demo_session_def
        demo_pinned_def demo_agent_def demo_request_def demo_message_def update_where_def
        flush_session_def Let_def)
  have u: "unique_ok (db_turns demo_db0) t" for t by (simp add: unique_ok_def demo_db0_def)
  note st = create_turn_stores [OF c demo_admit p u demo_no_memory_error]
  show "db_turns demo_db1 = [demo_row 11 ''k1'']" "db_messages demo_db1 = [demo_message 11]"
    "db_sessions demo_db1 = [demo_session\<lparr>as_status := Active, as_event_seq := 1\<rparr>]"
    using st by (simp_all add: demo_db1_def demo_db0_def new_turn_def demo_row_def demo_message_def
        demo_env_def demo_session_def demo_pinned_def demo_agent_def demo_context_def
        demo_request_def default_settings_def)
qed

lemma demo_second:
  "db_turns demo_db2 = [demo_row 11 ''k1'', demo_next]"
  "db_messages demo_db2 = [demo_message 11, demo_message 12]"
  "db_sessions demo_db2 = [demo_session\<lparr>as_status := Active, as_event_seq := 2\<rparr>]"
proof -
  let ?db = "demo_db1\<lparr>db_sessions := update_where (\<lambda>r. as_id r = as_id demo_session)
      (flush_session demo_session (demo_session\<lparr>as_status := Active\<rparr>)) (db_sessions demo_db1)\<rparr>"
  have c: "create_turn default_settings (demo_env 12) demo_session demo_agent (demo_request ''k2'') demo_db1
      = store_turn default_settings (demo_env 12) demo_session demo_agent (demo_request ''k2'') demo_db1"
    by (simp add: create_turn_def demo_request_def find_by_key_def demo_first demo_row_def)
  have p: "persist_message (ce_now (demo_env 12)) (ce_message_id (demo_env 12)) (ag_id demo_pinned)
      (as_company_id demo_session) ''user'' (rq_prompt (demo_request ''k2'')) (as_id demo_session)
      None 0 None ?db = Some (?db\<lparr>db_messages := [demo_message 11, demo_message 12],
        db_sessions := [demo_session\<lparr>as_status := Active, as_event_seq := 2\<rparr>]\<rparr>, demo_message 12)"
    by (simp add: persist_message_def next_seq_def demo_env_def demo_first demo_session_def
        demo_pinned_def demo_agent_def demo_request_def demo_message_def update_where_def
        flush_session_def Let_def)
  let ?t = "new_turn default_settings (demo_env 12) demo_session demo_pinned demo_context
      (demo_request ''k2'') (demo_message 12)"
  have t: "?t = demo_next"
    by (simp add: demo_next_def new_turn_def demo_row_def demo_message_def
        demo_env_def demo_session_def demo_pinned_def demo_agent_def demo_context_def
        demo_request_def default_settings_def)
  have u: "unique_ok (db_turns demo_db1) ?t"
    unfolding t by (simp add: unique_ok_def demo_first demo_next_def demo_row_def)
  note st = create_turn_stores [OF c demo_admit p u demo_no_memory_error]
  show "db_turns demo_db2 = [demo_row 11 ''k1'', demo_next]"
    "db_messages demo_db2 = [demo_message 11, demo_message 12]"
    "db_sessions demo_db2 = [demo_session\<lparr>as_status := Active, as_event_seq := 2\<rparr>]"
    using st t by (simp_all add: demo_db2_def demo_first)
qed

lemma demo_guard: "claim_guard 111 (4, [demo_row 11 ''k1'', demo_next]) (demo_row 11 ''k1'')"
  "\<not> claim_guard 111 (4, [demo_row 11 ''k1'', demo_next]) demo_next"
  by code_simp+

lemma demo_claim:
  "claim default_settings 0 300 111 4 ''w'' demo_db2 = (demo_db3, Some demo_copy)"
  "db_turns demo_db3 = [demo_copy, demo_next]"
proof -
  have get: "get_turn 4 111 [demo_copy, demo_next] = Some demo_copy"
    by (simp add: get_turn_def demo_copy_def demo_row_def claim_vals_def scoped_def)
  then show "claim default_settings 0 300 111 4 ''w'' demo_db2 = (demo_db3, Some demo_copy)"
    "db_turns demo_db3 = [demo_copy, demo_next]"
    using demo_second(1) demo_guard get
    by (simp_all add: demo_db3_def claim_def Let_def matching_def update_where_def
        default_settings_def demo_copy_def [symmetric])
qed

lemmas demo_defs = demo_copy_def demo_next_def demo_row_def claim_vals_def

lemma demo_rows:
  "db_turns (w_db demo_world) = [demo_copy, demo_next]"
  "ct_id demo_copy = 111" "ct_id demo_next = 112" "ct_status demo_copy = Claimed"
  "ct_status demo_next = Queued" "ct_company_id demo_copy = 4" "ct_company_id demo_next = 4"
  "ct_session_id demo_copy = 5" "ct_session_id demo_next = 5" "ct_turn_seq demo_copy = 1"
  "ct_turn_seq demo_next = 2" "ct_idempotency_key demo_copy = ''k1''"
  "ct_cancel_requested_at demo_copy = None" "ct_cancel_requested_at demo_next = None"
  "ct_claimed_by demo_copy = Some ''w''" "ct_execution_id demo_copy = Some 300"
  "ct_attempt_count demo_copy = 1" "w_running demo_world = [(''w'', demo_copy)]"
  by (simp_all add: demo_world_def demo_claim demo_defs)

lemma demo_reachable: "reachable demo_world"
proof -
  let ?w0 = "\<lparr>w_db = demo_db0, w_running = [], w_lapsed = [], w_stale = []\<rparr>"
  have r0: "reachable ?w0"
    by (rule start) (simp add: initial_def demo_db0_def)
  have "step ?w0 (?w0\<lparr>w_db := demo_db1\<rparr>)"
    by (rule create [of default_settings "demo_env 11" demo_session demo_agent "demo_request ''k1''"])
      (simp add: demo_db1_def prod_eq_iff)
  with r0 have r1: "reachable (?w0\<lparr>w_db := demo_db1\<rparr>)" by (rule next_world)
  have "step (?w0\<lparr>w_db := demo_db1\<rparr>) (?w0\<lparr>w_db := demo_db1, w_db := demo_db2\<rparr>)"
    by (rule create [of default_settings "demo_env 12" demo_session demo_agent "demo_request ''k2''"])
      (simp add: demo_db2_def prod_eq_iff)
  with r1 have r2: "reachable (?w0\<lparr>w_db := demo_db2\<rparr>)" by (auto intro: next_world)
  have "step (?w0\<lparr>w_db := demo_db2\<rparr>) demo_world"
    using step.claim [of "?w0\<lparr>w_db := demo_db2\<rparr>" "''w''" 111 default_settings 0 300 4 demo_db3 demo_copy]
      demo_claim(1) by (simp add: demo_world_def)
  with r2 show ?thesis by (rule next_world)
qed

section \<open>Order and lifecycle\<close>

lemma reachable_facts:
  assumes "reachable w"
  shows "distinct (map ct_id (db_turns (w_db w)))" "\<forall>r \<in> set (db_turns (w_db w)). row_ok r"
    "in_order (db_turns (w_db w))" "\<forall>c \<in> set (w_running w). copy_ok (db_turns (w_db w)) c"
    "keys_ok (db_turns (w_db w))"
  using reachable_inv [OF assms] by (auto simp: inv_def keys_ok_def)

lemma demo_in_order: "demo_copy \<in> set (db_turns (w_db demo_world))"
  "demo_next \<in> set (db_turns (w_db demo_world))" "active demo_copy" "\<not> active demo_next"
  by (simp_all add: demo_rows class_defs)

text \<open>
  C1: within a session at most one turn is active, and it is active only when every turn with a
  smaller sequence number has finished, however clients, workers, crashes and recovery sweeps
  interleave.
\<close>

theorem one_turn_at_a_time:
  assumes "reachable w" and "t \<in> set (db_turns (w_db w))" and "active t"
    and "p \<in> set (db_turns (w_db w))" and "same_session p t" and "ct_id p \<noteq> ct_id t"
  shows "\<not> active p \<and> (ct_turn_seq p < ct_turn_seq t \<longrightarrow> finished p)"
  using no_turn_aheadD [OF in_orderD [OF reachable_facts(3) [OF assms(1)] assms(2,3)] assms(4-6)]
  by simp

theorem one_turn_at_a_time_witness: "active demo_copy \<and> \<not> active demo_next"
  using one_turn_at_a_time [OF demo_reachable demo_in_order(1,3,2)] demo_in_order(3)
  by (simp add: same_session_def demo_rows)

lemma moves_row:
  assumes m: "moves old new w w'" and d: "distinct (map ct_id (db_turns (w_db w)))"
    and r: "r \<in> set (db_turns (w_db w))"
  shows "\<exists>r' \<in> set (db_turns (w_db w')). identity r' = identity r \<and>
     ct_attempt_count r \<le> ct_attempt_count r' \<and>
     (r' = r \<or> \<not> finished r \<and> ct_status r' \<in> set (LIFECYCLE (ct_status r)))"
proof -
  have rep: "replaced ct_id old new (db_turns (w_db w)) (db_turns (w_db w'))"
    and l: "legal (db_turns (w_db w)) old new" using m by (simp_all add: moves_def)
  show ?thesis
  proof (cases "r = old")
    case True
    with rep legalD [OF l] show ?thesis by (intro bexI [of _ new]) (auto simp: replaced_def)
  next
    case False
    with rep r show ?thesis by (intro bexI [of _ r]) (auto simp: replaced_def)
  qed
qed

lemma step_row:
  assumes "reachable w" and s: "step w w'" and r: "r \<in> set (db_turns (w_db w))"
  shows "\<exists>r' \<in> set (db_turns (w_db w')). identity r' = identity r \<and>
     ct_attempt_count r \<le> ct_attempt_count r' \<and>
     (r' = r \<or> \<not> finished r \<and> ct_status r' \<in> set (LIFECYCLE (ct_status r)))"
proof -
  note d = reachable_facts(1) [OF assms(1)]
  from step_shape [OF s d] consider "quiet w w'" | t where "inserts t w w'"
    | old new where "moves old new w w'" by blast
  then show ?thesis
  proof cases
    case 3
    then show ?thesis by (rule moves_row [OF _ d r])
  qed (use r in \<open>auto simp: quiet_def inserts_def intro!: bexI [of _ r]\<close>)
qed

text \<open>
  C8: every step keeps every turn: its identity columns never change, its attempt number never
  falls, its status moves along \<open>LIFECYCLE\<close> or not at all, and a finished turn's row is never
  written again, so a completed, failed, cancelled or expired turn keeps its outcome for ever.
\<close>

theorem turn_lifecycle:
  assumes "reachable w" and "step w w'" and "r \<in> set (db_turns (w_db w))"
  shows "\<exists>r' \<in> set (db_turns (w_db w')). identity r' = identity r \<and>
     ct_attempt_count r \<le> ct_attempt_count r' \<and>
     (r' = r \<or> \<not> finished r \<and> ct_status r' \<in> set (LIFECYCLE (ct_status r)))"
  by (rule step_row [OF assms])

lemma demo_drop: "step demo_world (demo_world\<lparr>w_running := filter (\<lambda>_. False) (w_running demo_world)\<rparr>)"
  by (rule drop)

theorem turn_lifecycle_witness:
  "\<exists>r' \<in> set (db_turns (w_db (demo_world\<lparr>w_running := []\<rparr>))). identity r' = identity demo_copy"
  using turn_lifecycle [OF demo_reachable demo_drop demo_in_order(1)] by auto

section \<open>Fencing\<close>

lemma copy_row:
  assumes "reachable w" and "(wk, c) \<in> set (w_running w)" and "r \<in> set (db_turns (w_db w))"
    and "ct_id r = ct_id c" and "active r" and "ct_claimed_by r = Some wk"
  shows "epoch r = epoch c" "identity r = identity c"
proof -
  from reachable_facts(4) [OF assms(1)] assms(2) obtain s where
    s: "s \<in> set (db_turns (w_db w))" "identity s = identity c"
      "active s \<and> ct_claimed_by s = Some wk \<longrightarrow> epoch s = epoch c"
    by (force simp: copy_ok_def)
  from same_key_same_row [OF reachable_facts(1) [OF assms(1)] s(1) assms(3)] identity_eqD(1) [OF s(2)]
    assms(4) have "s = r" by simp
  with s assms show "epoch r = epoch c" "identity r = identity c" by simp_all
qed

lemma held_by_iff:
  "held_by (ct_id c) (ct_company_id c, wk) r \<longleftrightarrow> ct_id r = ct_id c \<and> ct_company_id r = ct_company_id c \<and>
     ct_claimed_by r = Some wk \<and> active r"
  by (auto simp: held_by_def scoped_def active_def)

lemma not_held:
  assumes w: "reachable w" and c: "(wk, c) \<in> set (w_running w)"
    and r: "r \<in> set (db_turns (w_db w))" "ct_id r = ct_id c"
    and e: "epoch r \<noteq> epoch c \<or> \<not> active r"
  shows "matching (held_by (ct_id c) (ct_company_id c, wk)) (db_turns (w_db w)) = 0"
  unfolding matching_0_iff
proof (intro ballI notI)
  fix x
  assume x: "x \<in> set (db_turns (w_db w))" "held_by (ct_id c) (ct_company_id c, wk) x"
  then have "x = r"
    using same_key_same_row [OF reachable_facts(1) [OF w] x(1) r(1)] r(2) by (simp add: held_by_iff)
  with x copy_row(1) [OF w c x(1)] e show False by (simp add: held_by_iff)
qed

text \<open>
  C3: fencing. A worker whose copy of a turn is from an earlier attempt (the row was recovered
  and claimed again, even by a worker of the same name), or whose turn is no longer active, can
  change nothing: its result is discarded, its lease renewal reports the loss, its release is
  refused, and no table changes (the process counter of discarded results apart).
\<close>

theorem stale_worker_refused:
  assumes "reachable w" and "(wk, c) \<in> set (w_running w)"
    and "r \<in> set (db_turns (w_db w))" and "ct_id r = ct_id c"
    and "epoch r \<noteq> epoch c \<or> \<not> active r"
  shows "finalize now mid c wk oc (w_db w) = (count ''result_discarded'' (w_db w), Inr None) \<and>
    renew cfg now c wk (w_db w) = (w_db w, Lost) \<and>
    release now c wk reason (w_db w) = (w_db w, False)"
proof -
  note m = not_held [OF assms]
  have "update_where (held_by (ct_id c) (ct_company_id c, wk)) f (db_turns (w_db w)) = db_turns (w_db w)"
    for f using m by (simp add: update_where_none matching_0_iff)
  with m show ?thesis by (simp add: finalize_def renew_def release_def)
qed

lemma demo_released:
  assumes "w = demo_world\<lparr>w_db := fst (release 5 demo_copy ''w'' ''worker_shutdown'' demo_db3)\<rparr>"
  shows "reachable w" "w_running w = [(''w'', demo_copy)]"
    "release_vals 5 demo_copy \<in> set (db_turns (w_db w))"
proof -
  have "step demo_world w"
    using step.release [of "''w''" demo_copy demo_world 5 "''worker_shutdown''"
        "fst (release 5 demo_copy ''w'' ''worker_shutdown'' demo_db3)"
        "snd (release 5 demo_copy ''w'' ''worker_shutdown'' demo_db3)"]
    by (simp add: assms demo_world_def)
  then show "reachable w" by (rule next_world [OF demo_reachable])
  show "w_running w = [(''w'', demo_copy)]" by (simp add: assms demo_rows)
  have "held_by (ct_id demo_copy) (ct_company_id demo_copy, ''w'') demo_copy"
    by (simp add: held_by_def scoped_def ACTIVE_STATUSES_def demo_rows)
  moreover have "\<not> held_by (ct_id demo_copy) (ct_company_id demo_copy, ''w'') demo_next"
    by (simp add: held_by_def scoped_def demo_rows)
  ultimately show "release_vals 5 demo_copy \<in> set (db_turns (w_db w))"
    by (simp add: assms release_def demo_claim(2) matching_def update_where_def)
qed

theorem stale_worker_refused_witness:
  "snd (finalize 6 400 demo_copy ''w'' (cancelled_outcome [])
     (fst (release 5 demo_copy ''w'' ''worker_shutdown'' demo_db3))) = Inr None"
  using stale_worker_refused [OF demo_released(1) [OF refl], of "''w''" demo_copy
      "release_vals 5 demo_copy" 6 400 "cancelled_outcome []"] demo_released [OF refl]
  by (simp add: release_vals_def class_defs)

text \<open>
  A result that is stored is the result of the current attempt: the row was active, held by
  this worker under the copy's own execution id and attempt number, and had no reply yet.
\<close>

theorem stored_result_is_current:
  assumes "reachable w" and "(wk, c) \<in> set (w_running w)"
    and "finalize now mid c wk oc (w_db w) = (db', Inr (Some fresh))"
  shows "\<exists>r \<in> set (db_turns (w_db w)). identity r = identity c \<and> epoch r = epoch c \<and> active r \<and>
    ct_claimed_by r = Some wk \<and> ct_response_message_id r = None \<and>
    fresh = finalized now mid c oc r"
  using assms(3) reachable_facts(1) [OF assms(1)]
proof (cases rule: finalize_cases)
  case (stored old)
  then have o: "old \<in> set (db_turns (w_db w))" "ct_id old = ct_id c" "active old"
    "ct_claimed_by old = Some wk" by (auto simp: held_by_iff replaced_def)
  with copy_row [OF assms(1,2) o] stored row_ok_active(1) reachable_facts(2) [OF assms(1)]
  show ?thesis by (intro bexI [of _ old]) auto
qed simp_all

lemma finalize_fails:
  assumes f: "finalize now mid t w oc db = (db', Inl e)" and d: "distinct (map ct_id (db_turns db))"
    and r: "r \<in> set (db_turns db)" and h: "held_by (ct_id t) (ct_company_id t, w) r"
  shows "\<exists>b ts. oc_text oc = Some b \<and>
    persist_message now mid (ct_agent_id t) (ct_company_id t) ''agent'' b (ct_session_id t)
        (oc_model_used oc) (oc_tokens_used oc) (reply_payload oc) (db\<lparr>db_turns := ts\<rparr>) = None"
proof (rule ccontr)
  assume n: "\<not> ?thesis"
  let ?g = "held_by (ct_id t) (ct_company_id t, w)"
  let ?f = "finalize_vals now (ct_result t) oc"
  let ?ts = "update_where ?g ?f (db_turns db)"
  have "?f r \<in> set ?ts" using h r by (force simp: set_update_where)
  moreover have sc: "scoped (ct_id t) (ct_company_id t) (?f r)"
    using h by (simp add: finalize_vals_def held_by_def scoped_def)
  ultimately have g1: "get_turn (ct_company_id t) (ct_id t) ?ts \<noteq> None"
    and "response_vals k (?f r) \<in> set (update_where (scoped (ct_id t) (ct_company_id t)) (response_vals k) ?ts)"
    for k using get_turn_None by (blast, force simp: set_update_where)
  moreover have "scoped (ct_id t) (ct_company_id t) (response_vals k (?f r))" for k
    using sc by (simp add: scoped_def response_vals_def)
  ultimately have g2: "get_turn (ct_company_id t) (ct_id t)
      (update_where (scoped (ct_id t) (ct_company_id t)) (response_vals k) ?ts) \<noteq> None" for k
    using get_turn_None by blast
  show False
  proof (cases "oc_text oc")
    case None
    with f g1 show ?thesis by (auto simp: finalize_def Let_def split: if_splits)
  next
    case (Some b)
    with n obtain db2 m where pm: "persist_message now mid (ct_agent_id t) (ct_company_id t) ''agent'' b
        (ct_session_id t) (oc_model_used oc) (oc_tokens_used oc) (reply_payload oc)
        (db\<lparr>db_turns := ?ts\<rparr>) = Some (db2, m)" by fastforce
    with persist_message_effect(1) [OF pm] g2 [of "cm_id m"] f Some show ?thesis
      by (auto simp: finalize_def Let_def split: if_splits)
  qed
qed

text \<open>A worker that holds the row stores its result, if the reply can be stored.\<close>

lemma finalize_held:
  assumes d: "distinct (map ct_id (db_turns db))" and r: "r \<in> set (db_turns db)"
    and h: "held_by (ct_id t) (ct_company_id t, w) r"
    and p: "\<And>b ts. oc_text oc = Some b \<Longrightarrow>
      persist_message now mid (ct_agent_id t) (ct_company_id t) ''agent'' b (ct_session_id t)
        (oc_model_used oc) (oc_tokens_used oc) (reply_payload oc) (db\<lparr>db_turns := ts\<rparr>) \<noteq> None"
  obtains db' where "finalize now mid t w oc db = (db', Inr (Some (finalized now mid t oc r)))"
    "replaced ct_id r (finalized now mid t oc r) (db_turns db) (db_turns db')"
proof -
  let ?g = "held_by (ct_id t) (ct_company_id t, w)"
  obtain db' res where f: "finalize now mid t w oc db = (db', res)" by (cases "finalize now mid t w oc db")
  from f d show ?thesis
  proof (cases rule: finalize_cases)
    case discarded
    have "row_of ct_id (ct_id t) (db_turns db) = Some r"
      using row_of_iff [OF d] r h by (simp add: held_by_def scoped_def)
    then have "matching ?g (db_turns db) = 1"
      using finalize_upd.rowcount_one_iff [OF d] h by blast
    with f discarded show ?thesis
      by (auto simp: finalize_def Let_def split: option.splits)
  next
    case failed
    with f have "finalize now mid t w oc db = (db', Inl ReplyNotStored)" by simp
    from finalize_fails [OF this d r h] p show ?thesis by blast
  next
    case (stored old)
    then have "old = r"
      using same_key_same_row [OF d, of old r] r h by (auto simp: replaced_def held_by_def scoped_def)
    with f stored that show ?thesis by blast
  qed
qed

theorem stored_result_is_current_witness:
  "\<exists>r \<in> set (db_turns demo_db3). epoch r = epoch demo_copy \<and> ct_response_message_id r = None"
proof -
  have n: "oc_text (cancelled_outcome []) = None" by (simp add: cancelled_outcome_def)
  have "held_by (ct_id demo_copy) (ct_company_id demo_copy, ''w'') demo_copy"
    by (simp add: held_by_def scoped_def ACTIVE_STATUSES_def demo_rows)
  then obtain db' where f: "finalize 9 400 demo_copy ''w'' (cancelled_outcome []) (w_db demo_world) =
      (db', Inr (Some (finalized 9 400 demo_copy (cancelled_outcome []) demo_copy)))"
    by (rule finalize_held [OF reachable_facts(1) [OF demo_reachable] demo_in_order(1)])
      (use n in auto)
  show ?thesis
    using stored_result_is_current [OF demo_reachable _ f] by (auto simp: demo_rows demo_world_def)
qed

section \<open>Replies\<close>

text \<open>
  The messages a call of \<open>finalize\<close> stored for a turn, and runs of the system that log them: a
  step that is a \<open>finalize\<close> of a worker's copy appends to the log, and no other step does.
\<close>

definition replies_stored :: "chat_turn \<Rightarrow> turn_db \<Rightarrow> turn_db \<Rightarrow> (uuid \<times> uuid) list" where
  "replies_stored t db db' =
    map (\<lambda>m. (ct_id t, cm_id m)) (drop (length (db_messages db)) (db_messages db'))"

inductive answering :: "world \<Rightarrow> (uuid \<times> uuid) list \<Rightarrow> bool" where
  no_answer: "initial w \<Longrightarrow> answering w []"
| answer: "answering w log \<Longrightarrow> (wk, t) \<in> set (w_running w) \<Longrightarrow> is_report oc \<Longrightarrow>
    finalize now mid t wk oc (w_db w) = (db', res) \<Longrightarrow>
    answering (w\<lparr>w_db := db'\<rparr>) (log @ replies_stored t (w_db w) db')"
| other: "answering w log \<Longrightarrow> step w w' \<Longrightarrow> \<not> finishes w w' \<Longrightarrow> answering w' log"

lemma answering_reachable: "answering w log \<Longrightarrow> reachable w"
proof (induction rule: answering.induct)
  case (answer w log wk t oc now mid db' res)
  show ?case by (rule next_world [OF answer(5) step.finish [OF answer(2-4)]])
qed (auto intro: start next_world)

lemma reachable_answering: "reachable w \<Longrightarrow> \<exists>log. answering w log"
proof (induction rule: reachable.induct)
  case (next_world w w')
  then obtain log where log: "answering w log" by blast
  show ?case
  proof (cases "finishes w w'")
    case True
    with answering.answer [OF log] show ?thesis unfolding finishes_def by blast
  next
    case False
    with answering.other [OF log next_world(2)] show ?thesis by blast
  qed
qed (auto intro: no_answer)

definition answers :: "chat_turn list \<Rightarrow> (uuid \<times> uuid) set" where
  "answers ts = {(ct_id t, m) | t m. t \<in> set ts \<and> ct_response_message_id t = Some m}"

lemma answers_answered: "answers ts = (\<lambda>t. (ct_id t, the (ct_response_message_id t))) ` answered ts"
  by (force simp: answers_def answered_def)

lemma answers_replaced:
  assumes r: "replaced ct_id old new ts ts'" and n: "ct_response_message_id old = None"
  shows "answers ts' = (case ct_response_message_id new of None \<Rightarrow> answers ts
    | Some m \<Rightarrow> insert (ct_id new, m) (answers ts))"
proof -
  have s: "set ts' = insert new (set ts - {old})" using r by (simp add: replaced_def)
  have "answers ts' = {(ct_id new, m) | m. ct_response_message_id new = Some m} \<union>
      {(ct_id t, m) | t m. t \<in> set ts - {old} \<and> ct_response_message_id t = Some m}"
    unfolding answers_def s by blast
  also have "{(ct_id t, m) | t m. t \<in> set ts - {old} \<and> ct_response_message_id t = Some m} = answers ts"
    using n unfolding answers_def by force
  finally show ?thesis by (cases "ct_response_message_id new") auto
qed

lemma other_step_answers:
  assumes w: "reachable w" and s: "step w w'" and n: "\<not> finishes w w'"
  shows "answers (db_turns (w_db w')) = answers (db_turns (w_db w))"
proof -
  have "answered (db_turns (w_db w')) \<subseteq> answered (db_turns (w_db w))"
    using step_response [OF s reachable_facts(1,2) [OF w]] n by blast
  moreover have "r \<in> answered (db_turns (w_db w'))" if r: "r \<in> answered (db_turns (w_db w))" for r
  proof -
    from r have "r \<in> set (db_turns (w_db w))" "ct_response_message_id r \<noteq> None"
      by (auto simp: answered_def)
    with reachable_facts(2) [OF w] have "finished r" by (auto simp: row_ok_def)
    with step_row [OF w s, of r] r show ?thesis by (auto simp: answered_def)
  qed
  ultimately show ?thesis unfolding answers_answered by blast
qed

lemma answer_step_answers:
  assumes w: "reachable w" and c: "(wk, t) \<in> set (w_running w)"
    and f: "finalize now mid t wk oc (w_db w) = (db', res)"
  shows "answers (db_turns db') = answers (db_turns (w_db w)) \<and> replies_stored t (w_db w) db' = [] \<or>
    (\<exists>m. answers (db_turns db') = insert (ct_id t, m) (answers (db_turns (w_db w))) \<and>
       replies_stored t (w_db w) db' = [(ct_id t, m)] \<and> ct_id t \<notin> fst ` answers (db_turns (w_db w)))"
  using f reachable_facts(1) [OF w]
proof (cases rule: finalize_cases)
  case (stored old)
  let ?new = "finalized now mid t oc old"
  have o: "old \<in> set (db_turns (w_db w))" "ct_id old = ct_id t" "active old"
    using stored(1,3) by (auto simp: held_by_iff replaced_def)
  with reachable_facts(2) [OF w] have none: "ct_response_message_id old = None"
    by (auto dest: row_ok_active)
  have unanswered: "ct_id t \<notin> fst ` answers (db_turns (w_db w))"
  proof
    assume "ct_id t \<in> fst ` answers (db_turns (w_db w))"
    then obtain u where "u \<in> set (db_turns (w_db w))" "ct_id u = ct_id t" "ct_response_message_id u \<noteq> None"
      by (auto simp: answers_def)
    with o none same_key_same_row [OF reachable_facts(1) [OF w], of u old] show False by auto
  qed
  have ids: "ct_id ?new = ct_id t" using stored(3) o(2) by (simp add: replaced_def)
  note rows = answers_replaced [OF stored(3) none]
  show ?thesis
  proof (cases "oc_text oc = None")
    case True
    then have "ct_response_message_id ?new = None"
      using none by (simp add: finalized_def finalize_vals_def)
    with rows have "answers (db_turns db') = answers (db_turns (w_db w))" by simp
    with stored(5) [OF True] show ?thesis by (simp add: replies_stored_def)
  next
    case False
    from stored(6) [OF False] obtain m where "db_messages db' = db_messages (w_db w) @ [m]" "cm_id m = mid" by blast
    then have "replies_stored t (w_db w) db' = [(ct_id t, mid)]" by (simp add: replies_stored_def)
    moreover have "ct_response_message_id ?new = Some mid"
      using False by (auto simp: finalized_def Let_def vals_defs)
    with rows ids have "answers (db_turns db') = insert (ct_id t, mid) (answers (db_turns (w_db w)))" by simp
    ultimately show ?thesis using unanswered by blast
  qed
qed (simp_all add: replies_stored_def count_def)

lemma answering_log:
  "answering w log \<Longrightarrow> distinct (map fst log) \<and> set log = answers (db_turns (w_db w))"
proof (induction rule: answering.induct)
  case (no_answer w)
  then show ?case by (simp add: initial_def answers_def)
next
  case (answer w log wk t oc now mid db' res)
  from answer_step_answers [OF answering_reachable [OF answer(1)] answer(2,4)] answer(5)
  show ?case by (auto simp: image_iff)
next
  case (other w log w')
  with other_step_answers [OF answering_reachable] show ?case by simp
qed

text \<open>
  C9: over any run of the system, \<open>finalize\<close> stores at most one message for a turn, whichever
  workers, attempts and recoveries the turn went through: in the log of the messages it stored no
  turn comes twice. The log is exactly what the turns record as their replies, and a turn with a
  reply has finished, its reply is an agent's message of its own session, and no other turn
  records that message.
\<close>

theorem one_reply_per_turn:
  assumes "answering w log"
  shows "distinct (map fst log) \<and>
    set log = {(ct_id t, m) | t m. t \<in> set (db_turns (w_db w)) \<and> ct_response_message_id t = Some m} \<and>
    (\<forall>t \<in> set (db_turns (w_db w)). \<forall>m. ct_response_message_id t = Some m \<longrightarrow> finished t \<and>
       (\<exists>x \<in> set (db_messages (w_db w)). cm_id x = m \<and> cm_sender x = ''agent'' \<and>
          cm_session_id x = Some (ct_session_id t)) \<and>
       {p \<in> set (db_turns (w_db w)). ct_response_message_id p = Some m} = {t})"
proof (intro conjI ballI allI impI)
  note w = answering_reachable [OF assms]
  note ok = reachable_replies [OF w]
  show "distinct (map fst log)"
    and "set log = {(ct_id t, m) | t m. t \<in> set (db_turns (w_db w)) \<and> ct_response_message_id t = Some m}"
    using answering_log [OF assms] by (simp_all add: answers_def)
  fix t m assume t: "t \<in> set (db_turns (w_db w))" "ct_response_message_id t = Some m"
  then have a: "t \<in> answered (db_turns (w_db w))" by (simp add: answered_def)
  from reachable_facts(2) [OF w] t show "finished t" unfolding row_ok_def by force
  from ok a have "has_reply (db_messages (w_db w)) t" by (simp add: replies_ok_def)
  with t(2) show "\<exists>x \<in> set (db_messages (w_db w)). cm_id x = m \<and> cm_sender x = ''agent'' \<and>
      cm_session_id x = Some (ct_session_id t)" by (simp add: has_reply_def)
  have "p = t" if "p \<in> set (db_turns (w_db w))" "ct_response_message_id p = Some m" for p
  proof (rule inj_onD)
    show "inj_on ct_response_message_id (answered (db_turns (w_db w)))"
      using ok by (simp add: replies_ok_def)
  qed (use that t in \<open>simp_all add: answered_def\<close>)
  with t show "{p \<in> set (db_turns (w_db w)). ct_response_message_id p = Some m} = {t}" by blast
qed

text \<open>The demo turn, answered.\<close>

lemma demo_frames: "db_messages demo_db3 = [demo_message 11, demo_message 12]"
  "db_sessions demo_db3 = [demo_session\<lparr>as_status := Active, as_event_seq := 2\<rparr>]"
proof -
  have "distinct (map ct_id (db_turns demo_db2))"
    by (simp add: demo_second demo_next_def demo_row_def)
  with demo_claim(1) show "db_messages demo_db3 = [demo_message 11, demo_message 12]"
    "db_sessions demo_db3 = [demo_session\<lparr>as_status := Active, as_event_seq := 2\<rparr>]"
    by (cases rule: claim_cases, simp_all add: demo_second)+
qed

lemma demo_stores: "persist_message 9 400 (ct_agent_id demo_copy) (ct_company_id demo_copy) ''agent'' b
    (ct_session_id demo_copy) m n pl (demo_db3\<lparr>db_turns := ts\<rparr>) \<noteq> None"
  by (simp add: persist_message_def next_seq_def demo_frames demo_session_def demo_rows
      demo_message_def Let_def)

definition demo_done :: outcome where
  "demo_done = \<lparr>oc_status = Completed, oc_prompt = ''hello'', oc_text = Some ''hi'',
     oc_model_used = None, oc_tokens_used = 0, oc_execution = [], oc_partial = False,
     oc_error_code = None, oc_error_message = None, oc_result = None\<rparr>"

lemma demo_answered:
  obtains w r where "reachable w" "r \<in> set (db_turns (w_db w))" "ct_response_message_id r = Some 400"
    "ct_id r = 111"
proof -
  have "held_by (ct_id demo_copy) (ct_company_id demo_copy, ''w'') demo_copy"
    by (simp add: held_by_def scoped_def ACTIVE_STATUSES_def demo_rows)
  then obtain db' where f: "finalize 9 400 demo_copy ''w'' demo_done (w_db demo_world) =
      (db', Inr (Some (finalized 9 400 demo_copy demo_done demo_copy)))"
    and r: "replaced ct_id demo_copy (finalized 9 400 demo_copy demo_done demo_copy)
      (db_turns (w_db demo_world)) (db_turns db')"
    by (rule finalize_held [OF reachable_facts(1) [OF demo_reachable] demo_in_order(1)])
      (unfold demo_world_def world.select_convs, rule demo_stores)
  have "is_report demo_done"
    unfolding is_report_def
    by (intro disjI1 exI [of _ "''hello''"] exI [of _ "[]"] exI [of _ "Done ''hi'' None 0"])
      (simp add: outcome_of_call_def demo_done_def)
  then have "reachable (demo_world\<lparr>w_db := db'\<rparr>)"
    using next_world [OF demo_reachable step.finish [OF _ _ f]] by (simp add: demo_rows)
  moreover have "finalized 9 400 demo_copy demo_done demo_copy \<in> set (db_turns db')"
    using r by (simp add: replaced_def)
  moreover have "ct_response_message_id (finalized 9 400 demo_copy demo_done demo_copy) = Some 400"
    "ct_id (finalized 9 400 demo_copy demo_done demo_copy) = 111"
    by (simp_all add: finalized_def demo_done_def response_vals_def finalize_vals_def demo_rows)
  ultimately show ?thesis by (intro that [of "demo_world\<lparr>w_db := db'\<rparr>"]) auto
qed

theorem one_reply_per_turn_witness:
  "\<exists>w log. answering w log \<and> distinct (map fst log) \<and> (111, 400) \<in> set log"
proof -
  obtain w r where w: "reachable w" "r \<in> set (db_turns (w_db w))" "ct_response_message_id r = Some 400"
    "ct_id r = 111" by (rule demo_answered)
  from reachable_answering [OF w(1)] obtain log where log: "answering w log" by blast
  note o = one_reply_per_turn [OF log]
  from w(2-4) have "(111, 400) \<in> {(ct_id t, m) | t m. t \<in> set (db_turns (w_db w)) \<and> ct_response_message_id t = Some m}"
    unfolding mem_Collect_eq by (intro exI [of _ r] exI [of _ 400]) simp
  then have "(111, 400) \<in> set log" unfolding conjunct1 [OF conjunct2 [OF o]] .
  with log conjunct1 [OF o] show ?thesis by blast
qed

section \<open>Creation\<close>

lemma find_by_key_SomeD:
  "find_by_key cid sid k ts = Some t \<Longrightarrow> t \<in> set ts \<and> ct_company_id t = cid \<and> ct_session_id t = sid \<and>
     ct_idempotency_key t = k"
  by (auto simp: find_by_key_def find_Some_iff)

lemma find_by_key_in:
  assumes "keys_ok ts" "t \<in> set ts" "ct_company_id t = cid" "ct_session_id t = sid"
    "ct_idempotency_key t = k"
  shows "find_by_key cid sid k ts = Some t"
proof (cases "find_by_key cid sid k ts")
  case None
  with assms(2-5) show ?thesis by (auto simp: find_by_key_def find_None_iff)
next
  case (Some u)
  note u = find_by_key_SomeD [OF Some]
  have "distinct (map (\<lambda>t. (ct_company_id t, ct_session_id t, ct_idempotency_key t)) ts)"
    using assms(1) by (simp add: keys_ok_def)
  from same_key_same_row [OF this, of u t] u assms(2-5) Some show ?thesis by simp
qed

lemma steps_row:
  assumes "step\<^sup>*\<^sup>* w w'" and "reachable w" and "r \<in> set (db_turns (w_db w))"
  shows "reachable w' \<and> (\<exists>r' \<in> set (db_turns (w_db w')). identity r' = identity r)"
  using assms
proof (induction rule: rtranclp_induct)
  case base
  then show ?case by blast
next
  case (step y z)
  then obtain r' where r': "r' \<in> set (db_turns (w_db y))" "identity r' = identity r" "reachable y" by blast
  from step_row [OF r'(3) step(2) r'(1)] r' step(2) show ?case
    by (auto intro: next_world)
qed

text \<open>
  An idempotency key is good for one turn, for ever: once a session has a turn with the key,
  every later request with it, whatever its prompt, principal or settings and whatever happened
  in between (the turn ran, failed, was cancelled, the session ended), is answered with that
  turn and stores nothing: no turn, no message, no session or directive changes.
\<close>

theorem create_turn_idempotent:
  assumes "reachable w" and "t \<in> set (db_turns (w_db w))" and "step\<^sup>*\<^sup>* w w'"
    and "as_company_id s = ct_company_id t" and "as_id s = ct_session_id t"
    and "rq_key rq = Some (ct_idempotency_key t)" and "ct_idempotency_key t \<noteq> []"
  shows "\<exists>t'. create_turn cfg env s a rq (w_db w') =
      (count ''duplicate_suppressed'' (w_db w'), Inr (t', True)) \<and> identity t' = identity t"
proof -
  from steps_row [OF assms(3,1,2)] obtain r where
    r: "reachable w'" "r \<in> set (db_turns (w_db w'))" "identity r = identity t" by blast
  note ieq = identity_eqD [OF r(3)]
  have "find_by_key (as_company_id s) (as_id s) (ct_idempotency_key t) (db_turns (w_db w')) = Some r"
    using r(2) ieq assms by (intro find_by_key_in [OF reachable_facts(5) [OF r(1)]]) simp_all
  with assms(6,7) r(3) show ?thesis by (simp add: create_turn_def)
qed

theorem create_turn_idempotent_witness:
  "\<exists>t'. create_turn default_settings (demo_env 13) demo_session demo_agent (demo_request ''k1'')
       (w_db (demo_world\<lparr>w_running := []\<rparr>)) =
     (count ''duplicate_suppressed'' (w_db (demo_world\<lparr>w_running := []\<rparr>)), Inr (t', True)) \<and>
     identity t' = identity demo_copy"
  using create_turn_idempotent [OF demo_reachable demo_in_order(1) r_into_rtranclp [of step, OF demo_drop],
      of demo_session "demo_request ''k1''"]
  by (simp add: demo_rows demo_session_def demo_request_def)

lemma admit_Inr:
  assumes "admit cfg env s a rq db = Inr (s', pinned, c)"
  shows "begin_session_turn (ce_now env) (ce_connections env) s a = Inr (s', pinned)"
    and "ag_status pinned \<noteq> ''configuration_required''" and "ce_adapter_error env pinned = None"
    and "\<exists>c0. for_call pinned (rq_principal rq) ''chat'' (Some (as_id s)) None None = Inr c0 \<and>
          c = request_context rq c0"
    and "ceo_refusal cfg env (as_company_id s) pinned rq db = None"
  using assms
  by (auto simp: admit_def split: sum.splits option.splits if_splits context_error.splits)

lemma admit_directive:
  assumes "admit cfg env s a rq db = Inr (s', pinned, c)" and "rq_record_directive rq"
  shows "(as_company_id s, ag_id pinned) \<in> set (db_ceos db) \<and>
      (\<exists>p. rq_principal rq = Some p \<and> is_human (auth_bypass_active cfg) p)"
  using admit_Inr(5) [OF assms(1)] assms(2)
  by (auto simp: ceo_refusal_def Let_def split: option.splits if_splits)

lemma store_turn_directives:
  assumes "store_turn cfg env s a rq db = (db', res)"
  shows "db_directives db' = db_directives db \<or>
    (rq_record_directive rq \<and> (\<exists>s' pinned c. admit cfg env s a rq db = Inr (s', pinned, c)) \<and>
     (\<exists>t d. res = Inr (t, False) \<and> db_directives db' = db_directives db @ [d] \<and>
       cd_turn_id d = ct_id t \<and> cd_company_id d = as_company_id s \<and> cd_session_id d = as_id s \<and>
       cd_content d = take CONTENT_MAX (rq_prompt rq)))"
proof (cases "admit cfg env s a rq db")
  case (Inl e)
  with assms show ?thesis by (auto simp: store_turn_def)
next
  case (Inr r)
  then obtain s' pinned c where a: "admit cfg env s a rq db = Inr (s', pinned, c)" by (cases r) auto
  let ?db1 = "db\<lparr>db_sessions := update_where (\<lambda>r. as_id r = as_id s)
            (flush_session s s') (db_sessions db)\<rparr>"
  let ?p = "persist_message (ce_now env) (ce_message_id env) (ag_id pinned) (as_company_id s)
         ''user'' (rq_prompt rq) (as_id s) None 0 None ?db1"
  show ?thesis
  proof (cases ?p)
    case None
    with assms a show ?thesis by (simp add: store_turn_def Let_def)
  next
    case (Some q)
    then obtain db2 m where p: "?p = Some (db2, m)" by (cases q) auto
    have "db_directives db2 = db_directives db"
      using p by (auto simp: persist_message_def Let_def split: option.splits if_splits)
    with assms a p show ?thesis
      by (auto simp: store_turn_def Let_def audit_def count_def publish_def split: option.splits if_splits)
  qed
qed

text \<open>
  A request puts a directive into the CEO's executive memory only when a person asked for
  it (a signed-in user, or the unauthenticated principal while authentication is off), the
  agent is the company's CEO, and the turn was newly stored; a run, an API key, a request with
  no principal, a duplicate and a refused request never do.
\<close>

theorem directive_only_from_human:
  assumes "create_turn cfg env s a rq db = (db', res)" and "db_directives db' \<noteq> db_directives db"
  shows "(\<exists>p. rq_principal rq = Some p \<and> is_human (auth_bypass_active cfg) p \<and> p_kind p \<noteq> Run) \<and>
    (\<exists>t d. res = Inr (t, False) \<and> db_directives db' = db_directives db @ [d] \<and>
       cd_turn_id d = ct_id t \<and> (as_company_id s, ct_agent_id t) \<in> set (db_ceos db))"
  using assms(1)
proof (cases rule: create_turn_cases)
  case (replay k t)
  with assms(2) show ?thesis by (simp add: count_def)
next
  case fresh
  from store_turn_directives [OF fresh(1)] assms(2) obtain s' pinned c t d where
    rd: "rq_record_directive rq" and a: "admit cfg env s a rq db = Inr (s', pinned, c)"
    and t: "res = Inr (t, False)" "db_directives db' = db_directives db @ [d]" "cd_turn_id d = ct_id t"
    by blast
  from admit_directive [OF a rd] obtain p where
    p: "rq_principal rq = Some p" "is_human (auth_bypass_active cfg) p"
      "(as_company_id s, ag_id pinned) \<in> set (db_ceos db)" by blast
  have "p_kind p \<noteq> Run" using run_is_not_human p(2) by blast
  moreover have "ct_agent_id t = ag_id pinned"
    using fresh(1)
  proof (cases rule: store_turn_cases)
    case (stored s2 pinned2 c2 m dbm)
    with a t show ?thesis by (auto simp: new_turn_def)
  qed (use t in simp_all)
  ultimately show ?thesis using p t by auto
qed

definition demo_user :: principal where
  "demo_user = \<lparr>p_kind = User, p_company_id = 4, p_role = ''admin'', p_user_id = Some 9, p_email = [],
     p_session_id = None, p_api_key_id = None, p_run_id = None, p_agent_id = None, p_label = []\<rparr>"

theorem directive_only_from_human_witness:
  "\<exists>p. rq_principal (demo_request ''k''\<lparr>rq_principal := Some demo_user, rq_record_directive := True\<rparr>) = Some p \<and>
     is_human False p \<and> p_kind p \<noteq> Run"
proof -
  let ?rq = "demo_request ''k''\<lparr>rq_principal := Some demo_user, rq_record_directive := True\<rparr>"
  let ?db = "demo_db0\<lparr>db_ceos := [(4, 7)]\<rparr>"
  have "db_directives (fst (create_turn default_settings (demo_env 11) demo_session demo_agent ?rq ?db)) \<noteq>
      db_directives ?db"
    by code_simp
  then show ?thesis
    using directive_only_from_human [of default_settings "demo_env 11" demo_session demo_agent ?rq ?db]
    by (cases "create_turn default_settings (demo_env 11) demo_session demo_agent ?rq ?db")
      (auto simp: default_settings_def)
qed

section \<open>Progress\<close>

lemma claim_succeeds:
  assumes d: "distinct (map ct_id (db_turns db))" and r: "r \<in> set (db_turns db)"
    and g: "claim_guard (ct_id r) (ct_company_id r, db_turns db) r"
  shows "\<exists>db'. claim cfg now e (ct_id r) (ct_company_id r) w db =
    (db', Some (claim_vals now (seconds (chat_turn_lease_seconds cfg)) w e r))"
proof -
  obtain db' res where c: "claim cfg now e (ct_id r) (ct_company_id r) w db = (db', res)"
    by (cases "claim cfg now e (ct_id r) (ct_company_id r) w db") auto
  from c d show ?thesis
  proof (cases rule: claim_cases)
    case miss
    with r g show ?thesis by blast
  next
    case (hit old new)
    then have "old = r"
      using same_key_same_row [OF d, of old r] r by (auto simp: claim_guard_def scoped_def replaced_def)
    with c hit show ?thesis by blast
  qed
qed

text \<open>
  C10: no session gets stuck behind its own order. In every reachable world a queued turn without
  a cancel request whose predecessors in the session have all finished can be claimed, by any
  worker at any time: it has a next attempt, and nothing else of the session is active.
\<close>

theorem head_of_session_claimable:
  assumes "reachable w" and "t \<in> set (db_turns (w_db w))" and "ct_status t = Queued"
    and "ct_cancel_requested_at t = None"
    and "\<forall>p \<in> set (db_turns (w_db w)). same_session p t \<and> ct_turn_seq p < ct_turn_seq t \<longrightarrow> finished p"
  shows "\<exists>db'. claim cfg now e (ct_id t) (ct_company_id t) wk (w_db w) =
    (db', Some (claim_vals now (seconds (chat_turn_lease_seconds cfg)) wk e t))"
proof -
  have "no_turn_ahead (db_turns (w_db w)) t"
    unfolding no_turn_ahead_iff
  proof (intro ballI impI)
    fix p
    assume p: "p \<in> set (db_turns (w_db w))" and s: "same_session p t \<and> ct_id p \<noteq> ct_id t"
    have "\<not> active p"
    proof
      assume a: "active p"
      have "distinct (map (\<lambda>t. (ct_session_id t, ct_turn_seq t)) (db_turns (w_db w)))"
        using reachable_facts(5) [OF assms(1)] by (simp add: keys_ok_def)
      from same_key_same_row [OF this p assms(2)] s have "ct_turn_seq p \<noteq> ct_turn_seq t"
        by (auto simp: same_session_def)
      moreover have "\<not> ct_turn_seq p < ct_turn_seq t" using assms(5) p s a by (auto simp: class_defs)
      moreover have "\<not> ct_turn_seq t < ct_turn_seq p"
        using no_turn_aheadD [OF in_orderD [OF reachable_facts(3) [OF assms(1)] p a] assms(2)] s assms(3)
        by (auto simp: same_session_def class_defs)
      ultimately show False by simp
    qed
    with assms(5) p s show "(ct_turn_seq p < ct_turn_seq t \<longrightarrow> finished p) \<and> \<not> active p" by blast
  qed
  with assms(3,4) have "claim_guard (ct_id t) (ct_company_id t, db_turns (w_db w)) t"
    by (simp add: claim_guard_def scoped_def)
  then show ?thesis by (rule claim_succeeds [OF reachable_facts(1) [OF assms(1)] assms(2)])
qed

theorem head_of_session_claimable_witness:
  "\<exists>w t db'. reachable w \<and> claim default_settings 7 301 111 4 ''v'' (w_db w) = (db', Some t)"
proof -
  let ?w = "demo_world\<lparr>w_db := fst (release 5 demo_copy ''w'' ''worker_shutdown'' demo_db3)\<rparr>"
  note r = demo_released [OF refl]
  have ts: "db_turns (w_db ?w) = [release_vals 5 demo_copy, demo_next]"
    by (simp add: release_def matching_def update_where_def demo_claim(2) held_by_def scoped_def
        ACTIVE_STATUSES_def demo_rows)
  have "\<exists>db'. claim default_settings 7 301 (ct_id (release_vals 5 demo_copy))
      (ct_company_id (release_vals 5 demo_copy)) ''v'' (w_db ?w) =
      (db', Some (claim_vals 7 (seconds (chat_turn_lease_seconds default_settings)) ''v'' 301
        (release_vals 5 demo_copy)))"
    by (rule head_of_session_claimable [OF r(1) r(3)])
      (unfold ts, simp_all add: release_vals_def demo_rows)
  moreover have "ct_id (release_vals 5 demo_copy) = 111" "ct_company_id (release_vals 5 demo_copy) = 4"
    by (simp_all add: release_vals_def demo_rows)
  ultimately show ?thesis using r(1) by metis
qed

section \<open>Cancellation and recovery\<close>

lemma claim_refused:
  assumes "distinct (map ct_id (db_turns db))"
    and "\<And>r. r \<in> set (db_turns db) \<Longrightarrow> ct_id r = tid \<Longrightarrow>
      ct_status r \<noteq> Queued \<or> ct_cancel_requested_at r \<noteq> None \<or> \<not> no_turn_ahead (db_turns db) r"
  shows "claim cfg now e tid cid w db = (db, None)"
proof -
  have "matching (claim_guard tid (cid, db_turns db)) (db_turns db) = 0"
    unfolding matching_0_iff using assms(2) by (auto simp: claim_guard_def scoped_def)
  then show ?thesis by (simp add: claim_def)
qed

text \<open>
  A worker that is shut down while its turn carries a cancel request hands the turn back to
  the queue with the request still on it (\<open>release\<close> keeps \<open>cancel_requested_at\<close>). No worker can
  claim that turn then, and no worker can claim any later turn of its session: the session
  stands still until the turn is cancelled again or its queue time runs out.
\<close>

theorem released_cancel_blocks_session:
  assumes "distinct (map ct_id (db_turns db))" and "r \<in> set (db_turns db)"
    and "held_by (ct_id t) (ct_company_id t, w) r" and "ct_cancel_requested_at r \<noteq> None"
  shows "\<exists>db' r'. release now t w reason db = (db', True) \<and> r' \<in> set (db_turns db') \<and>
    ct_id r' = ct_id t \<and> ct_status r' = Queued \<and>
    (\<forall>cfg now e wk. claim cfg now e (ct_id t) (ct_company_id t) wk db' = (db', None)) \<and>
    (\<forall>p. p \<in> set (db_turns db') \<and> same_session p r' \<and> ct_turn_seq r' < ct_turn_seq p \<longrightarrow>
       (\<forall>cfg now e wk. claim cfg now e (ct_id p) (ct_company_id p) wk db' = (db', None)))"
proof -
  obtain db' b where rel: "release now t w reason db = (db', b)" by (cases "release now t w reason db")
  let ?r' = "release_vals now r"
  have "row_of ct_id (ct_id t) (db_turns db) = Some r"
    using row_of_iff [OF assms(1)] assms(2,3) by (simp add: held_by_def scoped_def)
  then have m: "matching (held_by (ct_id t) (ct_company_id t, w)) (db_turns db) = 1"
    using release_upd.rowcount_one_iff [OF assms(1)] assms(3) by blast
  from rel assms(1) obtain old where old: "b" "held_by (ct_id t) (ct_company_id t, w) old"
    "replaced ct_id old (release_vals now old) (db_turns db) (db_turns db')"
    by (cases rule: release_cases) (use m rel in \<open>auto simp: release_def\<close>)
  have "old = r"
    using same_key_same_row [OF assms(1), of old r] old assms(2,3)
    by (auto simp: replaced_def held_by_def scoped_def)
  with old have r': "?r' \<in> set (db_turns db')" and d': "distinct (map ct_id (db_turns db'))"
    using assms(1) by (auto simp: replaced_def)
  have id: "ct_id ?r' = ct_id t" "ct_status ?r' = Queued" "ct_cancel_requested_at ?r' \<noteq> None"
    using assms(3,4) by (simp_all add: release_vals_def held_by_def scoped_def)
  have own: "claim cfg now e (ct_id t) (ct_company_id t) wk db' = (db', None)" for cfg now e wk
    using same_key_same_row [OF d' _ r'] id by (intro claim_refused [OF d']) metis
  have later: "claim cfg now e (ct_id p) (ct_company_id p) wk db' = (db', None)"
    if p: "p \<in> set (db_turns db')" "same_session p ?r'" "ct_turn_seq ?r' < ct_turn_seq p" for p cfg now e wk
  proof -
    have "ct_id ?r' \<noteq> ct_id p" using same_key_same_row [OF d' r' p(1)] p(3) by auto
    then have "\<not> no_turn_ahead (db_turns db') p"
      using no_turn_aheadD [OF _ r' same_session_sym [OF p(2)]] p(3) id(2) by (auto simp: class_defs)
    with same_key_same_row [OF d' _ p(1)] show ?thesis by (intro claim_refused [OF d']) metis
  qed
  have "release now t w reason db = (db', True)" using rel old(1) by simp
  with r' id own later show ?thesis by blast
qed

definition demo_flagged :: chat_turn where
  "demo_flagged = flag_vals 3 ''user'' demo_copy"

theorem released_cancel_blocks_session_witness:
  "\<exists>db' (r' :: chat_turn). release 5 demo_copy ''w'' ''worker_shutdown''
      (demo_db3\<lparr>db_turns := [demo_flagged, demo_next]\<rparr>) = (db', True) \<and> ct_status r' = Queued \<and>
    claim default_settings 9 301 111 4 ''v'' db' = (db', None)"
proof -
  let ?db = "demo_db3\<lparr>db_turns := [demo_flagged, demo_next]\<rparr>"
  have d: "distinct (map ct_id (db_turns ?db))" and r: "demo_flagged \<in> set (db_turns ?db)"
    and h: "held_by (ct_id demo_copy) (ct_company_id demo_copy, ''w'') demo_flagged"
    and c: "ct_cancel_requested_at demo_flagged \<noteq> None"
    by (simp_all add: demo_flagged_def flag_vals_def held_by_def scoped_def ACTIVE_STATUSES_def demo_rows)
  obtain db' and r' :: chat_turn where "release 5 demo_copy ''w'' ''worker_shutdown'' ?db = (db', True)"
    "ct_status r' = Queued"
    "\<forall>cfg now e wk. claim cfg now e (ct_id demo_copy) (ct_company_id demo_copy) wk db' = (db', None)"
    using released_cancel_blocks_session [OF d r h c, of 5 "''worker_shutdown''"] by blast
  then show ?thesis unfolding demo_rows by blast
qed

text \<open>
  Recovery of a turn whose lease lapsed. A sweep's decision is never \<open>completed\<close>: a turn it
  reads as active has no reply. If the row is still active and lapsed when the sweep reaches
  it, then the turn is cancelled when a cancel was requested, handed back to the queue when it
  has attempts left, and otherwise failed, with exactly one notification; in every case its
  lease is gone, so a second sweep of the same row is a no-op.
\<close>

theorem recovery_outcome:
  assumes "reachable w" and "t \<in> set (w_lapsed w)" and "recover now t (w_db w) = (db', ev)"
    and "ev \<noteq> RSkipped"
  shows "\<exists>old new. replaced ct_id old new (db_turns (w_db w)) (db_turns db') \<and> active old \<and>
    lease_lapsed now old \<and> ct_id new = ct_id t \<and> ct_lease_expires_at new = None \<and>
    epoch new = epoch old \<and>
    (if ct_cancel_requested_at t \<noteq> None then ev = RCancelled \<and> ct_status new = Cancelled
     else if ct_attempt_count t < ct_max_attempts t
     then ev = RRecovered \<and> ct_status new = Queued \<and> ct_claimed_by new = None
     else ev = RFailed \<and> ct_status new = Failed) \<and>
    recover now' t db' = (db', RSkipped)"
  using assms(3) reachable_facts(1) [OF assms(1)]
proof (cases rule: recover_cases)
  case (hit old)
  have none: "ct_response_message_id t = None"
    using reachable_inv [OF assms(1)] assms(2) by (auto simp: inv_def)
  let ?new = "recover_vals now t old"
  have old: "active old" "lease_lapsed now old" "ct_id old = ct_id t" "ct_company_id old = ct_company_id t"
    using hit(2) by (auto simp: recover_guard_def scoped_def active_def)
  have d': "distinct (map ct_id (db_turns db'))"
    using hit(3) reachable_facts(1) [OF assms(1)] by (simp add: replaced_def)
  have new: "?new \<in> set (db_turns db')" using hit(3) by (simp add: replaced_def)
  have "\<not> recover_guard (ct_id t) (ct_company_id t, now') s" if "s \<in> set (db_turns db')" for s
  proof
    assume g: "recover_guard (ct_id t) (ct_company_id t, now') s"
    then have "s = ?new"
      using same_key_same_row [OF d' that new] old by (simp add: recover_guard_def scoped_def)
    with g show False by (simp add: recover_guard_def lease_lapsed_def)
  qed
  then have "matching (recover_guard (ct_id t) (ct_company_id t, now')) (db_turns db') = 0"
    by (simp add: matching_0_iff)
  then have "recover now' t db' = (db', RSkipped)" by (simp add: recover_def)
  with hit old none show ?thesis
    by (intro exI [of _ old] exI [of _ ?new])
      (auto simp: recover_plan_def epoch_def recover_vals_def Let_def)
qed (use assms(4) in simp)

lemma demo_lapsed:
  assumes "w = demo_world\<lparr>w_lapsed := [demo_copy]\<rparr>"
  shows "reachable w" "\<exists>db'. recover (seconds 31) demo_copy (w_db w) = (db', RRecovered)"
proof -
  have "expired_turns 4 (seconds 31) [demo_copy, demo_next] = [demo_copy]"
    by (simp add: expired_turns_def BATCH_def demo_rows ACTIVE_STATUSES_def lease_lapsed_def)
      (simp add: demo_copy_def claim_vals_def seconds_def)
  moreover have "stale_turns default_settings 4 (seconds 31) [demo_copy, demo_next] = []"
    by (simp add: stale_turns_def demo_rows)
      (simp add: demo_next_def demo_row_def default_settings_def seconds_def)
  ultimately have "step demo_world w"
    using sweep [where w = demo_world and cid = 4 and now = "seconds 31" and cfg = default_settings]
    by (simp add: assms demo_rows) (simp add: demo_world_def)
  then show "reachable w" by (rule next_world [OF demo_reachable])
  let ?g = "recover_guard (ct_id demo_copy) (ct_company_id demo_copy, seconds 31)"
  have g: "?g demo_copy" "\<not> ?g demo_next"
    by (simp_all add: recover_guard_def scoped_def ACTIVE_STATUSES_def lease_lapsed_def demo_rows)
      (simp add: demo_copy_def claim_vals_def seconds_def)
  have plan: "recover_plan demo_copy = RRecovered"
    by (simp add: recover_plan_def demo_defs)
  have "get_turn 4 111 [recover_vals (seconds 31) demo_copy demo_copy, demo_next] \<noteq> None"
    by (simp add: get_turn_def scoped_def demo_rows)
  with g plan show "\<exists>db'. recover (seconds 31) demo_copy (w_db w) = (db', RRecovered)"
    by (auto simp: assms demo_world_def recover_def demo_claim(2) matching_def update_where_def demo_rows)
qed

theorem recovery_outcome_witness:
  "\<exists>db' (new :: chat_turn). recover (seconds 31) demo_copy demo_db3 = (db', RRecovered) \<and> ct_status new = Queued \<and>
     recover (seconds 32) demo_copy db' = (db', RSkipped)"
proof -
  let ?w = "demo_world\<lparr>w_lapsed := [demo_copy]\<rparr>"
  obtain db' where r: "recover (seconds 31) demo_copy (w_db ?w) = (db', RRecovered)"
    using demo_lapsed(2) [OF refl] by blast
  have "ct_cancel_requested_at demo_copy = None" "ct_attempt_count demo_copy < ct_max_attempts demo_copy"
    by (simp_all add: demo_defs)
  then obtain new :: chat_turn where
    "ct_status new = Queued" "recover (seconds 32) demo_copy db' = (db', RSkipped)"
    using recovery_outcome [OF demo_lapsed(1) [OF refl] _ r, of "seconds 32"] by auto
  with r show ?thesis unfolding demo_world_def by auto
qed

lemma recover_each_steps:
  "w_lapsed w = ts \<Longrightarrow> step\<^sup>*\<^sup>* w (w\<lparr>w_db := fst (recover_each now ts (w_db w)), w_lapsed := []\<rparr>)"
proof (induction ts arbitrary: w)
  case Nil
  then have "w\<lparr>w_db := w_db w, w_lapsed := []\<rparr> = w" by simp
  then show ?case by simp
next
  case (Cons t ts)
  obtain db' ev where r: "recover now t (w_db w) = (db', ev)" by (cases "recover now t (w_db w)")
  let ?w = "w\<lparr>w_db := db', w_lapsed := ts\<rparr>"
  have "step w ?w" using step.recover [OF _ r] Cons.prems by force
  moreover have "step\<^sup>*\<^sup>* ?w (?w\<lparr>w_db := fst (recover_each now ts (w_db ?w)), w_lapsed := []\<rparr>)"
    by (rule Cons.IH) simp
  ultimately show ?case using r by (simp add: split_def Let_def converse_rtranclp_into_rtranclp)
qed

lemma expire_each_steps:
  "w_stale w = ts \<Longrightarrow> step\<^sup>*\<^sup>* w (w\<lparr>w_db := fst (expire_each now ts (w_db w)), w_stale := []\<rparr>)"
proof (induction ts arbitrary: w)
  case Nil
  then have "w\<lparr>w_db := w_db w, w_stale := []\<rparr> = w" by simp
  then show ?case by simp
next
  case (Cons t ts)
  obtain db' b where r: "expire_stale now t (w_db w) = (db', b)" by (cases "expire_stale now t (w_db w)")
  let ?w = "w\<lparr>w_db := db', w_stale := ts\<rparr>"
  have "step w ?w" using step.expire [OF _ r] Cons.prems by force
  moreover have "step\<^sup>*\<^sup>* ?w (?w\<lparr>w_db := fst (expire_each now ts (w_db ?w)), w_stale := []\<rparr>)"
    by (rule Cons.IH) simp
  ultimately show ?case using r by (simp add: split_def Let_def converse_rtranclp_into_rtranclp)
qed

text \<open>
  A recovery pass over a tenant that is not interrupted is a sequence of the system's own steps:
  it reads both lists and works through them in order.
\<close>

lemma recover_company_is_steps:
  assumes "w_lapsed w = []" and "w_stale w = []"
  shows "step\<^sup>*\<^sup>* w (w\<lparr>w_db := fst (recover_company cfg cid now (w_db w))\<rparr>)"
proof -
  let ?ts = "expired_turns cid now (db_turns (w_db w))" and ?us = "stale_turns cfg cid now (db_turns (w_db w))"
  let ?w1 = "w\<lparr>w_lapsed := ?ts, w_stale := ?us\<rparr>"
  let ?d2 = "fst (recover_each now ?ts (w_db w))"
  let ?w2 = "w\<lparr>w_db := ?d2, w_stale := ?us\<rparr>"
  have "step w ?w1" using sweep [where w = w and cid = cid and now = now and cfg = cfg] assms by simp
  moreover have "step\<^sup>*\<^sup>* ?w1 ?w2"
    using recover_each_steps [of ?w1 ?ts now] assms(1)
    by (cases w) simp
  moreover have "step\<^sup>*\<^sup>* ?w2 (w\<lparr>w_db := fst (expire_each now ?us ?d2)\<rparr>)"
    using expire_each_steps [of ?w2 ?us now] assms(2) by (cases w) simp
  moreover have "fst (recover_company cfg cid now (w_db w)) = fst (expire_each now ?us ?d2)"
    by (simp add: recover_company_def Let_def split_def)
  ultimately show ?thesis by (metis converse_rtranclp_into_rtranclp rtranclp_trans)
qed

end
