(* ===== verification/Grants.thy ===== *)
theory Grants
  imports Prelude
begin

text \<open>
  Governance Studio's runtime layer, \<open>src/nexus/tools/governance_overlay.py\<close> over the rows of
  \<open>src/nexus/models/governance_studio.py\<close>: restrictions (company lockdown, agent isolation),
  temporary denies and allows, and the atomic use of a temporary allow with its per-invocation
  ledger. Reading never changes the tables; only \<open>consume_temp_grant\<close> does.
\<close>

definition READ_RISKS :: "string list" where
  "READ_RISKS = [''read'', ''low'']"

datatype grant_status = GPending | GActive | GUsedUp | GExpired | GRevoked | GRejected
datatype grant_effect = GAllow | GDeny

record temp_grant =
  tg_id :: uuid
  tg_company_id :: uuid
  tg_agent_id :: uuid
  tg_effect :: grant_effect
  tg_tool_name :: string
  tg_risk_level :: string
  tg_status :: grant_status
  tg_starts_at :: time
  tg_expires_at :: time
  tg_max_uses :: "int option"
  tg_used_count :: int
  tg_session_id :: "uuid option"
  tg_approved_by :: "string option"
  tg_approval_id :: "uuid option"

datatype restriction_kind = Lockdown | Isolation

record restriction =
  rs_company_id :: uuid
  rs_company_wide :: bool
  rs_agent_id :: "uuid option"
  rs_kind :: restriction_kind
  rs_active :: bool

record grant_use =
  gu_company_id :: uuid
  gu_grant_id :: uuid
  gu_invocation_key :: string

record grant_db =
  gd_grants :: "temp_grant list"
  gd_uses :: "grant_use list"
  gd_restrictions :: "restriction list"

section \<open>Which grants are live\<close>

definition uses_left :: "temp_grant \<Rightarrow> bool" where
  "uses_left g \<longleftrightarrow> (case tg_max_uses g of None \<Rightarrow> True | Some m \<Rightarrow> tg_used_count g < m)"

definition paid_by :: "uuid \<Rightarrow> string \<Rightarrow> grant_use list \<Rightarrow> temp_grant \<Rightarrow> bool" where
  "paid_by company key us g \<longleftrightarrow>
    list_ex (\<lambda>u. gu_grant_id u = tg_id g \<and> gu_company_id u = company \<and> gu_invocation_key u = key) us"

definition properly_approved :: "temp_grant \<Rightarrow> bool" where
  "properly_approved g \<longleftrightarrow> tg_effect g = GDeny \<or> tg_approved_by g \<noteq> None \<or>
     (tg_approval_id g = None \<and> tg_risk_level g \<in> set READ_RISKS)"

definition live_grant ::
  "uuid \<Rightarrow> time \<Rightarrow> string option \<Rightarrow> grant_use list \<Rightarrow> temp_grant \<Rightarrow> bool" where
  "live_grant company at spent_by us g \<longleftrightarrow>
    tg_company_id g = company \<and>
    (case spent_by of
       None \<Rightarrow> tg_status g = GActive \<and> uses_left g
     | Some key \<Rightarrow> tg_status g \<in> {GActive, GUsedUp} \<and> (uses_left g \<or> paid_by company key us g)) \<and>
    properly_approved g \<and> tg_starts_at g \<le> at \<and> at < tg_expires_at g"

definition session_scope :: "uuid option \<Rightarrow> temp_grant \<Rightarrow> bool" where
  "session_scope sid g \<longleftrightarrow> tg_session_id g = None \<or>
     (case sid of None \<Rightarrow> False | Some s \<Rightarrow> tg_session_id g = Some s)"

definition active_restrictions :: "uuid \<Rightarrow> uuid option \<Rightarrow> restriction list \<Rightarrow> restriction list" where
  "active_restrictions company agent rs =
    filter (\<lambda>r. rs_company_id r = company \<and> rs_active r \<and>
      (rs_company_wide r \<or> (case agent of None \<Rightarrow> False | Some a \<Rightarrow> rs_agent_id r = Some a))) rs"

section \<open>The verdict for one call\<close>

text \<open>\<open>policy\<close> is the decision already taken: \<open>allowed\<close> and \<open>matched_policy_id\<close>.\<close>

record policy_verdict =
  pv_allowed :: bool
  pv_matched :: "uuid option"

record overlay =
  ov_problems :: "(string \<times> string \<times> bool) list"
  ov_grant_id :: "uuid option"
  ov_policy_overridden :: bool

definition restriction_problem :: "restriction \<Rightarrow> string \<times> string \<times> bool" where
  "restriction_problem r = (''restriction'',
     (if rs_kind r = Lockdown then ''company lockdown'' else ''agent isolation'') @ '' is active'', True)"

definition applicable_grants ::
  "uuid \<Rightarrow> time \<Rightarrow> string option \<Rightarrow> uuid \<Rightarrow> string \<Rightarrow> uuid option \<Rightarrow> grant_db \<Rightarrow> temp_grant list" where
  "applicable_grants company at spent_by agent tool sid db =
    sort_key tg_expires_at (sort_key tg_id
      (filter (\<lambda>g. live_grant company at spent_by (gd_uses db) g \<and> tg_agent_id g = agent \<and>
         tg_tool_name g = tool \<and> session_scope sid g) (gd_grants db)))"

definition evaluate_overlay ::
  "uuid \<Rightarrow> uuid option \<Rightarrow> string \<Rightarrow> string \<Rightarrow> policy_verdict \<Rightarrow> bool \<Rightarrow> uuid option \<Rightarrow> time \<Rightarrow>
   string option \<Rightarrow> grant_db \<Rightarrow> overlay" where
  "evaluate_overlay company agent tool risk policy explicit_only sid at spent_by db =
    (case agent of
       None \<Rightarrow> \<lparr>ov_problems = [], ov_grant_id = None, ov_policy_overridden = False\<rparr>
     | Some a \<Rightarrow>
       let restricted = (if risk \<notin> set READ_RISKS \<or> explicit_only
             then map restriction_problem (active_restrictions company agent (gd_restrictions db))
             else []);
           grants = applicable_grants company at spent_by a tool sid db;
           allows = filter (\<lambda>g. tg_effect g = GAllow \<and>
             ((case tg_approved_by g of None \<Rightarrow> False | Some s \<Rightarrow> s \<noteq> []) \<or> \<not> explicit_only)) grants
       in if list_ex (\<lambda>g. tg_effect g = GDeny) grants
          then \<lparr>ov_problems = restricted @ [(''temp_access'', ''a temporary deny is active'', True)],
                ov_grant_id = None, ov_policy_overridden = False\<rparr>
          else if allows \<noteq> [] \<and> \<not> pv_allowed policy \<and> pv_matched policy = None
          then \<lparr>ov_problems = restricted, ov_grant_id = Some (tg_id (hd allows)),
                ov_policy_overridden = True\<rparr>
          else \<lparr>ov_problems = restricted, ov_grant_id = None, ov_policy_overridden = False\<rparr>)"

section \<open>Spending a use\<close>

definition spend_guard :: "uuid \<Rightarrow> uuid \<times> time \<Rightarrow> temp_grant \<Rightarrow> bool" where
  "spend_guard gid a g \<longleftrightarrow> tg_id g = gid \<and> live_grant (fst a) (snd a) None [] g"

definition spend_vals :: "temp_grant \<Rightarrow> temp_grant" where
  "spend_vals g = g\<lparr>tg_used_count := tg_used_count g + 1,
     tg_status := (case tg_max_uses g of
        None \<Rightarrow> tg_status g
      | Some m \<Rightarrow> if m \<le> tg_used_count g + 1 then GUsedUp else tg_status g)\<rparr>"

text \<open>
  The unique \<open>(grant_id, invocation_key)\<close> decides whether this invocation has paid before. A
  use that cannot be spent undoes its ledger row with the savepoint.
\<close>

definition has_paid :: "uuid \<Rightarrow> string \<Rightarrow> grant_use list \<Rightarrow> bool" where
  "has_paid gid key us \<longleftrightarrow> list_ex (\<lambda>u. gu_grant_id u = gid \<and> gu_invocation_key u = key) us"

definition consume_temp_grant ::
  "uuid \<Rightarrow> uuid \<Rightarrow> string option \<Rightarrow> time \<Rightarrow> grant_db \<Rightarrow> grant_db \<times> bool" where
  "consume_temp_grant company gid key at db =
    (let g = spend_guard gid (company, at);
         spent = db\<lparr>gd_grants := update_where g spend_vals (gd_grants db)\<rparr>;
         hit = (0 < matching g (gd_grants db))
     in case key of
          None \<Rightarrow> (if hit then (spent, True) else (db, False))
        | Some k \<Rightarrow>
            if has_paid gid k (gd_uses db)
            then (db, list_ex (\<lambda>g. tg_id g = gid \<and> tg_company_id g = company \<and>
                    tg_status g \<in> {GActive, GUsedUp} \<and> at < tg_expires_at g) (gd_grants db))
            else if hit
            then (spent\<lparr>gd_uses := gd_uses db @
                   [\<lparr>gu_company_id = company, gu_grant_id = gid, gu_invocation_key = k\<rparr>]\<rparr>, True)
            else (db, False))"

section \<open>Lemmas\<close>

interpretation spend_upd: pk_update tg_id spend_guard "\<lambda>_. spend_vals"
  by unfold_locales (simp_all add: spend_guard_def spend_vals_def)

text \<open>The recorded uses of a grant, and what the two tables agree on.\<close>

definition uses_of :: "uuid \<Rightarrow> grant_use list \<Rightarrow> grant_use list" where
  "uses_of gid us = filter (\<lambda>u. gu_grant_id u = gid) us"

definition grant_ok :: "grant_use list \<Rightarrow> temp_grant \<Rightarrow> bool" where
  "grant_ok us g \<longleftrightarrow> int (length (uses_of (tg_id g) us)) \<le> tg_used_count g \<and>
     (case tg_max_uses g of None \<Rightarrow> True | Some m \<Rightarrow> tg_used_count g \<le> m \<and>
        (tg_status g = GActive \<longrightarrow> tg_used_count g < m))"

definition grants_ok :: "grant_db \<Rightarrow> bool" where
  "grants_ok db \<longleftrightarrow> distinct (map tg_id (gd_grants db)) \<and>
     distinct (map (\<lambda>u. (gu_grant_id u, gu_invocation_key u)) (gd_uses db)) \<and>
     (\<forall>g \<in> set (gd_grants db). grant_ok (gd_uses db) g)"

lemma spend_hit:
  assumes "distinct (map tg_id ts)" and "0 < matching (spend_guard gid a) ts"
  obtains old where "spend_guard gid a old"
    "replaced tg_id old (spend_vals old) ts (update_where (spend_guard gid a) spend_vals ts)"
proof -
  have "matching (spend_guard gid a) ts = 1"
    using spend_upd.rowcount_le_one [OF assms(1), of gid a] assms(2) by simp
  with spend_upd.hit_replaces [OF assms(1)] that show ?thesis by blast
qed

lemma consume_cases:
  assumes c: "consume_temp_grant company gid key at db = (db', b)" and d: "distinct (map tg_id (gd_grants db))"
  obtains (refused) "\<not> b" "db' = db"
  | (again) k where "key = Some k" "db' = db"
      "has_paid gid k (gd_uses db)"
      "b \<longleftrightarrow> (\<exists>g \<in> set (gd_grants db). tg_id g = gid \<and> tg_company_id g = company \<and>
         tg_status g \<in> {GActive, GUsedUp} \<and> at < tg_expires_at g)"
  | (spent) old where "b" "spend_guard gid (company, at) old"
      "replaced tg_id old (spend_vals old) (gd_grants db) (gd_grants db')"
      "gd_uses db' = gd_uses db @ (case key of None \<Rightarrow> [] | Some k \<Rightarrow>
         [\<lparr>gu_company_id = company, gu_grant_id = gid, gu_invocation_key = k\<rparr>])"
      "\<And>k. key = Some k \<Longrightarrow> \<not> has_paid gid k (gd_uses db)"
proof (cases "\<exists>k. key = Some k \<and> has_paid gid k (gd_uses db)")
  case True
  then obtain k where k: "key = Some k" "has_paid gid k (gd_uses db)" by blast
  with c show ?thesis by (intro again [of k]) (auto simp: consume_temp_grant_def list_ex_iff)
next
  case new: False
  show ?thesis
  proof (cases "0 < matching (spend_guard gid (company, at)) (gd_grants db)")
    case True
    from spend_hit [OF d True] obtain old where old: "spend_guard gid (company, at) old"
      "replaced tg_id old (spend_vals old) (gd_grants db)
         (update_where (spend_guard gid (company, at)) spend_vals (gd_grants db))" .
    with c True new show ?thesis
      by (intro spent [of old]) (cases key, auto simp: consume_temp_grant_def Let_def)+
  next
    case False
    with c new show ?thesis
      by (intro refused) (cases key, auto simp: consume_temp_grant_def Let_def)+
  qed
qed

lemma uses_of_append:
  "length (uses_of i (us @ vs)) = length (uses_of i us) + length (uses_of i vs)"
  by (simp add: uses_of_def)

lemma spend_keeps_grants_ok:
  assumes ok: "grants_ok db" and g: "spend_guard gid (company, at) old"
    and r: "replaced tg_id old (spend_vals old) (gd_grants db) (gd_grants db')"
    and u: "gd_uses db' = gd_uses db @ us" "length us \<le> 1" "\<forall>u \<in> set us. gu_grant_id u = gid"
    and f: "distinct (map (\<lambda>u. (gu_grant_id u, gu_invocation_key u)) (gd_uses db'))"
  shows "grants_ok db'"
proof -
  have old: "old \<in> set (gd_grants db)" "tg_id old = gid"
    using r g by (auto simp: replaced_def spend_guard_def)
  have left: "uses_left old" "tg_status old = GActive" using g by (auto simp: spend_guard_def live_grant_def)
  have "grant_ok (gd_uses db') (spend_vals old)"
  proof -
    have "grant_ok (gd_uses db) old" using ok old by (simp add: grants_ok_def)
    moreover have "length (uses_of gid us) \<le> 1"
      using u(2) by (simp add: uses_of_def order.trans [OF length_filter_le])
    ultimately show ?thesis
      using left old(2) u(1) uses_of_append [of gid "gd_uses db" us]
      by (auto simp: grant_ok_def spend_vals_def uses_left_def split: option.splits)
  qed
  moreover have "grant_ok (gd_uses db') x" if x: "x \<in> set (gd_grants db)" "x \<noteq> old" for x
  proof -
    have "tg_id x \<noteq> gid"
      using same_key_same_row [of tg_id "gd_grants db" x old] ok x old by (auto simp: grants_ok_def)
    with u have "uses_of (tg_id x) (gd_uses db') = uses_of (tg_id x) (gd_uses db)"
      by (auto simp: uses_of_def filter_empty_conv)
    with ok x show ?thesis by (simp add: grants_ok_def grant_ok_def)
  qed
  moreover have "distinct (map tg_id (gd_grants db'))"
    using ok r by (simp add: grants_ok_def replaced_def)
  ultimately show ?thesis using r f by (auto simp: grants_ok_def replaced_def)
qed

lemma consume_keeps_grants_ok:
  assumes ok: "grants_ok db" and c: "consume_temp_grant company gid key at db = (db', b)"
  shows "grants_ok db'"
proof -
  have d: "distinct (map tg_id (gd_grants db))" using ok by (simp add: grants_ok_def)
  from c d show ?thesis
  proof (cases rule: consume_cases)
    case (spent old)
    have f: "distinct (map (\<lambda>u. (gu_grant_id u, gu_invocation_key u)) (gd_uses db'))"
      using ok spent(4,5) by (cases key) (auto simp: grants_ok_def has_paid_def list_ex_iff)
    show ?thesis
      by (rule spend_keeps_grants_ok [OF ok spent(2,3,4) _ _ f]) (auto split: option.splits)
  qed (use ok in simp_all)
qed

definition consume_all ::
  "(uuid \<times> uuid \<times> string option \<times> time) list \<Rightarrow> grant_db \<Rightarrow> grant_db" where
  "consume_all cs db = fold (\<lambda>(company, gid, key, at) d. fst (consume_temp_grant company gid key at d)) cs db"

lemma consume_all_ok: "grants_ok db \<Longrightarrow> grants_ok (consume_all cs db)"
proof (induction cs arbitrary: db)
  case Nil
  then show ?case by (simp add: consume_all_def)
next
  case (Cons c cs)
  obtain company gid key at where c: "c = (company, gid, key, at)" by (cases c) auto
  have "grants_ok (fst (consume_temp_grant company gid key at db))"
    using consume_keeps_grants_ok [OF Cons.prems] by (metis prod.collapse)
  from Cons.IH [OF this] show ?case by (simp add: consume_all_def c)
qed

text \<open>A one-use allow of agent 7 for \<open>shell\<close>, for the witnesses.\<close>

definition demo_grant :: temp_grant where
  "demo_grant = \<lparr>tg_id = 9, tg_company_id = 4, tg_agent_id = 7, tg_effect = GAllow,
     tg_tool_name = ''shell'', tg_risk_level = ''high'', tg_status = GActive, tg_starts_at = 0,
     tg_expires_at = 100, tg_max_uses = Some 1, tg_used_count = 0, tg_session_id = None,
     tg_approved_by = Some ''boss'', tg_approval_id = Some 3\<rparr>"

definition demo_grants :: grant_db where
  "demo_grants = \<lparr>gd_grants = [demo_grant], gd_uses = [], gd_restrictions = []\<rparr>"

lemma demo_grants_ok: "grants_ok demo_grants"
  by (simp add: grants_ok_def grant_ok_def demo_grants_def demo_grant_def uses_of_def)

section \<open>Properties\<close>

text \<open>
  C25: a temporary allow is never overspent, however many workers use it and in whatever order:
  over any sequence of uses the count of every grant stays within its \<open>max_uses\<close>, every
  recorded use is counted, and no invocation key is recorded twice for a grant.
\<close>

theorem grant_never_overspent:
  assumes "grants_ok db" and "g \<in> set (gd_grants (consume_all cs db))" and "tg_max_uses g = Some m"
  shows "tg_used_count g \<le> m \<and>
    int (length (uses_of (tg_id g) (gd_uses (consume_all cs db)))) \<le> tg_used_count g \<and>
    distinct (map (\<lambda>u. (gu_grant_id u, gu_invocation_key u)) (gd_uses (consume_all cs db)))"
proof -
  have ok: "grants_ok (consume_all cs db)" by (rule consume_all_ok [OF assms(1)])
  then have "grant_ok (gd_uses (consume_all cs db)) g" using assms(2) by (simp add: grants_ok_def)
  with ok assms(3) show ?thesis by (simp add: grant_ok_def grants_ok_def)
qed

theorem grant_never_overspent_witness:
  "\<exists>g :: temp_grant. tg_used_count g = 1 \<and> tg_status g = GUsedUp \<and>
     gd_grants (consume_all [(4, 9, Some ''k1'', 5), (4, 9, Some ''k2'', 6)] demo_grants) = [g]"
proof -
  let ?d = "consume_all [(4, 9, Some ''k1'', 5), (4, 9, Some ''k2'', 6)] demo_grants"
  let ?g = "demo_grant\<lparr>tg_used_count := 1, tg_status := GUsedUp\<rparr>"
  have d: "gd_grants ?d = [?g]" by code_simp
  have "tg_used_count ?g \<le> 1"
    using grant_never_overspent [OF demo_grants_ok, of ?g "[(4, 9, Some ''k1'', 5), (4, 9, Some ''k2'', 6)]" 1]
    by (simp add: d demo_grant_def)
  with d show ?thesis by (intro exI [of _ ?g]) simp
qed

text \<open>
  A replay or a recovery of a call is never charged twice: once an invocation key has paid
  for a grant, the same key changes no table again, and it is let through exactly while the
  grant is neither revoked, rejected nor expired, even when its uses are gone.
\<close>

theorem paid_key_not_charged_again:
  assumes "consume_temp_grant company gid (Some k) at db = (db', True)"
    and "distinct (map tg_id (gd_grants db))"
  shows "consume_temp_grant company gid (Some k) at' db' =
    (db', \<exists>g \<in> set (gd_grants db'). tg_id g = gid \<and> tg_company_id g = company \<and>
       tg_status g \<in> {GActive, GUsedUp} \<and> at' < tg_expires_at g)"
proof -
  have "has_paid gid k (gd_uses db')"
    using assms(1,2) by (cases rule: consume_cases) (auto simp: has_paid_def list_ex_iff)
  then show ?thesis by (simp add: consume_temp_grant_def list_ex_iff)
qed

theorem paid_key_not_charged_again_witness:
  "consume_temp_grant 4 9 (Some ''k1'') 50 (fst (consume_temp_grant 4 9 (Some ''k1'') 5 demo_grants)) =
     (fst (consume_temp_grant 4 9 (Some ''k1'') 5 demo_grants), True)"
proof -
  let ?d = "fst (consume_temp_grant 4 9 (Some ''k1'') 5 demo_grants)"
  have c: "consume_temp_grant 4 9 (Some ''k1'') 5 demo_grants = (?d, True)"
    and g: "gd_grants ?d = [demo_grant\<lparr>tg_used_count := 1, tg_status := GUsedUp\<rparr>]"
    by code_simp+
  show ?thesis
    using paid_key_not_charged_again [OF c, of 50] unfolding g
    by (simp add: demo_grants_def demo_grant_def)
qed

lemma live_grantD:
  assumes "live_grant company at spent_by us g"
  shows "tg_company_id g = company" "properly_approved g" "tg_starts_at g \<le> at" "at < tg_expires_at g"
    "tg_status g = GActive \<or> tg_status g = GUsedUp"
    "uses_left g \<or> (\<exists>k. spent_by = Some k \<and> paid_by company k us g)"
  using assms by (auto simp: live_grant_def split: option.splits)

lemma override_grant:
  assumes "ov_policy_overridden (evaluate_overlay company agent tool risk policy explicit_only sid at spent_by db)"
  shows "pv_matched policy = None"
    and "ov_grant_id (evaluate_overlay company agent tool risk policy explicit_only sid at spent_by db) \<noteq> None"
proof -
  obtain a where "agent = Some a" using assms by (cases agent) (simp_all add: evaluate_overlay_def)
  then show "pv_matched policy = None"
    and "ov_grant_id (evaluate_overlay company agent tool risk policy explicit_only sid at spent_by db) \<noteq> None"
    using assms by (auto simp: evaluate_overlay_def Let_def split: if_splits)
qed

text \<open>
  An overlay overrides a decision only when no policy matched (never an explicit deny rule)
  and no temporary deny of the call is live; the grant it names is an approved allow of this
  very agent, tool and company, inside its time window, and one that a person approved when the
  tool is explicit-allow-only.
\<close>

theorem override_is_justified:
  assumes "ov_policy_overridden (evaluate_overlay company agent tool risk policy explicit_only sid at spent_by db)"
  shows "\<not> pv_allowed policy \<and> pv_matched policy = None \<and>
    (\<exists>a g. agent = Some a \<and> g \<in> set (gd_grants db) \<and>
       ov_grant_id (evaluate_overlay company agent tool risk policy explicit_only sid at spent_by db) =
         Some (tg_id g) \<and>
       tg_effect g = GAllow \<and> tg_agent_id g = a \<and> tg_tool_name g = tool \<and> tg_company_id g = company \<and>
       tg_starts_at g \<le> at \<and> at < tg_expires_at g \<and> properly_approved g \<and>
       (explicit_only \<longrightarrow> tg_approved_by g \<noteq> None) \<and>
       \<not> (\<exists>x \<in> set (gd_grants db). tg_effect x = GDeny \<and> live_grant company at spent_by (gd_uses db) x \<and>
            tg_agent_id x = a \<and> tg_tool_name x = tool \<and> session_scope sid x))"
proof -
  obtain a where a: "agent = Some a" using assms by (cases agent) (simp_all add: evaluate_overlay_def)
  let ?gs = "applicable_grants company at spent_by a tool sid db"
  let ?al = "filter (\<lambda>g. tg_effect g = GAllow \<and>
             ((case tg_approved_by g of None \<Rightarrow> False | Some s \<Rightarrow> s \<noteq> []) \<or> \<not> explicit_only)) ?gs"
  have c: "?al \<noteq> []" "\<not> pv_allowed policy" "pv_matched policy = None" "\<not> list_ex (\<lambda>g. tg_effect g = GDeny) ?gs"
    and id: "ov_grant_id (evaluate_overlay company agent tool risk policy explicit_only sid at spent_by db) =
      Some (tg_id (hd ?al))"
    using assms a by (auto simp: evaluate_overlay_def Let_def split: if_splits)
  define g where "g = hd ?al"
  have "g \<in> set ?al" unfolding g_def using c(1) by (rule hd_in_set)
  then have g: "g \<in> set ?gs" "tg_effect g = GAllow" "explicit_only \<longrightarrow> tg_approved_by g \<noteq> None"
    by (auto split: option.splits)
  then have m: "g \<in> set (gd_grants db)" "live_grant company at spent_by (gd_uses db) g"
    "tg_agent_id g = a" "tg_tool_name g = tool"
    by (simp_all add: applicable_grants_def)
  have n: "\<not> (\<exists>x \<in> set (gd_grants db). tg_effect x = GDeny \<and>
      live_grant company at spent_by (gd_uses db) x \<and> tg_agent_id x = a \<and> tg_tool_name x = tool \<and>
      session_scope sid x)"
    using c(4) by (auto simp: list_ex_iff applicable_grants_def)
  show ?thesis
    using c(2,3) a id [folded g_def] g m n live_grantD(1-4) [OF m(2)]
    by (intro conjI exI [of _ a] exI [of _ g]) simp_all
qed

theorem override_is_justified_witness:
  "\<exists>g :: temp_grant. ov_grant_id (evaluate_overlay 4 (Some 7) ''shell'' ''high'' \<lparr>pv_allowed = False, pv_matched = None\<rparr>
      True None 5 None demo_grants) = Some (tg_id g) \<and> tg_effect g = GAllow"
proof -
  have "ov_policy_overridden (evaluate_overlay 4 (Some 7) ''shell'' ''high''
      \<lparr>pv_allowed = False, pv_matched = None\<rparr> True None 5 None demo_grants)"
    by code_simp
  from override_is_justified [OF this] show ?thesis by blast
qed

end
