(* ===== verification/Tool_Effects.thy ===== *)
theory Tool_Effects
  imports Grants Chat_Turns "HOL-Library.List_Lexorder" "HOL-Library.Char_ord"
begin

text \<open>
  The execute-once ledger of write-capable tool calls, \<open>src/nexus/tools/effects.py\<close> over the row
  of \<open>src/nexus/models/tool_effect.py\<close>: the logical identity of a call, the fence against
  replaced executions, the claim and its decision table, settling, lease expiry, notices and
  operator recovery. SHA-256 (\<open>hashlib\<close>) is the parameter \<open>sha\<close>, applied to the JSON value
  whose canonical text is hashed; the properties that need it assume \<open>inj sha\<close>, that distinct
  texts have distinct digests. Whether an audit row could be written is the parameter
  \<open>audit_ok\<close>: a \<open>must\<close> audit that fails rolls the transaction back.
\<close>

section \<open>Identity of a call\<close>

datatype effect_class = ReadOnly | IdempotentWrite | NonIdempotentWrite

definition resolve_effect :: "string option \<Rightarrow> effect_class" where
  "resolve_effect declared =
    (case declared of
       None \<Rightarrow> NonIdempotentWrite
     | Some d \<Rightarrow> if d = ''read_only'' then ReadOnly
                 else if d = ''idempotent_write'' then IdempotentWrite else NonIdempotentWrite)"

record tool_slot =
  round_index :: int
  invocation_index :: int

text \<open>\<open>ToolSlot.__post_init__\<close>; \<open>None\<close> is the \<open>ValueError\<close>.\<close>

definition make_slot :: "int \<Rightarrow> int \<Rightarrow> tool_slot option" where
  "make_slot r i = (if r < -1 \<or> i < 0 then None else Some \<lparr>round_index = r, invocation_index = i\<rparr>)"

definition KEY_VERSION :: string where
  "KEY_VERSION = ''nexus.tool-effect.v2''"

definition LEASE_SECONDS :: int where
  "LEASE_SECONDS = 900"

text \<open>Canonical JSON: the keys of every object sorted.\<close>

fun canonical :: "json \<Rightarrow> json" where
  "canonical (JList xs) = JList (map canonical xs)"
| "canonical (JDict kvs) = JDict (sort_key fst (map (\<lambda>kv. (fst kv, canonical (snd kv))) kvs))"
| "canonical v = v"

definition invocation_key :: "(json \<Rightarrow> string) \<Rightarrow> uuid \<Rightarrow> uuid \<Rightarrow> tool_slot \<Rightarrow> string" where
  "invocation_key sha company turn slot =
    sha (JList [JStr KEY_VERSION, JId company, JId turn, JInt (round_index slot),
                JInt (invocation_index slot)])"

definition arguments_digest :: "(json \<Rightarrow> string) \<Rightarrow> json \<Rightarrow> string" where
  "arguments_digest sha args = sha (canonical args)"

text \<open>\<open>bound\<close> is the ledger key bound to the running call, if one is.\<close>

definition downstream_key :: "string option \<Rightarrow> string option \<Rightarrow> string option" where
  "downstream_key bound model_key = str_or bound model_key"

section \<open>The ledger\<close>

datatype effect_status = Executing | Succeeded | EffectFailed | Ambiguous | ManualRecovery

fun effect_status_text :: "effect_status \<Rightarrow> string" where
  "effect_status_text Executing = ''executing''"
| "effect_status_text Succeeded = ''succeeded''"
| "effect_status_text EffectFailed = ''failed''"
| "effect_status_text Ambiguous = ''ambiguous''"
| "effect_status_text ManualRecovery = ''manual_recovery_required''"

fun effect_class_text :: "effect_class \<Rightarrow> string" where
  "effect_class_text ReadOnly = ''read_only''"
| "effect_class_text IdempotentWrite = ''idempotent_write''"
| "effect_class_text NonIdempotentWrite = ''non_idempotent_write''"

record tool_effect =
  te_id :: uuid
  te_company_id :: uuid
  te_turn_id :: uuid
  te_round_index :: int
  te_invocation_index :: int
  te_tool_name :: string
  te_effect_class :: effect_class
  te_invocation_key :: string
  te_arguments_digest :: string
  te_turn_attempt :: int
  te_status :: effect_status
  te_claim_token :: "string option"
  te_attempt_count :: int
  te_lease_expires_at :: "time option"
  te_result :: "dict option"
  te_error :: "string option"
  te_resolved_by :: "string option"
  te_resolved_at :: "time option"
  te_resolution_reason :: "string option"
  te_created_at :: time
  te_updated_at :: time
  te_completed_at :: "time option"

record ledger_db =
  ld_effects :: "tool_effect list"
  ld_notices :: "(uuid \<times> string) list"
  ld_audits :: "audit_row list"
  ld_turns :: "chat_turn list"
  ld_grants :: grant_db

datatype epoch = Epoch "uuid option" int

fun epoch_execution :: "epoch \<Rightarrow> uuid option" where
  "epoch_execution (Epoch e a) = e"

fun epoch_attempt :: "epoch \<Rightarrow> int" where
  "epoch_attempt (Epoch e a) = a"

datatype stale_reason = NoEpoch | TurnGone | Replaced int

text \<open>\<open>_stale_reason\<close>; \<open>None\<close> is the empty string, the current execution.\<close>

definition stale_reason_of :: "uuid \<Rightarrow> uuid \<Rightarrow> epoch option \<Rightarrow> chat_turn list \<Rightarrow> stale_reason option" where
  "stale_reason_of company turn ep ts =
    (case ep of
       None \<Rightarrow> Some NoEpoch
     | Some e \<Rightarrow>
       (case get_turn company turn ts of
          None \<Rightarrow> if epoch_attempt e = 1 then None else Some TurnGone
        | Some r \<Rightarrow>
            if max (ct_attempt_count r) 1 \<noteq> epoch_attempt e \<or>
               (epoch_execution e \<noteq> None \<and> ct_execution_id r \<noteq> epoch_execution e)
            then Some (Replaced (epoch_attempt e)) else None))"

definition is_current_execution :: "uuid \<Rightarrow> uuid \<Rightarrow> epoch option \<Rightarrow> ledger_db \<Rightarrow> stale_reason option" where
  "is_current_execution company turn ep db = stale_reason_of company turn ep (ld_turns db)"

definition earlier_execution_wrote :: "tool_effect \<Rightarrow> int \<Rightarrow> tool_effect list \<Rightarrow> bool" where
  "earlier_execution_wrote row attempt es \<longleftrightarrow>
    list_ex (\<lambda>e. te_company_id e = te_company_id row \<and> te_turn_id e = te_turn_id row \<and>
      te_turn_attempt e < attempt \<and> te_id e \<noteq> te_id row) es"

definition effect_audit :: "tool_effect \<Rightarrow> string \<Rightarrow> string \<Rightarrow> label \<Rightarrow> dict \<Rightarrow> audit_row" where
  "effect_audit row action actor_type actor extra =
    \<lparr>au_company_id = te_company_id row, au_action = ''tool_effect.'' @ action,
     au_actor_type = actor_type, au_actor_id = Some actor, au_resource_type = ''tool_effect'',
     au_resource_id = te_id row,
     au_details = dict_merge
       [(''tool_name'', JStr (te_tool_name row)),
        (''effect_class'', JStr (effect_class_text (te_effect_class row))),
        (''turn_id'', JId (te_turn_id row)), (''invocation_key'', JStr (te_invocation_key row)),
        (''attempt_count'', JInt (te_attempt_count row))] extra\<rparr>"

definition system_audit :: "tool_effect \<Rightarrow> string \<Rightarrow> dict \<Rightarrow> audit_row" where
  "system_audit row action extra = effect_audit row action ''system'' [Txt ''tool_effects''] extra"

definition log_effect :: "bool \<Rightarrow> audit_row \<Rightarrow> ledger_db \<Rightarrow> ledger_db" where
  "log_effect ok a db = (if ok then db\<lparr>ld_audits := ld_audits db @ [a]\<rparr> else db)"

text \<open>\<open>_cas\<close>: the UPDATE guarded by the row as it was read.\<close>

definition cas_guard :: "uuid \<Rightarrow> tool_effect \<Rightarrow> tool_effect \<Rightarrow> bool" where
  "cas_guard eid row r \<longleftrightarrow> te_id r = eid \<and> te_company_id r = te_company_id row \<and>
     te_status r = te_status row \<and> te_attempt_count r = te_attempt_count row"

definition take_vals :: "time \<Rightarrow> string \<Rightarrow> tool_effect \<Rightarrow> tool_effect \<Rightarrow> tool_effect" where
  "take_vals now token row r = r\<lparr>te_status := Executing, te_claim_token := Some token,
     te_lease_expires_at := Some (now + seconds LEASE_SECONDS),
     te_attempt_count := te_attempt_count row + 1, te_result := None, te_error := None,
     te_completed_at := None, te_updated_at := now\<rparr>"

definition manual_vals :: "time \<Rightarrow> tool_effect \<Rightarrow> tool_effect" where
  "manual_vals now r = r\<lparr>te_status := ManualRecovery, te_claim_token := None,
     te_lease_expires_at := None, te_updated_at := now\<rparr>"

definition cas :: "tool_effect \<Rightarrow> (tool_effect \<Rightarrow> tool_effect) \<Rightarrow> ledger_db \<Rightarrow> ledger_db \<times> bool" where
  "cas row f db =
    (let g = cas_guard (te_id row) row
     in (db\<lparr>ld_effects := update_where g f (ld_effects db)\<rparr>, matching g (ld_effects db) = 1))"

section \<open>Claim\<close>

datatype claim_action = Run | Replay | Busy | Blocked | Denied | Stale

datatype claim_reason =
    NoReason | IsStale stale_reason | NewWriteInRecovery | SlotMismatch | NeedsManualRecovery
  | HeldByAnother | LostClaimRace | GrantGone

record claim_result =
  cl_action :: claim_action
  cl_company_id :: uuid
  cl_effect_class :: effect_class
  cl_effect_id :: "uuid option"
  cl_token :: "string option"
  cl_stored :: "dict option"
  cl_reason :: claim_reason
  cl_key :: "string option"

datatype ledger_error = EffectKeyError | NoSuchRow | AuditFailed

record ledger_env =
  le_sha :: "json \<Rightarrow> string"
  le_now :: time
  le_id :: uuid
  le_token :: string
  le_audit_ok :: bool

definition decided :: "tool_effect \<Rightarrow> effect_class \<Rightarrow> claim_action \<Rightarrow> string option \<Rightarrow> dict option \<Rightarrow>
    claim_reason \<Rightarrow> claim_result" where
  "decided row strict action token stored reason =
    \<lparr>cl_action = action, cl_company_id = te_company_id row, cl_effect_class = strict,
     cl_effect_id = Some (te_id row), cl_token = token, cl_stored = stored, cl_reason = reason,
     cl_key = Some (te_invocation_key row)\<rparr>"

definition strictest :: "effect_class \<Rightarrow> effect_class \<Rightarrow> effect_class" where
  "strictest a b = (if NonIdempotentWrite \<in> {a, b} then NonIdempotentWrite else IdempotentWrite)"

text \<open>\<open>_decide\<close>, on the row locked for update.\<close>

definition decide ::
  "ledger_env \<Rightarrow> tool_effect \<Rightarrow> effect_class \<Rightarrow> ledger_db \<Rightarrow> ledger_db \<times> (ledger_error + claim_result)" where
  "decide env row requested db =
    (let strict = strictest (te_effect_class row) requested;
         now = le_now env;
         expired = (case te_lease_expires_at row of None \<Rightarrow> True | Some l \<Rightarrow> l \<le> now);
         taken = cas row (take_vals now (le_token env) row) db;
         came_from = [(''came_from'', JStr (effect_status_text (te_status row)))]
     in if te_status row = Succeeded then
          (log_effect (le_audit_ok env) (system_audit row ''replayed'' []) db,
           Inr (decided row strict Replay None (te_result row) NoReason))
        else if te_status row = ManualRecovery then
          (db, Inr (decided row strict Blocked None None NeedsManualRecovery))
        else if te_status row = Executing \<and> \<not> expired then
          (db, Inr (decided row strict Busy None None HeldByAnother))
        else if te_status row = EffectFailed then
          (fst taken,
           Inr (if snd taken then decided row strict Run (Some (le_token env)) None NoReason
                else decided row strict Busy None None LostClaimRace))
        else if strict = NonIdempotentWrite then
          (case cas row (manual_vals now) db of (db', won) \<Rightarrow>
             if won \<and> \<not> le_audit_ok env then (db, Inl AuditFailed)
             else (if won then log_effect True (system_audit row ''manual_recovery_required'' came_from) db'
                   else db',
                   Inr (decided row strict Blocked None None NeedsManualRecovery)))
        else if \<not> snd taken then
          (fst taken, Inr (decided row strict Busy None None LostClaimRace))
        else if \<not> le_audit_ok env then (db, Inl AuditFailed)
        else (log_effect True (system_audit row ''retaken'' came_from) (fst taken),
              Inr (decided row strict Run (Some (le_token env)) None NoReason)))"

text \<open>\<open>_commit_run\<close>: \<open>before\<close> is what a rollback restores.\<close>

definition commit_run ::
  "time \<Rightarrow> ledger_db \<Rightarrow> ledger_db \<Rightarrow> claim_result \<Rightarrow> uuid option \<Rightarrow> ledger_db \<times> claim_result" where
  "commit_run now before db run grant =
    (case grant of
       None \<Rightarrow> (db, run)
     | Some gid \<Rightarrow>
         (case consume_temp_grant (cl_company_id run) gid (cl_key run) now (ld_grants db) of
            (gs, spent) \<Rightarrow>
              if spent then (db\<lparr>ld_grants := gs\<rparr>, run)
              else (before, \<lparr>cl_action = Denied, cl_company_id = cl_company_id run,
                      cl_effect_class = cl_effect_class run, cl_effect_id = None, cl_token = None,
                      cl_stored = None, cl_reason = GrantGone, cl_key = cl_key run\<rparr>)))"

definition new_effect ::
  "ledger_env \<Rightarrow> uuid \<Rightarrow> uuid \<Rightarrow> tool_slot \<Rightarrow> string \<Rightarrow> effect_class \<Rightarrow> string \<Rightarrow> int \<Rightarrow> tool_effect" where
  "new_effect env company turn slot tool cls digest attempt =
    \<lparr>te_id = le_id env, te_company_id = company, te_turn_id = turn,
     te_round_index = round_index slot, te_invocation_index = invocation_index slot,
     te_tool_name = tool, te_effect_class = cls,
     te_invocation_key = invocation_key (le_sha env) company turn slot,
     te_arguments_digest = digest, te_turn_attempt = attempt, te_status = Executing,
     te_claim_token = Some (le_token env), te_attempt_count = 1,
     te_lease_expires_at = Some (le_now env + seconds LEASE_SECONDS), te_result = None,
     te_error = None, te_resolved_by = None, te_resolved_at = None, te_resolution_reason = None,
     te_created_at = le_now env, te_updated_at = le_now env, te_completed_at = None\<rparr>"

text \<open>The constraints the insert can violate: keys, and the class of a ledgered write.\<close>

definition insert_ok :: "tool_effect list \<Rightarrow> tool_effect \<Rightarrow> bool" where
  "insert_ok es n \<longleftrightarrow> te_effect_class n \<noteq> ReadOnly \<and>
    \<not> list_ex (\<lambda>e. te_id e = te_id n \<or>
        (te_company_id e = te_company_id n \<and> te_invocation_key e = te_invocation_key n)) es"

definition slot_row :: "uuid \<Rightarrow> string \<Rightarrow> tool_effect list \<Rightarrow> tool_effect option" where
  "slot_row company key es = find (\<lambda>e. te_company_id e = company \<and> te_invocation_key e = key) es"

definition plain_claim :: "claim_action \<Rightarrow> uuid \<Rightarrow> effect_class \<Rightarrow> uuid option \<Rightarrow> string \<Rightarrow> claim_reason \<Rightarrow>
    claim_result" where
  "plain_claim action company cls eid key reason =
    \<lparr>cl_action = action, cl_company_id = company, cl_effect_class = cls, cl_effect_id = eid,
     cl_token = None, cl_stored = None, cl_reason = reason, cl_key = Some key\<rparr>"

text \<open>The occupied slot.\<close>

definition claim_occupied ::
  "ledger_env \<Rightarrow> uuid \<Rightarrow> string \<Rightarrow> string \<Rightarrow> effect_class \<Rightarrow> string \<Rightarrow> uuid option \<Rightarrow> ledger_db \<Rightarrow>
   ledger_db \<times> (ledger_error + claim_result)" where
  "claim_occupied env company key tool cls digest grant db =
    (case slot_row company key (ld_effects db) of
       None \<Rightarrow> (db, Inl NoSuchRow)
     | Some row \<Rightarrow>
         if te_tool_name row \<noteq> tool \<or> te_arguments_digest row \<noteq> digest
         then (log_effect (le_audit_ok env) (system_audit row ''slot_mismatch''
                 [(''requested_tool'', JStr tool), (''requested_digest'', JStr digest)]) db,
               Inr (plain_claim Blocked company cls (Some (te_id row)) key SlotMismatch))
         else (case decide env row cls db of
                 (db', Inl e) \<Rightarrow> (db, Inl e)
               | (db', Inr d) \<Rightarrow>
                   if cl_action d = Run
                   then (case commit_run (le_now env) db db' d grant of (db2, c) \<Rightarrow> (db2, Inr c))
                   else (db', Inr d)))"

text \<open>\<open>args\<close> is \<open>None\<close> when the arguments have no canonical JSON form.\<close>

definition claim_effect ::
  "ledger_env \<Rightarrow> uuid \<Rightarrow> uuid \<Rightarrow> tool_slot \<Rightarrow> string \<Rightarrow> effect_class \<Rightarrow> json option \<Rightarrow> uuid option \<Rightarrow>
   epoch option \<Rightarrow> ledger_db \<Rightarrow> ledger_db \<times> (ledger_error + claim_result)" where
  "claim_effect env company turn slot tool cls args grant ep db =
    (case args of
       None \<Rightarrow> (db, Inl EffectKeyError)
     | Some a \<Rightarrow>
       let key = invocation_key (le_sha env) company turn slot;
           digest = arguments_digest (le_sha env) a
       in case stale_reason_of company turn ep (ld_turns db) of
            Some why \<Rightarrow> (db, Inr (plain_claim Stale company cls None key (IsStale why)))
          | None \<Rightarrow>
              let attempt = (case ep of None \<Rightarrow> 1 | Some e \<Rightarrow> epoch_attempt e);
                  n = new_effect env company turn slot tool cls digest attempt
              in if \<not> insert_ok (ld_effects db) n
                 then claim_occupied env company key tool cls digest grant db
                 else if 1 < attempt \<and> earlier_execution_wrote n attempt (ld_effects db)
                 then (db, Inr (plain_claim Blocked company cls None key NewWriteInRecovery))
                 else (case commit_run (le_now env) db (db\<lparr>ld_effects := ld_effects db @ [n]\<rparr>)
                          (decided n cls Run (Some (le_token env)) None NoReason) grant of
                         (db', c) \<Rightarrow> (db', Inr c)))"

section \<open>Outcomes, settling and expiry\<close>

text \<open>The attributes of a returned result that the code looks at, and its \<open>status\<close> and \<open>reason\<close>.\<close>

record tool_result =
  tr_effect_unknown :: bool
  tr_effect_rejected :: bool
  tr_is_error :: bool
  tr_success :: "bool option"
  tr_error :: "string option"
  tr_content :: string
  tr_is_dict :: bool
  tr_status :: "string option"
  tr_reason :: "string option"

definition OBSIDIAN_NOTE_REPLACE_NAME :: string where
  "OBSIDIAN_NOTE_REPLACE_NAME = ''obsidian.note_replace''"

definition OBSIDIAN_REJECTED_STATUSES :: "string list" where
  "OBSIDIAN_REJECTED_STATUSES = [''conflict'', ''denied'', ''approval_failure'', ''secret_rejection'',
     ''invalid_content'', ''invalid_path'']"

definition OBSIDIAN_UNCERTAIN_STATUSES :: "string list" where
  "OBSIDIAN_UNCERTAIN_STATUSES = [''recovery_failure'', ''audit_failure'',
     ''internal_execution_failure'', ''governance_failure'']"

definition or_text :: "string option \<Rightarrow> string \<Rightarrow> string" where
  "or_text s t = (case s of None \<Rightarrow> t | Some u \<Rightarrow> if u = [] then t else u)"

definition outcome_of :: "tool_result \<Rightarrow> string option \<Rightarrow> effect_status \<times> string option" where
  "outcome_of r tool =
    (if tr_effect_unknown r then (Ambiguous, Some (or_text (tr_error r) ''outcome unknown''))
     else if tr_effect_rejected r then (EffectFailed, Some (or_text (tr_error r) (tr_content r)))
     else if tr_is_error r then (Ambiguous, Some (or_text (Some (tr_content r)) ''in-band tool error''))
     else if tr_success r = Some False
     then (Ambiguous, Some (or_text (tr_error r) ''tool reported failure''))
     else if tr_is_dict r \<and> tool = Some OBSIDIAN_NOTE_REPLACE_NAME then
       (case tr_status r of
          None \<Rightarrow> (Succeeded, None)
        | Some s \<Rightarrow>
            if s \<in> set OBSIDIAN_REJECTED_STATUSES then (EffectFailed, Some (or_text (tr_reason r) s))
            else if s \<in> set OBSIDIAN_UNCERTAIN_STATUSES then (Ambiguous, Some (or_text (tr_reason r) s))
            else (Succeeded, None))
     else (Succeeded, None))"

text \<open>The only exception that proves nothing happened is \<open>EffectNotStarted\<close>.\<close>

definition outcome_of_exception :: "bool \<Rightarrow> effect_status" where
  "outcome_of_exception effect_not_started = (if effect_not_started then EffectFailed else Ambiguous)"

definition settle_guard :: "uuid \<Rightarrow> uuid \<times> string option \<Rightarrow> tool_effect \<Rightarrow> bool" where
  "settle_guard eid a r \<longleftrightarrow> te_id r = eid \<and> te_company_id r = fst a \<and>
     te_claim_token r = snd a \<and> te_status r = Executing"

definition settle_vals :: "time \<Rightarrow> effect_status \<Rightarrow> dict option \<Rightarrow> string option \<Rightarrow> tool_effect \<Rightarrow> tool_effect" where
  "settle_vals now status stored error r =
    (let r' = r\<lparr>te_status := status, te_claim_token := None, te_lease_expires_at := None,
                te_error := error, te_updated_at := now, te_completed_at := Some now\<rparr>
     in if status = Succeeded then r'\<lparr>te_result := stored\<rparr> else r')"

text \<open>\<open>redact\<close> is \<open>redact_text\<close>, the masking of secret-looking text.\<close>

definition settle ::
  "(string \<Rightarrow> string) \<Rightarrow> time \<Rightarrow> bool \<Rightarrow> claim_result \<Rightarrow> effect_status \<Rightarrow> dict option \<Rightarrow> string option \<Rightarrow>
   ledger_db \<Rightarrow> ledger_db \<times> bool" where
  "settle redact now audit_ok held status stored error db =
    (case cl_effect_id held of
       None \<Rightarrow> (db, False)
     | Some eid \<Rightarrow>
         if cl_action held \<noteq> Run then (db, False)
         else if status = Succeeded \<and> stored = None then (db, False)
         else
           let g = settle_guard eid (cl_company_id held, cl_token held);
               err = (case error of None \<Rightarrow> None | Some e \<Rightarrow> if e = [] then None else Some (redact e));
               es = update_where g (settle_vals now status stored err) (ld_effects db);
               db' = db\<lparr>ld_effects := es\<rparr>
           in if matching g (ld_effects db) \<noteq> 1 then (db, False)
              else if status = Ambiguous
              then (case row_of te_id eid es of
                      None \<Rightarrow> (db', True)
                    | Some row \<Rightarrow> (log_effect audit_ok (system_audit row ''ambiguous'' []) db', True))
              else (db', True))"

definition lapse_vals :: "time \<Rightarrow> tool_effect \<Rightarrow> tool_effect" where
  "lapse_vals now r = r\<lparr>te_status := Ambiguous, te_claim_token := None, te_lease_expires_at := None,
     te_error := Some ''lease expired before the call settled; it may have run'',
     te_updated_at := now\<rparr>"

definition lapsed_effects :: "uuid \<Rightarrow> nat \<Rightarrow> time \<Rightarrow> tool_effect list \<Rightarrow> tool_effect list" where
  "lapsed_effects company limit now es = take limit
    (sort_key (\<lambda>e. case te_lease_expires_at e of None \<Rightarrow> 0 | Some l \<Rightarrow> l)
      (filter (\<lambda>e. te_company_id e = company \<and> te_status e = Executing \<and>
         (case te_lease_expires_at e of None \<Rightarrow> False | Some l \<Rightarrow> l \<le> now)) es))"

text \<open>One transaction for the whole batch: an audit that cannot be written rolls all of it back.\<close>

fun expire_rows :: "time \<Rightarrow> bool \<Rightarrow> tool_effect list \<Rightarrow> ledger_db \<Rightarrow> nat \<Rightarrow> (ledger_db \<times> nat) option" where
  "expire_rows now ok [] db n = Some (db, n)"
| "expire_rows now ok (row # rows) db n =
    (case cas row (lapse_vals now) db of (db', won) \<Rightarrow>
       if \<not> won then expire_rows now ok rows db' n
       else if \<not> ok then None
       else expire_rows now ok rows
              (log_effect True (system_audit row ''ambiguous'' [(''came_from'', JStr ''executing'')]) db')
              (n + 1))"

definition expire_leases :: "uuid \<Rightarrow> nat \<Rightarrow> time \<Rightarrow> bool \<Rightarrow> ledger_db \<Rightarrow> ledger_db \<times> (ledger_error + nat)" where
  "expire_leases company limit now ok db =
    (case expire_rows now ok (lapsed_effects company limit now (ld_effects db)) db 0 of
       None \<Rightarrow> (db, Inl AuditFailed)
     | Some (db', n) \<Rightarrow> (db', Inr n))"

section \<open>Notices and operator recovery\<close>

text \<open>\<open>db_up\<close>: whether the database could be reached at all.\<close>

definition claim_notice :: "bool \<Rightarrow> uuid \<Rightarrow> string \<Rightarrow> ledger_db \<Rightarrow> ledger_db \<times> bool" where
  "claim_notice db_up company key db =
    (if \<not> db_up \<or> (company, key) \<in> set (ld_notices db) then (db, False)
     else (db\<lparr>ld_notices := ld_notices db @ [(company, key)]\<rparr>, True))"

datatype recovery_outcome = Applied | NotApplied

datatype recovery_error =
    ActorOrReasonMissing | EffectNotFound | NotAwaitingRecovery effect_status | ChangedWhileResolving
  | RecoveryAuditFailed

definition resolve_vals ::
  "(string \<Rightarrow> string) \<Rightarrow> time \<Rightarrow> recovery_outcome \<Rightarrow> string \<Rightarrow> string \<Rightarrow> string \<Rightarrow> tool_effect \<Rightarrow> tool_effect" where
  "resolve_vals redact now oc actor reason note r =
    r\<lparr>te_status := (if oc = Applied then Succeeded else EffectFailed),
      te_result := (if oc = Applied
        then Some [(''kind'', JStr ''json''),
                   (''value'', JDict [(''manual_recovery'', JStr ''applied''),
                                      (''note'', JStr (redact note))])]
        else None),
      te_error := (if oc = Applied then None
                   else Some ''manual recovery: effect confirmed not applied''),
      te_resolved_by := Some (take 100 actor), te_resolved_at := Some now,
      te_resolution_reason := Some (redact reason), te_completed_at := Some now,
      te_updated_at := now\<rparr>"

definition resolve_manual_recovery ::
  "(string \<Rightarrow> string) \<Rightarrow> time \<Rightarrow> bool \<Rightarrow> uuid \<Rightarrow> uuid \<Rightarrow> recovery_outcome \<Rightarrow> string \<Rightarrow> string \<Rightarrow> string \<Rightarrow>
   ledger_db \<Rightarrow> ledger_db \<times> (recovery_error + effect_status)" where
  "resolve_manual_recovery redact now audit_ok company eid oc actor reason note db =
    (if list_all is_space actor \<or> list_all is_space reason then (db, Inl ActorOrReasonMissing)
     else (case find (\<lambda>e. te_company_id e = company \<and> te_id e = eid) (ld_effects db) of
       None \<Rightarrow> (db, Inl EffectNotFound)
     | Some row \<Rightarrow>
         if te_status row \<notin> {Ambiguous, ManualRecovery} then (db, Inl (NotAwaitingRecovery (te_status row)))
         else (case cas row (resolve_vals redact now oc actor reason note) db of (db', won) \<Rightarrow>
                if \<not> won then (db, Inl ChangedWhileResolving)
                else if \<not> audit_ok then (db, Inl RecoveryAuditFailed)
                else (log_effect True (effect_audit row ''manual_recovery_resolved'' ''user''
                        [Txt (take 100 actor)]
                        [(''outcome'', JStr (if oc = Applied then ''applied'' else ''not_applied'')),
                         (''from_status'', JStr (effect_status_text (te_status row)))]) db',
                      Inr (if oc = Applied then Succeeded else EffectFailed)))))"

text \<open>One page of open effects: oldest first, after the cursor \<open>(created_at, id)\<close>.\<close>

definition list_open ::
  "uuid \<Rightarrow> int \<Rightarrow> (time \<times> uuid) option \<Rightarrow> ledger_db \<Rightarrow> tool_effect list \<times> (time \<times> uuid) option" where
  "list_open company limit after db =
    (let n = nat (max 1 (min limit 500));
         rows = take (n + 1) (sort_key te_created_at (sort_key te_id
           (filter (\<lambda>e. te_company_id e = company \<and> te_status e \<in> {Ambiguous, ManualRecovery} \<and>
              (case after of None \<Rightarrow> True
               | Some (at, i) \<Rightarrow> at < te_created_at e \<or> (te_created_at e = at \<and> i < te_id e)))
             (ld_effects db))));
         page = take n rows
     in (page, if n < length rows then Some (te_created_at (last page), te_id (last page)) else None))"

end
