(* ===== verification/Ledger_System.thy ===== *)
theory Ledger_System
  imports Tool_Effects
begin

text \<open>
  The ledger of \<open>Tool_Effects\<close> as a system: any number of callers claim slots, run the tools and
  settle, leases expire, operators decide, turns are claimed and recovered in between. Two
  ghost lists record what the code does not store: every permission to run that was given out,
  and every proof that a run did nothing (the tool said so, or an operator did). The theorems
  are about the difference of the two.
\<close>

section \<open>What each operation does to the rows\<close>

interpretation take_upd: pk_update te_id cas_guard "\<lambda>row. take_vals now token row" for now token
  by unfold_locales (auto simp: cas_guard_def take_vals_def)

interpretation manual_upd: pk_update te_id cas_guard "\<lambda>_. manual_vals now" for now
  by unfold_locales (auto simp: cas_guard_def manual_vals_def)

interpretation lapse_upd: pk_update te_id cas_guard "\<lambda>_. lapse_vals now" for now
  by unfold_locales (auto simp: cas_guard_def lapse_vals_def)

interpretation resolve_upd: pk_update te_id cas_guard "\<lambda>_. resolve_vals redact now oc actor reason remark"
  for redact now oc actor reason remark
  by unfold_locales (auto simp: cas_guard_def resolve_vals_def)

interpretation settle_upd: pk_update te_id settle_guard "\<lambda>_. settle_vals now status stored err"
  for now status stored err
  by unfold_locales (auto simp: settle_guard_def settle_vals_def Let_def)

lemma ledger_frame [simp]:
  "ld_effects (log_effect ok a db) = ld_effects db" "ld_turns (log_effect ok a db) = ld_turns db"
  "ld_grants (log_effect ok a db) = ld_grants db" "ld_notices (log_effect ok a db) = ld_notices db"
  by (simp_all add: log_effect_def)

lemma decided_simps [simp]:
  "cl_action (decided row strict act tok st why) = act"
  "cl_effect_id (decided row strict act tok st why) = Some (te_id row)"
  "cl_token (decided row strict act tok st why) = tok"
  "cl_stored (decided row strict act tok st why) = st"
  "cl_company_id (decided row strict act tok st why) = te_company_id row"
  "cl_key (decided row strict act tok st why) = Some (te_invocation_key row)"
  by (simp_all add: decided_def)

lemma plain_claim_simps [simp]: "cl_action (plain_claim act c k e y why) = act"
  by (simp add: plain_claim_def)

text \<open>The row was locked for update when it was read, so the compare-and-set hits it.\<close>

lemma cas_self:
  assumes d: "distinct (map te_id (ld_effects db))" and r: "row \<in> set (ld_effects db)"
    and f: "te_id (f row) = te_id row" and c: "cas row f db = (db', won)"
  shows "won" and "replaced te_id row (f row) (ld_effects db) (ld_effects db')"
    and "ld_turns db' = ld_turns db" "ld_grants db' = ld_grants db" "ld_notices db' = ld_notices db"
proof -
  let ?g = "cas_guard (te_id row) row"
  have db': "db' = db\<lparr>ld_effects := update_where ?g f (ld_effects db)\<rparr>"
    and won: "won = (matching ?g (ld_effects db) = 1)"
    using c by (simp_all add: cas_def Let_def)
  have only: "?g x \<longleftrightarrow> x = row" if "x \<in> set (ld_effects db)" for x
    using same_key_same_row [OF d that r] by (auto simp: cas_guard_def)
  have "row_of te_id (te_id row) (ld_effects db) = Some row" by (rule row_of_in [OF d r])
  then show "won"
    using take_upd.rowcount_one_iff [OF d, of "te_id row" row] only [OF r] won by auto
  have "map te_id (update_where ?g f (ld_effects db)) = map te_id (ld_effects db)"
    using only f by (auto simp: update_where_def)
  moreover have "set (update_where ?g f (ld_effects db)) = insert (f row) (set (ld_effects db) - {row})"
    using only r by (auto simp: set_update_where)
  ultimately show "replaced te_id row (f row) (ld_effects db) (ld_effects db')"
    using r f db' by (simp add: replaced_def)
  show "ld_turns db' = ld_turns db" "ld_grants db' = ld_grants db" "ld_notices db' = ld_notices db"
    using db' by simp_all
qed

text \<open>The decision table of an occupied slot.\<close>

definition lease_over :: "time \<Rightarrow> tool_effect \<Rightarrow> bool" where
  "lease_over now row \<longleftrightarrow> (case te_lease_expires_at row of None \<Rightarrow> True | Some l \<Rightarrow> l \<le> now)"

lemma decide_cases:
  assumes c: "decide env row cls db = (db', res)"
    and d: "distinct (map te_id (ld_effects db))" and r: "row \<in> set (ld_effects db)"
  obtains (replay) "te_status row = Succeeded" "ld_effects db' = ld_effects db"
      "\<exists>s. res = Inr (decided row s Replay None (te_result row) NoReason)"
  | (blocked) "te_status row = ManualRecovery" "ld_effects db' = ld_effects db"
      "\<exists>s. res = Inr (decided row s Blocked None None NeedsManualRecovery)"
  | (busy) "te_status row = Executing" "\<not> lease_over (le_now env) row" "ld_effects db' = ld_effects db"
      "\<exists>s. res = Inr (decided row s Busy None None HeldByAnother)"
  | (retry) "te_status row = EffectFailed"
      "replaced te_id row (take_vals (le_now env) (le_token env) row row) (ld_effects db) (ld_effects db')"
      "\<exists>s. res = Inr (decided row s Run (Some (le_token env)) None NoReason)"
  | (manual) "te_status row = Ambiguous \<or> te_status row = Executing \<and> lease_over (le_now env) row"
      "NonIdempotentWrite \<in> {te_effect_class row, cls}"
      "replaced te_id row (manual_vals (le_now env) row) (ld_effects db) (ld_effects db')"
      "\<exists>s. res = Inr (decided row s Blocked None None NeedsManualRecovery)"
  | (retake) "te_status row = Ambiguous \<or> te_status row = Executing \<and> lease_over (le_now env) row"
      "NonIdempotentWrite \<notin> {te_effect_class row, cls}"
      "replaced te_id row (take_vals (le_now env) (le_token env) row row) (ld_effects db) (ld_effects db')"
      "\<exists>s. res = Inr (decided row s Run (Some (le_token env)) None NoReason)"
  | (error) "res = Inl AuditFailed" "ld_effects db' = ld_effects db" "\<not> le_audit_ok env"
proof -
  obtain dbt wt where t: "cas row (take_vals (le_now env) (le_token env) row) db = (dbt, wt)"
    by (cases "cas row (take_vals (le_now env) (le_token env) row) db") auto
  obtain dbm wm where m: "cas row (manual_vals (le_now env)) db = (dbm, wm)"
    by (cases "cas row (manual_vals (le_now env)) db") auto
  have tt: "wt" "replaced te_id row (take_vals (le_now env) (le_token env) row row) (ld_effects db) (ld_effects dbt)"
    using cas_self [OF d r _ t] by (simp_all add: take_vals_def)
  have mm: "wm" "replaced te_id row (manual_vals (le_now env) row) (ld_effects db) (ld_effects dbm)"
    using cas_self [OF d r _ m] by (simp_all add: manual_vals_def)
  have strict: "strictest (te_effect_class row) cls = NonIdempotentWrite \<longleftrightarrow>
      NonIdempotentWrite \<in> {te_effect_class row, cls}"
    by (simp add: strictest_def)
  note dd = decide_def [of env row cls db] Let_def t m
  consider "te_status row = Succeeded" | "te_status row = ManualRecovery"
    | "te_status row = Executing" "\<not> lease_over (le_now env) row"
    | "te_status row = EffectFailed"
    | "te_status row = Ambiguous \<or> te_status row = Executing \<and> lease_over (le_now env) row"
    by (cases "te_status row") auto
  then show ?thesis
  proof cases
    case 1
    with c show ?thesis by (intro replay) (auto simp: dd)
  next
    case 2
    with c show ?thesis by (intro blocked) (auto simp: dd)
  next
    case 3
    with c show ?thesis
      by (intro busy) (auto simp: dd lease_over_def split: option.splits)
  next
    case 4
    with c tt show ?thesis by (intro retry) (auto simp: dd)
  next
    case 5
    then have st: "te_status row \<noteq> Succeeded" "te_status row \<noteq> ManualRecovery"
      "te_status row \<noteq> EffectFailed" "\<not> (te_status row = Executing \<and> \<not> lease_over (le_now env) row)"
      by auto
    show ?thesis
    proof (cases "NonIdempotentWrite \<in> {te_effect_class row, cls}")
      case True
      with c st mm strict have "(db', res) = (if \<not> le_audit_ok env then (db, Inl AuditFailed)
          else (log_effect True (system_audit row ''manual_recovery_required''
                  [(''came_from'', JStr (effect_status_text (te_status row)))]) dbm,
                Inr (decided row NonIdempotentWrite Blocked None None NeedsManualRecovery)))"
        by (auto simp: dd lease_over_def)
      with 5 True mm show ?thesis
        by (cases "le_audit_ok env") (auto intro: error manual)
    next
      case False
      with c st tt strict have "(db', res) = (if \<not> le_audit_ok env then (db, Inl AuditFailed)
          else (log_effect True (system_audit row ''retaken''
                  [(''came_from'', JStr (effect_status_text (te_status row)))]) dbt,
                Inr (decided row (strictest (te_effect_class row) cls) Run (Some (le_token env)) None NoReason)))"
        by (auto simp: dd lease_over_def)
      with 5 False tt show ?thesis
        by (cases "le_audit_ok env") (auto intro: error retake)
    qed
  qed
qed

lemma commit_run_cases:
  assumes "commit_run now before db run grant = (db', c)"
  obtains (kept) "c = run" "ld_effects db' = ld_effects db" "ld_turns db' = ld_turns db"
  | (denied) "db' = before" "cl_action c = Denied"
  using assms by (auto simp: commit_run_def split: option.splits prod.splits if_splits)

lemma slot_row_SomeD:
  "slot_row company key es = Some r \<Longrightarrow> r \<in> set es \<and> te_company_id r = company \<and> te_invocation_key r = key"
  by (auto simp: slot_row_def find_Some_iff)

text \<open>How a claim can end, with what it did to the rows.\<close>

lemma claim_effect_cases:
  assumes c: "claim_effect env company turn slot tool cls args grant ep db = (db', res)"
    and d: "distinct (map te_id (ld_effects db))"
  obtains (no_run) "ld_effects db' = ld_effects db" "\<And>r. res = Inr r \<Longrightarrow> cl_action r \<noteq> Run"
  | (fresh) a n r where "args = Some a" "stale_reason_of company turn ep (ld_turns db) = None"
      "n = new_effect env company turn slot tool cls (arguments_digest (le_sha env) a)
         (case ep of None \<Rightarrow> 1 | Some e \<Rightarrow> epoch_attempt e)"
      "insert_ok (ld_effects db) n" "ld_effects db' = ld_effects db @ [n]"
      "res = Inr r" "cl_action r = Run" "cl_effect_id r = Some (te_id n)"
      "cl_token r = Some (le_token env)" "cl_company_id r = company"
      "\<not> (1 < te_turn_attempt n \<and> earlier_execution_wrote n (te_turn_attempt n) (ld_effects db))"
  | (took) a row r where "args = Some a" "stale_reason_of company turn ep (ld_turns db) = None"
      "slot_row company (invocation_key (le_sha env) company turn slot) (ld_effects db) = Some row"
      "te_tool_name row = tool" "te_arguments_digest row = arguments_digest (le_sha env) a"
      "te_status row = EffectFailed \<or>
         (te_status row = Ambiguous \<or> te_status row = Executing \<and> lease_over (le_now env) row) \<and>
         NonIdempotentWrite \<notin> {te_effect_class row, cls}"
      "replaced te_id row (take_vals (le_now env) (le_token env) row row) (ld_effects db) (ld_effects db')"
      "res = Inr r" "cl_action r = Run" "cl_effect_id r = Some (te_id row)"
      "cl_token r = Some (le_token env)" "cl_company_id r = company"
  | (manual) row r where "te_status row = Ambiguous \<or> te_status row = Executing"
      "NonIdempotentWrite \<in> {te_effect_class row, cls}" "lease_over (le_now env) row \<or> te_status row = Ambiguous"
      "replaced te_id row (manual_vals (le_now env) row) (ld_effects db) (ld_effects db')"
      "res = Inr r" "cl_action r = Blocked"
proof (cases args)
  case None
  with c show ?thesis by (intro no_run) (auto simp: claim_effect_def)
next
  case (Some a)
  show ?thesis
  proof (cases "stale_reason_of company turn ep (ld_turns db)")
    case (Some why)
    with c \<open>args = Some a\<close> show ?thesis by (intro no_run) (auto simp: claim_effect_def Let_def)
  next
    case None
    let ?att = "case ep of None \<Rightarrow> 1 | Some e \<Rightarrow> epoch_attempt e"
    let ?n = "new_effect env company turn slot tool cls (arguments_digest (le_sha env) a) ?att"
    let ?key = "invocation_key (le_sha env) company turn slot"
    have att: "te_turn_attempt ?n = ?att" by (simp add: new_effect_def)
    have ce: "claim_effect env company turn slot tool cls args grant ep db =
        (if \<not> insert_ok (ld_effects db) ?n
         then claim_occupied env company ?key tool cls (arguments_digest (le_sha env) a) grant db
         else if 1 < ?att \<and> earlier_execution_wrote ?n ?att (ld_effects db)
         then (db, Inr (plain_claim Blocked company cls None ?key NewWriteInRecovery))
         else (case commit_run (le_now env) db (db\<lparr>ld_effects := ld_effects db @ [?n]\<rparr>)
                (decided ?n cls Run (Some (le_token env)) None NoReason) grant of
               (db', c) \<Rightarrow> (db', Inr c)))"
      using \<open>args = Some a\<close> None by (simp add: claim_effect_def Let_def)
    show ?thesis
    proof (cases "insert_ok (ld_effects db) ?n")
      case True
      show ?thesis
      proof (cases "1 < ?att \<and> earlier_execution_wrote ?n ?att (ld_effects db)")
        case blocked: True
        have "(db', res) = (db, Inr (plain_claim Blocked company cls None ?key NewWriteInRecovery))"
          unfolding c [symmetric] ce using True blocked by simp
        then show ?thesis by (intro no_run) auto
      next
        case False
        obtain db2 r where cr: "commit_run (le_now env) db (db\<lparr>ld_effects := ld_effects db @ [?n]\<rparr>)
            (decided ?n cls Run (Some (le_token env)) None NoReason) grant = (db2, r)"
          by (cases "commit_run (le_now env) db (db\<lparr>ld_effects := ld_effects db @ [?n]\<rparr>)
            (decided ?n cls Run (Some (le_token env)) None NoReason) grant") auto
        have "(db', res) = (db2, Inr r)" unfolding c [symmetric] ce using True cr by (simp only: if_not_P [OF False] not_not if_False prod.case) simp
        then have res: "db' = db2" "res = Inr r" by simp_all
        from cr show ?thesis
        proof (cases rule: commit_run_cases)
          case kept
          have "te_company_id ?n = company" by (simp add: new_effect_def)
          with kept res False True \<open>args = Some a\<close> None att show ?thesis
            by (intro fresh [of a ?n r]) simp_all
        next
          case denied
          with res show ?thesis by (intro no_run) auto
        qed
      qed
    next
      case False
      then have o: "claim_occupied env company ?key tool cls (arguments_digest (le_sha env) a) grant db = (db', res)"
        using c by (simp add: ce)
      show ?thesis
      proof (cases "slot_row company ?key (ld_effects db)")
        case none: None
        with o show ?thesis by (intro no_run) (auto simp: claim_occupied_def)
      next
        case (Some row)
        show ?thesis
        proof (cases "te_tool_name row = tool \<and> te_arguments_digest row = arguments_digest (le_sha env) a")
          case False
          with o Some show ?thesis by (intro no_run) (auto simp: claim_occupied_def)
        next
          case True
          have row: "row \<in> set (ld_effects db)" "te_company_id row = company"
            using slot_row_SomeD [OF Some] by simp_all
          obtain db2 dres where dec: "decide env row cls db = (db2, dres)"
            by (cases "decide env row cls db") auto
          note co = o [unfolded claim_occupied_def] Some True dec
          have run: ?thesis
            if t: "te_status row = EffectFailed \<or>
                (te_status row = Ambiguous \<or> te_status row = Executing \<and> lease_over (le_now env) row) \<and>
                NonIdempotentWrite \<notin> {te_effect_class row, cls}"
              and rp: "replaced te_id row (take_vals (le_now env) (le_token env) row row) (ld_effects db) (ld_effects db2)"
              and dr: "dres = Inr (decided row s Run (Some (le_token env)) None NoReason)" for s
          proof -
            obtain db3 r where cr: "commit_run (le_now env) db db2
                (decided row s Run (Some (le_token env)) None NoReason) grant = (db3, r)"
              by (cases "commit_run (le_now env) db db2
                (decided row s Run (Some (le_token env)) None NoReason) grant") auto
            have res: "db' = db3" "res = Inr r" using co dr cr by simp_all
            from cr show ?thesis
            proof (cases rule: commit_run_cases)
              case kept
              with res t rp True row Some \<open>args = Some a\<close> \<open>stale_reason_of company turn ep (ld_turns db) = None\<close>
              show ?thesis by (intro took [of a row r]) simp_all
            next
              case denied
              with res show ?thesis by (intro no_run) auto
            qed
          qed
          from dec d row(1) show ?thesis
          proof (cases rule: decide_cases)
            case retry
            then show ?thesis using run by blast
          next
            case retake
            then show ?thesis using run by blast
          next
            case manual
            then obtain s where s: "dres = Inr (decided row s Blocked None None NeedsManualRecovery)" by blast
            with co have "db' = db2" "res = Inr (decided row s Blocked None None NeedsManualRecovery)" by simp_all
            with manual show ?thesis
              by (intro that(4) [of row "decided row s Blocked None None NeedsManualRecovery"]) auto
          qed (use co in \<open>auto intro!: no_run\<close>)
        qed
      qed
    qed
  qed
qed

lemma settle_cases:
  assumes c: "settle redact now ok held status st err db = (db', b)"
    and d: "distinct (map te_id (ld_effects db))"
  obtains (noop) "\<not> b" "db' = db"
  | (settled) row err' where "b" "cl_action held = Run" "cl_effect_id held = Some (te_id row)"
      "te_company_id row = cl_company_id held" "te_claim_token row = cl_token held"
      "te_status row = Executing"
      "replaced te_id row (settle_vals now status st err' row) (ld_effects db) (ld_effects db')"
      "ld_turns db' = ld_turns db"
proof (cases "cl_effect_id held")
  case None
  with c have "\<not> b \<and> db' = db" by (auto simp: settle_def)
  then show ?thesis using noop by blast
next
  case (Some eid)
  let ?g = "settle_guard eid (cl_company_id held, cl_token held)"
  show ?thesis
  proof (cases "cl_action held \<noteq> Run \<or> status = Succeeded \<and> st = None \<or> matching ?g (ld_effects db) \<noteq> 1")
    case True
    with c Some have "\<not> b \<and> db' = db" by (auto simp: settle_def Let_def split: if_splits)
    then show ?thesis using noop by blast
  next
    case False
    let ?err = "case err of None \<Rightarrow> None | Some e \<Rightarrow> if e = [] then None else Some (redact e)"
    let ?es = "update_where ?g (settle_vals now status st ?err) (ld_effects db)"
    from settle_upd.hit_replaces [OF d, of eid "(cl_company_id held, cl_token held)" now status st ?err] False
    obtain row where row: "?g row" "replaced te_id row (settle_vals now status st ?err row) (ld_effects db) ?es"
      by blast
    have "ld_effects db' = ?es \<and> ld_turns db' = ld_turns db \<and> b"
      using c Some False by (auto simp: settle_def Let_def split: if_splits option.splits)
    with row False Some show ?thesis
      by (intro settled [of row ?err]) (auto simp: settle_guard_def)
  qed
qed

lemma resolve_cases:
  assumes c: "resolve_manual_recovery redact now ok company eid oc actor reason remark db = (db', res)"
    and d: "distinct (map te_id (ld_effects db))"
  obtains (refused) e where "db' = db" "res = Inl e"
  | (resolved) row where "te_id row = eid" "te_company_id row = company"
      "te_status row = Ambiguous \<or> te_status row = ManualRecovery" "ok"
      "replaced te_id row (resolve_vals redact now oc actor reason remark row) (ld_effects db) (ld_effects db')"
      "ld_turns db' = ld_turns db"
      "res = Inr (if oc = Applied then Succeeded else EffectFailed)"
      "ld_audits db' = ld_audits db @ [effect_audit row ''manual_recovery_resolved'' ''user''
          [Txt (take 100 actor)]
          [(''outcome'', JStr (if oc = Applied then ''applied'' else ''not_applied'')),
           (''from_status'', JStr (effect_status_text (te_status row)))]]"
proof (cases "list_all is_space actor \<or> list_all is_space reason")
  case True
  with c show ?thesis by (intro refused) (auto simp: resolve_manual_recovery_def)
next
  case sp: False
  show ?thesis
  proof (cases "find (\<lambda>e. te_company_id e = company \<and> te_id e = eid) (ld_effects db)")
    case None
    with c sp show ?thesis by (intro refused) (auto simp: resolve_manual_recovery_def)
  next
    case (Some row)
    then have row: "row \<in> set (ld_effects db)" "te_company_id row = company" "te_id row = eid"
      by (auto simp: find_Some_iff)
    obtain db2 won where cs: "cas row (resolve_vals redact now oc actor reason remark) db = (db2, won)"
      by (cases "cas row (resolve_vals redact now oc actor reason remark) db") auto
    note self = cas_self [OF d row(1) _ cs]
    have won: "won" "replaced te_id row (resolve_vals redact now oc actor reason remark row) (ld_effects db) (ld_effects db2)"
      "ld_turns db2 = ld_turns db" using self by (simp_all add: resolve_vals_def)
    have au: "ld_audits db2 = ld_audits db" using cs by (auto simp: cas_def Let_def)
    show ?thesis
    proof (cases "te_status row \<in> {Ambiguous, ManualRecovery} \<and> ok")
      case True
      with c sp Some cs won row au show ?thesis
        by (intro resolved [of row]) (auto simp: resolve_manual_recovery_def log_effect_def)
    next
      case False
      with c sp Some cs won(1) have "db' = db \<and> (\<exists>e. res = Inl e)"
        by (auto simp: resolve_manual_recovery_def split: if_splits)
      then show ?thesis using refused by blast
    qed
  qed
qed

section \<open>The system\<close>

record ledger_world =
  lw_db :: ledger_db
  lw_holders :: "claim_result list"
  lw_runs :: "uuid list"
  lw_excused :: "uuid list"

text \<open>The world after a claim: a granted run adds its holder and counts the permission.\<close>

definition granted :: "ledger_world \<Rightarrow> ledger_db \<Rightarrow> ledger_error + claim_result \<Rightarrow> ledger_world" where
  "granted w db res =
    (case res of
       Inl _ \<Rightarrow> w\<lparr>lw_db := db\<rparr>
     | Inr c \<Rightarrow> if cl_action c = Run
         then w\<lparr>lw_db := db, lw_holders := lw_holders w @ [c],
                lw_runs := lw_runs w @ [the (cl_effect_id c)]\<rparr>
         else w\<lparr>lw_db := db\<rparr>)"

text \<open>
  \<open>secrets.token_hex\<close> never repeats a token: the side condition of \<open>claim\<close>. Turns and grants
  change under the ledger as they please.
\<close>

inductive lstep :: "ledger_world \<Rightarrow> ledger_world \<Rightarrow> bool" where
  claim: "claim_effect env company turn slot tool cls args grant ep (lw_db w) = (db', res) \<Longrightarrow>
    Some (le_token env) \<notin> set (map cl_token (lw_holders w)) \<Longrightarrow> lstep w (granted w db' res)"
| settle: "c \<in> set (lw_holders w) \<Longrightarrow> status \<in> {Succeeded, EffectFailed, Ambiguous} \<Longrightarrow>
    settle redact now ok c status st err (lw_db w) = (db', b) \<Longrightarrow>
    lstep w (w\<lparr>lw_db := db', lw_excused := (if b \<and> status = EffectFailed
      then lw_excused w @ [the (cl_effect_id c)] else lw_excused w)\<rparr>)"
| expire: "expire_leases company limit now ok (lw_db w) = (db', r) \<Longrightarrow> lstep w (w\<lparr>lw_db := db'\<rparr>)"
| resolve: "resolve_manual_recovery redact now ok company eid oc actor reason remark (lw_db w) = (db', res) \<Longrightarrow>
    lstep w (w\<lparr>lw_db := db', lw_excused := (if res = Inr EffectFailed
      then lw_excused w @ [eid] else lw_excused w)\<rparr>)"
| notice: "claim_notice up company key (lw_db w) = (db', b) \<Longrightarrow> lstep w (w\<lparr>lw_db := db'\<rparr>)"
| outside: "lstep w (w\<lparr>lw_db := (lw_db w)\<lparr>ld_turns := ts, ld_grants := gs\<rparr>\<rparr>)"

inductive lreachable :: "ledger_world \<Rightarrow> bool" where
  start: "ld_effects (lw_db w) = [] \<Longrightarrow> lw_holders w = [] \<Longrightarrow> lw_runs w = [] \<Longrightarrow> lw_excused w = [] \<Longrightarrow>
    lreachable w"
| next_world: "lreachable w \<Longrightarrow> lstep w w' \<Longrightarrow> lreachable w'"

section \<open>The invariant\<close>

definition balanced :: "ledger_world \<Rightarrow> tool_effect \<Rightarrow> bool" where
  "balanced w e \<longleftrightarrow> count_list (lw_runs w) (te_id e) \<le>
     count_list (lw_excused w) (te_id e) + (if te_status e = EffectFailed then 0 else 1)"

definition token_ok :: "claim_result list \<Rightarrow> tool_effect \<Rightarrow> bool" where
  "token_ok cs e \<longleftrightarrow> (te_status e = Executing \<longleftrightarrow> te_claim_token e \<noteq> None) \<and>
     (\<forall>t. te_claim_token e = Some t \<longrightarrow>
       (\<exists>c \<in> set cs. cl_token c = Some t \<and> cl_effect_id c = Some (te_id e)))"

definition linv :: "ledger_world \<Rightarrow> bool" where
  "linv w \<longleftrightarrow> distinct (map te_id (ld_effects (lw_db w))) \<and>
     set (lw_runs w) \<subseteq> te_id ` set (ld_effects (lw_db w)) \<and>
     (\<forall>e \<in> set (ld_effects (lw_db w)). te_effect_class e = NonIdempotentWrite \<longrightarrow> balanced w e) \<and>
     (\<forall>e \<in> set (ld_effects (lw_db w)). token_ok (lw_holders w) e) \<and>
     distinct (map cl_token (lw_holders w)) \<and>
     (\<forall>c \<in> set (lw_holders w). cl_action c = Run \<and> cl_token c \<noteq> None \<and> cl_effect_id c \<noteq> None)"

lemma linvD:
  assumes "linv w"
  shows "distinct (map te_id (ld_effects (lw_db w)))"
    "set (lw_runs w) \<subseteq> te_id ` set (ld_effects (lw_db w))"
    "e \<in> set (ld_effects (lw_db w)) \<Longrightarrow> te_effect_class e = NonIdempotentWrite \<Longrightarrow> balanced w e"
    "e \<in> set (ld_effects (lw_db w)) \<Longrightarrow> token_ok (lw_holders w) e"
    "distinct (map cl_token (lw_holders w))"
    "c \<in> set (lw_holders w) \<Longrightarrow> cl_action c = Run \<and> cl_token c \<noteq> None \<and> cl_effect_id c \<noteq> None"
  using assms by (auto simp: linv_def)

text \<open>Rewriting one row keeps the invariant when the new row does.\<close>

lemma linv_replaced:
  assumes i: "linv w" and r: "replaced te_id old new (ld_effects (lw_db w)) (ld_effects (lw_db w'))"
    and h: "lw_holders w' = lw_holders w @ hs" and runs: "lw_runs w' = lw_runs w @ rs"
    and ex: "lw_excused w' = lw_excused w @ xs"
    and rs: "set rs \<subseteq> {te_id old}"
    and cls: "te_effect_class new = te_effect_class old"
    and bal: "te_effect_class old = NonIdempotentWrite \<Longrightarrow> balanced w' new"
    and tok: "token_ok (lw_holders w') new"
    and hs: "distinct (map cl_token (lw_holders w'))"
      "\<forall>c \<in> set hs. cl_action c = Run \<and> cl_token c \<noteq> None \<and> cl_effect_id c \<noteq> None"
  shows "linv w'"
proof -
  note d = linvD [OF i]
  have ids: "te_id ` set (ld_effects (lw_db w')) = te_id ` set (ld_effects (lw_db w))"
    using r by (metis replaced_keys set_map)
  have other: "te_id e \<noteq> te_id old" if "e \<in> set (ld_effects (lw_db w))" "e \<noteq> old" for e
    using same_key_same_row [OF d(1) that(1), of old] that(2) r by (auto simp: replaced_def)
  have "balanced w' e" if "e \<in> set (ld_effects (lw_db w'))" "te_effect_class e = NonIdempotentWrite" for e
  proof (cases "e = new")
    case True
    with bal cls that show ?thesis by simp
  next
    case False
    with that r have e: "e \<in> set (ld_effects (lw_db w))" "e \<noteq> old" by (auto simp: replaced_def)
    then have "te_id e \<notin> set rs" using other rs by auto
    then have "count_list rs (te_id e) = 0" by (simp add: count_list_0_iff)
    with d(3) [OF e(1) that(2)] runs ex show ?thesis by (auto simp: balanced_def split: if_splits)
  qed
  moreover have "token_ok (lw_holders w') e" if "e \<in> set (ld_effects (lw_db w'))" for e
  proof (cases "e = new")
    case False
    with that r have "e \<in> set (ld_effects (lw_db w))" by (auto simp: replaced_def)
    with d(4) h show ?thesis by (fastforce simp: token_ok_def)
  qed (use tok in simp)
  moreover have "set (lw_runs w') \<subseteq> te_id ` set (ld_effects (lw_db w'))"
    using d(2) runs rs r unfolding ids by (auto simp: replaced_def)
  moreover have "distinct (map te_id (ld_effects (lw_db w')))"
    using d(1) r by (simp add: replaced_def)
  moreover have "\<forall>c \<in> set (lw_holders w'). cl_action c = Run \<and> cl_token c \<noteq> None \<and> cl_effect_id c \<noteq> None"
    using d(6) h hs(2) by auto
  ultimately show ?thesis using hs(1) by (simp add: linv_def)
qed

lemma linv_same:
  assumes "linv w" and "ld_effects (lw_db w') = ld_effects (lw_db w)" and "lw_holders w' = lw_holders w"
    and "lw_runs w' = lw_runs w" and "lw_excused w' = lw_excused w"
  shows "linv w'"
  using assms by (simp add: linv_def balanced_def)

lemma cas_cases:
  assumes d: "distinct (map te_id (ld_effects db))" and c: "cas row f db = (db', won)"
    and f: "\<And>r. te_id (f r) = te_id r"
  obtains (lost) "\<not> won" "ld_effects db' = ld_effects db"
  | (hit) old where "won" "cas_guard (te_id row) row old"
      "replaced te_id old (f old) (ld_effects db) (ld_effects db')"
proof -
  let ?g = "cas_guard (te_id row) row"
  have db': "ld_effects db' = update_where ?g f (ld_effects db)"
    and won: "won = (matching ?g (ld_effects db) = 1)"
    using c by (auto simp: cas_def Let_def)
  show ?thesis
  proof (cases won)
    case False
    with won take_upd.rowcount_le_one [OF d, of "te_id row" row] have "matching ?g (ld_effects db) = 0" by simp
    with False db' show ?thesis by (intro lost) (simp_all add: matching_0_iff update_where_none)
  next
    case True
    then obtain old where old: "row_of te_id (te_id row) (ld_effects db) = Some old" "?g old"
      using won take_upd.rowcount_one_iff [OF d, of "te_id row" row] by blast
    then have o: "old \<in> set (ld_effects db)" by (auto dest: row_of_SomeD)
    have only: "?g x \<longleftrightarrow> x = old" if "x \<in> set (ld_effects db)" for x
      using same_key_same_row [OF d that o] old(2) by (auto simp: cas_guard_def)
    have "map te_id (ld_effects db') = map te_id (ld_effects db)"
      using f by (simp add: db' map_update_where)
    moreover have "set (ld_effects db') = insert (f old) (set (ld_effects db) - {old})"
      using only o by (auto simp: db' set_update_where)
    ultimately show ?thesis using True old(2) o f by (intro hit [of old]) (simp_all add: replaced_def)
  qed
qed

text \<open>A lapse keeps the balance and takes the token away.\<close>

lemma linv_lapse:
  assumes i: "linv w" and r: "replaced te_id old (lapse_vals now old) (ld_effects (lw_db w)) (ld_effects db')"
    and st: "te_status old = Executing"
  shows "linv (w\<lparr>lw_db := db'\<rparr>)"
proof (rule linv_replaced [OF i, where rs = "[]" and xs = "[]" and hs = "[]"])
  have old: "old \<in> set (ld_effects (lw_db w))" using r by (simp add: replaced_def)
  show "replaced te_id old (lapse_vals now old) (ld_effects (lw_db w)) (ld_effects (lw_db (w\<lparr>lw_db := db'\<rparr>)))"
    using r by simp
  show "te_effect_class old = NonIdempotentWrite \<Longrightarrow> balanced (w\<lparr>lw_db := db'\<rparr>) (lapse_vals now old)"
    using linvD(3) [OF i old] st by (simp add: balanced_def lapse_vals_def)
  show "token_ok (lw_holders (w\<lparr>lw_db := db'\<rparr>)) (lapse_vals now old)"
    by (simp add: token_ok_def lapse_vals_def)
qed (use linvD(5) [OF i] in \<open>simp_all add: lapse_vals_def\<close>)

lemma expire_rows_linv:
  assumes "expire_rows now ok rows db n = Some (db', m)" and "linv (w\<lparr>lw_db := db\<rparr>)"
    and "\<forall>r \<in> set rows. te_status r = Executing"
  shows "linv (w\<lparr>lw_db := db'\<rparr>)"
  using assms
proof (induction rows arbitrary: db n)
  case Nil
  then show ?case by simp
next
  case (Cons row rows)
  obtain db1 won where c: "cas row (lapse_vals now) db = (db1, won)"
    by (cases "cas row (lapse_vals now) db") auto
  have d: "distinct (map te_id (ld_effects db))" using linvD(1) [OF Cons.prems(2)] by simp
  have lap: "te_id (lapse_vals now r) = te_id r" for r by (simp add: lapse_vals_def)
  from d c lap show ?case
  proof (cases rule: cas_cases)
    case lost
    with Cons.prems c have "expire_rows now ok rows db1 n = Some (db', m)" by simp
    moreover have "linv (w\<lparr>lw_db := db1\<rparr>)"
      by (rule linv_same [OF Cons.prems(2)]) (simp_all add: lost)
    ultimately show ?thesis using Cons.IH Cons.prems(3) by simp
  next
    case (hit old)
    let ?db2 = "log_effect True (system_audit row ''ambiguous'' [(''came_from'', JStr ''executing'')]) db1"
    have "expire_rows now ok rows ?db2 (n + 1) = Some (db', m)"
      using Cons.prems(1) c hit(1) by (simp split: if_splits)
    moreover have "linv (w\<lparr>lw_db := ?db2\<rparr>)"
    proof -
      have "te_status old = Executing" using hit(2) Cons.prems(3) by (simp add: cas_guard_def)
      then show ?thesis
        using linv_lapse [OF Cons.prems(2), of old now ?db2] hit(3) by simp
    qed
    ultimately show ?thesis using Cons.IH Cons.prems(3) by simp
  qed
qed

lemma linv_expire:
  assumes "linv w" and "expire_leases company limit now ok (lw_db w) = (db', r)"
  shows "linv (w\<lparr>lw_db := db'\<rparr>)"
proof (cases "expire_rows now ok (lapsed_effects company limit now (ld_effects (lw_db w))) (lw_db w) 0")
  case None
  with assms(2) have "lw_db w = db'" by (simp add: expire_leases_def)
  with assms(1) show ?thesis by auto
next
  case (Some q)
  then obtain d n where q: "expire_rows now ok (lapsed_effects company limit now (ld_effects (lw_db w)))
      (lw_db w) 0 = Some (d, n)" by (cases q) auto
  have "\<forall>r \<in> set (lapsed_effects company limit now (ld_effects (lw_db w))). te_status r = Executing"
    by (auto simp: lapsed_effects_def dest: in_set_takeD)
  moreover have "linv (w\<lparr>lw_db := lw_db w\<rparr>)" using assms(1) by simp
  ultimately have "linv (w\<lparr>lw_db := d\<rparr>)" by (intro expire_rows_linv [OF q])
  with assms(2) q show ?thesis by (simp add: expire_leases_def)
qed

lemma linv_settle:
  assumes i: "linv w" and st: "status \<in> {Succeeded, EffectFailed, Ambiguous}"
    and s: "settle redact now ok c status stv err (lw_db w) = (db', b)"
  shows "linv (w\<lparr>lw_db := db', lw_excused := (if b \<and> status = EffectFailed
      then lw_excused w @ [the (cl_effect_id c)] else lw_excused w)\<rparr>)" (is "linv ?w")
  using s linvD(1) [OF i]
proof (cases rule: settle_cases)
  case noop
  then show ?thesis by (intro linv_same [OF i]) simp_all
next
  case (settled row err')
  let ?new = "settle_vals now status stv err' row"
  have row: "row \<in> set (ld_effects (lw_db w))" using settled(7) by (simp add: replaced_def)
  have new: "te_effect_class ?new = te_effect_class row" "te_id ?new = te_id row"
    "te_status ?new = status" "te_claim_token ?new = None"
    by (simp_all add: settle_vals_def Let_def)
  show ?thesis
  proof (rule linv_replaced [OF i, where rs = "[]" and hs = "[]" and old = row and new = ?new
        and xs = "if status = EffectFailed then [te_id row] else []"])
    show "te_effect_class row = NonIdempotentWrite \<Longrightarrow> balanced ?w ?new"
      using linvD(3) [OF i row] settled(1,3,6) st new by (auto simp: balanced_def)
    show "token_ok (lw_holders ?w) ?new" using st new by (auto simp: token_ok_def)
  qed (use linvD(5) [OF i] settled new in simp_all)
qed

lemma linv_resolve:
  assumes i: "linv w"
    and s: "resolve_manual_recovery redact now ok company eid oc actor reason remark (lw_db w) = (db', res)"
  shows "linv (w\<lparr>lw_db := db', lw_excused := (if res = Inr EffectFailed
      then lw_excused w @ [eid] else lw_excused w)\<rparr>)" (is "linv ?w")
  using s linvD(1) [OF i]
proof (cases rule: resolve_cases)
  case (refused e)
  then show ?thesis by (intro linv_same [OF i]) simp_all
next
  case (resolved row)
  let ?new = "resolve_vals redact now oc actor reason remark row"
  have row: "row \<in> set (ld_effects (lw_db w))" using resolved(5) by (simp add: replaced_def)
  have new: "te_effect_class ?new = te_effect_class row" "te_id ?new = te_id row"
    "te_status ?new = (if oc = Applied then Succeeded else EffectFailed)"
    "te_claim_token ?new = te_claim_token row"
    by (simp_all add: resolve_vals_def)
  have none: "te_claim_token row = None"
    using linvD(4) [OF i row] resolved(3) by (auto simp: token_ok_def)
  show ?thesis
  proof (rule linv_replaced [OF i, where rs = "[]" and hs = "[]" and old = row and new = ?new
        and xs = "if oc = Applied then [] else [eid]"])
    show "te_effect_class row = NonIdempotentWrite \<Longrightarrow> balanced ?w ?new"
      using linvD(3) [OF i row] resolved(1,3,7) new by (auto simp: balanced_def)
    show "token_ok (lw_holders ?w) ?new" using new none by (auto simp: token_ok_def)
  qed (use linvD(5) [OF i] resolved new in simp_all)
qed

lemma linv_claim:
  assumes i: "linv w" and f: "Some (le_token env) \<notin> set (map cl_token (lw_holders w))"
    and c: "claim_effect env company turn slot tool cls args grant ep (lw_db w) = (db', res)"
  shows "linv (granted w db' res)"
  using c linvD(1) [OF i]
proof (cases rule: claim_effect_cases)
  case no_run
  then have "granted w db' res = w\<lparr>lw_db := db'\<rparr>"
    by (cases res) (auto simp: granted_def)
  with no_run(1) show ?thesis by (intro linv_same [OF i]) simp_all
next
  case (fresh a n r)
  let ?w = "w\<lparr>lw_db := db', lw_holders := lw_holders w @ [r], lw_runs := lw_runs w @ [te_id n]\<rparr>"
  have g: "granted w db' res = ?w" using fresh by (simp add: granted_def)
  have n: "te_status n = Executing" "te_claim_token n = Some (le_token env)"
    using fresh(3) by (simp_all add: new_effect_def)
  have new: "te_id n \<notin> te_id ` set (ld_effects (lw_db w))"
    using fresh(4) by (auto simp: insert_ok_def list_ex_iff)
  with linvD(2) [OF i] have zero: "count_list (lw_runs w) (te_id n) = 0"
    by (auto simp: count_list_0_iff)
  have "balanced ?w e" if e: "e \<in> set (ld_effects db')" "te_effect_class e = NonIdempotentWrite" for e
  proof (cases "e = n")
    case True
    with zero n show ?thesis by (simp add: balanced_def)
  next
    case False
    with e fresh(5) have "e \<in> set (ld_effects (lw_db w))" by simp
    with linvD(3) [OF i this e(2)] new show ?thesis by (auto simp: balanced_def)
  qed
  moreover have "token_ok (lw_holders ?w) e" if e: "e \<in> set (ld_effects db')" for e
  proof (cases "e = n")
    case True
    with n fresh show ?thesis by (auto simp: token_ok_def)
  next
    case False
    with e fresh(5) have "e \<in> set (ld_effects (lw_db w))" by simp
    from linvD(4) [OF i this] show ?thesis by (auto simp: token_ok_def)
  qed
  moreover have "distinct (map te_id (ld_effects db'))"
    using linvD(1) [OF i] new fresh(5) by simp
  moreover have "set (lw_runs ?w) \<subseteq> te_id ` set (ld_effects db')"
    using linvD(2) [OF i] fresh(5) by auto
  moreover have "distinct (map cl_token (lw_holders ?w))"
    using linvD(5) [OF i] f fresh(9) by simp
  moreover have "\<forall>c \<in> set (lw_holders ?w). cl_action c = Run \<and> cl_token c \<noteq> None \<and> cl_effect_id c \<noteq> None"
    using linvD(6) [OF i] fresh by auto
  ultimately show ?thesis unfolding g by (simp add: linv_def)
next
  case (took a row r)
  let ?new = "take_vals (le_now env) (le_token env) row row"
  let ?w = "w\<lparr>lw_db := db', lw_holders := lw_holders w @ [r], lw_runs := lw_runs w @ [te_id row]\<rparr>"
  have g: "granted w db' res = ?w" using took by (simp add: granted_def)
  have row: "row \<in> set (ld_effects (lw_db w))" using took(7) by (simp add: replaced_def)
  have new: "te_effect_class ?new = te_effect_class row" "te_id ?new = te_id row"
    "te_status ?new = Executing" "te_claim_token ?new = Some (le_token env)"
    by (simp_all add: take_vals_def)
  show ?thesis
    unfolding g
  proof (rule linv_replaced [OF i, where rs = "[te_id row]" and hs = "[r]" and old = row and new = ?new
        and xs = "[]"])
    show "te_effect_class row = NonIdempotentWrite \<Longrightarrow> balanced ?w ?new"
      using linvD(3) [OF i row] took(6) new by (auto simp: balanced_def)
    show "token_ok (lw_holders ?w) ?new" using new took by (auto simp: token_ok_def)
    show "distinct (map cl_token (lw_holders ?w))" using linvD(5) [OF i] f took(11) by simp
  qed (use took new in simp_all)
next
  case (manual row r)
  let ?new = "manual_vals (le_now env) row"
  have g: "granted w db' res = w\<lparr>lw_db := db'\<rparr>" using manual by (simp add: granted_def)
  have row: "row \<in> set (ld_effects (lw_db w))" using manual(4) by (simp add: replaced_def)
  show ?thesis
    unfolding g
  proof (rule linv_replaced [OF i, where rs = "[]" and hs = "[]" and old = row and new = ?new and xs = "[]"])
    show "te_effect_class row = NonIdempotentWrite \<Longrightarrow> balanced (w\<lparr>lw_db := db'\<rparr>) ?new"
      using linvD(3) [OF i row] manual(1) by (auto simp: balanced_def manual_vals_def)
    show "token_ok (lw_holders (w\<lparr>lw_db := db'\<rparr>)) ?new" by (simp add: token_ok_def manual_vals_def)
  qed (use manual linvD(5) [OF i] in \<open>simp_all add: manual_vals_def\<close>)
qed

lemma linv_step: "lstep w w' \<Longrightarrow> linv w \<Longrightarrow> linv w'"
proof (induction rule: lstep.induct)
  case (notice up company key w db' b)
  have "ld_effects db' = ld_effects (lw_db w)"
    using notice(1) by (auto simp: claim_notice_def split: if_splits)
  with notice(2) show ?case by (intro linv_same [OF notice(2)]) simp_all
next
  case (outside w ts gs)
  then show ?case by (intro linv_same [OF outside]) simp_all
next
  case (claim env company turn slot tool cls args grant ep w db' res)
  then show ?case by (intro linv_claim)
next
  case (settle c w status redact now ok st err db' b)
  then show ?case by (intro linv_settle)
next
  case (expire company limit now ok w db' r)
  then show ?case by (intro linv_expire)
next
  case (resolve redact now ok company eid oc actor reason remark w db' res)
  then show ?case by (intro linv_resolve)
qed

lemma lreachable_linv: "lreachable w \<Longrightarrow> linv w"
proof (induction rule: lreachable.induct)
  case (start w)
  then show ?case by (simp add: linv_def)
next
  case (next_world w w')
  then show ?case by (blast intro: linv_step)
qed

section \<open>A run of the ledger\<close>

definition demo_sha :: "json \<Rightarrow> string" where
  "demo_sha j = (case j of JList (_ # _ # _ # JInt r # JInt i # _) \<Rightarrow> ''k'' @ show_int i | _ \<Rightarrow> ''args'')"

definition demo_ledger_env :: "time \<Rightarrow> string \<Rightarrow> ledger_env" where
  "demo_ledger_env now token = \<lparr>le_sha = demo_sha, le_now = now, le_id = 77, le_token = token,
     le_audit_ok = True\<rparr>"

definition demo_slot :: tool_slot where
  "demo_slot = \<lparr>round_index = 0, invocation_index = 0\<rparr>"

definition demo_ledger0 :: ledger_db where
  "demo_ledger0 = \<lparr>ld_effects = [], ld_notices = [], ld_audits = [], ld_turns = [],
     ld_grants = \<lparr>gd_grants = [], gd_uses = [], gd_restrictions = []\<rparr>\<rparr>"

text \<open>The first caller claims slot (0, 0) of turn 50 for a non-idempotent write.\<close>

definition demo_claim1 :: "ledger_db \<times> (ledger_error + claim_result)" where
  "demo_claim1 = claim_effect (demo_ledger_env 0 ''tok1'') 4 50 demo_slot ''mail'' NonIdempotentWrite
     (Some (JDict [])) None (Some (Epoch None 1)) demo_ledger0"

definition demo_effect :: tool_effect where
  "demo_effect = new_effect (demo_ledger_env 0 ''tok1'') 4 50 demo_slot ''mail'' NonIdempotentWrite ''args'' 1"

definition demo_ledger1 :: ledger_db where
  "demo_ledger1 = demo_ledger0\<lparr>ld_effects := [demo_effect]\<rparr>"

definition demo_held :: claim_result where
  "demo_held = decided demo_effect NonIdempotentWrite Run (Some ''tok1'') None NoReason"

definition demo_ledger_world :: ledger_world where
  "demo_ledger_world = \<lparr>lw_db = demo_ledger1, lw_holders = [demo_held], lw_runs = [77], lw_excused = []\<rparr>"

lemma demo_claim1_eq: "demo_claim1 = (demo_ledger1, Inr demo_held)"
  by (simp add: demo_claim1_def claim_effect_def stale_reason_of_def get_turn_def demo_ledger0_def
      demo_ledger1_def insert_ok_def new_effect_def commit_run_def demo_held_def demo_effect_def
      decided_def demo_ledger_env_def arguments_digest_def demo_sha_def invocation_key_def demo_slot_def)

lemma demo_ledger_reachable: "lreachable demo_ledger_world"
proof -
  let ?w0 = "\<lparr>lw_db = demo_ledger0, lw_holders = [], lw_runs = [], lw_excused = []\<rparr>"
  have "lreachable ?w0" by (rule lreachable.start) (simp_all add: demo_ledger0_def)
  moreover have "lstep ?w0 (granted ?w0 demo_ledger1 (Inr demo_held))"
    by (rule lstep.claim) (use demo_claim1_eq in \<open>simp_all add: demo_claim1_def\<close>)
  moreover have "granted ?w0 demo_ledger1 (Inr demo_held) = demo_ledger_world"
    by (simp add: granted_def demo_held_def demo_ledger_world_def)
      (simp add: demo_effect_def new_effect_def demo_ledger_env_def)
  ultimately show ?thesis by (metis lreachable.next_world)
qed

section \<open>Properties\<close>

text \<open>
  C2: at most once. In every reachable world, for a call first recorded as a non-idempotent
  write, the number of times any caller was allowed to run it is at most one more than the
  number of times it was proved to have done nothing (the tool said so through
  \<open>EffectNotStarted\<close> or \<open>effect_rejected\<close>, or an operator confirmed it); no crash, timeout, lease
  expiry, recovery of the turn or concurrent claim adds another run.
\<close>

theorem non_idempotent_at_most_once:
  assumes "lreachable w" and "e \<in> set (ld_effects (lw_db w))"
    and "te_effect_class e = NonIdempotentWrite"
  shows "count_list (lw_runs w) (te_id e) \<le> count_list (lw_excused w) (te_id e) + 1"
  using linvD(3) [OF lreachable_linv [OF assms(1)] assms(2,3)]
  by (auto simp: balanced_def split: if_splits)

theorem non_idempotent_at_most_once_witness:
  "count_list (lw_runs demo_ledger_world) 77 = 1 \<and>
   count_list (lw_runs demo_ledger_world) 77 \<le> count_list (lw_excused demo_ledger_world) 77 + 1"
  using non_idempotent_at_most_once [OF demo_ledger_reachable, of demo_effect]
  by (simp add: demo_ledger_world_def demo_ledger1_def demo_effect_def new_effect_def demo_ledger_env_def)

text \<open>
  The ledger's decision table. A claim that is allowed to run either opens a new slot, or
  takes over a row of the same company, key, tool and arguments that is \<open>failed\<close> (proved to have
  done nothing) or, only when both the stored and the requested class are idempotent, ambiguous
  or past its lease by the database clock. In particular a live holder is never displaced and
  an interrupted non-idempotent write is never handed out again.
\<close>

theorem run_only_when_allowed:
  assumes "claim_effect env company turn slot tool cls args grant ep db = (db', Inr r)"
    and "cl_action r = Run" and "distinct (map te_id (ld_effects db))"
  shows "stale_reason_of company turn ep (ld_turns db) = None \<and>
    ((\<exists>n. ld_effects db' = ld_effects db @ [n] \<and> cl_effect_id r = Some (te_id n) \<and>
        slot_row company (invocation_key (le_sha env) company turn slot) (ld_effects db) = None) \<or>
     (\<exists>row. slot_row company (invocation_key (le_sha env) company turn slot) (ld_effects db) = Some row \<and>
        te_tool_name row = tool \<and> cl_effect_id r = Some (te_id row) \<and>
        (te_status row = EffectFailed \<or>
         NonIdempotentWrite \<notin> {te_effect_class row, cls} \<and>
         (te_status row = Ambiguous \<or> te_status row = Executing \<and> lease_over (le_now env) row))))"
  using assms(1,3)
proof (cases rule: claim_effect_cases)
  case no_run
  with assms(2) show ?thesis by simp
next
  case (fresh a n r')
  have "slot_row company (invocation_key (le_sha env) company turn slot) (ld_effects db) = None"
    using fresh(3,4) by (auto simp: slot_row_def insert_ok_def list_ex_iff find_None_iff new_effect_def)
  with fresh show ?thesis by auto
next
  case (took a row r')
  then show ?thesis by auto
next
  case (manual row r')
  with assms(2) show ?thesis by simp
qed

theorem run_only_when_allowed_witness:
  "stale_reason_of 4 50 (Some (Epoch None 1)) (ld_turns demo_ledger0) = None"
  using run_only_when_allowed [of "demo_ledger_env 0 ''tok1''" 4 50 demo_slot "''mail''" NonIdempotentWrite
      "Some (JDict [])" None "Some (Epoch None 1)" demo_ledger0 demo_ledger1 demo_held]
    demo_claim1_eq
  by (simp add: demo_claim1_def demo_held_def demo_ledger0_def)

text \<open>
  Only the current holder settles. In every reachable world a settle by a caller that was
  given the run changes something only while the row still carries its own token; a caller
  whose row was taken over, lapsed or resolved changes nothing, and no two callers hold tokens
  that can settle the same row.
\<close>

theorem only_the_holder_settles:
  assumes "lreachable w" and "c \<in> set (lw_holders w)" and "c' \<in> set (lw_holders w)"
    and "settle redact now ok c status st err (lw_db w) = (db', True)"
    and "settle redact' now' ok' c' status' st' err' (lw_db w) = (db'', True)"
    and "cl_effect_id c = cl_effect_id c'"
  shows "c = c'"
proof -
  note i = lreachable_linv [OF assms(1)]
  note d = linvD(1) [OF i]
  from assms(4) d obtain row where row: "row \<in> set (ld_effects (lw_db w))"
    "cl_effect_id c = Some (te_id row)" "te_claim_token row = cl_token c"
    by (cases rule: settle_cases) (auto simp: replaced_def)
  from assms(5) d obtain row' where row': "row' \<in> set (ld_effects (lw_db w))"
    "cl_effect_id c' = Some (te_id row')" "te_claim_token row' = cl_token c'"
    by (cases rule: settle_cases) (auto simp: replaced_def)
  have "row = row'" using same_key_same_row [OF d row(1) row'(1)] row(2) row'(2) assms(6) by simp
  then have "cl_token c = cl_token c'" using row(3) row'(3) by simp
  with same_key_same_row [OF linvD(5) [OF i] assms(2,3)] show ?thesis by simp
qed

lemma demo_settles: "snd (settle id 5 True demo_held EffectFailed None None demo_ledger1)"
  by (simp add: settle_def demo_held_def decided_def demo_effect_def new_effect_def demo_ledger1_def
      demo_ledger_env_def settle_guard_def matching_def Let_def)

theorem only_the_holder_settles_witness:
  "\<exists>c \<in> set (lw_holders demo_ledger_world). c = demo_held"
proof -
  obtain db' where s: "settle id 5 True demo_held EffectFailed None None (lw_db demo_ledger_world) = (db', True)"
    using demo_settles by (cases "settle id 5 True demo_held EffectFailed None None demo_ledger1")
      (auto simp: demo_ledger_world_def)
  have h: "demo_held \<in> set (lw_holders demo_ledger_world)" by (simp add: demo_ledger_world_def)
  from only_the_holder_settles [OF demo_ledger_reachable h h s s refl] h show ?thesis by blast
qed

end
