(* ===== verification/Fencing.thy ===== *)
theory Fencing
  imports Turn_Properties Ledger_System
begin

text \<open>
  The two components together: the turns of \<open>runtime/chat_turns.py\<close> and the tool ledger of
  \<open>tools/effects.py\<close>, which compares the epoch a worker was started with against the turn row.
  An execution that was replaced is locked out of the ledger for ever, whatever the other
  workers, clients and sweeps do, and the execution that holds the turn is let in.
\<close>

section \<open>An epoch that only moves forward\<close>

text \<open>
  \<open>current s k\<close> is the token and the number of the execution that owns \<open>k\<close>. The law: a step
  keeps the number or raises it, and keeps the token with the number.
\<close>

locale epoch_order =
  fixes current :: "'s \<Rightarrow> 'k \<Rightarrow> ('e \<times> int) option"
    and next_state :: "'s \<Rightarrow> 's \<Rightarrow> bool"
  assumes advances: "next_state s s' \<Longrightarrow> current s k = Some (e, n) \<Longrightarrow>
    \<exists>e' n'. current s' k = Some (e', n') \<and> n \<le> n' \<and> (n' = n \<longrightarrow> e' = e)"
begin

lemma advances_star:
  assumes "next_state\<^sup>*\<^sup>* s s'" and "current s k = Some (e, n)"
  shows "\<exists>e' n'. current s' k = Some (e', n') \<and> n \<le> n' \<and> (n' = n \<longrightarrow> e' = e)"
  using assms(1)
proof (induction rule: rtranclp_induct)
  case base
  with assms(2) show ?case by simp
next
  case (step s1 s2)
  then obtain e1 n1 where 1: "current s1 k = Some (e1, n1)" "n \<le> n1" "n1 = n \<longrightarrow> e1 = e" by blast
  from advances [OF step(2) 1(1)] obtain e2 n2 where
    "current s2 k = Some (e2, n2)" "n1 \<le> n2" "n2 = n1 \<longrightarrow> e2 = e1" by blast
  with 1 show ?case by auto
qed

lemma superseded_for_ever:
  assumes "next_state\<^sup>*\<^sup>* s s'" and "current s k = Some (e, n)"
    and "m \<le> n" and "(e, n) \<noteq> (x, m)"
  shows "\<exists>e' n'. current s' k = Some (e', n') \<and> m \<le> n' \<and> (e', n') \<noteq> (x, m)"
proof -
  from advances_star [OF assms(1,2)] obtain e' n' where
    "current s' k = Some (e', n')" "n \<le> n'" "n' = n \<longrightarrow> e' = e" by blast
  with assms(3,4) show ?thesis by (intro exI [of _ e'] exI [of _ n']) auto
qed

end

section \<open>The turn table is such an order\<close>

definition turn_epoch :: "world \<Rightarrow> uuid \<times> uuid \<Rightarrow> (uuid option \<times> int) option" where
  "turn_epoch w k = map_option epoch (get_turn (fst k) (snd k) (db_turns (w_db w)))"

definition live_step :: "world \<Rightarrow> world \<Rightarrow> bool" where
  "live_step w w' \<longleftrightarrow> reachable w \<and> step w w'"

lemma get_turn_row:
  assumes "distinct (map ct_id ts)" and "r \<in> set ts"
  shows "get_turn (ct_company_id r) (ct_id r) ts = Some r"
proof (cases "get_turn (ct_company_id r) (ct_id r) ts")
  case None
  from get_turn_None [OF None assms(2)] show ?thesis by (simp add: scoped_def)
next
  case (Some s)
  from get_turn_SomeD [OF Some] same_key_same_row [OF assms(1) _ assms(2), of s]
  have "s = r" by (simp add: scoped_def)
  with Some show ?thesis by simp
qed

lemma step_epoch:
  assumes w: "reachable w" and s: "step w w'" and r: "r \<in> set (db_turns (w_db w))"
  shows "\<exists>r' \<in> set (db_turns (w_db w')). identity r' = identity r \<and>
    ct_attempt_count r \<le> ct_attempt_count r' \<and>
    (ct_attempt_count r' = ct_attempt_count r \<longrightarrow> epoch r' = epoch r)"
proof -
  note d = reachable_facts(1) [OF w]
  from step_shape [OF s d] consider "quiet w w'" | t where "inserts t w w'"
    | old new where "moves old new w w'" by blast
  then show ?thesis
  proof cases
    case 3
    then have rep: "replaced ct_id old new (db_turns (w_db w)) (db_turns (w_db w'))"
      and l: "legal (db_turns (w_db w)) old new" by (simp_all add: moves_def)
    show ?thesis
    proof (cases "r = old")
      case True
      have "ct_attempt_count new = ct_attempt_count old \<longrightarrow> epoch new = epoch old"
        using legalD(5,6) [OF l] by (cases "claims old new") auto
      with True rep legalD [OF l] show ?thesis by (intro bexI [of _ new]) (auto simp: replaced_def)
    next
      case False
      with rep r show ?thesis by (intro bexI [of _ r]) (auto simp: replaced_def)
    qed
  qed (use r in \<open>auto simp: quiet_def inserts_def intro!: bexI [of _ r]\<close>)
qed

interpretation turn_order: epoch_order turn_epoch live_step
proof
  fix w w' k e n
  assume s: "live_step w w'" and c: "turn_epoch w k = Some (e, n)"
  then obtain r where g: "get_turn (fst k) (snd k) (db_turns (w_db w)) = Some r" "epoch r = (e, n)"
    by (auto simp: turn_epoch_def)
  from get_turn_SomeD [OF g(1)] have r: "r \<in> set (db_turns (w_db w))" "ct_id r = snd k"
    "ct_company_id r = fst k" by (auto simp: scoped_def)
  from s have w: "reachable w" "step w w'" by (simp_all add: live_step_def)
  from step_epoch [OF w r(1)] obtain r' where r': "r' \<in> set (db_turns (w_db w'))"
    "identity r' = identity r" "ct_attempt_count r \<le> ct_attempt_count r'"
    "ct_attempt_count r' = ct_attempt_count r \<longrightarrow> epoch r' = epoch r" by blast
  note d' = reachable_facts(1) [OF reachable.next_world [OF w]]
  have "turn_epoch w' k = Some (epoch r')"
    using get_turn_row [OF d' r'(1)] identity_eqD(1,2) [OF r'(2)] r by (simp add: turn_epoch_def)
  with r' g(2) show "\<exists>e' n'. turn_epoch w' k = Some (e', n') \<and> n \<le> n' \<and> (n' = n \<longrightarrow> e' = e)"
    by (auto simp: epoch_def)
qed

text \<open>Every copy a worker holds was claimed: it names an execution and an attempt.\<close>

lemma same_copies_claimed:
  assumes "same_copies cs cs'" and "\<forall>c \<in> set cs. P (epoch (snd c))"
  shows "\<forall>c \<in> set cs'. P (epoch (snd c))"
  using assms by (fastforce simp: same_copies_def)

lemma copies_claimed:
  "reachable w \<Longrightarrow> \<forall>c \<in> set (w_running w). fst (epoch (snd c)) \<noteq> None \<and> 1 \<le> snd (epoch (snd c))"
proof (induction rule: reachable.induct)
  case (start w)
  then show ?case by (simp add: initial_def)
next
  case (next_world w w')
  note d = reachable_facts(1) [OF next_world(1)]
  from step_shape [OF next_world(2) d] consider "quiet w w'" | t where "inserts t w w'"
    | old new where "moves old new w w'" by blast
  then show ?case
  proof cases
    case 1
    then have "same_copies (w_running w) (w_running w')" by (simp add: quiet_def)
    from same_copies_claimed [where P = "\<lambda>e. fst e \<noteq> None \<and> 1 \<le> snd e", OF this next_world.IH] show ?thesis by simp
  next
    case 2
    then show ?thesis using next_world.IH by (simp add: inserts_def)
  next
    case 3
    show ?thesis
    proof (cases "claims old new")
      case False
      with 3 have "same_copies (w_running w) (w_running w')" by (simp add: moves_def)
      from same_copies_claimed [where P = "\<lambda>e. fst e \<noteq> None \<and> 1 \<le> snd e", OF this next_world.IH] show ?thesis by simp
    next
      case True
      from 3 have l: "legal (db_turns (w_db w)) old new" and o: "old \<in> set (db_turns (w_db w))"
        by (simp_all add: moves_def replaced_def)
      from reachable_inv [OF next_world(1)] o have "row_ok old" by (simp add: inv_def)
      from row_ok_active [OF legalD(3) [OF l this]] True
      have "fst (epoch new) \<noteq> None \<and> 1 \<le> snd (epoch new)" by (auto simp: claims_def epoch_def)
      with 3 True next_world.IH show ?thesis by (auto simp: moves_def)
    qed
  qed
qed

section \<open>What the ledger makes of it\<close>

definition worker_epoch :: "chat_turn \<Rightarrow> Tool_Effects.epoch" where
  "worker_epoch c = Epoch (ct_execution_id c) (ct_attempt_count c)"

lemma stale_iff:
  assumes "turn_epoch w (company, tid) = Some (e, n)" and "1 \<le> n" and "1 \<le> ct_attempt_count c"
    and "ct_execution_id c \<noteq> None"
  shows "stale_reason_of company tid (Some (worker_epoch c)) (db_turns (w_db w)) = None \<longleftrightarrow>
    (e, n) = epoch c"
  using assms by (auto simp: stale_reason_of_def turn_epoch_def worker_epoch_def epoch_def
      split: option.splits)

lemma stale_claim:
  assumes "stale_reason_of company turn ep (ld_turns db) = Some why"
  shows "claim_effect env company turn slot tool cls (Some a) grant ep db =
    (db, Inr (plain_claim Stale company cls None (invocation_key (le_sha env) company turn slot) (IsStale why)))"
  using assms by (simp add: claim_effect_def)

text \<open>
  C26: fencing across the two components. A worker whose copy of a turn is of another execution
  than the row (its lease lapsed and the turn was recovered and claimed again) is refused by
  the ledger from then on: in every world the system can still reach, its claim of any slot
  under the epoch it was started with is \<open>stale\<close>, and the claim changes nothing at all, so no
  tool runs, no row is reserved and no grant is spent for it. The ledger reads the row of the
  turn table, or finds none because the turn's session was deleted meanwhile; then the refusal
  needs that the copy is not of the first attempt, which
  \<open>deleted_turn_admits_a_replaced_first_attempt\<close> shows.
\<close>

theorem replaced_execution_fenced_for_ever:
  assumes "reachable w" and "(wk, c) \<in> set (w_running w)"
    and "r \<in> set (db_turns (w_db w))" and "identity r = identity c" and "epoch r \<noteq> epoch c"
    and "live_step\<^sup>*\<^sup>* w w'"
    and "get_turn (ct_company_id c) (ct_id c) (ld_turns db) = get_turn (ct_company_id c) (ct_id c) (db_turns (w_db w')) \<or>
      get_turn (ct_company_id c) (ct_id c) (ld_turns db) = None \<and> 1 < ct_attempt_count c"
  shows "\<exists>why. claim_effect env (ct_company_id c) (ct_id c) slot tool cls (Some a) grant
      (Some (worker_epoch c)) db =
    (db, Inr (plain_claim Stale (ct_company_id c) cls None
       (invocation_key (le_sha env) (ct_company_id c) (ct_id c) slot) (IsStale why)))"
proof -
  let ?k = "(ct_company_id c, ct_id c)"
  note id = identity_eqD(1,2) [OF assms(4)]
  have cur: "turn_epoch w ?k = Some (epoch r)"
    using get_turn_row [OF reachable_facts(1) [OF assms(1)] assms(3)] id by (simp add: turn_epoch_def)
  from copies_claimed [OF assms(1)] assms(2)
  have c: "ct_execution_id c \<noteq> None" "1 \<le> ct_attempt_count c" by (auto simp: epoch_def)
  from reachable_facts(4) [OF assms(1)] assms(2) obtain s where
    s: "s \<in> set (db_turns (w_db w))" "identity s = identity c" "ct_attempt_count c \<le> ct_attempt_count s"
    by (force simp: copy_ok_def)
  have "s = r" using same_key_same_row [OF reachable_facts(1) [OF assms(1)] s(1) assms(3)]
      identity_eqD(1) [OF s(2)] id by simp
  with s have le: "ct_attempt_count c \<le> ct_attempt_count r" by simp
  from turn_order.superseded_for_ever [OF assms(6) cur [unfolded epoch_def] le, of "ct_execution_id c"]
    assms(5) obtain e n where later: "turn_epoch w' ?k = Some (e, n)" "ct_attempt_count c \<le> n"
    "(e, n) \<noteq> epoch c" by (auto simp: epoch_def)
  then have "stale_reason_of (ct_company_id c) (ct_id c) (Some (worker_epoch c)) (ld_turns db) \<noteq> None"
  proof (cases "get_turn (ct_company_id c) (ct_id c) (ld_turns db) = None \<and> 1 < ct_attempt_count c")
    case True
    then show ?thesis by (simp add: stale_reason_of_def worker_epoch_def)
  next
    case False
    with assms(7) have same: "get_turn (ct_company_id c) (ct_id c) (ld_turns db) =
      get_turn (ct_company_id c) (ct_id c) (db_turns (w_db w'))" by blast
    have "stale_reason_of (ct_company_id c) (ct_id c) (Some (worker_epoch c)) (ld_turns db) =
      stale_reason_of (ct_company_id c) (ct_id c) (Some (worker_epoch c)) (db_turns (w_db w'))"
      unfolding stale_reason_of_def same ..
    then show ?thesis using stale_iff [OF later(1) _ c(2,1)] c(2) later(2,3) by simp
  qed
  then show ?thesis using stale_claim by blast
qed

text \<open>A run in which it happens: worker \<open>w\<close> hands turn 111 back and worker \<open>v\<close> claims it.\<close>

definition fenced_world :: world where
  "fenced_world =
    (let w = demo_world\<lparr>w_db := fst (release 5 demo_copy ''w'' ''worker_shutdown'' demo_db3)\<rparr>
     in w\<lparr>w_db := fst (claim default_settings 7 301 111 4 ''v'' (w_db w)),
          w_running := w_running w @
            [(''v'', claim_vals 7 (seconds (chat_turn_lease_seconds default_settings)) ''v'' 301
               (release_vals 5 demo_copy))]\<rparr>)"

lemma fenced_world:
  "reachable fenced_world" "(''w'', demo_copy) \<in> set (w_running fenced_world)"
  "\<exists>r \<in> set (db_turns (w_db fenced_world)). identity r = identity demo_copy \<and> epoch r \<noteq> epoch demo_copy"
proof -
  let ?w = "demo_world\<lparr>w_db := fst (release 5 demo_copy ''w'' ''worker_shutdown'' demo_db3)\<rparr>"
  let ?r = "release_vals 5 demo_copy"
  let ?t = "claim_vals 7 (seconds (chat_turn_lease_seconds default_settings)) ''v'' 301 ?r"
  note rel = demo_released [OF refl]
  have ts: "db_turns (w_db ?w) = [?r, demo_next]"
    by (simp add: release_def matching_def update_where_def demo_claim(2) held_by_def scoped_def
        ACTIVE_STATUSES_def demo_rows)
  have ids: "ct_id ?r = 111" "ct_company_id ?r = 4" by (simp_all add: release_vals_def demo_rows)
  have "\<exists>db'. claim default_settings 7 301 (ct_id ?r) (ct_company_id ?r) ''v'' (w_db ?w) = (db', Some ?t)"
    by (rule claim_succeeds [OF reachable_facts(1) [OF rel(1)] rel(3)])
      (unfold ts, simp add: claim_guard_def no_turn_ahead_def scoped_def release_vals_def demo_rows
        ACTIVE_STATUSES_def)
  then obtain db' where c: "claim default_settings 7 301 111 4 ''v'' (w_db ?w) = (db', Some ?t)"
    unfolding ids by blast
  then have eq: "fenced_world = ?w\<lparr>w_db := db', w_running := w_running ?w @ [(''v'', ?t)]\<rparr>"
    by (simp add: fenced_world_def Let_def)
  have st: "step ?w fenced_world" unfolding eq
    by (rule step.claim [OF _ c]) (use rel(2) in simp)
  show "reachable fenced_world" by (rule reachable.next_world [OF rel(1) st])
  show "(''w'', demo_copy) \<in> set (w_running fenced_world)" using rel(2) by (simp add: eq)
  have "?t \<in> set (db_turns db')"
    using c reachable_facts(1) [OF rel(1)]
    by (cases rule: claim_cases) (auto simp: replaced_def)
  moreover have "identity ?t = identity demo_copy" "epoch ?t \<noteq> epoch demo_copy"
    by (simp_all add: identity_def epoch_def claim_vals_def release_vals_def demo_rows)
  ultimately show "\<exists>r \<in> set (db_turns (w_db fenced_world)).
      identity r = identity demo_copy \<and> epoch r \<noteq> epoch demo_copy" by (auto simp: eq)
qed

theorem replaced_execution_fenced_for_ever_witness:
  "\<exists>why. snd (claim_effect (demo_ledger_env 0 ''tok1'') (ct_company_id demo_copy) (ct_id demo_copy) demo_slot
      ''mail'' NonIdempotentWrite (Some (JDict [])) None (Some (worker_epoch demo_copy))
      (demo_ledger0\<lparr>ld_turns := db_turns (w_db fenced_world)\<rparr>)) =
    Inr (plain_claim Stale (ct_company_id demo_copy) NonIdempotentWrite None
      (invocation_key demo_sha (ct_company_id demo_copy) (ct_id demo_copy) demo_slot) (IsStale why))"
proof -
  obtain r where r: "r \<in> set (db_turns (w_db fenced_world))" "identity r = identity demo_copy"
    "epoch r \<noteq> epoch demo_copy" using fenced_world(3) by blast
  let ?get = "get_turn (ct_company_id demo_copy) (ct_id demo_copy)"
  have t: "?get (ld_turns (demo_ledger0\<lparr>ld_turns := db_turns (w_db fenced_world)\<rparr>)) =
      ?get (db_turns (w_db fenced_world)) \<or>
    ?get (ld_turns (demo_ledger0\<lparr>ld_turns := db_turns (w_db fenced_world)\<rparr>)) = None \<and> 1 < ct_attempt_count demo_copy"
    by simp
  from replaced_execution_fenced_for_ever [OF fenced_world(1,2) r rtranclp.rtrancl_refl t,
      of "demo_ledger_env 0 ''tok1''" demo_slot "''mail''" NonIdempotentWrite "JDict []" None]
  show ?thesis by (force simp: demo_ledger_env_def)
qed

text \<open>
  A turn without a row is taken for a direct call, which has the single execution 1. Deleting a
  session deletes the rows of its turns, and the worker of a first attempt that was replaced in
  \<open>fenced_world\<close>, where the ledger refuses it, is then taken for the current one.
\<close>

lemma deleted_turn_admits_a_replaced_first_attempt:
  "is_current_execution (ct_company_id demo_copy) (ct_id demo_copy) (Some (worker_epoch demo_copy))
     (demo_ledger0\<lparr>ld_turns := db_turns (w_db fenced_world)\<rparr>) \<noteq> None"
  "is_current_execution (ct_company_id demo_copy) (ct_id demo_copy) (Some (worker_epoch demo_copy))
     (demo_ledger0\<lparr>ld_turns := filter (\<lambda>t. ct_session_id t \<noteq> ct_session_id demo_copy) (db_turns (w_db fenced_world))\<rparr>) = None"
proof -
  obtain r where r: "r \<in> set (db_turns (w_db fenced_world))" "identity r = identity demo_copy"
    "epoch r \<noteq> epoch demo_copy" using fenced_world(3) by blast
  note id = identity_eqD [OF r(2)]
  have now: "turn_epoch fenced_world (ct_company_id demo_copy, ct_id demo_copy) = Some (epoch r)"
    using get_turn_row [OF reachable_facts(1) [OF fenced_world(1)] r(1)] id by (simp add: turn_epoch_def)
  have "1 \<le> ct_attempt_count r"
  proof -
    from reachable_facts(4) [OF fenced_world(1)] fenced_world(2) obtain s where
      s: "s \<in> set (db_turns (w_db fenced_world))" "identity s = identity demo_copy"
        "ct_attempt_count demo_copy \<le> ct_attempt_count s" by (force simp: copy_ok_def)
    with same_key_same_row [OF reachable_facts(1) [OF fenced_world(1)] s(1) r(1)] identity_eqD(1) [OF s(2)] id
    show ?thesis by (simp add: demo_rows)
  qed
  from stale_iff [OF now [unfolded epoch_def] this, of demo_copy] r(3)
  show "is_current_execution (ct_company_id demo_copy) (ct_id demo_copy) (Some (worker_epoch demo_copy))
     (demo_ledger0\<lparr>ld_turns := db_turns (w_db fenced_world)\<rparr>) \<noteq> None"
    by (simp add: is_current_execution_def epoch_def demo_rows)
  have "get_turn 4 111 (filter (\<lambda>t. ct_session_id t \<noteq> 5) (db_turns (w_db fenced_world))) = None"
  proof (rule ccontr)
    assume "\<not> ?thesis"
    then obtain t where "get_turn 4 111 (filter (\<lambda>t. ct_session_id t \<noteq> 5) (db_turns (w_db fenced_world))) = Some t"
      by blast
    from get_turn_SomeD [OF this] have t: "t \<in> set (db_turns (w_db fenced_world))" "ct_session_id t \<noteq> 5"
      "ct_id t = 111" by (auto simp: scoped_def)
    have "ct_id t = ct_id r" using t(3) id by (simp add: demo_rows)
    with same_key_same_row [OF reachable_facts(1) [OF fenced_world(1)] t(1) r(1)] have "t = r" by simp
    with t(2) id show False by (simp add: demo_rows)
  qed
  then show "is_current_execution (ct_company_id demo_copy) (ct_id demo_copy) (Some (worker_epoch demo_copy))
     (demo_ledger0\<lparr>ld_turns := filter (\<lambda>t. ct_session_id t \<noteq> ct_session_id demo_copy) (db_turns (w_db fenced_world))\<rparr>) = None"
    by (simp add: is_current_execution_def stale_reason_of_def worker_epoch_def demo_rows)
qed

text \<open>
  The fence lets the owner in. While a worker holds a turn of a reachable world (its row is
  active and claimed by it), the ledger's check of the epoch that worker was started with
  passes, so no claim of the current execution is refused as stale.
\<close>

theorem current_execution_admitted:
  assumes "reachable w" and "(wk, c) \<in> set (w_running w)" and "r \<in> set (db_turns (w_db w))"
    and "ct_id r = ct_id c" and "active r" and "ct_claimed_by r = Some wk"
    and "ld_turns db = db_turns (w_db w)"
  shows "is_current_execution (ct_company_id c) (ct_id c) (Some (worker_epoch c)) db = None"
proof -
  note cr = copy_row [OF assms(1-6)]
  from copies_claimed [OF assms(1)] assms(2)
  have c: "ct_execution_id c \<noteq> None" "1 \<le> ct_attempt_count c" by (auto simp: epoch_def)
  have "turn_epoch w (ct_company_id c, ct_id c) = Some (epoch c)"
    using get_turn_row [OF reachable_facts(1) [OF assms(1)] assms(3)] identity_eqD(1,2) [OF cr(2)] cr(1)
    by (simp add: turn_epoch_def)
  from stale_iff [OF this [unfolded epoch_def] c(2) c(2,1)] show ?thesis
    by (simp add: is_current_execution_def assms(7) epoch_def)
qed

theorem current_execution_admitted_witness:
  "is_current_execution (ct_company_id demo_copy) (ct_id demo_copy) (Some (worker_epoch demo_copy))
     (demo_ledger0\<lparr>ld_turns := db_turns (w_db demo_world)\<rparr>) = None"
proof -
  have "(''w'', demo_copy) \<in> set (w_running demo_world)" by (simp add: demo_world_def)
  moreover have "ct_claimed_by demo_copy = Some ''w''" by (simp add: demo_rows)
  moreover have "active demo_copy" by (simp add: class_defs demo_rows)
  ultimately show ?thesis
    using current_execution_admitted [OF demo_reachable _ demo_in_order(1)] by simp
qed

end
