(* ===== verification/Bridge_Slots.thy ===== *)
theory Bridge_Slots
  imports Tool_Effects
begin

text \<open>
  The identity of an inbound bridge write (\<open>tools/effects.py\<close>: \<open>resolve_bridge_identity\<close>,
  \<open>reserve_bridge_slot\<close>; \<open>tools/mcp_server.py\<close>: \<open>MCPServer._slot_for\<close>; the table is
  \<open>ToolBridgeSlot\<close> of \<open>models/tool_effect.py\<close>). A client names each intended write with a key;
  the first request with a key takes the turn's next ordinal and every retry finds it again.
  Requests run concurrently: between the two reads and the insert of one attempt any rows of
  other requests may be committed, which the model takes as an argument.
\<close>

section \<open>Keys\<close>

datatype slot_error =
    KeyHeaderInvalid | KeyArgumentInvalid string | KeyRequired string | KeyConflict string
  | KeyMissingForWrite | KeyReused | CouldNotReserve | ArgumentsNotCanonical
  | StaleExecution stale_reason

definition BRIDGE_KEY_ARG :: string where
  "BRIDGE_KEY_ARG = ''nexus_invocation_key''"

definition OWN_KEY_ARG :: string where
  "OWN_KEY_ARG = ''idempotency_key''"

definition key_char :: "char \<Rightarrow> bool" where
  "key_char c \<longleftrightarrow> (let n = of_char c :: nat in
     65 \<le> n \<and> n \<le> 90 \<or> 97 \<le> n \<and> n \<le> 122 \<or> 48 \<le> n \<and> n \<le> 57) \<or> c \<in> set ''._:~-''"

definition valid_bridge_key :: "string \<Rightarrow> bool" where
  "valid_bridge_key k \<longleftrightarrow> 1 \<le> length k \<and> length k \<le> 128 \<and> list_all key_char k"

fun valid_json_key :: "json \<Rightarrow> bool" where
  "valid_json_key (JStr s) = valid_bridge_key s"
| "valid_json_key _ = False"

definition bridge_key_field :: "string list \<Rightarrow> string" where
  "bridge_key_field declared = (if OWN_KEY_ARG \<in> set declared then OWN_KEY_ARG else BRIDGE_KEY_ARG)"

text \<open>\<open>dict.pop(field, None)\<close> and \<open>d[field] = key\<close> are \<open>AList.delete\<close> and \<open>AList.update\<close>.\<close>

definition resolve_bridge_identity ::
  "string option \<Rightarrow> dict \<Rightarrow> string \<Rightarrow> slot_error + (string \<times> dict)" where
  "resolve_bridge_identity header args field =
    (let from_arg = map_of args field
     in if header \<noteq> None \<and> \<not> valid_bridge_key (the header) then Inl KeyHeaderInvalid
        else if from_arg \<noteq> None \<and> \<not> valid_json_key (the from_arg) then Inl (KeyArgumentInvalid field)
        else if header = None \<and> from_arg = None then Inl (KeyRequired field)
        else if header \<noteq> None \<and> from_arg \<noteq> None \<and> from_arg \<noteq> Some (JStr (the header))
        then Inl (KeyConflict field)
        else let key = (case header of Some h \<Rightarrow> h
                        | None \<Rightarrow> (case from_arg of Some (JStr s) \<Rightarrow> s | _ \<Rightarrow> []))
             in Inr (key, if field = BRIDGE_KEY_ARG then AList.delete field args
                          else AList.update field (JStr key) args))"

section \<open>The table\<close>

record bridge_slot =
  bs_company_id :: uuid
  bs_turn_id :: uuid
  bs_idempotency_key :: string
  bs_ordinal :: int
  bs_tool_name :: string
  bs_arguments_digest :: string

definition slot_key :: "bridge_slot \<Rightarrow> uuid \<times> uuid \<times> string" where
  "slot_key r = (bs_company_id r, bs_turn_id r, bs_idempotency_key r)"

definition slot_place :: "bridge_slot \<Rightarrow> uuid \<times> uuid \<times> int" where
  "slot_place r = (bs_company_id r, bs_turn_id r, bs_ordinal r)"

text \<open>The primary key, the unique ordinal and the check constraint of the table.\<close>

definition slot_insert_ok :: "bridge_slot list \<Rightarrow> bridge_slot \<Rightarrow> bool" where
  "slot_insert_ok t n \<longleftrightarrow> 0 \<le> bs_ordinal n \<and> slot_key n \<notin> set (map slot_key t) \<and>
     slot_place n \<notin> set (map slot_place t)"

text \<open>The rows other requests commit meanwhile; a row the constraints refuse is not stored.\<close>

fun commit_rivals :: "bridge_slot list \<Rightarrow> bridge_slot list \<Rightarrow> bridge_slot list" where
  "commit_rivals [] t = t"
| "commit_rivals (n # ns) t = commit_rivals ns (if slot_insert_ok t n then t @ [n] else t)"

definition find_slot :: "uuid \<times> uuid \<times> string \<Rightarrow> bridge_slot list \<Rightarrow> bridge_slot option" where
  "find_slot k t = find (\<lambda>r. slot_key r = k) t"

definition turn_ordinals :: "uuid \<Rightarrow> uuid \<Rightarrow> bridge_slot list \<Rightarrow> int list" where
  "turn_ordinals company turn t =
    map bs_ordinal (filter (\<lambda>r. bs_company_id r = company \<and> bs_turn_id r = turn) t)"

text \<open>\<open>coalesce(max(ordinal), -1) + 1\<close>.\<close>

definition next_ordinal :: "uuid \<Rightarrow> uuid \<Rightarrow> bridge_slot list \<Rightarrow> int" where
  "next_ordinal company turn t = fold max (turn_ordinals company turn t) (-1) + 1"

definition BRIDGE_ATTEMPTS :: nat where
  "BRIDGE_ATTEMPTS = 50"

definition new_slot :: "uuid \<Rightarrow> uuid \<Rightarrow> string \<Rightarrow> string \<Rightarrow> string \<Rightarrow> int \<Rightarrow> bridge_slot" where
  "new_slot company turn key tool digest ordinal =
    \<lparr>bs_company_id = company, bs_turn_id = turn, bs_idempotency_key = key, bs_ordinal = ordinal,
     bs_tool_name = tool, bs_arguments_digest = digest\<rparr>"

text \<open>
  The loop. \<open>rivals n\<close> are the rows committed in the attempt with \<open>n\<close> attempts left: first
  those between the two reads, then those between the second read and the insert.
\<close>

fun reserve_loop ::
  "nat \<Rightarrow> (nat \<Rightarrow> bridge_slot list \<times> bridge_slot list) \<Rightarrow> uuid \<Rightarrow> uuid \<Rightarrow> string \<Rightarrow> string \<Rightarrow> string \<Rightarrow>
   bridge_slot list \<Rightarrow> bridge_slot list \<times> (slot_error + tool_slot)" where
  "reserve_loop 0 rivals company turn key tool digest t = (t, Inl CouldNotReserve)"
| "reserve_loop (Suc n) rivals company turn key tool digest t =
    (case find_slot (company, turn, key) t of
       Some row \<Rightarrow>
         (t, if bs_tool_name row \<noteq> tool \<or> bs_arguments_digest row \<noteq> digest then Inl KeyReused
             else Inr \<lparr>round_index = -1, invocation_index = bs_ordinal row\<rparr>)
     | None \<Rightarrow>
         let t1 = commit_rivals (fst (rivals n)) t;
             ordinal = next_ordinal company turn t1;
             t2 = commit_rivals (snd (rivals n)) t1;
             new = new_slot company turn key tool digest ordinal
         in if slot_insert_ok t2 new
            then (t2 @ [new], Inr \<lparr>round_index = -1, invocation_index = ordinal\<rparr>)
            else reserve_loop n rivals company turn key tool digest t2)"

definition reserve_bridge_slot ::
  "(json \<Rightarrow> string) \<Rightarrow> (nat \<Rightarrow> bridge_slot list \<times> bridge_slot list) \<Rightarrow> uuid \<Rightarrow> uuid \<Rightarrow> string option \<Rightarrow>
   string \<Rightarrow> json option \<Rightarrow> bridge_slot list \<Rightarrow> bridge_slot list \<times> (slot_error + tool_slot)" where
  "reserve_bridge_slot sha rivals company turn key tool args t =
    (case key of
       None \<Rightarrow> (t, Inl KeyMissingForWrite)
     | Some k \<Rightarrow>
         if \<not> valid_bridge_key k then (t, Inl KeyMissingForWrite)
         else case args of
                None \<Rightarrow> (t, Inl ArgumentsNotCanonical)
              | Some a \<Rightarrow> reserve_loop BRIDGE_ATTEMPTS rivals company turn k tool (arguments_digest sha a) t)"

text \<open>
  \<open>_slot_for\<close>: \<open>stale\<close> is \<open>_stale_execution\<close> of the caller's context, and \<open>canon\<close> says whether
  the business arguments have a canonical JSON form.
\<close>

definition slot_for ::
  "(json \<Rightarrow> string) \<Rightarrow> (nat \<Rightarrow> bridge_slot list \<times> bridge_slot list) \<Rightarrow> (dict \<Rightarrow> bool) \<Rightarrow> stale_reason option \<Rightarrow>
   string option \<Rightarrow> exec_context \<Rightarrow> string option \<Rightarrow> tool_slot option \<Rightarrow> string \<Rightarrow> dict \<Rightarrow> string option \<Rightarrow>
   bridge_slot list \<Rightarrow> bridge_slot list \<times> (slot_error + (tool_slot option \<times> dict))" where
  "slot_for sha rivals canon stale header ctx effect slot tool args field t =
    (case ec_turn_id ctx of
       None \<Rightarrow> (t, Inr (slot, args))
     | Some turn \<Rightarrow>
       if slot \<noteq> None \<or> resolve_effect effect = ReadOnly then (t, Inr (slot, args))
       else case stale of
         Some why \<Rightarrow> (t, Inl (StaleExecution why))
       | None \<Rightarrow>
         (case (case field of None \<Rightarrow> Inr (header, args)
                | Some f \<Rightarrow> (case resolve_bridge_identity header args f of
                              Inl e \<Rightarrow> Inl e | Inr (k, b) \<Rightarrow> Inr (Some k, b))) of
            Inl e \<Rightarrow> (t, Inl e)
          | Inr (key, business) \<Rightarrow>
              (case reserve_bridge_slot sha rivals (ec_company_id ctx) turn key tool
                      (if canon business then Some (JDict business) else None) t of
                 (t', Inl e) \<Rightarrow> (t', Inl e)
               | (t', Inr s) \<Rightarrow> (t', Inr (Some s, business)))))"

end
