(* ===== verification/Bridge_Laws.thy ===== *)
theory Bridge_Laws
  imports Bridge_Slots "HOL-Library.Sublist"
begin

text \<open>
  What a bridge key promises: a key names one slot for ever, two keys of a turn never share
  one, and a request only fails to get a slot when fifty others got theirs first.
\<close>

section \<open>A table of keys that only grows\<close>

text \<open>
  \<open>look t k\<close> is the place \<open>k\<close> was given; a later table keeps it, and in a well-formed table two
  keys of one owner with the same place are the same key.
\<close>

locale durable_keys =
  fixes wf :: "'t \<Rightarrow> bool"
    and later :: "'t \<Rightarrow> 't \<Rightarrow> bool"
    and look :: "'t \<Rightarrow> 'o \<Rightarrow> 'k \<Rightarrow> 'p option"
  assumes look_kept: "wf t' \<Longrightarrow> later t t' \<Longrightarrow> look t owner k = Some p \<Longrightarrow> look t' owner k = Some p"
    and place_unique: "wf t \<Longrightarrow> look t owner k = Some p \<Longrightarrow> look t owner k' = Some p \<Longrightarrow> k = k'"
begin

lemma same_place:
  "wf t' \<Longrightarrow> later t t' \<Longrightarrow> look t owner k = Some p \<Longrightarrow> look t' owner k = Some p' \<Longrightarrow> p = p'"
  using look_kept by fastforce

lemma distinct_places:
  "wf t' \<Longrightarrow> later t t' \<Longrightarrow> look t owner k = Some p \<Longrightarrow> look t' owner k' = Some p' \<Longrightarrow> k \<noteq> k' \<Longrightarrow> p \<noteq> p'"
  using look_kept place_unique by blast

end

definition slots_ok :: "bridge_slot list \<Rightarrow> bool" where
  "slots_ok t \<longleftrightarrow> distinct (map slot_key t) \<and> distinct (map slot_place t) \<and> (\<forall>r \<in> set t. 0 \<le> bs_ordinal r)"

definition place_of :: "bridge_slot list \<Rightarrow> uuid \<times> uuid \<Rightarrow> string \<Rightarrow> int option" where
  "place_of t owner k = map_option bs_ordinal (find_slot (fst owner, snd owner, k) t)"

lemma find_slot_iff:
  assumes "distinct (map slot_key t)"
  shows "find_slot k t = Some r \<longleftrightarrow> r \<in> set t \<and> slot_key r = k"
proof
  show "find_slot k t = Some r \<Longrightarrow> r \<in> set t \<and> slot_key r = k"
    by (auto simp: find_slot_def find_Some_iff)
next
  assume r: "r \<in> set t \<and> slot_key r = k"
  show "find_slot k t = Some r"
  proof (cases "find_slot k t")
    case None
    with r show ?thesis by (auto simp: find_slot_def find_None_iff)
  next
    case (Some s)
    then have "s \<in> set t" "slot_key s = k" by (auto simp: find_slot_def find_Some_iff)
    with r same_key_same_row [OF assms, of s r] Some show ?thesis by simp
  qed
qed

interpretation bridge_keys: durable_keys slots_ok "\<lambda>t t'. set t \<subseteq> set t'" place_of
proof
  fix t t' :: "bridge_slot list" and owner k p
  assume ok: "slots_ok t'" and sub: "set t \<subseteq> set t'" and p: "place_of t owner k = Some p"
  from p obtain r where f: "find_slot (fst owner, snd owner, k) t = Some r" and o: "bs_ordinal r = p"
    by (auto simp: place_of_def)
  from f have "r \<in> set t" "slot_key r = (fst owner, snd owner, k)"
    by (auto simp: find_slot_def find_Some_iff)
  with ok sub have "find_slot (fst owner, snd owner, k) t' = Some r"
    by (auto simp: slots_ok_def find_slot_iff)
  with o show "place_of t' owner k = Some p" by (simp add: place_of_def)
next
  fix t owner k p k'
  assume ok: "slots_ok t" and 1: "place_of t owner k = Some p" and 2: "place_of t owner k' = Some p"
  from 1 2 ok obtain r r' where
    r: "r \<in> set t" "slot_key r = (fst owner, snd owner, k)" "bs_ordinal r = p" and
    r': "r' \<in> set t" "slot_key r' = (fst owner, snd owner, k')" "bs_ordinal r' = p"
    by (auto simp: place_of_def slots_ok_def find_slot_iff)
  then have "slot_place r = slot_place r'" by (simp add: slot_key_def slot_place_def)
  with ok r r' same_key_same_row [of slot_place t r r'] have "r = r'" by (simp add: slots_ok_def)
  with r r' show "k = k'" by simp
qed

section \<open>Every outcome of a reservation\<close>

lemma slots_ok_append: "slots_ok t \<Longrightarrow> slot_insert_ok t n \<Longrightarrow> slots_ok (t @ [n])"
  by (auto simp: slots_ok_def slot_insert_ok_def)

lemma commit_rivals_grows: "slots_ok t \<Longrightarrow> slots_ok (commit_rivals ns t) \<and> prefix t (commit_rivals ns t)"
proof (induction ns arbitrary: t)
  case (Cons n ns)
  show ?case
  proof (cases "slot_insert_ok t n")
    case True
    from Cons.IH [OF slots_ok_append [OF Cons.prems True]] True show ?thesis
      by (auto intro: append_prefixD)
  qed (use Cons in simp)
qed simp

lemma fold_max_start: "(m :: int) \<le> fold max xs m"
  by (induction xs arbitrary: m) (auto intro: order_trans [OF max.cobounded2])

lemma fold_max_ge: "x \<in> set xs \<Longrightarrow> (x :: int) \<le> fold max xs m"
proof (induction xs arbitrary: m)
  case (Cons y ys)
  then show ?case using fold_max_start [of "max y m" ys] by auto
qed simp

lemma next_ordinal_free:
  assumes "r \<in> set t" "bs_company_id r = company" "bs_turn_id r = turn"
  shows "bs_ordinal r < next_ordinal company turn t"
  using fold_max_ge [of "bs_ordinal r" "turn_ordinals company turn t" "-1"] assms
  by (auto simp: next_ordinal_def turn_ordinals_def)

lemma next_ordinal_nonneg: "0 \<le> next_ordinal company turn t"
  using fold_max_start [of "-1" "turn_ordinals company turn t"] by (simp add: next_ordinal_def)

text \<open>The insert of an attempt in which nobody else committed anything is never refused.\<close>

lemma insert_undisturbed:
  assumes "find_slot (company, turn, key) t = None"
  shows "slot_insert_ok t (new_slot company turn key tool digest (next_ordinal company turn t))"
proof -
  have "slot_place (new_slot company turn key tool digest (next_ordinal company turn t)) \<notin> set (map slot_place t)"
    using next_ordinal_free [of _ t company turn] by (force simp: slot_place_def new_slot_def)
  moreover have "slot_key (new_slot company turn key tool digest (next_ordinal company turn t)) \<notin> set (map slot_key t)"
    using assms by (auto simp: find_slot_def find_None_iff new_slot_def slot_key_def)
  ultimately show ?thesis using next_ordinal_nonneg by (simp add: slot_insert_ok_def new_slot_def)
qed

lemma refused_insert_grew:
  assumes ok: "slots_ok t" and f: "find_slot (company, turn, key) t = None"
    and r: "\<not> slot_insert_ok (commit_rivals b (commit_rivals a t))
      (new_slot company turn key tool digest (next_ordinal company turn (commit_rivals a t)))"
  shows "length t < length (commit_rivals b (commit_rivals a t))"
proof (rule ccontr)
  let ?t1 = "commit_rivals a t" and ?t2 = "commit_rivals b (commit_rivals a t)"
  assume "\<not> ?thesis"
  moreover have "prefix t ?t1" "prefix ?t1 ?t2"
    using commit_rivals_grows [OF ok, of a] commit_rivals_grows [of ?t1 b] by auto
  ultimately have "?t1 = t" "?t2 = t" by (auto simp: prefix_def)
  with r insert_undisturbed [OF f, of tool digest] show False by simp
qed

lemma reserve_loop_result:
  assumes "slots_ok t" and "reserve_loop n rivals company turn key tool digest t = (t', res)"
  shows "slots_ok t' \<and> prefix t t' \<and>
    (case res of
       Inr s \<Rightarrow> \<exists>row. find_slot (company, turn, key) t' = Some row \<and>
           s = \<lparr>round_index = -1, invocation_index = bs_ordinal row\<rparr> \<and>
           bs_tool_name row = tool \<and> bs_arguments_digest row = digest
     | Inl e \<Rightarrow> e = KeyReused \<and> (\<exists>row. find_slot (company, turn, key) t' = Some row \<and>
             \<not> (bs_tool_name row = tool \<and> bs_arguments_digest row = digest)) \<or>
           e = CouldNotReserve \<and> length t + n \<le> length t')"
  using assms
proof (induction n arbitrary: t)
  case 0
  then show ?case by auto
next
  case (Suc n)
  show ?case
  proof (cases "find_slot (company, turn, key) t")
    case (Some row)
    with Suc.prems show ?thesis by (cases res) (auto split: if_splits)
  next
    case None
    let ?t1 = "commit_rivals (fst (rivals n)) t"
    let ?t2 = "commit_rivals (snd (rivals n)) ?t1"
    let ?new = "new_slot company turn key tool digest (next_ordinal company turn ?t1)"
    have g: "slots_ok ?t2" "prefix t ?t2"
      using commit_rivals_grows [OF Suc.prems(1), of "fst (rivals n)"]
        commit_rivals_grows [of ?t1 "snd (rivals n)"] prefix_order.trans by blast+
    show ?thesis
    proof (cases "slot_insert_ok ?t2 ?new")
      case True
      with Suc.prems(2) None have e: "t' = ?t2 @ [?new]"
        "res = Inr \<lparr>round_index = -1, invocation_index = next_ordinal company turn ?t1\<rparr>"
        by (simp_all add: Let_def)
      have ok: "slots_ok t'" using slots_ok_append [OF g(1) True] e by simp
      then have "find_slot (company, turn, key) t' = Some ?new"
        by (simp add: find_slot_iff slots_ok_def e slot_key_def new_slot_def)
      with ok g(2) e show ?thesis by (auto simp: new_slot_def)
    next
      case False
      with Suc.prems(2) None have "reserve_loop n rivals company turn key tool digest ?t2 = (t', res)"
        by (simp add: Let_def)
      from Suc.IH [OF g(1) this] g(2) refused_insert_grew [OF Suc.prems(1) None False]
      show ?thesis by (cases res) (auto intro: prefix_order.trans)
    qed
  qed
qed

lemma reserve_result:
  assumes "slots_ok t" and "reserve_bridge_slot sha rivals company turn (Some k) tool (Some a) t = (t', Inr s)"
  shows "slots_ok t'" "prefix t t'" "valid_bridge_key k" "place_of t' (company, turn) k = Some (invocation_index s)"
    "s = \<lparr>round_index = -1, invocation_index = invocation_index s\<rparr>"
    "\<exists>row. find_slot (company, turn, k) t' = Some row \<and> bs_ordinal row = invocation_index s \<and>
      bs_tool_name row = tool \<and> bs_arguments_digest row = arguments_digest sha a"
proof -
  from assms(2) show v: "valid_bridge_key k" by (auto simp: reserve_bridge_slot_def split: if_splits)
  with assms(2) have "reserve_loop BRIDGE_ATTEMPTS rivals company turn k tool (arguments_digest sha a) t = (t', Inr s)"
    by (simp add: reserve_bridge_slot_def)
  from reserve_loop_result [OF assms(1) this]
  show "slots_ok t'" "prefix t t'" "place_of t' (company, turn) k = Some (invocation_index s)"
    "s = \<lparr>round_index = -1, invocation_index = invocation_index s\<rparr>"
    "\<exists>row. find_slot (company, turn, k) t' = Some row \<and> bs_ordinal row = invocation_index s \<and>
      bs_tool_name row = tool \<and> bs_arguments_digest row = arguments_digest sha a"
    by (auto simp: place_of_def)
qed

lemma slot_ext: "round_index s = round_index s' \<Longrightarrow> invocation_index s = invocation_index s' \<Longrightarrow> (s :: tool_slot) = s'"
  by simp

section \<open>Properties\<close>

text \<open>The demonstration: two keys of one turn, the second against a rival that takes its ordinal.\<close>

definition demo_rivals :: "nat \<Rightarrow> bridge_slot list \<times> bridge_slot list" where
  "demo_rivals n = (if n = 49 then ([], [new_slot 4 50 ''kr'' ''mail'' ''args'' 1]) else ([], []))"

definition demo_slots :: "bridge_slot list" where
  "demo_slots = [new_slot 4 50 ''k1'' ''mail'' ''args'' 0]"

lemma demo_slots_ok: "slots_ok demo_slots"
  by (simp add: slots_ok_def demo_slots_def new_slot_def)

lemma demo_reserve:
  "reserve_bridge_slot (\<lambda>_. ''args'') demo_rivals 4 50 (Some ''k2'') ''mail'' (Some JNull) demo_slots =
    (demo_slots @ [new_slot 4 50 ''kr'' ''mail'' ''args'' 1, new_slot 4 50 ''k2'' ''mail'' ''args'' 2],
     Inr \<lparr>round_index = -1, invocation_index = 2\<rparr>)"
  by code_simp

lemma demo_replay:
  "reserve_bridge_slot (\<lambda>_. ''args'') (\<lambda>_. ([], [])) 4 50 (Some ''k1'') ''mail'' (Some JNull) demo_slots =
    (demo_slots, Inr \<lparr>round_index = -1, invocation_index = 0\<rparr>)"
  by code_simp

text \<open>
  One key, one slot, for ever. Once a key of a turn was given a slot, every later request of
  the same call with that key (from any process, whatever others commit in between or during
  it) is given that slot again and stores nothing, and a request with the key for another tool
  or other arguments is refused and stores nothing.
\<close>

theorem bridge_key_names_one_slot:
  assumes "slots_ok t" and "reserve_bridge_slot sha rivals company turn (Some k) tool (Some a) t = (t', Inr s)"
    and "slots_ok t''" and "set t' \<subseteq> set t''"
  shows "reserve_bridge_slot sha rivals' company turn (Some k) tool' (Some a') t'' =
    (t'', if tool' = tool \<and> arguments_digest sha a' = arguments_digest sha a then Inr s else Inl KeyReused)"
proof -
  note r = reserve_result [OF assms(1,2)]
  from r(6) obtain row where row: "find_slot (company, turn, k) t' = Some row" "bs_ordinal row = invocation_index s"
    "bs_tool_name row = tool" "bs_arguments_digest row = arguments_digest sha a" by blast
  from row(1) r(1) assms(3,4) have "find_slot (company, turn, k) t'' = Some row"
    by (auto simp: slots_ok_def find_slot_iff)
  with row r(3,5) show ?thesis
    by (auto simp: reserve_bridge_slot_def BRIDGE_ATTEMPTS_def numeral_eq_Suc)
qed

theorem bridge_key_names_one_slot_witness:
  "snd (reserve_bridge_slot (\<lambda>_. ''args'') demo_rivals 4 50 (Some ''k1'') ''mail'' (Some (JInt 7)) demo_slots) =
     Inr \<lparr>round_index = -1, invocation_index = 0\<rparr> \<and>
   snd (reserve_bridge_slot (\<lambda>_. ''args'') demo_rivals 4 50 (Some ''k1'') ''shell'' (Some JNull) demo_slots) =
     Inl KeyReused"
  using bridge_key_names_one_slot [OF demo_slots_ok demo_replay demo_slots_ok subset_refl, of demo_rivals]
  by (simp add: arguments_digest_def)

text \<open>
  C27: two intended writes never share a slot: different keys of one turn are given different
  slots, however their requests interleave with each other and with others.
\<close>

theorem distinct_keys_distinct_slots:
  assumes "slots_ok t" and "reserve_bridge_slot sha rivals company turn (Some k) tool (Some a) t = (t', Inr s)"
    and "slots_ok u" and "set t' \<subseteq> set u"
    and "reserve_bridge_slot sha rivals' company turn (Some k') tool' (Some a') u = (u', Inr s')" and "k \<noteq> k'"
  shows "s \<noteq> s'"
proof -
  note r = reserve_result [OF assms(1,2)] and r' = reserve_result [OF assms(3,5)]
  have "set t' \<subseteq> set u'" using assms(4) r'(2) set_mono_prefix by blast
  from bridge_keys.distinct_places [OF r'(1) this r(4) r'(4) assms(6)] show ?thesis by auto
qed

theorem distinct_keys_distinct_slots_witness:
  "(\<lparr>round_index = -1, invocation_index = 0\<rparr> :: tool_slot) \<noteq> \<lparr>round_index = -1, invocation_index = 2\<rparr>"
  by (rule distinct_keys_distinct_slots [OF demo_slots_ok demo_replay demo_slots_ok subset_refl demo_reserve]) simp

text \<open>
  A valid request is starved only by others' progress. If no slot could be reserved, at
  least fifty rows were committed by others while it tried; in particular an undisturbed
  request with a valid key always gets a slot or is told its key names another call.
\<close>

theorem reservation_starved_only_by_others:
  assumes "slots_ok t" and "valid_bridge_key k"
    and "reserve_bridge_slot sha rivals company turn (Some k) tool (Some a) t = (t', res)"
  shows "(case res of Inr s \<Rightarrow> slots_ok t' \<and> place_of t' (company, turn) k = Some (invocation_index s)
    | Inl e \<Rightarrow> e = KeyReused \<or> e = CouldNotReserve \<and> length t + 50 \<le> length t')"
proof (cases res)
  case (Inr s)
  with reserve_result [OF assms(1)] assms(3) show ?thesis by simp
next
  case (Inl e)
  from assms(2,3) have "reserve_loop BRIDGE_ATTEMPTS rivals company turn k tool (arguments_digest sha a) t = (t', res)"
    by (simp add: reserve_bridge_slot_def)
  from reserve_loop_result [OF assms(1) this] Inl show ?thesis by (auto simp: BRIDGE_ATTEMPTS_def)
qed

theorem reservation_starved_only_by_others_witness:
  "place_of (demo_slots @ [new_slot 4 50 ''kr'' ''mail'' ''args'' 1, new_slot 4 50 ''k2'' ''mail'' ''args'' 2])
     (4, 50) ''k2'' = Some 2"
proof -
  have "valid_bridge_key ''k2''" by code_simp
  from reservation_starved_only_by_others [OF demo_slots_ok this demo_reserve] show ?thesis by simp
qed

text \<open>
  The identity of a bridge write. When a header and an argument name the call they agree, the
  key is well formed and is the one that was sent, the bridge-only argument never reaches the
  tool, a tool that declares its own key receives it, and every other argument is untouched.
\<close>

theorem bridge_identity_exact:
  assumes "resolve_bridge_identity header args field = Inr (k, business)"
  shows "valid_bridge_key k \<and> header \<in> {None, Some k} \<and> map_of args field \<in> {None, Some (JStr k)} \<and>
    (header \<noteq> None \<or> map_of args field \<noteq> None) \<and>
    map_of business field = (if field = BRIDGE_KEY_ARG then None else Some (JStr k)) \<and>
    (\<forall>g. g \<noteq> field \<longrightarrow> map_of business g = map_of args g)"
proof -
  have v: "valid_json_key j \<Longrightarrow> \<exists>s. j = JStr s \<and> valid_bridge_key s" for j by (cases j) auto
  from assms show ?thesis
    by (cases header; cases "map_of args field")
      (auto simp: resolve_bridge_identity_def Let_def delete_conv' update_conv' map_of_delete dest!: v split: if_splits)
qed

theorem bridge_identity_exact_witness:
  "valid_bridge_key ''k1'' \<and> map_of [(''to'', JStr ''a'')] BRIDGE_KEY_ARG = None"
proof -
  have "resolve_bridge_identity (Some ''k1'') [(BRIDGE_KEY_ARG, JStr ''k1''), (''to'', JStr ''a'')] BRIDGE_KEY_ARG =
    Inr (''k1'', [(''to'', JStr ''a'')])" by code_simp
  from bridge_identity_exact [OF this] show ?thesis by simp
qed

end
