(* ===== verification/Tool_Policy.thy ===== *)
theory Tool_Policy
  imports Identity
begin

text \<open>
  \<open>src/nexus/tools/policy_engine.py\<close>: the priority-ordered policy rules and the profile that
  gives the default, with Python's \<open>fnmatch\<close> patterns. A rule's conditions are a JSON object
  written by an administrator; a value of the wrong type makes the evaluation raise, which is
  \<open>None\<close> here.
\<close>

section \<open>fnmatch\<close>

datatype glob = Star | AnyChar | Lit char | Class bool "(char \<times> char) list"

text \<open>The members of a bracket: ranges, a single character being a range of its own.\<close>

fun class_items :: "string \<Rightarrow> (char \<times> char) list" where
  "class_items (a # m # b # rest) =
    (if m = CHR ''-'' then (a, b) # class_items rest else (a, a) # class_items (m # b # rest))"
| "class_items (a # rest) = (a, a) # class_items rest"
| "class_items [] = []"

text \<open>
  The text of a bracket ends at the first \<open>]\<close> that is not its first member; \<open>None\<close> is a
  bracket that is never closed.
\<close>

fun until_close :: "string \<Rightarrow> (string \<times> string) option" where
  "until_close [] = None"
| "until_close (c # cs) = (if c = CHR '']'' then Some ([], cs)
     else map_option (\<lambda>(inside, rest). (c # inside, rest)) (until_close cs))"

definition bracket :: "string \<Rightarrow> (string \<times> string) option" where
  "bracket cs = (let (neg, body) = (case cs of c # r \<Rightarrow> if c = CHR ''!'' then ([c], r) else ([], cs) | [] \<Rightarrow> ([], []));
                     (first, body') = (case body of c # r \<Rightarrow> if c = CHR '']'' then ([c], r) else ([], body) | [] \<Rightarrow> ([], []))
                 in map_option (\<lambda>(inside, rest). (neg @ first @ inside, rest)) (until_close body'))"

lemma until_close_shorter: "until_close cs = Some (i, r) \<Longrightarrow> length r < length cs"
  by (induction cs arbitrary: i r) (auto split: if_splits)

lemma bracket_shorter: "bracket cs = Some (i, r) \<Longrightarrow> length r < length cs"
  by (auto simp: bracket_def split: list.splits if_splits prod.splits dest!: until_close_shorter)

function glob_of :: "string \<Rightarrow> glob list" where
  "glob_of [] = []"
| "glob_of (c # cs) =
    (if c = CHR ''*'' then Star # glob_of cs
     else if c = CHR ''?'' then AnyChar # glob_of cs
     else if c = CHR ''['' then
       (case bracket cs of
          None \<Rightarrow> Lit c # glob_of cs
        | Some (inside, rest) \<Rightarrow>
            (case inside of
               n # members \<Rightarrow> if n = CHR ''!'' then Class False (class_items members) # glob_of rest
                              else Class True (class_items inside) # glob_of rest
             | [] \<Rightarrow> Class True [] # glob_of rest))
     else Lit c # glob_of cs)"
  by pat_completeness auto
termination
  by (relation "measure length") (auto dest!: bracket_shorter)

fun accepts :: "glob \<Rightarrow> char \<Rightarrow> bool" where
  "accepts Star c = True"
| "accepts AnyChar c = True"
| "accepts (Lit d) c = (c = d)"
| "accepts (Class pos items) c =
    (pos = list_ex (\<lambda>(a, b). of_char a \<le> (of_char c :: nat) \<and> of_char c \<le> (of_char b :: nat)) items)"

function glob_match :: "glob list \<Rightarrow> string \<Rightarrow> bool" where
  "glob_match [] s = (s = [])"
| "glob_match (p # ps) [] = (p = Star \<and> glob_match ps [])"
| "glob_match (p # ps) (c # s) =
    (if p = Star then glob_match ps (c # s) \<or> glob_match (p # ps) s
     else accepts p c \<and> glob_match ps s)"
  by pat_completeness auto
termination by (relation "measure (\<lambda>(ps, s). length ps + length s)") auto

definition fnmatch :: "string \<Rightarrow> string \<Rightarrow> bool" where
  "fnmatch name pat = glob_match (glob_of pat) name"

section \<open>Rules\<close>

record policy_rule =
  pr_id :: uuid
  pr_name :: string
  pr_priority :: int
  pr_effect :: string
  pr_conditions :: dict
  pr_is_active :: bool

record policy_decision =
  pd_allowed :: bool
  pd_matched :: "uuid option"
  pd_reason :: string

text \<open>\<open>isinstance(v, str)\<close>, for the JSON values that are text.\<close>

fun is_str :: "json \<Rightarrow> bool" where
  "is_str (JStr s) = True"
| "is_str (JId u) = True"
| "is_str (JText l) = True"
| "is_str _ = False"

text \<open>\<open>x in levels\<close> after a text was wrapped in a list; \<open>None\<close> is a \<open>TypeError\<close>.\<close>

fun json_in :: "json \<Rightarrow> json \<Rightarrow> bool option" where
  "json_in x (JList xs) = Some (x \<in> set xs)"
| "json_in x (JDict kvs) = Some (x \<in> (\<lambda>kv. JStr (fst kv)) ` set kvs)"
| "json_in x v = (if is_str v then Some (x = v) else None)"

text \<open>\<open>any(fnmatch(tool_name, pat) for pat in patterns)\<close>, which stops at the first match. The text of
  an identifier has no wildcard and names no tool.\<close>

fun any_glob :: "string \<Rightarrow> json list \<Rightarrow> bool option" where
  "any_glob name [] = Some False"
| "any_glob name (JStr p # ps) = (if fnmatch name p then Some True else any_glob name ps)"
| "any_glob name (JId u # ps) = any_glob name ps"
| "any_glob name (JText l # ps) = any_glob name ps"
| "any_glob name (_ # ps) = None"

fun glob_values :: "json \<Rightarrow> json list option" where
  "glob_values (JList xs) = Some xs"
| "glob_values (JDict kvs) = Some (map (\<lambda>kv. JStr (fst kv)) kvs)"
| "glob_values v = (if is_str v then Some [v] else None)"

fun json_num :: "json \<Rightarrow> int option" where
  "json_num (JInt i) = Some i"
| "json_num (JBool b) = Some (if b then 1 else 0)"
| "json_num _ = None"

definition agent_text :: "uuid option \<Rightarrow> json" where
  "agent_text a = (case a of None \<Rightarrow> JStr ''None'' | Some u \<Rightarrow> JId u)"

definition cond_levels :: "policy_rule \<Rightarrow> string \<Rightarrow> bool option" where
  "cond_levels r risk = (case map_of (pr_conditions r) ''risk_level'' of
     None \<Rightarrow> Some True | Some v \<Rightarrow> json_in (JStr risk) v)"

definition cond_names :: "policy_rule \<Rightarrow> string \<Rightarrow> bool option" where
  "cond_names r tool = (case map_of (pr_conditions r) ''tool_name'' of
     None \<Rightarrow> Some True
   | Some v \<Rightarrow> (case glob_values v of None \<Rightarrow> None | Some ps \<Rightarrow> any_glob tool ps))"

definition cond_agents :: "policy_rule \<Rightarrow> uuid option \<Rightarrow> bool option" where
  "cond_agents r a = (case map_of (pr_conditions r) ''agent_id'' of
     None \<Rightarrow> Some True | Some v \<Rightarrow> json_in (agent_text a) v)"

definition cond_hours :: "policy_rule \<Rightarrow> int option \<Rightarrow> bool option" where
  "cond_hours r hour = (case map_of (pr_conditions r) ''time_of_day'' of
     None \<Rightarrow> Some True
   | Some v \<Rightarrow> (case hour of None \<Rightarrow> Some True
       | Some h \<Rightarrow> (case v of
           JDict d \<Rightarrow>
             (case json_num (case map_of d ''start'' of None \<Rightarrow> JInt 0 | Some s \<Rightarrow> s) of
                None \<Rightarrow> None
              | Some s \<Rightarrow> if \<not> s \<le> h then Some False
                  else map_option (\<lambda>e. h < e)
                    (json_num (case map_of d ''end'' of None \<Rightarrow> JInt 24 | Some e \<Rightarrow> e)))
         | _ \<Rightarrow> None)))"

text \<open>The checks of \<open>_matches\<close>, in order: the first that fails or raises decides.\<close>

fun all_hold :: "bool option list \<Rightarrow> bool option" where
  "all_hold [] = Some True"
| "all_hold (None # cs) = None"
| "all_hold (Some False # cs) = Some False"
| "all_hold (Some True # cs) = all_hold cs"

definition rule_matches :: "policy_rule \<Rightarrow> uuid option \<Rightarrow> string \<Rightarrow> string \<Rightarrow> int option \<Rightarrow> bool option" where
  "rule_matches r a tool risk hour =
    all_hold [cond_levels r risk, cond_names r tool, cond_agents r a, cond_hours r hour]"

record policy_engine =
  pe_policies :: "policy_rule list"
  pe_default_effect :: string

definition new_engine :: "string \<Rightarrow> policy_engine" where
  "new_engine default_effect = \<lparr>pe_policies = [], pe_default_effect = default_effect\<rparr>"

definition load_policies :: "policy_rule list \<Rightarrow> policy_engine \<Rightarrow> policy_engine" where
  "load_policies ps e = e\<lparr>pe_policies := sort_key pr_priority ps\<rparr>"

definition quoted :: "string \<Rightarrow> string" where
  "quoted s = [CHR 0x27] @ s @ [CHR 0x27]"

definition decided_by :: "policy_rule \<Rightarrow> policy_decision" where
  "decided_by r = \<lparr>pd_allowed = (pr_effect r = ''allow''), pd_matched = Some (pr_id r),
     pd_reason = ''Matched policy '' @ quoted (pr_name r) @ '' (priority '' @ show_int (pr_priority r) @ '')''\<rparr>"

definition by_default :: "string \<Rightarrow> policy_decision" where
  "by_default eff = \<lparr>pd_allowed = (eff = ''allow''), pd_matched = None,
     pd_reason = ''No matching policy; default action is '' @ quoted eff\<rparr>"

fun first_match ::
  "policy_rule list \<Rightarrow> string \<Rightarrow> uuid option \<Rightarrow> string \<Rightarrow> string \<Rightarrow> int option \<Rightarrow> policy_decision option" where
  "first_match [] eff a tool risk hour = Some (by_default eff)"
| "first_match (r # rs) eff a tool risk hour =
    (if \<not> pr_is_active r then first_match rs eff a tool risk hour
     else case rule_matches r a tool risk hour of
            None \<Rightarrow> None
          | Some True \<Rightarrow> Some (decided_by r)
          | Some False \<Rightarrow> first_match rs eff a tool risk hour)"

definition evaluate_policy ::
  "policy_engine \<Rightarrow> uuid option \<Rightarrow> string \<Rightarrow> string \<Rightarrow> int option \<Rightarrow> policy_decision option" where
  "evaluate_policy e a tool risk hour =
    first_match (pe_policies e) (pe_default_effect e) a tool risk hour"

section \<open>Profiles\<close>

record profile_binding =
  pb_id :: uuid
  pb_profile_id :: uuid
  pb_target_type :: string
  pb_target_id :: uuid
  pb_priority :: int
  pb_default_action :: string

definition load_bindings :: "profile_binding list \<Rightarrow> profile_binding list" where
  "load_bindings bs = sort_key pb_priority bs"

definition profile_targets :: "uuid option \<Rightarrow> uuid option \<Rightarrow> uuid option \<Rightarrow> (string \<times> uuid) list" where
  "profile_targets a dept company =
    (case a of None \<Rightarrow> [] | Some u \<Rightarrow> [(''agent'', u)]) @
    (case dept of None \<Rightarrow> [] | Some u \<Rightarrow> [(''department'', u)]) @
    (case company of None \<Rightarrow> [] | Some u \<Rightarrow> [(''company'', u)])"

fun resolve_targets :: "(string \<times> uuid) list \<Rightarrow> profile_binding list \<Rightarrow> profile_binding option" where
  "resolve_targets [] bs = None"
| "resolve_targets (t # ts) bs =
    (case find (\<lambda>b. pb_target_type b = fst t \<and> pb_target_id b = snd t) bs of
       Some b \<Rightarrow> Some b
     | None \<Rightarrow> resolve_targets ts bs)"

definition resolve_profile ::
  "profile_binding list \<Rightarrow> uuid option \<Rightarrow> uuid option \<Rightarrow> uuid option \<Rightarrow> profile_binding option" where
  "resolve_profile bs a dept company = resolve_targets (profile_targets a dept company) bs"

end
