(* ===== verification/Tool_Access.thy ===== *)
theory Tool_Access
  imports RBAC Tool_Policy Sessions Grants
begin

text \<open>
  \<open>src/nexus/tools/access.py\<close>: the authorization of one tool call, from the caller's context and
  the tenant's tables (agents, sessions, tool connections, MCP bindings, the catalog, policies,
  profiles, temporary grants and restrictions). Every stage adds its problems; a hard problem
  denies in every mode, a soft one denies only when bindings are enforced. A policy whose
  conditions have the wrong type makes the check raise: \<open>None\<close>.
\<close>

section \<open>Tables\<close>

record tool_connection =
  tc_id :: uuid
  tc_company_id :: uuid
  tc_endpoint_url :: "string option"
  tc_is_active :: bool

record mcp_binding =
  mb_id :: uuid
  mb_company_id :: uuid
  mb_connection_id :: uuid
  mb_agent_id :: "uuid option"
  mb_session_id :: "uuid option"
  mb_disabled_tools :: "string list"
  mb_status :: string

record catalog_entry =
  ce_connection_id :: uuid
  ce_tool_name :: string
  ce_risk_level :: string
  ce_is_active :: bool

record tool_policy =
  tp_company_id :: uuid
  tp_rule :: policy_rule

record tool_profile =
  tf_id :: uuid
  tf_default_action :: string
  tf_is_active :: bool

record access_db =
  ad_agents :: "agent list"
  ad_sessions :: "agent_session list"
  ad_connections :: "tool_connection list"
  ad_bindings :: "mcp_binding list"
  ad_catalog :: "catalog_entry list"
  ad_policies :: "tool_policy list"
  ad_profiles :: "tool_profile list"
  ad_profile_bindings :: "(uuid \<times> profile_binding) list"
  ad_grants :: grant_db

section \<open>Decisions\<close>

definition EXPLICIT_ALLOW_ONLY :: "string list" where
  "EXPLICIT_ALLOW_ONLY =
    [''manager_request_hire'', ''manager_delegate_task'', ''manager_assign_work'',
     ''manager_finalize_plan'', ''manager_review_work'', ''ceo_delegate_task_to_manager'',
     ''ceo_create_goal_or_work_order'', ''ceo_record_decision'', ''ceo_request_hire'']"

datatype access_outcome = Allowed | WouldDeny | AccessDenied

definition UNCLASSIFIED_RISK :: string where
  "UNCLASSIFIED_RISK = ''write''"

datatype problem_stage = PContext | PAgent | PSession | PConnection | PBinding | PCatalog | PRbac
  | PRestriction | PTempAccess | PPolicy | PError

record access_problem =
  ap_stage :: problem_stage
  ap_reason :: string
  ap_hard :: bool

record access_decision =
  xd_outcome :: access_outcome
  xd_enforcement :: string
  xd_company_id :: "uuid option"
  xd_agent_id :: "uuid option"
  xd_session_id :: "uuid option"
  xd_connection_id :: "uuid option"
  xd_binding_ids :: "uuid list"
  xd_risk_level :: string
  xd_problems :: "access_problem list"
  xd_temp_grant_id :: "uuid option"

definition decision_allowed :: "access_decision \<Rightarrow> bool" where
  "decision_allowed d \<longleftrightarrow> xd_outcome d \<noteq> AccessDenied"

definition problem :: "problem_stage \<Rightarrow> string \<Rightarrow> bool \<Rightarrow> access_decision \<Rightarrow> access_decision" where
  "problem stage reason hard d =
    d\<lparr>xd_problems := xd_problems d @ [\<lparr>ap_stage = stage, ap_reason = reason, ap_hard = hard\<rparr>]\<rparr>"

definition problem_if :: "bool \<Rightarrow> problem_stage \<Rightarrow> string \<Rightarrow> bool \<Rightarrow> access_decision \<Rightarrow> access_decision" where
  "problem_if b stage reason hard d = (if b then problem stage reason hard d else d)"

section \<open>Policies of a company\<close>

text \<open>\<open>names or []\<close> and membership; \<open>None\<close> is a \<open>TypeError\<close>.\<close>

definition names_tool :: "dict \<Rightarrow> string \<Rightarrow> bool option" where
  "names_tool conditions tool = (case map_of conditions ''tool_name'' of
     None \<Rightarrow> Some False
   | Some JNull \<Rightarrow> Some False
   | Some (JInt i) \<Rightarrow> if i = 0 then Some False else None
   | Some (JBool b) \<Rightarrow> if b then None else Some False
   | Some v \<Rightarrow> json_in (JStr tool) v)"

record policy_inputs =
  pi_company_id :: uuid
  pi_agent_id :: "uuid option"
  pi_default_effect :: string
  pi_rules :: "policy_rule list"

text \<open>The rule's random identifier is a parameter.\<close>

definition default_read_policy :: "uuid \<Rightarrow> policy_rule" where
  "default_read_policy rid = \<lparr>pr_id = rid, pr_name = ''default: read-only tools'', pr_priority = 1000,
     pr_effect = ''allow'', pr_conditions = [(''risk_level'', JList [JStr ''read''])], pr_is_active = True\<rparr>"

definition bound_profiles :: "uuid \<Rightarrow> access_db \<Rightarrow> profile_binding list" where
  "bound_profiles company db = List.map_filter (\<lambda>(owner, b).
     case find (\<lambda>p. tf_id p = pb_profile_id b \<and> tf_is_active p) (ad_profiles db) of
       None \<Rightarrow> None
     | Some p \<Rightarrow> if owner = company then Some (b\<lparr>pb_default_action := tf_default_action p\<rparr>) else None)
     (ad_profile_bindings db)"

definition load_policy_inputs :: "uuid \<Rightarrow> uuid \<Rightarrow> agent option \<Rightarrow> bool \<Rightarrow> access_db \<Rightarrow> policy_inputs" where
  "load_policy_inputs rid company ag external db =
    (let profile = resolve_profile (load_bindings (bound_profiles company db)) (map_option ag_id ag)
                     (Option.bind ag ag_department_id) (Some company);
         rules = map tp_rule (filter (\<lambda>p. tp_company_id p = company \<and> pr_is_active (tp_rule p)) (ad_policies db))
     in \<lparr>pi_company_id = company, pi_agent_id = map_option ag_id ag,
         pi_default_effect = (case profile of Some b \<Rightarrow> pb_default_action b
                              | None \<Rightarrow> if external then ''deny'' else ''allow''),
         pi_rules = (if external \<and> rules = [] then [default_read_policy rid] else rules)\<rparr>)"

definition hour_of :: "time \<Rightarrow> int" where
  "hour_of t = (t div 3600000000) mod 24"

text \<open>The allow rules that name the tool; \<open>None\<close> when a rule's names have the wrong type.\<close>

fun naming_rules :: "string \<Rightarrow> policy_rule list \<Rightarrow> policy_rule list option" where
  "naming_rules tool [] = Some []"
| "naming_rules tool (r # rs) =
    (if pr_effect r \<noteq> ''allow'' then naming_rules tool rs
     else case names_tool (pr_conditions r) tool of
            None \<Rightarrow> None
          | Some b \<Rightarrow> map_option (\<lambda>xs. if b then r # xs else xs) (naming_rules tool rs))"

definition decide_policy :: "policy_inputs \<Rightarrow> string \<Rightarrow> string \<Rightarrow> time \<Rightarrow> policy_decision option" where
  "decide_policy inputs tool risk now =
    (let rules = pi_rules inputs; a = pi_agent_id inputs; hour = Some (hour_of now);
         run = (\<lambda>eff rs. evaluate_policy (load_policies rs (new_engine eff)) a tool risk hour)
     in if tool \<in> set EXPLICIT_ALLOW_ONLY then
          (case run ''allow'' (filter (\<lambda>r. pr_effect r \<noteq> ''allow'') rules) of
             None \<Rightarrow> None
           | Some denied \<Rightarrow>
               if \<not> pd_allowed denied then Some denied
               else (case naming_rules tool rules of None \<Rightarrow> None | Some rs \<Rightarrow> run ''deny'' rs))
        else run (pi_default_effect inputs) rules)"

section \<open>Connections\<close>

definition find_connection :: "uuid option \<Rightarrow> uuid option \<Rightarrow> string option \<Rightarrow> access_db \<Rightarrow> tool_connection option" where
  "find_connection company cid url db =
    (case cid of
       Some c \<Rightarrow> find (\<lambda>x. tc_id x = c) (ad_connections db)
     | None \<Rightarrow> (case company of None \<Rightarrow> None
         | Some co \<Rightarrow> find (\<lambda>x. tc_company_id x = co \<and> url \<noteq> None \<and> tc_endpoint_url x = url) (ad_connections db)))"

definition bindings_in_scope :: "access_decision \<Rightarrow> tool_connection \<Rightarrow> access_db \<Rightarrow> mcp_binding list" where
  "bindings_in_scope d conn db = filter (\<lambda>b. mb_company_id b = tc_company_id conn \<and>
     mb_connection_id b = tc_id conn \<and>
     (xd_agent_id d \<noteq> None \<and> mb_agent_id b = xd_agent_id d \<or>
      xd_session_id d \<noteq> None \<and> mb_session_id b = xd_session_id d)) (ad_bindings db)"

definition check_binding :: "string \<Rightarrow> mcp_binding list \<Rightarrow> access_decision \<Rightarrow> access_decision" where
  "check_binding tool bs d =
    (let d1 = d\<lparr>xd_binding_ids := map mb_id bs\<rparr>;
         d2 = (if list_ex (\<lambda>b. mb_status b = ''disabled'') bs
               then problem PBinding ''a binding in scope disables this connection'' False d1
               else if \<not> list_ex (\<lambda>b. mb_status b = ''active'') bs
               then problem PBinding ''no active binding grants this connection'' False d1 else d1)
     in problem_if (list_ex (\<lambda>b. tool \<in> set (mb_disabled_tools b)) bs) PBinding
          (''tool '' @ quoted tool @ '' is disabled by a binding'') False d2)"

definition check_catalog :: "string \<Rightarrow> tool_connection \<Rightarrow> access_db \<Rightarrow> access_decision \<Rightarrow> access_decision" where
  "check_catalog tool conn db d =
    (case find (\<lambda>e. ce_connection_id e = tc_id conn \<and> ce_tool_name e = tool) (ad_catalog db) of
       None \<Rightarrow> problem PCatalog (''tool '' @ quoted tool @ '' is not in the connection'' @ [CHR 0x27] @ ''s catalog'') False d
     | Some e \<Rightarrow> problem_if (\<not> ce_is_active e) PCatalog (''tool '' @ quoted tool @ '' is disabled in the catalog'') False
                   (d\<lparr>xd_risk_level := ce_risk_level e\<rparr>))"

definition check_connection ::
  "string \<Rightarrow> uuid option \<Rightarrow> string option \<Rightarrow> access_db \<Rightarrow> access_decision \<Rightarrow> access_decision" where
  "check_connection tool cid url db d =
    (case find_connection (xd_company_id d) cid url db of
       None \<Rightarrow> problem PConnection ''MCP server is not a registered tool connection'' False d
     | Some conn \<Rightarrow>
         if xd_company_id d \<noteq> None \<and> xd_company_id d \<noteq> Some (tc_company_id conn)
         then problem PConnection ''tool connection belongs to another company'' True d
         else
           let d1 = problem_if (\<not> tc_is_active conn) PConnection ''tool connection is inactive'' False
                      (d\<lparr>xd_connection_id := Some (tc_id conn)\<rparr>)
           in check_catalog tool conn db (check_binding tool (bindings_in_scope d1 conn db) d1))"

section \<open>The check\<close>

record access_request =
  ar_tool_name :: string
  ar_agent_id :: "uuid option"
  ar_connection_id :: "uuid option"
  ar_endpoint_url :: "string option"
  ar_default_risk :: "string option"
  ar_grant_key :: "string option"

definition INBOUND_MCP :: string where
  "INBOUND_MCP = ''mcp_inbound''"

definition request_agent :: "exec_context option \<Rightarrow> access_request \<Rightarrow> uuid option" where
  "request_agent ctx rq = (case ctx of None \<Rightarrow> ar_agent_id rq | Some c \<Rightarrow> ec_agent_id c)"

definition known_agent :: "exec_context option \<Rightarrow> access_request \<Rightarrow> access_db \<Rightarrow> agent option" where
  "known_agent ctx rq db =
    (case request_agent ctx rq of
       None \<Rightarrow> None
     | Some a \<Rightarrow> (case find (\<lambda>x. ag_id x = a) (ad_agents db) of
         None \<Rightarrow> None
       | Some ag \<Rightarrow> (case ctx of None \<Rightarrow> Some ag
           | Some c \<Rightarrow> if ag_company_id ag = ec_company_id c then Some ag else None)))"

definition new_decision :: "string \<Rightarrow> access_request \<Rightarrow> access_decision" where
  "new_decision enforcement rq =
    \<lparr>xd_outcome = Allowed, xd_enforcement = enforcement, xd_company_id = None, xd_agent_id = None,
     xd_session_id = None, xd_connection_id = None, xd_binding_ids = [],
     xd_risk_level = (case str_or (ar_default_risk rq) None of None \<Rightarrow> UNCLASSIFIED_RISK | Some r \<Rightarrow> r),
     xd_problems = [], xd_temp_grant_id = None\<rparr>"

definition check_context :: "exec_context option \<Rightarrow> access_decision \<Rightarrow> access_decision" where
  "check_context ctx d =
    (case ctx of None \<Rightarrow> problem PContext ''no server-side execution context'' False d
     | Some c \<Rightarrow> d\<lparr>xd_company_id := Some (ec_company_id c)\<rparr>)"

definition check_agent :: "exec_context option \<Rightarrow> access_request \<Rightarrow> access_db \<Rightarrow> access_decision \<Rightarrow> access_decision" where
  "check_agent ctx rq db d =
    (if request_agent ctx rq = None then problem PAgent ''no agent identity'' False d
     else case known_agent ctx rq db of
            None \<Rightarrow> problem PAgent ''agent not found in this company'' (ctx \<noteq> None) d
          | Some ag \<Rightarrow> d\<lparr>xd_company_id := Some (ag_company_id ag), xd_agent_id := Some (ag_id ag)\<rparr>)"

definition check_session :: "exec_context option \<Rightarrow> access_db \<Rightarrow> access_decision \<Rightarrow> access_decision" where
  "check_session ctx db d =
    (case ctx of None \<Rightarrow> d
     | Some c \<Rightarrow> (case ec_session_id c of None \<Rightarrow> d
         | Some sid \<Rightarrow> (case find (\<lambda>s. as_id s = sid) (ad_sessions db) of
             None \<Rightarrow> problem PSession ''session does not belong to this agent'' True d
           | Some s \<Rightarrow>
               if Some (as_agent_id s) \<noteq> ec_agent_id c \<or> as_company_id s \<noteq> ec_company_id c
               then problem PSession ''session does not belong to this agent'' True d
               else d\<lparr>xd_session_id := Some sid\<rparr>)))"

definition check_rbac :: "exec_context option \<Rightarrow> string \<Rightarrow> access_decision \<Rightarrow> access_decision" where
  "check_rbac ctx tool d =
    (case ctx of None \<Rightarrow> d
     | Some c \<Rightarrow> problem_if (\<not> role_allows (ec_principal_role c) ''execute'' ''tool'' (Some tool)) PRbac
                   (''role '' @ quoted (ec_principal_role c) @ '' may not execute tools'') True d)"

definition stage_of_overlay :: "string \<Rightarrow> problem_stage" where
  "stage_of_overlay s = (if s = ''restriction'' then PRestriction else PTempAccess)"

fun overlay_problems :: "(string \<times> string \<times> bool) list \<Rightarrow> access_decision \<Rightarrow> access_decision" where
  "overlay_problems [] d = d"
| "overlay_problems ((stage, reason, hard) # ps) d =
    overlay_problems ps (problem (stage_of_overlay stage) reason hard d)"

definition check_policy ::
  "uuid \<Rightarrow> time \<Rightarrow> exec_context option \<Rightarrow> access_request \<Rightarrow> access_db \<Rightarrow> access_decision \<Rightarrow> access_decision option" where
  "check_policy rid now ctx rq db d =
    (case xd_company_id d of
       None \<Rightarrow> Some d
     | Some company \<Rightarrow>
       let external = (case ctx of None \<Rightarrow> False | Some c \<Rightarrow> ec_source c = INBOUND_MCP);
           tool = ar_tool_name rq
       in case decide_policy (load_policy_inputs rid company (known_agent ctx rq db) external db) tool
                 (xd_risk_level d) now of
            None \<Rightarrow> None
          | Some policy \<Rightarrow>
              let ov = evaluate_overlay company (xd_agent_id d) tool (xd_risk_level d)
                         \<lparr>pv_allowed = pd_allowed policy, pv_matched = pd_matched policy\<rparr>
                         (tool \<in> set EXPLICIT_ALLOW_ONLY) (xd_session_id d) now (ar_grant_key rq) (ad_grants db);
                  d1 = overlay_problems (ov_problems ov) d
              in Some (if ov_policy_overridden ov then d1\<lparr>xd_temp_grant_id := ov_grant_id ov\<rparr>
                       else problem_if (\<not> pd_allowed policy) PPolicy (pd_reason policy) True d1))"

definition conclude :: "access_decision \<Rightarrow> access_decision" where
  "conclude d =
    (if list_ex ap_hard (xd_problems d) then d\<lparr>xd_outcome := AccessDenied\<rparr>
     else if xd_problems d \<noteq> [] then
       d\<lparr>xd_outcome := (if xd_enforcement d = ''enforce'' then AccessDenied else WouldDeny)\<rparr>
     else d)"

definition identity_checks :: "string \<Rightarrow> exec_context option \<Rightarrow> access_request \<Rightarrow> access_db \<Rightarrow> access_decision" where
  "identity_checks enforcement ctx rq db =
    (let d = check_session ctx db (check_agent ctx rq db (check_context ctx (new_decision enforcement rq)));
         d = (if ar_connection_id rq \<noteq> None \<or> ar_endpoint_url rq \<noteq> None
              then check_connection (ar_tool_name rq) (ar_connection_id rq) (ar_endpoint_url rq) db d else d)
     in check_rbac ctx (ar_tool_name rq) d)"

definition check_tool_access ::
  "string \<Rightarrow> uuid \<Rightarrow> time \<Rightarrow> exec_context option \<Rightarrow> access_request \<Rightarrow> access_db \<Rightarrow> access_decision option" where
  "check_tool_access enforcement rid now ctx rq db =
    map_option conclude (check_policy rid now ctx rq db (identity_checks enforcement ctx rq db))"

section \<open>Command-line arguments of a task payload\<close>

definition FORBIDDEN_CLI_FLAGS :: "string list" where
  "FORBIDDEN_CLI_FLAGS =
    [''--mcp-config'', ''--strict-mcp-config'', ''--allowed-mcp-server-names'',
     ''--dangerously-skip-permissions'', ''--dangerously-bypass-approvals-and-sandbox'',
     ''--permission-mode'', ''--permission-prompt-tool'', ''--allowedtools'',
     ''--allowed-tools'', ''--yolo'', ''--full-auto'', ''--config'', ''-c'', ''--settings'',
     ''--add-dir'', ''--include-directories'', ''--cd'', ''--sandbox'', ''-s'',
     ''--trust-all-tools'', ''--trust-tools'', ''--allow-all-tools'', ''--allow-tool'',
     ''--force'', ''--approval-mode'', ''--yes'', ''--yes-always'', ''--approve-for-me'',
     ''--dangerously-bypass-hook-trust'']"

text \<open>\<open>arg.split("=", 1)[0].lower()\<close>, on ASCII text.\<close>

definition lower_char :: "char \<Rightarrow> char" where
  "lower_char c = (let n = of_char c :: nat in if 65 \<le> n \<and> n \<le> 90 then char_of (n + 32) else c)"

definition lower_text :: "string \<Rightarrow> string" where
  "lower_text s = map lower_char s"

definition flag_of :: "string \<Rightarrow> string" where
  "flag_of arg = lower_text (takeWhile (\<lambda>c. c \<noteq> CHR ''='') arg)"

fun str_values :: "json list \<Rightarrow> string list option" where
  "str_values [] = Some []"
| "str_values (JStr s # js) = map_option (\<lambda>xs. s # xs) (str_values js)"
| "str_values (_ # js) = None"

definition check_cli_args :: "json option \<Rightarrow> string option" where
  "check_cli_args args =
    (case args of
       None \<Rightarrow> None
     | Some (JList js) \<Rightarrow>
         (case str_values js of
            None \<Rightarrow> Some ''args must be a list of strings''
          | Some xs \<Rightarrow> map_option (\<lambda>a. ''argument '' @ flag_of a @ '' is not allowed in a task payload'')
                         (find (\<lambda>a. flag_of a \<in> set FORBIDDEN_CLI_FLAGS) xs))
     | Some JNull \<Rightarrow> None
     | Some _ \<Rightarrow> Some ''args must be a list of strings'')"

end
