(* ===== verification/Access_Laws.thy ===== *)
theory Access_Laws
  imports Tool_Access
begin

text \<open>
  What the policy engine and the access check guarantee: the most urgent matching rule decides,
  a tool that needs an explicit allow gets one, validated identities belong to the call's
  company, and a call that may run passed every hard check.
\<close>

section \<open>The policy engine\<close>

definition applies :: "policy_rule \<Rightarrow> uuid option \<Rightarrow> string \<Rightarrow> string \<Rightarrow> int option \<Rightarrow> bool" where
  "applies r a tool risk hour \<longleftrightarrow> pr_is_active r \<and> rule_matches r a tool risk hour = Some True"

lemma first_match_cases:
  assumes "first_match rs eff a tool risk hour = Some v" and "sorted (map pr_priority rs)"
  shows "(\<exists>r \<in> set rs. applies r a tool risk hour \<and> v = decided_by r \<and>
      (\<forall>r' \<in> set rs. applies r' a tool risk hour \<longrightarrow> pr_priority r \<le> pr_priority r')) \<or>
    (v = by_default eff \<and> (\<forall>r \<in> set rs. \<not> applies r a tool risk hour))"
  using assms
proof (induction rs)
  case Nil
  then show ?case by simp
next
  case (Cons r rs)
  show ?case
  proof (cases "applies r a tool risk hour")
    case True
    with Cons.prems have "v = decided_by r" by (simp add: applies_def)
    with True Cons.prems(2) show ?thesis by (intro disjI1 bexI [of _ r]) auto
  next
    case False
    with Cons.prems have "first_match rs eff a tool risk hour = Some v"
      by (auto simp: applies_def split: if_splits option.splits bool.splits)
    from Cons.IH [OF this] Cons.prems(2) False show ?thesis by auto
  qed
qed

lemma evaluate_loaded:
  assumes "evaluate_policy (load_policies rs (new_engine eff)) a tool risk hour = Some v"
  shows "(\<exists>r \<in> set rs. applies r a tool risk hour \<and> v = decided_by r \<and>
      (\<forall>r' \<in> set rs. applies r' a tool risk hour \<longrightarrow> pr_priority r \<le> pr_priority r')) \<or>
    (v = by_default eff \<and> (\<forall>r \<in> set rs. \<not> applies r a tool risk hour))"
  using first_match_cases [of "sort_key pr_priority rs"] assms
  by (simp add: evaluate_policy_def load_policies_def new_engine_def)

text \<open>
  The most urgent matching rule decides, however the rules were stored. When the evaluation
  does not raise, the decision is that of an active matching rule whose priority number no
  other active matching rule undercuts, or the default when no active rule matches.
\<close>

theorem most_urgent_rule_decides:
  assumes "evaluate_policy (load_policies rs (new_engine eff)) a tool risk hour = Some v"
  shows "(\<exists>r \<in> set rs. applies r a tool risk hour \<and> pd_matched v = Some (pr_id r) \<and>
      pd_allowed v = (pr_effect r = ''allow'') \<and>
      (\<forall>r' \<in> set rs. applies r' a tool risk hour \<longrightarrow> pr_priority r \<le> pr_priority r')) \<or>
    (pd_matched v = None \<and> pd_allowed v = (eff = ''allow'') \<and> (\<forall>r \<in> set rs. \<not> applies r a tool risk hour))"
  using evaluate_loaded [OF assms] by (auto simp: decided_by_def by_default_def)

definition demo_rules :: "policy_rule list" where
  "demo_rules =
    [\<lparr>pr_id = 1, pr_name = ''late'', pr_priority = 9, pr_effect = ''allow'', pr_conditions = [], pr_is_active = True\<rparr>,
     \<lparr>pr_id = 2, pr_name = ''writes'', pr_priority = 3, pr_effect = ''deny'',
      pr_conditions = [(''risk_level'', JStr ''write'')], pr_is_active = True\<rparr>]"

definition demo_verdict :: policy_decision where
  "demo_verdict = \<lparr>pd_allowed = False, pd_matched = Some 2, pd_reason = ''Matched policy '' @ quoted ''writes'' @ '' (priority 3)''\<rparr>"

lemma demo_evaluated:
  "evaluate_policy (load_policies demo_rules (new_engine ''allow'')) None ''pay'' ''write'' None = Some demo_verdict"
  by code_simp

theorem most_urgent_rule_decides_witness:
  "\<exists>r \<in> set demo_rules. pr_id r = 2 \<and> (\<forall>r' \<in> set demo_rules. applies r' None ''pay'' ''write'' None \<longrightarrow> pr_priority r \<le> pr_priority r')"
  using most_urgent_rule_decides [OF demo_evaluated] by (auto simp: demo_verdict_def)

section \<open>Tools that need an explicit allow\<close>

lemma naming_rules_set:
  "naming_rules tool rs = Some xs \<Longrightarrow>
    set xs = {r \<in> set rs. pr_effect r = ''allow'' \<and> names_tool (pr_conditions r) tool = Some True}"
proof (induction rs arbitrary: xs)
  case Nil
  then show ?case by simp
next
  case (Cons r rs)
  show ?case
  proof (cases "pr_effect r = ''allow''")
    case False
    with Cons.prems have "naming_rules tool rs = Some xs" by simp
    from Cons.IH [OF this] False show ?thesis by (simp add: conj_commute) blast
  next
    case True
    with Cons.prems obtain b where b: "names_tool (pr_conditions r) tool = Some b" by (cases "names_tool (pr_conditions r) tool") simp_all
    with True Cons.prems obtain ys where y: "naming_rules tool rs = Some ys" "xs = (if b then r # ys else ys)"
      by (cases "naming_rules tool rs") simp_all
    from Cons.IH [OF y(1)] have "x \<in> set xs \<longleftrightarrow> x \<in> {x \<in> set (r # rs). pr_effect x = ''allow'' \<and> names_tool (pr_conditions x) tool = Some True}" for x
      using y(2) b True by (cases b; cases "x = r") simp_all
    then show ?thesis by blast
  qed
qed

text \<open>
  No default, wildcard or risk rule opens a tool that needs an explicit allow. If the policy
  decision for such a tool is an allow, some active rule of the company with effect \<open>allow\<close> names
  the tool literally and matches the call, and no active rule with another effect matches it,
  whatever the priorities.
\<close>

theorem explicit_tools_need_a_named_allow:
  assumes "decide_policy inputs tool risk now = Some v" and "pd_allowed v" and "tool \<in> set EXPLICIT_ALLOW_ONLY"
  shows "(\<exists>r \<in> set (pi_rules inputs). pr_effect r = ''allow'' \<and> names_tool (pr_conditions r) tool = Some True \<and>
      applies r (pi_agent_id inputs) tool risk (Some (hour_of now))) \<and>
    (\<forall>r \<in> set (pi_rules inputs). applies r (pi_agent_id inputs) tool risk (Some (hour_of now)) \<longrightarrow> pr_effect r = ''allow'')"
proof -
  let ?ev = "\<lambda>eff rs. evaluate_policy (load_policies rs (new_engine eff)) (pi_agent_id inputs) tool risk (Some (hour_of now))"
  let ?no = "filter (\<lambda>r. pr_effect r \<noteq> ''allow'') (pi_rules inputs)"
  obtain w where w: "?ev ''allow'' ?no = Some w" using assms(1,3) by (auto simp: decide_policy_def Let_def split: option.splits)
  have wa: "pd_allowed w" using assms(1-3) w by (auto simp: decide_policy_def Let_def split: option.splits if_splits)
  obtain xs where xs: "naming_rules tool (pi_rules inputs) = Some xs" "?ev ''deny'' xs = Some v"
    using assms(1,3) w wa by (auto simp: decide_policy_def Let_def split: option.splits)
  from evaluate_loaded [OF w] wa have "\<forall>r \<in> set ?no. \<not> applies r (pi_agent_id inputs) tool risk (Some (hour_of now))"
    by (auto simp: decided_by_def)
  moreover from evaluate_loaded [OF xs(2)] assms(2) obtain r where "r \<in> set xs"
      "applies r (pi_agent_id inputs) tool risk (Some (hour_of now))"
    by (auto simp: decided_by_def by_default_def)
  ultimately show ?thesis using naming_rules_set [OF xs(1)] by auto
qed

definition demo_inputs :: policy_inputs where
  "demo_inputs = \<lparr>pi_company_id = 4, pi_agent_id = None, pi_default_effect = ''deny'', pi_rules =
    [\<lparr>pr_id = 1, pr_name = ''n'', pr_priority = 1, pr_effect = ''allow'',
      pr_conditions = [(''tool_name'', JStr ''ceo_request_hire'')], pr_is_active = True\<rparr>]\<rparr>"

theorem explicit_tools_need_a_named_allow_witness:
  "\<exists>r \<in> set (pi_rules demo_inputs). names_tool (pr_conditions r) ''ceo_request_hire'' = Some True"
proof -
  have d: "decide_policy demo_inputs ''ceo_request_hire'' ''write'' 0 =
      Some \<lparr>pd_allowed = True, pd_matched = Some 1, pd_reason = ''Matched policy '' @ quoted ''n'' @ '' (priority 1)''\<rparr>"
    by code_simp
  have "''ceo_request_hire'' \<in> set EXPLICIT_ALLOW_ONLY" by (simp add: EXPLICIT_ALLOW_ONLY_def)
  from explicit_tools_need_a_named_allow [OF d _ this] show ?thesis by auto
qed

section \<open>The stages of the access check\<close>

lemma problem_simps [simp]:
  "xd_problems (problem st why h d) = xd_problems d @ [\<lparr>ap_stage = st, ap_reason = why, ap_hard = h\<rparr>]"
  "xd_company_id (problem st why h d) = xd_company_id d" "xd_agent_id (problem st why h d) = xd_agent_id d"
  "xd_session_id (problem st why h d) = xd_session_id d" "xd_connection_id (problem st why h d) = xd_connection_id d"
  "xd_enforcement (problem st why h d) = xd_enforcement d" "xd_temp_grant_id (problem st why h d) = xd_temp_grant_id d"
  "xd_risk_level (problem st why h d) = xd_risk_level d" "xd_outcome (problem st why h d) = xd_outcome d"
  by (simp_all add: problem_def)

text \<open>A later stage keeps the identities and the problems of the earlier ones.\<close>

definition keeps :: "access_decision \<Rightarrow> access_decision \<Rightarrow> bool" where
  "keeps d d' \<longleftrightarrow> set (xd_problems d) \<subseteq> set (xd_problems d') \<and> xd_company_id d' = xd_company_id d \<and>
     xd_agent_id d' = xd_agent_id d \<and> xd_session_id d' = xd_session_id d \<and> xd_enforcement d' = xd_enforcement d \<and>
     xd_outcome d' = xd_outcome d"

lemma keeps_refl [simp]: "keeps d d"
  by (simp add: keeps_def)

lemma keeps_trans: "keeps d e \<Longrightarrow> keeps e f \<Longrightarrow> keeps d f"
  by (auto simp: keeps_def)

lemma keeps_problem [simp]: "keeps d (problem st why h d)" "keeps d (problem_if b st why h d)"
  by (auto simp: keeps_def problem_if_def)

lemma connection_keeps: "keeps d (check_connection tool cid url db d)"
proof -
  have b: "keeps d (check_binding tool bs d)" for bs d
    by (auto simp: keeps_def check_binding_def problem_if_def Let_def)
  have c: "keeps d (check_catalog tool conn db d)" for conn d
    by (auto simp: keeps_def check_catalog_def problem_if_def split: option.splits)
  have "keeps d (d\<lparr>xd_connection_id := x\<rparr>)" for x by (simp add: keeps_def)
  then have "keeps d (check_catalog tool conn db (check_binding tool bs (problem_if p st why h (d\<lparr>xd_connection_id := x\<rparr>))))"
    for conn bs p st why h x
    using b c keeps_problem(2) keeps_trans by meson
  then show ?thesis by (auto simp: check_connection_def Let_def split: option.splits)
qed

lemma rbac_keeps: "keeps d (check_rbac ctx tool d)"
  by (simp add: check_rbac_def split: option.splits)

lemma overlay_keeps: "keeps d (overlay_problems ps d)"
proof (induction ps d rule: overlay_problems.induct)
  case (2 stage reason hard ps d)
  then show ?case by (auto intro: keeps_trans [OF keeps_problem(1)])
qed simp

lemma policy_keeps:
  assumes "check_policy rid now ctx rq db d = Some d'"
  shows "keeps d d'"
proof (cases "xd_company_id d")
  case None
  with assms show ?thesis by (simp add: check_policy_def)
next
  case (Some company)
  have g: "keeps e (e\<lparr>xd_temp_grant_id := x\<rparr>)" for e x by (simp add: keeps_def)
  from assms Some show ?thesis
    by (auto simp: check_policy_def Let_def split: option.splits if_splits
        intro: keeps_trans [OF overlay_keeps g] keeps_trans [OF overlay_keeps keeps_problem(2)])
qed

text \<open>What the identity stages establish for a call with a context.\<close>

definition early_decision :: "string \<Rightarrow> exec_context \<Rightarrow> access_request \<Rightarrow> access_db \<Rightarrow> access_decision" where
  "early_decision enf c rq db =
    check_session (Some c) db (check_agent (Some c) rq db (check_context (Some c) (new_decision enf rq)))"

lemma early_company: "xd_company_id (early_decision enf c rq db) = Some (ec_company_id c)"
proof -
  have "xd_company_id (check_agent (Some c) rq db (check_context (Some c) (new_decision enf rq))) = Some (ec_company_id c)"
    by (auto simp: check_agent_def check_context_def known_agent_def split: option.splits if_splits)
  then show ?thesis by (simp add: early_decision_def check_session_def split: option.splits)
qed

lemma session_keeps_agent: "xd_agent_id (check_session ctx db d) = xd_agent_id d"
  by (simp add: check_session_def split: option.splits)

lemma session_keeps_problems: "set (xd_problems d) \<subseteq> set (xd_problems (check_session ctx db d))"
  by (auto simp: check_session_def split: option.splits)

lemma early_agent:
  "case xd_agent_id (early_decision enf c rq db) of
     Some a \<Rightarrow> ec_agent_id c = Some a \<and> (\<exists>ag \<in> set (ad_agents db). ag_id ag = a \<and> ag_company_id ag = ec_company_id c)
   | None \<Rightarrow> ec_agent_id c = None \<or> (\<exists>p \<in> set (xd_problems (early_decision enf c rq db)). ap_hard p)"
proof (cases "ec_agent_id c")
  case None
  then show ?thesis
    by (simp add: early_decision_def session_keeps_agent check_agent_def request_agent_def check_context_def new_decision_def)
next
  case (Some a)
  let ?e = "check_agent (Some c) rq db (check_context (Some c) (new_decision enf rq))"
  show ?thesis
  proof (cases "known_agent (Some c) rq db")
    case None
    with Some have "\<exists>p \<in> set (xd_problems ?e). ap_hard p" "xd_agent_id ?e = None"
      by (simp_all add: check_agent_def request_agent_def check_context_def new_decision_def)
    with session_keeps_problems [of ?e "Some c" db] show ?thesis
      by (auto simp: early_decision_def session_keeps_agent)
  next
    case k: (Some ag)
    then have "ag \<in> set (ad_agents db)" "ag_id ag = a" "ag_company_id ag = ec_company_id c"
      using Some by (auto simp: known_agent_def request_agent_def split: option.splits if_splits dest: find_SomeD)
    with k Some show ?thesis
      by (auto simp: early_decision_def session_keeps_agent check_agent_def request_agent_def)
  qed
qed

lemma early_session:
  "case xd_session_id (early_decision enf c rq db) of
     Some s \<Rightarrow> ec_session_id c = Some s \<and> (\<exists>x \<in> set (ad_sessions db). as_id x = s \<and>
       as_company_id x = ec_company_id c \<and> Some (as_agent_id x) = ec_agent_id c)
   | None \<Rightarrow> ec_session_id c = None \<or> (\<exists>p \<in> set (xd_problems (early_decision enf c rq db)). ap_hard p)"
proof -
  let ?e = "check_agent (Some c) rq db (check_context (Some c) (new_decision enf rq))"
  have n: "xd_session_id ?e = None"
    by (auto simp: check_agent_def check_context_def new_decision_def split: option.splits)
  show ?thesis
  proof (cases "ec_session_id c")
    case None
    with n show ?thesis by (simp add: early_decision_def check_session_def)
  next
    case (Some s)
    show ?thesis
    proof (cases "find (\<lambda>x. as_id x = s) (ad_sessions db)")
      case None
      with Some n show ?thesis by (simp add: early_decision_def check_session_def)
    next
      case f: (Some x)
      then have "x \<in> set (ad_sessions db)" "as_id x = s" by (auto dest: find_SomeD)
      with Some f n show ?thesis
        by (auto simp: early_decision_def check_session_def)
    qed
  qed
qed

lemma connection_owned:
  assumes "xd_company_id d = Some company" and "xd_connection_id d = None"
    and "xd_connection_id (check_connection tool cid url db d) = Some x"
  shows "\<exists>conn \<in> set (ad_connections db). tc_id conn = x \<and> tc_company_id conn = company"
proof -
  have b: "xd_connection_id (check_binding tool bs e) = xd_connection_id e" for bs e
    by (simp add: check_binding_def problem_if_def Let_def)
  have c: "xd_connection_id (check_catalog tool conn db e) = xd_connection_id e" for conn e
    by (simp add: check_catalog_def problem_if_def split: option.splits)
  obtain conn where f: "find_connection (Some company) cid url db = Some conn" "tc_company_id conn = company" "x = tc_id conn"
    using assms by (auto simp: check_connection_def Let_def b c problem_if_def split: option.splits if_splits)
  then have "conn \<in> set (ad_connections db)"
    by (auto simp: find_connection_def split: option.splits dest: find_SomeD)
  with f show ?thesis by blast
qed

lemma late_connection:
  assumes "check_policy rid now ctx rq db d = Some d'"
  shows "xd_connection_id d' = xd_connection_id d"
proof -
  have "xd_connection_id (overlay_problems ps e) = xd_connection_id e" for ps e
    by (induction ps e rule: overlay_problems.induct) simp_all
  with assms show ?thesis by (auto simp: check_policy_def problem_if_def Let_def split: option.splits if_splits)
qed

text \<open>The whole check over the early decision.\<close>

lemma access_stages:
  assumes "check_tool_access enf rid now (Some c) rq db = Some d"
  obtains d1 d2 where "keeps (early_decision enf c rq db) d1"
    "d1 = early_decision enf c rq db \<or> d1 = check_connection (ar_tool_name rq) (ar_connection_id rq) (ar_endpoint_url rq) db (early_decision enf c rq db)"
    "check_policy rid now (Some c) rq db (check_rbac (Some c) (ar_tool_name rq) d1) = Some d2" "d = conclude d2"
    "d1 = (if ar_connection_id rq \<noteq> None \<or> ar_endpoint_url rq \<noteq> None
       then check_connection (ar_tool_name rq) (ar_connection_id rq) (ar_endpoint_url rq) db (early_decision enf c rq db)
       else early_decision enf c rq db)"
proof -
  let ?e = "early_decision enf c rq db"
  define d1 where "d1 = (if ar_connection_id rq \<noteq> None \<or> ar_endpoint_url rq \<noteq> None
      then check_connection (ar_tool_name rq) (ar_connection_id rq) (ar_endpoint_url rq) db ?e else ?e)"
  have "identity_checks enf (Some c) rq db = check_rbac (Some c) (ar_tool_name rq) d1"
    by (simp add: identity_checks_def Let_def d1_def early_decision_def)
  with assms obtain d2 where "check_policy rid now (Some c) rq db (check_rbac (Some c) (ar_tool_name rq) d1) = Some d2" "d = conclude d2"
    by (auto simp: check_tool_access_def)
  moreover have "keeps ?e d1" by (simp add: d1_def connection_keeps)
  moreover have "d1 = ?e \<or> d1 = check_connection (ar_tool_name rq) (ar_connection_id rq) (ar_endpoint_url rq) db ?e"
    by (simp add: d1_def)
  ultimately show ?thesis using that [OF _ _ _ _ d1_def] by blast
qed

lemma conclude_simps [simp]:
  "xd_company_id (conclude d) = xd_company_id d" "xd_agent_id (conclude d) = xd_agent_id d"
  "xd_session_id (conclude d) = xd_session_id d" "xd_connection_id (conclude d) = xd_connection_id d"
  "xd_problems (conclude d) = xd_problems d" "xd_temp_grant_id (conclude d) = xd_temp_grant_id d"
  "xd_risk_level (conclude d) = xd_risk_level d"
  by (simp_all add: conclude_def)

text \<open>
  The risk a call is judged at: that of the catalogue entry of the tool on the connection the
  call names, and otherwise the tool's own default, an unclassified tool counting as a write.
\<close>

definition call_risk :: "exec_context \<Rightarrow> access_request \<Rightarrow> access_db \<Rightarrow> string" where
  "call_risk c rq db =
    (let own = (case ar_default_risk rq of None \<Rightarrow> ''write'' | Some r \<Rightarrow> if r = [] then ''write'' else r)
     in if ar_connection_id rq = None \<and> ar_endpoint_url rq = None then own
        else case find_connection (Some (ec_company_id c)) (ar_connection_id rq) (ar_endpoint_url rq) db of
               None \<Rightarrow> own
             | Some conn \<Rightarrow> (case find (\<lambda>e. ce_connection_id e = tc_id conn \<and> ce_tool_name e = ar_tool_name rq) (ad_catalog db) of
                  None \<Rightarrow> own | Some e \<Rightarrow> ce_risk_level e))"

lemma early_risk: "xd_risk_level (early_decision enf c rq db) =
    (case ar_default_risk rq of None \<Rightarrow> ''write'' | Some r \<Rightarrow> if r = [] then ''write'' else r)"
  by (auto simp: early_decision_def check_session_def check_agent_def check_context_def new_decision_def
      str_or_def UNCLASSIFIED_RISK_def split: option.splits)

lemma late_risk:
  assumes "check_policy rid now ctx rq db d = Some d'"
  shows "xd_risk_level d' = xd_risk_level d"
proof -
  have "xd_risk_level (overlay_problems ps e) = xd_risk_level e" for ps e
    by (induction ps e rule: overlay_problems.induct) simp_all
  with assms show ?thesis by (auto simp: check_policy_def problem_if_def Let_def split: option.splits if_splits)
qed

lemma connection_risk:
  assumes "xd_company_id d = Some company"
    and "\<forall>p \<in> set (xd_problems (check_connection tool cid url db d)). \<not> ap_hard p"
  shows "xd_risk_level (check_connection tool cid url db d) =
    (case find_connection (Some company) cid url db of
       None \<Rightarrow> xd_risk_level d
     | Some conn \<Rightarrow> (case find (\<lambda>e. ce_connection_id e = tc_id conn \<and> ce_tool_name e = tool) (ad_catalog db) of
          None \<Rightarrow> xd_risk_level d | Some e \<Rightarrow> ce_risk_level e))"
proof (cases "find_connection (Some company) cid url db")
  case None
  with assms(1) show ?thesis by (simp add: check_connection_def)
next
  case (Some conn)
  have b: "xd_risk_level (check_binding tool bs e) = xd_risk_level e" for bs e
    by (simp add: check_binding_def problem_if_def Let_def)
  show ?thesis
  proof (cases "company = tc_company_id conn")
    case False
    with assms Some show ?thesis by (simp add: check_connection_def)
  next
    case True
    with assms(1) Some show ?thesis
      by (auto simp: check_connection_def check_catalog_def b problem_if_def Let_def split: option.splits)
  qed
qed

text \<open>An outside caller of a company with no rule and no profile may call tools that read.\<close>

lemma inbound_default_reads:
  assumes v: "decide_policy (load_policy_inputs rid company ag True db) tool risk now = Some v" "pd_allowed v"
    and none: "\<forall>p \<in> set (ad_policies db). tp_company_id p = company \<longrightarrow> \<not> pr_is_active (tp_rule p)"
      "bound_profiles company db = []"
  shows "risk = ''read''"
proof -
  have rules: "pi_rules (load_policy_inputs rid company ag True db) = [default_read_policy rid]"
    using none(1) by (simp add: load_policy_inputs_def Let_def filter_empty_conv)
  have "resolve_targets ts [] = None" for ts by (induction ts) simp_all
  then have eff: "pi_default_effect (load_policy_inputs rid company ag True db) = ''deny''"
    using none(2) by (simp add: load_policy_inputs_def Let_def resolve_profile_def load_bindings_def)
  have reads: "cond_levels (default_read_policy rid) risk = Some (risk = ''read'')"
    by (simp add: cond_levels_def default_read_policy_def)
  show ?thesis
  proof (cases "tool \<in> set EXPLICIT_ALLOW_ONLY")
    case True
    have "naming_rules tool [default_read_policy rid] = Some []"
      by (simp add: default_read_policy_def names_tool_def)
    with True v rules show ?thesis
      by (auto simp: decide_policy_def Let_def evaluate_policy_def load_policies_def new_engine_def by_default_def
          default_read_policy_def split: if_splits)
  next
    case False
    with v rules eff have "evaluate_policy (load_policies [default_read_policy rid] (new_engine ''deny''))
        (pi_agent_id (load_policy_inputs rid company ag True db)) tool risk (Some (hour_of now)) = Some v"
      by (simp add: decide_policy_def Let_def)
    from evaluate_loaded [OF this] v(2) have "applies (default_read_policy rid)
        (pi_agent_id (load_policy_inputs rid company ag True db)) tool risk (Some (hour_of now))"
      by (auto simp: by_default_def)
    with reads show ?thesis by (cases "risk = ''read''") (simp_all add: applies_def rule_matches_def)
  qed
qed

text \<open>
  C34: tenant isolation. Whatever a call with a server-built context names, every identity the
  decision carries (and the invocation row is written from) belongs to the context's company:
  the agent is the context's own and of that company, the session is that agent's and of that
  company, the tool connection is of that company.
\<close>

theorem decision_identities_are_of_the_company:
  assumes "check_tool_access enf rid now (Some c) rq db = Some d"
  shows "xd_company_id d = Some (ec_company_id c) \<and>
    (\<forall>a. xd_agent_id d = Some a \<longrightarrow> ec_agent_id c = Some a \<and>
      (\<exists>ag \<in> set (ad_agents db). ag_id ag = a \<and> ag_company_id ag = ec_company_id c)) \<and>
    (\<forall>s. xd_session_id d = Some s \<longrightarrow> (\<exists>x \<in> set (ad_sessions db). as_id x = s \<and>
      as_company_id x = ec_company_id c \<and> Some (as_agent_id x) = ec_agent_id c)) \<and>
    (\<forall>k. xd_connection_id d = Some k \<longrightarrow> (\<exists>conn \<in> set (ad_connections db). tc_id conn = k \<and>
      tc_company_id conn = ec_company_id c))"
  using assms
proof (cases rule: access_stages)
  case (1 d1 d2)
  let ?e = "early_decision enf c rq db"
  have k: "keeps ?e d2"
    using 1(1) policy_keeps [OF 1(3)] rbac_keeps [of d1 "Some c" "ar_tool_name rq"] keeps_trans by blast
  have ids: "xd_company_id d = Some (ec_company_id c)" "xd_agent_id d = xd_agent_id ?e" "xd_session_id d = xd_session_id ?e"
    using k 1(4) early_company [of enf c rq db] by (simp_all add: keeps_def)
  have none: "xd_connection_id ?e = None"
    by (auto simp: early_decision_def check_session_def check_agent_def check_context_def new_decision_def split: option.splits)
  have "xd_connection_id d = xd_connection_id d1"
    using late_connection [OF 1(3)] 1(4) by (simp add: check_rbac_def problem_if_def)
  then have "\<exists>conn \<in> set (ad_connections db). tc_id conn = k' \<and> tc_company_id conn = ec_company_id c"
    if "xd_connection_id d = Some k'" for k'
    using 1(2) none that connection_owned [OF early_company none] by auto
  with early_agent [where enf = enf and c = c and rq = rq and db = db] early_session [where enf = enf and c = c and rq = rq and db = db] ids show ?thesis by (auto split: option.splits)
qed

lemma allowed_no_hard:
  "decision_allowed (conclude d) \<Longrightarrow> xd_outcome d = Allowed \<Longrightarrow> (\<forall>p \<in> set (xd_problems d). \<not> ap_hard p) \<and>
     (xd_enforcement d = ''enforce'' \<longrightarrow> xd_problems d = [])"
  by (auto simp: conclude_def decision_allowed_def list_ex_iff split: if_splits)

lemma policy_cleared:
  assumes "check_policy rid now (Some c) rq db d = Some d'" and "xd_company_id d = Some company"
    and "\<forall>p \<in> set (xd_problems d'). \<not> ap_hard p"
  shows "\<exists>v. decide_policy (load_policy_inputs rid company (known_agent (Some c) rq db) (ec_source c = INBOUND_MCP) db)
      (ar_tool_name rq) (xd_risk_level d) now = Some v \<and>
    (pd_allowed v \<or> pd_matched v = None \<and> xd_temp_grant_id d' \<noteq> None)"
proof -
  obtain v where v: "decide_policy (load_policy_inputs rid company (known_agent (Some c) rq db) (ec_source c = INBOUND_MCP) db)
      (ar_tool_name rq) (xd_risk_level d) now = Some v"
    using assms(1,2) by (auto simp: check_policy_def Let_def split: option.splits)
  define ov where "ov = evaluate_overlay company (xd_agent_id d) (ar_tool_name rq) (xd_risk_level d)
      \<lparr>pv_allowed = pd_allowed v, pv_matched = pd_matched v\<rparr> (ar_tool_name rq \<in> set EXPLICIT_ALLOW_ONLY)
      (xd_session_id d) now (ar_grant_key rq) (ad_grants db)"
  have d': "d' = (let d1 = overlay_problems (ov_problems ov) d in
      if ov_policy_overridden ov then d1\<lparr>xd_temp_grant_id := ov_grant_id ov\<rparr>
      else problem_if (\<not> pd_allowed v) PPolicy (pd_reason v) True d1)"
    using assms(1,2) v by (auto simp: check_policy_def Let_def ov_def)
  show ?thesis
  proof (cases "ov_policy_overridden ov")
    case False
    with d' assms(3) have "pd_allowed v" by (auto simp: problem_if_def Let_def split: if_splits)
    with v show ?thesis by blast
  next
    case True
    then have "pd_matched v = None" "ov_grant_id ov \<noteq> None"
      using override_grant [OF True [unfolded ov_def]] by (simp_all add: ov_def)
    with d' True v show ?thesis by (simp add: Let_def)
  qed
qed

text \<open>
  C35: a call that may run was authorized at every hard stage. Under a server-built context an
  allowed call has no hard problem: the role may execute the tool, the claimed agent and
  session were validated, and the company's policy, asked at the risk of the catalogue entry or
  the tool's default, allows it or, where no policy matched, a temporary grant was found. When
  bindings are enforced it has no problem at all. An outside caller of a company that has no
  active rule and no profile runs only tools that read, or under a grant.
\<close>

theorem allowed_call_is_authorized:
  assumes "check_tool_access enf rid now (Some c) rq db = Some d" and "decision_allowed d"
  shows "role_allows (ec_principal_role c) ''execute'' ''tool'' (Some (ar_tool_name rq)) \<and>
    xd_agent_id d = ec_agent_id c \<and> xd_session_id d = ec_session_id c \<and>
    (enf = ''enforce'' \<longrightarrow> xd_problems d = []) \<and> (\<forall>p \<in> set (xd_problems d). \<not> ap_hard p) \<and>
    xd_risk_level d = call_risk c rq db \<and>
    (\<exists>v. decide_policy (load_policy_inputs rid (ec_company_id c) (known_agent (Some c) rq db)
        (ec_source c = INBOUND_MCP) db) (ar_tool_name rq) (call_risk c rq db) now = Some v \<and>
      (pd_allowed v \<or> pd_matched v = None \<and> xd_temp_grant_id d \<noteq> None)) \<and>
    (ec_source c = INBOUND_MCP \<and> bound_profiles (ec_company_id c) db = [] \<and>
     (\<forall>p \<in> set (ad_policies db). tp_company_id p = ec_company_id c \<longrightarrow> \<not> pr_is_active (tp_rule p)) \<longrightarrow>
     call_risk c rq db = ''read'' \<or> xd_temp_grant_id d \<noteq> None)"
  using assms(1)
proof (cases rule: access_stages)
  case (1 d1 d2)
  let ?e = "early_decision enf c rq db" and ?r = "check_rbac (Some c) (ar_tool_name rq) d1"
  have kr: "keeps ?e ?r" using 1(1) rbac_keeps keeps_trans by blast
  have k: "keeps ?r d2" "keeps ?e d2" using policy_keeps [OF 1(3)] kr keeps_trans by blast+
  have o: "xd_outcome ?e = Allowed \<and> xd_enforcement ?e = enf"
    by (auto simp: early_decision_def check_session_def check_agent_def check_context_def new_decision_def split: option.splits)
  with k(2) have "xd_outcome d2 = Allowed" "xd_enforcement d2 = enf" by (simp_all add: keeps_def)
  with assms(2) 1(4) allowed_no_hard have nh: "\<forall>p \<in> set (xd_problems d2). \<not> ap_hard p" "enf = ''enforce'' \<longrightarrow> xd_problems d2 = []"
    by blast+
  from nh(1) k(2) have soft: "\<forall>p \<in> set (xd_problems ?e). \<not> ap_hard p" by (auto simp: keeps_def)
  have ids: "xd_agent_id ?e = ec_agent_id c" "xd_session_id ?e = ec_session_id c"
    using early_agent [where enf = enf and c = c and rq = rq and db = db] early_session [where enf = enf and c = c and rq = rq and db = db] soft by (auto split: option.splits)
  have "set (xd_problems ?r) \<subseteq> set (xd_problems d2)" using k(1) by (simp add: keeps_def)
  with nh(1) have role: "role_allows (ec_principal_role c) ''execute'' ''tool'' (Some (ar_tool_name rq))"
    by (auto simp: check_rbac_def problem_if_def split: if_splits)
  have "xd_company_id ?r = Some (ec_company_id c)" using kr early_company [of enf c rq db] by (simp add: keeps_def)
  from policy_cleared [OF 1(3) this nh(1)] obtain v where v: "decide_policy (load_policy_inputs rid (ec_company_id c)
      (known_agent (Some c) rq db) (ec_source c = INBOUND_MCP) db) (ar_tool_name rq) (xd_risk_level ?r) now = Some v"
      "pd_allowed v \<or> pd_matched v = None \<and> xd_temp_grant_id d2 \<noteq> None" by blast
  have "set (xd_problems d1) \<subseteq> set (xd_problems d2)"
    using rbac_keeps [of d1 "Some c" "ar_tool_name rq"] k(1) unfolding keeps_def by blast
  with nh(1) have soft1: "\<forall>p \<in> set (xd_problems d1). \<not> ap_hard p" by blast
  have risk: "xd_risk_level d1 = call_risk c rq db"
  proof (cases "ar_connection_id rq = None \<and> ar_endpoint_url rq = None")
    case True
    with 1(5) show ?thesis by (simp add: call_risk_def early_risk)
  next
    case False
    then have d1: "d1 = check_connection (ar_tool_name rq) (ar_connection_id rq) (ar_endpoint_url rq) db ?e"
      using 1(5) by auto
    show ?thesis
      unfolding d1 connection_risk [OF early_company soft1 [unfolded d1]] call_risk_def Let_def early_risk
        if_not_P [OF False] ..
  qed
  have r: "xd_risk_level ?r = xd_risk_level d1" by (simp add: check_rbac_def problem_if_def)
  have "call_risk c rq db = ''read'' \<or> xd_temp_grant_id d2 \<noteq> None"
    if "ec_source c = INBOUND_MCP" "bound_profiles (ec_company_id c) db = []"
      "\<forall>p \<in> set (ad_policies db). tp_company_id p = ec_company_id c \<longrightarrow> \<not> pr_is_active (tp_rule p)"
    using inbound_default_reads [OF _ _ that(3,2), of rid] v that(1) r risk by auto
  moreover have "xd_risk_level d2 = call_risk c rq db" using late_risk [OF 1(3)] r risk by simp
  ultimately show ?thesis using role nh ids k(2) 1(4) v r risk by (simp add: keeps_def)
qed

section \<open>Witnesses\<close>

definition demo_reader :: exec_context where
  "demo_reader = \<lparr>ec_company_id = 4, ec_principal_id = [Txt ''run:'', Uid 60], ec_principal_role = ''agent'',
     ec_source = ''chat'', ec_agent_id = Some 7, ec_session_id = None, ec_adapter = None, ec_model = None,
     ec_work_mode = None, ec_manager_tools_required = False, ec_turn_id = None,
     ec_turn_execution = None, ec_turn_attempt = None\<rparr>"

definition demo_access_db :: access_db where
  "demo_access_db = \<lparr>ad_agents = [\<lparr>ag_id = 7, ag_company_id = 4, ag_name = ''Ada'', ag_status = ''idle'',
       ag_adapter_type = None, ag_model = None, ag_connection_id = None, ag_department_id = None,
       ag_autonomy_policy = None\<rparr>],
     ad_sessions = [], ad_connections = [], ad_bindings = [], ad_catalog = [], ad_policies = [], ad_profiles = [],
     ad_profile_bindings = [], ad_grants = \<lparr>gd_grants = [], gd_uses = [], gd_restrictions = []\<rparr>\<rparr>"

definition demo_request :: access_request where
  "demo_request = \<lparr>ar_tool_name = ''pay'', ar_agent_id = None, ar_connection_id = None, ar_endpoint_url = None,
     ar_default_risk = None, ar_grant_key = None\<rparr>"

definition demo_authorized :: access_decision where
  "demo_authorized = \<lparr>xd_outcome = Allowed, xd_enforcement = ''enforce'', xd_company_id = Some 4,
     xd_agent_id = Some 7, xd_session_id = None, xd_connection_id = None, xd_binding_ids = [],
     xd_risk_level = ''write'', xd_problems = [], xd_temp_grant_id = None\<rparr>"

lemma demo_checked: "check_tool_access ''enforce'' 90 0 (Some demo_reader) demo_request demo_access_db = Some demo_authorized"
  by code_simp

theorem decision_identities_are_of_the_company_witness:
  "\<exists>ag \<in> set (ad_agents demo_access_db). ag_id ag = 7 \<and> ag_company_id ag = 4"
  using decision_identities_are_of_the_company [OF demo_checked] by (simp add: demo_authorized_def demo_reader_def)

theorem allowed_call_is_authorized_witness:
  "role_allows ''agent'' ''execute'' ''tool'' (Some ''pay'')"
  using allowed_call_is_authorized [OF demo_checked]
  by (simp add: demo_authorized_def demo_reader_def demo_request_def decision_allowed_def)

end
