(* ===== verification/Guardrails.thy ===== *)
theory Guardrails
  imports Tool_Access "HOL-Library.Sublist"
begin

text \<open>
  \<open>src/nexus/guardrails\<close>: the chain, the policy guardrail and the structural guardrail. A
  guardrail's verdict on an input is a value of \<open>verdict\<close>; \<open>Raised\<close> is an exception. Python's
  \<open>str\<close> of a value (\<open>render\<close>) and \<open>re.search\<close> (\<open>found\<close>) are parameters.
\<close>

section \<open>Results and the chain\<close>

record guardrail_result =
  gr_passed :: bool
  gr_violations :: "string list"
  gr_guardrail_name :: "string option"

datatype verdict = Verdict guardrail_result | Raised string

definition exception_result :: "string \<Rightarrow> string \<Rightarrow> guardrail_result" where
  "exception_result name exc = \<lparr>gr_passed = False,
     gr_violations = [''Guardrail '' @ quoted name @ '' raised an exception: '' @ exc],
     gr_guardrail_name = Some name\<rparr>"

record chain_state =
  ch_violations :: "string list"
  ch_failed :: bool
  ch_first :: "string option"

text \<open>
  \<open>_run_all\<close> and \<open>_run_tool_call_all\<close>, over the guardrails' names and verdicts; \<open>None\<close> is an
  exception that a chain which does not fail closed lets through.
\<close>

fun run_chain :: "bool \<Rightarrow> bool \<Rightarrow> (string \<times> verdict) list \<Rightarrow> chain_state \<Rightarrow> guardrail_result option" where
  "run_chain fast closed [] st =
    Some \<lparr>gr_passed = (\<not> ch_failed st), gr_violations = ch_violations st, gr_guardrail_name = ch_first st\<rparr>"
| "run_chain fast closed ((name, v) # gs) st =
    (case (case v of Verdict r \<Rightarrow> Some r
           | Raised e \<Rightarrow> if closed then Some (exception_result name e) else None) of
       None \<Rightarrow> None
     | Some r \<Rightarrow>
         if gr_passed r
         then run_chain fast closed gs (st\<lparr>ch_violations := ch_violations st @ gr_violations r\<rparr>)
         else
           let st' = \<lparr>ch_violations = ch_violations st @ gr_violations r, ch_failed = True,
                      ch_first = (case ch_first st of Some n \<Rightarrow> Some n
                                  | None \<Rightarrow> (case str_or (gr_guardrail_name r) None of
                                              Some n \<Rightarrow> Some n | None \<Rightarrow> Some name))\<rparr>
           in if fast
              then Some \<lparr>gr_passed = False, gr_violations = ch_violations st', gr_guardrail_name = ch_first st'\<rparr>
              else run_chain fast closed gs st')"

definition start_chain :: chain_state where
  "start_chain = \<lparr>ch_violations = [], ch_failed = False, ch_first = None\<rparr>"

text \<open>A chain of guardrails over inputs of type \<open>'a\<close>.\<close>

record 'a guard_chain =
  gc_guardrails :: "(string \<times> ('a \<Rightarrow> verdict)) list"
  gc_fail_fast :: bool
  gc_fail_closed :: bool

definition validate_chain :: "'a guard_chain \<Rightarrow> 'a \<Rightarrow> guardrail_result option" where
  "validate_chain ch x = run_chain (gc_fail_fast ch) (gc_fail_closed ch)
     (map (\<lambda>(n, g). (n, g x)) (gc_guardrails ch)) start_chain"

definition add_guardrail :: "string \<times> ('a \<Rightarrow> verdict) \<Rightarrow> 'a guard_chain \<Rightarrow> 'a guard_chain" where
  "add_guardrail g ch = ch\<lparr>gc_guardrails := gc_guardrails ch @ [g]\<rparr>"

fun pop_named :: "string \<Rightarrow> (string \<times> 'b) list \<Rightarrow> (string \<times> 'b) list option" where
  "pop_named n [] = None"
| "pop_named n (g # gs) = (if fst g = n then Some gs else map_option (\<lambda>xs. g # xs) (pop_named n gs))"

definition remove_guardrail :: "string \<Rightarrow> 'a guard_chain \<Rightarrow> 'a guard_chain \<times> bool" where
  "remove_guardrail n ch = (case pop_named n (gc_guardrails ch) of
     None \<Rightarrow> (ch, False) | Some gs \<Rightarrow> (ch\<lparr>gc_guardrails := gs\<rparr>, True))"

section \<open>The policy guardrail\<close>

record policy_guardrail =
  pg_name :: string
  pg_blocked_patterns :: "string list"
  pg_sensitive_paths :: "string list"
  pg_dangerous_commands :: "string list"
  pg_allowed_tools :: "string list option"

definition contains :: "string \<Rightarrow> string \<Rightarrow> bool" where
  "contains text part = list_ex (prefix part) (suffixes text)"

lemma contains_iff: "contains text part \<longleftrightarrow> sublist part text"
proof
  assume "contains text part"
  then show "sublist part text" by (fastforce simp: contains_def list_ex_iff sublist_def prefix_def suffix_def)
next
  assume "sublist part text"
  then obtain a b where "text = a @ part @ b" by (auto simp: sublist_def)
  then have "part @ b \<in> set (suffixes text)" "prefix part (part @ b)" by (auto simp: suffix_def)
  then show "contains text part" unfolding contains_def list_ex_iff by blast
qed

definition verdict_of :: "string \<Rightarrow> string list \<Rightarrow> verdict" where
  "verdict_of name vs = Verdict \<lparr>gr_passed = (vs = []), gr_violations = vs,
     gr_guardrail_name = (if vs = [] then None else Some name)\<rparr>"

definition policy_tool_call :: "(json \<Rightarrow> string) \<Rightarrow> policy_guardrail \<Rightarrow> string \<times> json \<Rightarrow> verdict" where
  "policy_tool_call render g call =
    (let tool = fst call; args = render (snd call)
     in verdict_of (pg_name g)
       ((case pg_allowed_tools g of None \<Rightarrow> []
         | Some ts \<Rightarrow> if tool \<in> set ts then [] else [''Tool '' @ quoted tool @ '' is not in the allowed tools list'']) @
        map (\<lambda>p. ''Tool call references sensitive path: '' @ p) (filter (contains args) (pg_sensitive_paths g)) @
        map (\<lambda>c. ''Tool call contains dangerous command: '' @ c) (filter (contains args) (pg_dangerous_commands g))))"

definition policy_content :: "(json \<Rightarrow> string) \<Rightarrow> (string \<Rightarrow> string \<Rightarrow> bool) \<Rightarrow> policy_guardrail \<Rightarrow> json \<Rightarrow> verdict" where
  "policy_content render found g x =
    (let text = (if x = JNull then [] else render x)
     in verdict_of (pg_name g)
       (map (\<lambda>p. ''Content matches blocked pattern: '' @ p) (filter (\<lambda>p. found p text) (pg_blocked_patterns g)) @
        map (\<lambda>p. ''Content references sensitive path: '' @ p) (filter (contains text) (pg_sensitive_paths g)) @
        map (\<lambda>c. ''Content contains dangerous command: '' @ c) (filter (contains text) (pg_dangerous_commands g))))"

section \<open>The structural guardrail\<close>

record structural_guardrail =
  sg_name :: string
  sg_max_length :: "nat option"
  sg_min_length :: "nat option"
  sg_required_fields :: "string list"
  sg_schema_type :: "string option"
  sg_schema_required :: "string list"
  sg_non_empty :: bool

fun json_type :: "json \<Rightarrow> string" where
  "json_type JNull = ''NoneType''"
| "json_type (JBool b) = ''bool''"
| "json_type (JInt i) = ''int''"
| "json_type (JList xs) = ''list''"
| "json_type (JDict d) = ''dict''"
| "json_type _ = ''str''"

text \<open>\<open>isinstance\<close> against the type map; a \<open>bool\<close> is an \<open>int\<close>, an unknown type name is not checked.\<close>

definition fits_type :: "string \<Rightarrow> json \<Rightarrow> bool" where
  "fits_type t x =
    (let k = json_type x
     in if t = ''object'' then k = ''dict'' else if t = ''string'' then k = ''str''
        else if t = ''array'' then k = ''list''
        else if t = ''number'' \<or> t = ''integer'' then k = ''int'' \<or> k = ''bool''
        else if t = ''boolean'' then k = ''bool'' else True)"

fun dict_keys :: "json \<Rightarrow> string list option" where
  "dict_keys (JDict d) = Some (map fst d)"
| "dict_keys _ = None"

definition missing_fields :: "string \<Rightarrow> string list \<Rightarrow> json \<Rightarrow> string list" where
  "missing_fields msg names x = (case dict_keys x of None \<Rightarrow> []
     | Some ks \<Rightarrow> map (\<lambda>f. msg @ f) (filter (\<lambda>f. f \<notin> set ks) names))"

definition empty_violations :: "(json \<Rightarrow> string) \<Rightarrow> json \<Rightarrow> string list" where
  "empty_violations strip x =
    (case x of
       JNull \<Rightarrow> [''Output must not be empty (got None)'']
     | JList xs \<Rightarrow> if xs = [] then [''Output must not be empty (got empty collection)''] else []
     | JDict d \<Rightarrow> if d = [] then [''Output must not be empty (got empty collection)''] else []
     | _ \<Rightarrow> if json_type x = ''str'' \<and> strip x = [] then [''Output must not be empty (got empty string)''] else [])"

definition length_violations :: "structural_guardrail \<Rightarrow> string \<Rightarrow> string list" where
  "length_violations g text =
    (case sg_max_length g of None \<Rightarrow> []
     | Some m \<Rightarrow> if m < length text then [''Output exceeds maximum length: '' @ show_nat (length text) @ '' > '' @ show_nat m] else []) @
    (case sg_min_length g of None \<Rightarrow> []
     | Some m \<Rightarrow> if length text < m then [''Output below minimum length: '' @ show_nat (length text) @ '' < '' @ show_nat m] else [])"

definition schema_violations :: "structural_guardrail \<Rightarrow> json \<Rightarrow> string list" where
  "schema_violations g x =
    (case str_or (sg_schema_type g) None of None \<Rightarrow> []
     | Some t \<Rightarrow> if fits_type t x then []
                 else [''Expected type '' @ quoted t @ '', got '' @ quoted (json_type x)]) @
    missing_fields ''Schema missing required field: '' (sg_schema_required g) x"

text \<open>\<open>render\<close> is the text of a value (itself for a string) and \<open>strip\<close> that text without outer space.\<close>

definition structural_validate ::
  "(json \<Rightarrow> string) \<Rightarrow> (json \<Rightarrow> string) \<Rightarrow> structural_guardrail \<Rightarrow> json \<Rightarrow> verdict" where
  "structural_validate render strip g x =
    verdict_of (sg_name g)
      ((if sg_non_empty g then empty_violations strip x else []) @
       (if x = JNull then [] else length_violations g (render x)) @
       missing_fields ''Missing required field: '' (sg_required_fields g) x @
       schema_violations g x)"

definition structural_tool_call :: "structural_guardrail \<Rightarrow> string \<times> json \<Rightarrow> verdict" where
  "structural_tool_call g call = Verdict \<lparr>gr_passed = True, gr_violations = [], gr_guardrail_name = Some (sg_name g)\<rparr>"

section \<open>The production chain of \<open>tools/factory.py\<close>\<close>

definition DANGEROUS_COMMANDS :: "string list" where
  "DANGEROUS_COMMANDS =
    [''rm -rf /'', ''rm -rf ~'', ''mkfs'', ''dd if='', '':(){:|:&};:'', ''shutdown'', ''reboot'',
     ''chmod -R 777 /'', ''DROP TABLE'', ''DROP DATABASE'', ''TRUNCATE TABLE'', ''curl | sh'', ''wget | sh'']"

definition SENSITIVE_PATHS :: "string list" where
  "SENSITIVE_PATHS =
    [''/etc/passwd'', ''/etc/shadow'', ''/etc/sudoers'', ''.ssh/id_rsa'', ''.ssh/id_ed25519'',
     ''.aws/credentials'', ''.kube/config'', ''.env'', ''id_rsa'']"

text \<open>The regular expressions, a backslash being character \<open>0x5C\<close>.\<close>

definition BLOCKED_PATTERNS :: "string list" where
  "BLOCKED_PATTERNS =
    [''(?i)aws_secret_access_key'' @ [CHR 0x5C] @ ''s*[:=]'',
     ''(?i)private[_-]?key'' @ [CHR 0x5C] @ ''s*[:=]'',
     ''-----BEGIN [A-Z ]*PRIVATE KEY-----'',
     ''(?i)password'' @ [CHR 0x5C] @ ''s*[:=]'' @ [CHR 0x5C] @ ''s*'' @ [CHR 0x5C] @ ''S'']"

definition production_policy :: "string list option \<Rightarrow> policy_guardrail" where
  "production_policy allowed = \<lparr>pg_name = ''policy'', pg_blocked_patterns = BLOCKED_PATTERNS,
     pg_sensitive_paths = SENSITIVE_PATHS, pg_dangerous_commands = DANGEROUS_COMMANDS,
     pg_allowed_tools = allowed\<rparr>"

definition structural_named :: "string \<Rightarrow> nat option \<Rightarrow> structural_guardrail" where
  "structural_named name maxlen = \<lparr>sg_name = name, sg_max_length = maxlen, sg_min_length = None,
     sg_required_fields = [], sg_schema_type = None, sg_schema_required = [], sg_non_empty = False\<rparr>"

text \<open>The chain as tool calls go through it; the blocked patterns bear on content only.\<close>

definition build_guardrail_chain :: "(json \<Rightarrow> string) \<Rightarrow> string list option \<Rightarrow> (string \<times> json) guard_chain" where
  "build_guardrail_chain render allowed =
    \<lparr>gc_guardrails = [(''policy'', policy_tool_call render (production_policy allowed)),
                      (''structural'', structural_tool_call (structural_named ''structural'' (Some 200000)))],
     gc_fail_fast = True, gc_fail_closed = True\<rparr>"

end
