(* ===== verification/Approvals.thy ===== *)
theory Approvals
  imports Tool_Policy
begin

text \<open>
  \<open>src/nexus/services/approval_service.py\<close> with \<open>src/nexus/governance/approval_signing.py\<close>:
  approval requests, their signatures and decisions. Ed25519 verification of a base64 key and
  signature is the parameter \<open>verifies\<close>; what is signed is the canonical JSON of the request.
\<close>

section \<open>Tables\<close>

datatype approval_status = Pending | Approved | Rejected

record approval =
  av_id :: uuid
  av_company_id :: uuid
  av_type :: string
  av_requested_by_agent_id :: "uuid option"
  av_status :: approval_status
  av_payload :: "dict option"
  av_decision_note :: "string option"
  av_decided_by :: "string option"
  av_decided_at :: "time option"
  av_expires_at :: "time option"
  av_required_signatures :: int
  av_created_at :: time
  av_updated_at :: time

record signer_key =
  sk_id :: uuid
  sk_company_id :: uuid
  sk_subject :: string
  sk_public_key :: string
  sk_is_active :: bool

record approval_signature =
  sn_id :: uuid
  sn_approval_id :: uuid
  sn_signer_key_id :: uuid
  sn_subject :: string
  sn_signature :: string

record decision_queue =
  dq_company_id :: uuid
  dq_auto_approve_policy :: "dict option"

record approval_db =
  vd_approvals :: "approval list"
  vd_keys :: "signer_key list"
  vd_signatures :: "approval_signature list"
  vd_queues :: "decision_queue list"

section \<open>Signing\<close>

definition HIGH_RISK_APPROVAL_TYPES :: "(string \<times> int) list" where
  "HIGH_RISK_APPROVAL_TYPES = [(''budget_override'', 2), (''deployment'', 2),
     (''destructive_file_write'', 2), (''secret_request'', 2)]"

definition HIGH_RISK_SPEND_CENTS :: int where
  "HIGH_RISK_SPEND_CENTS = 10000"

definition canonical_approval :: "uuid \<Rightarrow> uuid \<Rightarrow> string \<Rightarrow> dict option \<Rightarrow> json" where
  "canonical_approval aid company ty payload =
    JDict [(''approval_id'', JId aid), (''company_id'', JId company),
           (''payload'', JDict (dict_or_empty payload)), (''type'', JStr ty)]"

definition required_signatures_for :: "string \<Rightarrow> dict option \<Rightarrow> int" where
  "required_signatures_for ty payload =
    (let required = (case map_of HIGH_RISK_APPROVAL_TYPES ty of None \<Rightarrow> 1 | Some n \<Rightarrow> n)
     in case Option.bind (map_of (dict_or_empty payload) ''amount_cents'') json_num of
          None \<Rightarrow> required
        | Some amount \<Rightarrow> if HIGH_RISK_SPEND_CENTS \<le> amount then max required 2 else required)"

datatype signature_error =
    NotEnoughSignatures int nat | ApprovalNotPending | AlreadySigned string
  | NoActiveKey string | SignatureRefused

section \<open>The service\<close>

definition get_approval :: "uuid \<Rightarrow> approval_db \<Rightarrow> approval option" where
  "get_approval aid db = row_of av_id aid (vd_approvals db)"

definition new_approval ::
  "time \<Rightarrow> uuid \<Rightarrow> uuid \<Rightarrow> string \<Rightarrow> uuid option \<Rightarrow> dict option \<Rightarrow> time option \<Rightarrow> approval" where
  "new_approval now aid company ty agent payload expires =
    \<lparr>av_id = aid, av_company_id = company, av_type = ty, av_requested_by_agent_id = agent,
     av_status = Pending, av_payload = payload, av_decision_note = None, av_decided_by = None,
     av_decided_at = None, av_expires_at = expires,
     av_required_signatures = required_signatures_for ty payload, av_created_at = now, av_updated_at = now\<rparr>"

text \<open>\<open>aid\<close> is the caller's id or a fresh one; \<open>None\<close> is the \<open>IntegrityError\<close> of a taken id.\<close>

definition request_approval ::
  "time \<Rightarrow> uuid \<Rightarrow> uuid \<Rightarrow> string \<Rightarrow> uuid option \<Rightarrow> dict option \<Rightarrow> time option \<Rightarrow> approval_db \<Rightarrow> approval_db option" where
  "request_approval now aid company ty agent payload expires db =
    (if get_approval aid db \<noteq> None then None
     else Some (db\<lparr>vd_approvals := vd_approvals db @ [new_approval now aid company ty agent payload expires]\<rparr>))"

definition count_signatures :: "uuid \<Rightarrow> approval_db \<Rightarrow> nat" where
  "count_signatures aid db =
    length (remdups (map sn_subject (filter (\<lambda>s. sn_approval_id s = aid) (vd_signatures db))))"

definition decide_guard :: "uuid \<Rightarrow> unit \<Rightarrow> approval \<Rightarrow> bool" where
  "decide_guard aid _ a \<longleftrightarrow> av_id a = aid \<and> av_status a = Pending"

definition decide_vals :: "time \<Rightarrow> approval_status \<Rightarrow> string \<Rightarrow> string option \<Rightarrow> approval \<Rightarrow> approval" where
  "decide_vals now st who remark a = a\<lparr>av_status := st, av_decided_by := Some who, av_decision_note := remark,
     av_decided_at := Some now, av_updated_at := now\<rparr>"

definition decide_approval :: "time \<Rightarrow> approval_status \<Rightarrow> uuid \<Rightarrow> string \<Rightarrow> string option \<Rightarrow> approval_db \<Rightarrow> approval_db" where
  "decide_approval now st aid who remark db =
    db\<lparr>vd_approvals := update_where (decide_guard aid ()) (decide_vals now st who remark) (vd_approvals db)\<rparr>"

definition approve_request ::
  "time \<Rightarrow> uuid \<Rightarrow> string \<Rightarrow> string option \<Rightarrow> approval_db \<Rightarrow> approval_db \<times> (signature_error + approval option)" where
  "approve_request now aid who remark db =
    (let go = (let db' = decide_approval now Approved aid who remark db in (db', Inr (get_approval aid db')))
     in case get_approval aid db of
          None \<Rightarrow> go
        | Some a \<Rightarrow>
            if 1 < av_required_signatures a \<and> int (count_signatures aid db) < av_required_signatures a
            then (db, Inl (NotEnoughSignatures (av_required_signatures a) (count_signatures aid db)))
            else go)"

definition reject_request ::
  "time \<Rightarrow> uuid \<Rightarrow> string \<Rightarrow> string option \<Rightarrow> approval_db \<Rightarrow> approval_db \<times> approval option" where
  "reject_request now aid who remark db =
    (let db' = decide_approval now Rejected aid who remark db in (db', get_approval aid db'))"

definition active_keys :: "uuid \<Rightarrow> string \<Rightarrow> approval_db \<Rightarrow> signer_key list" where
  "active_keys company subject db = filter (\<lambda>k. sk_company_id k = company \<and> sk_subject k = subject \<and>
     sk_is_active k) (vd_keys db)"

text \<open>\<open>verifies public_key message signature\<close>; the first active key that verifies is recorded.\<close>

definition add_signature ::
  "(string \<Rightarrow> json \<Rightarrow> string \<Rightarrow> bool) \<Rightarrow> uuid \<Rightarrow> uuid \<Rightarrow> string \<Rightarrow> string \<Rightarrow> approval_db \<Rightarrow>
   approval_db \<times> (signature_error + approval_signature)" where
  "add_signature verifies sid aid subject sig db =
    (case get_approval aid db of
       None \<Rightarrow> (db, Inl ApprovalNotPending)
     | Some a \<Rightarrow>
         if av_status a \<noteq> Pending then (db, Inl ApprovalNotPending)
         else if list_ex (\<lambda>s. sn_approval_id s = aid \<and> sn_subject s = subject) (vd_signatures db)
         then (db, Inl (AlreadySigned subject))
         else case active_keys (av_company_id a) subject db of
           [] \<Rightarrow> (db, Inl (NoActiveKey subject))
         | keys \<Rightarrow>
             (case find (\<lambda>k. verifies (sk_public_key k)
                     (canonical_approval (av_id a) (av_company_id a) (av_type a) (av_payload a)) sig) keys of
                None \<Rightarrow> (db, Inl SignatureRefused)
              | Some k \<Rightarrow>
                  let s = \<lparr>sn_id = sid, sn_approval_id = aid, sn_signer_key_id = sk_id k,
                           sn_subject = subject, sn_signature = sig\<rparr>
                  in (db\<lparr>vd_signatures := vd_signatures db @ [s]\<rparr>, Inr s)))"

definition get_pending_approvals :: "uuid \<Rightarrow> string option \<Rightarrow> nat \<Rightarrow> nat \<Rightarrow> approval_db \<Rightarrow> approval list" where
  "get_pending_approvals company ty limit offset db =
    take limit (drop offset (sort_key av_created_at (filter (\<lambda>a. av_company_id a = company \<and>
      av_status a = Pending \<and> (case ty of None \<Rightarrow> True | Some t \<Rightarrow> t = [] \<or> av_type a = t)) (vd_approvals db))))"

text \<open>
  One queue's policy: \<open>Some True\<close> approves, \<open>Some False\<close> goes on to the next queue, \<open>None\<close> is a
  \<open>TypeError\<close>. An empty payload is as good as none.
\<close>

definition auto_approves :: "string \<Rightarrow> dict option \<Rightarrow> dict \<Rightarrow> bool option" where
  "auto_approves ty payload policy =
    (case (case map_of policy ''allowed_types'' of None \<Rightarrow> Some False | Some v \<Rightarrow> json_in (JStr ty) v) of
       None \<Rightarrow> None
     | Some False \<Rightarrow> Some False
     | Some True \<Rightarrow>
         (case map_of policy ''max_cost_cents'' of
            None \<Rightarrow> Some True
          | Some JNull \<Rightarrow> Some True
          | Some m \<Rightarrow>
              if dict_or_empty payload = [] then Some False
              else (case (json_num (case map_of (dict_or_empty payload) ''cost_cents'' of None \<Rightarrow> JInt 0 | Some c \<Rightarrow> c),
                          json_num m) of
                      (Some cost, Some limit) \<Rightarrow> Some (cost \<le> limit)
                    | _ \<Rightarrow> None)))"

fun any_queue :: "string \<Rightarrow> dict option \<Rightarrow> decision_queue list \<Rightarrow> bool option" where
  "any_queue ty payload [] = Some False"
| "any_queue ty payload (q # qs) =
    (case dq_auto_approve_policy q of
       None \<Rightarrow> any_queue ty payload qs
     | Some p \<Rightarrow> (case auto_approves ty payload p of
         None \<Rightarrow> None | Some True \<Rightarrow> Some True | Some False \<Rightarrow> any_queue ty payload qs))"

definition check_auto_approve_policy :: "uuid \<Rightarrow> string \<Rightarrow> dict option \<Rightarrow> approval_db \<Rightarrow> bool option" where
  "check_auto_approve_policy company ty payload db =
    any_queue ty payload (filter (\<lambda>q. dq_company_id q = company) (vd_queues db))"

interpretation decide_upd: pk_update av_id decide_guard "\<lambda>_. decide_vals now st who remark" for now st who remark
  by unfold_locales (auto simp: decide_guard_def decide_vals_def)

section \<open>The system: any callers, in any order\<close>

inductive approval_step :: "(string \<Rightarrow> json \<Rightarrow> string \<Rightarrow> bool) \<Rightarrow> approval_db \<Rightarrow> approval_db \<Rightarrow> bool" for verifies where
  request: "request_approval now aid company ty agent payload expires db = Some db' \<Longrightarrow> approval_step verifies db db'"
| sign: "add_signature verifies sid aid subject sig db = (db', res) \<Longrightarrow> approval_step verifies db db'"
| approve: "approve_request now aid who remark db = (db', res) \<Longrightarrow> approval_step verifies db db'"
| reject: "reject_request now aid who remark db = (db', res) \<Longrightarrow> approval_step verifies db db'"

definition approvals_empty :: "approval_db \<Rightarrow> bool" where
  "approvals_empty db \<longleftrightarrow> vd_approvals db = [] \<and> vd_signatures db = []"

inductive approval_reachable :: "(string \<Rightarrow> json \<Rightarrow> string \<Rightarrow> bool) \<Rightarrow> approval_db \<Rightarrow> bool" for verifies where
  start: "approvals_empty db \<Longrightarrow> approval_reachable verifies db"
| more: "approval_reachable verifies db \<Longrightarrow> approval_step verifies db db' \<Longrightarrow> approval_reachable verifies db'"

section \<open>The quorum\<close>

text \<open>A recorded signature: a key of the company and of that party verifies it over the request.\<close>

definition genuine :: "(string \<Rightarrow> json \<Rightarrow> string \<Rightarrow> bool) \<Rightarrow> approval_db \<Rightarrow> approval_signature \<Rightarrow> bool" where
  "genuine verifies db s \<longleftrightarrow> (\<exists>a \<in> set (vd_approvals db). \<exists>k \<in> set (vd_keys db).
     av_id a = sn_approval_id s \<and> sk_company_id k = av_company_id a \<and> sk_subject k = sn_subject s \<and>
     sk_is_active k \<and> verifies (sk_public_key k)
       (canonical_approval (av_id a) (av_company_id a) (av_type a) (av_payload a)) (sn_signature s))"

text \<open>The columns no decision writes.\<close>

definition same_request :: "approval \<Rightarrow> approval \<Rightarrow> bool" where
  "same_request a b \<longleftrightarrow> av_id a = av_id b \<and> av_company_id a = av_company_id b \<and> av_type a = av_type b \<and>
     av_payload a = av_payload b \<and> av_required_signatures a = av_required_signatures b"

definition quorum_ok :: "(string \<Rightarrow> json \<Rightarrow> string \<Rightarrow> bool) \<Rightarrow> approval_db \<Rightarrow> bool" where
  "quorum_ok verifies db \<longleftrightarrow> distinct (map av_id (vd_approvals db)) \<and>
     (\<forall>s \<in> set (vd_signatures db). genuine verifies db s) \<and>
     (\<forall>a \<in> set (vd_approvals db). av_status a = Approved \<and> 1 < av_required_signatures a \<longrightarrow>
        av_required_signatures a \<le> int (count_signatures (av_id a) db))"

lemma count_signatures_cong: "vd_signatures db = vd_signatures db' \<Longrightarrow> count_signatures aid db = count_signatures aid db'"
  by (simp add: count_signatures_def)

lemma length_remdups_append: "length (remdups xs) \<le> length (remdups (xs @ ys))"
  by (simp add: length_remdups_card_conv card_mono)

lemma count_signatures_mono:
  "vd_signatures db' = vd_signatures db @ xs \<Longrightarrow> count_signatures aid db \<le> count_signatures aid db'"
  by (simp add: count_signatures_def length_remdups_append del: remdups_append)

text \<open>A decision rewrites one pending row, or none.\<close>

lemma decide_approval_cases:
  assumes d: "distinct (map av_id (vd_approvals db))"
  obtains (none) "decide_approval now st aid who remark db = db"
    | (one) old where "get_approval aid db = Some old" "av_status old = Pending"
        "replaced av_id old (decide_vals now st who remark old) (vd_approvals db)
           (vd_approvals (decide_approval now st aid who remark db))"
proof (cases "matching (decide_guard aid ()) (vd_approvals db) = 1")
  case True
  from decide_upd.hit_replaces [OF d True] obtain old where
    g: "decide_guard aid () old" and r: "replaced av_id old (decide_vals now st who remark old) (vd_approvals db)
      (update_where (decide_guard aid ()) (decide_vals now st who remark) (vd_approvals db))" by blast
  have "row_of av_id aid (vd_approvals db) = Some old"
    using r g by (auto simp: replaced_def decide_guard_def row_of_iff [OF d])
  with r g one show thesis by (simp add: get_approval_def decide_approval_def decide_guard_def)
next
  case False
  with decide_upd.miss_unchanged [OF d] none show thesis by (simp add: decide_approval_def)
qed

lemma genuine_mono:
  assumes "genuine verifies db s" and "vd_keys db' = vd_keys db"
    and "\<And>a. a \<in> set (vd_approvals db) \<Longrightarrow> \<exists>b \<in> set (vd_approvals db'). same_request a b"
  shows "genuine verifies db' s"
proof -
  from assms(1) obtain a k where a: "a \<in> set (vd_approvals db)" and k: "k \<in> set (vd_keys db)"
    and g: "av_id a = sn_approval_id s" "sk_company_id k = av_company_id a" "sk_subject k = sn_subject s"
      "sk_is_active k" "verifies (sk_public_key k)
       (canonical_approval (av_id a) (av_company_id a) (av_type a) (av_payload a)) (sn_signature s)"
    by (auto simp: genuine_def)
  from assms(3) [OF a] obtain b where "b \<in> set (vd_approvals db')" "same_request a b" by blast
  with g k assms(2) show ?thesis by (auto simp: genuine_def same_request_def)
qed

lemma decide_keeps_quorum:
  assumes q: "quorum_ok verifies db"
    and ok: "\<And>a. st = Approved \<Longrightarrow> get_approval aid db = Some a \<Longrightarrow> 1 < av_required_signatures a \<Longrightarrow>
      av_required_signatures a \<le> int (count_signatures aid db)"
  shows "quorum_ok verifies (decide_approval now st aid who remark db)"
proof -
  let ?db' = "decide_approval now st aid who remark db"
  from q have d: "distinct (map av_id (vd_approvals db))" by (simp add: quorum_ok_def)
  then show ?thesis
  proof (cases rule: decide_approval_cases [where now = now and st = st and aid = aid and who = who and remark = remark])
    case none
    with q show ?thesis by simp
  next
    case (one old)
    let ?new = "decide_vals now st who remark old"
    have aid: "av_id old = aid" using one(1) by (auto simp: get_approval_def dest: row_of_SomeD)
    have same: "same_request old ?new" by (simp add: same_request_def decide_vals_def)
    have keep: "\<exists>b \<in> set (vd_approvals ?db'). same_request x b" if "x \<in> set (vd_approvals db)" for x
      using that one(3) same by (cases "x = old") (auto simp: replaced_def same_request_def)
    have sigs: "vd_signatures ?db' = vd_signatures db" "vd_keys ?db' = vd_keys db"
      by (simp_all add: decide_approval_def)
    have c: "count_signatures x ?db' = count_signatures x db" for x
      by (rule count_signatures_cong) (rule sigs)
    have "av_required_signatures b \<le> int (count_signatures (av_id b) ?db')"
      if "b \<in> set (vd_approvals ?db')" "av_status b = Approved" "1 < av_required_signatures b" for b
    proof (cases "b = ?new")
      case True
      with that ok one(1) same aid c show ?thesis by (auto simp: same_request_def decide_vals_def)
    next
      case False
      with that one(3) have "b \<in> set (vd_approvals db)" by (auto simp: replaced_def)
      with q that c show ?thesis by (simp add: quorum_ok_def)
    qed
    moreover have "distinct (map av_id (vd_approvals ?db'))"
      using d replaced_keys [OF one(3)] by simp
    moreover have "genuine verifies ?db' s" if "s \<in> set (vd_signatures ?db')" for s
      using genuine_mono [OF _ sigs(2) keep] q that sigs(1) by (auto simp: quorum_ok_def)
    ultimately show ?thesis by (simp add: quorum_ok_def)
  qed
qed

lemma approval_step_quorum:
  assumes "approval_step verifies db db'" and q: "quorum_ok verifies db"
  shows "quorum_ok verifies db'"
  using assms(1)
proof cases
  case (request now aid company ty agent payload expires)
  let ?n = "new_approval now aid company ty agent payload expires"
  from request have db': "db' = db\<lparr>vd_approvals := vd_approvals db @ [?n]\<rparr>" and f: "get_approval aid db = None"
    by (auto simp: request_approval_def split: if_splits)
  from f have "aid \<notin> av_id ` set (vd_approvals db)" by (simp add: get_approval_def row_of_None_iff)
  moreover have "genuine verifies db' s" if "s \<in> set (vd_signatures db)" for s
    using genuine_mono [of verifies db s db'] q that by (force simp: db' quorum_ok_def same_request_def)
  moreover have "count_signatures x db' = count_signatures x db" for x
    by (rule count_signatures_cong) (simp add: db')
  ultimately show ?thesis using q by (auto simp: db' quorum_ok_def new_approval_def)
next
  case (sign sid aid subject sig res)
  show ?thesis
  proof (cases "db' = db")
    case False
    with sign obtain a k where a: "get_approval aid db = Some a"
      and k: "find (\<lambda>k. verifies (sk_public_key k)
          (canonical_approval (av_id a) (av_company_id a) (av_type a) (av_payload a)) sig)
          (active_keys (av_company_id a) subject db) = Some k"
      and db': "db' = db\<lparr>vd_signatures := vd_signatures db @ [\<lparr>sn_id = sid, sn_approval_id = aid,
          sn_signer_key_id = sk_id k, sn_subject = subject, sn_signature = sig\<rparr>]\<rparr>"
      by (auto simp: add_signature_def Let_def split: option.splits list.splits if_splits)
    from k have "k \<in> set (active_keys (av_company_id a) subject db)"
      and v: "verifies (sk_public_key k)
          (canonical_approval (av_id a) (av_company_id a) (av_type a) (av_payload a)) sig"
      by (auto simp: find_Some_iff)
    moreover from a have "a \<in> set (vd_approvals db)" "av_id a = aid"
      by (auto simp: get_approval_def dest: row_of_SomeD)
    ultimately have "genuine verifies db' \<lparr>sn_id = sid, sn_approval_id = aid,
          sn_signer_key_id = sk_id k, sn_subject = subject, sn_signature = sig\<rparr>"
      by (auto simp: genuine_def db' active_keys_def)
    moreover have "genuine verifies db' s" if "s \<in> set (vd_signatures db)" for s
      using genuine_mono [of verifies db s db'] q that by (force simp: db' quorum_ok_def same_request_def)
    moreover have "int (count_signatures x db) \<le> int (count_signatures x db')" for x
      using count_signatures_mono [of db' db _ x] by (simp add: db')
    ultimately show ?thesis using q by (fastforce simp: db' quorum_ok_def intro: order_trans)
  qed (use q in simp)
next
  case (approve now aid who remark res)
  show ?thesis
  proof (cases "db' = db")
    case False
    with approve have "db' = decide_approval now Approved aid who remark db"
      and "\<And>a. get_approval aid db = Some a \<Longrightarrow> 1 < av_required_signatures a \<Longrightarrow>
        av_required_signatures a \<le> int (count_signatures aid db)"
      by (auto simp: approve_request_def Let_def split: option.splits if_splits)
    with decide_keeps_quorum [OF q] show ?thesis by blast
  qed (use q in simp)
next
  case (reject now aid who remark res)
  then have "db' = decide_approval now Rejected aid who remark db" by (simp add: reject_request_def Let_def)
  with decide_keeps_quorum [OF q, of Rejected] show ?thesis by simp
qed

lemma approval_reachable_quorum: "approval_reachable verifies db \<Longrightarrow> quorum_ok verifies db"
proof (induction rule: approval_reachable.induct)
  case (start db)
  then show ?case by (simp add: approvals_empty_def quorum_ok_def)
next
  case (more db db')
  then show ?case using approval_step_quorum by blast
qed

lemma count_signatures_card:
  "count_signatures aid db = card {sn_subject s | s. s \<in> set (vd_signatures db) \<and> sn_approval_id s = aid}"
proof -
  have "set (map sn_subject (filter (\<lambda>s. sn_approval_id s = aid) (vd_signatures db))) =
      {sn_subject s | s. s \<in> set (vd_signatures db) \<and> sn_approval_id s = aid}" by auto
  then show ?thesis by (simp add: count_signatures_def length_remdups_card_conv del: set_map set_filter)
qed

section \<open>Properties\<close>

text \<open>
  C28: the quorum holds for every caller. Whatever sequence of requests, signatures, approvals and
  rejections the service ran, a request that needs several signatures is approved only if at
  least that many different parties signed it, and every recorded signature is one that an
  enrolled active key of that party in the request's own company verifies over the request's
  id, company, type and payload.
\<close>

theorem approval_quorum:
  assumes "approval_reachable verifies db" and "a \<in> set (vd_approvals db)" and "av_status a = Approved"
    and "1 < av_required_signatures a"
  shows "av_required_signatures a \<le>
      int (card {sn_subject s | s. s \<in> set (vd_signatures db) \<and> sn_approval_id s = av_id a}) \<and>
    (\<forall>s \<in> set (vd_signatures db). genuine verifies db s)"
  using approval_reachable_quorum [OF assms(1)] assms(2-4)
  by (simp add: quorum_ok_def count_signatures_card)

text \<open>A deployment of company 4, signed by two operators and approved.\<close>

definition demo_verifies :: "string \<Rightarrow> json \<Rightarrow> string \<Rightarrow> bool" where
  "demo_verifies k m s \<longleftrightarrow> k = s"

definition demo_keys :: approval_db where
  "demo_keys = \<lparr>vd_approvals = [],
     vd_keys = [\<lparr>sk_id = 31, sk_company_id = 4, sk_subject = ''ann'', sk_public_key = ''ka'', sk_is_active = True\<rparr>,
       \<lparr>sk_id = 32, sk_company_id = 4, sk_subject = ''bob'', sk_public_key = ''kb'', sk_is_active = True\<rparr>],
     vd_signatures = [], vd_queues = []\<rparr>"

definition demo_requested :: approval_db where
  "demo_requested = the (request_approval 0 90 4 ''deployment'' None (Some [(''commit'', JStr ''abc'')]) None demo_keys)"

definition demo_signed :: approval_db where
  "demo_signed = fst (add_signature demo_verifies 42 90 ''bob'' ''kb''
     (fst (add_signature demo_verifies 41 90 ''ann'' ''ka'' demo_requested)))"

definition demo_approved :: approval_db where
  "demo_approved = fst (approve_request 9 90 ''ann'' None demo_signed)"

lemma demo_approvals:
  "request_approval 0 90 4 ''deployment'' None (Some [(''commit'', JStr ''abc'')]) None demo_keys = Some demo_requested"
  "map av_status (vd_approvals demo_approved) = [Approved]"
  "map av_required_signatures (vd_approvals demo_approved) = [2]"
  "map av_id (vd_approvals demo_approved) = [90]"
  "map sn_subject (vd_signatures demo_approved) = [''ann'', ''bob'']"
  by code_simp+

lemma demo_approved_reachable: "approval_reachable demo_verifies demo_approved"
proof -
  have "approval_reachable demo_verifies demo_keys"
    by (rule approval_reachable.start) (simp add: approvals_empty_def demo_keys_def)
  then have "approval_reachable demo_verifies demo_requested"
    by (rule approval_reachable.more) (rule approval_step.request [OF demo_approvals(1)])
  then have "approval_reachable demo_verifies (fst (add_signature demo_verifies 41 90 ''ann'' ''ka'' demo_requested))"
    by (rule approval_reachable.more) (rule approval_step.sign, rule prod.collapse [symmetric])
  then have "approval_reachable demo_verifies demo_signed" unfolding demo_signed_def
    by (rule approval_reachable.more) (rule approval_step.sign, rule prod.collapse [symmetric])
  then show ?thesis unfolding demo_approved_def
    by (rule approval_reachable.more) (rule approval_step.approve, rule prod.collapse [symmetric])
qed

theorem approval_quorum_witness:
  "2 \<le> int (card {sn_subject s | s. s \<in> set (vd_signatures demo_approved) \<and> sn_approval_id s = 90})"
proof -
  obtain a where a: "vd_approvals demo_approved = [a]" "av_status a = Approved" "av_required_signatures a = 2" "av_id a = 90"
    using demo_approvals(2-4) by (cases "vd_approvals demo_approved") auto
  with approval_quorum [OF demo_approved_reachable, of a] show ?thesis by simp
qed

section \<open>What a signature does not protect\<close>

definition edit_payload :: "uuid \<Rightarrow> dict option \<Rightarrow> approval_db \<Rightarrow> approval_db" where
  "edit_payload aid p db = db\<lparr>vd_approvals := map (\<lambda>a. if av_id a = aid then a\<lparr>av_payload := p\<rparr> else a) (vd_approvals db)\<rparr>"

lemma row_of_map_same_key:
  "(\<And>r. key (f r) = key r) \<Longrightarrow> row_of key k (map f t) = map_option f (row_of key k t)"
  by (induction t) auto

lemma update_where_map:
  "(\<And>r. P (f r) = P r) \<Longrightarrow> (\<And>r. P r \<Longrightarrow> g (f r) = f (g r)) \<Longrightarrow> update_where P g (map f t) = map f (update_where P g t)"
  by (induction t) (auto simp: update_where_def)

text \<open>
  What a quorum does not cover. Approval counts the recorded signatures and does not verify
  them again: if the payload of a pending request is edited after it was signed, the signatures
  over the old payload still approve the new one.
\<close>

theorem approval_ignores_payload_edit:
  "snd (approve_request now aid who remark (edit_payload aid p db)) =
    map_sum id (map_option (\<lambda>a. a\<lparr>av_payload := p\<rparr>)) (snd (approve_request now aid who remark db))"
proof -
  let ?f = "\<lambda>a. if av_id a = aid then a\<lparr>av_payload := p\<rparr> else a"
  have g: "get_approval aid (edit_payload aid p d) = map_option (\<lambda>a. a\<lparr>av_payload := p\<rparr>) (get_approval aid d)" for d
    by (cases "row_of av_id aid (vd_approvals d)")
      (auto simp: get_approval_def edit_payload_def row_of_map_same_key dest: row_of_SomeD)
  have c: "count_signatures aid (edit_payload aid p db) = count_signatures aid db"
    by (rule count_signatures_cong) (simp add: edit_payload_def)
  have "update_where (decide_guard aid ()) (decide_vals now Approved who remark) (map ?f (vd_approvals db)) =
      map ?f (update_where (decide_guard aid ()) (decide_vals now Approved who remark) (vd_approvals db))"
    by (rule update_where_map) (auto simp: decide_guard_def decide_vals_def)
  then have e: "decide_approval now Approved aid who remark (edit_payload aid p db) =
      edit_payload aid p (decide_approval now Approved aid who remark db)"
    by (simp add: decide_approval_def edit_payload_def)
  show ?thesis by (simp add: approve_request_def Let_def g c e split: option.splits)
qed

end
