(* ===== verification/Autonomy.thy ===== *)
theory Autonomy
  imports Guardrails Approvals Tool_Effects
begin

text \<open>
  \<open>src/nexus/tools/autonomy.py\<close> and \<open>guard_tool_call\<close> of \<open>src/nexus/tools/factory.py\<close>: a tool call is
  classified into an action, the agent's policy gives the action a level, and level 3 needs an
  approval whose id is derived from the call. UUID derivation, the digest of a note and the
  canonical vault path are parameters. Numbers in arguments are integers.
\<close>

section \<open>Classification\<close>

datatype action = ADelete | AExecuteCode | ASendExternal | AWriteFile | ASpend | ARead

fun action_text :: "action \<Rightarrow> string" where
  "action_text ADelete = ''delete''"
| "action_text AExecuteCode = ''execute_code''"
| "action_text ASendExternal = ''send_external_message''"
| "action_text AWriteFile = ''write_file''"
| "action_text ASpend = ''spend''"
| "action_text ARead = ''read''"

definition NAME_PATTERNS :: "(action \<times> string list) list" where
  "NAME_PATTERNS =
    [(ADelete, [''delete'', ''remove'', ''destroy'', ''drop'', ''purge'', ''rm_'', ''unlink'']),
     (AExecuteCode, [''exec'', ''shell'', ''bash'', ''command'', ''run_code'', ''python'', ''eval'', ''terminal'']),
     (ASendExternal, [''email'', ''slack'', ''sms'', ''send_message'', ''webhook'', ''publish'', ''tweet'',
       ''post_to'', ''notify_external'']),
     (AWriteFile, [''write'', ''create_file'', ''edit'', ''patch'', ''save'', ''upload'', ''commit'', ''mkdir''])]"

definition SPEND_KEYS :: "string list" where
  "SPEND_KEYS = [''amount_cents'', ''cost_cents'', ''spend_cents'', ''price_cents'']"

definition SPEND_THRESHOLD_KEY :: string where
  "SPEND_THRESHOLD_KEY = ''spend_above_cents''"

text \<open>The first key with a number that is not a boolean.\<close>

fun first_amount :: "string list \<Rightarrow> dict \<Rightarrow> int option" where
  "first_amount [] d = None"
| "first_amount (k # ks) d = (case map_of d k of Some (JInt n) \<Rightarrow> Some n | _ \<Rightarrow> first_amount ks d)"

definition spend_amount :: "dict option \<Rightarrow> int option" where
  "spend_amount args = first_amount SPEND_KEYS (dict_or_empty args)"

fun first_action :: "string \<Rightarrow> (action \<times> string list) list \<Rightarrow> action" where
  "first_action name [] = ARead"
| "first_action name ((a, ps) # rest) = (if list_ex (contains name) ps then a else first_action name rest)"

definition classify_action :: "string \<Rightarrow> dict option \<Rightarrow> int \<Rightarrow> action" where
  "classify_action tool args threshold =
    (case spend_amount args of
       Some n \<Rightarrow> if threshold < n then ASpend else first_action (lower_text tool) NAME_PATTERNS
     | None \<Rightarrow> first_action (lower_text tool) NAME_PATTERNS)"

section \<open>Levels\<close>

text \<open>\<open>int(text)\<close>: outer space, a sign, digits with single underscores between them.\<close>

fun read_digits :: "nat \<Rightarrow> bool \<Rightarrow> string \<Rightarrow> nat option" where
  "read_digits acc digit [] = (if digit then Some acc else None)"
| "read_digits acc digit (c # cs) =
    (let n = of_char c :: nat
     in if 48 \<le> n \<and> n \<le> 57 then read_digits (acc * 10 + (n - 48)) True cs
        else if c = CHR ''_'' \<and> digit then read_digits acc False cs else None)"

definition parse_int :: "string \<Rightarrow> int option" where
  "parse_int s = (case py_strip s of
       [] \<Rightarrow> None
     | c # cs \<Rightarrow> if c = CHR ''-'' then map_option (\<lambda>n. - int n) (read_digits 0 False cs)
                else if c = CHR ''+'' then map_option int (read_digits 0 False cs)
                else map_option int (read_digits 0 False (c # cs)))"

text \<open>\<open>int(value)\<close>; \<open>None\<close> is a \<open>TypeError\<close> or a \<open>ValueError\<close>.\<close>

fun to_int :: "json \<Rightarrow> int option" where
  "to_int (JInt i) = Some i"
| "to_int (JBool b) = Some (if b then 1 else 0)"
| "to_int (JStr s) = parse_int s"
| "to_int _ = None"

definition coerce_level :: "json option \<Rightarrow> int \<Rightarrow> int" where
  "coerce_level v dflt =
    (case Option.bind v to_int of None \<Rightarrow> dflt | Some l \<Rightarrow> if 1 \<le> l \<and> l \<le> 3 then l else dflt)"

text \<open>\<open>int(policy.get(key, 0) or 0)\<close>.\<close>

definition spend_threshold :: "dict \<Rightarrow> int option" where
  "spend_threshold policy = (case map_of policy SPEND_THRESHOLD_KEY of
     None \<Rightarrow> Some 0
   | Some v \<Rightarrow> if v \<in> {JNull, JBool False, JInt 0, JStr [], JList [], JDict []} then Some 0 else to_int v)"

section \<open>The gate\<close>

record gate_env =
  ge_now :: time
  ge_uuid5 :: "json \<Rightarrow> uuid"
  ge_tool_id :: "string \<Rightarrow> uuid"
  ge_sha256 :: "string \<Rightarrow> string"
  ge_vault_path :: "uuid \<Rightarrow> string \<Rightarrow> string option"
  ge_render :: "json \<Rightarrow> string"
  ge_uuid_text :: "uuid \<Rightarrow> string"
  ge_has_notifier :: bool
  ge_has_notice_once :: bool
  ge_notices_up :: bool

text \<open>\<open>gs_sent\<close>: the notifications the notifier was given; \<open>gs_notices\<close>: the keys already used.\<close>

record gate_state =
  gs_approvals :: approval_db
  gs_notices :: "(uuid \<times> string) list"
  gs_sent :: "dict list"

record autonomy_decision =
  au_allowed :: bool
  au_level :: int
  au_action :: action
  au_correlation :: uuid
  au_approval_id :: "uuid option"
  au_reason :: "string option"
  au_notified :: bool

text \<open>The arguments' canonical text is their JSON with sorted keys.\<close>

definition correlation_id :: "gate_env \<Rightarrow> uuid \<Rightarrow> uuid \<Rightarrow> dict option \<Rightarrow> uuid" where
  "correlation_id env agent tool args = ge_uuid5 env (JList [JId agent, JId tool, JDict (dict_or_empty args)])"

text \<open>\<open>claim_notice\<close> on the keys: the first caller of a key, and only while the database is up.\<close>

definition notice_once :: "gate_env \<Rightarrow> uuid \<times> string \<Rightarrow> (uuid \<times> string) list \<Rightarrow> (uuid \<times> string) list \<times> bool" where
  "notice_once env k ns = (if \<not> ge_notices_up env \<or> k \<in> set ns then (ns, False) else (ns @ [k], True))"

definition notify_operator ::
  "gate_env \<Rightarrow> dict \<Rightarrow> uuid option \<Rightarrow> string option \<Rightarrow> gate_state \<Rightarrow> gate_state \<times> bool" where
  "notify_operator env payload company key st =
    (if \<not> ge_has_notifier env then (st, False)
     else case (company, key) of
       (Some c, Some k) \<Rightarrow>
         if ge_has_notice_once env then
           (case notice_once env (c, k) (gs_notices st) of
              (ns, new) \<Rightarrow> if new then (st\<lparr>gs_notices := ns, gs_sent := gs_sent st @ [payload]\<rparr>, True)
                          else (st\<lparr>gs_notices := ns\<rparr>, False))
         else (st\<lparr>gs_sent := gs_sent st @ [payload]\<rparr>, True)
     | _ \<Rightarrow> (st\<lparr>gs_sent := gs_sent st @ [payload]\<rparr>, True))"

definition gate_payload :: "gate_env \<Rightarrow> uuid \<Rightarrow> int \<Rightarrow> action \<Rightarrow> uuid \<Rightarrow> string \<Rightarrow> uuid \<Rightarrow> dict" where
  "gate_payload env cid level a tool_id tool agent =
    [(''correlation_id'', JId cid), (''action_type'', JStr (action_text a)), (''autonomy_level'', JInt level),
     (''tool_id'', JId tool_id), (''tool_name'', JStr tool), (''agent_id'', JId agent)]"

text \<open>
  The extra columns of a note replacement: \<open>Inl\<close> is a refusal, \<open>Inr None\<close> an exception of
  \<open>canonical_vault_path\<close>.
\<close>

definition note_payload :: "gate_env \<Rightarrow> uuid option \<Rightarrow> dict option \<Rightarrow> string + dict option" where
  "note_payload env company args =
    (case company of
       None \<Rightarrow> Inl ''company context is required for Obsidian approval''
     | Some c \<Rightarrow>
       (case (dict_str (dict_or_empty args) ''vault_path'', dict_str (dict_or_empty args) ''content'') of
          (Some path, Some content) \<Rightarrow>
            Inr (map_option (\<lambda>p. [(''operation'', JStr ''obsidian.note_replace''), (''vault_path'', JStr p),
                   (''previous_hash'', (case map_of (dict_or_empty args) ''expected_hash'' of None \<Rightarrow> JNull | Some h \<Rightarrow> h)),
                   (''content_hash'', JStr (ge_sha256 env content))]) (ge_vault_path env c path))
        | _ \<Rightarrow> Inl ''obsidian.note_replace requires vault_path and content''))"

definition refused :: "int \<Rightarrow> action \<Rightarrow> uuid \<Rightarrow> string \<Rightarrow> autonomy_decision" where
  "refused level a cid reason = \<lparr>au_allowed = False, au_level = level, au_action = a, au_correlation = cid,
     au_approval_id = None, au_reason = Some reason, au_notified = False\<rparr>"

text \<open>Level 3. \<open>None\<close> is an exception of the insert: the id is taken, or there is no company.\<close>

definition level3 ::
  "gate_env \<Rightarrow> uuid \<Rightarrow> uuid option \<Rightarrow> string option \<Rightarrow> int \<Rightarrow> action \<Rightarrow> uuid \<Rightarrow> string \<Rightarrow> dict \<Rightarrow> gate_state \<Rightarrow>
   gate_state \<times> autonomy_decision option" where
  "level3 env agent company key level a cid ty payload st =
    (let d = \<lparr>au_allowed = False, au_level = level, au_action = a, au_correlation = cid,
              au_approval_id = Some cid, au_reason = None, au_notified = False\<rparr>;
         awaiting = ''Awaiting approval for '' @ quoted (action_text a) @ '' (correlation '' @ ge_uuid_text env cid @ '')''
     in case get_approval cid (gs_approvals st) of
          Some v \<Rightarrow>
            (case av_status v of
               Approved \<Rightarrow> (st, Some (d\<lparr>au_allowed := True\<rparr>))
             | Rejected \<Rightarrow> (st, Some (d\<lparr>au_reason := Some (''Approval rejected for '' @ quoted (action_text a))\<rparr>))
             | Pending \<Rightarrow> (st, Some (d\<lparr>au_reason := Some awaiting\<rparr>)))
        | None \<Rightarrow>
            (case company of
               None \<Rightarrow> (st, None)
             | Some c \<Rightarrow>
               (case request_approval (ge_now env) cid c ty (Some agent) (Some payload) None (gs_approvals st) of
                  None \<Rightarrow> (st, None)
                | Some db \<Rightarrow>
                    (fst (notify_operator env payload company key (st\<lparr>gs_approvals := db\<rparr>)),
                     Some (d\<lparr>au_reason := Some awaiting, au_notified := True\<rparr>)))))"

text \<open>\<open>AutonomyGate.check\<close>; \<open>policy\<close> is the agent's policy and \<open>None\<close> an exception.\<close>

definition gate_check ::
  "gate_env \<Rightarrow> int \<Rightarrow> dict option \<Rightarrow> uuid \<Rightarrow> string \<Rightarrow> dict option \<Rightarrow> uuid option \<Rightarrow> string option \<Rightarrow> gate_state \<Rightarrow>
   gate_state \<times> autonomy_decision option" where
  "gate_check env default_level policy agent tool args company key st =
    (case spend_threshold (dict_or_empty policy) of
       None \<Rightarrow> (st, None)
     | Some threshold \<Rightarrow>
       let a = classify_action tool args threshold;
           level = coerce_level (map_of (dict_or_empty policy) (action_text a)) default_level;
           tool_id = ge_tool_id env tool;
           cid = correlation_id env agent tool_id args;
           base = gate_payload env cid level a tool_id tool agent;
           go = (\<lambda>ty payload. if level = 2
                  then (case notify_operator env payload company key st of (st', sent) \<Rightarrow>
                          (st', Some \<lparr>au_allowed = True, au_level = level, au_action = a, au_correlation = cid,
                                      au_approval_id = None, au_reason = None, au_notified = sent\<rparr>))
                  else level3 env agent company key level a cid ty payload st)
       in if level \<le> 1 then (st, Some \<lparr>au_allowed = True, au_level = level, au_action = a, au_correlation = cid,
               au_approval_id = None, au_reason = None, au_notified = False\<rparr>)
          else if tool = ''obsidian.note_replace'' then
            (case note_payload env company args of
               Inl reason \<Rightarrow> (st, Some (refused level a cid reason))
             | Inr None \<Rightarrow> (st, None)
             | Inr (Some extra) \<Rightarrow> go ''obsidian_write'' (base @ extra))
          else go (''tool_call.'' @ action_text a) base)"

section \<open>\<open>guard_tool_call\<close>\<close>

datatype guard_refusal = GuardrailBlocked string | AutonomyBlocked string uuid

fun join_semi :: "string list \<Rightarrow> string" where
  "join_semi [] = []"
| "join_semi [v] = v"
| "join_semi (v # vs) = v @ ''; '' @ join_semi vs"

definition policy_of :: "uuid \<Rightarrow> agent list \<Rightarrow> dict option" where
  "policy_of agent ags = (case find (\<lambda>a. ag_id a = agent) ags of None \<Rightarrow> None | Some a \<Rightarrow> ag_autonomy_policy a)"

text \<open>
  The gate runs in a session of its own, \<open>async with _access_session(...)\<close>, which
  \<open>guard_tool_call\<close> leaves without a commit: what the gate added to the approvals is rolled
  back (\<open>claim_notice\<close> commits in its own session and the notification is sent). \<open>db_up\<close> says
  whether the session could be opened; an exception lets the call through.
\<close>

definition guard_tool_call ::
  "gate_env \<Rightarrow> bool \<Rightarrow> agent list \<Rightarrow> string \<Rightarrow> dict \<Rightarrow> uuid option \<Rightarrow> uuid option \<Rightarrow> string option \<Rightarrow> gate_state \<Rightarrow>
   gate_state \<times> guard_refusal option" where
  "guard_tool_call env db_up ags tool args agent company key st =
    (let verdict = validate_chain (build_guardrail_chain (ge_render env) None) (tool, JDict args);
         gate = (case agent of
            None \<Rightarrow> (st, None)
          | Some a \<Rightarrow>
              if \<not> db_up then (st, None)
              else (case gate_check env 1 (policy_of a ags) a tool (Some args) company key st of
                (st', res) \<Rightarrow>
                  (st'\<lparr>gs_approvals := gs_approvals st\<rparr>,
                   case res of
                     None \<Rightarrow> None
                   | Some d \<Rightarrow> if au_allowed d then None
                       else Some (AutonomyBlocked (or_text (au_reason d)
                              (''Requires approval: '' @ action_text (au_action d))) (au_correlation d)))))
     in case verdict of
          Some r \<Rightarrow> if gr_passed r then gate
                    else (st, Some (GuardrailBlocked (or_text (Some (join_semi (gr_violations r))) ''blocked by policy'')))
        | None \<Rightarrow> gate)"


section \<open>What the gate decides\<close>

text \<open>The action a policy sees in a call, the level it gives it, and the id of the call.\<close>

definition call_level :: "int \<Rightarrow> dict option \<Rightarrow> string \<Rightarrow> dict option \<Rightarrow> int option" where
  "call_level default_level policy tool args =
    map_option (\<lambda>t. coerce_level (map_of (dict_or_empty policy) (action_text (classify_action tool args t))) default_level)
      (spend_threshold (dict_or_empty policy))"

definition call_id :: "gate_env \<Rightarrow> uuid \<Rightarrow> string \<Rightarrow> dict option \<Rightarrow> uuid" where
  "call_id env agent tool args = correlation_id env agent (ge_tool_id env tool) args"

lemma notify_keeps_approvals [simp]: "gs_approvals (fst (notify_operator env payload company key st)) = gs_approvals st"
  by (simp add: notify_operator_def split: option.splits prod.splits)

lemma gate_check_3:
  assumes "call_level dflt policy tool args = Some 3" and "tool \<noteq> ''obsidian.note_replace''"
  shows "\<exists>a payload. gate_check env dflt policy agent tool args company key st =
    level3 env agent company key 3 a (call_id env agent tool args) (''tool_call.'' @ action_text a) payload st"
proof -
  obtain th where th: "spend_threshold (dict_or_empty policy) = Some th"
      "coerce_level (map_of (dict_or_empty policy) (action_text (classify_action tool args th))) dflt = 3"
    using assms(1) by (auto simp: call_level_def)
  let ?a = "classify_action tool args th" and ?cid = "call_id env agent tool args"
  have "gate_check env dflt policy agent tool args company key st =
      level3 env agent company key 3 ?a ?cid (''tool_call.'' @ action_text ?a)
        (gate_payload env ?cid 3 ?a (ge_tool_id env tool) tool agent) st"
    using th assms(2) by (simp add: gate_check_def call_id_def Let_def)
  then show ?thesis by blast
qed

lemma level3_outcome:
  "\<exists>d. snd (level3 env agent (Some c) key level a cid ty payload st) = Some d \<and> au_correlation d = cid \<and>
    (au_allowed d \<longleftrightarrow> (\<exists>v. get_approval cid (gs_approvals st) = Some v \<and> av_status v = Approved))"
proof (cases "get_approval cid (gs_approvals st)")
  case None
  then show ?thesis by (simp add: level3_def request_approval_def Let_def)
next
  case (Some v)
  then show ?thesis by (cases "av_status v") (simp_all add: level3_def Let_def)
qed

lemma level3_state:
  "case get_approval cid (gs_approvals st) of
     Some v \<Rightarrow> fst (level3 env agent (Some c) key level a cid ty payload st) = st
   | None \<Rightarrow> gs_approvals (fst (level3 env agent (Some c) key level a cid ty payload st)) =
       (gs_approvals st)\<lparr>vd_approvals := vd_approvals (gs_approvals st) @
         [new_approval (ge_now env) cid c ty (Some agent) (Some payload) None]\<rparr>"
proof (cases "get_approval cid (gs_approvals st)")
  case None
  then show ?thesis by (simp add: level3_def request_approval_def Let_def)
next
  case (Some v)
  then show ?thesis by (cases "av_status v") (simp_all add: level3_def Let_def)
qed

lemma get_approval_appended:
  assumes "get_approval (av_id v) db = None"
  shows "get_approval (av_id v) (db\<lparr>vd_approvals := vd_approvals db @ [v]\<rparr>) = Some v"
  using assms by (simp add: get_approval_def row_of_append)

text \<open>
  Level 3 is decided by the approval of exactly this call. At level 3 the gate lets a call
  through if and only if the approval whose id is derived from the agent, the tool and the
  arguments is approved; when there is none, the gate files it as pending under that id, so the
  same call finds it again, and an existing one is left as it is.
\<close>

theorem level3_follows_the_approval:
  assumes "call_level dflt policy tool args = Some 3" and "tool \<noteq> ''obsidian.note_replace''"
    and "gate_check env dflt policy agent tool args (Some c) key st = (st', res)"
  shows "\<exists>d. res = Some d \<and>
    (au_allowed d \<longleftrightarrow> (\<exists>v. get_approval (call_id env agent tool args) (gs_approvals st) = Some v \<and> av_status v = Approved)) \<and>
    (case get_approval (call_id env agent tool args) (gs_approvals st) of
       None \<Rightarrow> (\<exists>v. get_approval (call_id env agent tool args) (gs_approvals st') = Some v \<and> av_status v = Pending \<and>
                   av_company_id v = c \<and> av_requested_by_agent_id v = Some agent)
     | Some v \<Rightarrow> gs_approvals st' = gs_approvals st)"
proof -
  let ?cid = "call_id env agent tool args"
  obtain a payload where "level3 env agent (Some c) key 3 a ?cid (''tool_call.'' @ action_text a) payload st = (st', res)"
    using gate_check_3 [OF assms(1,2), of env agent "Some c" key st] assms(3) by auto
  then have st': "st' = fst (level3 env agent (Some c) key 3 a ?cid (''tool_call.'' @ action_text a) payload st)"
    and res: "res = snd (level3 env agent (Some c) key 3 a ?cid (''tool_call.'' @ action_text a) payload st)"
    by simp_all
  let ?n = "new_approval (ge_now env) ?cid c (''tool_call.'' @ action_text a) (Some agent) (Some payload) None"
  have n: "av_id ?n = ?cid" "av_status ?n = Pending" "av_company_id ?n = c" "av_requested_by_agent_id ?n = Some agent"
    by (simp_all add: new_approval_def)
  obtain d where d: "res = Some d"
      "au_allowed d \<longleftrightarrow> (\<exists>v. get_approval ?cid (gs_approvals st) = Some v \<and> av_status v = Approved)"
    using level3_outcome unfolding res by blast
  show ?thesis
  proof (cases "get_approval ?cid (gs_approvals st)")
    case None
    then have "gs_approvals st' = (gs_approvals st)\<lparr>vd_approvals := vd_approvals (gs_approvals st) @ [?n]\<rparr>"
      using level3_state [where cid = ?cid and st = st] unfolding st' by simp
    then have "get_approval ?cid (gs_approvals st') = Some ?n" using get_approval_appended [of ?n] None n by simp
    with d n None show ?thesis by auto
  next
    case (Some v)
    then have "st' = st" using level3_state [where cid = ?cid and st = st] unfolding st' by simp
    with d Some show ?thesis by auto
  qed
qed

section \<open>What \<open>guard_tool_call\<close> leaves behind\<close>

lemma guard_keeps_approvals [simp]:
  "gs_approvals (fst (guard_tool_call env up ags tool args agent company key st)) = gs_approvals st"
  by (simp add: guard_tool_call_def Let_def split: option.splits prod.splits)

text \<open>The guard's chain: whether it lets a call through, by verdict or by error.\<close>

definition chain_passes :: "gate_env \<Rightarrow> string \<Rightarrow> dict \<Rightarrow> bool" where
  "chain_passes env tool args \<longleftrightarrow>
    (case validate_chain (build_guardrail_chain (ge_render env) None) (tool, JDict args) of
       None \<Rightarrow> True | Some r \<Rightarrow> gr_passed r)"

lemma guard_at_gate:
  assumes "chain_passes env tool args"
  shows "snd (guard_tool_call env True ags tool args (Some a) company key st) =
    (case snd (gate_check env 1 (policy_of a ags) a tool (Some args) company key st) of
       None \<Rightarrow> None
     | Some d \<Rightarrow> if au_allowed d then None
         else Some (AutonomyBlocked (or_text (au_reason d) (''Requires approval: '' @ action_text (au_action d))) (au_correlation d)))"
  using assms by (simp add: guard_tool_call_def chain_passes_def Let_def split: option.splits prod.splits)

lemma guard_passes:
  assumes "chain_passes env tool args"
    and "gate_check env 1 (policy_of a ags) a tool (Some args) company key st = (st', Some d)" and "au_allowed d"
  shows "guard_tool_call env True ags tool args (Some a) company key st = (st'\<lparr>gs_approvals := gs_approvals st\<rparr>, None)"
  using assms by (auto simp: guard_tool_call_def chain_passes_def Let_def split: option.splits)

definition guard_calls ::
  "gate_env list \<Rightarrow> agent list \<Rightarrow> string \<Rightarrow> dict \<Rightarrow> uuid \<Rightarrow> uuid \<Rightarrow> string option \<Rightarrow> gate_state \<Rightarrow> gate_state" where
  "guard_calls envs ags tool args a c key st =
    fold (\<lambda>env s. fst (guard_tool_call env True ags tool args (Some a) (Some c) key s)) envs st"

lemma guard_calls_keep_approvals: "gs_approvals (guard_calls envs ags tool args a c key st) = gs_approvals st"
  unfolding guard_calls_def by (induction envs arbitrary: st) auto

text \<open>
  An approval nobody can see. The session of \<open>guard_tool_call\<close> is left without a commit, so
  the request the gate files at level 3 is rolled back: whatever the number of retries, and
  whatever the clock and the notifier do, no approval is ever stored, and a call whose policy
  level is 3 and that has no approval is blocked every time.
\<close>

theorem level3_approval_never_stored:
  assumes "call_level 1 (policy_of a ags) tool (Some args) = Some 3" and "tool \<noteq> ''obsidian.note_replace''"
    and "get_approval (call_id env a tool (Some args)) (gs_approvals st) = None"
    and "chain_passes env tool args"
  shows "gs_approvals (guard_calls envs ags tool args a c key st) = gs_approvals st \<and>
    (\<exists>why. snd (guard_tool_call env True ags tool args (Some a) (Some c) key (guard_calls envs ags tool args a c key st)) =
      Some (AutonomyBlocked why (call_id env a tool (Some args))))"
proof -
  let ?s = "guard_calls envs ags tool args a c key st" and ?cid = "call_id env a tool (Some args)"
  have none: "get_approval ?cid (gs_approvals ?s) = None" using assms(3) by (simp add: guard_calls_keep_approvals)
  obtain act payload where eq: "gate_check env 1 (policy_of a ags) a tool (Some args) (Some c) key ?s =
      level3 env a (Some c) key 3 act ?cid (''tool_call.'' @ action_text act) payload ?s"
    using gate_check_3 [OF assms(1,2)] by blast
  obtain d where "snd (level3 env a (Some c) key 3 act ?cid (''tool_call.'' @ action_text act) payload ?s) = Some d"
      "au_correlation d = ?cid" "\<not> au_allowed d"
    using level3_outcome none by (metis option.distinct(1))
  with eq show ?thesis by (simp add: guard_calls_keep_approvals guard_at_gate [OF assms(4)])
qed

text \<open>
  Only the first spend key counts. A call whose first spend amount is within the threshold
  is not a spend, whatever the amounts under the other keys: an \<open>amount_cents\<close> of zero hides any
  \<open>cost_cents\<close>.
\<close>

theorem first_amount_hides_the_others:
  assumes "map_of args ''amount_cents'' = Some (JInt n)" and "n \<le> threshold"
  shows "classify_action tool (Some args) threshold = first_action (lower_text tool) NAME_PATTERNS \<and>
    classify_action tool (Some args) threshold \<noteq> ASpend"
proof -
  have "spend_amount (Some args) = Some n" using assms(1) by (simp add: spend_amount_def SPEND_KEYS_def dict_or_empty_def)
  then have e: "classify_action tool (Some args) threshold = first_action (lower_text tool) NAME_PATTERNS"
    using assms(2) by (simp add: classify_action_def)
  have "first_action nm ps \<in> insert ARead (fst ` set ps)" for nm ps
    by (induction nm ps rule: first_action.induct) auto
  from this [of "lower_text tool" NAME_PATTERNS] have "first_action (lower_text tool) NAME_PATTERNS \<noteq> ASpend"
    by (auto simp: NAME_PATTERNS_def)
  with e show ?thesis by simp
qed

section \<open>Witnesses\<close>

definition demo_gate :: gate_env where
  "demo_gate = \<lparr>ge_now = 0, ge_uuid5 = (\<lambda>_. 77), ge_tool_id = (\<lambda>_. 5), ge_sha256 = (\<lambda>s. s),
     ge_vault_path = (\<lambda>_ _. None), ge_render = (\<lambda>_. []), ge_uuid_text = (\<lambda>_. []), ge_has_notifier = True,
     ge_has_notice_once = True, ge_notices_up = True\<rparr>"

definition demo_gate_state :: gate_state where
  "demo_gate_state = \<lparr>gs_approvals = \<lparr>vd_approvals = [], vd_keys = [], vd_signatures = [], vd_queues = []\<rparr>,
     gs_notices = [], gs_sent = []\<rparr>"

definition demo_policy_agent :: agent where
  "demo_policy_agent = \<lparr>ag_id = 7, ag_company_id = 4, ag_name = ''Ada'', ag_status = ''idle'',
     ag_adapter_type = None, ag_model = None, ag_connection_id = None, ag_department_id = None,
     ag_autonomy_policy = Some [(''delete'', JInt 3)]\<rparr>"

lemma no_hits: "\<forall>p \<in> set ps. p \<noteq> [] \<Longrightarrow> filter (contains []) ps = []"
  by (auto simp: filter_empty_conv contains_iff)
lemma quiet_call:
  assumes "ge_render env (JDict args) = []"
  shows "chain_passes env tool args"
proof -
  have f: "filter (contains []) SENSITIVE_PATHS = []" "filter (contains []) DANGEROUS_COMMANDS = []"
    by (rule no_hits, simp add: SENSITIVE_PATHS_def DANGEROUS_COMMANDS_def)+
  show ?thesis
    by (simp add: chain_passes_def validate_chain_def build_guardrail_chain_def policy_tool_call_def Let_def assms
        production_policy_def f verdict_of_def structural_tool_call_def start_chain_def)
qed
lemma demo_gate_facts:
  "call_level 1 (policy_of 7 [demo_policy_agent]) ''delete_file'' (Some []) = Some 3"
  "get_approval (call_id demo_gate 7 ''delete_file'' (Some [])) (gs_approvals demo_gate_state) = None"
  by code_simp+

lemma demo_gate_passes: "chain_passes demo_gate tool args"
  by (rule quiet_call) (simp add: demo_gate_def)

theorem level3_follows_the_approval_witness:
  "\<exists>d. snd (gate_check demo_gate 1 (policy_of 7 [demo_policy_agent]) 7 ''delete_file'' (Some []) (Some 4) None demo_gate_state) =
    Some d \<and> \<not> au_allowed d"
proof -
  let ?r = "gate_check demo_gate 1 (policy_of 7 [demo_policy_agent]) 7 ''delete_file'' (Some []) (Some 4) None demo_gate_state"
  have "?r = (fst ?r, snd ?r)" by simp
  from level3_follows_the_approval [OF demo_gate_facts(1) _ this] demo_gate_facts(2) show ?thesis by auto
qed

theorem level3_approval_never_stored_witness:
  "\<exists>why. snd (guard_tool_call demo_gate True [demo_policy_agent] ''delete_file'' [] (Some 7) (Some 4) None
      (guard_calls [demo_gate, demo_gate] [demo_policy_agent] ''delete_file'' [] 7 4 None demo_gate_state)) =
    Some (AutonomyBlocked why 77)"
proof -
  have "call_id demo_gate 7 ''delete_file'' (Some []) = 77" by (simp add: call_id_def correlation_id_def demo_gate_def)
  with level3_approval_never_stored [OF demo_gate_facts(1) _ demo_gate_facts(2) demo_gate_passes, of "[demo_gate, demo_gate]" 4 None]
  show ?thesis by simp
qed

theorem first_amount_hides_the_others_witness:
  "classify_action ''pay'' (Some [(''amount_cents'', JInt 0), (''cost_cents'', JInt 1000000)]) 0 \<noteq> ASpend"
  using first_amount_hides_the_others [of "[(''amount_cents'', JInt 0), (''cost_cents'', JInt 1000000)]" 0 0 "''pay''"]
  by (rule conjunct2) simp_all

end
