(* ===== verification/Result_Seal.thy ===== *)
theory Result_Seal
  imports Guardrails Tool_Effects
begin

text \<open>
  The stored form of a tool result, \<open>seal_result\<close> and \<open>decode_result\<close> of
  \<open>src/nexus/tools/effects.py\<close> with \<open>_scrub_value\<close> of \<open>src/nexus/tools/executor.py\<close>: a result is
  flattened to JSON, secret-looking keys are masked, texts are redacted and cut, sizes bounded
  in tiers, and a value that is still too big is cut to its scalar fields. The regular
  expressions of \<open>_mask\<close> are the parameter \<open>msk\<close>; texts that
  embed identifiers are never cut. Text is Latin-1, which \<open>json.dumps\<close> escapes to ASCII. A dict is an association list without duplicates.
\<close>

section \<open>Scrubbing\<close>

definition SENSITIVE_KEYS :: "string list" where
  "SENSITIVE_KEYS = [''password'', ''secret'', ''token'', ''key'']"

definition sensitive_key :: "string \<Rightarrow> bool" where
  "sensitive_key k \<longleftrightarrow> list_ex (contains (lower_text k)) SENSITIVE_KEYS"

fun scrub_value :: "json \<Rightarrow> json" where
  "scrub_value (JDict kvs) =
    JDict (map (\<lambda>kv. (fst kv, if sensitive_key (fst kv) then JStr ''***'' else scrub_value (snd kv))) kvs)"
| "scrub_value (JList xs) = JList (map scrub_value xs)"
| "scrub_value v = v"

section \<open>Bounding\<close>

record tier =
  ti_strings :: nat
  ti_items :: nat
  ti_depth :: nat

definition BOUND_TIERS :: "tier list" where
  "BOUND_TIERS = [\<lparr>ti_strings = 2000, ti_items = 100, ti_depth = 8\<rparr>,
     \<lparr>ti_strings = 500, ti_items = 20, ti_depth = 5\<rparr>, \<lparr>ti_strings = 120, ti_items = 5, ti_depth = 3\<rparr>]"

definition MAX_RESULT_BYTES :: nat where
  "MAX_RESULT_BYTES = 16384"

text \<open>\<open>_size\<close>: the length of \<open>json.dumps(value, separators=(",", ":"))\<close>.\<close>

definition char_bytes :: "char \<Rightarrow> nat" where
  "char_bytes c = (let n = of_char c :: nat in
     if n \<in> {34, 92, 8, 9, 10, 12, 13} then 2 else if 32 \<le> n \<and> n \<le> 126 then 1 else 6)"

definition text_bytes :: "string \<Rightarrow> nat" where
  "text_bytes s = 2 + sum_list (map char_bytes s)"

fun piece_bytes :: "piece \<Rightarrow> nat" where
  "piece_bytes (Txt s) = sum_list (map char_bytes s)"
| "piece_bytes (Uid u) = 36"
| "piece_bytes NoId = 4"

fun json_bytes :: "json \<Rightarrow> nat" where
  "json_bytes JNull = 4"
| "json_bytes (JBool b) = (if b then 4 else 5)"
| "json_bytes (JInt i) = length (show_int i)"
| "json_bytes (JStr s) = text_bytes s"
| "json_bytes (JId u) = 38"
| "json_bytes (JText l) = 2 + sum_list (map piece_bytes l)"
| "json_bytes (JList xs) = 2 + sum_list (map json_bytes xs) + (length xs - 1)"
| "json_bytes (JDict kvs) =
    2 + sum_list (map (\<lambda>kv. text_bytes (fst kv) + 1 + json_bytes (snd kv)) kvs) + (length kvs - 1)"

text \<open>A bounded value and whether anything was cut.\<close>

definition bound_text :: "(string \<Rightarrow> string) \<Rightarrow> nat \<Rightarrow> string \<Rightarrow> json \<times> bool" where
  "bound_text msk strings s =
    (let t = msk s in if strings < length t
       then (JStr (take strings t @ ''...[truncated '' @ show_nat (length t - strings) @ '' chars]''), True)
       else (JStr t, False))"

definition dict_of :: "dict \<Rightarrow> dict" where
  "dict_of kvs = fold (\<lambda>(k, v) d. AList.update k v d) kvs []"

primrec bound :: "nat \<Rightarrow> (string \<Rightarrow> string) \<Rightarrow> nat \<Rightarrow> nat \<Rightarrow> json \<Rightarrow> json \<times> bool" where
  "bound 0 msk strings items v =
    (case v of JStr s \<Rightarrow> bound_text msk strings s
     | JDict kvs \<Rightarrow> (JStr ''[truncated: nesting]'', True)
     | JList xs \<Rightarrow> (JStr ''[truncated: nesting]'', True)
     | _ \<Rightarrow> (v, False))"
| "bound (Suc d) msk strings items v =
    (case v of JStr s \<Rightarrow> bound_text msk strings s
     | JDict kvs \<Rightarrow>
         let parts = map (\<lambda>(k, x). (take 100 k, bound d msk strings items x)) (take items kvs);
             out = dict_of (map (\<lambda>(k, b). (k, fst b)) parts);
             cut = list_ex (\<lambda>(k, b). snd b) parts
         in if items < length kvs
            then (JDict (AList.update ''_truncated_keys'' (JInt (int (length kvs - items))) out), True)
            else (JDict out, cut)
     | JList xs \<Rightarrow>
         let parts = map (bound d msk strings items) (take items xs)
         in if items < length xs
            then (JList (map fst parts @ [JStr (''['' @ show_nat (length xs - items) @ '' more items truncated]'')]), True)
            else (JList (map fst parts), list_ex snd parts)
     | _ \<Rightarrow> (v, False))"

definition bound_tier :: "(string \<Rightarrow> string) \<Rightarrow> json \<Rightarrow> tier \<Rightarrow> json \<times> bool" where
  "bound_tier msk v t = bound (ti_depth t) msk (ti_strings t) (ti_items t) v"

text \<open>The loop over the tighter tiers: it stops as soon as the value fits.\<close>

fun tighten :: "(string \<Rightarrow> string) \<Rightarrow> json \<Rightarrow> tier list \<Rightarrow> json \<times> bool \<Rightarrow> json \<times> bool" where
  "tighten msk plain [] b = b"
| "tighten msk plain (t # ts) b =
    (if json_bytes (fst b) \<le> MAX_RESULT_BYTES then b
     else tighten msk plain ts (fst (bound_tier msk plain t), True))"

fun skeleton_field :: "(string \<Rightarrow> string) \<Rightarrow> string \<times> json \<Rightarrow> dict" where
  "skeleton_field msk (k, JStr s) = [(take 100 k, fst (bound_text msk 120 s))]"
| "skeleton_field msk (k, JList xs) = []"
| "skeleton_field msk (k, JDict d) = []"
| "skeleton_field msk (k, v) = [(take 100 k, v)]"

fun skeleton :: "(string \<Rightarrow> string) \<Rightarrow> json \<Rightarrow> json" where
  "skeleton msk (JDict kvs) =
    JDict (AList.update ''_truncated_fields'' (JBool True) (dict_of (concat (map (skeleton_field msk) (take 50 kvs)))))"
| "skeleton msk v = fst (bound 0 msk 120 0 v)"

section \<open>The envelope\<close>

text \<open>What a tool returns: a node executor's result, an MCP result, or any other value.\<close>

datatype tool_value =
    ExecutorResult bool json "string option"
  | MCPResult json bool json
  | PlainValue json
  | NotJson

text \<open>\<open>_flatten\<close> and the pass through \<open>json.dumps\<close>: \<open>None\<close> is a value with no JSON form.\<close>

definition flatten_value :: "(string \<Rightarrow> string) \<Rightarrow> tool_value \<Rightarrow> (string \<times> json) option" where
  "flatten_value redact v =
    (case v of
       ExecutorResult ok outputs err \<Rightarrow> Some (''executor_result'',
         JDict [(''success'', JBool ok), (''outputs'', outputs),
                (''error'', case err of None \<Rightarrow> JNull | Some e \<Rightarrow> if e = [] then JNull else JStr (redact e))])
     | MCPResult content is_error metadata \<Rightarrow> Some (''mcp_result'',
         JDict [(''content'', content), (''is_error'', JBool is_error), (''metadata'', metadata)])
     | PlainValue j \<Rightarrow> Some (''json'', j)
     | NotJson \<Rightarrow> None)"

record seal_env =
  se_mask :: "string \<Rightarrow> string"
  se_redact :: "string \<Rightarrow> string"
  se_sha :: "json \<Rightarrow> string"

definition seal_json :: "seal_env \<Rightarrow> json \<Rightarrow> json \<times> bool" where
  "seal_json env plain =
    (let b = tighten (se_mask env) plain (tl BOUND_TIERS) (bound_tier (se_mask env) plain (hd BOUND_TIERS))
     in if MAX_RESULT_BYTES < json_bytes (fst b) then (skeleton (se_mask env) plain, True) else b)"

definition seal_result :: "seal_env \<Rightarrow> tool_value \<Rightarrow> dict option" where
  "seal_result env v =
    (case flatten_value (se_redact env) v of
       None \<Rightarrow> None
     | Some (kind, value) \<Rightarrow>
         let plain = scrub_value value; b = seal_json env plain
         in Some ([(''kind'', JStr kind), (''value'', fst b)] @
              (if snd b then [(''truncated'', JDict [(''original_bytes'', JInt (int (json_bytes plain))),
                                                    (''sha256'', JStr (se_sha env plain))])] else [])))"

text \<open>Reading the envelope back; \<open>None\<close> is a \<open>KeyError\<close>, a \<open>TypeError\<close> or the \<open>ValueError\<close>.\<close>

fun json_get :: "json \<Rightarrow> string \<Rightarrow> json option" where
  "json_get (JDict d) k = map_of d k"
| "json_get _ k = None"


definition or_dict :: "json \<Rightarrow> json" where
  "or_dict v = (if falsy v then JDict [] else v)"

fun error_text :: "json \<Rightarrow> string option" where
  "error_text (JStr s) = Some s"
| "error_text _ = None"

fun truthy_bool :: "json \<Rightarrow> bool" where
  "truthy_bool (JBool b) = b"
| "truthy_bool v = (\<not> falsy v)"

definition decode_result :: "dict \<Rightarrow> tool_value option" where
  "decode_result stored =
    (let value = (case map_of stored ''value'' of None \<Rightarrow> JNull | Some v \<Rightarrow> v)
     in case map_of stored ''kind'' of
          None \<Rightarrow> None
        | Some kind \<Rightarrow>
            if kind = JStr ''executor_result'' then
              (case (json_get value ''success'', json_get value ''outputs'', json_get value ''error'') of
                 (Some s, Some o1, Some e) \<Rightarrow> Some (ExecutorResult (truthy_bool s) (or_dict o1) (error_text e))
               | _ \<Rightarrow> None)
            else if kind = JStr ''mcp_result'' then
              (case (json_get value ''content'', json_get value ''is_error'', json_get value ''metadata'') of
                 (Some c, Some e, Some m) \<Rightarrow> Some (MCPResult c (truthy_bool e) (or_dict m))
               | _ \<Rightarrow> None)
            else if kind = JStr ''json'' then Some (PlainValue value)
            else None)"

section \<open>Small results survive, big ones may not\<close>








lemma or_dict_JDict [simp]: "or_dict (JDict d) = JDict d"
  by (simp add: or_dict_def falsy_def)

section \<open>Properties\<close>


definition demo_seal :: seal_env where
  "demo_seal = \<lparr>se_mask = id, se_redact = id, se_sha = (\<lambda>_. ''sha'')\<rparr>"


text \<open>
  A result that is still over 16 KB after the tightest tier cannot be read back. The last
  resort keeps only the scalar fields of the flattened result, which drops the \<open>outputs\<close> of a
  node's result, so the envelope is stored as a success and decoding it raises, for the first
  caller and for every replay.
\<close>

theorem oversized_result_undecodable:
  assumes "flatten_value (se_redact env) v = Some (kind, j)" and "v = ExecutorResult ok (JDict d) err"
    and "\<forall>t \<in> set BOUND_TIERS. MAX_RESULT_BYTES < json_bytes (fst (bound_tier (se_mask env) (scrub_value j) t))"
  shows "\<exists>stored. seal_result env v = Some stored \<and> decode_result stored = None"
proof -
  define e where "e = (case err of None \<Rightarrow> JNull | Some e \<Rightarrow> if e = [] then JNull else JStr (se_redact env e))"
  have j: "kind = ''executor_result''" "j = JDict [(''success'', JBool ok), (''outputs'', JDict d), (''error'', e)]"
    using assms(1,2) by (simp_all add: flatten_value_def e_def)
  have e: "e = JNull \<or> (\<exists>x. e = JStr x)" by (simp add: e_def split: option.splits)
  have ns: "\<not> sensitive_key ''success''" "\<not> sensitive_key ''outputs''" "\<not> sensitive_key ''error''" by code_simp+
  obtain d' where p: "scrub_value j = JDict [(''success'', JBool ok), (''outputs'', JDict d'), (''error'', e)]"
    using e ns j(2) by auto
  let ?b = "bound_tier (se_mask env) (scrub_value j)"
  have big: "MAX_RESULT_BYTES < json_bytes (fst (tighten (se_mask env) (scrub_value j) ts b))"
    if "set ts \<subseteq> set BOUND_TIERS" "MAX_RESULT_BYTES < json_bytes (fst b)" for ts b
    using that
  proof (induction ts arbitrary: b)
    case (Cons t ts)
    then have "MAX_RESULT_BYTES < json_bytes (fst (?b t))" using assms(3) by simp
    with Cons show ?case by simp
  qed simp
  have "set (tl BOUND_TIERS) \<subseteq> set BOUND_TIERS" "hd BOUND_TIERS \<in> set BOUND_TIERS"
    by (simp_all add: BOUND_TIERS_def)
  with big assms(3) have "MAX_RESULT_BYTES < json_bytes (fst (tighten (se_mask env) (scrub_value j) (tl BOUND_TIERS)
      (?b (hd BOUND_TIERS))))" by blast
  then have "seal_json env (scrub_value j) = (skeleton (se_mask env) (scrub_value j), True)"
    by (simp only: seal_json_def Let_def if_True)
  then have "seal_result env v = Some [(''kind'', JStr kind), (''value'', skeleton (se_mask env) (scrub_value j)),
      (''truncated'', JDict [(''original_bytes'', JInt (int (json_bytes (scrub_value j)))),
                             (''sha256'', JStr (se_sha env (scrub_value j)))])]"
    by (simp add: seal_result_def assms(1) Let_def)
  moreover have out: "json_get (skeleton (se_mask env) (scrub_value j)) ''outputs'' = None"
    unfolding p using e by (elim disjE exE) (simp_all add: dict_of_def)
  ultimately show ?thesis unfolding j(1)
    by (intro exI conjI) (assumption, simp add: decode_result_def Let_def out split: option.split)
qed

text \<open>Five objects of five texts of 120 accented letters: 18 KB once escaped.\<close>

definition wide :: string where
  "wide = replicate 120 (CHR 0xE9)"

definition wide_row :: dict where
  "wide_row = map (\<lambda>k. (k, JStr wide)) [''a'', ''b'', ''c'', ''d'', ''e'']"

definition wide_outputs :: dict where
  "wide_outputs = map (\<lambda>k. (k, JDict wide_row)) [''a'', ''b'', ''c'', ''d'', ''e'']"

lemma wide_facts: "length wide = 120" "text_bytes wide = 722"
  by (simp_all add: wide_def text_bytes_def char_bytes_def sum_list_replicate)

definition wide_json :: json where
  "wide_json = JDict [(''success'', JBool True), (''outputs'', JDict wide_outputs), (''error'', JNull)]"

lemma wide_bounds:
  assumes "120 \<le> n" "5 \<le> m"
  shows "bound (Suc (Suc (Suc d))) id n m wide_json = (wide_json, False)"
proof -
  have t: "bound d id n m (JStr wide) = (JStr wide, False)" for d
    using assms wide_facts by (cases d) (simp_all add: bound_text_def)
  have k: "take 100 [c] = [c]" for c :: char by simp
  have "bound (Suc d) id n m (JDict wide_row) = (JDict wide_row, False)" for d
    using assms t by (simp add: wide_row_def dict_of_def)
  then have "bound (Suc (Suc d)) id n m (JDict wide_outputs) = (JDict wide_outputs, False)" for d
    using assms by (simp add: wide_outputs_def dict_of_def)
  then show ?thesis using assms by (simp add: wide_json_def dict_of_def)
qed

theorem oversized_result_undecodable_witness:
  "\<exists>stored. seal_result demo_seal (ExecutorResult True (JDict wide_outputs) None) = Some stored \<and>
     decode_result stored = None"
proof -
  have f: "flatten_value (se_redact demo_seal) (ExecutorResult True (JDict wide_outputs) None) =
      Some (''executor_result'', wide_json)"
    by (simp add: flatten_value_def wide_json_def)
  have ns: "\<not> sensitive_key ''success''" "\<not> sensitive_key ''outputs''" "\<not> sensitive_key ''error''"
    "\<not> sensitive_key ''a''" "\<not> sensitive_key ''b''" "\<not> sensitive_key ''c''" "\<not> sensitive_key ''d''"
    "\<not> sensitive_key ''e''" by code_simp+
  then have s: "scrub_value wide_json = wide_json"
    by (simp add: wide_json_def wide_outputs_def wide_row_def)
  have "MAX_RESULT_BYTES < json_bytes wide_json"
    by (simp add: wide_json_def wide_outputs_def wide_row_def wide_facts MAX_RESULT_BYTES_def)
  moreover have "bound_tier (se_mask demo_seal) wide_json t = (wide_json, False)" if "t \<in> set BOUND_TIERS" for t
    using that wide_bounds [of 2000 100 5] wide_bounds [of 500 20 2] wide_bounds [of 120 5 0]
    by (auto simp: BOUND_TIERS_def bound_tier_def demo_seal_def numeral_eq_Suc)
  ultimately show ?thesis
    using oversized_result_undecodable [OF f refl] by (simp add: s)
qed

end
