(* ===== verification/Governed_Call.thy ===== *)
theory Governed_Call
  imports Autonomy Result_Seal Ledger_System
begin

text \<open>
  \<open>guarded_call\<close> of \<open>src/nexus/tools/factory.py\<close>: the one boundary every governed tool call
  crosses. The access check, the fence, the guard, the grant, the ledger's claim, the tool, the
  settling and the record happen in transactions of their own; what other processes commit
  before each of them is the function \<open>gn_others\<close> of the environment.
\<close>

section \<open>State, environment and call\<close>

record invocation =
  iv_id :: uuid
  iv_company_id :: uuid
  iv_agent_id :: "uuid option"
  iv_connection_id :: "uuid option"
  iv_session_id :: "uuid option"
  iv_tool_name :: string
  iv_arguments :: json
  iv_status :: string
  iv_error :: "string option"
  iv_authorization :: access_outcome
  iv_detail :: dict
  iv_completed_at :: time

text \<open>The grants of the access tables are those of the ledger's database.\<close>

record call_db =
  cd_access :: access_db
  cd_ledger :: ledger_db
  cd_approvals :: approval_db
  cd_sent :: "dict list"
  cd_invocations :: "invocation list"
  cd_audits :: "audit_row list"

datatype phase = AtAccess | AtFence | AtGuard | AtSpend | AtClaim | AtSettle | AtRecord

text \<open>The \<open>_up\<close> fields say whether the database answers in that phase.\<close>

record call_env =
  gn_others :: "phase \<Rightarrow> call_db \<Rightarrow> call_db"
  gn_now :: "phase \<Rightarrow> time"
  gn_enforcement :: string
  gn_rule_id :: uuid
  gn_access_up :: bool
  gn_access_error :: string
  gn_fence_up :: bool
  gn_gate :: gate_env
  gn_gate_up :: bool
  gn_spend_up :: bool
  gn_fresh_key :: string
  gn_ledger :: ledger_env
  gn_claim_up :: bool
  gn_seal :: seal_env
  gn_settle_up :: bool
  gn_settle_audit_ok :: bool
  gn_record_up :: bool
  gn_record_id :: uuid
  gn_stale_text :: "stale_reason \<Rightarrow> string"
  gn_claim_text :: "claim_reason \<Rightarrow> string"

record tool_call =
  kc_ctx :: "exec_context option"
  kc_tool_name :: string
  kc_arguments :: dict
  kc_source :: string
  kc_agent_id :: "uuid option"
  kc_connection_id :: "uuid option"
  kc_endpoint_url :: "string option"
  kc_default_risk :: "string option"
  kc_effect :: "string option"
  kc_slot :: "tool_slot option"

text \<open>
  What \<open>run()\<close> does: it returns a value with the attributes the ledger looks at, or raises:
  whether \<open>EffectNotStarted\<close>, whether an \<open>Exception\<close> (a cancellation is not), type and text.
\<close>

datatype run_outcome = Returned tool_value tool_result | RunRaised bool bool string string

datatype refusal_status =
    RDenied | RGuardrail | RAutonomy | RInProgress | RRecovery | RStale | RNoLedger | RNoResult

fun refusal_text :: "refusal_status \<Rightarrow> string" where
  "refusal_text RDenied = ''denied''"
| "refusal_text RGuardrail = ''guardrail_blocked''"
| "refusal_text RAutonomy = ''autonomy_blocked''"
| "refusal_text RInProgress = ''effect_in_progress''"
| "refusal_text RRecovery = ''effect_recovery_required''"
| "refusal_text RStale = ''stale_execution''"
| "refusal_text RNoLedger = ''effect_ledger_unavailable''"
| "refusal_text RNoResult = ''effect_result_unavailable''"

datatype refusal = Refused refusal_status string

datatype call_result = Refusal refusal | Success tool_value bool | Propagated string

section \<open>Access\<close>

fun stage_text :: "problem_stage \<Rightarrow> string" where
  "stage_text PContext = ''context''"
| "stage_text PAgent = ''agent''"
| "stage_text PSession = ''session''"
| "stage_text PConnection = ''connection''"
| "stage_text PBinding = ''binding''"
| "stage_text PCatalog = ''catalog''"
| "stage_text PRbac = ''rbac''"
| "stage_text PRestriction = ''restriction''"
| "stage_text PTempAccess = ''temp_access''"
| "stage_text PPolicy = ''policy''"
| "stage_text PError = ''error''"

definition decision_reason :: "access_decision \<Rightarrow> string" where
  "decision_reason d = join_semi (map (\<lambda>p. stage_text (ap_stage p) @ '': '' @ ap_reason p) (xd_problems d))"

definition decision_detail :: "access_decision \<Rightarrow> dict" where
  "decision_detail d =
    [(''enforcement'', JStr (xd_enforcement d)),
     (''connection_id'', opt_json JId (xd_connection_id d)),
     (''binding_ids'', JList (map JId (xd_binding_ids d))),
     (''risk_level'', JStr (xd_risk_level d)),
     (''problems'', JList (map (\<lambda>p. JDict [(''stage'', JStr (stage_text (ap_stage p))),
        (''reason'', JStr (ap_reason p)), (''hard'', JBool (ap_hard p))]) (xd_problems d)))] @
    (case xd_temp_grant_id d of None \<Rightarrow> [] | Some g \<Rightarrow> [(''temp_grant_id'', JId g)])"

definition call_turn :: "tool_call \<Rightarrow> uuid option" where
  "call_turn call = Option.bind (kc_ctx call) ec_turn_id"

definition slot_key_of :: "call_env \<Rightarrow> tool_call \<Rightarrow> string option" where
  "slot_key_of env call =
    (case (kc_ctx call, call_turn call, kc_slot call) of
       (Some c, Some t, Some s) \<Rightarrow> Some (invocation_key (le_sha (gn_ledger env)) (ec_company_id c) t s)
     | _ \<Rightarrow> None)"

definition call_request :: "call_env \<Rightarrow> tool_call \<Rightarrow> access_request" where
  "call_request env call = \<lparr>ar_tool_name = kc_tool_name call, ar_agent_id = kc_agent_id call,
     ar_connection_id = kc_connection_id call, ar_endpoint_url = kc_endpoint_url call,
     ar_default_risk = kc_default_risk call, ar_grant_key = slot_key_of env call\<rparr>"

text \<open>The decision of an access check that raised.\<close>

definition error_decision :: "call_env \<Rightarrow> tool_call \<Rightarrow> access_decision" where
  "error_decision env call =
    \<lparr>xd_outcome = (if gn_enforcement env = ''enforce'' then AccessDenied else WouldDeny),
     xd_enforcement = gn_enforcement env, xd_company_id = map_option ec_company_id (kc_ctx call),
     xd_agent_id = None, xd_session_id = None, xd_connection_id = None, xd_binding_ids = [],
     xd_risk_level = UNCLASSIFIED_RISK,
     xd_problems = [\<lparr>ap_stage = PError, ap_reason = gn_access_error env, ap_hard = False\<rparr>],
     xd_temp_grant_id = None\<rparr>"

definition access_tables :: "call_db \<Rightarrow> access_db" where
  "access_tables db = (cd_access db)\<lparr>ad_grants := ld_grants (cd_ledger db)\<rparr>"

definition access_stage :: "call_env \<Rightarrow> tool_call \<Rightarrow> call_db \<Rightarrow> access_decision" where
  "access_stage env call db =
    (if \<not> gn_access_up env then error_decision env call
     else case check_tool_access (gn_enforcement env) (gn_rule_id env) (gn_now env AtAccess)
                 (kc_ctx call) (call_request env call) (access_tables db) of
            None \<Rightarrow> error_decision env call
          | Some d \<Rightarrow> d)"

section \<open>The checks before the claim\<close>

definition ledgered :: "tool_call \<Rightarrow> access_decision \<Rightarrow> bool" where
  "ledgered call d \<longleftrightarrow> resolve_effect (kc_effect call) \<noteq> ReadOnly \<and> call_turn call \<noteq> None \<and> xd_company_id d \<noteq> None"

text \<open>\<open>_epoch_of\<close>: an attempt below 1 is no epoch.\<close>

definition epoch_of :: "exec_context option \<Rightarrow> epoch option" where
  "epoch_of ctx =
    (case ctx of None \<Rightarrow> None
     | Some c \<Rightarrow> (case ec_turn_attempt c of None \<Rightarrow> None
         | Some n \<Rightarrow> if n < 1 then None else Some (Epoch (ec_turn_execution c) n)))"

text \<open>The key of a ledgered call, under the company the call was authorized for.\<close>

definition ledger_key :: "call_env \<Rightarrow> tool_call \<Rightarrow> access_decision \<Rightarrow> string option" where
  "ledger_key env call d =
    (case (xd_company_id d, call_turn call, kc_slot call) of
       (Some c, Some t, Some s) \<Rightarrow> Some (invocation_key (le_sha (gn_ledger env)) c t s)
     | _ \<Rightarrow> None)"

text \<open>The empty text is the current execution.\<close>

definition stale_execution :: "call_env \<Rightarrow> exec_context option \<Rightarrow> uuid \<Rightarrow> uuid \<Rightarrow> call_db \<Rightarrow> string option" where
  "stale_execution env ctx company turn db =
    (if \<not> gn_fence_up env then Some ''the turn's execution could not be verified, so the write was not run''
     else map_option (gn_stale_text env) (is_current_execution company turn (epoch_of ctx) (cd_ledger db)))"

definition guard_stage :: "call_env \<Rightarrow> tool_call \<Rightarrow> access_decision \<Rightarrow> string option \<Rightarrow> call_db \<Rightarrow> call_db \<times> refusal option" where
  "guard_stage env call d key db =
    (case guard_tool_call (gn_gate env) (gn_gate_up env) (ad_agents (cd_access db)) (kc_tool_name call)
            (kc_arguments call) (xd_agent_id d) (xd_company_id d) key
            \<lparr>gs_approvals = cd_approvals db, gs_notices = ld_notices (cd_ledger db), gs_sent = cd_sent db\<rparr> of
       (st, res) \<Rightarrow>
         (db\<lparr>cd_ledger := (cd_ledger db)\<lparr>ld_notices := gs_notices st\<rparr>, cd_approvals := gs_approvals st,
             cd_sent := gs_sent st\<rparr>,
          case res of
            None \<Rightarrow> None
          | Some (GuardrailBlocked why) \<Rightarrow> Some (Refused RGuardrail (''Blocked by guardrail: '' @ why))
          | Some (AutonomyBlocked why cid) \<Rightarrow> Some (Refused RAutonomy why)))"

definition grant_gone :: refusal where
  "grant_gone = Refused RDenied ''Denied by access policy: temporary access is no longer valid''"

text \<open>\<open>_spend_temp_grant\<close>; \<open>Inl\<close> is its exception, which nothing catches.\<close>

definition spend_stage :: "call_env \<Rightarrow> access_decision \<Rightarrow> uuid \<Rightarrow> string \<Rightarrow> call_db \<Rightarrow> call_db \<times> (string + refusal option)" where
  "spend_stage env d gid key db =
    (case xd_company_id d of
       None \<Rightarrow> (db, Inr (Some grant_gone))
     | Some company \<Rightarrow>
         if \<not> gn_spend_up env then (db, Inl ''database unavailable'')
         else (case consume_temp_grant company gid (Some key) (gn_now env AtSpend) (ld_grants (cd_ledger db)) of
                 (gs, spent) \<Rightarrow> (db\<lparr>cd_ledger := (cd_ledger db)\<lparr>ld_grants := gs\<rparr>\<rparr>,
                                 Inr (if spent then None else Some grant_gone))))"

definition screen_stages :: "call_env \<Rightarrow> tool_call \<Rightarrow> access_decision \<Rightarrow> call_db \<Rightarrow> call_db \<times> (string + refusal option)" where
  "screen_stages env call d db =
    (let held = (ledgered call d);
         key = (if held then ledger_key env call d else None);
         stale = (case (held, xd_company_id d, call_turn call) of
                    (True, Some company, Some turn) \<Rightarrow>
                      stale_execution env (kc_ctx call) company turn (gn_others env AtFence db)
                  | _ \<Rightarrow> None);
         db0 = (if held then gn_others env AtFence db else db)
     in case stale of
          Some why \<Rightarrow> (db0, Inr (Some (Refused RStale (''Tool call not run: '' @ why))))
        | None \<Rightarrow>
            (case guard_stage env call d key (gn_others env AtGuard db0) of
               (db1, Some r) \<Rightarrow> (db1, Inr (Some r))
             | (db1, None) \<Rightarrow>
                 (case xd_temp_grant_id d of
                    None \<Rightarrow> (db1, Inr None)
                  | Some gid \<Rightarrow>
                      if held then (db1, Inr None)
                      else spend_stage env d gid
                             (case slot_key_of env call of None \<Rightarrow> gn_fresh_key env | Some k \<Rightarrow> k)
                             (gn_others env AtSpend db1))))"

definition pre_checks :: "call_env \<Rightarrow> tool_call \<Rightarrow> access_decision \<Rightarrow> call_db \<Rightarrow> call_db \<times> (string + refusal option)" where
  "pre_checks env call d db =
    (if \<not> decision_allowed d then
       (db, Inr (Some (Refused RDenied (''Denied by access policy: '' @ decision_reason d))))
     else if ledgered call d \<and> kc_slot call = None then
       (db, Inr (Some (Refused RNoLedger
         ''Tool call has no durable position in the turn, so the write was not run'')))
     else screen_stages env call d db)"

section \<open>The record\<close>

fun piece_text :: "(uuid \<Rightarrow> string) \<Rightarrow> piece \<Rightarrow> string" where
  "piece_text u (Txt s) = s"
| "piece_text u (Uid i) = u i"
| "piece_text u NoId = ''None''"

definition label_text :: "(uuid \<Rightarrow> string) \<Rightarrow> label \<Rightarrow> string" where
  "label_text u l = concat (map (piece_text u) l)"

text \<open>\<open>text.partition(":")\<close> without the separator.\<close>

definition partition_colon :: "string \<Rightarrow> string \<times> string" where
  "partition_colon s = (takeWhile (\<lambda>c. c \<noteq> CHR '':'') s, drop 1 (dropWhile (\<lambda>c. c \<noteq> CHR '':'') s))"

definition record_detail :: "tool_call \<Rightarrow> access_decision \<Rightarrow> dict" where
  "record_detail call d =
    (let base = decision_detail d @ [(''source'', JStr (kc_source call))]
     in case kc_ctx call of
          None \<Rightarrow> base
        | Some c \<Rightarrow> base @
            [(''principal_id'', JText (ec_principal_id c)), (''principal_role'', JStr (ec_principal_role c)),
             (''request_source'', JStr (ec_source c)), (''adapter'', opt_json JStr (ec_adapter c)),
             (''model'', opt_json JStr (ec_model c)), (''claimed_agent_id'', opt_json JId (ec_agent_id c)),
             (''claimed_session_id'', opt_json JId (ec_session_id c))] @
            (case ec_turn_id c of None \<Rightarrow> [] | Some t \<Rightarrow> [(''turn_id'', JId t)]))"

definition record_actor :: "call_env \<Rightarrow> tool_call \<Rightarrow> access_decision \<Rightarrow> string \<times> label" where
  "record_actor env call d =
    (case kc_ctx call of
       None \<Rightarrow> (''agent'', [opt_piece (xd_agent_id d)])
     | Some c \<Rightarrow> (case partition_colon (label_text (ge_uuid_text (gn_gate env)) (ec_principal_id c)) of
                    (ty, actor) \<Rightarrow> (ty, [Txt actor])))"

fun outcome_text :: "access_outcome \<Rightarrow> string" where
  "outcome_text Allowed = ''allowed''"
| "outcome_text WouldDeny = ''would_deny''"
| "outcome_text AccessDenied = ''denied''"

definition record_action :: "access_decision \<Rightarrow> string \<Rightarrow> string option" where
  "record_action d status =
    (if xd_outcome d \<noteq> Allowed then Some (''tool.access_'' @ outcome_text (xd_outcome d))
     else if status \<in> {''guardrail_blocked'', ''autonomy_blocked''} then Some (''tool.'' @ status)
     else None)"

definition record_invocation ::
  "call_env \<Rightarrow> tool_call \<Rightarrow> access_decision \<Rightarrow> string \<Rightarrow> string option \<Rightarrow> call_db \<Rightarrow> call_db" where
  "record_invocation env call d status error db =
    (case xd_company_id d of
       None \<Rightarrow> db
     | Some company \<Rightarrow>
         if \<not> gn_record_up env then db
         else
           let detail = record_detail call d;
               row = \<lparr>iv_id = gn_record_id env, iv_company_id = company, iv_agent_id = xd_agent_id d,
                      iv_connection_id = xd_connection_id d, iv_session_id = xd_session_id d,
                      iv_tool_name = kc_tool_name call, iv_arguments = scrub_value (JDict (kc_arguments call)),
                      iv_status = status, iv_error = error, iv_authorization = xd_outcome d,
                      iv_detail = detail, iv_completed_at = gn_now env AtRecord\<rparr>;
               audits = (case record_action d status of
                   None \<Rightarrow> []
                 | Some action \<Rightarrow>
                     [\<lparr>au_company_id = company, au_action = action, au_actor_type = fst (record_actor env call d),
                       au_actor_id = Some (snd (record_actor env call d)), au_resource_type = ''tool_invocation'',
                       au_resource_id = gn_record_id env,
                       au_details = dict_merge detail [(''tool_name'', JStr (kc_tool_name call)), (''status'', JStr status)]\<rparr>])
           in db\<lparr>cd_invocations := cd_invocations db @ [row], cd_audits := cd_audits db @ audits\<rparr>)"

definition refuse :: "call_env \<Rightarrow> tool_call \<Rightarrow> access_decision \<Rightarrow> refusal \<Rightarrow> call_db \<Rightarrow> call_db \<times> call_result" where
  "refuse env call d r db =
    (case r of Refused status text_of_it \<Rightarrow>
       (record_invocation env call d (refusal_text status) (Some text_of_it) (gn_others env AtRecord db), Refusal r))"

section \<open>Running and settling\<close>

definition settle_call ::
  "call_env \<Rightarrow> claim_result option \<Rightarrow> effect_status \<Rightarrow> dict option \<Rightarrow> string option \<Rightarrow> call_db \<Rightarrow> call_db" where
  "settle_call env held status stored error db =
    (case held of
       None \<Rightarrow> db
     | Some h \<Rightarrow>
         let db1 = gn_others env AtSettle db
         in if \<not> gn_settle_up env then db1
            else db1\<lparr>cd_ledger := fst (settle (se_redact (gn_seal env)) (gn_now env AtSettle)
                   (gn_settle_audit_ok env) h status stored error (cd_ledger db1))\<rparr>)"

fun value_is_error :: "tool_value \<Rightarrow> bool" where
  "value_is_error (MCPResult content e meta) = e"
| "value_is_error _ = False"

definition succeed :: "call_env \<Rightarrow> tool_call \<Rightarrow> access_decision \<Rightarrow> bool \<Rightarrow> tool_value \<Rightarrow> call_db \<Rightarrow> call_db \<times> call_result" where
  "succeed env call d failed v db =
    (record_invocation env call d (if failed then ''error'' else ''success'') None (gn_others env AtRecord db),
     Success v False)"

text \<open>The tool has run with \<open>outcome\<close>; \<open>held\<close> is its claim, when it is ledgered.\<close>

definition after_run ::
  "call_env \<Rightarrow> tool_call \<Rightarrow> access_decision \<Rightarrow> claim_result option \<Rightarrow> run_outcome \<Rightarrow> call_db \<Rightarrow> call_db \<times> call_result" where
  "after_run env call d held outcome db =
    (case outcome of
       RunRaised not_started is_exception ty msg \<Rightarrow>
         (let db1 = settle_call env held (outcome_of_exception not_started) None (Some ty) db
          in (if is_exception
              then record_invocation env call d ''error'' (Some msg) (gn_others env AtRecord db1) else db1,
              Propagated msg))
     | Returned v attrs \<Rightarrow>
         if held = None then succeed env call d (tr_is_error attrs) v db
         else case outcome_of attrs (Some (kc_tool_name call)) of
           (status, error) \<Rightarrow>
             if status \<noteq> Succeeded
             then succeed env call d (tr_is_error attrs) v (settle_call env held status None error db)
             else (case seal_result (gn_seal env) v of
                 None \<Rightarrow>
                   (record_invocation env call d ''error''
                      (Some ''Tool ran but its result could not be retained safely; the outcome needs review'')
                      (gn_others env AtRecord (settle_call env held Ambiguous None
                         (Some ''result not retainable: ResultNotRetainable'') db)),
                    Refusal (Refused RNoResult
                      ''Tool ran but its result could not be retained safely; the outcome needs review''))
               | Some stored \<Rightarrow>
                   (let db1 = settle_call env held Succeeded (Some stored) None db
                    in case decode_result stored of
                         None \<Rightarrow> (db1, Propagated ''KeyError'')
                       | Some w \<Rightarrow> succeed env call d (value_is_error w) w db1)))"

section \<open>The call\<close>

definition refused_claim :: "call_env \<Rightarrow> claim_result \<Rightarrow> refusal" where
  "refused_claim env c =
    (if cl_action c = Denied then grant_gone
     else Refused (if cl_action c = Busy then RInProgress else if cl_action c = Stale then RStale else RRecovery)
            (''Tool call not run: '' @ gn_claim_text env (cl_reason c)))"

text \<open>A ledgered call: \<open>ran\<close>, the last component, says whether the tool was run.\<close>

definition ledgered_call ::
  "call_env \<Rightarrow> tool_call \<Rightarrow> access_decision \<Rightarrow> uuid \<Rightarrow> uuid \<Rightarrow> tool_slot \<Rightarrow> run_outcome \<Rightarrow> call_db \<Rightarrow>
   call_db \<times> call_result \<times> bool" where
  "ledgered_call env call d company turn slot outcome db =
    (let no_ledger = (\<lambda>db. case refuse env call d (Refused RNoLedger
             ''Tool effect could not be recorded, so the call was not run'') db of (db', r) \<Rightarrow> (db', r, False))
     in if \<not> gn_claim_up env then no_ledger db
        else case claim_effect (gn_ledger env) company turn slot (kc_tool_name call)
                 (resolve_effect (kc_effect call)) (Some (JDict (kc_arguments call)))
                 (xd_temp_grant_id d) (epoch_of (kc_ctx call)) (cd_ledger db) of
           (ldb, Inl e) \<Rightarrow> no_ledger db
         | (ldb, Inr c) \<Rightarrow>
             (let db1 = db\<lparr>cd_ledger := ldb\<rparr>
              in if cl_action c = Replay then
                   (case decode_result (dict_or_empty (cl_stored c)) of
                      None \<Rightarrow> (case refuse env call d (Refused RNoLedger
                            ''Tool already ran in this turn and its result is unavailable'') db1 of (db', r) \<Rightarrow> (db', r, False))
                    | Some v \<Rightarrow>
                        (record_invocation env call d ''replayed'' None (gn_others env AtRecord db1), Success v True, False))
                 else if cl_action c = Run then
                   (case after_run env call d (Some c) outcome db1 of (db', r) \<Rightarrow> (db', r, True))
                 else (case refuse env call d (refused_claim env c) db1 of (db', r) \<Rightarrow> (db', r, False))))"

definition guarded_call :: "call_env \<Rightarrow> tool_call \<Rightarrow> run_outcome \<Rightarrow> call_db \<Rightarrow> call_db \<times> call_result \<times> bool" where
  "guarded_call env call outcome db =
    (let db0 = gn_others env AtAccess db; d = access_stage env call db0
     in case pre_checks env call d db0 of
          (db1, Inl e) \<Rightarrow> (db1, Propagated e, False)
        | (db1, Inr (Some r)) \<Rightarrow> (case refuse env call d r db1 of (db', res) \<Rightarrow> (db', res, False))
        | (db1, Inr None) \<Rightarrow>
            (case (ledgered call d, xd_company_id d, call_turn call, kc_slot call) of
               (True, Some company, Some turn, Some slot) \<Rightarrow>
                 ledgered_call env call d company turn slot outcome (gn_others env AtClaim db1)
             | _ \<Rightarrow> (case after_run env call d None outcome db1 of (db', res) \<Rightarrow> (db', res, True))))"

end
