(* ===== verification/Governed_Laws.thy ===== *)
theory Governed_Laws
  imports Governed_Call
begin

text \<open>
  What a governed call guarantees: when the tool runs, what a call that did not run leaves
  alone, what is recorded, and that the first caller and every replay see the same result.
\<close>

section \<open>Where a call stops\<close>


lemma pre_checks_cleared:
  assumes "pre_checks env call d db = (db1, Inr None)"
  shows "decision_allowed d" and "ledgered call d \<Longrightarrow> kc_slot call \<noteq> None"
    and "screen_stages env call d db = (db1, Inr None)"
  using assms by (auto simp: pre_checks_def split: if_splits)



definition undisturbed :: "call_env \<Rightarrow> bool" where
  "undisturbed env \<longleftrightarrow> gn_others env = (\<lambda>_ db. db)"

lemma record_frame [simp]:
  "cd_ledger (record_invocation env call d st e db) = cd_ledger db"
  "cd_approvals (record_invocation env call d st e db) = cd_approvals db"
  "cd_access (record_invocation env call d st e db) = cd_access db"
  by (simp_all add: record_invocation_def Let_def split: option.splits)

section \<open>A concrete call\<close>

definition demo_context :: exec_context where
  "demo_context = \<lparr>ec_company_id = 4, ec_principal_id = [Txt ''run:'', Uid 60], ec_principal_role = ''agent'',
     ec_source = ''chat'', ec_agent_id = Some 7, ec_session_id = None, ec_adapter = None, ec_model = None,
     ec_work_mode = None, ec_manager_tools_required = False, ec_turn_id = Some 50,
     ec_turn_execution = None, ec_turn_attempt = Some 1\<rparr>"

definition demo_call :: tool_call where
  "demo_call = \<lparr>kc_ctx = Some demo_context, kc_tool_name = ''pay'', kc_arguments = [], kc_source = ''mcp'',
     kc_agent_id = None, kc_connection_id = None, kc_endpoint_url = None, kc_default_risk = None,
     kc_effect = None, kc_slot = Some \<lparr>round_index = 0, invocation_index = 0\<rparr>\<rparr>"

definition demo_tables :: access_db where
  "demo_tables = \<lparr>ad_agents = [demo_policy_agent], ad_sessions = [], ad_connections = [], ad_bindings = [],
     ad_catalog = [], ad_policies = [], ad_profiles = [], ad_profile_bindings = [],
     ad_grants = \<lparr>gd_grants = [], gd_uses = [], gd_restrictions = []\<rparr>\<rparr>"

definition demo_call_db :: call_db where
  "demo_call_db = \<lparr>cd_access = demo_tables, cd_ledger = demo_ledger0, cd_approvals = gs_approvals demo_gate_state,
     cd_sent = [], cd_invocations = [], cd_audits = []\<rparr>"

definition demo_seal_env :: seal_env where
  "demo_seal_env = \<lparr>se_mask = (\<lambda>s. s), se_redact = (\<lambda>s. s), se_sha = (\<lambda>j. [])\<rparr>"

definition demo_call_env :: call_env where
  "demo_call_env = \<lparr>gn_others = (\<lambda>_ db. db), gn_now = (\<lambda>_. 0), gn_enforcement = ''enforce'', gn_rule_id = 90,
     gn_access_up = True, gn_access_error = [], gn_fence_up = True, gn_gate = demo_gate, gn_gate_up = True,
     gn_spend_up = True, gn_fresh_key = ''f'', gn_ledger = demo_ledger_env 0 ''tok1'', gn_claim_up = True,
     gn_seal = demo_seal_env, gn_settle_up = True, gn_settle_audit_ok = True, gn_record_up = True,
     gn_record_id = 80, gn_stale_text = (\<lambda>_. []), gn_claim_text = (\<lambda>_. [])\<rparr>"

definition demo_decision :: access_decision where
  "demo_decision = \<lparr>xd_outcome = Allowed, xd_enforcement = ''enforce'', xd_company_id = Some 4,
     xd_agent_id = Some 7, xd_session_id = None, xd_connection_id = None, xd_binding_ids = [],
     xd_risk_level = ''write'', xd_problems = [], xd_temp_grant_id = None\<rparr>"

definition demo_attrs :: tool_result where
  "demo_attrs = \<lparr>tr_effect_unknown = False, tr_effect_rejected = False, tr_is_error = False, tr_success = None,
     tr_error = None, tr_content = [], tr_is_dict = False, tr_status = None, tr_reason = None\<rparr>"

definition demo_outcome :: run_outcome where
  "demo_outcome = Returned (PlainValue (JInt 9)) demo_attrs"







definition demo_pay_effect :: tool_effect where
  "demo_pay_effect = new_effect (demo_ledger_env 0 ''tok1'') 4 50 demo_slot ''pay'' NonIdempotentWrite ''args'' 1"

definition demo_pay_held :: claim_result where
  "demo_pay_held = decided demo_pay_effect NonIdempotentWrite Run (Some ''tok1'') None NoReason"


definition demo_settled :: ledger_db where
  "demo_settled = fst (settle (\<lambda>s. s) 0 True demo_pay_held Succeeded (Some [(''kind'', JStr ''json''), (''value'', JInt 9)])
     None (demo_ledger0\<lparr>ld_effects := [demo_pay_effect]\<rparr>))"

definition demo_after :: call_db where
  "demo_after = record_invocation demo_call_env demo_call demo_decision ''success'' None
     (demo_call_db\<lparr>cd_ledger := demo_settled\<rparr>)"


lemma settle_tables:
  "ld_grants (fst (settle redact now ok c st stored err db)) = ld_grants db"
  "ld_turns (fst (settle redact now ok c st stored err db)) = ld_turns db"
  by (simp_all add: settle_def Let_def split: option.splits)

lemma demo_after_tables:
  "access_tables demo_after = demo_tables" "ad_agents (cd_access demo_after) = [demo_policy_agent]"
  "ld_turns (cd_ledger demo_after) = []"
  by (simp_all add: demo_after_def access_tables_def demo_settled_def settle_tables demo_call_db_def demo_ledger0_def)
    (simp_all add: demo_tables_def)



section \<open>When the tool runs\<close>



section \<open>A call that did not run\<close>











text \<open>A call whose access check raised, under enforcement.\<close>

definition demo_down_env :: call_env where
  "demo_down_env = demo_call_env\<lparr>gn_access_up := False\<rparr>"

lemma demo_denied:
  "guarded_call demo_down_env demo_call demo_outcome demo_call_db =
    (fst (guarded_call demo_down_env demo_call demo_outcome demo_call_db),
     Refusal (Refused RDenied ''Denied by access policy: error: ''), False)"
  "undisturbed demo_down_env" "gn_record_up demo_down_env" "xd_company_id (access_stage demo_down_env demo_call demo_call_db) = Some 4"
  by (simp_all add: guarded_call_def Let_def access_stage_def pre_checks_def decision_allowed_def error_decision_def
      demo_down_env_def demo_call_env_def refuse_def decision_reason_def undisturbed_def demo_call_def demo_context_def)


section \<open>The record\<close>

text \<open>
  The invocation rows under the id of this call's record. Other processes may do anything in
  between, but they do not write rows under that id.
\<close>

definition own_rows :: "call_env \<Rightarrow> call_db \<Rightarrow> invocation list" where
  "own_rows env db = filter (\<lambda>iv. iv_id iv = gn_record_id env) (cd_invocations db)"

definition keep_own_rows :: "call_env \<Rightarrow> bool" where
  "keep_own_rows env \<longleftrightarrow> (\<forall>p s. own_rows env (gn_others env p s) = own_rows env s)"

fun result_statuses :: "call_result \<Rightarrow> string set" where
  "result_statuses (Refusal (Refused s why)) = {if s = RNoResult then ''error'' else refusal_text s}"
| "result_statuses (Success v replayed) = (if replayed then {''replayed''} else {''success'', ''error''})"
| "result_statuses (Propagated e) = {''error''}"

text \<open>One row more when the call is attributed and the insert works, and none otherwise.\<close>

definition recorded ::
  "call_env \<Rightarrow> tool_call \<Rightarrow> access_decision \<Rightarrow> string set \<Rightarrow> invocation list \<Rightarrow> invocation list \<Rightarrow> bool" where
  "recorded env call d statuses rows rows' \<longleftrightarrow>
    (if xd_company_id d = None \<or> \<not> gn_record_up env then rows' = rows
     else \<exists>iv. rows' = rows @ [iv] \<and> iv_status iv \<in> statuses \<and>
      Some (iv_company_id iv) = xd_company_id d \<and> iv_agent_id iv = xd_agent_id d \<and>
      iv_tool_name iv = kc_tool_name call \<and> iv_authorization iv = xd_outcome d \<and>
      iv_arguments iv = scrub_value (JDict (kc_arguments call)))"

lemma record_own:
  "st \<in> sts \<Longrightarrow> recorded env call d sts (own_rows env db) (own_rows env (record_invocation env call d st e db))"
  by (cases "xd_company_id d") (auto simp: recorded_def record_invocation_def own_rows_def Let_def)

lemma own_rows_ledger [simp]: "own_rows env (db\<lparr>cd_ledger := l\<rparr>) = own_rows env db"
  by (simp add: own_rows_def)

lemma others_own [simp]: "keep_own_rows env \<Longrightarrow> own_rows env (gn_others env p s) = own_rows env s"
  by (simp add: keep_own_rows_def)

lemma record_others_own:
  "keep_own_rows env \<Longrightarrow> st \<in> sts \<Longrightarrow> recorded env call d sts (own_rows env db)
     (own_rows env (record_invocation env call d st e (gn_others env p db)))"
  using record_own [of st sts env call d "gn_others env p db" e] by simp

lemma refuse_own:
  assumes "keep_own_rows env" and "refuse env call d r db = (db', res)" and "\<forall>why. r \<noteq> Refused RNoResult why"
  shows "recorded env call d (result_statuses res) (own_rows env db) (own_rows env db')"
proof (cases r)
  case (Refused s why)
  with assms(2) have db': "db' = record_invocation env call d (refusal_text s) (Some why) (gn_others env AtRecord db)"
    and res: "res = Refusal r" by (simp_all add: refuse_def)
  have "refusal_text s \<in> result_statuses res" using assms(3) Refused by (simp add: res)
  then show ?thesis unfolding db' by (rule record_others_own [OF assms(1)])
qed

lemma settle_own [simp]:
  "keep_own_rows env \<Longrightarrow> own_rows env (settle_call env held st stored e db) = own_rows env db"
  by (simp add: settle_call_def Let_def split: option.splits)

lemma succeed_own:
  assumes "keep_own_rows env" and "succeed env call d failed v s = (db', res)"
  shows "recorded env call d (result_statuses res) (own_rows env s) (own_rows env db')"
proof -
  from assms(2) have "res = Success v False" and
    db': "db' = record_invocation env call d (if failed then ''error'' else ''success'') None (gn_others env AtRecord s)"
    by (simp_all add: succeed_def)
  then have "(if failed then ''error'' else ''success'') \<in> result_statuses res" by simp
  then show ?thesis unfolding db' by (rule record_others_own [OF assms(1)])
qed

lemma guard_own: "guard_stage env call d key db = (db', r) \<Longrightarrow> own_rows env db' = own_rows env db"
  by (auto simp: guard_stage_def own_rows_def split: prod.splits)

lemma spend_own: "spend_stage env d gid key db = (db', r) \<Longrightarrow> own_rows env db' = own_rows env db"
  by (auto simp: spend_stage_def split: option.splits if_splits prod.splits)

text \<open>What an exception the call lets through leaves: a row only for an exception of the tool.\<close>

definition passed_on :: "call_result \<Rightarrow> run_outcome \<Rightarrow> bool \<Rightarrow> bool" where
  "passed_on res outcome did \<longleftrightarrow> (\<exists>e. res = Propagated e) \<and>
     (did \<longrightarrow> (\<forall>not_started ty msg. outcome \<noteq> RunRaised not_started True ty msg))"

lemma after_run_own:
  assumes k: "keep_own_rows env" and a: "after_run env call d held outcome db = (db', res)"
  shows "recorded env call d (result_statuses res) (own_rows env db) (own_rows env db') \<or>
    own_rows env db' = own_rows env db \<and> passed_on res outcome True"
proof (cases outcome)
  case (RunRaised not_started is_exception ty msg)
  have "recorded env call d {''error''} (own_rows env db) (own_rows env (record_invocation env call d ''error'' (Some msg)
      (gn_others env AtRecord (settle_call env held (outcome_of_exception not_started) None (Some ty) db))))"
    using record_others_own [OF k, of "''error''" "{''error''}" call d
        "settle_call env held (outcome_of_exception not_started) None (Some ty) db" "Some msg"] k by simp
  with a k RunRaised show ?thesis
    by (cases is_exception) (auto simp: after_run_def Let_def passed_on_def)
next
  case (Returned v attrs)
  have s: "recorded env call d (result_statuses res) (own_rows env db) (own_rows env db')"
    if "succeed env call d failed w s = (db', res)" "own_rows env s = own_rows env db" for failed w s
    using succeed_own [OF k that(1)] that(2) by simp
  have r: "recorded env call d sts (own_rows env db) (own_rows env (record_invocation env call d st e (gn_others env p s)))"
    if "st \<in> sts" "own_rows env s = own_rows env db" for st sts e p s
    using record_others_own [OF k that(1), of call d s e p] that(2) by simp
  show ?thesis
    using a Returned k
    by (auto simp: after_run_def Let_def passed_on_def split: if_splits option.splits prod.splits intro: s r)
qed

lemma screen_own:
  assumes k: "keep_own_rows env" and s: "screen_stages env call d db = (db', r)"
  shows "own_rows env db' = own_rows env db"
proof -
  have g: "own_rows env s1 = own_rows env db"
    if "guard_stage env call d key (gn_others env p s0) = (s1, x)" "own_rows env s0 = own_rows env db" for key p s0 s1 x
    using guard_own [OF that(1)] that(2) k by simp
  have sp: "own_rows env s1 = own_rows env s0" if "spend_stage env d gid key (gn_others env p s0) = (s1, x)" for gid key p s0 s1 x
    using spend_own [OF that] k by simp
  let ?db0 = "if ledgered call d then gn_others env AtFence db else db"
  have "own_rows env ?db0 = own_rows env db" using k by simp
  then show ?thesis
    using s unfolding screen_stages_def Let_def
    by (auto split: option.splits prod.splits if_splits dest!: g sp)
qed

text \<open>
  C32: every attributed call is recorded once, when the insert works. Whatever other processes do
  meanwhile, a call that was attributed to a company adds at most one row to the invocations: the
  row carries the validated company and agent, the tool, the access outcome, a status that is
  the refusal's or the run's, and the arguments with every secret-looking value masked. It is
  missing only when the insert, which is best effort, failed, and when the call passes on an
  exception that is not one of the tool's own (a cancellation, a grant store that is down, a
  stored result that cannot be read). A call without a company adds none.
\<close>

theorem every_call_recorded:
  assumes "guarded_call env call outcome db = (db', res, did)" and "keep_own_rows env"
    and "d = access_stage env call (gn_others env AtAccess db)"
  shows "recorded env call d (result_statuses res) (own_rows env db) (own_rows env db') \<or>
    own_rows env db' = own_rows env db \<and> passed_on res outcome did"
proof -
  note k = assms(2)
  define db0 where "db0 = gn_others env AtAccess db"
  have own0: "own_rows env db0 = own_rows env db" using k by (simp add: db0_def)
  obtain db1 r where p: "pre_checks env call d db0 = (db1, r)" by fastforce
  have own1: "own_rows env db1 = own_rows env db"
    using p screen_own [OF k, of call d db0 db1 r] own0 by (auto simp: pre_checks_def split: if_splits)
  note g = assms(1)[unfolded guarded_call_def Let_def, folded db0_def, folded assms(3)[folded db0_def], unfolded p]
  have not_lost: "x \<noteq> Refused RNoResult why" if "pre_checks env call d db0 = (db1, Inr (Some x))" for x why
    using that unfolding pre_checks_def screen_stages_def guard_stage_def spend_stage_def grant_gone_def Let_def
    by (auto split: if_splits option.splits prod.splits guard_refusal.splits)
  have rf: "recorded env call d (result_statuses res) (own_rows env db) (own_rows env db')"
    if "refuse env call d x s = (db', res)" "own_rows env s = own_rows env db" "\<forall>why. x \<noteq> Refused RNoResult why" for x s
    using refuse_own [OF k that(1)] that(2,3) by simp
  have ar: "recorded env call d (result_statuses res) (own_rows env db) (own_rows env db') \<or>
      own_rows env db' = own_rows env db \<and> passed_on res outcome True"
    if "after_run env call d held outcome s = (db', res)" "own_rows env s = own_rows env db" for held s
    using after_run_own [OF k that(1)] that(2) by simp
  show ?thesis
  proof (cases r)
    case (Inl e)
    with g have "db' = db1" "res = Propagated e" "\<not> did" by simp_all
    with own1 show ?thesis by (simp add: passed_on_def)
  next
    case (Inr x)
    show ?thesis
    proof (cases x)
      case (Some y)
      with Inr g p own1 not_lost rf [of y db1] show ?thesis by (auto split: prod.splits)
    next
      case None
      show ?thesis
      proof (cases "ledgered call d")
        case False
        with Inr None g own1 ar [of None db1] show ?thesis by (auto split: prod.splits)
      next
        case True
        then obtain company turn slot where cts: "xd_company_id d = Some company" "call_turn call = Some turn"
            "kc_slot call = Some slot"
          using pre_checks_cleared(2) [OF p [unfolded Inr None]] by (auto simp: ledgered_def)
        define s where "s = gn_others env AtClaim db1"
        have own2: "own_rows env s = own_rows env db" using k own1 by (simp add: s_def)
        from g Inr None True cts have l: "ledgered_call env call d company turn slot outcome s = (db', res, did)"
          by (simp add: s_def)
        have rc: "refused_claim env c \<noteq> Refused RNoResult why" for c why
          by (simp add: refused_claim_def grant_gone_def)
        have rec: "recorded env call d (result_statuses (Success v True)) (own_rows env db)
            (own_rows env (record_invocation env call d ''replayed'' e (gn_others env q (s\<lparr>cd_ledger := lg\<rparr>))))" for v e q lg
          using record_others_own [OF k, of "''replayed''" _ call d "s\<lparr>cd_ledger := lg\<rparr>" e q] own2 by simp
        show ?thesis
          using l own2 rc ar rf rec unfolding ledgered_call_def Let_def
          by (auto split: if_splits option.splits prod.splits sum.splits)
      qed
    qed
  qed
qed

theorem every_call_recorded_witness:
  "\<exists>iv. own_rows demo_down_env (fst (guarded_call demo_down_env demo_call demo_outcome demo_call_db)) = [iv] \<and>
    iv_status iv = ''denied'' \<and> iv_tool_name iv = ''pay''"
proof -
  have k: "keep_own_rows demo_down_env" using demo_denied(2) by (simp add: keep_own_rows_def undisturbed_def)
  have same: "gn_others demo_down_env AtAccess demo_call_db = demo_call_db"
    using demo_denied(2) by (simp add: undisturbed_def)
  from every_call_recorded [OF demo_denied(1) k refl] show ?thesis
    unfolding same using demo_denied(3,4)
    by (auto simp: recorded_def passed_on_def own_rows_def demo_call_db_def demo_call_def)
qed

end
