(* ===== verification/Governed_Replay.thy ===== *)
theory Governed_Replay
  imports Governed_Laws
begin

text \<open>
  Two calls of one slot: the row a first run settled is what a later call of the same slot is
  answered from.
\<close>

section \<open>Slots\<close>








section \<open>The two calls\<close>




end
