(* ===== verification/Budget_Ledger.thy ===== *)
theory Budget_Ledger
  imports Prelude
begin

text \<open>
  \<open>src/nexus/services/budget_service.py\<close> over the rows of \<open>src/nexus/models/budget.py\<close>: the
  two-phase budget ledger. A reservation is a cost event with status \<open>reserved\<close> and a hold on
  its policy's counter; it is committed, released or reaped. Times are naive UTC, in
  microseconds since 1970; a table without ORDER BY is read in the order of insertion. The
  columns \<open>session_id\<close> and \<open>created_at\<close>, which the ledger neither writes nor reads, are left
  out. A window rolled by a call that is refused may be undone with the caller's transaction;
  the model keeps it, and the next call would roll it again in any case.
\<close>

section \<open>Tables\<close>

record budget_policy =
  bp_id :: uuid
  bp_company_id :: uuid
  bp_scope_type :: string
  bp_scope_id :: uuid
  bp_metric :: string
  bp_window_kind :: string
  bp_amount :: int
  bp_spent_cents :: int
  bp_reserved_cents :: int
  bp_warn_percent :: int
  bp_hard_stop_enabled :: bool
  bp_is_active :: bool
  bp_window_started_at :: "time option"
  bp_updated_at :: time

datatype cost_status = CostReserved | CostCommitted | CostReleased

record cost_event =
  cv_id :: uuid
  cv_company_id :: uuid
  cv_agent_id :: "uuid option"
  cv_task_id :: "uuid option"
  cv_project_id :: "uuid option"
  cv_policy_id :: "uuid option"
  cv_provider :: string
  cv_model :: "string option"
  cv_input_tokens :: int
  cv_output_tokens :: int
  cv_cost_cents :: int
  cv_billing_type :: string
  cv_status :: cost_status
  cv_expires_at :: "time option"
  cv_occurred_at :: time

record budget_db =
  bd_policies :: "budget_policy list"
  bd_events :: "cost_event list"

definition RESERVATION_TTL_SECONDS :: int where
  "RESERVATION_TTL_SECONDS = 900"

section \<open>Windows\<close>

definition DAY :: int where
  "DAY = 86400000000"

text \<open>
  The day of the month of a day counted from 1970-01-01, in the proleptic Gregorian calendar
  that \<open>datetime\<close> uses: days of a 400-year era, then of a year that starts in March.
\<close>

definition day_of_month :: "int \<Rightarrow> int" where
  "day_of_month days =
    (let z = days + 719468;
         doe = z mod 146097;
         yoe = (doe - doe div 1460 + doe div 36524 - doe div 146096) div 365;
         doy = doe - (365 * yoe + yoe div 4 - yoe div 100);
         mp = (5 * doy + 2) div 153
     in doy - (153 * mp + 2) div 5 + 1)"

text \<open>1970-01-01 was a Thursday, three days after Monday.\<close>

definition calculate_window_start :: "string \<Rightarrow> time \<Rightarrow> time" where
  "calculate_window_start kind now =
    (let today = now div DAY
     in if kind = ''daily'' then today * DAY
        else if kind = ''weekly'' then (today - (today + 3) mod 7) * DAY
        else (today - (day_of_month today - 1)) * DAY)"

section \<open>Checking\<close>

definition roll_guard :: "uuid \<Rightarrow> time \<Rightarrow> budget_policy \<Rightarrow> bool" where
  "roll_guard pid start p \<longleftrightarrow> bp_id p = pid \<and> (case bp_window_started_at p of None \<Rightarrow> False | Some w \<Rightarrow> w < start)"

text \<open>\<open>_roll_window_if_needed\<close>: the row as the caller's object, and the tables.\<close>

definition roll_window :: "time \<Rightarrow> budget_policy \<Rightarrow> budget_db \<Rightarrow> budget_policy \<times> budget_db" where
  "roll_window now p db =
    (let start = calculate_window_start (bp_window_kind p) now
     in case bp_window_started_at p of
          None \<Rightarrow> (p\<lparr>bp_window_started_at := Some start\<rparr>,
                   db\<lparr>bd_policies := update_where (\<lambda>q. bp_id q = bp_id p)
                       (\<lambda>q. q\<lparr>bp_window_started_at := Some start\<rparr>) (bd_policies db)\<rparr>)
        | Some w \<Rightarrow>
            if w < start
            then (p\<lparr>bp_spent_cents := 0, bp_window_started_at := Some start\<rparr>,
                  db\<lparr>bd_policies := update_where (roll_guard (bp_id p) start)
                      (\<lambda>q. q\<lparr>bp_spent_cents := 0, bp_window_started_at := Some start, bp_updated_at := now\<rparr>)
                      (bd_policies db)\<rparr>)
            else (p, db))"

record budget_check =
  bc_allowed :: bool
  bc_remaining_cents :: int
  bc_used_cents :: int
  bc_limit_cents :: int
  bc_warn_threshold_reached :: bool
  bc_policy_id :: "uuid option"
  bc_message :: string

definition no_limit :: "string \<Rightarrow> budget_check" where
  "no_limit msg = \<lparr>bc_allowed = True, bc_remaining_cents = 0, bc_used_cents = 0, bc_limit_cents = 0,
     bc_warn_threshold_reached = False, bc_policy_id = None, bc_message = msg\<rparr>"

text \<open>
  Expired holds, as a pass over one company or over all of them selects them, the return of a
  hold to its policy, and the update that releases the events.
\<close>

definition expired_hold :: "time \<Rightarrow> uuid option \<Rightarrow> cost_event \<Rightarrow> bool" where
  "expired_hold now company e \<longleftrightarrow> cv_status e = CostReserved \<and>
     (case cv_expires_at e of None \<Rightarrow> False | Some t \<Rightarrow> t \<le> now) \<and>
     (case company of None \<Rightarrow> True | Some c \<Rightarrow> cv_company_id e = c)"

definition return_hold :: "time \<Rightarrow> int \<Rightarrow> budget_policy \<Rightarrow> budget_policy" where
  "return_hold now held p = p\<lparr>bp_reserved_cents := (if held \<le> bp_reserved_cents p then bp_reserved_cents p - held else 0),
     bp_updated_at := now\<rparr>"

definition released_vals :: "cost_event \<Rightarrow> cost_event" where
  "released_vals e = e\<lparr>cv_status := CostReleased, cv_cost_cents := 0, cv_expires_at := None\<rparr>"

definition give_back :: "time \<Rightarrow> uuid option \<Rightarrow> int \<Rightarrow> budget_policy list \<Rightarrow> budget_policy list" where
  "give_back now pid held ps =
    (case pid of None \<Rightarrow> ps | Some i \<Rightarrow> update_where (\<lambda>p. bp_id p = i) (return_hold now held) ps)"

fun give_back_all :: "time \<Rightarrow> cost_event list \<Rightarrow> budget_policy list \<Rightarrow> budget_policy list" where
  "give_back_all now [] ps = ps"
| "give_back_all now (e # es) ps =
    give_back_all now es (if 0 < cv_cost_cents e then give_back now (cv_policy_id e) (cv_cost_cents e) ps else ps)"

text \<open>The statements of a reap after its SELECT returned \<open>es\<close>; another transaction may commit in between.\<close>

definition reap_selected :: "time \<Rightarrow> uuid option \<Rightarrow> cost_event list \<Rightarrow> budget_db \<Rightarrow> budget_db" where
  "reap_selected now company es db =
    (if es = [] then db
     else \<lparr>bd_policies = give_back_all now es (bd_policies db),
           bd_events = update_where (expired_hold now company) released_vals (bd_events db)\<rparr>)"

definition select_expired :: "time \<Rightarrow> uuid option \<Rightarrow> budget_db \<Rightarrow> cost_event list" where
  "select_expired now company db = filter (expired_hold now company) (bd_events db)"

definition reap_expired_reservations :: "time \<Rightarrow> uuid option \<Rightarrow> budget_db \<Rightarrow> budget_db \<times> nat" where
  "reap_expired_reservations now company db =
    (let es = select_expired now company db in (reap_selected now company es db, length es))"

definition in_scope :: "string \<Rightarrow> uuid \<Rightarrow> uuid option \<Rightarrow> budget_policy \<Rightarrow> bool" where
  "in_scope scope_type scope_id company p \<longleftrightarrow> bp_scope_type p = scope_type \<and> bp_scope_id p = scope_id \<and>
     bp_is_active p \<and> (case company of None \<Rightarrow> True | Some c \<Rightarrow> bp_company_id p = c)"

definition judge :: "int \<Rightarrow> budget_policy \<Rightarrow> budget_check" where
  "judge amount p =
    (let used = bp_spent_cents p + bp_reserved_cents p;
         remaining = bp_amount p - used;
         warn = bp_amount p * bp_warn_percent p div 100
     in if bp_hard_stop_enabled p \<and> bp_amount p < used + amount
        then \<lparr>bc_allowed = False, bc_remaining_cents = max 0 remaining, bc_used_cents = used,
              bc_limit_cents = bp_amount p, bc_warn_threshold_reached = (warn \<le> used), bc_policy_id = Some (bp_id p),
              bc_message = ''Budget exceeded: used='' @ show_int used @ '', limit='' @ show_int (bp_amount p)\<rparr>
        else \<lparr>bc_allowed = True, bc_remaining_cents = max 0 (remaining - amount), bc_used_cents = used,
              bc_limit_cents = bp_amount p, bc_warn_threshold_reached = (warn \<le> used + amount),
              bc_policy_id = Some (bp_id p), bc_message = []\<rparr>)"

definition check_budget :: "time \<Rightarrow> string \<Rightarrow> uuid \<Rightarrow> int \<Rightarrow> uuid option \<Rightarrow> budget_db \<Rightarrow> budget_db \<times> budget_check" where
  "check_budget now scope_type scope_id amount company db =
    (let db1 = fst (reap_expired_reservations now company db);
         ps = filter (in_scope scope_type scope_id company) (bd_policies db1)
     in if ps = [] then (db1, no_limit ''No budget policy configured'')
        else case find (\<lambda>p. bp_metric p = ''cost_cents'') ps of
               None \<Rightarrow> (db1, no_limit ''No cost_cents policy found'')
             | Some p \<Rightarrow> (case roll_window now p db1 of (p', db2) \<Rightarrow> (db2, judge amount p')))"

definition enforce_limit :: "time \<Rightarrow> uuid \<Rightarrow> int \<Rightarrow> budget_db \<Rightarrow> budget_db \<times> bool" where
  "enforce_limit now agent cost db =
    (case check_budget now ''agent'' agent cost None db of (db', c) \<Rightarrow> (db', bc_allowed c))"

section \<open>Recording a cost\<close>

record cost_entry =
  cy_company_id :: uuid
  cy_agent_id :: "uuid option"
  cy_task_id :: "uuid option"
  cy_project_id :: "uuid option"
  cy_provider :: string
  cy_model :: "string option"
  cy_input_tokens :: int
  cy_output_tokens :: int
  cy_cost_cents :: int
  cy_billing_type :: string

definition target_policy :: "uuid \<Rightarrow> uuid option \<Rightarrow> budget_policy list \<Rightarrow> budget_policy option" where
  "target_policy company pid ps =
    (case pid of
       Some i \<Rightarrow> find (\<lambda>p. bp_id p = i) ps
     | None \<Rightarrow> find (\<lambda>p. bp_company_id p = company \<and> bp_scope_type p = ''company'' \<and> bp_is_active p \<and>
                    bp_metric p = ''cost_cents'') ps)"

definition new_cost :: "uuid \<Rightarrow> time \<Rightarrow> cost_entry \<Rightarrow> uuid option \<Rightarrow> cost_event" where
  "new_cost eid now c pid = \<lparr>cv_id = eid, cv_company_id = cy_company_id c, cv_agent_id = cy_agent_id c,
     cv_task_id = cy_task_id c, cv_project_id = cy_project_id c, cv_policy_id = pid, cv_provider = cy_provider c,
     cv_model = cy_model c, cv_input_tokens = cy_input_tokens c, cv_output_tokens = cy_output_tokens c,
     cv_cost_cents = cy_cost_cents c, cv_billing_type = cy_billing_type c, cv_status = CostCommitted,
     cv_expires_at = None, cv_occurred_at = now\<rparr>"

text \<open>\<open>None\<close> is \<open>BudgetExceeded\<close>; the window may have been rolled all the same.\<close>

definition record_cost :: "uuid \<Rightarrow> time \<Rightarrow> cost_entry \<Rightarrow> uuid option \<Rightarrow> budget_db \<Rightarrow> budget_db \<times> cost_event option" where
  "record_cost eid now c pid db =
    (case target_policy (cy_company_id c) pid (bd_policies db) of
       None \<Rightarrow> (let e = new_cost eid now c None in (db\<lparr>bd_events := bd_events db @ [e]\<rparr>, Some e))
     | Some p \<Rightarrow>
         let e = new_cost eid now c (Some (bp_id p))
         in if cy_cost_cents c \<le> 0 then (db\<lparr>bd_events := bd_events db @ [e]\<rparr>, Some e)
            else case roll_window now p db of (p', db1) \<Rightarrow>
              if bp_hard_stop_enabled p' \<and> bp_amount p' < bp_spent_cents p' + bp_reserved_cents p' + cy_cost_cents c
              then (db1, None)
              else (\<lparr>bd_policies = update_where (\<lambda>q. bp_id q = bp_id p)
                       (\<lambda>q. q\<lparr>bp_spent_cents := bp_spent_cents q + cy_cost_cents c, bp_updated_at := now\<rparr>) (bd_policies db1),
                     bd_events = bd_events db1 @ [e]\<rparr>, Some e))"

section \<open>Two-phase spending\<close>

definition hold_guard :: "uuid \<Rightarrow> int \<Rightarrow> budget_policy \<Rightarrow> bool" where
  "hold_guard pid amt p \<longleftrightarrow> bp_id p = pid \<and> bp_is_active p \<and> bp_spent_cents p + bp_reserved_cents p + amt \<le> bp_amount p"

definition hold_vals :: "time \<Rightarrow> int \<Rightarrow> budget_policy \<Rightarrow> budget_policy" where
  "hold_vals now amt p = p\<lparr>bp_reserved_cents := bp_reserved_cents p + amt, bp_updated_at := now\<rparr>"

record reserve_args =
  rv_company_id :: uuid
  rv_agent_id :: "uuid option"
  rv_provider :: string
  rv_model :: "string option"
  rv_ttl_seconds :: int

definition new_hold :: "uuid \<Rightarrow> time \<Rightarrow> reserve_args \<Rightarrow> uuid \<Rightarrow> int \<Rightarrow> cost_event" where
  "new_hold eid now a pid amt = \<lparr>cv_id = eid, cv_company_id = rv_company_id a, cv_agent_id = rv_agent_id a,
     cv_task_id = None, cv_project_id = None, cv_policy_id = Some pid, cv_provider = rv_provider a,
     cv_model = rv_model a, cv_input_tokens = 0, cv_output_tokens = 0, cv_cost_cents = amt,
     cv_billing_type = ''llm_inference'', cv_status = CostReserved,
     cv_expires_at = Some (now + seconds (rv_ttl_seconds a)), cv_occurred_at = now\<rparr>"

text \<open>The conditional UPDATE and the insert after a check that allowed the spend.\<close>

definition hold_on :: "uuid \<Rightarrow> time \<Rightarrow> reserve_args \<Rightarrow> int \<Rightarrow> budget_check \<Rightarrow> budget_db \<Rightarrow>
    budget_db \<times> bool \<times> cost_event option \<times> budget_check" where
  "hold_on eid now a amt c db =
    (case bc_policy_id c of
       None \<Rightarrow> (db, True, None, c)
     | Some pid \<Rightarrow>
         if 0 < amt \<and> matching (hold_guard pid amt) (bd_policies db) = 0
         then (db, False, None, c\<lparr>bc_allowed := False, bc_message := ''Budget exceeded (atomic reservation check failed)''\<rparr>)
         else let e = new_hold eid now a pid amt
              in (\<lparr>bd_policies = (if 0 < amt then update_where (hold_guard pid amt) (hold_vals now amt) (bd_policies db)
                                  else bd_policies db),
                   bd_events = bd_events db @ [e]\<rparr>, True, Some e, c))"

definition reserve :: "uuid \<Rightarrow> time \<Rightarrow> reserve_args \<Rightarrow> int \<Rightarrow> string \<Rightarrow> uuid option \<Rightarrow> budget_db \<Rightarrow>
    budget_db \<times> bool \<times> cost_event option \<times> budget_check" where
  "reserve eid now a estimate scope_type scope_id db =
    (let target = (case scope_id of None \<Rightarrow> rv_company_id a | Some s \<Rightarrow> s)
     in case check_budget now scope_type target estimate (Some (rv_company_id a)) db of
          (db1, c) \<Rightarrow> if \<not> bc_allowed c then (db1, False, None, c) else hold_on eid now a (max 0 estimate) c db1)"

definition find_reserved :: "uuid \<Rightarrow> budget_db \<Rightarrow> cost_event option" where
  "find_reserved rid db = find (\<lambda>e. cv_id e = rid \<and> cv_status e = CostReserved) (bd_events db)"

definition release_reservation :: "time \<Rightarrow> uuid \<Rightarrow> budget_db \<Rightarrow> budget_db \<times> bool" where
  "release_reservation now rid db =
    (case find_reserved rid db of
       None \<Rightarrow> (db, False)
     | Some e \<Rightarrow>
         (\<lparr>bd_policies = (if 0 < cv_cost_cents e then give_back now (cv_policy_id e) (cv_cost_cents e) (bd_policies db)
                         else bd_policies db),
           bd_events = update_where (\<lambda>x. cv_id x = rid \<and> cv_status x = CostReserved) released_vals (bd_events db)\<rparr>, True))"

definition commit_vals :: "int \<Rightarrow> int \<Rightarrow> int \<Rightarrow> string option \<Rightarrow> cost_event \<Rightarrow> cost_event" where
  "commit_vals cost inp out model e =
    e\<lparr>cv_cost_cents := max 0 cost, cv_input_tokens := inp, cv_output_tokens := out, cv_status := CostCommitted,
      cv_expires_at := None, cv_model := (case model of None \<Rightarrow> cv_model e | Some m \<Rightarrow> if m = [] then cv_model e else Some m)\<rparr>"

definition charge :: "time \<Rightarrow> int \<Rightarrow> int \<Rightarrow> budget_policy \<Rightarrow> budget_policy" where
  "charge now held spend p = (return_hold now held p)\<lparr>bp_spent_cents := bp_spent_cents p + spend\<rparr>"

definition commit_reservation :: "time \<Rightarrow> uuid \<Rightarrow> int \<Rightarrow> int \<Rightarrow> int \<Rightarrow> string option \<Rightarrow> budget_db \<Rightarrow> budget_db \<times> bool" where
  "commit_reservation now rid cost inp out model db =
    (case find_reserved rid db of
       None \<Rightarrow> (db, False)
     | Some e \<Rightarrow>
         (\<lparr>bd_policies = (case cv_policy_id e of None \<Rightarrow> bd_policies db
             | Some pid \<Rightarrow> update_where (\<lambda>p. bp_id p = pid) (charge now (cv_cost_cents e) (max 0 cost)) (bd_policies db)),
           bd_events = update_where (\<lambda>x. cv_id x = rid \<and> cv_status x = CostReserved)
             (commit_vals cost inp out model) (bd_events db)\<rparr>, True))"

text \<open>\<open>reserve_chain\<close>: the company, then the agent; a refusal releases what is held so far.\<close>

fun release_all :: "time \<Rightarrow> uuid list \<Rightarrow> budget_db \<Rightarrow> budget_db" where
  "release_all now [] db = db"
| "release_all now (r # rs) db = release_all now rs (fst (release_reservation now r db))"

fun reserve_scopes :: "(string \<times> uuid \<times> uuid) list \<Rightarrow> time \<Rightarrow> reserve_args \<Rightarrow> int \<Rightarrow> uuid list \<Rightarrow> budget_check \<Rightarrow> budget_db \<Rightarrow>
    budget_db \<times> bool \<times> uuid list \<times> budget_check" where
  "reserve_scopes [] now a estimate held c db = (db, True, held, c)"
| "reserve_scopes ((ty, sid, eid) # scopes) now a estimate held c db =
    (case reserve eid now a estimate ty (Some sid) db of
       (db1, False, r, c1) \<Rightarrow> (release_all now held db1, False, [], c1)
     | (db1, True, r, c1) \<Rightarrow>
         reserve_scopes scopes now a estimate (case r of None \<Rightarrow> held | Some e \<Rightarrow> held @ [cv_id e]) c1 db1)"

text \<open>\<open>eids\<close>: the fresh identifiers of the company's and the agent's hold.\<close>

definition reserve_chain :: "uuid \<times> uuid \<Rightarrow> time \<Rightarrow> reserve_args \<Rightarrow> int \<Rightarrow> budget_db \<Rightarrow>
    budget_db \<times> bool \<times> uuid list \<times> budget_check" where
  "reserve_chain eids now a estimate db =
    reserve_scopes ((''company'', rv_company_id a, fst eids) #
        (case rv_agent_id a of None \<Rightarrow> [] | Some ag \<Rightarrow> [(''agent'', ag, snd eids)]))
      now a estimate [] (no_limit ''No budget policy configured'') db"

section \<open>Usage and reconciliation\<close>

definition live_hold :: "time \<Rightarrow> cost_event \<Rightarrow> bool" where
  "live_hold now e \<longleftrightarrow> cv_status e = CostReserved \<and> (case cv_expires_at e of None \<Rightarrow> True | Some t \<Rightarrow> now < t)"

record usage_summary =
  us_scope_type :: string
  us_scope_id :: uuid
  us_cost_cents :: int
  us_input_tokens :: int
  us_output_tokens :: int
  us_event_count :: nat
  us_window_start :: time
  us_window_end :: time

definition of_scope :: "string \<Rightarrow> uuid \<Rightarrow> cost_event \<Rightarrow> bool" where
  "of_scope scope_type scope_id e \<longleftrightarrow>
    (if scope_type = ''agent'' then cv_agent_id e = Some scope_id
     else if scope_type = ''project'' then cv_project_id e = Some scope_id else cv_company_id e = scope_id)"

definition get_usage :: "time \<Rightarrow> string \<Rightarrow> uuid \<Rightarrow> string \<Rightarrow> budget_db \<Rightarrow> usage_summary" where
  "get_usage now scope_type scope_id window db =
    (let start = calculate_window_start window now;
         es = filter (\<lambda>e. of_scope scope_type scope_id e \<and> start \<le> cv_occurred_at e \<and>
                (cv_status e = CostCommitted \<or> live_hold now e)) (bd_events db)
     in \<lparr>us_scope_type = scope_type, us_scope_id = scope_id, us_cost_cents = sum_list (map cv_cost_cents es), us_input_tokens = sum_list (map cv_input_tokens es),
         us_output_tokens = sum_list (map cv_output_tokens es), us_event_count = length es,
         us_window_start = start, us_window_end = now\<rparr>)"

definition true_spent :: "time \<Rightarrow> budget_policy \<Rightarrow> cost_event list \<Rightarrow> int" where
  "true_spent now p es =
    (let start = (case bp_window_started_at p of Some w \<Rightarrow> w | None \<Rightarrow> calculate_window_start (bp_window_kind p) now)
     in sum_list (map cv_cost_cents (filter (\<lambda>e. cv_company_id e = bp_company_id p \<and> cv_status e = CostCommitted \<and>
          start \<le> cv_occurred_at e \<and>
          (bp_scope_type p = ''agent'' \<longrightarrow> cv_agent_id e = Some (bp_scope_id p)) \<and>
          (bp_scope_type p = ''project'' \<longrightarrow> cv_project_id e = Some (bp_scope_id p))) es)))"

definition true_reserved :: "time \<Rightarrow> budget_policy \<Rightarrow> cost_event list \<Rightarrow> int" where
  "true_reserved now p es =
    sum_list (map cv_cost_cents (filter (\<lambda>e. cv_company_id e = bp_company_id p \<and> live_hold now e \<and>
      (cv_policy_id e = Some (bp_id p) \<or> cv_policy_id e = None)) es))"

definition reconciled :: "time \<Rightarrow> cost_event list \<Rightarrow> budget_policy \<Rightarrow> budget_policy" where
  "reconciled now es p =
    (if bp_spent_cents p \<noteq> true_spent now p es \<or> bp_reserved_cents p \<noteq> true_reserved now p es
     then p\<lparr>bp_spent_cents := true_spent now p es, bp_reserved_cents := true_reserved now p es, bp_updated_at := now\<rparr>
     else p)"

definition reconcile_budget_counters :: "time \<Rightarrow> uuid option \<Rightarrow> budget_db \<Rightarrow> budget_db \<times> nat \<times> nat" where
  "reconcile_budget_counters now company db =
    (let due = (\<lambda>p. bp_is_active p \<and> bp_metric p = ''cost_cents'' \<and>
                    (case company of None \<Rightarrow> True | Some c \<Rightarrow> bp_company_id p = c));
         es = bd_events db
     in (db\<lparr>bd_policies := update_where due (reconciled now es) (bd_policies db)\<rparr>,
         length (filter due (bd_policies db)),
         length (filter (\<lambda>p. due p \<and> reconciled now es p \<noteq> p) (bd_policies db))))"

end
