(* ===== verification/Budget_Laws.thy ===== *)
theory Budget_Laws
  imports Budget_Ledger
begin

text \<open>
  The budget ledger as a system of callers whose calls do not overlap: the reserved counter of a
  policy is the sum of its holds that are neither settled nor reaped, and a hard-stop policy is
  exceeded by no more than what settled calls cost above their holds. Two calls outside that
  system break the counter, and are shown to: a second reap that overlaps the first, and
  \<open>reconcile_budget_counters\<close>, which no code of the repository calls.
\<close>

section \<open>Holds of a policy\<close>

definition held_in :: "uuid \<Rightarrow> cost_event list \<Rightarrow> int" where
  "held_in pid es = sum_list (map cv_cost_cents (filter (\<lambda>e. cv_status e = CostReserved \<and> cv_policy_id e = Some pid) es))"

lemma held_in_simps [simp]:
  "held_in pid [] = 0"
  "held_in pid (e # es) = (if cv_status e = CostReserved \<and> cv_policy_id e = Some pid then cv_cost_cents e else 0) + held_in pid es"
  "held_in pid (es @ fs) = held_in pid es + held_in pid fs"
  by (simp_all add: held_in_def)

lemma held_in_settled:
  assumes "\<And>e. P e \<Longrightarrow> cv_status (f e) \<noteq> CostReserved"
  shows "held_in pid (update_where P f es) = held_in pid es - held_in pid (filter P es)"
  using assms by (induction es) (auto simp: update_where_def)

lemma held_in_one:
  assumes "distinct (map cv_id es)" and "find (\<lambda>e. cv_id e = rid \<and> cv_status e = CostReserved) es = Some e"
  shows "held_in pid (filter (\<lambda>x. cv_id x = rid \<and> cv_status x = CostReserved) es) =
    (if cv_policy_id e = Some pid then cv_cost_cents e else 0)"
  using assms
proof (induction es)
  case (Cons x es)
  show ?case
  proof (cases "cv_id x = rid \<and> cv_status x = CostReserved")
    case True
    with Cons.prems have "filter (\<lambda>x. cv_id x = rid \<and> cv_status x = CostReserved) es = []" "e = x"
      by (auto simp: filter_empty_conv image_iff)
    with True show ?thesis by simp
  qed (use Cons in auto)
qed simp

definition holds_positive :: "cost_event list \<Rightarrow> bool" where
  "holds_positive es \<longleftrightarrow> (\<forall>e \<in> set es. cv_status e = CostReserved \<longrightarrow> 0 \<le> cv_cost_cents e)"

lemma held_in_nonneg: "holds_positive es \<Longrightarrow> 0 \<le> held_in pid es"
  by (induction es) (auto simp: holds_positive_def)

lemma held_in_filter_le: "holds_positive es \<Longrightarrow> held_in pid (filter P es) \<le> held_in pid es"
  by (induction es) (auto simp: holds_positive_def)

section \<open>Giving holds returned\<close>

text \<open>What the loop of a reap does to one policy.\<close>

fun returned :: "time \<Rightarrow> cost_event list \<Rightarrow> budget_policy \<Rightarrow> budget_policy" where
  "returned now [] p = p"
| "returned now (e # es) p = returned now es
     (if 0 < cv_cost_cents e \<and> cv_policy_id e = Some (bp_id p) then return_hold now (cv_cost_cents e) p else p)"

lemma return_hold_id [simp]: "bp_id (return_hold now h p) = bp_id p"
  by (simp add: return_hold_def)

lemma give_back_all_map: "give_back_all now es ps = map (returned now es) ps"
proof (induction es arbitrary: ps)
  case (Cons e es)
  show ?case
    by (cases "cv_policy_id e") (auto simp: Cons.IH give_back_def update_where_def)
qed (simp add: map_idI)

definition same_limits :: "budget_policy \<Rightarrow> budget_policy \<Rightarrow> bool" where
  "same_limits p q \<longleftrightarrow> bp_id q = bp_id p \<and> bp_company_id q = bp_company_id p \<and> bp_scope_type q = bp_scope_type p \<and>
     bp_scope_id q = bp_scope_id p \<and> bp_metric q = bp_metric p \<and> bp_amount q = bp_amount p \<and>
     bp_hard_stop_enabled q = bp_hard_stop_enabled p \<and> bp_is_active q = bp_is_active p"

lemma returned_same: "same_limits p (returned now es p) \<and> bp_spent_cents (returned now es p) = bp_spent_cents p"
proof (induction es arbitrary: p)
  case (Cons e es)
  then show ?case by (auto simp: same_limits_def return_hold_def)
qed (simp add: same_limits_def)

lemma returned_reserved:
  assumes "holds_positive es" and "\<forall>e \<in> set es. cv_status e = CostReserved" and "held_in (bp_id p) es \<le> bp_reserved_cents p"
  shows "bp_reserved_cents (returned now es p) = bp_reserved_cents p - held_in (bp_id p) es"
  using assms
proof (induction es arbitrary: p)
  case (Cons e es)
  have pos: "holds_positive es" "0 \<le> cv_cost_cents e" using Cons.prems(1,2) by (auto simp: holds_positive_def)
  note n = held_in_nonneg [OF pos(1)]
  show ?case
  proof (cases "0 < cv_cost_cents e \<and> cv_policy_id e = Some (bp_id p)")
    case True
    let ?q = "return_hold now (cv_cost_cents e) p"
    have r: "bp_reserved_cents ?q = bp_reserved_cents p - cv_cost_cents e"
      using True Cons.prems(2,3) n [of "bp_id p"] by (simp add: return_hold_def)
    then have "bp_reserved_cents (returned now es ?q) = bp_reserved_cents ?q - held_in (bp_id ?q) es"
      using Cons.IH [OF pos(1), of ?q] Cons.prems True by simp
    with True r Cons.prems(2) show ?thesis by simp
  next
    case False
    with pos(2) have "cv_policy_id e = Some (bp_id p) \<Longrightarrow> cv_cost_cents e = 0" by auto
    then have "held_in (bp_id p) (e # es) = held_in (bp_id p) es" by auto
    moreover have "returned now (e # es) p = returned now es p" using False by auto
    ultimately show ?thesis using Cons.prems(2,3) Cons.IH [OF pos(1), of p] by simp
  qed
qed simp

section \<open>The system\<close>

text \<open>
  Callers run the operations in any order, each with identifiers nobody used. \<open>bw_overrun\<close> sums,
  per policy, what committed calls cost above their holds.
\<close>

record budget_world =
  bw_db :: budget_db
  bw_overrun :: "uuid \<Rightarrow> int"

definition fresh_in :: "uuid \<Rightarrow> budget_db \<Rightarrow> bool" where
  "fresh_in i db \<longleftrightarrow> i \<notin> cv_id ` set (bd_events db)"

definition overrun_of :: "uuid \<Rightarrow> int \<Rightarrow> budget_db \<Rightarrow> uuid \<Rightarrow> int" where
  "overrun_of rid cost db pid =
    (case find_reserved rid db of
       None \<Rightarrow> 0
     | Some e \<Rightarrow> if cv_policy_id e = Some pid then max 0 (max 0 cost - cv_cost_cents e) else 0)"

inductive budget_step :: "budget_world \<Rightarrow> budget_world \<Rightarrow> bool" where
  check: "check_budget now ty sid amount company (bw_db w) = (db', c) \<Longrightarrow> budget_step w (w\<lparr>bw_db := db'\<rparr>)"
| record_it: "fresh_in eid (bw_db w) \<Longrightarrow> record_cost eid now entry pid (bw_db w) = (db', r) \<Longrightarrow>
    budget_step w (w\<lparr>bw_db := db'\<rparr>)"
| hold: "fresh_in eid (bw_db w) \<Longrightarrow> reserve eid now a estimate ty sid (bw_db w) = (db', ok, e, c) \<Longrightarrow>
    budget_step w (w\<lparr>bw_db := db'\<rparr>)"
| commit: "commit_reservation now rid cost inp out m (bw_db w) = (db', ok) \<Longrightarrow>
    budget_step w \<lparr>bw_db = db', bw_overrun = (\<lambda>i. bw_overrun w i + overrun_of rid cost (bw_db w) i)\<rparr>"
| release: "release_reservation now rid (bw_db w) = (db', ok) \<Longrightarrow> budget_step w (w\<lparr>bw_db := db'\<rparr>)"
| reap: "reap_expired_reservations now company (bw_db w) = (db', n) \<Longrightarrow> budget_step w (w\<lparr>bw_db := db'\<rparr>)"

text \<open>At the start there are policies within their limits and no holds.\<close>

definition budget_start :: "budget_world \<Rightarrow> bool" where
  "budget_start w \<longleftrightarrow> bd_events (bw_db w) = [] \<and> bw_overrun w = (\<lambda>_. 0) \<and>
     distinct (map bp_id (bd_policies (bw_db w))) \<and>
     (\<forall>p \<in> set (bd_policies (bw_db w)). bp_reserved_cents p = 0 \<and> 0 \<le> bp_spent_cents p \<and> bp_spent_cents p \<le> bp_amount p)"

inductive budget_reachable :: "budget_world \<Rightarrow> bool" where
  start: "budget_start w \<Longrightarrow> budget_reachable w"
| more: "budget_reachable w \<Longrightarrow> budget_step w w' \<Longrightarrow> budget_reachable w'"

definition policy_ok :: "(uuid \<Rightarrow> int) \<Rightarrow> cost_event list \<Rightarrow> budget_policy \<Rightarrow> bool" where
  "policy_ok over es p \<longleftrightarrow> bp_reserved_cents p = held_in (bp_id p) es \<and> 0 \<le> bp_spent_cents p \<and>
     (bp_hard_stop_enabled p \<longrightarrow> bp_spent_cents p + bp_reserved_cents p \<le> bp_amount p + over (bp_id p))"

definition binv :: "(uuid \<Rightarrow> int) \<Rightarrow> budget_db \<Rightarrow> bool" where
  "binv over db \<longleftrightarrow> distinct (map bp_id (bd_policies db)) \<and> distinct (map cv_id (bd_events db)) \<and>
     holds_positive (bd_events db) \<and> (\<forall>i. 0 \<le> over i) \<and>
     (\<forall>p \<in> set (bd_policies db). policy_ok over (bd_events db) p)"

lemma binvD:
  assumes "binv over db"
  shows "distinct (map bp_id (bd_policies db))" "distinct (map cv_id (bd_events db))" "holds_positive (bd_events db)"
    "0 \<le> over i" "p \<in> set (bd_policies db) \<Longrightarrow> policy_ok over (bd_events db) p"
  using assms by (auto simp: binv_def)

text \<open>Every operation rewrites each policy on its own.\<close>

lemma binv_rewrite:
  assumes "binv over db" and "bd_policies db' = map g (bd_policies db)" and "\<And>p. bp_id (g p) = bp_id p"
    and "distinct (map cv_id (bd_events db'))" and "holds_positive (bd_events db')" and "\<And>i. 0 \<le> over' i"
    and "\<And>p. p \<in> set (bd_policies db) \<Longrightarrow> policy_ok over' (bd_events db') (g p)"
  shows "binv over' db'"
proof -
  have "map bp_id (bd_policies db') = map bp_id (bd_policies db)" using assms(2,3) by simp
  then have "distinct (map bp_id (bd_policies db'))" using binvD(1) [OF assms(1)] by simp
  then show ?thesis using assms(2,4-7) by (auto simp: binv_def)
qed

lemma binv_reap:
  assumes "binv over db"
  shows "binv over (fst (reap_expired_reservations now company db))"
proof (cases "select_expired now company db = []")
  case True
  with assms show ?thesis by (simp add: reap_expired_reservations_def reap_selected_def)
next
  case False
  let ?P = "expired_hold now company" and ?es = "bd_events db"
  let ?sel = "filter ?P ?es" and ?es' = "update_where ?P released_vals ?es"
  have db': "fst (reap_expired_reservations now company db) =
      \<lparr>bd_policies = map (returned now ?sel) (bd_policies db), bd_events = ?es'\<rparr>"
    using False by (simp add: reap_expired_reservations_def reap_selected_def select_expired_def give_back_all_map Let_def)
  have pos: "holds_positive ?sel" using binvD(3) [OF assms] by (auto simp: holds_positive_def)
  have res: "\<forall>e \<in> set ?sel. cv_status e = CostReserved" by (auto simp: expired_hold_def)
  have ids: "map cv_id ?es' = map cv_id ?es" by (simp add: update_where_def released_vals_def)
  have pos': "holds_positive ?es'" using binvD(3) [OF assms] by (auto simp: holds_positive_def update_where_def released_vals_def)
  have "policy_ok over ?es' (returned now ?sel p)" if p: "p \<in> set (bd_policies db)" for p
  proof -
    note ok = binvD(5) [OF assms p]
    have le: "held_in (bp_id p) ?sel \<le> bp_reserved_cents p"
      using ok held_in_filter_le [OF binvD(3) [OF assms]] by (simp add: policy_ok_def)
    have h: "held_in (bp_id p) ?es' = held_in (bp_id p) ?es - held_in (bp_id p) ?sel"
      by (rule held_in_settled) (simp add: released_vals_def)
    show ?thesis
      using ok returned_reserved [OF pos res le, of now] returned_same [of p now ?sel] h held_in_nonneg [OF pos, of "bp_id p"]
      by (auto simp: policy_ok_def same_limits_def)
  qed
  then show ?thesis
    using binv_rewrite [OF assms, of "fst (reap_expired_reservations now company db)" "returned now ?sel" over]
      returned_same ids pos' binvD(2,4) [OF assms] unfolding db' by (simp add: same_limits_def)
qed

lemma binv_roll:
  assumes "binv over db" and "roll_window now p db = (p', db')"
  shows "binv over db'" and "bd_events db' = bd_events db"
proof -
  let ?start = "calculate_window_start (bp_window_kind p) now"
  obtain P f where pf: "bd_policies db' = update_where P f (bd_policies db)" "bd_events db' = bd_events db"
    and f: "\<And>q. bp_id (f q) = bp_id q \<and> bp_reserved_cents (f q) = bp_reserved_cents q \<and> bp_amount (f q) = bp_amount q \<and>
      bp_hard_stop_enabled (f q) = bp_hard_stop_enabled q \<and> bp_spent_cents (f q) \<in> {0, bp_spent_cents q}"
  proof (cases "bp_window_started_at p")
    case None
    with assms(2) that [of "\<lambda>q. bp_id q = bp_id p" "\<lambda>q. q\<lparr>bp_window_started_at := Some ?start\<rparr>"] show ?thesis
      by (auto simp: roll_window_def Let_def)
  next
    case (Some w)
    show ?thesis
    proof (cases "w < ?start")
      case True
      with Some assms(2) that [of "roll_guard (bp_id p) ?start"
          "\<lambda>q. q\<lparr>bp_spent_cents := 0, bp_window_started_at := Some ?start, bp_updated_at := now\<rparr>"] show ?thesis
        by (auto simp: roll_window_def Let_def)
    next
      case False
      with Some assms(2) that [of "\<lambda>_. False" id] show ?thesis
        by (auto simp: roll_window_def Let_def update_where_def)
    qed
  qed
  show "bd_events db' = bd_events db" by (rule pf)
  show "binv over db'"
  proof (rule binv_rewrite [OF assms(1), of db' "\<lambda>q. if P q then f q else q"])
    show "bd_policies db' = map (\<lambda>q. if P q then f q else q) (bd_policies db)" using pf by (simp add: update_where_def)
    show "policy_ok over (bd_events db') (if P q then f q else q)" if "q \<in> set (bd_policies db)" for q
      using binvD(5) [OF assms(1) that] f [of q] pf(2) by (auto simp: policy_ok_def)
  qed (use pf(2) f binvD [OF assms(1)] in auto)
qed

lemma binv_check:
  assumes "binv over db" and "check_budget now ty sid amount company db = (db', c)"
  shows "binv over db'"
proof -
  let ?db1 = "fst (reap_expired_reservations now company db)"
  note b = binv_reap [OF assms(1), of now company]
  have "db' = ?db1 \<or> (\<exists>p p'. roll_window now p ?db1 = (p', db'))"
    using assms(2) by (auto simp: check_budget_def Let_def split: if_splits option.splits prod.splits)
  then show ?thesis using b binv_roll(1) [OF b] by auto
qed

lemma check_events:
  assumes "check_budget now ty sid amount company db = (db', c)"
  shows "map cv_id (bd_events db') = map cv_id (bd_events db)"
proof -
  have "map cv_id (bd_events (fst (reap_expired_reservations now company db))) = map cv_id (bd_events db)"
    by (auto simp: reap_expired_reservations_def reap_selected_def Let_def update_where_def released_vals_def)
  moreover have "bd_events (snd (roll_window now p db1)) = bd_events db1" for p db1
    by (simp add: roll_window_def Let_def split: option.splits)
  ultimately show ?thesis
    using assms by (auto simp: check_budget_def Let_def split: if_splits option.splits prod.splits) (metis snd_conv)
qed

lemma binv_hold_on:
  assumes "binv over db" and "eid \<notin> cv_id ` set (bd_events db)" and "0 \<le> amt"
    and "hold_on eid now a amt c db = (db', ok, e, c')"
  shows "binv over db'"
proof -
  consider "db' = db" | pid where "bc_policy_id c = Some pid" "amt = 0" "bd_policies db' = bd_policies db"
      "bd_events db' = bd_events db @ [new_hold eid now a pid amt]"
    | pid where "bc_policy_id c = Some pid" "0 < amt" "0 < matching (hold_guard pid amt) (bd_policies db)"
      "bd_policies db' = update_where (hold_guard pid amt) (hold_vals now amt) (bd_policies db)"
      "bd_events db' = bd_events db @ [new_hold eid now a pid amt]"
    using assms(3,4) by (auto simp: hold_on_def Let_def split: option.splits if_splits)
  then show ?thesis
  proof cases
    case 1
    with assms(1) show ?thesis by simp
  next
    case (2 pid)
    show ?thesis
    proof (rule binv_rewrite [OF assms(1), of db' id])
      show "policy_ok over (bd_events db') (id p)" if "p \<in> set (bd_policies db)" for p
        using binvD(5) [OF assms(1) that] 2 by (auto simp: policy_ok_def new_hold_def)
    qed (use 2 assms binvD [OF assms(1)] in \<open>auto simp: new_hold_def holds_positive_def\<close>)
  next
    case (3 pid)
    let ?g = "\<lambda>p. if hold_guard pid amt p then hold_vals now amt p else p"
    obtain r where r: "r \<in> set (bd_policies db)" "hold_guard pid amt r"
      using 3(3) by (auto simp: matching_def filter_empty_conv)
    show ?thesis
    proof (rule binv_rewrite [OF assms(1), of db' ?g])
      show "policy_ok over (bd_events db') (?g p)" if p: "p \<in> set (bd_policies db)" for p
      proof (cases "bp_id p = pid")
        case True
        then have "p = r" using same_key_same_row [OF binvD(1) [OF assms(1)] p r(1)] r(2) by (simp add: hold_guard_def)
        with r(2) binvD(5) [OF assms(1) p] binvD(4) [OF assms(1), of pid] 3 True show ?thesis
          by (auto simp: policy_ok_def hold_vals_def new_hold_def hold_guard_def)
      next
        case False
        with binvD(5) [OF assms(1) p] 3 show ?thesis by (auto simp: policy_ok_def new_hold_def hold_guard_def)
      qed
    qed (use 3 assms binvD [OF assms(1)] in \<open>auto simp: new_hold_def holds_positive_def hold_vals_def update_where_def\<close>)
  qed
qed

lemma binv_reserve:
  assumes "binv over db" and "fresh_in eid db" and "reserve eid now a estimate ty sid db = (db', ok, e, c)"
  shows "binv over db'"
proof -
  obtain db1 c1 target where c1: "check_budget now ty target estimate (Some (rv_company_id a)) db = (db1, c1)"
      "db' = db1 \<or> hold_on eid now a (max 0 estimate) c1 db1 = (db', ok, e, c)"
    using assms(3) by (auto simp: reserve_def Let_def split: prod.splits if_splits)
  have "eid \<notin> cv_id ` set (bd_events db1)"
    using assms(2) check_events [OF c1(1)] unfolding fresh_in_def by (metis list.set_map)
  then show ?thesis using binv_check [OF assms(1) c1(1)] c1(2) binv_hold_on [of over db1 eid "max 0 estimate"] by auto
qed

lemma binv_append:
  assumes "binv over db" and "cv_id e \<notin> cv_id ` set (bd_events db)" and "cv_status e \<noteq> CostReserved"
    and "bd_policies db' = bd_policies db" and "bd_events db' = bd_events db @ [e]"
  shows "binv over db'"
proof (rule binv_rewrite [OF assms(1), of db' id])
  show "policy_ok over (bd_events db') (id p)" if "p \<in> set (bd_policies db)" for p
    using binvD(5) [OF assms(1) that] assms(3,5) by (auto simp: policy_ok_def)
qed (use assms binvD [OF assms(1)] in \<open>auto simp: holds_positive_def\<close>)

text \<open>After a roll the caller's copy has the counters of the row.\<close>

lemma roll_row:
  assumes "distinct (map bp_id (bd_policies db))" and "p \<in> set (bd_policies db)"
    and "roll_window now p db = (p', db')" and "q \<in> set (bd_policies db')" and "bp_id q = bp_id p"
  shows "bp_spent_cents q = bp_spent_cents p' \<and> bp_reserved_cents q = bp_reserved_cents p' \<and>
    bp_amount q = bp_amount p' \<and> bp_hard_stop_enabled q = bp_hard_stop_enabled p'"
proof -
  have only: "r = p" if "r \<in> set (bd_policies db)" "bp_id r = bp_id p" for r
    using same_key_same_row [OF assms(1) that(1) assms(2)] that(2) by simp
  let ?start = "calculate_window_start (bp_window_kind p) now"
  show ?thesis
  proof (cases "bp_window_started_at p")
    case None
    with assms(3) have r: "p' = p\<lparr>bp_window_started_at := Some ?start\<rparr>"
        "bd_policies db' = update_where (\<lambda>q. bp_id q = bp_id p) (\<lambda>q. q\<lparr>bp_window_started_at := Some ?start\<rparr>) (bd_policies db)"
      by (auto simp: roll_window_def Let_def)
    from assms(4) obtain x where x: "x \<in> set (bd_policies db)"
        "q = (if bp_id x = bp_id p then x\<lparr>bp_window_started_at := Some ?start\<rparr> else x)"
      unfolding r(2) in_update_where by blast
    then have "x = p" using only [of x] assms(5) by (simp split: if_splits)
    with x(2) r(1) show ?thesis by simp
  next
    case (Some w)
    show ?thesis
    proof (cases "w < ?start")
      case True
      with Some assms(3) have r: "p' = p\<lparr>bp_spent_cents := 0, bp_window_started_at := Some ?start\<rparr>"
          "bd_policies db' = update_where (roll_guard (bp_id p) ?start)
             (\<lambda>q. q\<lparr>bp_spent_cents := 0, bp_window_started_at := Some ?start, bp_updated_at := now\<rparr>) (bd_policies db)"
        by (auto simp: roll_window_def Let_def)
      have "roll_guard (bp_id p) ?start p" using Some True by (simp add: roll_guard_def)
      from assms(4) obtain x where x: "x \<in> set (bd_policies db)"
          "q = (if roll_guard (bp_id p) ?start x
                then x\<lparr>bp_spent_cents := 0, bp_window_started_at := Some ?start, bp_updated_at := now\<rparr> else x)"
        unfolding r(2) in_update_where by blast
      then have "x = p" using only [of x] assms(5) by (simp split: if_splits)
      with x(2) r(1) \<open>roll_guard (bp_id p) ?start p\<close> show ?thesis by simp
    next
      case False
      with Some assms(3) have "p' = p" "db' = db" by (auto simp: roll_window_def Let_def)
      with assms(4,5) only show ?thesis by auto
    qed
  qed
qed

lemma binv_record:
  assumes "binv over db" and "fresh_in eid db" and "record_cost eid now entry pid db = (db', r)"
  shows "binv over db'"
proof -
  have fresh: "eid \<notin> cv_id ` set (bd_events db)" using assms(2) by (simp add: fresh_in_def)
  have e: "cv_id (new_cost eid now entry x) = eid" "cv_status (new_cost eid now entry x) = CostCommitted" for x
    by (simp_all add: new_cost_def)
  show ?thesis
  proof (cases "target_policy (cy_company_id entry) pid (bd_policies db)")
    case None
    with assms(3) fresh e show ?thesis
      by (intro binv_append [OF assms(1), of "new_cost eid now entry None"]) (auto simp: record_cost_def Let_def)
  next
    case (Some p)
    then have p: "p \<in> set (bd_policies db)"
      by (auto simp: target_policy_def split: option.splits dest: find_SomeD)
    show ?thesis
    proof (cases "cy_cost_cents entry \<le> 0")
      case True
      with Some assms(3) fresh e show ?thesis
        by (intro binv_append [OF assms(1), of "new_cost eid now entry (Some (bp_id p))"]) (auto simp: record_cost_def Let_def)
    next
      case False
      obtain p' db1 where roll: "roll_window now p db = (p', db1)" by fastforce
      note b1 = binv_roll [OF assms(1) roll]
      show ?thesis
      proof (cases "bp_hard_stop_enabled p' \<and> bp_amount p' < bp_spent_cents p' + bp_reserved_cents p' + cy_cost_cents entry")
        case True
        with Some False roll assms(3) have "db' = db1" by (simp add: record_cost_def Let_def)
        with b1 show ?thesis by simp
      next
        case fits: False
        let ?g = "\<lambda>q. if bp_id q = bp_id p then q\<lparr>bp_spent_cents := bp_spent_cents q + cy_cost_cents entry, bp_updated_at := now\<rparr> else q"
        let ?e = "new_cost eid now entry (Some (bp_id p))"
        have db': "bd_policies db' = map ?g (bd_policies db1)" "bd_events db' = bd_events db1 @ [?e]"
          using Some False roll fits assms(3) by (auto simp: record_cost_def Let_def update_where_def)
        show ?thesis
        proof (rule binv_rewrite [OF b1(1) db'(1)])
          show "policy_ok over (bd_events db') (?g q)" if q: "q \<in> set (bd_policies db1)" for q
          proof (cases "bp_id q = bp_id p")
            case True
            from roll_row [OF binvD(1) [OF assms(1)] p roll q True] fits False binvD(5) [OF b1(1) q] binvD(4) [OF assms(1), of "bp_id p"] True
            show ?thesis using db'(2) e by (auto simp: policy_ok_def)
          next
            case False
            with binvD(5) [OF b1(1) q] db'(2) e show ?thesis by (auto simp: policy_ok_def)
          qed
        qed (use db' fresh e b1 binvD [OF b1(1)] in \<open>auto simp: holds_positive_def\<close>)
      qed
    qed
  qed
qed

text \<open>Settling a hold: the events lose it, its policy's counter loses its cents.\<close>

lemma settle_hold:
  assumes "binv over db" and "find_reserved rid db = Some e"
    and f: "\<And>x. cv_status (f x) \<noteq> CostReserved \<and> cv_id (f x) = cv_id x"
    and "bd_events db' = update_where (\<lambda>x. cv_id x = rid \<and> cv_status x = CostReserved) f (bd_events db)"
  shows "distinct (map cv_id (bd_events db'))" and "holds_positive (bd_events db')" and "0 \<le> cv_cost_cents e"
    and "held_in pid (bd_events db') = held_in pid (bd_events db) - (if cv_policy_id e = Some pid then cv_cost_cents e else 0)"
    and "cv_policy_id e = Some pid \<Longrightarrow> cv_cost_cents e \<le> held_in pid (bd_events db)"
proof -
  let ?P = "\<lambda>x. cv_id x = rid \<and> cv_status x = CostReserved"
  have find: "find ?P (bd_events db) = Some e" using assms(2) by (simp add: find_reserved_def)
  then have e: "e \<in> set (bd_events db)" "cv_status e = CostReserved" using find_SomeD by fastforce+
  have m: "map cv_id (bd_events db') = map cv_id (bd_events db)" using assms(4) f by (simp add: map_update_where)
  then show "distinct (map cv_id (bd_events db'))" using binvD(2) [OF assms(1)] by metis
  show "holds_positive (bd_events db')"
    using binvD(3) [OF assms(1)] f assms(4) by (auto simp: holds_positive_def in_update_where)
  show "0 \<le> cv_cost_cents e" using binvD(3) [OF assms(1)] e by (auto simp: holds_positive_def)
  note one = held_in_one [OF binvD(2) [OF assms(1)] find]
  show "held_in pid (bd_events db') = held_in pid (bd_events db) - (if cv_policy_id e = Some pid then cv_cost_cents e else 0)"
    using held_in_settled [of ?P f pid "bd_events db"] f one [of pid] assms(4) by simp
  show "cv_policy_id e = Some pid \<Longrightarrow> cv_cost_cents e \<le> held_in pid (bd_events db)"
    using held_in_filter_le [OF binvD(3) [OF assms(1)], of pid ?P] one [of pid] by simp
qed

lemma binv_release:
  assumes "binv over db" and "release_reservation now rid db = (db', ok)"
  shows "binv over db'"
proof (cases "find_reserved rid db")
  case None
  with assms show ?thesis by (simp add: release_reservation_def)
next
  case (Some e)
  let ?g = "\<lambda>p. if 0 < cv_cost_cents e \<and> cv_policy_id e = Some (bp_id p) then return_hold now (cv_cost_cents e) p else p"
  have db': "bd_policies db' = map ?g (bd_policies db)"
      "bd_events db' = update_where (\<lambda>x. cv_id x = rid \<and> cv_status x = CostReserved) released_vals (bd_events db)"
    using Some assms(2) by (auto simp: release_reservation_def give_back_def update_where_def split: option.splits)
  note s = settle_hold [OF assms(1) Some _ db'(2)]
  have rv: "cv_status (released_vals x) \<noteq> CostReserved \<and> cv_id (released_vals x) = cv_id x" for x by (simp add: released_vals_def)
  show ?thesis
  proof (rule binv_rewrite [OF assms(1) db'(1)])
    show "policy_ok over (bd_events db') (?g p)" if p: "p \<in> set (bd_policies db)" for p
      using binvD(5) [OF assms(1) p] s(3) [OF rv] s(4,5) [OF rv, of "bp_id p"] by (auto simp: policy_ok_def return_hold_def)
  qed (use s(1,2) [OF rv] binvD(4) [OF assms(1)] in auto)
qed

lemma binv_commit:
  assumes "binv over db" and "commit_reservation now rid cost inp out m db = (db', ok)"
  shows "binv (\<lambda>i. over i + overrun_of rid cost db i) db'"
proof (cases "find_reserved rid db")
  case None
  with assms show ?thesis by (simp add: commit_reservation_def overrun_of_def)
next
  case (Some e)
  let ?g = "\<lambda>p. if cv_policy_id e = Some (bp_id p) then charge now (cv_cost_cents e) (max 0 cost) p else p"
  have db': "bd_policies db' = map ?g (bd_policies db)"
      "bd_events db' = update_where (\<lambda>x. cv_id x = rid \<and> cv_status x = CostReserved) (commit_vals cost inp out m) (bd_events db)"
    using Some assms(2) by (auto simp: commit_reservation_def update_where_def split: option.splits)
  note s = settle_hold [OF assms(1) Some _ db'(2)]
  have cv: "cv_status (commit_vals cost inp out m x) \<noteq> CostReserved \<and> cv_id (commit_vals cost inp out m x) = cv_id x" for x
    by (simp add: commit_vals_def)
  show ?thesis
  proof (rule binv_rewrite [OF assms(1) db'(1)])
    show "policy_ok (\<lambda>i. over i + overrun_of rid cost db i) (bd_events db') (?g p)" if p: "p \<in> set (bd_policies db)" for p
      using binvD(5) [OF assms(1) p] s(3) [OF cv] s(4,5) [OF cv, of "bp_id p"] Some
      by (auto simp: policy_ok_def charge_def return_hold_def overrun_of_def)
    show "0 \<le> over i + overrun_of rid cost db i" for i
      using binvD(4) [OF assms(1), of i] by (simp add: overrun_of_def split: option.splits)
  qed (use s(1,2) [OF cv] in \<open>auto simp: charge_def\<close>)
qed

lemma binv_step: "budget_step w w' \<Longrightarrow> binv (bw_overrun w) (bw_db w) \<Longrightarrow> binv (bw_overrun w') (bw_db w')"
proof (induction rule: budget_step.induct)
  case (check now ty sid amount company w db' c)
  from binv_check [OF check(2) check(1)] show ?case by simp
next
  case (record_it eid w now entry pid db' r)
  from binv_record [OF record_it(3) record_it(1,2)] show ?case by simp
next
  case (hold eid w now a estimate ty sid db' ok e c)
  from binv_reserve [OF hold(3) hold(1,2)] show ?case by simp
next
  case (commit now rid cost inp out m w db' ok)
  from binv_commit [OF commit(2,1)] show ?case by simp
next
  case (release now rid w db' ok)
  from binv_release [OF release(2,1)] show ?case by simp
next
  case (reap now company w db' n)
  then show ?case using binv_reap [of "bw_overrun w" "bw_db w" now company] by simp
qed

lemma budget_reachable_inv: "budget_reachable w \<Longrightarrow> binv (bw_overrun w) (bw_db w)"
proof (induction rule: budget_reachable.induct)
  case (start w)
  then show ?case by (auto simp: budget_start_def binv_def policy_ok_def holds_positive_def)
next
  case (more w w')
  from binv_step [OF more(2) more(3)] show ?case .
qed

text \<open>
  C36: the budget wall. After any sequence of checks, holds, commits, releases, recorded costs and
  reap passes, each of which runs to its end before the next begins, the reserved counter of every
  policy is the sum of its holds that are neither settled nor reaped (expired ones included), and
  a hard-stop policy is exceeded by at most what committed calls cost above what they held.
  Overlapping reaps (\<open>concurrent_reaps_return_a_hold_twice\<close>) and a reconciliation of the counters
  (\<open>reconciled_hold_is_returned_again\<close>) are not among these calls, and break it.
\<close>

theorem budget_never_overcommitted:
  assumes "budget_reachable w" and "p \<in> set (bd_policies (bw_db w))"
  shows "bp_reserved_cents p = held_in (bp_id p) (bd_events (bw_db w)) \<and> 0 \<le> bp_reserved_cents p \<and>
    (bp_hard_stop_enabled p \<longrightarrow>
       bp_spent_cents p + held_in (bp_id p) (bd_events (bw_db w)) \<le> bp_amount p + bw_overrun w (bp_id p))"
  using binvD(5) [OF budget_reachable_inv [OF assms(1)] assms(2)] held_in_nonneg [OF binvD(3) [OF budget_reachable_inv [OF assms(1)]]]
  by (auto simp: policy_ok_def)

section \<open>Where the ledger lets go\<close>

text \<open>
  A late call is free. If a hold expired and was reaped before its call settled, committing
  it reports failure and changes nothing: what the call cost is recorded neither on its event nor
  on the policy.
\<close>

theorem late_commit_records_nothing:
  assumes "binv over db" and "e \<in> set (bd_events db)" and "cv_status e = CostReserved"
    and "cv_expires_at e = Some t" and "t \<le> now"
  shows "commit_reservation later (cv_id e) cost inp out m (fst (reap_expired_reservations now (Some (cv_company_id e)) db)) =
    (fst (reap_expired_reservations now (Some (cv_company_id e)) db), False)"
proof -
  let ?P = "expired_hold now (Some (cv_company_id e))"
  let ?db1 = "fst (reap_expired_reservations now (Some (cv_company_id e)) db)"
  have ex: "?P e" using assms(3-5) by (simp add: expired_hold_def)
  then have "filter ?P (bd_events db) \<noteq> []" using assms(2) by (auto simp: filter_empty_conv)
  then have ev: "bd_events ?db1 = update_where ?P released_vals (bd_events db)"
    by (simp add: reap_expired_reservations_def reap_selected_def select_expired_def Let_def)
  have "\<not> (cv_id x = cv_id e \<and> cv_status x = CostReserved)" if x: "x \<in> set (bd_events ?db1)" for x
  proof
    assume a: "cv_id x = cv_id e \<and> cv_status x = CostReserved"
    obtain y where y: "y \<in> set (bd_events db)" "x = (if ?P y then released_vals y else y)"
      using x unfolding ev in_update_where by blast
    have "cv_id y = cv_id e" using a y(2) by (simp add: released_vals_def split: if_splits)
    then have "y = e" using same_key_same_row [OF binvD(2) [OF assms(1)] y(1) assms(2)] by simp
    with a y(2) ex show False by (simp add: released_vals_def)
  qed
  then have "find_reserved (cv_id e) ?db1 = None" by (auto simp: find_reserved_def find_None_iff)
  then show ?thesis by (simp add: commit_reservation_def)
qed

text \<open>
  Two passes give one hold back twice. Let a policy hold something expired, and let two
  reaps select it before either of them writes. The second one gives the same cents back again,
  so the counter falls below the holds that are still live, by as much as the expired hold
  (down to zero), and that much can be reserved above the limit.
\<close>

theorem concurrent_reaps_return_a_hold_twice:
  assumes "binv over db" and "select_expired now company db = [e]" and "0 < cv_cost_cents e"
    and "p \<in> set (bd_policies db)" and "cv_policy_id e = Some (bp_id p)"
  shows "\<exists>q \<in> set (bd_policies (reap_selected now company [e] (reap_selected now company [e] db))). bp_id q = bp_id p \<and>
    bp_reserved_cents q = max 0 (held_in (bp_id p)
      (bd_events (reap_selected now company [e] (reap_selected now company [e] db))) - cv_cost_cents e)"
proof -
  let ?db1 = "reap_selected now company [e] db" and ?P = "expired_hold now company"
  let ?db2 = "reap_selected now company [e] ?db1" and ?r = "return_hold now (cv_cost_cents e)"
  have sel: "filter ?P (bd_events db) = [e]" using assms(2) by (simp add: select_expired_def)
  then have "?P e" using filter_set [of ?P "bd_events db"] by force
  then have st: "cv_status e = CostReserved" by (simp add: expired_hold_def)
  have ev1: "bd_events ?db1 = update_where ?P released_vals (bd_events db)" by (simp add: reap_selected_def)
  have h1: "held_in (bp_id p) (bd_events ?db1) = held_in (bp_id p) (bd_events db) - cv_cost_cents e"
    using held_in_settled [of ?P released_vals "bp_id p" "bd_events db"] sel assms(5) st
    by (simp add: ev1 released_vals_def)
  have "\<not> ?P x" if x: "x \<in> set (bd_events ?db1)" for x
  proof -
    obtain y where "y \<in> set (bd_events db)" "x = (if ?P y then released_vals y else y)"
      using x unfolding ev1 in_update_where by blast
    then show ?thesis by (cases "?P y") (simp_all add: expired_hold_def released_vals_def)
  qed
  then have ev2: "bd_events ?db2 = bd_events ?db1" by (auto simp: reap_selected_def intro: update_where_none)
  have res: "bp_reserved_cents p = held_in (bp_id p) (bd_events db)" "cv_cost_cents e \<le> held_in (bp_id p) (bd_events db)"
    using binvD(5) [OF assms(1,4)] held_in_filter_le [OF binvD(3) [OF assms(1)], of "bp_id p" ?P] sel assms(5) st
    by (auto simp: policy_ok_def)
  have "bd_policies ?db2 = map (returned now [e]) (map (returned now [e]) (bd_policies db))"
    unfolding reap_selected_def give_back_all_map by simp
  moreover have "?r (?r p) = returned now [e] (returned now [e] p)" using assms(3,5) by simp
  ultimately have "?r (?r p) \<in> set (bd_policies ?db2)" using assms(4) by (metis (no_types, lifting) image_eqI list.set_map)
  moreover have "bp_reserved_cents (?r (?r p)) = max 0 (held_in (bp_id p) (bd_events ?db2) - cv_cost_cents e)"
    using res h1 ev2 by (simp add: return_hold_def)
  ultimately show ?thesis by (intro bexI [of _ "?r (?r p)"]) simp_all
qed

text \<open>
  A soft limit stops calls all the same. For a policy without hard stop the check allows any
  amount, but the conditional update of the reservation still asks for room, so a call that does
  not fit is refused.
\<close>

theorem soft_limit_refuses_holds:
  assumes "distinct (map bp_id (bd_policies db))" and "p \<in> set (bd_policies db)" and "\<not> bp_hard_stop_enabled p"
    and "0 < amt" and "bp_amount p < bp_spent_cents p + bp_reserved_cents p + amt"
  shows "bc_allowed (judge amt p) \<and> (\<exists>c. hold_on eid now a amt (judge amt p) db = (db, False, None, c))"
proof -
  have "\<not> hold_guard (bp_id p) amt q" if "q \<in> set (bd_policies db)" for q
    using same_key_same_row [OF assms(1) that assms(2)] assms(5) by (auto simp: hold_guard_def)
  then have "matching (hold_guard (bp_id p) amt) (bd_policies db) = 0" by (simp add: matching_0_iff)
  moreover have "bc_policy_id (judge amt p) = Some (bp_id p)" "bc_allowed (judge amt p)" using assms(3) by (simp_all add: judge_def Let_def)
  ultimately show ?thesis using assms(4) by (simp add: hold_on_def)
qed

section \<open>Concrete inputs\<close>

definition small_policy :: budget_policy where
  "small_policy = \<lparr>bp_id = 7, bp_company_id = 1, bp_scope_type = ''company'', bp_scope_id = 1, bp_metric = ''cost_cents'',
     bp_window_kind = ''daily'', bp_amount = 100, bp_spent_cents = 40, bp_reserved_cents = 0, bp_warn_percent = 80,
     bp_hard_stop_enabled = True, bp_is_active = True, bp_window_started_at = Some 0, bp_updated_at = 0\<rparr>"

definition small_args :: reserve_args where
  "small_args = \<lparr>rv_company_id = 1, rv_agent_id = None, rv_provider = ''openai'', rv_model = None, rv_ttl_seconds = 900\<rparr>"

definition small_world :: budget_world where
  "small_world = \<lparr>bw_db = \<lparr>bd_policies = [small_policy], bd_events = []\<rparr>, bw_overrun = (\<lambda>_. 0)\<rparr>"

definition held_world :: budget_world where
  "held_world = small_world\<lparr>bw_db := fst (reserve 9 5 small_args 50 ''company'' None (bw_db small_world))\<rparr>"

definition held_policy :: budget_policy where
  "held_policy = small_policy\<lparr>bp_reserved_cents := 50, bp_updated_at := 5\<rparr>"

definition held_event :: cost_event where
  "held_event = new_hold 9 5 small_args 7 50"

lemma held_simps:
  "bp_id held_policy = 7" "bp_reserved_cents held_policy = 50" "bp_spent_cents held_policy = 40" "bp_amount held_policy = 100"
  "bp_hard_stop_enabled held_policy" "cv_id held_event = 9" "cv_company_id held_event = 1" "cv_policy_id held_event = Some 7"
  "cv_status held_event = CostReserved" "cv_cost_cents held_event = 50" "cv_expires_at held_event = Some 900000005"
  by (simp_all add: held_policy_def held_event_def small_policy_def new_hold_def small_args_def seconds_def)

lemma held_world_db: "bw_db held_world = \<lparr>bd_policies = [held_policy],
    bd_events = [held_event]\<rparr>"
  by code_simp

lemma held_world_reachable: "budget_reachable held_world"
proof -
  have "budget_reachable small_world"
    by (rule budget_reachable.start) (simp add: budget_start_def small_world_def small_policy_def)
  moreover obtain ok e c where "reserve 9 5 small_args 50 ''company'' None (bw_db small_world) =
      (fst (reserve 9 5 small_args 50 ''company'' None (bw_db small_world)), ok, e, c)" by (metis prod.collapse)
  then have "budget_step small_world held_world"
    unfolding held_world_def by (intro budget_step.hold) (simp_all add: fresh_in_def small_world_def)
  ultimately show ?thesis by (rule budget_reachable.more)
qed

lemma held_world_inv: "binv (\<lambda>_. 0) (bw_db held_world)"
  using budget_reachable_inv [OF held_world_reachable] by (simp add: held_world_def small_world_def)

theorem budget_never_overcommitted_witness:
  "bp_reserved_cents held_policy = held_in 7 (bd_events (bw_db held_world)) \<and>
    bp_spent_cents held_policy + held_in 7 (bd_events (bw_db held_world)) \<le> bp_amount held_policy"
  using budget_never_overcommitted [OF held_world_reachable, of held_policy] held_world_db
  by (simp add: held_simps held_world_def small_world_def)

theorem late_commit_records_nothing_witness:
  "snd (commit_reservation 999999999 9 30 0 0 None
     (fst (reap_expired_reservations 900000005 (Some 1) (bw_db held_world)))) = False"
  using late_commit_records_nothing [OF held_world_inv, of held_event 900000005 900000005 999999999 30 0 0 None]
  by (simp add: held_world_db held_simps)

theorem concurrent_reaps_return_a_hold_twice_witness:
  "\<exists>q \<in> set (bd_policies (reap_selected 900000005 None [held_event]
      (reap_selected 900000005 None [held_event] (bw_db held_world)))). bp_id q = 7"
  using concurrent_reaps_return_a_hold_twice [OF held_world_inv, of 900000005 None held_event
      held_policy]
  by (auto simp: held_world_db select_expired_def expired_hold_def held_simps)

theorem soft_limit_refuses_holds_witness:
  "bc_allowed (judge 70 (small_policy\<lparr>bp_hard_stop_enabled := False\<rparr>)) \<and>
    fst (snd (hold_on 9 5 small_args 70 (judge 70 (small_policy\<lparr>bp_hard_stop_enabled := False\<rparr>))
      \<lparr>bd_policies = [small_policy\<lparr>bp_hard_stop_enabled := False\<rparr>], bd_events = []\<rparr>)) = False"
  using soft_limit_refuses_holds [of "\<lparr>bd_policies = [small_policy\<lparr>bp_hard_stop_enabled := False\<rparr>], bd_events = []\<rparr>"
      "small_policy\<lparr>bp_hard_stop_enabled := False\<rparr>" 70 9 5 small_args]
  by (auto simp: small_policy_def)

text \<open>
  A reconciliation counts live holds only, so an expired hold that no pass has reaped leaves the
  counter; the pass that reaps it later takes its cents from the counter once more, and the counter
  no longer covers the hold that is still live.
\<close>

definition two_holds :: budget_db where
  "two_holds =
    (let db0 = \<lparr>bd_policies = [small_policy\<lparr>bp_spent_cents := 0\<rparr>], bd_events = []\<rparr>;
         db1 = fst (reserve 9 5 small_args 50 ''company'' None db0)
     in fst (reserve 10 600000000 small_args 30 ''company'' None db1))"

definition reconciled_holds :: budget_db where
  "reconciled_holds = fst (reconcile_budget_counters 900000006 (Some 1) two_holds)"

definition reaped_holds :: budget_db where
  "reaped_holds = fst (reap_expired_reservations 900000006 (Some 1) reconciled_holds)"

lemma two_holds_counter: "map bp_reserved_cents (bd_policies two_holds) = [80] \<and> held_in 7 (bd_events two_holds) = 80"
  unfolding held_in_def by (rule conjI) code_simp+

theorem reconciled_hold_is_returned_again:
  "map bp_reserved_cents (bd_policies reconciled_holds) = [30] \<and> held_in 7 (bd_events reconciled_holds) = 80 \<and>
   map bp_reserved_cents (bd_policies reaped_holds) = [0] \<and> held_in 7 (bd_events reaped_holds) = 30"
  unfolding held_in_def by (intro conjI) code_simp+

end
