(* ===== verification/Work_Spec.thy ===== *)
theory Work_Spec
  imports Prelude
begin

text \<open>
  The work spec and report contract of \<open>src/nexus/runtime/task_attempts.py\<close>: safe relative
  paths, the validators of \<open>VerificationStep\<close>, \<open>Criterion\<close>, \<open>WorkSpec\<close> and \<open>EmployeeReport\<close>.
  pydantic itself, which turns JSON into typed fields, is not modelled; the validators the
  classes declare and the bounds of their fields are. \<open>confidence\<close>, a float nothing reads, is
  left out of the report.
\<close>

section \<open>Relative paths\<close>

definition EXCLUDED_DIRS :: "string list" where
  "EXCLUDED_DIRS = [''.nexus'', ''.claude'']"

definition GENERATED_DIRS :: "string list" where
  "GENERATED_DIRS = [''__pycache__'', ''.pytest_cache'']"

definition REPORT_FILE :: string where
  "REPORT_FILE = ''.nexus/report.json''"

text \<open>\<open>path.split("/")\<close>, and \<open>PurePosixPath(path).parts\<close> of a path that is not absolute.\<close>

fun split_slash :: "string \<Rightarrow> string list" where
  "split_slash [] = [[]]"
| "split_slash (c # s) =
    (if c = CHR ''/'' then [] # split_slash s
     else (case split_slash s of [] \<Rightarrow> [[c]] | p # ps \<Rightarrow> (c # p) # ps))"

definition parts :: "string \<Rightarrow> string list" where
  "parts s = filter (\<lambda>p. p \<noteq> [] \<and> p \<noteq> ''.'') (split_slash s)"

definition is_absolute :: "string \<Rightarrow> bool" where
  "is_absolute s \<longleftrightarrow> (case s of [] \<Rightarrow> False | c # _ \<Rightarrow> c = CHR ''/'')"

text \<open>\<open>as_posix()\<close> of a relative path.\<close>

fun join_slash :: "string list \<Rightarrow> string" where
  "join_slash [] = []"
| "join_slash [p] = p"
| "join_slash (p # q # ps) = p @ CHR ''/'' # join_slash (q # ps)"

definition as_posix :: "string \<Rightarrow> string" where
  "as_posix s = (if parts s = [] then ''.'' else join_slash (parts s))"

definition BACKSLASH :: char where
  "BACKSLASH = CHR 0x5C"

text \<open>Whether \<open>PureWindowsPath(path).anchor\<close> is not empty: a drive, a root or a share.\<close>

definition windows_anchored :: "string \<Rightarrow> bool" where
  "windows_anchored s \<longleftrightarrow>
    (case s of [] \<Rightarrow> False
     | c # t \<Rightarrow> c = CHR ''/'' \<or> c = BACKSLASH \<or> (case t of [] \<Rightarrow> False | d # _ \<Rightarrow> d = CHR '':''))"

definition CONTROL_CHARS :: "char list" where
  "CONTROL_CHARS = [CHR 0x00, CHR 0x0D, CHR 0x0A]"

text \<open>
  \<open>NotSafe\<close> is the \<open>ValueError\<close>. \<open>NoParts\<close> is the \<open>IndexError\<close> of \<open>rel.parts[0]\<close>, which a path
  such as \<open>"."\<close> reaches: it has no parts.
\<close>

datatype path_error = NotSafe | NoParts

definition relative :: "string list \<Rightarrow> string \<Rightarrow> path_error + string" where
  "relative excluded path =
    (let rel = map (\<lambda>c. if c = BACKSLASH then CHR ''/'' else c) path
     in if path = [] \<or> 300 < length path \<or> is_absolute rel \<or> windows_anchored path \<or>
           ''..'' \<in> set (parts rel) \<or> take 1 path = ''-'' \<or> list_ex (\<lambda>c. c \<in> set CONTROL_CHARS) path
        then Inl NotSafe
        else (case parts rel of
                [] \<Rightarrow> Inl NoParts
              | p # _ \<Rightarrow> if p \<in> set excluded then Inl NotSafe else Inr (as_posix rel)))"

text \<open>Every path of a list field; the \<open>IndexError\<close> leaves the validation at once.\<close>

definition rel_paths :: "string list \<Rightarrow> path_error + string list" where
  "rel_paths ps =
    (let rs = map (relative EXCLUDED_DIRS) ps
     in if Inl NoParts \<in> set rs then Inl NoParts
        else if Inl NotSafe \<in> set rs then Inl NotSafe
        else Inr (map projr rs))"

definition is_work :: "string \<Rightarrow> bool" where
  "is_work path \<longleftrightarrow> (case parts path of
      [] \<Rightarrow> False
    | p # ps \<Rightarrow> p \<notin> set EXCLUDED_DIRS \<and> \<not> list_ex (\<lambda>q. q \<in> set GENERATED_DIRS) (p # ps))"

definition file_kind :: "string \<Rightarrow> string" where
  "file_kind rel =
    (let name = (if parts rel = [] then [] else last (parts rel))
     in if starts_with ''tests/'' rel \<or> starts_with ''test_'' name \<or> ends_with ''_test.py'' name then ''test''
        else if list_ex (\<lambda>e. ends_with e name) [''.md'', ''.rst'', ''.txt''] then ''doc''
        else if list_ex (\<lambda>e. ends_with e name)
          [''.py'', ''.ts'', ''.tsx'', ''.js'', ''.go'', ''.rs'', ''.java'', ''.c'', ''.h'', ''.cpp''] then ''source''
        else ''other'')"

section \<open>Specs\<close>

datatype work_mode = WriteMode | ReadOnlyMode | TextMode

datatype check_command = Pytest | PyCompile

fun command_text :: "check_command \<Rightarrow> string" where
  "command_text Pytest = ''pytest''"
| "command_text PyCompile = ''py_compile''"

record verification_step =
  vs_command :: check_command
  vs_paths :: "string list"

datatype criterion_kind = FileExists | CommandPasses | PatternCount | ReportContains

fun kind_text :: "criterion_kind \<Rightarrow> string" where
  "kind_text FileExists = ''file_exists''"
| "kind_text CommandPasses = ''command_passes''"
| "kind_text PatternCount = ''pattern_count''"
| "kind_text ReportContains = ''report_contains''"

record criterion =
  cr_kind :: criterion_kind
  cr_path :: "string option"
  cr_command :: "check_command option"
  cr_pattern :: "string option"
  cr_min_count :: int
  cr_text :: "string option"

record work_spec =
  ws_mode :: work_mode
  ws_repository_id :: "uuid option"
  ws_base_ref :: string
  ws_expected_deliverable :: "string option"
  ws_max_deliverable_chars :: "int option"
  ws_max_attempts :: "int option"
  ws_review_of_task_id :: "uuid option"
  ws_objective :: "string option"
  ws_deliverables :: "string list"
  ws_verification :: "verification_step list"
  ws_acceptance_criteria :: "criterion list"
  ws_timeout_seconds :: int

definition MAX_DELIVERABLE_CHARS :: int where
  "MAX_DELIVERABLE_CHARS = 4000"

definition DEFAULT_MAX_ATTEMPTS :: int where
  "DEFAULT_MAX_ATTEMPTS = 2"

definition max_attempts :: "work_spec \<Rightarrow> int" where
  "max_attempts s = (case ws_max_attempts s of None \<Rightarrow> DEFAULT_MAX_ATTEMPTS
     | Some n \<Rightarrow> if n = 0 then DEFAULT_MAX_ATTEMPTS else n)"

text \<open>\<open>InvalidSpec\<close> is the answer 422 \<open>INVALID_WORK_SPEC\<close>, \<open>SpecCrash\<close> the escaped \<open>IndexError\<close>.\<close>

datatype spec_error = InvalidSpec string | SpecCrash

definition has_text :: "string option \<Rightarrow> bool" where
  "has_text x \<longleftrightarrow> (case x of None \<Rightarrow> False | Some s \<Rightarrow> s \<noteq> [])"

text \<open>\<open>min_length=lo, max_length=hi\<close> of an optional text, \<open>ge=lo, le=hi\<close> of an optional number.\<close>

definition text_in :: "nat \<Rightarrow> nat \<Rightarrow> string option \<Rightarrow> bool" where
  "text_in lo hi x \<longleftrightarrow> (case x of None \<Rightarrow> True | Some s \<Rightarrow> lo \<le> length s \<and> length s \<le> hi)"

definition int_in :: "int \<Rightarrow> int \<Rightarrow> int option \<Rightarrow> bool" where
  "int_in lo hi x \<longleftrightarrow> (case x of None \<Rightarrow> True | Some n \<Rightarrow> lo \<le> n \<and> n \<le> hi)"

definition check_step :: "verification_step \<Rightarrow> spec_error + verification_step" where
  "check_step s =
    (case rel_paths (vs_paths s) of
       Inl NoParts \<Rightarrow> Inl SpecCrash
     | Inl NotSafe \<Rightarrow> Inl (InvalidSpec ''not a safe relative path'')
     | Inr ps \<Rightarrow>
         if 20 < length ps then Inl (InvalidSpec ''too many paths'')
         else if vs_command s = PyCompile \<and> ps = [] then Inl (InvalidSpec ''py_compile needs at least one path'')
         else Inr (s\<lparr>vs_paths := ps\<rparr>))"

definition criterion_gaps :: "criterion \<Rightarrow> string list" where
  "criterion_gaps c =
    (let path = (if cr_path c = None then [''path''] else []);
         pattern = (if cr_pattern c = None then [''pattern''] else [])
     in case cr_kind c of
          FileExists \<Rightarrow> path
        | CommandPasses \<Rightarrow> (if cr_command c = None then [''command''] else [])
        | PatternCount \<Rightarrow> path @ pattern
        | ReportContains \<Rightarrow> (if cr_text c = None then [''text''] else []))"

definition check_criterion :: "criterion \<Rightarrow> spec_error + criterion" where
  "check_criterion c =
    (case (case cr_path c of None \<Rightarrow> Inr [] | Some p \<Rightarrow> rel_paths [p]) of
       Inl NoParts \<Rightarrow> Inl SpecCrash
     | Inl NotSafe \<Rightarrow> Inl (InvalidSpec ''not a safe relative path'')
     | Inr ps \<Rightarrow>
         if \<not> text_in 1 200 (cr_pattern c) \<or> \<not> text_in 1 200 (cr_text c) \<or> \<not> int_in 1 1000 (Some (cr_min_count c))
         then Inl (InvalidSpec ''out of bounds'')
         else if criterion_gaps c \<noteq> [] then Inl (InvalidSpec (kind_text (cr_kind c) @ '' needs a field''))
         else Inr (c\<lparr>cr_path := (case ps of [] \<Rightarrow> None | p # _ \<Rightarrow> Some p)\<rparr>))"

text \<open>A list field of models: each item is validated.\<close>

definition all_ok :: "('a \<Rightarrow> spec_error + 'a) \<Rightarrow> 'a list \<Rightarrow> spec_error + 'a list" where
  "all_ok f xs =
    (let rs = map f xs
     in if Inl SpecCrash \<in> set rs then Inl SpecCrash
        else case find isl rs of Some (Inl e) \<Rightarrow> Inl e | _ \<Rightarrow> Inr (map projr rs))"

text \<open>\<open>WorkSpec._consistent\<close>: the first rule that fails.\<close>

definition text_rules :: "work_spec \<Rightarrow> string option" where
  "text_rules s =
    (if \<not> has_text (ws_objective s) then Some ''a text task needs an objective''
     else if ws_repository_id s \<noteq> None \<or> ws_deliverables s \<noteq> [] \<or> ws_verification s \<noteq> []
     then Some ''a text task has no repository, deliverable paths or checks''
     else if ws_review_of_task_id s \<noteq> None then Some ''review_of_task_id is for read_only tasks''
     else None)"

definition write_rules :: "work_spec \<Rightarrow> string option" where
  "write_rules s =
    (if ws_deliverables s = [] then Some ''a write task needs at least one deliverable''
     else if ws_verification s = [] then Some ''a write task needs at least one verification step''
     else if ws_review_of_task_id s \<noteq> None then Some ''review_of_task_id is for read_only tasks''
     else None)"

definition stray_command :: "work_spec \<Rightarrow> check_command option" where
  "stray_command s =
    (case find (\<lambda>c. cr_kind c = CommandPasses \<and>
            (case cr_command c of None \<Rightarrow> True | Some k \<Rightarrow> k \<notin> vs_command ` set (ws_verification s)))
          (ws_acceptance_criteria s) of
       None \<Rightarrow> None | Some c \<Rightarrow> cr_command c)"

definition consistent :: "work_spec \<Rightarrow> string option" where
  "consistent s =
    (if take 1 (ws_base_ref s) = ''-'' \<or> list_ex is_space (ws_base_ref s) then Some ''base_ref is not a ref''
     else if ws_mode s = TextMode then text_rules s
     else if ws_repository_id s = None then Some ''a write or read_only task needs a repository_id''
     else if has_text (ws_expected_deliverable s) \<or> ws_max_deliverable_chars s \<noteq> None \<or> ws_max_attempts s \<noteq> None
     then Some ''expected_deliverable and the caps are for text tasks''
     else case (if ws_mode s = WriteMode then write_rules s
                else if ws_deliverables s \<noteq> [] then Some ''a read_only task cannot have deliverables'' else None) of
       Some e \<Rightarrow> Some e
     | None \<Rightarrow> (case stray_command s of
           Some k \<Rightarrow> Some (command_text k @ '' is not a verification step'') | None \<Rightarrow> None))"

text \<open>The bounds of the plain fields of \<open>WorkSpec\<close>.\<close>

definition fields_in_bounds :: "work_spec \<Rightarrow> bool" where
  "fields_in_bounds s \<longleftrightarrow>
    text_in 1 200 (Some (ws_base_ref s)) \<and> text_in 0 500 (ws_expected_deliverable s) \<and>
    int_in 100 MAX_DELIVERABLE_CHARS (ws_max_deliverable_chars s) \<and> int_in 1 5 (ws_max_attempts s) \<and>
    text_in 0 4000 (ws_objective s) \<and> length (ws_deliverables s) \<le> 50 \<and> length (ws_verification s) \<le> 10 \<and>
    length (ws_acceptance_criteria s) \<le> 30 \<and> int_in 30 3600 (Some (ws_timeout_seconds s))"

definition validate_spec :: "work_spec \<Rightarrow> spec_error + work_spec" where
  "validate_spec s =
    (case (rel_paths (ws_deliverables s), all_ok check_step (ws_verification s),
           all_ok check_criterion (ws_acceptance_criteria s)) of
       (Inl NoParts, _, _) \<Rightarrow> Inl SpecCrash
     | (_, Inl SpecCrash, _) \<Rightarrow> Inl SpecCrash
     | (_, _, Inl SpecCrash) \<Rightarrow> Inl SpecCrash
     | (Inl NotSafe, _, _) \<Rightarrow> Inl (InvalidSpec ''not a safe relative path'')
     | (_, Inl e, _) \<Rightarrow> Inl e
     | (_, _, Inl e) \<Rightarrow> Inl e
     | (Inr ds, Inr vs, Inr cs) \<Rightarrow>
         let s' = s\<lparr>ws_deliverables := ds, ws_verification := vs, ws_acceptance_criteria := cs\<rparr>
         in if \<not> fields_in_bounds s then Inl (InvalidSpec ''out of bounds'')
            else case consistent s' of Some e \<Rightarrow> Inl (InvalidSpec e) | None \<Rightarrow> Inr s')"

text \<open>
  What a task's \<open>work_spec\<close> column holds, as the code tells it apart: nothing, the work-order
  marker with the stamps of a finalized plan, the fields of a \<open>WorkSpec\<close>, or another JSON value
  with the text of its \<open>kind\<close> key, if it has one. A \<open>WorkSpec\<close> forbids the key \<open>kind\<close>.
\<close>

record plan_stamp =
  ps_finalized_at :: "time option"
  ps_finalized_by :: "uuid option"

datatype stored_spec = NoSpec | OrderSpec plan_stamp | ItemSpec work_spec | OtherSpec "string option"

definition is_work_order_spec :: "stored_spec \<Rightarrow> bool" where
  "is_work_order_spec s \<longleftrightarrow> (case s of OrderSpec _ \<Rightarrow> True | _ \<Rightarrow> False)"

definition parse_work_spec :: "stored_spec \<Rightarrow> spec_error + work_spec" where
  "parse_work_spec s = (case s of ItemSpec w \<Rightarrow> validate_spec w | _ \<Rightarrow> Inl (InvalidSpec ''not a work spec''))"

definition is_work_spec :: "stored_spec \<Rightarrow> bool" where
  "is_work_spec s \<longleftrightarrow> \<not> isl (parse_work_spec s)"

section \<open>Labels\<close>

text \<open>Python's \<open>repr\<close> of a text: its quotes and its escapes.\<close>

definition hex_digit :: "nat \<Rightarrow> char" where
  "hex_digit n = (if n < 10 then char_of (48 + n) else char_of (87 + n))"

definition repr_char :: "char \<Rightarrow> char \<Rightarrow> string" where
  "repr_char q c =
    (let n = of_char c :: nat
     in if c = q \<or> c = BACKSLASH then [BACKSLASH, c]
        else if n = 9 then [BACKSLASH, CHR ''t''] else if n = 10 then [BACKSLASH, CHR ''n'']
        else if n = 13 then [BACKSLASH, CHR ''r'']
        else if n < 32 \<or> 127 \<le> n \<and> n \<le> 160 \<or> n = 173 then [BACKSLASH, CHR ''x'', hex_digit (n div 16), hex_digit (n mod 16)]
        else [c])"

definition py_repr :: "string \<Rightarrow> string" where
  "py_repr s =
    (let single = CHR 0x27; double = CHR 0x22;
         q = (if single \<in> set s \<and> double \<notin> set s then double else single)
     in q # concat (map (repr_char q) s) @ [q])"

definition or_empty :: "string option \<Rightarrow> string" where
  "or_empty x = (case x of None \<Rightarrow> [] | Some s \<Rightarrow> s)"

definition criterion_label :: "criterion \<Rightarrow> string" where
  "criterion_label c =
    (case cr_kind c of
       FileExists \<Rightarrow> or_empty (cr_path c) @ '' exists''
     | CommandPasses \<Rightarrow> (case cr_command c of None \<Rightarrow> [] | Some k \<Rightarrow> command_text k) @ '' passes''
     | PatternCount \<Rightarrow> or_empty (cr_path c) @ '' contains '' @ py_repr (or_empty (cr_pattern c)) @
         '' at least '' @ show_int (cr_min_count c) @ '' times''
     | ReportContains \<Rightarrow> ''report mentions '' @ py_repr (or_empty (cr_text c)))"

section \<open>Reports\<close>

datatype report_state = RsWorking | RsBlocked | RsVerifying | RsCompleted | RsFailed

fun report_state_text :: "report_state \<Rightarrow> string" where
  "report_state_text RsWorking = ''working''"
| "report_state_text RsBlocked = ''blocked''"
| "report_state_text RsVerifying = ''verifying''"
| "report_state_text RsCompleted = ''completed''"
| "report_state_text RsFailed = ''failed''"

record employee_report =
  er_state :: report_state
  er_summary :: string
  er_progress_percent :: int
  er_current_step :: string
  er_completed_steps :: "string list"
  er_next_step :: string
  er_blockers :: "string list"
  er_artifacts :: "string list"
  er_tests_run :: "string list"
  er_needs_help :: bool
  er_eta :: "string option"

text \<open>\<open>_clip\<close> and \<open>_bounded\<close>; \<open>py_str\<close> is \<open>str\<close> of a JSON value.\<close>

definition clip_value :: "(json \<Rightarrow> string) \<Rightarrow> nat \<Rightarrow> json \<Rightarrow> json" where
  "clip_value py_str limit v =
    (case v of
       JStr s \<Rightarrow> JStr (take limit s)
     | JList vs \<Rightarrow> JList (map (\<lambda>x. JStr (take 500 (py_str x))) (take 50 vs))
     | _ \<Rightarrow> v)"

definition clamp_field :: "string \<Rightarrow> json \<Rightarrow> json" where
  "clamp_field k v =
    (case v of
       JInt n \<Rightarrow> if k = ''progress_percent'' then JInt (min (max n 0) 100)
                 else if k = ''confidence'' then JInt (min (max n 0) 1) else v
     | _ \<Rightarrow> v)"

definition bounded_report :: "(json \<Rightarrow> string) \<Rightarrow> dict \<Rightarrow> dict" where
  "bounded_report py_str d =
    map (\<lambda>(k, v). let v' = clamp_field k (clip_value py_str 2000 v)
                  in (k, if k = ''eta'' \<and> v' \<noteq> JNull then JStr (take 100 (py_str v')) else v')) d"

definition report_evidence :: "employee_report \<Rightarrow> string option" where
  "report_evidence r =
    (if er_state r = RsBlocked \<and> er_blockers r = [] then Some ''a blocked report needs a reason in blockers''
     else if er_state r = RsCompleted \<and> er_artifacts r = [] \<and> er_tests_run r = []
     then Some ''a completed report needs artifacts or tests_run''
     else None)"

text \<open>\<open>typed\<close> stands for pydantic's typing of the fields.\<close>

definition validate_report ::
  "(json \<Rightarrow> string) \<Rightarrow> (dict \<Rightarrow> string + employee_report) \<Rightarrow> dict \<Rightarrow> string + employee_report" where
  "validate_report py_str typed d =
    (case typed (bounded_report py_str d) of
       Inl e \<Rightarrow> Inl e
     | Inr r \<Rightarrow> (case report_evidence r of Some e \<Rightarrow> Inl e | None \<Rightarrow> Inr r))"

section \<open>What a validated path is\<close>

lemma split_slash_nonempty [simp]: "split_slash s \<noteq> []"
  by (cases s) (auto split: list.splits)

lemma split_slash_no_slash: "p \<in> set (split_slash s) \<Longrightarrow> CHR ''/'' \<notin> set p"
proof (induction s arbitrary: p)
  case (Cons c s)
  then show ?case by (cases "split_slash s") (auto split: if_splits)
qed simp

lemma split_slash_plain: "CHR ''/'' \<notin> set p \<Longrightarrow> split_slash p = [p]"
  by (induction p) auto

lemma split_slash_append: "CHR ''/'' \<notin> set p \<Longrightarrow> split_slash (p @ CHR ''/'' # s) = p # split_slash s"
  by (induction p) auto

lemma split_join: "ps \<noteq> [] \<Longrightarrow> \<forall>p \<in> set ps. CHR ''/'' \<notin> set p \<Longrightarrow> split_slash (join_slash ps) = ps"
  by (induction ps rule: join_slash.induct) (auto simp: split_slash_plain split_slash_append)

lemma parts_plain: "p \<in> set (parts s) \<Longrightarrow> CHR ''/'' \<notin> set p \<and> p \<noteq> [] \<and> p \<noteq> ''.''"
  using split_slash_no_slash by (auto simp: parts_def)

lemma parts_posix: "parts s \<noteq> [] \<Longrightarrow> parts (as_posix s) = parts s"
proof -
  assume ne: "parts s \<noteq> []"
  then have "split_slash (as_posix s) = parts s" using split_join [OF ne] parts_plain by (simp add: as_posix_def)
  moreover have "filter (\<lambda>p. p \<noteq> [] \<and> p \<noteq> ''.'') (parts s) = parts s" using parts_plain by (auto intro: filter_True)
  ultimately show "parts (as_posix s) = parts s" by (simp add: parts_def)
qed

lemma posix_relative: "parts s \<noteq> [] \<Longrightarrow> \<not> is_absolute (as_posix s)"
proof -
  assume ne: "parts s \<noteq> []"
  obtain p ps where p: "parts s = p # ps" using ne by (cases "parts s") auto
  moreover have "CHR ''/'' \<notin> set p" "p \<noteq> []" using parts_plain [of p s] p by auto
  ultimately show "\<not> is_absolute (as_posix s)"
    by (cases ps; cases p) (auto simp: as_posix_def is_absolute_def)
qed

lemma relative_InrD:
  assumes "relative ex p = Inr q"
  shows "parts q \<noteq> []" "''..'' \<notin> set (parts q)" "hd (parts q) \<notin> set ex" "\<not> is_absolute q"
proof -
  define rel where "rel = map (\<lambda>c. if c = BACKSLASH then CHR ''/'' else c) p"
  have r: "''..'' \<notin> set (parts rel)" "parts rel \<noteq> []" "hd (parts rel) \<notin> set ex" "q = as_posix rel"
    using assms by (auto simp: relative_def Let_def rel_def [symmetric] split: if_splits list.splits)
  then show "parts q \<noteq> []" "''..'' \<notin> set (parts q)" "hd (parts q) \<notin> set ex" "\<not> is_absolute q"
    using parts_posix posix_relative by simp_all
qed

text \<open>
  A validated path cannot leave the worktree by name. The stored form is relative, has no
  \<open>..\<close> component and does not start in an excluded directory.
\<close>

theorem validated_path_stays_inside:
  assumes "relative ex p = Inr q"
  shows "\<not> is_absolute q \<and> ''..'' \<notin> set (parts q) \<and> (\<exists>d ds. parts q = d # ds \<and> d \<notin> set ex)"
  using relative_InrD [OF assms] by (cases "parts q") auto

theorem validated_path_stays_inside_witness:
  "\<not> is_absolute ''src/a.py'' \<and> ''..'' \<notin> set (parts ''src/a.py'')"
proof -
  have "relative EXCLUDED_DIRS ''./src//a.py'' = Inr ''src/a.py''" by code_simp
  from validated_path_stays_inside [OF this] show ?thesis by auto
qed

text \<open>
  The check for options looks at the text before it is normalized. Behind \<open>./\<close> every option
  without a slash is accepted and stored without its \<open>./\<close>, so it reaches the command line of a
  verification step as an option.
\<close>

theorem dot_slash_smuggles_options:
  assumes "opt \<noteq> []" and "length opt \<le> 298" and "CHR ''/'' \<notin> set opt" and "BACKSLASH \<notin> set opt"
    and "opt \<notin> set ex" and "opt \<noteq> ''.''" and "opt \<noteq> ''..''" and "\<forall>c \<in> set opt. c \<notin> set CONTROL_CHARS"
  shows "relative ex (''./'' @ opt) = Inr opt"
proof -
  have same: "map (\<lambda>c. if c = BACKSLASH then CHR ''/'' else c) opt = opt" using assms(4) by (intro map_idI) auto
  have split: "split_slash (''./'' @ opt) = [''.'', opt]" using split_slash_append [of "''.''" opt] split_slash_plain [OF assms(3)] by simp
  have "parts (''./'' @ opt) = [opt]" using assms(1,6) by (simp only: parts_def split) simp
  moreover have "as_posix (''./'' @ opt) = opt" using calculation by (simp add: as_posix_def)
  moreover have "map (\<lambda>c. if c = BACKSLASH then CHR ''/'' else c) (''./'' @ opt) = ''./'' @ opt"
    using same by (simp add: BACKSLASH_def)
  moreover have "\<not> list_ex (\<lambda>c. c \<in> set CONTROL_CHARS) (''./'' @ opt)"
    using assms(8) by (auto simp: list_ex_iff CONTROL_CHARS_def)
  moreover have "\<not> windows_anchored (''./'' @ opt)" by (simp add: windows_anchored_def BACKSLASH_def)
  ultimately show ?thesis
    using assms(2,5,7) unfolding relative_def Let_def by (simp add: is_absolute_def)
qed

theorem dot_slash_smuggles_options_witness: "relative EXCLUDED_DIRS ''./--collect-only'' = Inr ''--collect-only''"
  using dot_slash_smuggles_options [of "''--collect-only''" EXCLUDED_DIRS] by (simp add: BACKSLASH_def CONTROL_CHARS_def EXCLUDED_DIRS_def)

text \<open>
  A path without parts is not refused but crashes: \<open>rel.parts[0]\<close> raises an \<open>IndexError\<close>, which
  pydantic does not turn into a validation error.
\<close>

lemma dot_path_crashes: "relative ex ''.'' = Inl NoParts"
  by code_simp

end
