(* ===== verification/Work_Rows.thy ===== *)
theory Work_Rows
  imports Chat_Turns Work_Spec
begin

text \<open>
  The rows of employee work and the one path on which they end: \<open>TaskAttempt\<close> and \<open>WorkEffect\<close>
  (\<open>src/nexus/models/task_attempt.py\<close>), \<open>Task\<close> (\<open>src/nexus/models/task.py\<close>), \<open>_finish_in\<close> and
  \<open>_finish\<close> of \<open>src/nexus/runtime/task_attempts.py\<close>, and the roll-up to the work order,
  \<open>after_terminal\<close> and \<open>_complete_if_done\<close> of \<open>src/nexus/services/work_service.py\<close>. The
  chat turns, sessions, messages, notifications and audit rows are those of \<open>Chat_Turns\<close>.
\<close>

section \<open>Tables\<close>

datatype task_status =
    TPending | TDelegated | TInProgress | TInReview | TCompleted | TFailed | TBlocked | TCancelled
  | TOther string

record task =
  tk_id :: uuid
  tk_company_id :: uuid
  tk_project_id :: "uuid option"
  tk_title :: string
  tk_description :: "string option"
  tk_status :: task_status
  tk_priority :: int
  tk_assigned_agent_id :: "uuid option"
  tk_parent_task_id :: "uuid option"
  tk_goal_id :: "uuid option"
  tk_result :: "string option"
  tk_error :: "string option"
  tk_completion_reason :: "string option"
  tk_work_spec :: stored_spec
  tk_started_at :: "time option"
  tk_completed_at :: "time option"
  tk_created_at :: time
  tk_updated_at :: time

datatype attempt_status =
    AQueued | AClaimed | ARunning | AVerifying
  | ACompleted | AFailed | ABlocked | ACancelled | AExpired

fun attempt_text :: "attempt_status \<Rightarrow> string" where
  "attempt_text AQueued = ''queued''"
| "attempt_text AClaimed = ''claimed''"
| "attempt_text ARunning = ''running''"
| "attempt_text AVerifying = ''verifying''"
| "attempt_text ACompleted = ''completed''"
| "attempt_text AFailed = ''failed''"
| "attempt_text ABlocked = ''blocked''"
| "attempt_text ACancelled = ''cancelled''"
| "attempt_text AExpired = ''expired''"

definition ACTIVE_ATTEMPT_STATUSES :: "attempt_status list" where
  "ACTIVE_ATTEMPT_STATUSES = [AQueued, AClaimed, ARunning, AVerifying]"

definition TERMINAL_ATTEMPT_STATUSES :: "attempt_status list" where
  "TERMINAL_ATTEMPT_STATUSES = [ACompleted, AFailed, ABlocked, ACancelled, AExpired]"

definition LEASED_ATTEMPT_STATUSES :: "attempt_status list" where
  "LEASED_ATTEMPT_STATUSES = [AClaimed, ARunning, AVerifying]"

text \<open>One entry of \<open>checks\<close>, and the dict stored in \<open>verification\<close>: an absent key is \<open>None\<close>.\<close>

record check_result =
  ck_check :: string
  ck_passed :: bool
  ck_detail :: string

record verification_record =
  vr_state :: "string option"
  vr_passed :: "bool option"
  vr_outcome :: "attempt_status option"
  vr_completion_reason :: "string option"
  vr_error_code :: "string option"
  vr_checks :: "check_result list"
  vr_sha256 :: "string option"
  vr_chars :: "nat option"
  vr_truncated :: "bool option"
  vr_reviewed_by :: "string option"
  vr_reviewed_at :: "time option"
  vr_verified_at :: "time option"

definition empty_record :: verification_record where
  "empty_record = \<lparr>vr_state = None, vr_passed = None, vr_outcome = None, vr_completion_reason = None,
     vr_error_code = None, vr_checks = [], vr_sha256 = None, vr_chars = None, vr_truncated = None,
     vr_reviewed_by = None, vr_reviewed_at = None, vr_verified_at = None\<rparr>"

record stored_report =
  sr_report :: employee_report
  sr_seq :: int
  sr_source :: string
  sr_received_at :: time

record attempt_snapshot =
  sn_title :: string
  sn_description :: string
  sn_work_spec :: work_spec

record artifact =
  af_path :: string
  af_type :: string
  af_sha256 :: "string option"
  af_commit :: "string option"
  af_deliverable :: bool
  af_validation :: string

record task_attempt =
  ta_id :: uuid
  ta_company_id :: uuid
  ta_task_id :: uuid
  ta_agent_id :: uuid
  ta_session_id :: "uuid option"
  ta_chat_turn_id :: "uuid option"
  ta_attempt_number :: int
  ta_idempotency_key :: label
  ta_status :: attempt_status
  ta_execution_id :: "uuid option"
  ta_workspace_id :: "uuid option"
  ta_repository_id :: "uuid option"
  ta_worktree_id :: "uuid option"
  ta_claimed_by :: "string option"
  ta_lease_expires_at :: "time option"
  ta_recoveries :: int
  ta_cancel_requested_at :: "time option"
  ta_cancelled_by :: "string option"
  ta_created_by :: "string option"
  ta_queued_at :: time
  ta_started_at :: "time option"
  ta_completed_at :: "time option"
  ta_updated_at :: time
  ta_snapshot :: attempt_snapshot
  ta_output_summary :: "string option"
  ta_completion_reason :: "string option"
  ta_error_code :: "string option"
  ta_error :: "string option"
  ta_report :: "stored_report option"
  ta_report_seq :: int
  ta_artifacts :: "artifact list"
  ta_verification :: "verification_record option"
  ta_usage :: "dict option"

datatype effect_kind = ToolInvocation | FileWriteBatch | GitCommit | PrCreate | NotificationSent

datatype effect_result = NoResult | Commit "string option" | Evidence verification_record "employee_report option" "artifact list" "dict option"

record work_effect =
  we_company_id :: uuid
  we_task_id :: "uuid option"
  we_attempt_id :: "uuid option"
  we_kind :: effect_kind
  we_effect_key :: label
  we_done :: bool
  we_result :: effect_result

text \<open>\<open>Agent\<close> with its reporting line and the backend of its \<open>adapter_config\<close>.\<close>

record employee = agent +
  em_manager_id :: "uuid option"
  em_is_ceo :: bool
  em_backend :: "string option"

record goal_row =
  gl_id :: uuid
  gl_company_id :: uuid
  gl_status :: string

record project_row =
  pj_id :: uuid
  pj_company_id :: uuid
  pj_status :: string

record repository_row =
  rp_id :: uuid
  rp_company_id :: uuid
  rp_is_active :: bool

text \<open>
  \<open>wd_releases\<close> logs the sessions handed to \<open>release_session_worktree\<close>, whose git work is not
  modelled; \<open>wd_stats\<close> is the module's counter.
\<close>

record work_db =
  wd_tasks :: "task list"
  wd_attempts :: "task_attempt list"
  wd_effects :: "work_effect list"
  wd_agents :: "employee list"
  wd_goals :: "goal_row list"
  wd_projects :: "project_row list"
  wd_repositories :: "repository_row list"
  wd_chat :: turn_db
  wd_releases :: "uuid list"
  wd_stats :: "string list"

text \<open>The wake-ups of workers are hints inside a process that change no row, and are left out.\<close>

record work_settings =
  task_attempt_lease_seconds :: int
  task_attempt_max_recoveries :: int
  task_attempt_queue_ttl_seconds :: int

definition default_work_settings :: work_settings where
  "default_work_settings = \<lparr>task_attempt_lease_seconds = 30, task_attempt_max_recoveries = 3,
     task_attempt_queue_ttl_seconds = 3600\<rparr>"

definition SYSTEM_ACTOR :: string where
  "SYSTEM_ACTOR = ''system:task-attempts''"

text \<open>The two attributes the handlers read of who acts.\<close>

record actor =
  ac_kind :: string
  ac_name :: string

text \<open>A refusal: the HTTP status and the stable code. Its message is left out.\<close>

datatype work_error = WorkError int string

section \<open>Helpers\<close>

definition attempt_scoped :: "uuid \<Rightarrow> uuid \<Rightarrow> task_attempt \<Rightarrow> bool" where
  "attempt_scoped aid cid a \<longleftrightarrow> ta_id a = aid \<and> ta_company_id a = cid"

definition get_attempt :: "uuid \<Rightarrow> uuid \<Rightarrow> work_db \<Rightarrow> task_attempt option" where
  "get_attempt cid aid db = find (attempt_scoped aid cid) (wd_attempts db)"

definition task_scoped :: "uuid \<Rightarrow> uuid \<Rightarrow> task \<Rightarrow> bool" where
  "task_scoped tid cid t \<longleftrightarrow> tk_id t = tid \<and> tk_company_id t = cid"

definition get_task :: "uuid \<Rightarrow> uuid \<Rightarrow> work_db \<Rightarrow> task option" where
  "get_task cid tid db = find (task_scoped tid cid) (wd_tasks db)"

definition on_chat :: "(turn_db \<Rightarrow> turn_db) \<Rightarrow> work_db \<Rightarrow> work_db" where
  "on_chat f db = db\<lparr>wd_chat := f (wd_chat db)\<rparr>"

definition stat :: "string \<Rightarrow> work_db \<Rightarrow> work_db" where
  "stat e db = db\<lparr>wd_stats := wd_stats db @ [e]\<rparr>"

definition attempt_audit :: "task_attempt \<Rightarrow> string \<Rightarrow> string \<Rightarrow> label \<Rightarrow> dict \<Rightarrow> work_db \<Rightarrow> work_db" where
  "attempt_audit a action actor_type who details db =
    on_chat (audit \<lparr>au_company_id = ta_company_id a, au_action = action, au_actor_type = actor_type,
       au_actor_id = Some who, au_resource_type = ''task_attempt'', au_resource_id = ta_id a,
       au_details = dict_merge
         [(''task_id'', JId (ta_task_id a)), (''agent_id'', JId (ta_agent_id a)),
          (''attempt_number'', JInt (ta_attempt_number a)),
          (''execution_id'', opt_json JId (ta_execution_id a))] details\<rparr>) db"

definition publish_attempt :: "task_attempt \<Rightarrow> dict \<Rightarrow> work_db \<Rightarrow> work_db" where
  "publish_attempt a extra db =
    on_chat (publish \<lparr>se_type = ''task.attempt'', se_company_id = ta_company_id a,
       se_payload = dict_merge
         [(''task_id'', JId (ta_task_id a)), (''attempt_id'', JId (ta_id a)),
          (''agent_id'', JId (ta_agent_id a)), (''session_id'', opt_json JId (ta_session_id a)),
          (''attempt_status'', JStr (attempt_text (ta_status a))),
          (''execution_id'', opt_json JId (ta_execution_id a)),
          (''report_seq'', JInt (ta_report_seq a))] extra\<rparr>) db"

section \<open>Work orders\<close>

definition CLOSED_STATUSES :: "task_status list" where
  "CLOSED_STATUSES = [TCompleted, TCancelled]"

definition OPEN_PARENT_STATUSES :: "task_status list" where
  "OPEN_PARENT_STATUSES = [TDelegated, TInProgress, TInReview, TPending]"

definition SUMMARY_CHARS :: nat where
  "SUMMARY_CHARS = 500"

definition is_work_order :: "task \<Rightarrow> bool" where
  "is_work_order t \<longleftrightarrow> tk_parent_task_id t = None \<and> is_work_order_spec (tk_work_spec t)"

definition is_plan_finalized :: "task \<Rightarrow> bool" where
  "is_plan_finalized t \<longleftrightarrow>
    (case tk_work_spec t of OrderSpec p \<Rightarrow> ps_finalized_at p \<noteq> None | _ \<Rightarrow> False)"

text \<open>The row an UPDATE of an order that may still close hits.\<close>

definition open_order :: "uuid \<Rightarrow> uuid \<Rightarrow> task \<Rightarrow> bool" where
  "open_order pid cid p \<longleftrightarrow> task_scoped pid cid p \<and> tk_status p \<in> set OPEN_PARENT_STATUSES \<and> is_work_order p"

definition children_of :: "uuid \<Rightarrow> uuid \<Rightarrow> work_db \<Rightarrow> task list" where
  "children_of cid pid db =
    filter (\<lambda>t. tk_parent_task_id t = Some pid \<and> tk_company_id t = cid) (wd_tasks db)"

fun join_with :: "string \<Rightarrow> string list \<Rightarrow> string" where
  "join_with sep [] = []"
| "join_with sep [s] = s"
| "join_with sep (s # t # ss) = s @ sep @ join_with sep (t # ss)"

definition NL :: string where
  "NL = [CHR 0x0A]"

definition order_result :: "task list \<Rightarrow> string" where
  "order_result rows =
    take 4000 (join_with (NL @ ''---'' @ NL) (map (\<lambda>r. take (SUMMARY_CHARS * 4) (or_empty (tk_result r))) rows))"

definition close_vals :: "time \<Rightarrow> task list \<Rightarrow> task \<Rightarrow> task" where
  "close_vals now rows t = t\<lparr>tk_status := TCompleted, tk_completion_reason := Some ''goal'',
     tk_completed_at := Some now, tk_result := text_or_none (order_result rows), tk_error := None,
     tk_updated_at := now\<rparr>"

definition complete_if_done :: "time \<Rightarrow> uuid \<Rightarrow> uuid \<Rightarrow> work_db \<Rightarrow> work_db" where
  "complete_if_done now cid pid db =
    (let rows = children_of cid pid db
     in if rows = [] \<or> list_ex (\<lambda>t. tk_status t \<noteq> TCompleted) rows then db
        else db\<lparr>wd_tasks := update_where (\<lambda>p. open_order pid cid p \<and> is_plan_finalized p)
                              (close_vals now rows) (wd_tasks db)\<rparr>)"

definition touch :: "time \<Rightarrow> task \<Rightarrow> task" where
  "touch now t = t\<lparr>tk_updated_at := now\<rparr>"

definition fail_order_vals :: "time \<Rightarrow> task_attempt \<Rightarrow> task \<Rightarrow> task" where
  "fail_order_vals now a t = t\<lparr>tk_status := TFailed, tk_completion_reason := ta_completion_reason a,
     tk_error := text_or_none (take 4000 (or_empty (str_or (ta_error a) (ta_error_code a)))),
     tk_updated_at := now\<rparr>"

definition after_terminal :: "time \<Rightarrow> task_attempt \<Rightarrow> work_db \<Rightarrow> work_db" where
  "after_terminal now a db =
    (case (case get_task (ta_company_id a) (ta_task_id a) db of None \<Rightarrow> None | Some t \<Rightarrow> tk_parent_task_id t) of
       None \<Rightarrow> db
     | Some pid \<Rightarrow>
         let open_row = open_order pid (ta_company_id a)
         in if ta_status a = ACompleted then
              (if matching open_row (wd_tasks db) = 1
               then complete_if_done now (ta_company_id a) pid
                      (db\<lparr>wd_tasks := update_where open_row (touch now) (wd_tasks db)\<rparr>)
               else db)
            else if ta_status a \<in> {AFailed, ABlocked, AExpired} \<and>
                    max_attempts (sn_work_spec (ta_snapshot a)) \<le> ta_attempt_number a
            then db\<lparr>wd_tasks := update_where open_row (fail_order_vals now a) (wd_tasks db)\<rparr>
            else db)"

section \<open>Finishing an attempt\<close>

text \<open>The arguments of \<open>_finish_in\<close>: the worker that must hold the row, further conditions, further values.\<close>

record finish =
  fi_status :: attempt_status
  fi_reason :: "string option"
  fi_worker :: "string option"
  fi_cond :: "task_attempt \<Rightarrow> bool"
  fi_vals :: "task_attempt \<Rightarrow> task_attempt"

definition finish_guard :: "uuid \<Rightarrow> uuid \<times> finish \<Rightarrow> task_attempt \<Rightarrow> bool" where
  "finish_guard aid p r \<longleftrightarrow> attempt_scoped aid (fst p) r \<and> ta_status r \<in> set ACTIVE_ATTEMPT_STATUSES \<and>
     (case fi_worker (snd p) of None \<Rightarrow> True | Some w \<Rightarrow> ta_claimed_by r = Some w) \<and> fi_cond (snd p) r"

definition finish_vals :: "time \<Rightarrow> finish \<Rightarrow> task_attempt \<Rightarrow> task_attempt" where
  "finish_vals now fi r = (fi_vals fi r)\<lparr>ta_status := fi_status fi, ta_completion_reason := fi_reason fi,
     ta_completed_at := Some now, ta_updated_at := now, ta_lease_expires_at := None\<rparr>"

fun task_outcome :: "attempt_status \<Rightarrow> task_status" where
  "task_outcome ACompleted = TCompleted"
| "task_outcome AFailed = TFailed"
| "task_outcome ABlocked = TBlocked"
| "task_outcome _ = TPending"

definition open_task :: "uuid \<Rightarrow> uuid \<Rightarrow> task \<Rightarrow> bool" where
  "open_task tid cid t \<longleftrightarrow> task_scoped tid cid t \<and> tk_status t \<notin> set CLOSED_STATUSES"

definition settled_task :: "time \<Rightarrow> task_attempt \<Rightarrow> task \<Rightarrow> task" where
  "settled_task now a t =
    (let t' = t\<lparr>tk_status := task_outcome (ta_status a), tk_updated_at := now\<rparr>
     in if ta_status a = ACompleted
        then t'\<lparr>tk_completion_reason := Some ''goal'', tk_completed_at := Some now, tk_error := None,
               tk_result := text_or_none (take 4000 (or_empty (ta_output_summary a)))\<rparr>
        else if ta_status a \<in> {AFailed, ABlocked}
        then t'\<lparr>tk_completion_reason := ta_completion_reason a, tk_completed_at := None,
               tk_error := text_or_none (take 4000 (or_empty (ta_error a)))\<rparr>
        else t'\<lparr>tk_completion_reason := None, tk_completed_at := None\<rparr>)"

definition notify_key :: "uuid \<Rightarrow> label" where
  "notify_key aid = [Txt ''notify:'', Uid aid]"

text \<open>The unique key of \<open>work_effects\<close>; a row that is refused takes its notification with it.\<close>

definition effect_free :: "uuid \<Rightarrow> label \<Rightarrow> work_effect list \<Rightarrow> bool" where
  "effect_free cid key es \<longleftrightarrow> \<not> list_ex (\<lambda>e. we_company_id e = cid \<and> we_effect_key e = key) es"

definition notify_end :: "task_attempt \<Rightarrow> work_db \<Rightarrow> work_db" where
  "notify_end a db =
    (if ta_status a \<in> {AFailed, ABlocked} \<and> effect_free (ta_company_id a) (notify_key (ta_id a)) (wd_effects db)
     then on_chat (\<lambda>c. c\<lparr>db_notifications := db_notifications c @
             [\<lparr>tn_company_id = ta_company_id a, tn_agent_id = ta_agent_id a,
               tn_title = ''Employee task attempt '' @ attempt_text (ta_status a),
               tn_description = take 500 (or_empty (str_or (ta_error a)
                 (str_or (ta_completion_reason a) (Some (attempt_text (ta_status a)))))),
               tn_type = (if ta_status a = AFailed then ''error'' else ''warning''), tn_module = ''tasks'',
               tn_priority = ''high'',
               tn_metadata = [(''task_id'', JId (ta_task_id a)), (''attempt_id'', JId (ta_id a)),
                 (''error_code'', opt_json JStr (ta_error_code a)),
                 (''completion_reason'', opt_json JStr (ta_completion_reason a))]\<rparr>]\<rparr>)
            (db\<lparr>wd_effects := wd_effects db @
               [\<lparr>we_company_id = ta_company_id a, we_task_id = Some (ta_task_id a), we_attempt_id = Some (ta_id a),
                 we_kind = NotificationSent, we_effect_key = notify_key (ta_id a), we_done = True, we_result = NoResult\<rparr>]\<rparr>)
     else db)"

definition end_session :: "time \<Rightarrow> task_attempt \<Rightarrow> work_db \<Rightarrow> work_db" where
  "end_session now a db =
    (case (if ta_status a = ACompleted then ta_session_id a else None) of
       None \<Rightarrow> db
     | Some sid \<Rightarrow>
         (case find (\<lambda>s. as_id s = sid \<and> as_company_id s = ta_company_id a) (db_sessions (wd_chat db)) of
            None \<Rightarrow> db
          | Some s \<Rightarrow>
              if as_status s \<in> set OPEN_STATUSES
              then (case transition now s SCompleted of
                      Inl _ \<Rightarrow> db
                    | Inr s' \<Rightarrow> on_chat (\<lambda>c. c\<lparr>db_sessions := update_where (\<lambda>r. as_id r = sid)
                          (\<lambda>r. r\<lparr>as_status := as_status s', as_ended_at := as_ended_at s'\<rparr>) (db_sessions c)\<rparr>)
                        (db\<lparr>wd_releases := wd_releases db @ [sid]\<rparr>))
              else db))"

definition end_audit :: "task_attempt \<Rightarrow> work_db \<Rightarrow> work_db" where
  "end_audit a db = attempt_audit a (''task.attempt_'' @ attempt_text (ta_status a))
     (if ta_status a = ACompleted then ''agent'' else ''system'') [Txt SYSTEM_ACTOR]
     [(''completion_reason'', opt_json JStr (ta_completion_reason a)),
      (''error_code'', opt_json JStr (ta_error_code a))] db"

text \<open>\<open>_finish_in\<close>: \<open>False\<close> when another transition won; its transaction is rolled back.\<close>

definition finish_in :: "time \<Rightarrow> uuid \<Rightarrow> uuid \<Rightarrow> finish \<Rightarrow> work_db \<Rightarrow> work_db \<times> bool" where
  "finish_in now cid aid fi db =
    (let g = finish_guard aid (cid, fi)
     in if matching g (wd_attempts db) \<noteq> 1 then (db, False)
        else
          let db1 = db\<lparr>wd_attempts := update_where g (finish_vals now fi) (wd_attempts db)\<rparr>
          in case get_attempt cid aid db1 of
               None \<Rightarrow> (db, False)
             | Some a \<Rightarrow>
                 let db2 = db1\<lparr>wd_tasks := update_where (open_task (ta_task_id a) (ta_company_id a))
                                 (settled_task now a) (wd_tasks db1)\<rparr>
                 in (end_session now a (notify_end a (end_audit a (after_terminal now a db2))), True))"

definition finish_attempt :: "time \<Rightarrow> uuid \<Rightarrow> uuid \<Rightarrow> finish \<Rightarrow> work_db \<Rightarrow> work_db \<times> bool" where
  "finish_attempt now cid aid fi db =
    (case finish_in now cid aid fi db of
       (db1, False) \<Rightarrow> (db, False)
     | (db1, True) \<Rightarrow>
         (case get_attempt cid aid db1 of
            None \<Rightarrow> (stat (attempt_text (fi_status fi)) db1, True)
          | Some a \<Rightarrow> (publish_attempt a [] (stat (attempt_text (fi_status fi)) db1), True)))"

definition plain_finish :: "attempt_status \<Rightarrow> string option \<Rightarrow> string option \<Rightarrow> (task_attempt \<Rightarrow> bool) \<Rightarrow>
    (task_attempt \<Rightarrow> task_attempt) \<Rightarrow> finish" where
  "plain_finish st reason w cond vals =
    \<lparr>fi_status = st, fi_reason = reason, fi_worker = w, fi_cond = cond, fi_vals = vals\<rparr>"

end
