(* ===== verification/Task_Attempts.thy ===== *)
theory Task_Attempts
  imports Work_Rows
begin

text \<open>
  The operations on task attempts, \<open>src/nexus/runtime/task_attempts.py\<close>: start, cancel, retry,
  claim, lease, release, recovery, the effect ledger and progress reports. An operation that
  reads a row in one statement and writes it in a later one takes what it read as an argument
  of its second half, so the system of \<open>Work_System\<close> can let other transactions commit in
  between.
\<close>

section \<open>Starting\<close>

text \<open>A backend of the CLI registry: whether it can execute, and the work modes it has flags for.\<close>

record backend_info =
  bi_execution_supported :: bool
  bi_work_modes :: "string list"

fun mode_text :: "work_mode \<Rightarrow> string" where
  "mode_text WriteMode = ''write''"
| "mode_text ReadOnlyMode = ''read_only''"
| "mode_text TextMode = ''text''"

definition UNASSIGNABLE_AGENT_STATUSES :: "string list" where
  "UNASSIGNABLE_AGENT_STATUSES = [''terminated'', ''archived'', ''paused'']"

definition check_employee :: "(string \<Rightarrow> backend_info option) \<Rightarrow> employee \<Rightarrow> work_mode \<Rightarrow> work_error option" where
  "check_employee registry e mode =
    (if mode = TextMode
     then (if ag_status e \<in> set UNASSIGNABLE_AGENT_STATUSES then Some (WorkError 422 ''EMPLOYEE_UNAVAILABLE'') else None)
     else case (if has_text (em_backend e) then registry (or_empty (em_backend e)) else None) of
            None \<Rightarrow> Some (WorkError 422 ''EMPLOYEE_NOT_CLI'')
          | Some info \<Rightarrow>
              if ag_adapter_type e \<noteq> Some ''cli'' \<or> \<not> bi_execution_supported info \<or>
                 mode_text mode \<notin> set (bi_work_modes info)
              then Some (WorkError 422 ''EMPLOYEE_NOT_CLI'') else None)"

definition by_key :: "uuid \<Rightarrow> uuid \<Rightarrow> label \<Rightarrow> work_db \<Rightarrow> task_attempt option" where
  "by_key cid tid key db =
    find (\<lambda>a. ta_company_id a = cid \<and> ta_task_id a = tid \<and> ta_idempotency_key a = key) (wd_attempts db)"

definition active_attempt :: "uuid \<Rightarrow> uuid \<Rightarrow> work_db \<Rightarrow> task_attempt option" where
  "active_attempt cid tid db =
    find (\<lambda>a. ta_company_id a = cid \<and> ta_task_id a = tid \<and> ta_status a \<in> set ACTIVE_ATTEMPT_STATUSES) (wd_attempts db)"

definition get_employee :: "uuid \<Rightarrow> uuid \<Rightarrow> work_db \<Rightarrow> employee option" where
  "get_employee cid eid db = find (\<lambda>e. ag_id e = eid \<and> ag_company_id e = cid) (wd_agents db)"

definition last_number :: "uuid \<Rightarrow> uuid \<Rightarrow> work_db \<Rightarrow> int" where
  "last_number cid tid db =
    foldr (\<lambda>a n. if ta_company_id a = cid \<and> ta_task_id a = tid then max (ta_attempt_number a) n else n) (wd_attempts db) 0"

text \<open>\<open>st_key\<close> is the caller's idempotency key, empty when it gave none; \<open>st_id\<close> and \<open>st_hex\<close> are fresh.\<close>

record start_request =
  st_task_id :: uuid
  st_actor :: actor
  st_agent_id :: "uuid option"
  st_key :: label
  st_details :: dict
  st_id :: uuid
  st_hex :: label

definition new_attempt :: "time \<Rightarrow> uuid \<Rightarrow> start_request \<Rightarrow> task \<Rightarrow> work_spec \<Rightarrow> uuid \<Rightarrow> int \<Rightarrow> task_attempt" where
  "new_attempt now cid rq t spec agent number =
    \<lparr>ta_id = st_id rq, ta_company_id = cid, ta_task_id = tk_id t, ta_agent_id = agent, ta_session_id = None,
     ta_chat_turn_id = None, ta_attempt_number = number + 1,
     ta_idempotency_key = (if st_key rq = [] then st_hex rq else st_key rq), ta_status = AQueued,
     ta_execution_id = None, ta_workspace_id = None, ta_repository_id = ws_repository_id spec,
     ta_worktree_id = None, ta_claimed_by = None, ta_lease_expires_at = None, ta_recoveries = 0,
     ta_cancel_requested_at = None, ta_cancelled_by = None, ta_created_by = Some (ac_name (st_actor rq)),
     ta_queued_at = now, ta_started_at = None, ta_completed_at = None, ta_updated_at = now,
     ta_snapshot = \<lparr>sn_title = take 500 (tk_title t), sn_description = take 4000 (or_empty (tk_description t)),
       sn_work_spec = spec\<rparr>,
     ta_output_summary = None, ta_completion_reason = None, ta_error_code = None, ta_error = None,
     ta_report = None, ta_report_seq = 0, ta_artifacts = [], ta_verification = None, ta_usage = None\<rparr>"

datatype start_plan = Refused work_error | Attached task_attempt | Candidate task_attempt

fun spec_refusal :: "spec_error \<Rightarrow> work_error" where
  "spec_refusal (InvalidSpec _) = WorkError 422 ''INVALID_WORK_SPEC''"
| "spec_refusal SpecCrash = WorkError 500 ''IndexError''"

text \<open>The last checks of a start: who works, whether it can, and how often it was tried.\<close>

definition plan_number :: "(string \<Rightarrow> backend_info option) \<Rightarrow> time \<Rightarrow> uuid \<Rightarrow> start_request \<Rightarrow> task \<Rightarrow> work_spec \<Rightarrow>
    uuid \<Rightarrow> work_db \<Rightarrow> start_plan" where
  "plan_number registry now cid rq t spec assigned db =
    (if (case st_agent_id rq of None \<Rightarrow> False | Some a \<Rightarrow> a \<noteq> assigned) then Refused (WorkError 409 ''EMPLOYEE_NOT_ASSIGNED'')
     else case get_employee cid assigned db of
       None \<Rightarrow> Refused (WorkError 404 ''AGENT_NOT_FOUND'')
     | Some e \<Rightarrow>
         (case check_employee registry e (ws_mode spec) of
            Some err \<Rightarrow> Refused err
          | None \<Rightarrow>
              let number = last_number cid (tk_id t) db
              in if ws_mode spec = TextMode \<and> max_attempts spec \<le> number
                 then Refused (WorkError 409 ''ATTEMPTS_EXHAUSTED'')
                 else Candidate (new_attempt now cid rq t spec assigned number)))"

definition plan_start :: "(string \<Rightarrow> backend_info option) \<Rightarrow> time \<Rightarrow> uuid \<Rightarrow> start_request \<Rightarrow> work_db \<Rightarrow> start_plan" where
  "plan_start registry now cid rq db =
    (case get_task cid (st_task_id rq) db of
       None \<Rightarrow> Refused (WorkError 404 ''TASK_NOT_FOUND'')
     | Some t \<Rightarrow>
       if tk_work_spec t = NoSpec then Refused (WorkError 422 ''TASK_NOT_WORK'')
       else if is_work_order_spec (tk_work_spec t) then Refused (WorkError 409 ''WORK_ORDER_NOT_EXECUTABLE'')
       else case parse_work_spec (tk_work_spec t) of
         Inl e \<Rightarrow> Refused (spec_refusal e)
       | Inr spec \<Rightarrow>
         (case (if st_key rq = [] then None else by_key cid (st_task_id rq) (st_key rq) db) of
            Some a \<Rightarrow> Attached a
          | None \<Rightarrow>
            (case active_attempt cid (st_task_id rq) db of
               Some a \<Rightarrow>
                 if (case st_agent_id rq of None \<Rightarrow> False | Some g \<Rightarrow> g \<noteq> ta_agent_id a)
                 then Refused (WorkError 409 ''ATTEMPT_ACTIVE'') else Attached a
             | None \<Rightarrow>
                 if tk_status t = TCompleted then Refused (WorkError 409 ''TASK_ALREADY_COMPLETED'')
                 else case tk_assigned_agent_id t of
                   None \<Rightarrow> Refused (WorkError 409 ''TASK_NOT_ASSIGNED'')
                 | Some assigned \<Rightarrow> plan_number registry now cid rq t spec assigned db)))"

text \<open>The unique indexes of \<open>task_attempts\<close>, the partial one over active rows included.\<close>

definition attempt_fits :: "task_attempt list \<Rightarrow> task_attempt \<Rightarrow> bool" where
  "attempt_fits as n \<longleftrightarrow> \<not> list_ex (\<lambda>a. ta_id a = ta_id n \<or>
     (ta_task_id a = ta_task_id n \<and>
       (ta_attempt_number a = ta_attempt_number n \<or>
        ta_company_id a = ta_company_id n \<and> ta_idempotency_key a = ta_idempotency_key n \<or>
        ta_status a \<in> set ACTIVE_ATTEMPT_STATUSES \<and> ta_status n \<in> set ACTIVE_ATTEMPT_STATUSES))) as"

definition insert_attempt :: "start_request \<Rightarrow> task_attempt \<Rightarrow> work_db \<Rightarrow> work_db \<times> (work_error + task_attempt \<times> bool)" where
  "insert_attempt rq n db =
    (if \<not> attempt_fits (wd_attempts db) n then
       (db, case (if st_key rq = [] then None else by_key (ta_company_id n) (ta_task_id n) (st_key rq) db) of
          Some a \<Rightarrow> Inr (a, False)
        | None \<Rightarrow> (case active_attempt (ta_company_id n) (ta_task_id n) db of
             Some a \<Rightarrow> Inr (a, False)
           | None \<Rightarrow> Inl (WorkError 409 ''ATTEMPT_CONFLICT'')))
     else
       (publish_attempt n [] (stat ''queued''
          (attempt_audit n ''task.attempt_queued'' (ac_kind (st_actor rq)) [Txt (ac_name (st_actor rq))] (st_details rq)
            (db\<lparr>wd_attempts := wd_attempts db @ [n]\<rparr>))), Inr (n, True)))"

definition start_attempt :: "(string \<Rightarrow> backend_info option) \<Rightarrow> time \<Rightarrow> uuid \<Rightarrow> start_request \<Rightarrow> work_db \<Rightarrow>
    work_db \<times> (work_error + task_attempt \<times> bool)" where
  "start_attempt registry now cid rq db =
    (case plan_start registry now cid rq db of
       Refused e \<Rightarrow> (db, Inl e)
     | Attached a \<Rightarrow> (db, Inr (a, False))
     | Candidate n \<Rightarrow> insert_attempt rq n db)"

section \<open>Cancelling and retrying\<close>

definition CANCELLED_CODE :: "string option" where
  "CANCELLED_CODE = Some ''CANCELLED''"

definition cancel_now :: "time \<Rightarrow> string \<Rightarrow> task_attempt \<Rightarrow> task_attempt" where
  "cancel_now now who r = r\<lparr>ta_cancel_requested_at := Some now, ta_cancelled_by := Some who, ta_error_code := CANCELLED_CODE\<rparr>"

text \<open>Ends the attempt \<open>a\<close> where it stands: still in the status it was read in, and held by nobody.\<close>

definition cancel_finish :: "time \<Rightarrow> string \<Rightarrow> attempt_status \<Rightarrow> finish" where
  "cancel_finish now who st = plain_finish ACancelled (Some ''cancelled'') None
     (\<lambda>r. ta_status r = st \<and> ta_claimed_by r = None) (cancel_now now who)"

definition cancel_request_guard :: "uuid \<Rightarrow> uuid \<Rightarrow> task_attempt \<Rightarrow> bool" where
  "cancel_request_guard aid cid r \<longleftrightarrow> attempt_scoped aid cid r \<and> ta_status r \<in> set ACTIVE_ATTEMPT_STATUSES \<and>
     ta_cancel_requested_at r = None"

definition cancel_request_vals :: "time \<Rightarrow> string \<Rightarrow> task_attempt \<Rightarrow> task_attempt" where
  "cancel_request_vals now who r = r\<lparr>ta_cancel_requested_at := Some now, ta_cancelled_by := Some who, ta_updated_at := now\<rparr>"

text \<open>\<open>cancel_attempt\<close> after it read the unfinished row \<open>a\<close>; the turn's own cancellation comes last.\<close>

definition cancel_read :: "time \<Rightarrow> task_attempt \<Rightarrow> actor \<Rightarrow> work_db \<Rightarrow> work_db" where
  "cancel_read now a who db =
    (case (if ta_status a = AQueued \<or> ta_status a = AVerifying \<and> ta_claimed_by a = None
           then finish_in now (ta_company_id a) (ta_id a) (cancel_finish now (ac_name who) (ta_status a)) db
           else (db, False)) of
       (db1, True) \<Rightarrow>
         (case get_attempt (ta_company_id a) (ta_id a) db1 of None \<Rightarrow> db1 | Some f \<Rightarrow> publish_attempt f [] db1)
     | (db1, False) \<Rightarrow>
         let db2 = db\<lparr>wd_attempts := update_where (cancel_request_guard (ta_id a) (ta_company_id a))
                        (cancel_request_vals now (ac_name who)) (wd_attempts db)\<rparr>
         in case get_attempt (ta_company_id a) (ta_id a) db2 of
              None \<Rightarrow> db
            | Some f \<Rightarrow>
                let db3 = attempt_audit f ''task.attempt_cancel_requested'' (ac_kind who) [Txt (ac_name who)] [] db2
                in publish_attempt f [] (case (ta_chat_turn_id f, ta_session_id f) of
                     (Some turn, Some sid) \<Rightarrow>
                       on_chat (\<lambda>c. fst (request_cancel now (ta_company_id a) sid turn (ac_name who) c)) db3
                   | _ \<Rightarrow> db3))"

definition cancel_attempt :: "time \<Rightarrow> uuid \<Rightarrow> uuid \<Rightarrow> uuid \<Rightarrow> actor \<Rightarrow> work_db \<Rightarrow> work_db \<times> (work_error + task_attempt option)" where
  "cancel_attempt now cid tid aid who db =
    (case get_attempt cid aid db of
       None \<Rightarrow> (db, Inl (WorkError 404 ''ATTEMPT_NOT_FOUND''))
     | Some a \<Rightarrow>
         if ta_task_id a \<noteq> tid then (db, Inl (WorkError 404 ''ATTEMPT_NOT_FOUND''))
         else if ta_status a \<in> set TERMINAL_ATTEMPT_STATUSES then (db, Inr (Some a))
         else let db' = cancel_read now a who db in (db', Inr (get_attempt cid aid db')))"

definition retry_attempt :: "(string \<Rightarrow> backend_info option) \<Rightarrow> time \<Rightarrow> uuid \<Rightarrow> uuid \<Rightarrow> start_request \<Rightarrow> work_db \<Rightarrow>
    work_db \<times> (work_error + task_attempt \<times> bool)" where
  "retry_attempt registry now cid aid rq db =
    (case get_attempt cid aid db of
       None \<Rightarrow> (db, Inl (WorkError 404 ''ATTEMPT_NOT_FOUND''))
     | Some a \<Rightarrow>
         if ta_task_id a \<noteq> st_task_id rq then (db, Inl (WorkError 404 ''ATTEMPT_NOT_FOUND''))
         else
           let key = (if st_key rq = [] then [Txt ''retry:'', Uid (ta_id a)] else st_key rq)
           in if ta_attempt_number a \<noteq> last_number cid (st_task_id rq) db
              then (db, case by_key cid (st_task_id rq) key db of
                     Some e \<Rightarrow> Inr (e, False) | None \<Rightarrow> Inl (WorkError 409 ''ATTEMPT_NOT_LATEST''))
              else if ta_status a \<in> set ACTIVE_ATTEMPT_STATUSES then (db, Inl (WorkError 409 ''ATTEMPT_ACTIVE''))
              else if ta_status a \<notin> {AFailed, ABlocked, ACancelled, AExpired}
              then (db, Inl (WorkError 409 ''ATTEMPT_NOT_RETRYABLE''))
              else start_attempt registry now cid (rq\<lparr>st_agent_id := None, st_key := key, st_details := []\<rparr>) db)"

section \<open>Claim and lease\<close>

definition attempt_claim_guard :: "uuid \<Rightarrow> uuid \<Rightarrow> task_attempt \<Rightarrow> bool" where
  "attempt_claim_guard aid cid r \<longleftrightarrow> attempt_scoped aid cid r \<and> ta_status r = AQueued \<and> ta_cancel_requested_at r = None"

definition coalesce :: "'a option \<Rightarrow> 'a \<Rightarrow> 'a option" where
  "coalesce x d = (case x of None \<Rightarrow> Some d | Some v \<Rightarrow> Some v)"

definition attempt_claim_vals :: "time \<Rightarrow> time \<Rightarrow> string \<Rightarrow> task_attempt \<Rightarrow> task_attempt" where
  "attempt_claim_vals now lease w r = r\<lparr>ta_status := AClaimed, ta_claimed_by := Some w,
     ta_lease_expires_at := Some (now + lease), ta_started_at := coalesce (ta_started_at r) now, ta_updated_at := now\<rparr>"

definition begin_task :: "time \<Rightarrow> task \<Rightarrow> task" where
  "begin_task now t = t\<lparr>tk_status := TInProgress, tk_started_at := coalesce (tk_started_at t) now,
     tk_completion_reason := None, tk_error := None, tk_updated_at := now\<rparr>"

definition claim_attempt :: "work_settings \<Rightarrow> time \<Rightarrow> uuid \<Rightarrow> uuid \<Rightarrow> string \<Rightarrow> work_db \<Rightarrow> work_db \<times> task_attempt option" where
  "claim_attempt cfg now aid cid w db =
    (let g = attempt_claim_guard aid cid;
         db1 = db\<lparr>wd_attempts := update_where g
                 (attempt_claim_vals now (seconds (task_attempt_lease_seconds cfg)) w) (wd_attempts db)\<rparr>
     in if matching g (wd_attempts db) \<noteq> 1 then (db, None)
        else case get_attempt cid aid db1 of
          None \<Rightarrow> (db, None)
        | Some a \<Rightarrow>
            let db2 = db1\<lparr>wd_tasks := update_where (open_task (ta_task_id a) cid) (begin_task now) (wd_tasks db1)\<rparr>
            in (publish_attempt a [] (stat ''claimed''
                  (attempt_audit a ''task.attempt_claimed'' ''system'' [Txt SYSTEM_ACTOR] [(''worker'', JStr w)] db2)), Some a))"

definition attempt_held :: "uuid \<Rightarrow> uuid \<times> string \<Rightarrow> task_attempt \<Rightarrow> bool" where
  "attempt_held aid p r \<longleftrightarrow> attempt_scoped aid (fst p) r \<and> ta_claimed_by r = Some (snd p) \<and>
     ta_status r \<in> set LEASED_ATTEMPT_STATUSES"

definition lease_vals :: "time \<Rightarrow> time \<Rightarrow> task_attempt \<Rightarrow> task_attempt" where
  "lease_vals now lease r = r\<lparr>ta_lease_expires_at := Some (now + lease), ta_updated_at := now\<rparr>"

definition renew_attempt :: "work_settings \<Rightarrow> time \<Rightarrow> task_attempt \<Rightarrow> string \<Rightarrow> work_db \<Rightarrow> work_db \<times> renewal" where
  "renew_attempt cfg now a w db =
    (let g = attempt_held (ta_id a) (ta_company_id a, w);
         db' = db\<lparr>wd_attempts := update_where g (lease_vals now (seconds (task_attempt_lease_seconds cfg))) (wd_attempts db)\<rparr>
     in (db', if matching g (wd_attempts db) \<noteq> 1 then Lost
              else case get_attempt (ta_company_id a) (ta_id a) db' of
                     None \<Rightarrow> Ok
                   | Some r \<Rightarrow> if ta_cancel_requested_at r = None then Ok else CancelSeen))"

text \<open>\<open>_update_held\<close>: the values, while this worker still holds the attempt.\<close>

definition update_held :: "time \<Rightarrow> task_attempt \<Rightarrow> string \<Rightarrow> (task_attempt \<Rightarrow> task_attempt) \<Rightarrow> work_db \<Rightarrow> work_db \<times> bool" where
  "update_held now a w vals db =
    (let g = attempt_held (ta_id a) (ta_company_id a, w)
     in (db\<lparr>wd_attempts := update_where g (\<lambda>r. (vals r)\<lparr>ta_updated_at := now\<rparr>) (wd_attempts db)\<rparr>,
         matching g (wd_attempts db) = 1))"

definition requeue_vals :: "time \<Rightarrow> int \<Rightarrow> task_attempt \<Rightarrow> task_attempt" where
  "requeue_vals now n r = r\<lparr>ta_status := AQueued, ta_claimed_by := None, ta_lease_expires_at := None,
     ta_recoveries := ta_recoveries r + n, ta_updated_at := now\<rparr>"

definition release_attempt :: "time \<Rightarrow> task_attempt \<Rightarrow> string \<Rightarrow> string \<Rightarrow> work_db \<Rightarrow> work_db \<times> bool" where
  "release_attempt now a w reason db =
    (let g = attempt_held (ta_id a) (ta_company_id a, w)
     in if matching g (wd_attempts db) \<noteq> 1 then (db, False)
        else (attempt_audit a ''task.attempt_recovered'' ''system'' [Txt SYSTEM_ACTOR]
                [(''reason'', JStr reason), (''worker'', JStr w)]
                (db\<lparr>wd_attempts := update_where g (requeue_vals now 0) (wd_attempts db)\<rparr>), True))"

section \<open>Recovery\<close>

definition lapsed :: "time \<Rightarrow> task_attempt \<Rightarrow> bool" where
  "lapsed now r \<longleftrightarrow> (case ta_lease_expires_at r of None \<Rightarrow> False | Some t \<Rightarrow> t < now)"

definition attempt_recover_guard :: "uuid \<Rightarrow> uuid \<times> time \<Rightarrow> task_attempt \<Rightarrow> bool" where
  "attempt_recover_guard aid p r \<longleftrightarrow> attempt_scoped aid (fst p) r \<and> ta_status r \<in> set LEASED_ATTEMPT_STATUSES \<and> lapsed (snd p) r"

definition cancel_recovery :: "time \<Rightarrow> finish" where
  "cancel_recovery now = plain_finish ACancelled (Some ''cancelled'') None (lapsed now)
     (\<lambda>r. r\<lparr>ta_error_code := CANCELLED_CODE\<rparr>)"

definition fail_recovery :: "time \<Rightarrow> task_attempt \<Rightarrow> finish" where
  "fail_recovery now a = plain_finish AFailed (Some ''error'') None (lapsed now)
     (\<lambda>r. r\<lparr>ta_error_code := Some ''ATTEMPTS_EXHAUSTED'',
           ta_error := Some (''The worker stopped responding '' @ show_int (ta_recoveries a + 1) @ '' times'')\<rparr>)"

text \<open>\<open>_recover\<close> on the row \<open>a\<close> the pass had read.\<close>

definition recover_attempt :: "work_settings \<Rightarrow> time \<Rightarrow> task_attempt \<Rightarrow> work_db \<Rightarrow> work_db \<times> recovery" where
  "recover_attempt cfg now a db =
    (if ta_cancel_requested_at a \<noteq> None then
       (case finish_attempt now (ta_company_id a) (ta_id a) (cancel_recovery now) db of
          (db', done) \<Rightarrow> (db', if done then RCancelled else RSkipped))
     else if task_attempt_max_recoveries cfg \<le> ta_recoveries a then
       (case finish_attempt now (ta_company_id a) (ta_id a) (fail_recovery now a) db of
          (db', done) \<Rightarrow> (db', if done then RFailed else RSkipped))
     else
       let g = attempt_recover_guard (ta_id a) (ta_company_id a, now);
           db1 = db\<lparr>wd_attempts := update_where g (requeue_vals now 1) (wd_attempts db)\<rparr>
       in if matching g (wd_attempts db) \<noteq> 1 then (db, RSkipped)
          else case get_attempt (ta_company_id a) (ta_id a) db1 of
            None \<Rightarrow> (db, RSkipped)
          | Some f \<Rightarrow>
              (publish_attempt f [] (stat ''recovered''
                 (attempt_audit f ''task.attempt_recovered'' ''system'' [Txt SYSTEM_ACTOR]
                    [(''reason'', JStr ''lease_expired''), (''previous_worker'', opt_json JStr (ta_claimed_by a))] db1)),
               RRecovered))"

definition expire_finish :: finish where
  "expire_finish = plain_finish AExpired (Some ''cancelled'') None (\<lambda>r. ta_status r = AQueued)
     (\<lambda>r. r\<lparr>ta_error_code := Some ''QUEUE_TTL_EXPIRED''\<rparr>)"

definition expire_attempt :: "time \<Rightarrow> task_attempt \<Rightarrow> work_db \<Rightarrow> work_db \<times> bool" where
  "expire_attempt now a db = finish_attempt now (ta_company_id a) (ta_id a) expire_finish db"

definition ATTEMPT_BATCH :: nat where
  "ATTEMPT_BATCH = 50"

definition lapsed_attempts :: "uuid \<Rightarrow> time \<Rightarrow> work_db \<Rightarrow> task_attempt list" where
  "lapsed_attempts cid now db = take ATTEMPT_BATCH (filter (\<lambda>a. ta_company_id a = cid \<and>
     ta_status a \<in> set LEASED_ATTEMPT_STATUSES \<and> lapsed now a) (wd_attempts db))"

definition stale_attempts :: "work_settings \<Rightarrow> uuid \<Rightarrow> time \<Rightarrow> work_db \<Rightarrow> task_attempt list" where
  "stale_attempts cfg cid now db = take ATTEMPT_BATCH (filter (\<lambda>a. ta_company_id a = cid \<and> ta_status a = AQueued \<and>
     ta_queued_at a < now - seconds (task_attempt_queue_ttl_seconds cfg)) (wd_attempts db))"

fun recover_all :: "work_settings \<Rightarrow> time \<Rightarrow> task_attempt list \<Rightarrow> work_db \<Rightarrow> work_db \<times> recovery list" where
  "recover_all cfg now [] db = (db, [])"
| "recover_all cfg now (a # as) db =
    (case recover_attempt cfg now a db of (db1, ev) \<Rightarrow>
       (case recover_all cfg now as db1 of (db2, evs) \<Rightarrow> (db2, ev # evs)))"

fun expire_all :: "time \<Rightarrow> task_attempt list \<Rightarrow> work_db \<Rightarrow> work_db \<times> bool list" where
  "expire_all now [] db = (db, [])"
| "expire_all now (a # as) db =
    (case expire_attempt now a db of (db1, b) \<Rightarrow> (case expire_all now as db1 of (db2, bs) \<Rightarrow> (db2, b # bs)))"

definition recover_attempts :: "work_settings \<Rightarrow> uuid \<Rightarrow> time \<Rightarrow> work_db \<Rightarrow> work_db \<times> recovery list \<times> bool list" where
  "recover_attempts cfg cid now db =
    (case recover_all cfg now (lapsed_attempts cid now db) db of (db1, evs) \<Rightarrow>
       (case expire_all now (stale_attempts cfg cid now db) db1 of (db2, bs) \<Rightarrow> (db2, evs, bs)))"

section \<open>Effects and reports\<close>

definition find_effect :: "uuid \<Rightarrow> label \<Rightarrow> work_db \<Rightarrow> work_effect option" where
  "find_effect cid key db = find (\<lambda>e. we_company_id e = cid \<and> we_effect_key e = key) (wd_effects db)"

definition work_effect_row :: "task_attempt \<Rightarrow> effect_kind \<Rightarrow> label \<Rightarrow> work_effect" where
  "work_effect_row a kind key = \<lparr>we_company_id = ta_company_id a, we_task_id = Some (ta_task_id a),
     we_attempt_id = Some (ta_id a), we_kind = kind, we_effect_key = key, we_done = False, we_result = NoResult\<rparr>"

definition open_effect :: "task_attempt \<Rightarrow> effect_kind \<Rightarrow> label \<Rightarrow> work_db \<Rightarrow> work_db \<times> work_effect" where
  "open_effect a kind key db =
    (case find_effect (ta_company_id a) key db of
       Some e \<Rightarrow> (db, e)
     | None \<Rightarrow> (db\<lparr>wd_effects := wd_effects db @ [work_effect_row a kind key]\<rparr>, work_effect_row a kind key))"

definition effect_done :: "work_effect \<Rightarrow> effect_result \<Rightarrow> work_db \<Rightarrow> work_db" where
  "effect_done e res db = db\<lparr>wd_effects := update_where
     (\<lambda>r. we_company_id r = we_company_id e \<and> we_effect_key r = we_effect_key e)
     (\<lambda>r. r\<lparr>we_done := True, we_result := res\<rparr>) (wd_effects db)\<rparr>"

definition report_guard :: "uuid \<Rightarrow> uuid \<times> int \<Rightarrow> task_attempt \<Rightarrow> bool" where
  "report_guard aid p r \<longleftrightarrow> attempt_scoped aid (fst p) r \<and> ta_report_seq r < snd p \<and> ta_status r \<in> set ACTIVE_ATTEMPT_STATUSES"

definition report_vals :: "time \<Rightarrow> int \<Rightarrow> employee_report \<Rightarrow> string \<Rightarrow> task_attempt \<Rightarrow> task_attempt" where
  "report_vals now n rep source r = r\<lparr>ta_report := Some \<lparr>sr_report = rep, sr_seq = n, sr_source = source, sr_received_at = now\<rparr>,
     ta_report_seq := n, ta_updated_at := now\<rparr>"

definition store_report :: "time \<Rightarrow> task_attempt \<Rightarrow> int \<Rightarrow> employee_report \<Rightarrow> string \<Rightarrow> work_db \<Rightarrow> work_db \<times> bool" where
  "store_report now a n rep source db =
    (let g = report_guard (ta_id a) (ta_company_id a, n)
     in if matching g (wd_attempts db) \<noteq> 1 then (db, False)
        else (publish_attempt (a\<lparr>ta_report_seq := n\<rparr>) [(''progress_percent'', JInt (er_progress_percent rep))]
                (stat ''report_stored''
                  (db\<lparr>wd_attempts := update_where g (report_vals now n rep source) (wd_attempts db)\<rparr>)), True))"

end
