(* ===== verification/Work_Orders.thy ===== *)
theory Work_Orders
  imports Task_Attempts
begin

text \<open>
  The company-work lifecycle, \<open>src/nexus/services/work_service.py\<close>, with the reporting line and
  the delegation of \<open>src/nexus/services/manager_service.py\<close> and the checks of
  \<open>src/nexus/services/task_service.py\<close> it relies on: creating and delegating work orders,
  assigning their tasks, finalizing a plan, submitting, reviewing and cancelling work. The
  identifiers derived with \<open>uuid5\<close> are a parameter of the operations that use them.
\<close>

section \<open>Managers and their reports\<close>

definition actor_type_of :: "string \<Rightarrow> string" where
  "actor_type_of who =
    (if starts_with ''agent:'' who \<or> starts_with ''run:'' who then ''agent''
     else if starts_with ''policy:'' who then ''system'' else ''user'')"

definition manager_audit :: "uuid \<Rightarrow> string \<Rightarrow> string \<Rightarrow> string \<Rightarrow> uuid \<Rightarrow> dict \<Rightarrow> work_db \<Rightarrow> work_db" where
  "manager_audit cid action who rtype rid details db =
    on_chat (audit \<lparr>au_company_id = cid, au_action = action, au_actor_type = actor_type_of who,
       au_actor_id = Some [Txt who], au_resource_type = rtype, au_resource_id = rid, au_details = details\<rparr>) db"

definition require_report :: "uuid \<Rightarrow> uuid \<Rightarrow> uuid \<Rightarrow> work_db \<Rightarrow> work_error + employee" where
  "require_report cid manager eid db =
    (if get_employee cid manager db = None then Inl (WorkError 404 ''AGENT_NOT_FOUND'')
     else case get_employee cid eid db of
       None \<Rightarrow> Inl (WorkError 404 ''AGENT_NOT_FOUND'')
     | Some e \<Rightarrow> if em_manager_id e \<noteq> Some manager then Inl (WorkError 403 ''NOT_A_DIRECT_REPORT'') else Inr e)"

definition awaiting_review :: "task_attempt \<Rightarrow> bool" where
  "awaiting_review a \<longleftrightarrow> ta_status a = AVerifying \<and> ta_claimed_by a = None"

section \<open>Ownership\<close>

definition has_kind :: "stored_spec \<Rightarrow> bool" where
  "has_kind s \<longleftrightarrow> (case s of OrderSpec _ \<Rightarrow> True | OtherSpec (Some _) \<Rightarrow> True | _ \<Rightarrow> False)"

definition parent_task :: "uuid \<Rightarrow> task \<Rightarrow> work_db \<Rightarrow> task option" where
  "parent_task cid t db = (case tk_parent_task_id t of None \<Rightarrow> None | Some pid \<Rightarrow> get_task cid pid db)"

definition is_work_owned :: "uuid \<Rightarrow> uuid \<Rightarrow> work_db \<Rightarrow> bool" where
  "is_work_owned cid tid db \<longleftrightarrow>
    (case get_task cid tid db of
       None \<Rightarrow> False
     | Some t \<Rightarrow> has_kind (tk_work_spec t) \<or>
         (case parent_task cid t db of None \<Rightarrow> False | Some p \<Rightarrow> has_kind (tk_work_spec p)))"

definition require_work_owner :: "uuid \<Rightarrow> uuid \<Rightarrow> uuid \<Rightarrow> work_db \<Rightarrow> work_error option" where
  "require_work_owner cid tid manager db =
    (if \<not> is_work_owned cid tid db then None
     else case get_task cid tid db of
       None \<Rightarrow> Some (WorkError 404 ''TASK_NOT_FOUND'')
     | Some t \<Rightarrow>
         (case (if tk_parent_task_id t = None then Some t else parent_task cid t db) of
            None \<Rightarrow> Some (WorkError 404 ''TASK_NOT_FOUND'')
          | Some root \<Rightarrow>
              if tk_assigned_agent_id root \<noteq> Some manager then Some (WorkError 404 ''TASK_NOT_FOUND'')
              else if is_work_order t then Some (WorkError 409 ''WORK_ORDER_NOT_EXECUTABLE'')
              else if tk_parent_task_id t = None then Some (WorkError 409 ''WORK_OWNED_BY_LIFECYCLE'')
              else None))"

definition require_work :: "uuid \<Rightarrow> uuid \<Rightarrow> work_db \<Rightarrow> work_error + task" where
  "require_work cid tid db =
    (case get_task cid tid db of
       None \<Rightarrow> Inl (WorkError 404 ''TASK_NOT_FOUND'')
     | Some t \<Rightarrow> if \<not> is_work_order t \<and> \<not> is_work_spec (tk_work_spec t)
         then Inl (WorkError 404 ''TASK_NOT_FOUND'') else Inr t)"

text \<open>Who may read a stored deliverable in full.\<close>

definition can_view_work_deliverable :: "principal \<Rightarrow> bool" where
  "can_view_work_deliverable p \<longleftrightarrow>
    p_agent_id p = None \<and> p_run_id p = None \<and> has_permission p ''read'' ''task'' None \<and>
    (case p_kind p of
       User \<Rightarrow> p_user_id p \<noteq> None
     | Service \<Rightarrow> p_api_key_id p = None \<and> p_label p = [] \<and> p_user_id p = None
     | Run \<Rightarrow> False)"

section \<open>Creating orders and tasks\<close>

definition CLOSED_GOAL_STATUSES :: "string list" where
  "CLOSED_GOAL_STATUSES = [''completed'', ''cancelled'', ''archived'']"

definition require_goal :: "uuid \<Rightarrow> uuid \<Rightarrow> work_db \<Rightarrow> work_error option" where
  "require_goal cid gid db =
    (case find (\<lambda>g. gl_id g = gid \<and> gl_company_id g = cid) (wd_goals db) of
       None \<Rightarrow> Some (WorkError 404 ''GOAL_NOT_FOUND'')
     | Some g \<Rightarrow> if gl_status g \<in> set CLOSED_GOAL_STATUSES then Some (WorkError 409 ''GOAL_CLOSED'') else None)"

definition require_work_spec_references :: "uuid \<Rightarrow> work_spec \<Rightarrow> work_db \<Rightarrow> work_error option" where
  "require_work_spec_references cid spec db =
    (case (case ws_repository_id spec of
             None \<Rightarrow> None
           | Some rid \<Rightarrow> (case find (\<lambda>r. rp_id r = rid \<and> rp_company_id r = cid) (wd_repositories db) of
                None \<Rightarrow> Some (WorkError 404 ''REPOSITORY_NOT_FOUND'')
              | Some r \<Rightarrow> if rp_is_active r then None else Some (WorkError 409 ''REPOSITORY_INACTIVE''))) of
       Some e \<Rightarrow> Some e
     | None \<Rightarrow>
         (case ws_review_of_task_id spec of
            None \<Rightarrow> None
          | Some tid \<Rightarrow> if get_task cid tid db = None then Some (WorkError 404 ''REVIEWED_TASK_NOT_FOUND'') else None))"

record order_request =
  or_scope :: label
  or_actor :: string
  or_title :: string
  or_key :: string
  or_description :: "string option"
  or_goal_id :: "uuid option"
  or_priority :: int
  or_work_spec :: "work_spec option"
  or_details :: dict

text \<open>A \<open>Task\<close> as the constructors of the services leave it.\<close>

definition fresh_task :: "uuid \<Rightarrow> uuid \<Rightarrow> string \<Rightarrow> string option \<Rightarrow> int \<Rightarrow> stored_spec \<Rightarrow> time \<Rightarrow> task" where
  "fresh_task tid cid title descr priority spec now =
    \<lparr>tk_id = tid, tk_company_id = cid, tk_project_id = None, tk_title = title, tk_description = descr,
     tk_status = TPending, tk_priority = priority, tk_assigned_agent_id = None, tk_parent_task_id = None,
     tk_goal_id = None, tk_result = None, tk_error = None, tk_completion_reason = None, tk_work_spec = spec,
     tk_started_at = None, tk_completed_at = None, tk_created_at = now, tk_updated_at = now\<rparr>"

definition WORK_ORDER :: stored_spec where
  "WORK_ORDER = OrderSpec \<lparr>ps_finalized_at = None, ps_finalized_by = None\<rparr>"

definition order_id :: "(label \<Rightarrow> uuid) \<Rightarrow> uuid \<Rightarrow> order_request \<Rightarrow> uuid" where
  "order_id uuid5 cid rq = uuid5 ([Uid cid, Txt '':''] @ or_scope rq @ [Txt '':work_order:'', Txt (or_key rq)])"

definition create_work_order :: "(label \<Rightarrow> uuid) \<Rightarrow> time \<Rightarrow> uuid \<Rightarrow> order_request \<Rightarrow> work_db \<Rightarrow>
    work_db \<times> (work_error + task \<times> bool)" where
  "create_work_order uuid5 now cid rq db =
    (let new_id = order_id uuid5 cid rq
     in case get_task cid new_id db of
       Some e \<Rightarrow> (db, if tk_title e \<noteq> or_title rq then Inl (WorkError 409 ''IDEMPOTENCY_KEY_REUSED'') else Inr (e, False))
     | None \<Rightarrow>
         (case (case or_goal_id rq of None \<Rightarrow> None | Some g \<Rightarrow> require_goal cid g db) of
            Some e \<Rightarrow> (db, Inl e)
          | None \<Rightarrow>
              let t = (fresh_task new_id cid (or_title rq) (or_description rq) (or_priority rq)
                        (case or_work_spec rq of None \<Rightarrow> WORK_ORDER | Some s \<Rightarrow> ItemSpec s) now)
                      \<lparr>tk_goal_id := or_goal_id rq\<rparr>
              in if list_ex (\<lambda>r. tk_id r = new_id) (wd_tasks db) then (db, Inl (WorkError 409 ''WORK_CONFLICT''))
                 else (manager_audit cid ''work.created'' (or_actor rq) ''task'' new_id
                         ((''idempotency_key'', JStr (or_key rq)) # or_details rq)
                         (db\<lparr>wd_tasks := wd_tasks db @ [t]\<rparr>), Inr (t, True))))"

text \<open>\<open>TaskService.create_task\<close>, whose caller has validated the spec.\<close>

definition CLOSED_TASK_STATUSES :: "task_status list" where
  "CLOSED_TASK_STATUSES = [TCompleted, TFailed, TCancelled]"

definition require_parent :: "uuid \<Rightarrow> uuid \<Rightarrow> work_db \<Rightarrow> work_error option" where
  "require_parent cid pid db =
    (case get_task cid pid db of
       None \<Rightarrow> Some (WorkError 404 ''PARENT_TASK_NOT_FOUND'')
     | Some p \<Rightarrow> if tk_status p \<in> set CLOSED_TASK_STATUSES then Some (WorkError 409 ''PARENT_TASK_CLOSED'') else None)"

definition require_assignable_agent :: "uuid \<Rightarrow> uuid \<Rightarrow> work_db \<Rightarrow> work_error option" where
  "require_assignable_agent cid aid db =
    (case get_employee cid aid db of
       None \<Rightarrow> Some (WorkError 404 ''AGENT_NOT_FOUND'')
     | Some e \<Rightarrow> if ag_status e \<in> set UNASSIGNABLE_AGENT_STATUSES then Some (WorkError 409 ''AGENT_NOT_ASSIGNABLE'') else None)"

definition CLOSED_PROJECT_STATUSES :: "string list" where
  "CLOSED_PROJECT_STATUSES = [''completed'', ''cancelled'', ''archived'']"

definition require_project :: "uuid \<Rightarrow> uuid \<Rightarrow> work_db \<Rightarrow> work_error option" where
  "require_project cid pid db =
    (case find (\<lambda>p. pj_id p = pid \<and> pj_company_id p = cid) (wd_projects db) of
       None \<Rightarrow> Some (WorkError 404 ''PROJECT_NOT_FOUND'')
     | Some p \<Rightarrow> if pj_status p \<in> set CLOSED_PROJECT_STATUSES then Some (WorkError 409 ''PROJECT_CLOSED'') else None)"

text \<open>An agent that owns open work, runs an attempt or has a history of attempts is not deleted.\<close>

definition refuse_if_agent_owns_work :: "uuid \<Rightarrow> uuid \<Rightarrow> work_db \<Rightarrow> work_error option" where
  "refuse_if_agent_owns_work cid aid db =
    (let mine = filter (\<lambda>a. ta_company_id a = cid \<and> ta_agent_id a = aid) (wd_attempts db)
     in if list_ex (\<lambda>t. tk_company_id t = cid \<and> tk_assigned_agent_id t = Some aid \<and> tk_status t \<notin> set CLOSED_TASK_STATUSES) (wd_tasks db)
           \<or> list_ex (\<lambda>a. ta_status a \<in> set ACTIVE_ATTEMPT_STATUSES) mine
        then Some (WorkError 409 ''AGENT_OWNS_ACTIVE_WORK'')
        else if mine \<noteq> [] then Some (WorkError 409 ''AGENT_HAS_HISTORY'') else None)"

record task_request =
  tq_id :: uuid
  tq_title :: string
  tq_description :: "string option"
  tq_priority :: int
  tq_project_id :: "uuid option"
  tq_assigned_agent_id :: "uuid option"
  tq_parent_task_id :: "uuid option"
  tq_work_spec :: "work_spec option"

definition create_task_check :: "uuid \<Rightarrow> task_request \<Rightarrow> work_db \<Rightarrow> work_error option" where
  "create_task_check cid rq db =
    (case (case tq_parent_task_id rq of
             None \<Rightarrow> None
           | Some pid \<Rightarrow> if is_work_owned cid pid db then Some (WorkError 409 ''WORK_OWNED_BY_LIFECYCLE'')
                         else require_parent cid pid db) of
       Some e \<Rightarrow> Some e
     | None \<Rightarrow>
         (case (case tq_assigned_agent_id rq of None \<Rightarrow> None | Some a \<Rightarrow> require_assignable_agent cid a db) of
            Some e \<Rightarrow> Some e
          | None \<Rightarrow>
              (case (case tq_project_id rq of None \<Rightarrow> None | Some p \<Rightarrow> require_project cid p db) of
                 Some e \<Rightarrow> Some e
               | None \<Rightarrow> (case tq_work_spec rq of None \<Rightarrow> None | Some s \<Rightarrow> require_work_spec_references cid s db))))"

definition create_task :: "time \<Rightarrow> uuid \<Rightarrow> task_request \<Rightarrow> work_db \<Rightarrow>
    work_db \<times> (work_error + task)" where
  "create_task now cid rq db =
    (case create_task_check cid rq db of
       Some e \<Rightarrow> (db, Inl e)
     | None \<Rightarrow>
         let t = (fresh_task (tq_id rq) cid (tq_title rq) (tq_description rq) (tq_priority rq)
                   (case tq_work_spec rq of None \<Rightarrow> NoSpec | Some s \<Rightarrow> ItemSpec s) now)
                 \<lparr>tk_project_id := tq_project_id rq, tk_assigned_agent_id := tq_assigned_agent_id rq,
                  tk_parent_task_id := tq_parent_task_id rq\<rparr>
         in (db\<lparr>wd_tasks := wd_tasks db @ [t]\<rparr>, Inr t))"

section \<open>Delegation\<close>

definition delegate_guard :: "uuid \<Rightarrow> uuid \<Rightarrow> task \<Rightarrow> bool" where
  "delegate_guard tid cid t \<longleftrightarrow> task_scoped tid cid t \<and> tk_status t = TPending \<and> tk_assigned_agent_id t = None"

definition delegate_vals :: "time \<Rightarrow> uuid \<Rightarrow> task \<Rightarrow> task" where
  "delegate_vals now manager t = t\<lparr>tk_assigned_agent_id := Some manager, tk_status := TDelegated, tk_updated_at := now\<rparr>"

definition delegate_to_manager :: "time \<Rightarrow> uuid \<Rightarrow> uuid \<Rightarrow> uuid \<Rightarrow> uuid \<Rightarrow> string \<Rightarrow> work_db \<Rightarrow>
    work_db \<times> (work_error + task option \<times> bool)" where
  "delegate_to_manager now cid ceo manager tid who db =
    (case require_report cid ceo manager db of
       Inl e \<Rightarrow> (db, Inl e)
     | Inr _ \<Rightarrow>
         (case get_task cid tid db of
            None \<Rightarrow> (db, Inl (WorkError 404 ''TASK_NOT_FOUND''))
          | Some t \<Rightarrow>
              if tk_work_spec t \<noteq> NoSpec \<and> \<not> is_work_order t then (db, Inl (WorkError 422 ''TASK_HAS_WORK_SPEC''))
              else if \<not> is_work_order t then (db, Inl (WorkError 404 ''TASK_NOT_FOUND''))
              else if matching (delegate_guard tid cid) (wd_tasks db) = 1 then
                (let db' = manager_audit cid ''work.delegated'' who ''task'' tid
                       [(''ceo_id'', JId ceo), (''manager_id'', JId manager)]
                       (db\<lparr>wd_tasks := update_where (delegate_guard tid cid) (delegate_vals now manager) (wd_tasks db)\<rparr>)
                 in (db', Inr (get_task cid tid db', True)))
              else (db, if tk_assigned_agent_id t = Some manager then Inr (Some t, False)
                        else Inl (WorkError 409 ''WORK_ALREADY_DELEGATED''))))"

text \<open>\<open>manager_service.delegate\<close>: an error rolls the reassignment back.\<close>

definition reassign_vals :: "time \<Rightarrow> uuid \<Rightarrow> task \<Rightarrow> task" where
  "reassign_vals now e t = t\<lparr>tk_assigned_agent_id := Some e, tk_updated_at := now\<rparr>"

definition delegation_key :: "uuid \<Rightarrow> uuid \<Rightarrow> label" where
  "delegation_key manager e = [Txt ''manager:'', Uid manager, Txt '':'', Uid e]"

definition delegate_start :: "(string \<Rightarrow> backend_info option) \<Rightarrow> time \<Rightarrow> uuid \<Rightarrow> uuid \<Rightarrow> uuid \<Rightarrow> start_request \<Rightarrow> work_db \<Rightarrow>
    work_db \<times> (work_error + task_attempt \<times> bool)" where
  "delegate_start registry now cid manager eid rq db =
    (let db1 = db\<lparr>wd_tasks := update_where (\<lambda>t. task_scoped (st_task_id rq) cid t \<and> tk_assigned_agent_id t \<noteq> Some eid)
                    (reassign_vals now eid) (wd_tasks db)\<rparr>;
         key = delegation_key manager eid
     in case start_attempt registry now cid
               (rq\<lparr>st_agent_id := Some eid, st_key := key,
                   st_details := [(''delegated_by'', JId manager), (''idempotency_key'', JText key)]\<rparr>) db1 of
          (db2, Inl e) \<Rightarrow> (db, Inl e)
        | (db2, Inr r) \<Rightarrow> (db2, Inr r))"

definition delegate :: "(string \<Rightarrow> backend_info option) \<Rightarrow> time \<Rightarrow> uuid \<Rightarrow> uuid \<Rightarrow> uuid \<Rightarrow> start_request \<Rightarrow> work_db \<Rightarrow>
    work_db \<times> (work_error + task_attempt \<times> bool)" where
  "delegate registry now cid manager eid rq db =
    (case require_report cid manager eid db of
       Inl e \<Rightarrow> (db, Inl e)
     | Inr _ \<Rightarrow>
         (case require_work_owner cid (st_task_id rq) manager db of
            Some e \<Rightarrow> (db, Inl e)
          | None \<Rightarrow>
              (case get_task cid (st_task_id rq) db of
                 None \<Rightarrow> (db, Inl (WorkError 404 ''TASK_NOT_FOUND''))
               | Some t \<Rightarrow>
                   if tk_assigned_agent_id t \<noteq> Some eid \<and> active_attempt cid (st_task_id rq) db \<noteq> None
                   then (db, Inl (WorkError 409 ''ATTEMPT_ACTIVE''))
                   else delegate_start registry now cid manager eid rq db)))"

section \<open>Assigning\<close>

record assign_request =
  aq_title :: string
  aq_objective :: string
  aq_key :: string
  aq_spec :: work_spec
  aq_actor :: actor
  aq_id :: uuid
  aq_hex :: label

text \<open>\<open>_require_open_for_children\<close>\<close>

definition closed_to_children :: "task \<Rightarrow> work_error option" where
  "closed_to_children p =
    (if tk_status p \<in> set CLOSED_STATUSES \<or> tk_status p = TFailed \<or> is_plan_finalized p
     then Some (WorkError 409 ''WORK_CLOSED'') else None)"

definition plan_open_guard :: "uuid \<Rightarrow> uuid \<Rightarrow> task \<Rightarrow> bool" where
  "plan_open_guard pid cid p \<longleftrightarrow> task_scoped pid cid p \<and> tk_status p \<notin> set (TFailed # CLOSED_STATUSES) \<and> \<not> is_plan_finalized p"

definition child_id :: "(label \<Rightarrow> uuid) \<Rightarrow> uuid \<Rightarrow> uuid \<Rightarrow> string \<Rightarrow> uuid" where
  "child_id uuid5 cid manager key = uuid5 [Uid cid, Txt '':'', Uid manager, Txt '':assigned:'', Txt key]"

definition new_child :: "(label \<Rightarrow> uuid) \<Rightarrow> time \<Rightarrow> uuid \<Rightarrow> uuid \<Rightarrow> uuid \<Rightarrow> assign_request \<Rightarrow> work_spec \<Rightarrow> task \<Rightarrow> task" where
  "new_child uuid5 now cid manager eid rq spec p =
    (fresh_task (child_id uuid5 cid manager (aq_key rq)) cid (aq_title rq) (Some (take 4000 (aq_objective rq)))
       (tk_priority p) (ItemSpec spec) now)
    \<lparr>tk_assigned_agent_id := Some eid, tk_parent_task_id := Some (tk_id p), tk_goal_id := tk_goal_id p\<rparr>"

definition begin_order :: "time \<Rightarrow> task \<Rightarrow> task" where
  "begin_order now p = p\<lparr>tk_status := TInProgress, tk_started_at := coalesce (tk_started_at p) now, tk_updated_at := now\<rparr>"

definition spec_mode_text :: "stored_spec \<Rightarrow> string" where
  "spec_mode_text s = (case s of ItemSpec w \<Rightarrow> mode_text (ws_mode w) | _ \<Rightarrow> [])"

text \<open>
  The transaction that inserts the child, after the order \<open>p\<close> was read: the UPDATE of the
  order's row first, which matches nothing once the plan is final or the order closed.
\<close>

definition insert_child :: "time \<Rightarrow> assign_request \<Rightarrow> uuid \<Rightarrow> task \<Rightarrow> task \<Rightarrow> work_db \<Rightarrow> work_db \<times> (work_error + bool)" where
  "insert_child now rq manager p child db =
    (let g = plan_open_guard (tk_id p) (tk_company_id p)
     in if matching g (wd_tasks db) \<noteq> 1 then 
          (db, Inl (case get_task (tk_company_id p) (tk_id p) db of
             None \<Rightarrow> WorkError 404 ''TASK_NOT_FOUND'' | Some _ \<Rightarrow> WorkError 409 ''WORK_CLOSED''))
        else if list_ex (\<lambda>t. tk_id t = tk_id child) (wd_tasks db) then (db, Inr False)
        else
          let ts = update_where g (touch now) (wd_tasks db) @ [child];
              ts' = update_where (\<lambda>t. task_scoped (tk_id p) (tk_company_id p) t \<and> tk_status t = TDelegated) (begin_order now) ts
          in (manager_audit (tk_company_id p) ''work.assigned'' (ac_name (aq_actor rq)) ''task'' (tk_id child)
                [(''manager_id'', JId manager), (''employee_id'', opt_json JId (tk_assigned_agent_id child)),
                 (''work_order_id'', JId (tk_id p)), (''idempotency_key'', JStr (aq_key rq)),
                 (''mode'', JStr (spec_mode_text (tk_work_spec child)))]
                (db\<lparr>wd_tasks := ts'\<rparr>), Inr True))"

text \<open>The checks on a replayed key.\<close>

definition same_child :: "task \<Rightarrow> task \<Rightarrow> bool" where
  "same_child c n \<longleftrightarrow> tk_parent_task_id c = tk_parent_task_id n \<and> tk_assigned_agent_id c = tk_assigned_agent_id n \<and>
     tk_title c = tk_title n \<and> tk_work_spec c = tk_work_spec n"

definition assign_child :: "(label \<Rightarrow> uuid) \<Rightarrow> (string \<Rightarrow> backend_info option) \<Rightarrow> time \<Rightarrow> uuid \<Rightarrow> uuid \<Rightarrow> employee \<Rightarrow>
    assign_request \<Rightarrow> work_spec \<Rightarrow> task \<Rightarrow> work_db \<Rightarrow> work_db \<times> (work_error + task \<times> bool)" where
  "assign_child uuid5 registry now cid manager e rq spec p db =
    (let n = new_child uuid5 now cid manager (ag_id e) rq spec p
     in case get_task cid (tk_id n) db of
          Some c \<Rightarrow> (db, if same_child c n then Inr (n, False) else Inl (WorkError 409 ''IDEMPOTENCY_KEY_REUSED''))
        | None \<Rightarrow>
            (case closed_to_children p of
               Some err \<Rightarrow> (db, Inl err)
             | None \<Rightarrow>
                 (case require_work_spec_references cid spec db of
                    Some err \<Rightarrow> (db, Inl err)
                  | None \<Rightarrow>
                      (case check_employee registry e (ws_mode spec) of
                         Some err \<Rightarrow> (db, Inl err)
                       | None \<Rightarrow>
                           (case insert_child now rq manager p n db of
                              (db1, Inl err) \<Rightarrow> (db1, Inl err)
                            | (db1, Inr created) \<Rightarrow> (db1, Inr (n, created)))))))"

definition assign_task :: "(label \<Rightarrow> uuid) \<Rightarrow> (string \<Rightarrow> backend_info option) \<Rightarrow> time \<Rightarrow> uuid \<Rightarrow> uuid \<Rightarrow> uuid \<Rightarrow> uuid \<Rightarrow>
    assign_request \<Rightarrow> work_db \<Rightarrow> work_db \<times> (work_error + task option \<times> task_attempt \<times> bool)" where
  "assign_task uuid5 registry now cid manager oid eid rq db =
    (case require_report cid manager eid db of
       Inl e \<Rightarrow> (db, Inl e)
     | Inr e \<Rightarrow>
         (case get_task cid oid db of
            None \<Rightarrow> (db, Inl (WorkError 404 ''TASK_NOT_FOUND''))
          | Some p \<Rightarrow>
              if tk_assigned_agent_id p \<noteq> Some manager \<or> \<not> is_work_order p
              then (db, Inl (WorkError 404 ''TASK_NOT_FOUND''))
              else case validate_spec (aq_spec rq) of
                Inl err \<Rightarrow> (db, Inl (spec_refusal err))
              | Inr spec \<Rightarrow>
                  (case assign_child uuid5 registry now cid manager e rq spec p db of
                     (db1, Inl err) \<Rightarrow> (db1, Inl err)
                   | (db1, Inr (n, created)) \<Rightarrow>
                       (case delegate registry now cid manager eid
                               \<lparr>st_task_id = tk_id n, st_actor = aq_actor rq, st_agent_id = None, st_key = [],
                                st_details = [], st_id = aq_id rq, st_hex = aq_hex rq\<rparr> db1 of
                          (db2, Inl err) \<Rightarrow> (db2, Inl err)
                        | (db2, Inr (a, queued)) \<Rightarrow> (db2, Inr (get_task cid (tk_id n) db2, a, created \<or> queued))))))"

section \<open>Finalizing a plan\<close>

definition stamp_plan :: "time \<Rightarrow> uuid \<Rightarrow> task \<Rightarrow> task" where
  "stamp_plan now manager p =
    p\<lparr>tk_work_spec := OrderSpec \<lparr>ps_finalized_at = Some now, ps_finalized_by = Some manager\<rparr>, tk_updated_at := now\<rparr>"

text \<open>The transaction after the order \<open>p\<close> was read: the stamp, the count of children, the completion.\<close>

definition finalize_commit :: "time \<Rightarrow> string \<Rightarrow> uuid \<Rightarrow> task \<Rightarrow> work_db \<Rightarrow> work_db \<times> (work_error + bool)" where
  "finalize_commit now who manager p db =
    (let cid = tk_company_id p; pid = tk_id p; g = plan_open_guard pid cid
     in if is_plan_finalized p then (complete_if_done now cid pid db, Inr False)
        else if tk_status p \<in> set CLOSED_STATUSES \<or> tk_status p = TFailed then (db, Inl (WorkError 409 ''WORK_CLOSED''))
        else if matching g (wd_tasks db) = 1 then
          (if children_of cid pid db = [] then (db, Inl (WorkError 409 ''PLAN_EMPTY''))
           else
             let db1 = db\<lparr>wd_tasks := update_where g (stamp_plan now manager) (wd_tasks db)\<rparr>;
                 db2 = manager_audit cid ''work.plan_finalized'' who ''task'' pid
                         [(''manager_id'', JId manager), (''tasks'', JInt (int (length (children_of cid pid db))))] db1
             in (complete_if_done now cid pid db2, Inr True))
        else case get_task cid pid db of
          None \<Rightarrow> (db, Inl (WorkError 404 ''TASK_NOT_FOUND''))
        | Some f \<Rightarrow>
            if is_plan_finalized f then (complete_if_done now cid pid db, Inr False)
            else (db, Inl (WorkError 409 ''WORK_CLOSED'')))"

definition finalize_plan :: "time \<Rightarrow> uuid \<Rightarrow> uuid \<Rightarrow> uuid \<Rightarrow> string \<Rightarrow> work_db \<Rightarrow>
    work_db \<times> (work_error + task option \<times> bool)" where
  "finalize_plan now cid manager tid who db =
    (case get_task cid tid db of
       None \<Rightarrow> (db, Inl (WorkError 404 ''TASK_NOT_FOUND''))
     | Some p \<Rightarrow>
         if tk_assigned_agent_id p \<noteq> Some manager \<or> \<not> is_work_order p
         then (db, Inl (WorkError 404 ''TASK_NOT_FOUND''))
         else (case finalize_commit now who manager p db of
                 (db1, Inl e) \<Rightarrow> (db1, Inl e)
               | (db1, Inr changed) \<Rightarrow> (db1, Inr (get_task cid tid db1, changed))))"

end
