(* ===== verification/Work_Review.thy ===== *)
theory Work_Review
  imports Work_Orders
begin

text \<open>
  The second half of \<open>src/nexus/services/work_service.py\<close>: submitting a deliverable, reviewing
  it, the bounded retry after a rejection, and cancelling work. \<open>sha256\<close> is the digest of the
  text, a parameter.
\<close>

section \<open>Submitting\<close>

definition submit_record :: "(string \<Rightarrow> string) \<Rightarrow> string \<Rightarrow> nat \<Rightarrow> verification_record" where
  "submit_record sha256 text cap =
    empty_record\<lparr>vr_state := Some ''pending_review'', vr_sha256 := Some (sha256 (take cap text)),
      vr_chars := Some (length (take cap text)), vr_truncated := Some (cap < length text)\<rparr>"

definition submit_guard :: "uuid \<Rightarrow> uuid \<times> string \<Rightarrow> task_attempt \<Rightarrow> bool" where
  "submit_guard aid p r \<longleftrightarrow> attempt_held aid p r \<and> ta_cancel_requested_at r = None"

definition submit_vals :: "time \<Rightarrow> string \<Rightarrow> verification_record \<Rightarrow> dict option \<Rightarrow> task_attempt \<Rightarrow> task_attempt" where
  "submit_vals now clipped rec usage r = r\<lparr>ta_status := AVerifying, ta_claimed_by := None, ta_lease_expires_at := None,
     ta_output_summary := Some clipped, ta_verification := Some rec, ta_usage := usage, ta_updated_at := now\<rparr>"

definition review_task :: "time \<Rightarrow> task \<Rightarrow> task" where
  "review_task now t = t\<lparr>tk_status := TInReview, tk_updated_at := now\<rparr>"

definition worker_cancel :: "string \<Rightarrow> finish" where
  "worker_cancel w = plain_finish ACancelled (Some ''cancelled'') (Some w) (\<lambda>_. True) (\<lambda>r. r\<lparr>ta_error_code := CANCELLED_CODE\<rparr>)"

definition submit_deliverable :: "(string \<Rightarrow> string) \<Rightarrow> time \<Rightarrow> task_attempt \<Rightarrow> string \<Rightarrow> string \<Rightarrow> nat \<Rightarrow> dict option \<Rightarrow>
    work_db \<Rightarrow> work_db \<times> bool" where
  "submit_deliverable sha256 now a w text cap usage db =
    (let cid = ta_company_id a; g = submit_guard (ta_id a) (cid, w); rec = submit_record sha256 text cap
     in if matching g (wd_attempts db) \<noteq> 1 then
          (case get_attempt cid (ta_id a) db of
             None \<Rightarrow> (db, False)
           | Some f \<Rightarrow>
               if ta_claimed_by f = Some w \<and> ta_cancel_requested_at f \<noteq> None
               then finish_attempt now cid (ta_id a) (worker_cancel w) db
               else (db, False))
        else
          let db1 = db\<lparr>wd_attempts := update_where g (submit_vals now (take cap text) rec usage) (wd_attempts db),
                       wd_tasks := update_where (open_task (ta_task_id a) cid) (review_task now) (wd_tasks db)\<rparr>;
              db2 = stat ''submitted'' (attempt_audit a ''work.deliverable_submitted'' ''agent'' [Txt ''agent:'', Uid (ta_agent_id a)]
                      [(''chars'', JInt (int (length (take cap text)))), (''sha256'', JStr (sha256 (take cap text))),
                       (''truncated'', JBool (cap < length text))] db1)
          in (publish_attempt (case get_attempt cid (ta_id a) db2 of None \<Rightarrow> a | Some f \<Rightarrow> f) [] db2, True))"

text \<open>What \<open>_reply\<close> found: the reply's text, the error code of its execution, and the usage of the turn.\<close>

record turn_reply =
  ty_text :: string
  ty_error_code :: "string option"
  ty_usage :: "dict option"

definition fail_finish :: "string option \<Rightarrow> string \<Rightarrow> string \<Rightarrow> string \<Rightarrow> finish" where
  "fail_finish w reason code msg = plain_finish AFailed (Some reason) w (\<lambda>_. True)
     (\<lambda>r. r\<lparr>ta_error_code := Some code, ta_error := Some msg\<rparr>)"

definition deliverable_cap :: "work_spec \<Rightarrow> nat" where
  "deliverable_cap s = nat (min (case ws_max_deliverable_chars s of None \<Rightarrow> MAX_DELIVERABLE_CHARS
     | Some n \<Rightarrow> if n = 0 then MAX_DELIVERABLE_CHARS else n) MAX_DELIVERABLE_CHARS)"

definition submit_from_turn :: "(string \<Rightarrow> string) \<Rightarrow> time \<Rightarrow> task_attempt \<Rightarrow> string \<Rightarrow> work_spec \<Rightarrow> turn_reply \<Rightarrow>
    work_db \<Rightarrow> work_db \<times> bool" where
  "submit_from_turn sha256 now a w spec reply db =
    (let text = py_strip (ty_text reply)
     in if ty_error_code reply = Some ''PROVIDER_UNAVAILABLE'' then
          finish_attempt now (ta_company_id a) (ta_id a) (fail_finish (Some w) ''error'' ''PROVIDER_UNAVAILABLE''
            ''The model provider could not be reached; nothing was delivered'') db
        else if text = [] then
          finish_attempt now (ta_company_id a) (ta_id a) (fail_finish (Some w) ''error'' ''EMPTY_DELIVERABLE''
            ''The employee returned no deliverable'') db
        else submit_deliverable sha256 now a w text (deliverable_cap spec) (ty_usage reply) db)"

section \<open>Review\<close>

record review_request =
  rw_decision :: string
  rw_reason :: "string option"
  rw_actor :: string
  rw_reviewer :: "uuid option"
  rw_retry :: bool

definition decision_outcome :: "string \<Rightarrow> string" where
  "decision_outcome decision = (if decision = ''verify'' then ''verified'' else ''rejected'')"

definition record_of :: "task_attempt \<Rightarrow> verification_record" where
  "record_of a = (case ta_verification a of None \<Rightarrow> empty_record | Some v \<Rightarrow> v)"

definition review_reason :: "review_request \<Rightarrow> string option" where
  "review_reason rw = text_or_none (take 1000 (py_strip (or_empty (rw_reason rw))))"

text \<open>What the reviewer may decide, from the row \<open>a\<close> that was read; \<open>Inr False\<close> is a replay.\<close>

definition review_check :: "uuid \<Rightarrow> task_attempt \<Rightarrow> review_request \<Rightarrow> work_db \<Rightarrow> work_error + bool" where
  "review_check cid a rw db =
    (case validate_spec (sn_work_spec (ta_snapshot a)) of
       Inl e \<Rightarrow> Inl (spec_refusal e)
     | Inr spec \<Rightarrow>
         if ws_mode spec \<noteq> TextMode then Inl (WorkError 422 ''NOT_TEXT_WORK'')
         else case (case rw_reviewer rw of
                 None \<Rightarrow> None
               | Some r \<Rightarrow>
                   if r = ta_agent_id a then Some (WorkError 403 ''SELF_REVIEW'')
                   else case get_employee cid (ta_agent_id a) db of
                     None \<Rightarrow> Some (WorkError 404 ''AGENT_NOT_FOUND'')
                   | Some e \<Rightarrow> if em_manager_id e \<noteq> Some r then Some (WorkError 404 ''ATTEMPT_NOT_FOUND'') else None) of
           Some e \<Rightarrow> Inl e
         | None \<Rightarrow>
             if \<not> awaiting_review a then
               (if vr_state (record_of a) = Some (decision_outcome (rw_decision rw)) \<and> ta_status a \<in> {ACompleted, AFailed}
                then Inr False else Inl (WorkError 409 ''NOT_AWAITING_REVIEW''))
             else if rw_decision rw = ''reject'' \<and> review_reason rw = None then Inl (WorkError 422 ''REASON_REQUIRED'')
             else Inr True)"

definition waiting :: "task_attempt \<Rightarrow> bool" where
  "waiting r \<longleftrightarrow> ta_status r = AVerifying \<and> ta_claimed_by r = None"

definition review_finish :: "time \<Rightarrow> task_attempt \<Rightarrow> review_request \<Rightarrow> finish" where
  "review_finish now a rw =
    (let stamped = (record_of a)\<lparr>vr_state := Some (decision_outcome (rw_decision rw)), vr_reviewed_by := Some (rw_actor rw),
                     vr_reviewed_at := Some now\<rparr>;
         reason = or_empty (review_reason rw)
     in if rw_decision rw = ''verify''
        then plain_finish ACompleted (Some ''goal'') None waiting
          (\<lambda>r. r\<lparr>ta_verification := Some (stamped\<lparr>vr_passed := Some True,
             vr_checks := [\<lparr>ck_check = ''manager_review'', ck_passed = True, ck_detail = []\<rparr>]\<rparr>)\<rparr>)
        else plain_finish AFailed (Some ''verification_failed'') None waiting
          (\<lambda>r. r\<lparr>ta_verification := Some (stamped\<lparr>vr_passed := Some False,
             vr_checks := [\<lparr>ck_check = ''manager_review'', ck_passed = False, ck_detail = take 300 reason\<rparr>]\<rparr>),
             ta_error_code := Some ''REJECTED_BY_MANAGER'', ta_error := Some reason\<rparr>))"

text \<open>The deciding transaction; the loser of a race reads the winner's state.\<close>

definition review_commit :: "time \<Rightarrow> uuid \<Rightarrow> task_attempt \<Rightarrow> review_request \<Rightarrow> work_db \<Rightarrow> work_db \<times> (work_error + task_attempt \<times> bool)" where
  "review_commit now cid a rw db =
    (case finish_in now cid (ta_id a) (review_finish now a rw) db of
       (db1, False) \<Rightarrow>
         (db, case get_attempt cid (ta_id a) db of
                None \<Rightarrow> Inl (WorkError 404 ''ATTEMPT_NOT_FOUND'')
              | Some f \<Rightarrow> if vr_state (record_of f) = Some (decision_outcome (rw_decision rw)) then Inr (f, False)
                         else Inl (WorkError 409 ''NOT_AWAITING_REVIEW''))
     | (db1, True) \<Rightarrow>
         (case get_attempt cid (ta_id a) db1 of
            None \<Rightarrow> (db1, Inl (WorkError 404 ''ATTEMPT_NOT_FOUND''))
          | Some f \<Rightarrow>
              (publish_attempt f [] (stat (decision_outcome (rw_decision rw))
                 (attempt_audit f (''work.'' @ decision_outcome (rw_decision rw))
                    (if rw_reviewer rw = None then ''user'' else ''agent'') [Txt (rw_actor rw)]
                    [(''reviewer_agent_id'', opt_json JId (rw_reviewer rw)),
                     (''reason_chars'', JInt (int (length (or_empty (review_reason rw)))))] db1)),
               Inr (f, True))))"

text \<open>The two UPDATEs of \<open>_retry\<close>: the task back to pending, a failed order back to work.\<close>

definition reopen_task :: "time \<Rightarrow> task_status \<Rightarrow> task \<Rightarrow> task" where
  "reopen_task now st t = t\<lparr>tk_status := st, tk_completion_reason := None, tk_error := None, tk_updated_at := now\<rparr>"

definition reopen_for_retry :: "time \<Rightarrow> uuid \<Rightarrow> uuid \<Rightarrow> work_db \<Rightarrow> work_db" where
  "reopen_for_retry now cid tid db =
    (let reopen = (\<lambda>i st ts. update_where (\<lambda>t. task_scoped i cid t \<and> tk_status t = TFailed) (reopen_task now st) ts);
         ts = reopen tid TPending (wd_tasks db)
     in case find (task_scoped tid cid) ts of
          None \<Rightarrow> db\<lparr>wd_tasks := ts\<rparr>
        | Some t \<Rightarrow> (case tk_parent_task_id t of
              None \<Rightarrow> db\<lparr>wd_tasks := ts\<rparr> | Some pid \<Rightarrow> db\<lparr>wd_tasks := reopen pid TInProgress ts\<rparr>))"

definition review_retry_key :: "uuid \<Rightarrow> label" where
  "review_retry_key aid = [Txt ''review:'', Uid aid, Txt '':retry'']"

definition retry_after_reject :: "(string \<Rightarrow> backend_info option) \<Rightarrow> time \<Rightarrow> uuid \<Rightarrow> task_attempt \<Rightarrow> string \<Rightarrow> uuid \<times> label \<Rightarrow>
    work_db \<Rightarrow> work_db \<times> (work_error + task_attempt \<times> bool)" where
  "retry_after_reject registry now cid a who ids db =
    retry_attempt registry now cid (ta_id a)
      \<lparr>st_task_id = ta_task_id a, st_actor = \<lparr>ac_kind = ''agent'', ac_name = who\<rparr>, st_agent_id = None,
       st_key = review_retry_key (ta_id a), st_details = [], st_id = fst ids, st_hex = snd ids\<rparr>
      (reopen_for_retry now cid (ta_task_id a) db)"

definition review :: "(string \<Rightarrow> backend_info option) \<Rightarrow> time \<Rightarrow> uuid \<Rightarrow> uuid \<Rightarrow> review_request \<Rightarrow> uuid \<times> label \<Rightarrow> work_db \<Rightarrow>
    work_db \<times> (work_error + task_attempt \<times> bool)" where
  "review registry now cid aid rw ids db =
    (if rw_decision rw \<noteq> ''verify'' \<and> rw_decision rw \<noteq> ''reject'' then (db, Inl (WorkError 422 ''INVALID_DECISION''))
     else case get_attempt cid aid db of
       None \<Rightarrow> (db, Inl (WorkError 404 ''ATTEMPT_NOT_FOUND''))
     | Some a \<Rightarrow>
         (case review_check cid a rw db of
            Inl e \<Rightarrow> (db, Inl e)
          | Inr False \<Rightarrow> (db, Inr (a, False))
          | Inr True \<Rightarrow>
              (case review_commit now cid a rw db of
                 (db1, Inr (f, True)) \<Rightarrow>
                   if rw_decision rw = ''reject'' \<and> rw_retry rw \<and> ta_attempt_number a < max_attempts (sn_work_spec (ta_snapshot a))
                   then (case retry_after_reject registry now cid a (rw_actor rw) ids db1 of
                           (db2, Inl e) \<Rightarrow> (db2, Inl e)
                         | (db2, Inr _) \<Rightarrow> (db2, Inr (f, True)))
                   else (db1, Inr (f, True))
               | r \<Rightarrow> r)))"

section \<open>Cancelling\<close>

definition cancel_task_vals :: "time \<Rightarrow> task \<Rightarrow> task" where
  "cancel_task_vals now t = t\<lparr>tk_status := TCancelled, tk_completion_reason := Some ''cancelled'', tk_completed_at := None,
     tk_updated_at := now\<rparr>"

text \<open>One round of the loop of \<open>cancel_work\<close>: the task, then its active attempt.\<close>

definition cancel_target :: "time \<Rightarrow> uuid \<Rightarrow> string \<Rightarrow> uuid \<Rightarrow> work_db \<Rightarrow> work_db" where
  "cancel_target now cid who tid db =
    (let db1 = db\<lparr>wd_tasks := update_where (open_task tid cid) (cancel_task_vals now) (wd_tasks db)\<rparr>
     in case active_attempt cid tid db1 of
          None \<Rightarrow> db1
        | Some a \<Rightarrow>
            if awaiting_review a then fst (finish_in now cid (ta_id a) (cancel_finish now who AVerifying) db1)
            else db1\<lparr>wd_attempts := update_where (cancel_request_guard (ta_id a) cid) (cancel_request_vals now who) (wd_attempts db1)\<rparr>)"

fun cancel_targets :: "time \<Rightarrow> uuid \<Rightarrow> string \<Rightarrow> uuid list \<Rightarrow> work_db \<Rightarrow> work_db" where
  "cancel_targets now cid who [] db = db"
| "cancel_targets now cid who (t # ts) db = cancel_targets now cid who ts (cancel_target now cid who t db)"

text \<open>The first transaction marks the tasks, then each remaining attempt is cancelled on its own.\<close>

definition cancel_mark :: "time \<Rightarrow> uuid \<Rightarrow> string \<Rightarrow> uuid \<Rightarrow> uuid list \<Rightarrow> work_db \<Rightarrow> work_db" where
  "cancel_mark now cid who tid children db =
    manager_audit cid ''work.cancelled'' who ''task'' tid [(''open_children'', JInt (int (length children)))]
      (cancel_targets now cid who (tid # children) db)"

fun cancel_running :: "time \<Rightarrow> uuid \<Rightarrow> string \<Rightarrow> uuid list \<Rightarrow> work_db \<Rightarrow> work_db" where
  "cancel_running now cid who [] db = db"
| "cancel_running now cid who (t # ts) db =
    cancel_running now cid who ts
      (case active_attempt cid t db of
         None \<Rightarrow> db
       | Some a \<Rightarrow> fst (cancel_attempt now cid t (ta_id a) \<lparr>ac_kind = ''agent'', ac_name = who\<rparr> db))"

definition cancel_work :: "time \<Rightarrow> uuid \<Rightarrow> uuid \<Rightarrow> string \<Rightarrow> work_db \<Rightarrow> work_db \<times> (work_error + task option \<times> bool)" where
  "cancel_work now cid tid who db =
    (case get_task cid tid db of
       None \<Rightarrow> (db, Inl (WorkError 404 ''TASK_NOT_FOUND''))
     | Some t \<Rightarrow>
         if tk_status t = TCompleted then (db, Inl (WorkError 409 ''TASK_ALREADY_COMPLETED''))
         else if tk_status t = TCancelled then (db, Inr (Some t, False))
         else
           let children = map tk_id (children_of cid tid db);
               db1 = cancel_running now cid who (tid # children) (cancel_mark now cid who tid children db)
           in (db1, Inr (get_task cid tid db1, True)))"

end
