(* ===== verification/Work_Verify.thy ===== *)
theory Work_Verify
  imports Work_Review
begin

text \<open>
  The deterministic verifier and the worker of \<open>src/nexus/runtime/task_attempts.py\<close>: the checks
  a finished turn must pass, the commit of the work, and the drive of a claimed attempt from its
  prepared turn to its end. The file system, the verification processes and git are the
  environment: what a run of the verifier finds there is the record \<open>verify_env\<close>.
\<close>

section \<open>Verification commands\<close>

text \<open>
  The arguments of a verification command: \<open>ini\<close> is the empty configuration, given when the
  worktree has none of its own.
\<close>

definition check_flags :: "bool \<Rightarrow> string \<Rightarrow> string \<Rightarrow> string list" where
  "check_flags has_config ini root =
    [''-q'', ''-p'', ''no:cacheprovider''] @
    (if has_config then [] else [''-c'', ini, ''--rootdir='' @ root, ''--confcutdir='' @ root])"

definition check_argv :: "string \<Rightarrow> bool \<Rightarrow> string \<Rightarrow> string \<Rightarrow> verification_step \<Rightarrow> string list" where
  "check_argv exe has_config ini root step =
    [exe, ''-m'', command_text (vs_command step)] @
    (if vs_command step = Pytest then check_flags has_config ini root else []) @ vs_paths step"

record check_run =
  cn_id :: string
  cn_command :: check_command
  cn_exit_code :: "int option"
  cn_passed :: bool

text \<open>The exit code is \<open>None\<close> when the command was killed at its timeout.\<close>

definition run_result :: "nat \<Rightarrow> verification_step \<Rightarrow> int option \<Rightarrow> check_run" where
  "run_result i step code =
    \<lparr>cn_id = show_nat i @ '':'' @ command_text (vs_command step), cn_command = vs_command step,
     cn_exit_code = code, cn_passed = (code = Some 0)\<rparr>"

section \<open>The verifier\<close>

text \<open>
  What the verifier finds: the reply's text and payload, the report in it (\<open>find_final_report\<close>),
  pydantic's typing, which paths are regular files inside the worktree, how often a pattern
  occurs, the exit code of each command, the report as lower-case JSON text, the changed paths,
  and the reviewed worktree: whether its head moved and what changed there, \<open>None\<close> when it has
  no completed work any more, which is an exception.
\<close>

record verify_env =
  ve_reply :: "(string \<times> dict option) option"
  ve_final_report :: "string \<Rightarrow> dict option"
  ve_str :: "json \<Rightarrow> string"
  ve_typed :: "dict \<Rightarrow> string + employee_report"
  ve_is_file :: "string \<Rightarrow> bool"
  ve_occurs :: "string \<Rightarrow> string \<Rightarrow> int"
  ve_run :: "nat \<Rightarrow> verification_step \<Rightarrow> int option"
  ve_dumps :: "employee_report option \<Rightarrow> string"
  ve_lower :: "string \<Rightarrow> string"
  ve_changed :: "string list"
  ve_reviewed :: "(bool \<times> string list) option"
  ve_sha256 :: "string \<Rightarrow> string"
  ve_usage :: "dict option"

definition sub_dict :: "dict \<Rightarrow> string \<Rightarrow> dict" where
  "sub_dict d k = (case map_of d k of Some (JDict x) \<Rightarrow> x | _ \<Rightarrow> [])"

definition reply_exit_code :: "(string \<times> dict option) option \<Rightarrow> json" where
  "reply_exit_code r =
    (let payload = (case r of None \<Rightarrow> [] | Some (_, p) \<Rightarrow> dict_or_empty p);
         cli = sub_dict (sub_dict payload ''execution'') ''cli''
     in case map_of cli ''exit_code'' of None \<Rightarrow> JNull | Some v \<Rightarrow> v)"

text \<open>\<open>exit_code == 0\<close> in Python, where \<open>False == 0\<close>.\<close>

definition exited_zero :: "json \<Rightarrow> bool" where
  "exited_zero j \<longleftrightarrow> j = JInt 0 \<or> j = JBool False"

type_synonym verdict = "attempt_status \<times> string \<times> string option"

definition PASSED :: verdict where
  "PASSED = (ACompleted, ''goal'', None)"

definition check_of :: "string \<Rightarrow> bool \<Rightarrow> string \<Rightarrow> check_result" where
  "check_of name ok detail = \<lparr>ck_check = name, ck_passed = ok, ck_detail = detail\<rparr>"

definition worsen :: "verdict \<Rightarrow> verdict \<Rightarrow> verdict" where
  "worsen v w = (if fst v = ACompleted then w else v)"

text \<open>What a valid report says, for a call that has not failed already.\<close>

definition report_verdict :: "employee_report \<Rightarrow> verdict" where
  "report_verdict r =
    (if er_state r = RsBlocked then (ABlocked, ''needs_help'', Some ''EMPLOYEE_BLOCKED'')
     else if er_state r = RsFailed then (AFailed, ''error'', Some ''EMPLOYEE_REPORTED_FAILURE'')
     else if er_state r \<noteq> RsCompleted then (AFailed, ''verification_failed'', Some ''REPORT_NOT_FINAL'')
     else if er_blockers r \<noteq> [] then (ABlocked, ''needs_help'', Some ''EMPLOYEE_BLOCKED'')
     else PASSED)"

definition judge_reply :: "verify_env \<Rightarrow> check_result list \<times> verdict \<times> employee_report option" where
  "judge_reply env =
    (let code = reply_exit_code (ve_reply env); ok = exited_zero code;
         c1 = check_of ''cli_exit_code'' ok (''exit_code='' @ ve_str env code);
         v1 = (if ok then PASSED else (AFailed, ''error'', Some ''CLI_EXIT_NONZERO''))
     in case (case ve_reply env of None \<Rightarrow> None | Some (text, _) \<Rightarrow> ve_final_report env text) of
          None \<Rightarrow> ([c1, check_of ''final_report'' False ''no structured report in the reply''],
                   worsen v1 (AFailed, ''verification_failed'', Some ''REPORT_MISSING''), None)
        | Some raw \<Rightarrow>
            (case validate_report (ve_str env) (ve_typed env) raw of
               Inl e \<Rightarrow> ([c1, check_of ''final_report'' False (take 300 e)],
                        worsen v1 (AFailed, ''verification_failed'', Some ''REPORT_INVALID''), None)
             | Inr r \<Rightarrow> ([c1, check_of ''final_report'' True (report_state_text (er_state r))],
                        worsen v1 (report_verdict r), Some r)))"

definition substring :: "string \<Rightarrow> string \<Rightarrow> bool" where
  "substring p s \<longleftrightarrow> list_ex (\<lambda>i. starts_with p (drop i s)) [0..<length s + 1]"

definition criterion_result :: "verify_env \<Rightarrow> check_run list \<Rightarrow> employee_report option \<Rightarrow> criterion \<Rightarrow> check_result" where
  "criterion_result env runs rep c =
    (let label = ''criterion:'' @ criterion_label c; path = or_empty (cr_path c)
     in case cr_kind c of
          FileExists \<Rightarrow> check_of label (ve_is_file env path) []
        | CommandPasses \<Rightarrow>
            (let mine = filter (\<lambda>r. Some (cn_command r) = cr_command c) runs
             in check_of label (mine \<noteq> [] \<and> list_all cn_passed mine) [])
        | PatternCount \<Rightarrow>
            (let n = (if ve_is_file env path then ve_occurs env path (or_empty (cr_pattern c)) else 0)
             in check_of label (cr_min_count c \<le> n) (''found '' @ show_int n))
        | ReportContains \<Rightarrow>
            check_of label (substring (ve_lower env (or_empty (cr_text c))) (ve_dumps env rep)) [])"

definition run_steps :: "verify_env \<Rightarrow> work_spec \<Rightarrow> check_run list" where
  "run_steps env spec =
    map (\<lambda>(i, s). run_result i s (ve_run env i s)) (enumerate 0 (ws_verification spec))"

definition code_text :: "int option \<Rightarrow> string" where
  "code_text c = ''exit_code='' @ (case c of None \<Rightarrow> ''None'' | Some n \<Rightarrow> show_int n)"

text \<open>The checks of a read-only task; \<open>None\<close> is the exception of a vanished review target.\<close>

definition read_only_checks :: "verify_env \<Rightarrow> work_spec \<Rightarrow> check_result list option" where
  "read_only_checks env spec =
    (if ws_mode spec \<noteq> ReadOnlyMode then Some []
     else
       let changed = filter is_work (ve_changed env);
           clean = check_of ''read_only_worktree_clean'' (changed = []) (show_nat (length changed) @ '' changed paths'')
       in if ws_review_of_task_id spec = None then Some [clean]
          else case ve_reviewed env of
            None \<Rightarrow> None
          | Some (moved, dirty) \<Rightarrow>
              Some [clean, check_of ''reviewed_worktree_unchanged'' (\<not> moved \<and> filter is_work dirty = [])
                (''head '' @ (if moved then ''moved'' else ''unchanged'') @ '', '' @
                 show_nat (length (filter is_work dirty)) @ '' changed paths'')])"

definition work_checks :: "verify_env \<Rightarrow> work_spec \<Rightarrow> employee_report option \<Rightarrow> check_result list option" where
  "work_checks env spec rep =
    (let runs = run_steps env spec;
         files = map (\<lambda>rel. check_of (''deliverable:'' @ rel) (ve_is_file env rel) []) (ws_deliverables spec);
         cmds = map (\<lambda>r. check_of (''command:'' @ cn_id r) (cn_passed r) (code_text (cn_exit_code r))) runs;
         crits = map (criterion_result env runs rep) (ws_acceptance_criteria spec)
     in case read_only_checks env spec of None \<Rightarrow> None | Some ro \<Rightarrow> Some (files @ cmds @ crits @ ro))"

definition MAX_ARTIFACTS :: nat where
  "MAX_ARTIFACTS = 200"

definition manifest :: "verify_env \<Rightarrow> work_spec \<Rightarrow> bool \<Rightarrow> artifact list" where
  "manifest env spec passed =
    map (\<lambda>rel. \<lparr>af_path = rel, af_type = file_kind rel,
            af_sha256 = (if ve_is_file env rel then Some (ve_sha256 env rel) else None), af_commit = None,
            af_deliverable = (rel \<in> set (ws_deliverables spec)),
            af_validation = (if \<not> ve_is_file env rel then ''missing''
              else if passed \<and> rel \<in> set (ws_deliverables spec) then ''verified'' else ''unverified'')\<rparr>)
      (take MAX_ARTIFACTS (filter is_work (rev (remdups (rev (ws_deliverables spec @ ve_changed env))))))"

record verify_result =
  vs_record :: verification_record
  vs_artifacts :: "artifact list"
  vs_report :: "employee_report option"
  vs_usage :: "dict option"

text \<open>\<open>verify\<close>\<close>

definition verify :: "time \<Rightarrow> verify_env \<Rightarrow> work_spec \<Rightarrow> verify_result option" where
  "verify now env spec =
    (case judge_reply env of (checks1, v1, rep) \<Rightarrow>
      (case (if fst v1 = ACompleted then work_checks env spec rep else Some []) of
         None \<Rightarrow> None
       | Some checks2 \<Rightarrow>
           let checks = checks1 @ checks2;
               v = (if fst v1 = ACompleted \<and> \<not> list_all ck_passed checks
                    then (AFailed, ''verification_failed'', Some ''VERIFICATION_FAILED'') else v1);
               passed = (fst v = ACompleted)
           in Some \<lparr>vs_record = empty_record\<lparr>vr_passed := Some passed, vr_outcome := Some (fst v),
                      vr_completion_reason := Some (fst (snd v)), vr_error_code := snd (snd v),
                      vr_checks := checks, vr_verified_at := Some now\<rparr>,
                    vs_artifacts = (if ws_mode spec = WriteMode then manifest env spec passed else []),
                    vs_report = rep, vs_usage = ve_usage env\<rparr>))"

section \<open>The commit\<close>

text \<open>The branch of the worktree: the trailer and hash of each commit, and the changed paths.\<close>

record git_branch =
  gb_commits :: "(label \<times> string) list"
  gb_changed :: "string list"

definition commit_key :: "task_attempt \<Rightarrow> label" where
  "commit_key a = [Txt ''commit:'', Uid (ta_id a)]"

text \<open>The git half of \<open>commit_work\<close>; \<open>sha\<close> is the hash a new commit gets.\<close>

definition commit_git :: "string \<Rightarrow> task_attempt \<Rightarrow> git_branch \<Rightarrow> git_branch \<times> string option" where
  "commit_git sha a g =
    (case map_of (gb_commits g) (commit_key a) of
       Some c \<Rightarrow> (g, Some c)
     | None \<Rightarrow>
         if filter is_work (gb_changed g) = [] then (g, None)
         else (g\<lparr>gb_commits := gb_commits g @ [(commit_key a, sha)],
                 gb_changed := filter (\<lambda>p. \<not> is_work p) (gb_changed g)\<rparr>, Some sha))"

definition commit_result :: "work_effect \<Rightarrow> string option" where
  "commit_result e = (case we_result e of Commit c \<Rightarrow> c | _ \<Rightarrow> None)"

definition commit_work :: "string \<Rightarrow> task_attempt \<Rightarrow> work_db \<times> git_branch \<Rightarrow> (work_db \<times> git_branch) \<times> string option" where
  "commit_work sha a w =
    (case open_effect a GitCommit (commit_key a) (fst w) of (db1, e) \<Rightarrow>
       if we_done e then ((db1, snd w), commit_result e)
       else case commit_git sha a (snd w) of (g, c) \<Rightarrow> ((effect_done e (Commit c) db1, g), c))"

text \<open>
  The same with a crash of the worker: after the ledger row (\<open>1\<close>), after git (\<open>2\<close>), or not at all.
\<close>

definition commit_until :: "nat \<Rightarrow> string \<Rightarrow> task_attempt \<Rightarrow> work_db \<times> git_branch \<Rightarrow> work_db \<times> git_branch" where
  "commit_until n sha a w =
    (if n = 0 then w
     else if n = 1 then (fst (open_effect a GitCommit (commit_key a) (fst w)), snd w)
     else if n = 2 then
       (case open_effect a GitCommit (commit_key a) (fst w) of (db1, e) \<Rightarrow>
          (db1, if we_done e then snd w else fst (commit_git sha a (snd w))))
     else fst (commit_work sha a w))"

section \<open>Driving an attempt\<close>

definition timeout_finish :: "string \<Rightarrow> work_spec \<Rightarrow> finish" where
  "timeout_finish w spec = fail_finish (Some w) ''timeout'' ''TIMEOUT''
     (''No result within '' @ show_int (ws_timeout_seconds spec) @ '' seconds'')"

fun status_upper :: "turn_status \<Rightarrow> string" where
  "status_upper Queued = ''QUEUED''"
| "status_upper Claimed = ''CLAIMED''"
| "status_upper Running = ''RUNNING''"
| "status_upper Completed = ''COMPLETED''"
| "status_upper Failed = ''FAILED''"
| "status_upper Cancelled = ''CANCELLED''"
| "status_upper Expired = ''EXPIRED''"

definition turn_finish :: "string \<Rightarrow> chat_turn \<Rightarrow> finish" where
  "turn_finish w t = fail_finish (Some w) ''error''
     (or_empty (str_or (ct_error_code t) (Some (''TURN_'' @ status_upper (ct_status t)))))
     (take 2000 (or_empty (str_or (ct_error_message t) (Some (''The employee''@ [CHR 0x27] @ ''s turn '' @ status_text (ct_status t))))))"

text \<open>The values the last transaction of a verified attempt writes.\<close>

definition failure_text :: "verify_result \<Rightarrow> string" where
  "failure_text r =
    (let failed = map ck_check (filter (\<lambda>c. \<not> ck_passed c) (vr_checks (vs_record r)));
         blockers = (case vs_report r of None \<Rightarrow> [] | Some rep \<Rightarrow> er_blockers rep)
     in take 2000 (join_with ''; '' (failed @ blockers)))"

definition verified_vals :: "verify_result \<Rightarrow> string option \<Rightarrow> task_attempt \<Rightarrow> task_attempt" where
  "verified_vals r commit a =
    a\<lparr>ta_verification := Some (vs_record r),
      ta_artifacts := map (\<lambda>f. if af_sha256 f = None then f else f\<lparr>af_commit := commit\<rparr>) (vs_artifacts r),
      ta_usage := vs_usage r,
      ta_output_summary := text_or_none (take 4000 (case vs_report r of None \<Rightarrow> [] | Some rep \<Rightarrow> er_summary rep)),
      ta_error_code := vr_error_code (vs_record r),
      ta_error := (if vr_passed (vs_record r) = Some True then None
                   else str_or (Some (failure_text r)) (vr_error_code (vs_record r)))\<rparr>"

definition verified_finish :: "string \<Rightarrow> verify_result \<Rightarrow> string option \<Rightarrow> finish" where
  "verified_finish w r commit =
    plain_finish (case vr_outcome (vs_record r) of None \<Rightarrow> AFailed | Some s \<Rightarrow> s)
      (vr_completion_reason (vs_record r)) (Some w) (\<lambda>_. True) (verified_vals r commit)"

text \<open>The stored result of a verification, and the result read back from the ledger.\<close>

definition evidence_key :: "task_attempt \<Rightarrow> label" where
  "evidence_key a = [Txt ''evidence:'', Uid (ta_id a)]"

definition evidence_of :: "verify_result \<Rightarrow> effect_result" where
  "evidence_of r = Evidence (vs_record r) (vs_report r) (vs_artifacts r) (vs_usage r)"

fun recorded_evidence :: "effect_result \<Rightarrow> verify_result option" where
  "recorded_evidence (Evidence rec rep arts usage) =
    Some \<lparr>vs_record = rec, vs_artifacts = arts, vs_report = rep, vs_usage = usage\<rparr>"
| "recorded_evidence _ = None"

text \<open>
  One round of the loop of \<open>_drive\<close>, with the worker's copy \<open>a\<close> of the attempt and the progress
  file it reads: lease, turn, execution id, progress, and the one cancellation of the turn.
\<close>

datatype drive_state = DriveStop | TurnOver task_attempt chat_turn bool | Polling task_attempt bool bool

definition missing_turn :: "string \<Rightarrow> finish" where
  "missing_turn w = plain_finish AFailed (Some ''error'') (Some w) (\<lambda>_. True) (\<lambda>r. r\<lparr>ta_error_code := Some ''TURN_MISSING''\<rparr>)"

definition sync_execution :: "time \<Rightarrow> task_attempt \<Rightarrow> string \<Rightarrow> chat_turn \<Rightarrow> work_db \<Rightarrow> work_db \<times> task_attempt" where
  "sync_execution now a w t db =
    (if ct_execution_id t = None \<or> ct_execution_id t = ta_execution_id a then (db, a)
     else case update_held now a w (\<lambda>r. r\<lparr>ta_execution_id := ct_execution_id t\<rparr>) db of
       (db', held) \<Rightarrow> (db', if held then a\<lparr>ta_execution_id := ct_execution_id t\<rparr> else a))"

definition sync_progress :: "time \<Rightarrow> task_attempt \<Rightarrow> work_spec \<Rightarrow> (int \<times> employee_report) option \<Rightarrow> work_db \<Rightarrow> work_db \<times> task_attempt" where
  "sync_progress now a spec progress db =
    (case (if ws_mode spec = WriteMode then progress else None) of
       None \<Rightarrow> (db, a)
     | Some (n, rep) \<Rightarrow>
         if n \<le> ta_report_seq a then (db, a)
         else (case store_report now a n rep ''progress'' db of
                 (db', stored) \<Rightarrow> (db', if stored then a\<lparr>ta_report_seq := n\<rparr> else a)))"

definition stop_turn :: "time \<Rightarrow> task_attempt \<Rightarrow> string \<Rightarrow> chat_turn \<Rightarrow> bool \<Rightarrow> work_db \<Rightarrow> work_db" where
  "stop_turn now a w t timed_out db =
    (let db1 = (if timed_out then fst (update_held now a w (\<lambda>r. r\<lparr>ta_error_code := Some ''TIMEOUT''\<rparr>) db) else db);
         who = (if timed_out then SYSTEM_ACTOR @ '':timeout''
                else case get_attempt (ta_company_id a) (ta_id a) db1 of
                  None \<Rightarrow> SYSTEM_ACTOR | Some f \<Rightarrow> or_empty (str_or (ta_cancelled_by f) (Some SYSTEM_ACTOR)))
     in on_chat (\<lambda>c. fst (request_cancel now (ta_company_id a) (ct_session_id t) (ct_id t) who c)) db1)"

definition drive_poll :: "work_settings \<Rightarrow> time \<Rightarrow> string \<Rightarrow> work_spec \<Rightarrow> time \<Rightarrow> uuid \<Rightarrow> (int \<times> employee_report) option \<Rightarrow>
    task_attempt \<Rightarrow> bool \<Rightarrow> bool \<Rightarrow> work_db \<Rightarrow> work_db \<times> drive_state" where
  "drive_poll cfg now w spec deadline turn_id progress a cancel_sent timed_out db =
    (case renew_attempt cfg now a w db of (db1, seen) \<Rightarrow>
       if seen = Lost then (db1, DriveStop)
       else case get_turn (ta_company_id a) turn_id (db_turns (wd_chat db1)) of
         None \<Rightarrow> (fst (finish_attempt now (ta_company_id a) (ta_id a) (missing_turn w) db1), DriveStop)
       | Some t \<Rightarrow>
           (case sync_execution now a w t db1 of (db2, a2) \<Rightarrow>
             (case sync_progress now a2 spec progress db2 of (db3, a3) \<Rightarrow>
               if ct_status t \<in> set TERMINAL_STATUSES then (db3, TurnOver a3 t timed_out)
               else if \<not> cancel_sent \<and> (seen = CancelSeen \<or> deadline \<le> now)
               then (stop_turn now a3 w t (seen \<noteq> CancelSeen) db3, Polling a3 True (seen \<noteq> CancelSeen))
               else (db3, Polling a3 cancel_sent timed_out))))"

text \<open>The verified end of a write or read-only attempt.\<close>

definition find_evidence :: "time \<Rightarrow> verify_env \<Rightarrow> work_spec \<Rightarrow> task_attempt \<Rightarrow> work_db \<Rightarrow> work_db \<times> verify_result option" where
  "find_evidence now env spec a db =
    (case open_effect a FileWriteBatch (evidence_key a) db of (db1, e) \<Rightarrow>
       if we_done e then (db1, recorded_evidence (we_result e))
       else case verify now env spec of
         None \<Rightarrow> (db1, None)
       | Some r \<Rightarrow> (effect_done e (evidence_of r) db1, Some r))"

definition finish_verified :: "time \<Rightarrow> string \<Rightarrow> string \<Rightarrow> work_spec \<Rightarrow> verify_result \<Rightarrow> task_attempt \<Rightarrow>
    work_db \<times> git_branch \<Rightarrow> work_db \<times> git_branch" where
  "finish_verified now sha w spec r a s =
    (let db1 = (case vs_report r of None \<Rightarrow> fst s
                | Some rep \<Rightarrow> fst (store_report now a (ta_report_seq a + 1) rep ''final'' (fst s)))
     in case (if vr_passed (vs_record r) = Some True \<and> ws_mode spec = WriteMode
              then commit_work sha a (db1, snd s) else ((db1, snd s), None)) of
          ((db2, g), commit) \<Rightarrow> (fst (finish_attempt now (ta_company_id a) (ta_id a) (verified_finish w r commit) db2), g))"

text \<open>\<open>_drive\<close> after its loop; an exception leaves the attempt to its lease.\<close>

definition drive_end :: "time \<Rightarrow> verify_env \<Rightarrow> string \<Rightarrow> string \<Rightarrow> work_spec \<Rightarrow> turn_reply \<Rightarrow> task_attempt \<Rightarrow> chat_turn \<Rightarrow> bool \<Rightarrow>
    work_db \<times> git_branch \<Rightarrow> work_db \<times> git_branch" where
  "drive_end now env sha w spec reply a t timed_out s =
    (let cid = ta_company_id a; db = fst s; done = (\<lambda>fi. (fst (finish_attempt now cid (ta_id a) fi db), snd s))
     in if (case get_attempt cid (ta_id a) db of None \<Rightarrow> False | Some f \<Rightarrow> ta_cancel_requested_at f \<noteq> None)
        then done (worker_cancel w)
        else if timed_out then done (timeout_finish w spec)
        else if ct_status t \<noteq> Completed then done (turn_finish w t)
        else if ws_mode spec = TextMode
        then (fst (submit_from_turn (ve_sha256 env) now a w spec reply db), snd s)
        else case update_held now a w (\<lambda>r. r\<lparr>ta_status := AVerifying\<rparr>) db of (db1, held) \<Rightarrow>
          if \<not> held then (db1, snd s)
          else case find_evidence now env spec a db1 of
            (db2, None) \<Rightarrow> (db2, snd s)
          | (db2, Some r) \<Rightarrow> finish_verified now sha w spec r a (db2, snd s))"

end
