(* ===== verification/Work_System.thy ===== *)
theory Work_System
  imports Work_Verify
begin

text \<open>
  Employee work as a system: managers, workers, reviewers and recovery passes on one database,
  interleaved at transaction granularity. A world is the database and what the processes have
  read: task and attempt rows, possibly stale, and attempts planned but not yet inserted.
\<close>

section \<open>Steps\<close>

record work_world =
  ww_db :: work_db
  ww_tasks :: "task list"
  ww_attempts :: "task_attempt list"
  ww_starts :: "(start_request \<times> task_attempt) list"

text \<open>The values \<open>_update_held\<close> is called with.\<close>

datatype held_update =
    HeldSession "uuid option" "uuid option"
  | HeldWorktree "uuid option"
  | HeldTurn "uuid option"
  | HeldExecution "uuid option"
  | HeldTimeout
  | HeldVerifying

fun held_vals :: "held_update \<Rightarrow> task_attempt \<Rightarrow> task_attempt" where
  "held_vals (HeldSession s w) r = r\<lparr>ta_session_id := s, ta_workspace_id := w\<rparr>"
| "held_vals (HeldWorktree w) r = r\<lparr>ta_worktree_id := w\<rparr>"
| "held_vals (HeldTurn t) r = r\<lparr>ta_chat_turn_id := t, ta_status := ARunning\<rparr>"
| "held_vals (HeldExecution e) r = r\<lparr>ta_execution_id := e\<rparr>"
| "held_vals HeldTimeout r = r\<lparr>ta_error_code := Some ''TIMEOUT''\<rparr>"
| "held_vals HeldVerifying r = r\<lparr>ta_status := AVerifying\<rparr>"

definition mode_of :: "task_attempt \<Rightarrow> work_mode" where
  "mode_of a = ws_mode (sn_work_spec (ta_snapshot a))"

text \<open>How a worker ends an attempt it holds: in failure, cancelled, or with the verifier's result.\<close>

inductive worker_finish :: "task_attempt \<Rightarrow> string \<Rightarrow> finish \<Rightarrow> bool" where
  failed: "worker_finish a w (fail_finish (Some w) reason code msg)"
| missing: "worker_finish a w (missing_turn w)"
| cancelled: "worker_finish a w (worker_cancel w)"
| verified: "mode_of a \<noteq> TextMode \<Longrightarrow> verify now env (sn_work_spec (ta_snapshot a)) = Some r \<Longrightarrow>
    worker_finish a w (verified_finish w r commit)"

inductive work_step :: "work_world \<Rightarrow> work_world \<Rightarrow> bool" where
  order: "create_work_order uuid5 now cid rq (ww_db w) = (db', res) \<Longrightarrow>
    (case or_work_spec rq of None \<Rightarrow> True | Some s \<Rightarrow> validate_spec s = Inr s) \<Longrightarrow> work_step w (w\<lparr>ww_db := db'\<rparr>)"
| task: "create_task now cid rq (ww_db w) = (db', res) \<Longrightarrow>
    (case tq_work_spec rq of None \<Rightarrow> True | Some s \<Rightarrow> validate_spec s = Inr s) \<Longrightarrow>
    tq_id rq \<notin> tk_id ` set (wd_tasks (ww_db w)) \<Longrightarrow> work_step w (w\<lparr>ww_db := db'\<rparr>)"
| read_task: "t \<in> set (wd_tasks (ww_db w)) \<Longrightarrow> work_step w (w\<lparr>ww_tasks := t # ww_tasks w\<rparr>)"
| read_attempt: "a \<in> set (wd_attempts (ww_db w)) \<Longrightarrow> work_step w (w\<lparr>ww_attempts := a # ww_attempts w\<rparr>)"
| delegated: "delegate_to_manager now cid ceo manager tid who (ww_db w) = (db', res) \<Longrightarrow> work_step w (w\<lparr>ww_db := db'\<rparr>)"
| child: "p \<in> set (ww_tasks w) \<Longrightarrow> is_work_order p \<Longrightarrow> validate_spec s = Inr spec \<Longrightarrow>
    insert_child now rq manager p (new_child uuid5 now (tk_company_id p) manager eid rq spec p) (ww_db w) = (db', res) \<Longrightarrow>
    work_step w (w\<lparr>ww_db := db'\<rparr>)"
| finalized: "p \<in> set (ww_tasks w) \<Longrightarrow> is_work_order p \<Longrightarrow> finalize_commit now who manager p (ww_db w) = (db', res) \<Longrightarrow>
    work_step w (w\<lparr>ww_db := db'\<rparr>)"
| planned: "plan_start registry now cid rq (ww_db w) = Candidate n \<Longrightarrow> work_step w (w\<lparr>ww_starts := (rq, n) # ww_starts w\<rparr>)"
| started: "(rq, n) \<in> set (ww_starts w) \<Longrightarrow> insert_attempt rq n (ww_db w) = (db', res) \<Longrightarrow> work_step w (w\<lparr>ww_db := db'\<rparr>)"
| handed: "delegate_start registry now cid manager eid rq (ww_db w) = (db', res) \<Longrightarrow> work_step w (w\<lparr>ww_db := db'\<rparr>)"
| retried: "retry_attempt registry now cid aid rq (ww_db w) = (db', res) \<Longrightarrow> work_step w (w\<lparr>ww_db := db'\<rparr>)"
| reopened: "work_step w (w\<lparr>ww_db := reopen_for_retry now cid tid (ww_db w)\<rparr>)"
| cancelled: "a \<in> set (ww_attempts w) \<Longrightarrow> work_step w (w\<lparr>ww_db := cancel_read now a who (ww_db w)\<rparr>)"
| marked: "work_step w (w\<lparr>ww_db := cancel_mark now cid who' tid targets (ww_db w)\<rparr>)"
| claimed: "claim_attempt cfg now aid cid wk (ww_db w) = (db', res) \<Longrightarrow> work_step w (w\<lparr>ww_db := db'\<rparr>)"
| renewed: "a \<in> set (ww_attempts w) \<Longrightarrow> renew_attempt cfg now a wk (ww_db w) = (db', res) \<Longrightarrow> work_step w (w\<lparr>ww_db := db'\<rparr>)"
| held: "a \<in> set (ww_attempts w) \<Longrightarrow> u = HeldVerifying \<longrightarrow> mode_of a \<noteq> TextMode \<Longrightarrow>
    update_held now a wk (held_vals u) (ww_db w) = (db', res) \<Longrightarrow> work_step w (w\<lparr>ww_db := db'\<rparr>)"
| reported: "a \<in> set (ww_attempts w) \<Longrightarrow> store_report now a n rep source (ww_db w) = (db', res) \<Longrightarrow> work_step w (w\<lparr>ww_db := db'\<rparr>)"
| ended: "a \<in> set (ww_attempts w) \<Longrightarrow> worker_finish a wk fi \<Longrightarrow>
    finish_attempt now (ta_company_id a) (ta_id a) fi (ww_db w) = (db', res) \<Longrightarrow> work_step w (w\<lparr>ww_db := db'\<rparr>)"
| submitted: "a \<in> set (ww_attempts w) \<Longrightarrow> mode_of a = TextMode \<Longrightarrow>
    submit_deliverable sha256 now a wk text cap usage (ww_db w) = (db', res) \<Longrightarrow> work_step w (w\<lparr>ww_db := db'\<rparr>)"
| reviewed: "a \<in> set (ww_attempts w) \<Longrightarrow> review_check (ta_company_id a) a rw (ww_db w) = Inr True \<Longrightarrow>
    rw_decision rw \<in> {''verify'', ''reject''} \<Longrightarrow>
    review_commit now (ta_company_id a) a rw (ww_db w) = (db', res) \<Longrightarrow> work_step w (w\<lparr>ww_db := db'\<rparr>)"
| released: "a \<in> set (ww_attempts w) \<Longrightarrow> release_attempt now a wk reason (ww_db w) = (db', res) \<Longrightarrow> work_step w (w\<lparr>ww_db := db'\<rparr>)"
| recovered: "a \<in> set (ww_attempts w) \<Longrightarrow> recover_attempt cfg now a (ww_db w) = (db', ev) \<Longrightarrow> work_step w (w\<lparr>ww_db := db'\<rparr>)"
| expired: "a \<in> set (ww_attempts w) \<Longrightarrow> expire_attempt now a (ww_db w) = (db', b) \<Longrightarrow> work_step w (w\<lparr>ww_db := db'\<rparr>)"
| effect: "a \<in> set (ww_attempts w) \<Longrightarrow> open_effect a kind key (ww_db w) = (db', e) \<Longrightarrow> work_step w (w\<lparr>ww_db := db'\<rparr>)"
| effected: "work_step w (w\<lparr>ww_db := effect_done e r (ww_db w)\<rparr>)"
| others: "wd_tasks db' = wd_tasks (ww_db w) \<Longrightarrow> wd_attempts db' = wd_attempts (ww_db w) \<Longrightarrow>
    wd_effects db' = wd_effects (ww_db w) \<Longrightarrow> work_step w (w\<lparr>ww_db := db'\<rparr>)"

definition work_start :: "work_world \<Rightarrow> bool" where
  "work_start w \<longleftrightarrow> wd_tasks (ww_db w) = [] \<and> wd_attempts (ww_db w) = [] \<and> wd_effects (ww_db w) = [] \<and>
     ww_tasks w = [] \<and> ww_attempts w = [] \<and> ww_starts w = []"

inductive work_reachable :: "work_world \<Rightarrow> bool" where
  start: "work_start w \<Longrightarrow> work_reachable w"
| more: "work_reachable w \<Longrightarrow> work_step w w' \<Longrightarrow> work_reachable w'"

section \<open>Frames\<close>

lemma work_frame [simp]:
  "wd_tasks (on_chat f db) = wd_tasks db" "wd_attempts (on_chat f db) = wd_attempts db" "wd_effects (on_chat f db) = wd_effects db"
  "wd_tasks (stat e db) = wd_tasks db" "wd_attempts (stat e db) = wd_attempts db" "wd_effects (stat e db) = wd_effects db"
  "wd_tasks (attempt_audit a ac ty who d db) = wd_tasks db" "wd_attempts (attempt_audit a ac ty who d db) = wd_attempts db"
  "wd_effects (attempt_audit a ac ty who d db) = wd_effects db"
  "wd_tasks (publish_attempt a x db) = wd_tasks db" "wd_attempts (publish_attempt a x db) = wd_attempts db"
  "wd_effects (publish_attempt a x db) = wd_effects db"
  "wd_tasks (manager_audit c ac wh rt ri d db) = wd_tasks db" "wd_attempts (manager_audit c ac wh rt ri d db) = wd_attempts db"
  "wd_effects (manager_audit c ac wh rt ri d db) = wd_effects db"
  by (simp_all add: on_chat_def stat_def attempt_audit_def publish_attempt_def manager_audit_def)

lemma notify_frame [simp]: "wd_tasks (notify_end a db) = wd_tasks db" "wd_attempts (notify_end a db) = wd_attempts db"
  by (simp_all add: notify_end_def)

lemma end_frame [simp]:
  "wd_tasks (end_audit a db) = wd_tasks db" "wd_attempts (end_audit a db) = wd_attempts db" "wd_effects (end_audit a db) = wd_effects db"
  "wd_tasks (end_session now a db) = wd_tasks db" "wd_attempts (end_session now a db) = wd_attempts db"
  "wd_effects (end_session now a db) = wd_effects db"
  by (simp_all add: end_audit_def end_session_def split: option.splits sum.splits)

lemma terminal_frame [simp]:
  "wd_attempts (complete_if_done now cid pid db) = wd_attempts db" "wd_attempts (after_terminal now a db) = wd_attempts db"
  "wd_effects (complete_if_done now cid pid db) = wd_effects db" "wd_effects (after_terminal now a db) = wd_effects db"
  by (auto simp: complete_if_done_def after_terminal_def Let_def split: option.splits)

lemma finish_in_False: "finish_in now cid aid fi db = (db', False) \<Longrightarrow> db' = db"
  by (auto simp: finish_in_def Let_def split: if_splits option.splits)

lemma finish_attempt_tables:
  assumes "finish_attempt now cid aid fi db = (db', b)"
  obtains (miss) "\<not> b" "db' = db" | (hit) db1 where "b" "finish_in now cid aid fi db = (db1, True)"
    "wd_tasks db' = wd_tasks db1" "wd_attempts db' = wd_attempts db1" "wd_effects db' = wd_effects db1"
  using assms by (cases "finish_in now cid aid fi db") (auto simp: finish_attempt_def split: bool.splits option.splits)

end
