(* ===== verification/Work_Moves.thy ===== *)
theory Work_Moves
  imports Work_System
begin

text \<open>
  What the operations may do to the two tables: \<open>legal_attempt\<close> for one attempt row,
  \<open>tasks_keep\<close> for the tasks, and \<open>orders_ok\<close>, the promise of a work order, with a lemma per
  operation.
\<close>

section \<open>One attempt\<close>

definition attempt_identity ::
  "task_attempt \<Rightarrow> uuid \<times> uuid \<times> uuid \<times> uuid \<times> int \<times> label \<times> uuid option \<times> string option \<times> time \<times> attempt_snapshot" where
  "attempt_identity a = (ta_id a, ta_company_id a, ta_task_id a, ta_agent_id a, ta_attempt_number a, ta_idempotency_key a,
     ta_repository_id a, ta_created_by a, ta_queued_at a, ta_snapshot a)"

definition active_row :: "task_attempt \<Rightarrow> bool" where
  "active_row a \<longleftrightarrow> ta_status a \<in> set ACTIVE_ATTEMPT_STATUSES"

definition finished_row :: "task_attempt \<Rightarrow> bool" where
  "finished_row a \<longleftrightarrow> ta_status a \<in> set TERMINAL_ATTEMPT_STATUSES"

definition attempt_edge :: "attempt_status \<Rightarrow> attempt_status \<Rightarrow> bool" where
  "attempt_edge s t \<longleftrightarrow>
    s = AQueued \<and> t \<in> {AQueued, AClaimed, ACancelled, AExpired} \<or>
    s \<in> set LEASED_ATTEMPT_STATUSES \<and>
      t \<in> {s, ARunning, AVerifying, AQueued, ACompleted, AFailed, ABlocked, ACancelled}"

text \<open>What a completed text attempt carries: the verification a review stamped.\<close>

definition reviewed_ok :: "task_attempt \<Rightarrow> bool" where
  "reviewed_ok a \<longleftrightarrow> (case ta_verification a of None \<Rightarrow> False
     | Some v \<Rightarrow> vr_state v = Some ''verified'' \<and> vr_passed v = Some True \<and> vr_reviewed_by v \<noteq> None)"

definition attempt_row_ok :: "task_attempt \<Rightarrow> bool" where
  "attempt_row_ok a \<longleftrightarrow>
    (ta_status a = AQueued \<longrightarrow> ta_claimed_by a = None \<and> ta_lease_expires_at a = None) \<and>
    (mode_of a = TextMode \<and> ta_status a = ACompleted \<longrightarrow> reviewed_ok a)"

definition legal_attempt :: "task_attempt \<Rightarrow> task_attempt \<Rightarrow> bool" where
  "legal_attempt a b \<longleftrightarrow> attempt_identity b = attempt_identity a \<and> attempt_edge (ta_status a) (ta_status b) \<and>
     (attempt_row_ok a \<longrightarrow> attempt_row_ok b) \<and> ta_report_seq a \<le> ta_report_seq b"

lemmas attempt_classes = active_row_def finished_row_def ACTIVE_ATTEMPT_STATUSES_def TERMINAL_ATTEMPT_STATUSES_def
  LEASED_ATTEMPT_STATUSES_def

lemmas legal_attempt_defs = legal_attempt_def attempt_identity_def attempt_edge_def attempt_row_ok_def mode_of_def
  attempt_classes

lemma legal_active: "legal_attempt a b \<Longrightarrow> active_row a"
  by (auto simp: legal_attempt_defs)

lemma active_or_finished: "active_row a \<longleftrightarrow> \<not> finished_row a"
  by (cases "ta_status a") (simp_all add: attempt_classes)

lemma attempt_claim_legal: "attempt_claim_guard aid cid r \<Longrightarrow> legal_attempt r (attempt_claim_vals now l w r)"
  by (auto simp: legal_attempt_defs attempt_claim_guard_def attempt_claim_vals_def)

lemma lease_legal: "attempt_held aid p r \<Longrightarrow> legal_attempt r (lease_vals now l r)"
  by (auto simp: legal_attempt_defs attempt_held_def lease_vals_def)

lemma requeue_legal: "attempt_held aid p r \<Longrightarrow> legal_attempt r (requeue_vals now n r)"
  by (auto simp: legal_attempt_defs attempt_held_def requeue_vals_def)

lemma attempt_recover_legal: "attempt_recover_guard aid p r \<Longrightarrow> legal_attempt r (requeue_vals now n r)"
  by (auto simp: legal_attempt_defs attempt_recover_guard_def requeue_vals_def)

lemma held_legal: "attempt_held aid p r \<Longrightarrow> legal_attempt r ((held_vals u r)\<lparr>ta_updated_at := now\<rparr>)"
  by (cases u) (auto simp: legal_attempt_defs attempt_held_def)

lemma submit_legal: "submit_guard aid p r \<Longrightarrow> legal_attempt r (submit_vals now t rec usage r)"
  by (auto simp: legal_attempt_defs submit_guard_def attempt_held_def submit_vals_def)

lemma cancel_request_legal: "cancel_request_guard aid cid r \<Longrightarrow> legal_attempt r (cancel_request_vals now who r)"
  by (auto simp: legal_attempt_defs cancel_request_guard_def cancel_request_vals_def reviewed_ok_def)

lemma report_legal: "report_guard aid p r \<Longrightarrow> legal_attempt r (report_vals now (snd p) rep source r)"
  by (auto simp: legal_attempt_defs report_guard_def report_vals_def reviewed_ok_def)

text \<open>The endings: which statuses their guard lets them leave, and where they lead.\<close>

lemmas finish_defs = finish_guard_def finish_vals_def plain_finish_def cancel_finish_def cancel_now_def worker_cancel_def
  fail_finish_def missing_turn_def cancel_recovery_def fail_recovery_def expire_finish_def lapsed_def

lemma cancel_finish_legal:
  "st \<in> {AQueued, AVerifying} \<Longrightarrow> finish_guard aid (cid, cancel_finish n who st) r \<Longrightarrow>
     legal_attempt r (finish_vals now (cancel_finish n who st) r)"
  by (auto simp: legal_attempt_defs finish_defs)

lemma attempt_expire_legal: "finish_guard aid (cid, expire_finish) r \<Longrightarrow> legal_attempt r (finish_vals now expire_finish r)"
  by (auto simp: legal_attempt_defs finish_defs)

lemma lapsed_legal:
  assumes "finish_guard aid (cid, fi) r" and "fi = cancel_recovery n \<or> fi = fail_recovery n a" and "attempt_row_ok r"
  shows "legal_attempt r (finish_vals now fi r)"
proof -
  have "ta_status r \<noteq> AQueued"
    using assms by (auto simp: finish_guard_def cancel_recovery_def fail_recovery_def plain_finish_def lapsed_def attempt_row_ok_def)
  then show ?thesis using assms(1,2) by (elim disjE) (simp_all add: legal_attempt_defs finish_defs)
qed

lemma verify_outcome:
  "verify n env spec = Some r \<Longrightarrow> vr_outcome (vs_record r) \<in> {Some ACompleted, Some AFailed, Some ABlocked}"
proof -
  have "fst (report_verdict rep) \<in> {ACompleted, AFailed, ABlocked}" for rep
    by (simp add: report_verdict_def PASSED_def)
  then have "fst (fst (snd (judge_reply env))) \<in> {ACompleted, AFailed, ABlocked}"
    by (auto simp: judge_reply_def worsen_def PASSED_def Let_def split: option.splits sum.splits)
  then show "verify n env spec = Some r \<Longrightarrow> vr_outcome (vs_record r) \<in> {Some ACompleted, Some AFailed, Some ABlocked}"
    by (auto simp: verify_def Let_def empty_record_def split: prod.splits option.splits if_splits)
qed

lemma worker_legal:
  assumes "worker_finish a w fi" and "finish_guard aid (cid, fi) r" and "attempt_row_ok r" and "mode_of r = mode_of a"
  shows "legal_attempt r (finish_vals now fi r)"
  using assms(1)
proof cases
  case (verified n env x commit)
  with assms(2-4) verify_outcome [OF verified(3)] show ?thesis
    by (auto simp: legal_attempt_defs finish_guard_def finish_vals_def plain_finish_def verified_finish_def verified_vals_def)
qed (use assms in \<open>auto simp: legal_attempt_defs finish_defs\<close>)

lemma review_legal:
  assumes "rw_decision rw \<in> {''verify'', ''reject''}" and "finish_guard aid (cid, review_finish n a rw) r"
  shows "legal_attempt r (finish_vals now (review_finish n a rw) r)"
  using assms by (auto simp: legal_attempt_defs finish_guard_def finish_vals_def plain_finish_def review_finish_def waiting_def
      reviewed_ok_def decision_outcome_def Let_def)

section \<open>All attempts\<close>

definition attempts_move :: "task_attempt list \<Rightarrow> task_attempt list \<Rightarrow> bool" where
  "attempts_move as as' \<longleftrightarrow> (\<exists>g. as' = map g as \<and> (\<forall>r \<in> set as. g r = r \<or> legal_attempt r (g r)))"

lemma attempts_move_refl [simp]: "attempts_move as as"
  unfolding attempts_move_def by (rule exI [of _ id]) simp

lemma attempts_move_update:
  "\<forall>r \<in> set as. P r \<longrightarrow> legal_attempt r (f r) \<Longrightarrow> attempts_move as (update_where P f as)"
  unfolding attempts_move_def update_where_def by (rule exI [of _ "\<lambda>r. if P r then f r else r"]) simp

lemma attempts_moveE:
  assumes "attempts_move as as'" and "b \<in> set as'"
  obtains a where "a \<in> set as" "b = a \<or> legal_attempt a b"
  using assms unfolding attempts_move_def by auto

lemma attempts_move_identities: "attempts_move as as' \<Longrightarrow> map attempt_identity as' = map attempt_identity as"
proof -
  assume "attempts_move as as'"
  then obtain g where g: "as' = map g as" "\<forall>r \<in> set as. g r = r \<or> legal_attempt r (g r)" unfolding attempts_move_def by blast
  have "attempt_identity (g r) = attempt_identity r" if "r \<in> set as" for r
    using g(2) that by (auto simp: legal_attempt_def)
  then show ?thesis using g(1) by simp
qed

text \<open>A finished row is in the table for good.\<close>

lemma attempts_move_finished:
  assumes "attempts_move as as'" and "a \<in> set as" and "finished_row a"
  shows "a \<in> set as'"
proof -
  obtain g where g: "as' = map g as" "\<forall>r \<in> set as. g r = r \<or> legal_attempt r (g r)"
    using assms(1) unfolding attempts_move_def by blast
  then have "g a = a" using assms(2,3) legal_active active_or_finished by blast
  then show ?thesis using g(1) assms(2) by (metis image_eqI list.set_map)
qed

section \<open>Tasks\<close>

text \<open>A task's permanent columns; the stamps of a finalized plan are not among them.\<close>

definition spec_kind :: "stored_spec \<Rightarrow> stored_spec" where
  "spec_kind s = (case s of OrderSpec _ \<Rightarrow> WORK_ORDER | _ \<Rightarrow> s)"

definition task_identity :: "task \<Rightarrow> uuid \<times> uuid \<times> uuid option \<times> stored_spec" where
  "task_identity t = (tk_id t, tk_company_id t, tk_parent_task_id t, spec_kind (tk_work_spec t))"

definition task_moves :: "task \<Rightarrow> task \<Rightarrow> bool" where
  "task_moves t u \<longleftrightarrow> task_identity u = task_identity t \<and>
     (tk_status t \<in> set CLOSED_STATUSES \<longrightarrow> tk_status u = tk_status t) \<and> (is_plan_finalized t \<longrightarrow> is_plan_finalized u)"

definition tasks_keep :: "task list \<Rightarrow> task list \<Rightarrow> bool" where
  "tasks_keep ts us \<longleftrightarrow> (\<exists>g. us = map g ts \<and> (\<forall>t \<in> set ts. task_moves t (g t)))"

lemma task_moves_refl [simp]: "task_moves t t"
  by (simp add: task_moves_def)

lemma task_moves_trans: "task_moves t u \<Longrightarrow> task_moves u v \<Longrightarrow> task_moves t v"
  by (auto simp: task_moves_def)

lemma tasks_keep_refl [simp]: "tasks_keep ts ts"
  unfolding tasks_keep_def by (rule exI [of _ id]) simp

lemma tasks_keep_trans: "tasks_keep ts us \<Longrightarrow> tasks_keep us vs \<Longrightarrow> tasks_keep ts vs"
proof -
  assume "tasks_keep ts us" "tasks_keep us vs"
  then obtain g h where "us = map g ts" "\<forall>t \<in> set ts. task_moves t (g t)" "vs = map h us" "\<forall>u \<in> set us. task_moves u (h u)"
    unfolding tasks_keep_def by blast
  then show "tasks_keep ts vs" unfolding tasks_keep_def by (intro exI [of _ "h \<circ> g"]) (auto intro: task_moves_trans)
qed

lemma tasks_keep_update:
  "\<forall>t \<in> set ts. P t \<longrightarrow> task_moves t (f t) \<Longrightarrow> tasks_keep ts (update_where P f ts)"
  unfolding tasks_keep_def update_where_def by (rule exI [of _ "\<lambda>r. if P r then f r else r"]) simp

lemma tasks_keep_identities: "tasks_keep ts us \<Longrightarrow> map task_identity us = map task_identity ts"
proof -
  assume "tasks_keep ts us"
  then obtain g where g: "us = map g ts" "\<forall>t \<in> set ts. task_moves t (g t)" unfolding tasks_keep_def by blast
  have "task_identity (g t) = task_identity t" if "t \<in> set ts" for t using g(2) that by (simp add: task_moves_def)
  then show ?thesis using g(1) by simp
qed

lemma identity_is_work_order: "task_identity t = task_identity u \<Longrightarrow> is_work_order t = is_work_order u"
  by (auto simp: task_identity_def is_work_order_def is_work_order_spec_def spec_kind_def WORK_ORDER_def split: stored_spec.splits)

section \<open>The promise of a work order\<close>

definition child_rows :: "task \<Rightarrow> task list \<Rightarrow> task list" where
  "child_rows p ts = filter (\<lambda>t. tk_parent_task_id t = Some (tk_id p) \<and> tk_company_id t = tk_company_id p) ts"

definition order_ok :: "task list \<Rightarrow> task \<Rightarrow> bool" where
  "order_ok ts p \<longleftrightarrow> is_plan_finalized p \<and> child_rows p ts \<noteq> [] \<and> list_all (\<lambda>t. tk_status t = TCompleted) (child_rows p ts)"

definition orders_ok :: "task list \<Rightarrow> bool" where
  "orders_ok ts \<longleftrightarrow> (\<forall>p \<in> set ts. is_work_order p \<and> tk_status p = TCompleted \<longrightarrow> order_ok ts p)"

lemma child_rows_map:
  assumes "\<forall>t \<in> set ts. task_moves t (g t)" and "task_moves p q"
  shows "child_rows q (map g ts) = map g (child_rows p ts)"
proof -
  have q: "tk_id q = tk_id p" "tk_company_id q = tk_company_id p" using assms(2) by (auto simp: task_moves_def task_identity_def)
  have "tk_parent_task_id (g t) = tk_parent_task_id t" "tk_company_id (g t) = tk_company_id t" if "t \<in> set ts" for t
    using assms(1) that by (auto simp: task_moves_def task_identity_def)
  then show ?thesis unfolding child_rows_def q filter_map comp_def by (auto intro!: arg_cong [of _ _ "map g"] filter_cong)
qed

lemma order_ok_map:
  assumes "\<forall>t \<in> set ts. task_moves t (g t)" and "task_moves p q" and "order_ok ts p"
  shows "order_ok (map g ts) q"
proof -
  have "child_rows p ts \<noteq> []" "\<forall>t \<in> set (child_rows p ts). tk_status (g t) = TCompleted"
    using assms(1,3) by (auto simp: order_ok_def list_all_iff child_rows_def task_moves_def CLOSED_STATUSES_def)
  then show ?thesis using assms(2,3) child_rows_map [OF assms(1,2)] by (auto simp: order_ok_def list_all_iff task_moves_def)
qed

text \<open>A rewrite that completes no order keeps the promise.\<close>

lemma orders_ok_update:
  assumes "orders_ok ts" and "\<forall>t \<in> set ts. P t \<longrightarrow> task_moves t (f t)"
    and "\<forall>t \<in> set ts. P t \<and> is_work_order t \<and> tk_status (f t) = TCompleted \<longrightarrow> tk_status t = TCompleted"
  shows "orders_ok (update_where P f ts)"
  unfolding orders_ok_def
proof (intro ballI impI)
  let ?g = "\<lambda>t. if P t then f t else t"
  fix q assume q: "q \<in> set (update_where P f ts)" "is_work_order q \<and> tk_status q = TCompleted"
  obtain p where p: "p \<in> set ts" "q = ?g p" using q(1) by (auto simp: in_update_where)
  have m: "\<forall>t \<in> set ts. task_moves t (?g t)" using assms(2) by simp
  then have pq: "task_moves p q" using p by blast
  then have "is_work_order p" using q(2) identity_is_work_order [of q p] by (simp add: task_moves_def)
  moreover have "tk_status p = TCompleted"
  proof (cases "P p")
    case True
    with assms(3) p q(2) calculation show ?thesis by simp
  qed (use p q(2) in simp)
  ultimately have "order_ok ts p" using assms(1) p(1) by (auto simp: orders_ok_def)
  then show "order_ok (update_where P f ts) q" using order_ok_map [OF m pq] by (simp add: update_where_def)
qed

text \<open>A new row: not an order that is already completed, and not the child of a completed order.\<close>

lemma orders_ok_append:
  assumes "orders_ok ts" and "\<not> (is_work_order n \<and> tk_status n = TCompleted)"
    and "\<forall>p \<in> set ts. is_work_order p \<and> tk_status p = TCompleted \<longrightarrow>
      \<not> (tk_parent_task_id n = Some (tk_id p) \<and> tk_company_id n = tk_company_id p)"
  shows "orders_ok (ts @ [n])"
  using assms by (fastforce simp: orders_ok_def order_ok_def child_rows_def)

lemma orders_ok_close:
  assumes "orders_ok ts" and "distinct (map tk_id ts)"
    and "rows = filter (\<lambda>t. tk_parent_task_id t = Some pid \<and> tk_company_id t = cid) ts"
    and "rows \<noteq> []" and "\<forall>t \<in> set rows. tk_status t = TCompleted"
  shows "orders_ok (update_where (\<lambda>p. open_order pid cid p \<and> is_plan_finalized p) (close_vals now rows) ts)"
  unfolding orders_ok_def
proof (intro ballI impI)
  let ?P = "\<lambda>p. open_order pid cid p \<and> is_plan_finalized p"
  let ?g = "\<lambda>t. if ?P t then close_vals now rows t else t"
  fix q assume q: "q \<in> set (update_where ?P (close_vals now rows) ts)" "is_work_order q \<and> tk_status q = TCompleted"
  obtain p where p: "p \<in> set ts" "q = ?g p" using q(1) by (auto simp: in_update_where)
  have m: "\<forall>t \<in> set ts. task_moves t (?g t)"
    by (auto simp: task_moves_def task_identity_def close_vals_def open_order_def OPEN_PARENT_STATUSES_def CLOSED_STATUSES_def
        is_plan_finalized_def)
  then have pq: "task_moves p q" using p by blast
  show "order_ok (update_where ?P (close_vals now rows) ts) q"
  proof (cases "?P p")
    case True
    then have "child_rows p ts = rows" using assms(3) by (auto simp: child_rows_def open_order_def task_scoped_def)
    then have "order_ok ts p" using True assms(4,5) by (simp add: order_ok_def list_all_iff)
    then show ?thesis using order_ok_map [OF m pq] by (simp add: update_where_def)
  next
    case False
    then have "q = p" using p(2) by (simp only: if_False)
    then have "is_work_order p \<and> tk_status p = TCompleted" using q(2) by simp
    then have "order_ok ts p" using assms(1) p(1) by (auto simp: orders_ok_def)
    then show ?thesis using order_ok_map [OF m pq] by (simp add: update_where_def)
  qed
qed

end
