(* ===== verification/Work_Invariant.thy ===== *)
theory Work_Invariant
  imports Work_Moves
begin

text \<open>
  Every operation on work is a legal move of the two tables (\<open>work_moves\<close>) or a legal insert;
  the invariant of the system and its proof over all steps.
\<close>

section \<open>The invariant of the database\<close>

definition has_task :: "task list \<Rightarrow> task_attempt \<Rightarrow> bool" where
  "has_task ts a \<longleftrightarrow> (\<exists>t \<in> set ts. tk_id t = ta_task_id a \<and> tk_company_id t = ta_company_id a \<and>
     (\<exists>s. tk_work_spec t = ItemSpec s \<and> validate_spec s = Inr (sn_work_spec (ta_snapshot a))))"

definition attempts_unique :: "task_attempt list \<Rightarrow> bool" where
  "attempts_unique as \<longleftrightarrow> (\<forall>a \<in> set as. \<forall>b \<in> set as. ta_task_id a = ta_task_id b \<longrightarrow>
     ta_attempt_number a = ta_attempt_number b \<or>
     ta_company_id a = ta_company_id b \<and> ta_idempotency_key a = ta_idempotency_key b \<or>
     active_row a \<and> active_row b \<longrightarrow> a = b)"

definition number_ok :: "task_attempt \<Rightarrow> bool" where
  "number_ok a \<longleftrightarrow> 1 \<le> ta_attempt_number a \<and>
     (mode_of a = TextMode \<longrightarrow> ta_attempt_number a \<le> max_attempts (sn_work_spec (ta_snapshot a)))"

definition dbinv :: "work_db \<Rightarrow> bool" where
  "dbinv db \<longleftrightarrow> distinct (map tk_id (wd_tasks db)) \<and> distinct (map ta_id (wd_attempts db)) \<and>
     attempts_unique (wd_attempts db) \<and> orders_ok (wd_tasks db) \<and>
     (\<forall>a \<in> set (wd_attempts db). attempt_row_ok a \<and> has_task (wd_tasks db) a \<and> number_ok a)"

lemma dbinvD:
  assumes "dbinv db"
  shows "distinct (map tk_id (wd_tasks db))" "distinct (map ta_id (wd_attempts db))" "attempts_unique (wd_attempts db)"
    "orders_ok (wd_tasks db)" "a \<in> set (wd_attempts db) \<Longrightarrow> attempt_row_ok a \<and> has_task (wd_tasks db) a \<and> number_ok a"
  using assms by (auto simp: dbinv_def)

definition work_moves :: "work_db \<Rightarrow> work_db \<Rightarrow> bool" where
  "work_moves db db' \<longleftrightarrow> attempts_move (wd_attempts db) (wd_attempts db') \<and> tasks_keep (wd_tasks db) (wd_tasks db') \<and>
     (orders_ok (wd_tasks db) \<longrightarrow> orders_ok (wd_tasks db'))"

lemma work_moves_same: "wd_attempts db' = wd_attempts db \<Longrightarrow> wd_tasks db' = wd_tasks db \<Longrightarrow> work_moves db db'"
  by (simp add: work_moves_def)

lemma map_of_identities:
  assumes "map f us = map f ts" and "\<And>x y. f x = f y \<Longrightarrow> g x = g y"
  shows "map g us = map g ts"
proof (rule nth_equalityI)
  show "length (map g us) = length (map g ts)" using map_eq_imp_length_eq [OF assms(1)] by simp
  fix i assume "i < length (map g us)"
  then show "map g us ! i = map g ts ! i" using assms map_eq_imp_length_eq [OF assms(1)] by (metis length_map nth_map)
qed

lemma keep_ids: "tasks_keep ts us \<Longrightarrow> map tk_id us = map tk_id ts"
  by (rule map_of_identities [OF tasks_keep_identities]) (auto simp: task_identity_def)

lemma move_ids: "attempts_move as bs \<Longrightarrow> map ta_id bs = map ta_id as"
  by (rule map_of_identities [OF attempts_move_identities]) (auto simp: attempt_identity_def)

lemma keep_has_task: "tasks_keep ts us \<Longrightarrow> has_task ts a \<Longrightarrow> has_task us a"
proof -
  assume k: "tasks_keep ts us" and h: "has_task ts a"
  obtain g where g: "us = map g ts" "\<forall>t \<in> set ts. task_moves t (g t)" using k unfolding tasks_keep_def by blast
  obtain t s where t: "t \<in> set ts" "tk_id t = ta_task_id a" "tk_company_id t = ta_company_id a"
    "tk_work_spec t = ItemSpec s" "validate_spec s = Inr (sn_work_spec (ta_snapshot a))"
    using h unfolding has_task_def by blast
  have "task_identity (g t) = task_identity t" using g(2) t(1) by (simp add: task_moves_def)
  then have "tk_id (g t) = ta_task_id a" "tk_company_id (g t) = ta_company_id a" "tk_work_spec (g t) = ItemSpec s"
    using t by (auto simp: task_identity_def spec_kind_def WORK_ORDER_def split: stored_spec.splits)
  moreover have "g t \<in> set us" using g(1) t(1) by simp
  ultimately show "has_task us a" using t(5) unfolding has_task_def by blast
qed

lemma identity_has_task: "attempt_identity a = attempt_identity b \<Longrightarrow> has_task ts a = has_task ts b"
  by (simp add: attempt_identity_def has_task_def)

lemma identity_number_ok: "attempt_identity a = attempt_identity b \<Longrightarrow> number_ok a = number_ok b"
  by (simp add: attempt_identity_def number_ok_def mode_of_def)

text \<open>A legal move keeps the invariant.\<close>

lemma move_unique:
  assumes "attempts_move as bs" and "attempts_unique as"
  shows "attempts_unique bs"
  unfolding attempts_unique_def
proof (intro ballI impI)
  obtain g where g: "bs = map g as" "\<forall>r \<in> set as. g r = r \<or> legal_attempt r (g r)"
    using assms(1) unfolding attempts_move_def by blast
  fix x y assume xy: "x \<in> set bs" "y \<in> set bs" "ta_task_id x = ta_task_id y"
    "ta_attempt_number x = ta_attempt_number y \<or>
     ta_company_id x = ta_company_id y \<and> ta_idempotency_key x = ta_idempotency_key y \<or> active_row x \<and> active_row y"
  obtain a b where ab: "a \<in> set as" "x = g a" "b \<in> set as" "y = g b" using xy(1,2) g(1) by auto
  have "x = a \<or> legal_attempt a x" "y = b \<or> legal_attempt b y" using g(2) ab by auto
  moreover have "legal_attempt r r' \<Longrightarrow> attempt_identity r' = attempt_identity r \<and> active_row r" for r r'
    using legal_active by (auto simp: legal_attempt_def)
  ultimately have "attempt_identity x = attempt_identity a" "attempt_identity y = attempt_identity b"
    "active_row x \<longrightarrow> active_row a" "active_row y \<longrightarrow> active_row b" by blast+
  then have "a = b" using assms(2) ab(1,3) xy(3,4) unfolding attempts_unique_def attempt_identity_def by auto
  then show "x = y" using ab by simp
qed

lemma moves_dbinv:
  assumes "dbinv db" and "work_moves db db'"
  shows "dbinv db'"
proof -
  have m: "attempts_move (wd_attempts db) (wd_attempts db')" "tasks_keep (wd_tasks db) (wd_tasks db')"
    "orders_ok (wd_tasks db')" using assms dbinvD(4) by (auto simp: work_moves_def)
  have "attempt_row_ok b \<and> has_task (wd_tasks db') b \<and> number_ok b" if b: "b \<in> set (wd_attempts db')" for b
  proof -
    obtain a where a: "a \<in> set (wd_attempts db)" "b = a \<or> legal_attempt a b" using m(1) b by (rule attempts_moveE)
    then have i: "attempt_identity b = attempt_identity a" "attempt_row_ok a \<longrightarrow> attempt_row_ok b"
      by (auto simp: legal_attempt_def)
    then show ?thesis using dbinvD(5) [OF assms(1) a(1)] keep_has_task [OF m(2)] identity_has_task [OF i(1)]
        identity_number_ok [OF i(1)] by blast
  qed
  moreover have "distinct (map tk_id (wd_tasks db'))" "distinct (map ta_id (wd_attempts db'))"
    using keep_ids [OF m(2)] move_ids [OF m(1)] dbinvD(1,2) [OF assms(1)] by simp_all
  ultimately show ?thesis using m(3) move_unique [OF m(1) dbinvD(3) [OF assms(1)]] by (simp add: dbinv_def)
qed

section \<open>Moves of the operations\<close>

lemma moves_attempts:
  "wd_tasks db' = wd_tasks db \<Longrightarrow> wd_attempts db' = update_where P f (wd_attempts db) \<Longrightarrow>
   \<forall>r \<in> set (wd_attempts db). P r \<longrightarrow> legal_attempt r (f r) \<Longrightarrow> work_moves db db'"
  by (simp add: work_moves_def attempts_move_update)

text \<open>One rewrite of tasks that completes no order, besides a rewrite of attempts.\<close>

definition quiet_task :: "(task \<Rightarrow> bool) \<Rightarrow> (task \<Rightarrow> task) \<Rightarrow> bool" where
  "quiet_task P f \<longleftrightarrow> (\<forall>t. P t \<longrightarrow> task_moves t (f t) \<and> (tk_status (f t) = TCompleted \<longrightarrow> tk_status t = TCompleted))"

lemma quiet_keep: "quiet_task P f \<Longrightarrow> tasks_keep ts (update_where P f ts) \<and> (orders_ok ts \<longrightarrow> orders_ok (update_where P f ts))"
  by (auto simp: quiet_task_def intro!: tasks_keep_update orders_ok_update)

lemma moves_both:
  "wd_tasks db' = update_where Q h (wd_tasks db) \<Longrightarrow> quiet_task Q h \<Longrightarrow> attempts_move (wd_attempts db) (wd_attempts db') \<Longrightarrow>
   work_moves db db'"
  using quiet_keep [of Q h "wd_tasks db"] by (simp add: work_moves_def)

lemmas task_rewrites = quiet_task_def task_moves_def task_identity_def is_plan_finalized_def open_task_def open_order_def
  task_scoped_def CLOSED_STATUSES_def OPEN_PARENT_STATUSES_def

lemma quiet_begin: "quiet_task (open_task tid cid) (begin_task now)"
  by (auto simp: task_rewrites begin_task_def)

lemma quiet_review: "quiet_task (open_task tid cid) (review_task now)"
  by (auto simp: task_rewrites review_task_def)

lemma quiet_cancel: "quiet_task (open_task tid cid) (cancel_task_vals now)"
  by (auto simp: task_rewrites cancel_task_vals_def)

lemma quiet_touch: "quiet_task P (touch now)"
  by (auto simp: task_rewrites touch_def)

lemma quiet_fail: "quiet_task (open_order pid cid) (fail_order_vals now a)"
  by (auto simp: task_rewrites fail_order_vals_def)

lemma quiet_delegate: "quiet_task (delegate_guard tid cid) (delegate_vals now m)"
  by (auto simp: task_rewrites delegate_guard_def delegate_vals_def)

lemma quiet_reassign: "quiet_task P (reassign_vals now e)"
  by (auto simp: task_rewrites reassign_vals_def)

lemma quiet_reopen: "st \<noteq> TCompleted \<Longrightarrow> quiet_task (\<lambda>t. task_scoped i cid t \<and> tk_status t = TFailed) (reopen_task now st)"
  by (auto simp: task_rewrites reopen_task_def)

lemma quiet_begin_order: "quiet_task (\<lambda>t. task_scoped i cid t \<and> tk_status t = TDelegated) (begin_order now)"
  by (auto simp: task_rewrites begin_order_def)

text \<open>The stamp of a plan, on a row that is an order.\<close>

lemma stamp_moves: "is_work_order p \<Longrightarrow> task_moves p (stamp_plan now m p)"
  by (auto simp: task_moves_def task_identity_def stamp_plan_def is_work_order_def is_work_order_spec_def spec_kind_def
      WORK_ORDER_def is_plan_finalized_def split: stored_spec.splits)

lemma complete_keep:
  assumes "distinct (map tk_id (wd_tasks db))"
  shows "tasks_keep (wd_tasks db) (wd_tasks (complete_if_done now cid pid db)) \<and>
    (orders_ok (wd_tasks db) \<longrightarrow> orders_ok (wd_tasks (complete_if_done now cid pid db)))"
proof (cases "children_of cid pid db = [] \<or> list_ex (\<lambda>t. tk_status t \<noteq> TCompleted) (children_of cid pid db)")
  case True
  then show ?thesis by (simp add: complete_if_done_def)
next
  case False
  then have "\<forall>t \<in> set (children_of cid pid db). tk_status t = TCompleted" by (simp add: list_ex_iff)
  moreover have "tasks_keep (wd_tasks db) (update_where (\<lambda>p. open_order pid cid p \<and> is_plan_finalized p)
      (close_vals now (children_of cid pid db)) (wd_tasks db))"
    by (rule tasks_keep_update) (auto simp: task_rewrites close_vals_def)
  ultimately show ?thesis
    using False orders_ok_close [OF _ assms, of "children_of cid pid db" pid cid now]
    by (simp add: complete_if_done_def children_of_def)
qed

lemma terminal_keep:
  assumes "distinct (map tk_id (wd_tasks db))"
  shows "tasks_keep (wd_tasks db) (wd_tasks (after_terminal now a db)) \<and>
    (orders_ok (wd_tasks db) \<longrightarrow> orders_ok (wd_tasks (after_terminal now a db)))"
proof (cases "case get_task (ta_company_id a) (ta_task_id a) db of None \<Rightarrow> None | Some t \<Rightarrow> tk_parent_task_id t")
  case None
  then show ?thesis by (simp add: after_terminal_def)
next
  case (Some pid)
  let ?P = "open_order pid (ta_company_id a)"
  let ?db1 = "db\<lparr>wd_tasks := update_where ?P (touch now) (wd_tasks db)\<rparr>"
  note q1 = quiet_keep [OF quiet_touch [of ?P now], of "wd_tasks db"]
  have "distinct (map tk_id (wd_tasks ?db1))" using keep_ids [OF conjunct1 [OF q1]] assms by simp
  note c = complete_keep [OF this, of now "ta_company_id a" pid]
  have comp: "tasks_keep (wd_tasks db) (wd_tasks (complete_if_done now (ta_company_id a) pid ?db1)) \<and>
      (orders_ok (wd_tasks db) \<longrightarrow> orders_ok (wd_tasks (complete_if_done now (ta_company_id a) pid ?db1)))"
    using c q1 tasks_keep_trans [OF conjunct1 [OF q1]] by simp
  show ?thesis
    using Some comp quiet_keep [OF quiet_fail [of pid "ta_company_id a" now a], of "wd_tasks db"]
    by (simp add: after_terminal_def Let_def)
qed

lemma get_attempt_SomeD: "get_attempt cid aid db = Some a \<Longrightarrow> a \<in> set (wd_attempts db) \<and> ta_id a = aid \<and> ta_company_id a = cid"
  by (auto simp: get_attempt_def attempt_scoped_def dest: find_SomeD)

lemma settle_keep:
  assumes "distinct (map tk_id ts)" and "has_task ts a"
  shows "tasks_keep ts (update_where (open_task (ta_task_id a) (ta_company_id a)) (settled_task now a) ts) \<and>
    (orders_ok ts \<longrightarrow> orders_ok (update_where (open_task (ta_task_id a) (ta_company_id a)) (settled_task now a) ts))"
proof -
  let ?P = "open_task (ta_task_id a) (ta_company_id a)"
  have m: "\<forall>t \<in> set ts. ?P t \<longrightarrow> task_moves t (settled_task now a t)"
    by (auto simp: task_rewrites settled_task_def Let_def)
  obtain t s where t: "t \<in> set ts" "tk_id t = ta_task_id a" "tk_work_spec t = ItemSpec s"
    using assms(2) unfolding has_task_def by blast
  have "\<not> is_work_order u" if "u \<in> set ts" "?P u" for u
    using same_key_same_row [OF assms(1) that(1) t(1)] that(2) t(2,3)
    by (auto simp: open_task_def task_scoped_def is_work_order_def is_work_order_spec_def)
  then have "\<forall>u \<in> set ts. ?P u \<and> is_work_order u \<and> tk_status (settled_task now a u) = TCompleted \<longrightarrow> tk_status u = TCompleted" by blast
  then show ?thesis using tasks_keep_update [OF m] orders_ok_update [OF _ m] by blast
qed

lemma finish_in_moves:
  assumes "dbinv db" and "finish_in now cid aid fi db = (db', b)"
    and legal: "\<forall>r \<in> set (wd_attempts db). finish_guard aid (cid, fi) r \<longrightarrow> legal_attempt r (finish_vals now fi r)"
  shows "work_moves db db'"
proof (cases b)
  case False
  with assms(2) show ?thesis by (auto dest: finish_in_False intro: work_moves_same)
next
  case True
  let ?as = "update_where (finish_guard aid (cid, fi)) (finish_vals now fi) (wd_attempts db)"
  let ?db1 = "db\<lparr>wd_attempts := ?as\<rparr>"
  note m = attempts_move_update [OF legal]
  obtain a where a: "get_attempt cid aid ?db1 = Some a"
    and db': "db' = end_session now a (notify_end a (end_audit a (after_terminal now a
      (?db1\<lparr>wd_tasks := update_where (open_task (ta_task_id a) (ta_company_id a)) (settled_task now a) (wd_tasks db)\<rparr>))))"
    using assms(2) True by (auto simp: finish_in_def Let_def split: if_splits option.splits)
  let ?ts = "update_where (open_task (ta_task_id a) (ta_company_id a)) (settled_task now a) (wd_tasks db)"
  have "a \<in> set ?as" using get_attempt_SomeD [OF a] by simp
  then obtain r where r: "r \<in> set (wd_attempts db)" "a = r \<or> legal_attempt r a" using m by (metis attempts_moveE)
  then have "has_task (wd_tasks db) a"
    using dbinvD(5) [OF assms(1) r(1)] identity_has_task [of a r] by (auto simp: legal_attempt_def)
  note s = settle_keep [OF dbinvD(1) [OF assms(1)] this, of now]
  have "distinct (map tk_id ?ts)" using keep_ids [OF conjunct1 [OF s]] dbinvD(1) [OF assms(1)] by simp
  then have t: "tasks_keep ?ts (wd_tasks db') \<and> (orders_ok ?ts \<longrightarrow> orders_ok (wd_tasks db'))"
    using terminal_keep [of "?db1\<lparr>wd_tasks := ?ts\<rparr>" now a] by (simp add: db')
  show ?thesis unfolding work_moves_def using m t s tasks_keep_trans [OF conjunct1 [OF s]] by (simp add: db')
qed

lemma finish_attempt_moves:
  assumes "dbinv db" and "finish_attempt now cid aid fi db = (db', b)"
    and "\<forall>r \<in> set (wd_attempts db). finish_guard aid (cid, fi) r \<longrightarrow> legal_attempt r (finish_vals now fi r)"
  shows "work_moves db db'"
  using assms(2)
proof (cases rule: finish_attempt_tables)
  case miss
  then show ?thesis by (simp add: work_moves_same)
next
  case (hit db1)
  with finish_in_moves [OF assms(1) hit(2) assms(3)] show ?thesis by (simp add: work_moves_def)
qed

section \<open>Moves of the handlers\<close>

lemma cancel_read_moves:
  assumes "dbinv db" shows "work_moves db (cancel_read now a who db)"
proof -
  let ?fi = "cancel_finish now (ac_name who) (ta_status a)"
  let ?db2 = "db\<lparr>wd_attempts := update_where (cancel_request_guard (ta_id a) (ta_company_id a))
      (cancel_request_vals now (ac_name who)) (wd_attempts db)\<rparr>"
  have flag: "work_moves db ?db2"
    by (rule moves_attempts [where f = "cancel_request_vals now (ac_name who)"]) (auto intro: cancel_request_legal)
  have ended: "work_moves db db1" if "finish_in now (ta_company_id a) (ta_id a) ?fi db = (db1, b)"
    and "ta_status a = AQueued \<or> ta_status a = AVerifying" for db1 b
    by (rule finish_in_moves [OF assms that(1)]) (use that(2) cancel_finish_legal in auto)
  show ?thesis
  proof (cases "(if ta_status a = AQueued \<or> ta_status a = AVerifying \<and> ta_claimed_by a = None
        then finish_in now (ta_company_id a) (ta_id a) ?fi db else (db, False))")
    case (Pair db1 b)
    show ?thesis
    proof (cases b)
      case True
      with Pair have "finish_in now (ta_company_id a) (ta_id a) ?fi db = (db1, True)"
        "ta_status a = AQueued \<or> ta_status a = AVerifying" by (auto split: if_splits)
      from ended [OF this] Pair True show ?thesis
        by (auto simp: cancel_read_def work_moves_def split: option.splits)
    next
      case False
      with Pair flag show ?thesis
        by (auto simp: cancel_read_def Let_def work_moves_def split: option.splits)
    qed
  qed
qed

lemma claim_attempt_moves: "claim_attempt cfg now aid cid w db = (db', res) \<Longrightarrow> work_moves db db'"
proof -
  assume c: "claim_attempt cfg now aid cid w db = (db', res)"
  show ?thesis
  proof (cases res)
    case None
    with c show ?thesis by (auto simp: claim_attempt_def Let_def work_moves_same split: if_splits option.splits)
  next
    case (Some a)
    with c have "wd_tasks db' = update_where (open_task (ta_task_id a) cid) (begin_task now) (wd_tasks db)"
      "wd_attempts db' = update_where (attempt_claim_guard aid cid)
         (attempt_claim_vals now (seconds (task_attempt_lease_seconds cfg)) w) (wd_attempts db)"
      by (auto simp: claim_attempt_def Let_def split: if_splits option.splits)
    then show ?thesis
      by (intro moves_both [OF _ quiet_begin]) (auto intro: attempts_move_update attempt_claim_legal)
  qed
qed

lemma renew_attempt_moves: "renew_attempt cfg now a w db = (db', res) \<Longrightarrow> work_moves db db'"
  by (rule moves_attempts [where P = "attempt_held (ta_id a) (ta_company_id a, w)"
        and f = "lease_vals now (seconds (task_attempt_lease_seconds cfg))"])
    (auto simp: renew_attempt_def Let_def intro: lease_legal)

lemma update_held_moves: "update_held now a w (held_vals u) db = (db', res) \<Longrightarrow> work_moves db db'"
  by (rule moves_attempts [where P = "attempt_held (ta_id a) (ta_company_id a, w)"
        and f = "\<lambda>r. (held_vals u r)\<lparr>ta_updated_at := now\<rparr>"])
    (auto simp: update_held_def Let_def intro: held_legal)

lemma release_attempt_moves: "release_attempt now a w reason db = (db', res) \<Longrightarrow> work_moves db db'"
proof (cases "matching (attempt_held (ta_id a) (ta_company_id a, w)) (wd_attempts db) = 1")
  case True
  then show "release_attempt now a w reason db = (db', res) \<Longrightarrow> ?thesis"
    by (intro moves_attempts [where P = "attempt_held (ta_id a) (ta_company_id a, w)" and f = "requeue_vals now 0"])
      (auto simp: release_attempt_def Let_def intro: requeue_legal)
qed (auto simp: release_attempt_def work_moves_same)

lemma store_report_moves: "store_report now a n rep source db = (db', res) \<Longrightarrow> work_moves db db'"
proof (cases "matching (report_guard (ta_id a) (ta_company_id a, n)) (wd_attempts db) = 1")
  case True
  have "report_guard aid (cid, n) r \<Longrightarrow> legal_attempt r (report_vals now n rep source r)" for aid cid r
    using report_legal [of aid "(cid, n)"] by simp
  with True show "store_report now a n rep source db = (db', res) \<Longrightarrow> ?thesis"
    by (intro moves_attempts [where P = "report_guard (ta_id a) (ta_company_id a, n)" and f = "report_vals now n rep source"])
      (auto simp: store_report_def Let_def)
qed (auto simp: store_report_def work_moves_same)

lemma recover_attempt_moves:
  assumes "dbinv db" and "recover_attempt cfg now a db = (db', ev)"
  shows "work_moves db db'"
proof -
  have fin: "work_moves db d" if "finish_attempt now (ta_company_id a) (ta_id a) fi db = (d, b)"
    and "fi = cancel_recovery now \<or> fi = fail_recovery now a" for fi d b
    by (rule finish_attempt_moves [OF assms(1) that(1)]) (use that(2) dbinvD(5) [OF assms(1)] lapsed_legal in blast)
  let ?g = "attempt_recover_guard (ta_id a) (ta_company_id a, now)"
  have req: "work_moves db d" if "wd_tasks d = wd_tasks db" "wd_attempts d = update_where ?g (requeue_vals now 1) (wd_attempts db)" for d
    by (rule moves_attempts [OF that]) (auto intro: attempt_recover_legal)
  consider "ta_cancel_requested_at a \<noteq> None" | "ta_cancel_requested_at a = None" "task_attempt_max_recoveries cfg \<le> ta_recoveries a"
    | "ta_cancel_requested_at a = None" "ta_recoveries a < task_attempt_max_recoveries cfg" by fastforce
  then show ?thesis
  proof cases
    case 3
    with assms(2) req show ?thesis
      by (auto simp: recover_attempt_def Let_def work_moves_same split: if_splits option.splits)
  qed (use assms(2) fin in \<open>auto simp: recover_attempt_def split: prod.splits\<close>)
qed

lemma expire_attempt_moves: "dbinv db \<Longrightarrow> expire_attempt now a db = (db', b) \<Longrightarrow> work_moves db db'"
  unfolding expire_attempt_def by (erule finish_attempt_moves) (auto intro: attempt_expire_legal)

lemma worker_finish_moves:
  assumes "dbinv db" and "worker_finish a w fi" and "finish_attempt now (ta_company_id a) (ta_id a) fi db = (db', b)"
    and same: "\<forall>r \<in> set (wd_attempts db). ta_id r = ta_id a \<longrightarrow> mode_of r = mode_of a"
  shows "work_moves db db'"
proof (rule finish_attempt_moves [OF assms(1,3)], intro ballI impI)
  fix r assume r: "r \<in> set (wd_attempts db)" "finish_guard (ta_id a) (ta_company_id a, fi) r"
  then have "mode_of r = mode_of a" using same by (auto simp: finish_guard_def attempt_scoped_def)
  then show "legal_attempt r (finish_vals now fi r)" using worker_legal [OF assms(2) r(2)] dbinvD(5) [OF assms(1) r(1)] by blast
qed

lemma submit_moves:
  assumes "dbinv db" and "submit_deliverable sha256 now a w text cap usage db = (db', b)"
    and same: "\<forall>r \<in> set (wd_attempts db). ta_id r = ta_id a \<longrightarrow> mode_of r = mode_of a"
  shows "work_moves db db'"
proof (cases "matching (submit_guard (ta_id a) (ta_company_id a, w)) (wd_attempts db) = 1")
  case True
  with assms(2) have "wd_tasks db' = update_where (open_task (ta_task_id a) (ta_company_id a)) (review_task now) (wd_tasks db)"
    "wd_attempts db' = update_where (submit_guard (ta_id a) (ta_company_id a, w))
       (submit_vals now (take cap text) (submit_record sha256 text cap) usage) (wd_attempts db)"
    by (auto simp: submit_deliverable_def Let_def)
  then show ?thesis by (intro moves_both [OF _ quiet_review]) (auto intro: attempts_move_update submit_legal)
next
  case False
  with assms(2) worker_finish_moves [OF assms(1) worker_finish.cancelled _ same] show ?thesis
    by (auto simp: submit_deliverable_def Let_def work_moves_same split: option.splits if_splits)
qed

lemma review_commit_moves:
  assumes "dbinv db" and "review_commit now cid a rw db = (db', res)" and "rw_decision rw \<in> {''verify'', ''reject''}"
  shows "work_moves db db'"
proof (cases "finish_in now cid (ta_id a) (review_finish now a rw) db")
  case (Pair db1 b)
  have "work_moves db db1"
    by (rule finish_in_moves [OF assms(1) Pair]) (use review_legal [OF assms(3)] in blast)
  with Pair assms(2) show ?thesis
    by (cases b) (auto simp: review_commit_def work_moves_def split: option.splits)
qed

lemma reopen_moves: "work_moves db (reopen_for_retry now cid tid db)"
proof -
  let ?P = "\<lambda>i t. task_scoped i cid t \<and> tk_status t = TFailed"
  let ?ts = "update_where (?P tid) (reopen_task now TPending) (wd_tasks db)"
  have q: "quiet_task (?P i) (reopen_task now st)" if "st = TPending \<or> st = TInProgress" for i st
    using quiet_reopen [of st i cid now] that by auto
  have k1: "tasks_keep (wd_tasks db) ?ts \<and> (orders_ok (wd_tasks db) \<longrightarrow> orders_ok ?ts)"
    by (rule quiet_keep) (rule q, simp)
  have k2: "tasks_keep ?ts (update_where (?P pid) (reopen_task now TInProgress) ?ts) \<and>
      (orders_ok ?ts \<longrightarrow> orders_ok (update_where (?P pid) (reopen_task now TInProgress) ?ts))" for pid
    by (rule quiet_keep) (rule q, simp)
  have "tasks_keep (wd_tasks db) (update_where (?P pid) (reopen_task now TInProgress) ?ts)" for pid
    using k1 k2 tasks_keep_trans by blast
  with k1 k2 show ?thesis by (auto simp: reopen_for_retry_def Let_def work_moves_def split: option.splits)
qed

lemma delegated_moves: "delegate_to_manager now cid ceo m tid who db = (db', res) \<Longrightarrow> work_moves db db'"
  by (auto simp: delegate_to_manager_def Let_def work_moves_same split: sum.splits option.splits if_splits
      intro!: moves_both [OF _ quiet_delegate])

end
