(* ===== verification/Work_Grows.thy ===== *)
theory Work_Grows
  imports Work_Invariant
begin

text \<open>
  Steps that insert rows beside those that move them: \<open>grows\<close> says what any transaction leaves
  of the rows that were there, \<open>db_step\<close> that it also keeps the invariant of the database. Moves
  are such steps, and so are the inserts of work orders, tasks, children and attempts.
\<close>

section \<open>Growth\<close>

definition grows :: "work_db \<Rightarrow> work_db \<Rightarrow> bool" where
  "grows db db' \<longleftrightarrow>
    (\<forall>a \<in> set (wd_attempts db). \<exists>b \<in> set (wd_attempts db'). attempt_identity b = attempt_identity a \<and> (finished_row a \<longrightarrow> b = a)) \<and>
    (\<forall>t \<in> set (wd_tasks db). \<exists>u \<in> set (wd_tasks db'). task_moves t u)"

lemma grows_attempt:
  assumes "grows db db'" and "a \<in> set (wd_attempts db)"
  obtains b where "b \<in> set (wd_attempts db')" "attempt_identity b = attempt_identity a" "finished_row a \<longrightarrow> b = a"
  using assms unfolding grows_def by blast

lemma grows_task:
  assumes "grows db db'" and "t \<in> set (wd_tasks db)"
  obtains u where "u \<in> set (wd_tasks db')" "task_moves t u"
  using assms unfolding grows_def by blast

lemma grows_trans: "grows db db1 \<Longrightarrow> grows db1 db2 \<Longrightarrow> grows db db2"
proof -
  assume g: "grows db db1" "grows db1 db2"
  have "\<exists>b \<in> set (wd_attempts db2). attempt_identity b = attempt_identity a \<and> (finished_row a \<longrightarrow> b = a)"
    if a: "a \<in> set (wd_attempts db)" for a
  proof -
    from g(1) a obtain b where b: "b \<in> set (wd_attempts db1)" "attempt_identity b = attempt_identity a" "finished_row a \<longrightarrow> b = a"
      by (rule grows_attempt)
    from g(2) b(1) obtain c where "c \<in> set (wd_attempts db2)" "attempt_identity c = attempt_identity b" "finished_row b \<longrightarrow> c = b"
      by (rule grows_attempt)
    with b show ?thesis by metis
  qed
  moreover have "\<exists>u \<in> set (wd_tasks db2). task_moves t u" if t: "t \<in> set (wd_tasks db)" for t
  proof -
    from g(1) t obtain u where "u \<in> set (wd_tasks db1)" "task_moves t u" by (rule grows_task)
    moreover from g(2) this(1) obtain v where "v \<in> set (wd_tasks db2)" "task_moves u v" by (rule grows_task)
    ultimately show ?thesis using task_moves_trans by blast
  qed
  ultimately show ?thesis unfolding grows_def by blast
qed

lemma moves_grows: "work_moves db db' \<Longrightarrow> grows db db'"
proof -
  assume "work_moves db db'"
  then obtain g h where gh: "wd_attempts db' = map g (wd_attempts db)" "wd_tasks db' = map h (wd_tasks db)"
    "\<forall>r \<in> set (wd_attempts db). g r = r \<or> legal_attempt r (g r)" "\<forall>t \<in> set (wd_tasks db). task_moves t (h t)"
    unfolding work_moves_def attempts_move_def tasks_keep_def by blast
  have "attempt_identity (g r) = attempt_identity r \<and> (finished_row r \<longrightarrow> g r = r)" if "r \<in> set (wd_attempts db)" for r
    using gh(3) that legal_active active_or_finished by (auto simp: legal_attempt_def)
  then show ?thesis unfolding grows_def gh(1,2) using gh(4) by auto
qed

lemma moved_has_task: "\<forall>t \<in> set ts. \<exists>u \<in> set us. task_moves t u \<Longrightarrow> has_task ts a \<Longrightarrow> has_task us a"
proof -
  assume k: "\<forall>t \<in> set ts. \<exists>u \<in> set us. task_moves t u" and h: "has_task ts a"
  obtain t s where t: "t \<in> set ts" "tk_id t = ta_task_id a" "tk_company_id t = ta_company_id a"
    "tk_work_spec t = ItemSpec s" "validate_spec s = Inr (sn_work_spec (ta_snapshot a))"
    using h unfolding has_task_def by blast
  obtain u where u: "u \<in> set us" "task_moves t u" using k t(1) by blast
  then have "tk_id u = ta_task_id a" "tk_company_id u = ta_company_id a" "tk_work_spec u = ItemSpec s"
    using t by (auto simp: task_moves_def task_identity_def spec_kind_def WORK_ORDER_def split: stored_spec.splits)
  then show "has_task us a" using u(1) t(5) unfolding has_task_def by blast
qed

lemma grows_has_task: "grows db db' \<Longrightarrow> has_task (wd_tasks db) a \<Longrightarrow> has_task (wd_tasks db') a"
  by (rule moved_has_task) (simp_all add: grows_def)

definition db_step :: "work_db \<Rightarrow> work_db \<Rightarrow> bool" where
  "db_step db db' \<longleftrightarrow> (dbinv db \<longrightarrow> dbinv db' \<and> grows db db')"

lemma db_step_moves: "(dbinv db \<Longrightarrow> work_moves db db') \<Longrightarrow> db_step db db'"
  by (auto simp: db_step_def intro: moves_dbinv moves_grows)

lemma db_step_refl [simp]: "db_step db db"
  by (rule db_step_moves) (simp add: work_moves_same)

lemma db_step_trans: "db_step db db1 \<Longrightarrow> db_step db1 db2 \<Longrightarrow> db_step db db2"
  by (auto simp: db_step_def intro: grows_trans)

text \<open>Only the two tables matter.\<close>

lemma same_tables: "db_step db d \<Longrightarrow> wd_tasks db' = wd_tasks d \<Longrightarrow> wd_attempts db' = wd_attempts d \<Longrightarrow> db_step db db'"
proof -
  assume d: "db_step db d" and t: "wd_tasks db' = wd_tasks d" and a: "wd_attempts db' = wd_attempts d"
  have "dbinv db' = dbinv d" unfolding dbinv_def t a ..
  moreover have "grows db db' = grows db d" unfolding grows_def t a ..
  ultimately show "db_step db db'" using d unfolding db_step_def by blast
qed

section \<open>New tasks\<close>

lemma append_task:
  assumes "wd_tasks db' = wd_tasks db @ [n]" and "wd_attempts db' = wd_attempts db"
    and "tk_id n \<notin> tk_id ` set (wd_tasks db)" and "tk_status n = TPending"
    and "\<And>p. dbinv db \<Longrightarrow> p \<in> set (wd_tasks db) \<Longrightarrow> is_work_order p \<Longrightarrow> tk_status p = TCompleted \<Longrightarrow>
      tk_parent_task_id n = Some (tk_id p) \<Longrightarrow> tk_company_id n \<noteq> tk_company_id p"
  shows "db_step db db'"
  unfolding db_step_def
proof (intro impI conjI)
  assume d: "dbinv db"
  have "orders_ok (wd_tasks db @ [n])"
    by (rule orders_ok_append) (use assms(4,5) d dbinvD(4) [OF d] in auto)
  moreover have "has_task (wd_tasks db @ [n]) a" if "has_task (wd_tasks db) a" for a
    using that by (auto simp: has_task_def)
  ultimately show "dbinv db'" using d assms(1-3) by (auto simp: dbinv_def)
  show "grows db db'" using assms(1,2) by (auto simp: grows_def intro: task_moves_refl)
qed

lemma get_task_SomeD: "get_task cid tid db = Some t \<Longrightarrow> t \<in> set (wd_tasks db) \<and> tk_id t = tid \<and> tk_company_id t = cid"
  by (auto simp: get_task_def task_scoped_def dest: find_SomeD)

lemma get_task_of:
  assumes "distinct (map tk_id (wd_tasks db))" and "t \<in> set (wd_tasks db)"
  shows "get_task (tk_company_id t) (tk_id t) db = Some t"
proof -
  have "get_task (tk_company_id t) (tk_id t) db \<noteq> None" using assms(2) by (auto simp: get_task_def find_None_iff task_scoped_def)
  then obtain u where u: "get_task (tk_company_id t) (tk_id t) db = Some u" by blast
  with get_task_SomeD [OF u] same_key_same_row [OF assms(1) _ assms(2), of u] show ?thesis by simp
qed

lemma create_order_step:
  assumes "create_work_order uuid5 now cid rq db = (db', res)"
  shows "db_step db db'"
proof (cases "db' = db")
  case False
  let ?t = "(fresh_task (Work_Orders.order_id uuid5 cid rq) cid (or_title rq) (or_description rq) (or_priority rq)
      (case or_work_spec rq of None \<Rightarrow> WORK_ORDER | Some s \<Rightarrow> ItemSpec s) now)\<lparr>tk_goal_id := or_goal_id rq\<rparr>"
  have "wd_tasks db' = wd_tasks db @ [?t]" "wd_attempts db' = wd_attempts db"
    "\<not> list_ex (\<lambda>r. tk_id r = Work_Orders.order_id uuid5 cid rq) (wd_tasks db)"
    using assms False by (auto simp: create_work_order_def Let_def split: option.splits if_splits)
  then show ?thesis by (intro append_task [of db' db ?t]) (auto simp: fresh_task_def list_ex_iff)
qed simp

lemma owned_order:
  assumes "distinct (map tk_id (wd_tasks db))" and "p \<in> set (wd_tasks db)" and "is_work_order p"
  shows "is_work_owned (tk_company_id p) (tk_id p) db"
  using assms(3) get_task_of [OF assms(1,2)]
  by (auto simp: is_work_owned_def has_kind_def is_work_order_def is_work_order_spec_def split: stored_spec.splits)

lemma create_task_step:
  assumes "create_task now cid rq db = (db', res)" and "tq_id rq \<notin> tk_id ` set (wd_tasks db)"
  shows "db_step db db'"
proof (cases "create_task_check cid rq db")
  case None
  let ?t = "(fresh_task (tq_id rq) cid (tq_title rq) (tq_description rq) (tq_priority rq)
      (case tq_work_spec rq of None \<Rightarrow> NoSpec | Some s \<Rightarrow> ItemSpec s) now)
      \<lparr>tk_project_id := tq_project_id rq, tk_assigned_agent_id := tq_assigned_agent_id rq, tk_parent_task_id := tq_parent_task_id rq\<rparr>"
  have t: "wd_tasks db' = wd_tasks db @ [?t]" "wd_attempts db' = wd_attempts db"
    using assms(1) None by (auto simp: create_task_def Let_def)
  show ?thesis
  proof (rule append_task [OF t])
    show "tk_id ?t \<notin> tk_id ` set (wd_tasks db)" "tk_status ?t = TPending" using assms(2) by (simp_all add: fresh_task_def)
    fix p assume p: "dbinv db" "p \<in> set (wd_tasks db)" "is_work_order p" "tk_parent_task_id ?t = Some (tk_id p)"
    then have "is_work_owned (tk_company_id p) (tk_id p) db" using owned_order dbinvD(1) by blast
    with None p(4) show "tk_company_id ?t \<noteq> tk_company_id p"
      by (auto simp: create_task_check_def fresh_task_def split: option.splits if_splits)
  qed
qed (use assms(1) in \<open>simp add: create_task_def\<close>)

section \<open>Children and plans\<close>

lemma db_step_tasks:
  "wd_tasks db' = update_where P f (wd_tasks db) \<Longrightarrow> quiet_task P f \<Longrightarrow> wd_attempts db' = wd_attempts db \<Longrightarrow> db_step db db'"
  by (rule db_step_moves) (rule moves_both, simp_all)

lemma insert_child_step:
  assumes "insert_child now rq m p (new_child uuid5 now (tk_company_id p) m eid rq spec p) db = (db', res)"
  shows "db_step db db'"
proof (cases "db' = db")
  case False
  let ?g = "plan_open_guard (tk_id p) (tk_company_id p)"
  let ?n = "new_child uuid5 now (tk_company_id p) m eid rq spec p"
  let ?db1 = "db\<lparr>wd_tasks := update_where ?g (touch now) (wd_tasks db)\<rparr>"
  let ?db2 = "?db1\<lparr>wd_tasks := wd_tasks ?db1 @ [?n]\<rparr>"
  let ?P = "\<lambda>t. task_scoped (tk_id p) (tk_company_id p) t \<and> tk_status t = TDelegated"
  have m: "matching ?g (wd_tasks db) = 1" "\<not> list_ex (\<lambda>t. tk_id t = tk_id ?n) (wd_tasks db)"
    and r: "wd_tasks db' = update_where ?P (begin_order now) (wd_tasks ?db2)" "wd_attempts db' = wd_attempts ?db2"
    using assms False by (auto simp: insert_child_def Let_def split: if_splits)
  obtain q where q: "q \<in> set (wd_tasks db)" "?g q"
    using m(1) matching_0_iff [of ?g "wd_tasks db"] by auto
  have one: "db_step db ?db1" by (rule db_step_tasks [OF _ quiet_touch]) simp_all
  have ids: "map tk_id (wd_tasks ?db1) = map tk_id (wd_tasks db)" by (simp add: map_update_where touch_def)
  have two: "db_step ?db1 ?db2"
  proof (rule append_task)
    show "tk_id ?n \<notin> tk_id ` set (wd_tasks ?db1)"
      using m(2) arg_cong [OF ids, of set] by (auto simp: list_ex_iff)
    fix s assume s: "dbinv ?db1" "s \<in> set (wd_tasks ?db1)" "tk_status s = TCompleted" "tk_parent_task_id ?n = Some (tk_id s)"
    have t: "touch now q \<in> set (wd_tasks ?db1)" using q by (force simp: set_update_where)
    have "tk_id (touch now q) = tk_id p" "tk_status (touch now q) \<noteq> TCompleted"
      using q(2) by (auto simp: touch_def plan_open_guard_def task_scoped_def CLOSED_STATUSES_def)
    with same_key_same_row [OF dbinvD(1) [OF s(1)] s(2) t] s(3,4) show "tk_company_id ?n \<noteq> tk_company_id s"
      by (auto simp: new_child_def)
  qed (simp_all add: new_child_def fresh_task_def)
  have three: "db_step ?db2 db'" by (rule db_step_tasks [OF r(1) quiet_begin_order r(2)])
  show ?thesis using one two three db_step_trans by blast
qed simp

lemma complete_step: "db_step db (complete_if_done now cid pid db)"
  by (rule db_step_moves) (use complete_keep dbinvD(1) in \<open>auto simp: work_moves_def\<close>)

lemma finalize_step:
  assumes "finalize_commit now who m p db = (db', res)" and "is_work_order p"
    and same: "\<exists>r \<in> set (wd_tasks db). task_identity r = task_identity p"
  shows "db_step db db'"
proof -
  let ?g = "plan_open_guard (tk_id p) (tk_company_id p)"
  let ?db1 = "db\<lparr>wd_tasks := update_where ?g (stamp_plan now m) (wd_tasks db)\<rparr>"
  let ?aud = "manager_audit (tk_company_id p) ''work.plan_finalized'' who ''task'' (tk_id p)
       [(''manager_id'', JId m), (''tasks'', JInt (int (length (children_of (tk_company_id p) (tk_id p) db))))]"
  have one: "db_step db ?db1"
  proof (rule db_step_moves)
    assume d: "dbinv db"
    obtain r where r: "r \<in> set (wd_tasks db)" "task_identity r = task_identity p" using same by blast
    have o: "is_work_order u" if "u \<in> set (wd_tasks db)" "?g u" for u
    proof -
      have "u = r" using same_key_same_row [OF dbinvD(1) [OF d] that(1) r(1)] that(2) r(2)
        by (auto simp: plan_open_guard_def task_scoped_def task_identity_def)
      then show ?thesis using assms(2) identity_is_work_order [OF r(2)] by simp
    qed
    have m: "\<forall>u \<in> set (wd_tasks db). ?g u \<longrightarrow> task_moves u (stamp_plan now m u)" using o stamp_moves by blast
    moreover have "orders_ok (update_where ?g (stamp_plan now m) (wd_tasks db))"
      by (rule orders_ok_update [OF dbinvD(4) [OF d] m]) (simp add: stamp_plan_def)
    ultimately show "work_moves db ?db1" by (simp add: work_moves_def tasks_keep_update)
  qed
  have "db_step db (?aud ?db1)" by (rule same_tables [OF one]) simp_all
  then have two: "db_step db (complete_if_done now (tk_company_id p) (tk_id p) (?aud ?db1))"
    using complete_step db_step_trans by blast
  have "db' \<in> {db, complete_if_done now (tk_company_id p) (tk_id p) db,
      complete_if_done now (tk_company_id p) (tk_id p) (?aud ?db1)}"
    using assms(1) unfolding finalize_commit_def Let_def by (auto split: if_splits option.splits)
  then show ?thesis using two complete_step by auto
qed

end
