(* ===== verification/Work_Reachable.thy ===== *)
theory Work_Reachable
  imports Work_Grows
begin

text \<open>
  Starting attempts, cancelling work, and the invariant of every world that is reachable: what
  the processes have read names rows that are still there, and what they planned to insert fits
  the task it is for.
\<close>

section \<open>Starting attempts\<close>

definition candidate_ok :: "work_db \<Rightarrow> task_attempt \<Rightarrow> bool" where
  "candidate_ok db n \<longleftrightarrow> has_task (wd_tasks db) n \<and> number_ok n \<and> ta_status n = AQueued \<and> ta_claimed_by n = None \<and>
     ta_lease_expires_at n = None"

lemma last_number_pos: "0 \<le> last_number cid tid db"
proof -
  have "0 \<le> foldr (\<lambda>a n. if ta_company_id a = cid \<and> ta_task_id a = tid then max (ta_attempt_number a) n else n) as (0::int)" for as
    by (induction as) auto
  then show ?thesis by (simp add: last_number_def)
qed

lemma plan_number_candidate:
  assumes "plan_number registry now cid rq t spec assigned db = Candidate n"
  shows "n = new_attempt now cid rq t spec assigned (last_number cid (tk_id t) db)"
    and "ws_mode spec = TextMode \<Longrightarrow> last_number cid (tk_id t) db < max_attempts spec"
  using assms by (auto simp: plan_number_def Let_def split: if_splits option.splits)

lemma plan_start_candidate:
  assumes "plan_start registry now cid rq db = Candidate n"
  obtains t s spec assigned where "get_task cid (st_task_id rq) db = Some t" "tk_work_spec t = ItemSpec s" "validate_spec s = Inr spec"
    "plan_number registry now cid rq t spec assigned db = Candidate n"
  using assms
  by (auto simp: plan_start_def parse_work_spec_def split: if_splits option.splits sum.splits stored_spec.splits)

lemma plan_candidate:
  assumes "plan_start registry now cid rq db = Candidate n"
  shows "candidate_ok db n"
proof -
  obtain t s spec assigned where t: "get_task cid (st_task_id rq) db = Some t" "tk_work_spec t = ItemSpec s" "validate_spec s = Inr spec"
    and p: "plan_number registry now cid rq t spec assigned db = Candidate n"
    using assms by (rule plan_start_candidate)
  note n = plan_number_candidate [OF p]
  have "number_ok n" using n last_number_pos [of cid "tk_id t" db]
    by (auto simp: number_ok_def mode_of_def new_attempt_def)
  moreover have "has_task (wd_tasks db) n"
    unfolding has_task_def using get_task_SomeD [OF t(1)] t(2,3) n(1) by (auto simp: new_attempt_def)
  ultimately show ?thesis using n(1) by (simp add: candidate_ok_def new_attempt_def)
qed

lemma candidate_grows: "candidate_ok db n \<Longrightarrow> grows db db' \<Longrightarrow> candidate_ok db' n"
  by (auto simp: candidate_ok_def intro: grows_has_task)

lemma fits_unique: "attempt_fits as n \<Longrightarrow> attempts_unique as \<Longrightarrow> attempts_unique (as @ [n])"
  unfolding attempts_unique_def attempt_fits_def active_row_def list_ex_iff by auto

lemma append_attempt:
  assumes "attempt_fits (wd_attempts db) n" and "candidate_ok db n"
    and "wd_attempts db' = wd_attempts db @ [n]" and "wd_tasks db' = wd_tasks db"
  shows "db_step db db'"
  unfolding db_step_def
proof (intro impI conjI)
  assume d: "dbinv db"
  have "distinct (map ta_id (wd_attempts db @ [n]))"
    using assms(1) dbinvD(2) [OF d] by (auto simp: attempt_fits_def list_ex_iff)
  moreover have "attempt_row_ok n" using assms(2) by (simp add: candidate_ok_def attempt_row_ok_def)
  moreover have "has_task (wd_tasks db) n \<and> number_ok n" using assms(2) by (simp add: candidate_ok_def)
  ultimately show "dbinv db'"
    using d fits_unique [OF assms(1)] unfolding dbinv_def assms(3,4) by simp
  show "grows db db'" using assms(3,4) by (auto simp: grows_def intro: task_moves_refl)
qed

lemma insert_attempt_step:
  assumes "insert_attempt rq n db = (db', res)" and "candidate_ok db n"
  shows "db_step db db'"
proof (cases "attempt_fits (wd_attempts db) n")
  case True
  with assms(1) have "wd_attempts db' = wd_attempts db @ [n]" "wd_tasks db' = wd_tasks db"
    by (auto simp: insert_attempt_def)
  with append_attempt [OF True assms(2)] show ?thesis .
qed (use assms(1) in \<open>auto simp: insert_attempt_def\<close>)

lemma start_attempt_step: "start_attempt registry now cid rq db = (db', res) \<Longrightarrow> db_step db db'"
  by (auto simp: start_attempt_def split: start_plan.splits intro: insert_attempt_step plan_candidate)

lemma delegate_start_step:
  assumes "delegate_start registry now cid m eid rq db = (db', res)"
  shows "db_step db db'"
proof (cases "db' = db")
  case False
  let ?P = "\<lambda>t. task_scoped (st_task_id rq) cid t \<and> tk_assigned_agent_id t \<noteq> Some eid"
  let ?db1 = "db\<lparr>wd_tasks := update_where ?P (reassign_vals now eid) (wd_tasks db)\<rparr>"
  obtain rq' res' where "start_attempt registry now cid rq' ?db1 = (db', res')"
    using assms False by (auto simp: delegate_start_def Let_def split: prod.splits sum.splits)
  moreover have "db_step db ?db1" by (rule db_step_tasks [OF _ quiet_reassign]) simp_all
  ultimately show ?thesis using start_attempt_step db_step_trans by blast
qed simp

lemma retry_attempt_step: "retry_attempt registry now cid aid rq db = (db', res) \<Longrightarrow> db_step db db'"
  by (auto simp: retry_attempt_def Let_def split: if_splits option.splits intro: start_attempt_step)

section \<open>Cancelling work\<close>

lemma cancel_target_step: "db_step db (cancel_target now cid who tid db)"
proof -
  let ?db1 = "db\<lparr>wd_tasks := update_where (open_task tid cid) (cancel_task_vals now) (wd_tasks db)\<rparr>"
  have one: "db_step db ?db1" by (rule db_step_tasks [OF _ quiet_cancel]) simp_all
  have two: "db_step ?db1 (fst (finish_in now cid (ta_id a) (cancel_finish now who AVerifying) ?db1))" for a
    by (rule db_step_moves) (metis cancel_finish_legal finish_in_moves insertCI prod.collapse)
  have three: "db_step ?db1 (?db1\<lparr>wd_attempts := update_where (cancel_request_guard (ta_id a) cid)
      (cancel_request_vals now who) (wd_attempts ?db1)\<rparr>)" for a
    by (rule db_step_moves, rule moves_attempts [where f = "cancel_request_vals now who"]) (auto intro: cancel_request_legal)
  show ?thesis
  proof (cases "active_attempt cid tid ?db1")
    case None
    with one show ?thesis unfolding cancel_target_def Let_def by simp
  next
    case (Some a)
    with db_step_trans [OF one two] db_step_trans [OF one three] show ?thesis
      unfolding cancel_target_def Let_def by (cases "awaiting_review a") simp_all
  qed
qed

lemma cancel_targets_step: "db_step db (cancel_targets now cid who ts db)"
  by (induction ts arbitrary: db) (simp, metis cancel_target_step cancel_targets.simps(2) db_step_trans)

lemma cancel_mark_step: "db_step db (cancel_mark now cid who tid ts db)"
  unfolding cancel_mark_def by (rule same_tables [OF cancel_targets_step [of db now cid who "tid # ts"]]) simp_all

section \<open>The invariant of the system\<close>

definition copies_ok :: "work_world \<Rightarrow> bool" where
  "copies_ok w \<longleftrightarrow>
    (\<forall>a \<in> set (ww_attempts w). \<exists>r \<in> set (wd_attempts (ww_db w)). attempt_identity r = attempt_identity a) \<and>
    (\<forall>t \<in> set (ww_tasks w). \<exists>r \<in> set (wd_tasks (ww_db w)). task_identity r = task_identity t) \<and>
    (\<forall>p \<in> set (ww_starts w). candidate_ok (ww_db w) (snd p))"

definition winv :: "work_world \<Rightarrow> bool" where
  "winv w \<longleftrightarrow> dbinv (ww_db w) \<and> copies_ok w"

lemma copies_grow:
  assumes "copies_ok w" and "grows (ww_db w) db'"
  shows "copies_ok (w\<lparr>ww_db := db'\<rparr>)"
proof -
  have "\<exists>r \<in> set (wd_attempts db'). attempt_identity r = attempt_identity a" if a: "a \<in> set (ww_attempts w)" for a
  proof -
    obtain r where r: "r \<in> set (wd_attempts (ww_db w))" "attempt_identity r = attempt_identity a"
      using assms(1) a by (auto simp: copies_ok_def)
    from assms(2) r(1) obtain b where "b \<in> set (wd_attempts db')" "attempt_identity b = attempt_identity r" by (rule grows_attempt)
    with r(2) show ?thesis by auto
  qed
  moreover have "\<exists>r \<in> set (wd_tasks db'). task_identity r = task_identity t" if t: "t \<in> set (ww_tasks w)" for t
  proof -
    obtain r where r: "r \<in> set (wd_tasks (ww_db w))" "task_identity r = task_identity t"
      using assms(1) t by (auto simp: copies_ok_def)
    from assms(2) r(1) obtain u where "u \<in> set (wd_tasks db')" "task_moves r u" by (rule grows_task)
    with r(2) show ?thesis by (auto simp: task_moves_def)
  qed
  moreover have "\<forall>p \<in> set (ww_starts w). candidate_ok db' (snd p)"
    using assms candidate_grows by (auto simp: copies_ok_def)
  ultimately show ?thesis by (simp add: copies_ok_def)
qed

lemma db_winv: "winv w \<Longrightarrow> db_step (ww_db w) db' \<Longrightarrow> winv (w\<lparr>ww_db := db'\<rparr>) \<and> grows (ww_db w) db'"
  by (simp add: winv_def db_step_def copies_grow)

lemma copy_mode:
  assumes "winv w" and "a \<in> set (ww_attempts w)"
  shows "\<forall>r \<in> set (wd_attempts (ww_db w)). ta_id r = ta_id a \<longrightarrow> mode_of r = mode_of a"
proof (intro ballI impI)
  fix r assume r: "r \<in> set (wd_attempts (ww_db w))" "ta_id r = ta_id a"
  obtain b where b: "b \<in> set (wd_attempts (ww_db w))" "attempt_identity b = attempt_identity a"
    using assms by (auto simp: winv_def copies_ok_def)
  then have "r = b" using same_key_same_row [OF dbinvD(2) r(1) b(1)] assms(1) r(2) by (auto simp: winv_def attempt_identity_def)
  then show "mode_of r = mode_of a" using b(2) by (simp add: attempt_identity_def mode_of_def)
qed

text \<open>What a step does to the database, whichever it is.\<close>

lemma work_step_db:
  assumes "work_step w w'" and "winv w"
  shows "db_step (ww_db w) (ww_db w')"
  using assms(1)
proof cases
  case (order uuid5 now cid rq db' res)
  then show ?thesis using create_order_step by simp
next
  case (task now cid rq db' res)
  then show ?thesis using create_task_step by simp
next
  case (delegated now cid ceo manager tid who db' res)
  then show ?thesis using db_step_moves delegated_moves by simp
next
  case (child p s spec now rq manager uuid5 eid db' res)
  then show ?thesis using insert_child_step by simp
next
  case (finalized p now who manager db' res)
  then have "\<exists>r \<in> set (wd_tasks (ww_db w)). task_identity r = task_identity p"
    using assms(2) by (auto simp: winv_def copies_ok_def)
  then show ?thesis using finalized finalize_step by simp
next
  case (started rq n db' res)
  then show ?thesis using assms(2) insert_attempt_step by (auto simp: winv_def copies_ok_def)
next
  case (handed registry now cid manager eid rq db' res)
  then show ?thesis using delegate_start_step by simp
next
  case (retried registry now cid aid rq db' res)
  then show ?thesis using retry_attempt_step by simp
next
  case (reopened now cid tid)
  then show ?thesis using db_step_moves reopen_moves by simp
next
  case (cancelled a now who)
  then show ?thesis using db_step_moves cancel_read_moves by simp
next
  case (marked now cid who' tid targets)
  then show ?thesis using cancel_mark_step by simp
next
  case (claimed cfg now aid cid wk db' res)
  then show ?thesis using db_step_moves claim_attempt_moves by simp
next
  case (renewed a cfg now wk db' res)
  then show ?thesis using db_step_moves renew_attempt_moves by simp
next
  case (held a u now wk db' res)
  then show ?thesis using db_step_moves update_held_moves by simp
next
  case (reported a now n rep source db' res)
  then show ?thesis using db_step_moves store_report_moves by simp
next
  case (ended a wk fi now db' res)
  then show ?thesis using worker_finish_moves [OF _ ended(3,4) copy_mode [OF assms(2) ended(2)]] db_step_moves by simp
next
  case (submitted a sha256 now wk body cap usage db' res)
  then show ?thesis using submit_moves [OF _ submitted(4) copy_mode [OF assms(2) submitted(2)]] db_step_moves by simp
next
  case (reviewed a rw now db' res)
  then show ?thesis using review_commit_moves [OF _ reviewed(5,4)] db_step_moves by simp
next
  case (released a now wk reason db' res)
  then show ?thesis using db_step_moves release_attempt_moves by simp
next
  case (recovered a cfg now db' ev)
  then show ?thesis using recover_attempt_moves [OF _ recovered(3)] db_step_moves by simp
next
  case (expired a now db' b)
  then show ?thesis using expire_attempt_moves [OF _ expired(3)] db_step_moves by simp
next
  case (effect a kind key db' e)
  then show ?thesis by (auto simp: open_effect_def intro: same_tables [OF db_step_refl] split: option.splits)
next
  case (effected e r)
  then show ?thesis by (auto simp: effect_done_def intro: same_tables [OF db_step_refl])
next
  case (others db')
  then show ?thesis by (auto intro: same_tables [OF db_step_refl])
qed simp_all

lemma work_step_inv:
  assumes "work_step w w'" and "winv w"
  shows "winv w' \<and> grows (ww_db w) (ww_db w')"
proof -
  note d = db_winv [OF assms(2) work_step_db [OF assms]]
  have "copies_ok (w\<lparr>ww_db := ww_db w'\<rparr>) \<Longrightarrow> copies_ok w'"
    using assms(1)
  proof cases
    case (read_task t)
    then show "copies_ok (w\<lparr>ww_db := ww_db w'\<rparr>) \<Longrightarrow> copies_ok w'" by (auto simp: copies_ok_def)
  next
    case (read_attempt a)
    then show "copies_ok (w\<lparr>ww_db := ww_db w'\<rparr>) \<Longrightarrow> copies_ok w'" by (auto simp: copies_ok_def)
  next
    case (planned registry now cid rq n)
    then show "copies_ok (w\<lparr>ww_db := ww_db w'\<rparr>) \<Longrightarrow> copies_ok w'" by (simp add: copies_ok_def plan_candidate)
  qed simp_all
  with d show ?thesis by (simp add: winv_def)
qed

lemma work_reachable_inv: "work_reachable w \<Longrightarrow> winv w"
proof (induction rule: work_reachable.induct)
  case (start w)
  then show ?case
    by (simp add: work_start_def winv_def copies_ok_def dbinv_def attempts_unique_def orders_ok_def)
next
  case (more w w')
  then show ?case using work_step_inv by blast
qed

end
