(* ===== verification/Work_Run.thy ===== *)
theory Work_Run
  imports Work_Reachable
begin

text \<open>
  One run of the system from its empty tables: a CEO's order, delegated to a manager, assigned as
  a text task, started, claimed, submitted, verified by the manager, and finalized; and a second
  run where the claimed attempt is cancelled and its worker shuts down. The properties of
  \<open>Work_Laws\<close> are applied to its worlds.
\<close>

definition run_uuid5 :: "label \<Rightarrow> uuid" where
  "run_uuid5 l = (if list_ex (\<lambda>p. p = Txt '':work_order:'') l then 100 else 101)"

definition run_agent :: "uuid \<Rightarrow> uuid option \<Rightarrow> employee" where
  "run_agent i m = \<lparr>ag_id = i, ag_company_id = 4, ag_name = ''Ada'', ag_status = ''idle'', ag_adapter_type = None,
     ag_model = None, ag_connection_id = None, ag_department_id = None, ag_autonomy_policy = None,
     em_manager_id = m, em_is_ceo = (m = None), em_backend = None\<rparr>"

definition run_chat :: turn_db where
  "run_chat = \<lparr>db_turns = [], db_messages = [], db_sessions = [], db_ceos = [], db_directives = [], db_audits = [],
     db_notifications = [], db_stats = [], db_published = [], db_cancel_hints = [], db_spend_calls = []\<rparr>"

definition run_db0 :: work_db where
  "run_db0 = \<lparr>wd_tasks = [], wd_attempts = [], wd_effects = [],
     wd_agents = [run_agent 11 None, run_agent 12 (Some 11), run_agent 13 (Some 12)], wd_goals = [], wd_projects = [], wd_repositories = [],
     wd_chat = run_chat, wd_releases = [], wd_stats = []\<rparr>"

definition run_order :: order_request where
  "run_order = \<lparr>or_scope = [Txt ''agent:'', Uid 11], or_actor = ''agent:11'', or_title = ''Report'', or_key = ''k1'',
     or_description = None, or_goal_id = None, or_priority = 50, or_work_spec = None, or_details = []\<rparr>"

definition run_spec :: work_spec where
  "run_spec = \<lparr>ws_mode = TextMode, ws_repository_id = None, ws_base_ref = ''HEAD'', ws_expected_deliverable = None,
     ws_max_deliverable_chars = None, ws_max_attempts = None, ws_review_of_task_id = None,
     ws_objective = Some ''Write the report'', ws_deliverables = [], ws_verification = [],
     ws_acceptance_criteria = [], ws_timeout_seconds = 600\<rparr>"

definition run_assign :: assign_request where
  "run_assign = \<lparr>aq_title = ''Draft'', aq_objective = ''Write the report'', aq_key = ''k2'', aq_spec = run_spec,
     aq_actor = \<lparr>ac_kind = ''agent'', ac_name = ''agent:12''\<rparr>, aq_id = 200, aq_hex = [Txt ''h1'']\<rparr>"

definition run_start :: start_request where
  "run_start = \<lparr>st_task_id = 101, st_actor = aq_actor run_assign, st_agent_id = Some 13, st_key = [Txt ''s1''],
     st_details = [], st_id = 200, st_hex = [Txt ''h1'']\<rparr>"

definition run_review :: review_request where
  "run_review = \<lparr>rw_decision = ''verify'', rw_reason = None, rw_actor = ''agent:12'', rw_reviewer = Some 12, rw_retry = False\<rparr>"

definition run_registry :: "string \<Rightarrow> backend_info option" where
  "run_registry b = None"

section \<open>The databases\<close>

definition run_db1 :: work_db where
  "run_db1 = fst (create_work_order run_uuid5 10 4 run_order run_db0)"

definition run_db2 :: work_db where
  "run_db2 = fst (delegate_to_manager 11 4 11 12 100 ''agent:11'' run_db1)"

definition run_order_row :: task where
  "run_order_row = delegate_vals 11 12 (fresh_task 100 4 ''Report'' None 50 WORK_ORDER 10)"

definition run_child :: task where
  "run_child = new_child run_uuid5 12 (tk_company_id run_order_row) 12 13 run_assign run_spec run_order_row"

definition run_db3 :: work_db where
  "run_db3 = fst (insert_child 12 run_assign 12 run_order_row run_child run_db2)"

definition run_candidate :: task_attempt where
  "run_candidate = new_attempt 13 4 run_start run_child run_spec 13 0"

definition run_db4 :: work_db where
  "run_db4 = fst (insert_attempt run_start run_candidate run_db3)"

definition run_db5 :: work_db where
  "run_db5 = fst (claim_attempt default_work_settings 14 200 4 ''w1'' run_db4)"

definition run_held :: task_attempt where
  "run_held = attempt_claim_vals 14 (seconds 30) ''w1'' run_candidate"

definition run_db6 :: work_db where
  "run_db6 = fst (submit_deliverable (\<lambda>s. s) 15 run_held ''w1'' ''The report'' 40 None run_db5)"

definition run_waiting :: task_attempt where
  "run_waiting = submit_vals 15 (take 40 ''The report'') (submit_record (\<lambda>s. s) ''The report'' 40) None run_held"

definition run_db7 :: work_db where
  "run_db7 = fst (review_commit 16 4 run_waiting run_review run_db6)"

definition run_db8 :: work_db where
  "run_db8 = fst (finalize_commit 17 ''agent:12'' 12 run_order_row run_db7)"

text \<open>The other end of the claimed attempt.\<close>

definition run_db6c :: work_db where
  "run_db6c = cancel_read 15 run_held \<lparr>ac_kind = ''user'', ac_name = ''user:9''\<rparr> run_db5"

definition run_db7c :: work_db where
  "run_db7c = fst (release_attempt 16 run_held ''w1'' ''shutdown'' run_db6c)"

section \<open>Their tables\<close>

lemma run_ids:
  "Work_Orders.order_id run_uuid5 4 run_order = 100" "child_id run_uuid5 4 12 ''k2'' = 101"
  by code_simp+

lemma run_row:
  "tk_id run_order_row = 100" "tk_company_id run_order_row = 4" "tk_parent_task_id run_order_row = None"
  "tk_assigned_agent_id run_order_row = Some 12" "tk_status run_order_row = TDelegated" "tk_work_spec run_order_row = WORK_ORDER"
  by (simp_all add: run_order_row_def delegate_vals_def fresh_task_def)

lemma run_child_fields:
  "tk_id run_child = 101" "tk_company_id run_child = 4" "tk_parent_task_id run_child = Some 100"
  "tk_assigned_agent_id run_child = Some 13" "tk_status run_child = TPending" "tk_work_spec run_child = ItemSpec run_spec"
  by (simp_all add: run_child_def new_child_def fresh_task_def run_row run_ids run_assign_def)

lemma run_fields:
  "ta_id run_candidate = 200" "ta_company_id run_candidate = 4" "ta_task_id run_candidate = 101"
  "ta_status run_candidate = AQueued" "ta_cancel_requested_at run_candidate = None"
  "sn_work_spec (ta_snapshot run_candidate) = run_spec" "ta_agent_id run_candidate = 13" "ta_attempt_number run_candidate = 1"
  by (simp_all add: run_candidate_def new_attempt_def run_start_def run_child_fields)

lemma run_held_fields [simp]:
  "ta_id run_held = 200" "ta_company_id run_held = 4" "ta_task_id run_held = 101" "ta_status run_held = AClaimed"
  "ta_cancel_requested_at run_held = None" "ta_claimed_by run_held = Some ''w1''"
  "sn_work_spec (ta_snapshot run_held) = run_spec" "ta_agent_id run_held = 13" "ta_attempt_number run_held = 1"
  by (simp_all add: run_held_def attempt_claim_vals_def run_fields)

lemma run_waiting_fields [simp]:
  "ta_id run_waiting = 200" "ta_company_id run_waiting = 4" "ta_task_id run_waiting = 101" "ta_status run_waiting = AVerifying"
  "ta_claimed_by run_waiting = None" "sn_work_spec (ta_snapshot run_waiting) = run_spec" "ta_agent_id run_waiting = 13"
  "ta_attempt_number run_waiting = 1"
  by (simp_all add: run_waiting_def submit_vals_def)

lemmas run_eval = Let_def matching_def update_where_def get_task_def get_attempt_def task_scoped_def attempt_scoped_def
  find.simps

lemma run_order_fields: "or_title run_order = ''Report''" "or_description run_order = None" "or_priority run_order = 50"
    "or_work_spec run_order = None" "or_goal_id run_order = None"
  by (simp_all add: run_order_def)

lemma run_tables1: "wd_tasks run_db1 = [fresh_task 100 4 ''Report'' None 50 WORK_ORDER 10]" "wd_attempts run_db1 = []"
  by (simp_all add: run_db1_def create_work_order_def run_eval run_ids run_order_fields run_db0_def fresh_task_def)

lemma run_agents: "require_report 4 11 12 run_db1 = Inr (run_agent 12 (Some 11))"
  by code_simp

lemma run_tables2: "wd_tasks run_db2 = [run_order_row]" "wd_attempts run_db2 = []"
  by (simp_all add: run_db2_def delegate_to_manager_def run_agents run_eval run_tables1 delegate_guard_def fresh_task_def
      is_work_order_def is_work_order_spec_def WORK_ORDER_def run_order_row_def)

definition run_busy_row :: task where
  "run_busy_row = begin_order 12 (touch 12 run_order_row)"

lemma run_busy_fields:
  "tk_id run_busy_row = 100" "tk_company_id run_busy_row = 4" "tk_parent_task_id run_busy_row = None"
  "tk_status run_busy_row = TInProgress" "tk_work_spec run_busy_row = WORK_ORDER"
  by (simp_all add: run_busy_row_def begin_order_def touch_def run_row)

lemma run_tables3: "wd_tasks run_db3 = [run_busy_row, run_child]" "wd_attempts run_db3 = []"
  by (simp_all add: run_db3_def insert_child_def run_eval run_tables2 plan_open_guard_def run_row run_child_fields
      CLOSED_STATUSES_def is_plan_finalized_def WORK_ORDER_def touch_def run_busy_row_def)

lemma run_tables4: "wd_tasks run_db4 = [run_busy_row, run_child]" "wd_attempts run_db4 = [run_candidate]"
  by (simp_all add: run_db4_def insert_attempt_def attempt_fits_def run_tables3)

lemma run_tables5: "wd_tasks run_db5 = [run_busy_row, begin_task 14 run_child]" "wd_attempts run_db5 = [run_held]"
  by (simp_all add: run_db5_def claim_attempt_def run_eval run_tables4 attempt_claim_guard_def run_fields run_child_fields
      run_busy_fields open_task_def CLOSED_STATUSES_def default_work_settings_def flip: run_held_def)

definition run_review_row :: task where
  "run_review_row = review_task 15 (begin_task 14 run_child)"

lemma run_review_fields:
  "tk_id run_review_row = 101" "tk_company_id run_review_row = 4" "tk_parent_task_id run_review_row = Some 100"
  "tk_status run_review_row = TInReview" "tk_work_spec run_review_row = ItemSpec run_spec"
  by (simp_all add: run_review_row_def review_task_def begin_task_def run_child_fields)

lemma run_tables6: "wd_tasks run_db6 = [run_busy_row, run_review_row]" "wd_attempts run_db6 = [run_waiting]"
  by (simp_all add: run_db6_def submit_deliverable_def run_eval run_tables5 submit_guard_def attempt_held_def
      LEASED_ATTEMPT_STATUSES_def run_child_fields run_busy_fields open_task_def CLOSED_STATUSES_def begin_task_def) (simp_all add: run_review_row_def begin_task_def run_waiting_def)

definition run_done :: task_attempt where
  "run_done = finish_vals 16 (review_finish 16 run_waiting run_review) run_waiting"

lemma run_done_fields [simp]:
  "ta_id run_done = 200" "ta_company_id run_done = 4" "ta_task_id run_done = 101" "ta_status run_done = ACompleted"
  "sn_work_spec (ta_snapshot run_done) = run_spec" "ta_session_id run_done = None"
  by (simp_all add: run_done_def finish_vals_def review_finish_def plain_finish_def run_review_def Let_def)
     (simp add: run_waiting_def submit_vals_def run_held_def attempt_claim_vals_def run_candidate_def new_attempt_def)

definition run_settled_row :: task where
  "run_settled_row = settled_task 16 run_done run_review_row"

lemma run_settled_fields:
  "tk_id run_settled_row = 101" "tk_company_id run_settled_row = 4" "tk_parent_task_id run_settled_row = Some 100"
  "tk_status run_settled_row = TCompleted" "tk_work_spec run_settled_row = ItemSpec run_spec"
  by (simp_all add: run_settled_row_def settled_task_def Let_def run_review_fields)

lemma run_end_tables: "wd_tasks (after_terminal 16 run_done db) = [touch 16 run_busy_row, run_settled_row]"
  if "wd_tasks db = [run_busy_row, run_settled_row]"
  using that by (simp add: after_terminal_def run_eval run_settled_fields run_busy_fields open_order_def OPEN_PARENT_STATUSES_def
      is_work_order_def is_work_order_spec_def WORK_ORDER_def complete_if_done_def children_of_def touch_def is_plan_finalized_def)

lemma run_ending: "finish_in 16 4 200 (review_finish 16 run_waiting run_review) run_db6 =
    (end_session 16 run_done (notify_end run_done (end_audit run_done (after_terminal 16 run_done
      (run_db6\<lparr>wd_attempts := [run_done], wd_tasks := [run_busy_row, run_settled_row]\<rparr>)))), True)"
proof -
  have "finish_guard 200 (4, review_finish 16 run_waiting run_review) run_waiting"
    by (simp add: finish_guard_def attempt_scoped_def ACTIVE_ATTEMPT_STATUSES_def review_finish_def run_review_def plain_finish_def
        waiting_def Let_def)
  moreover have "open_task 101 4 run_review_row" "\<not> open_task 101 4 run_busy_row"
    by (simp_all add: open_task_def task_scoped_def run_review_fields run_busy_fields CLOSED_STATUSES_def)
  ultimately show ?thesis
    by (simp add: finish_in_def run_eval run_tables6 flip: run_done_def run_settled_row_def)
qed

lemma run_tables7: "wd_tasks run_db7 = [touch 16 run_busy_row, run_settled_row]" "wd_attempts run_db7 = [run_done]"
  by (simp_all add: run_db7_def review_commit_def run_ending run_end_tables get_attempt_def attempt_scoped_def)

lemma run_tables8: "map tk_status (wd_tasks run_db8) = [TCompleted, TCompleted]" "wd_attempts run_db8 = [run_done]"
  by (simp_all add: run_db8_def finalize_commit_def run_eval run_tables7 plan_open_guard_def run_row run_settled_fields run_busy_fields
      CLOSED_STATUSES_def is_plan_finalized_def WORK_ORDER_def touch_def children_of_def complete_if_done_def stamp_plan_def
      open_order_def OPEN_PARENT_STATUSES_def is_work_order_def is_work_order_spec_def close_vals_def)

lemma run_end_orders: "map is_work_order (wd_tasks run_db8) = [True, False]" "map tk_id (wd_tasks run_db8) = map tk_id (wd_tasks run_db7)"
  by (simp_all add: run_db8_def finalize_commit_def run_eval run_tables7 plan_open_guard_def run_row run_settled_fields run_busy_fields
      CLOSED_STATUSES_def is_plan_finalized_def WORK_ORDER_def touch_def children_of_def complete_if_done_def stamp_plan_def
      open_order_def OPEN_PARENT_STATUSES_def is_work_order_def is_work_order_spec_def close_vals_def)

lemma run_done_key: "ta_idempotency_key run_done = [Txt ''s1'']"
  by (simp add: run_done_def finish_vals_def review_finish_def plain_finish_def run_review_def Let_def run_waiting_def submit_vals_def
      run_held_def attempt_claim_vals_def run_candidate_def new_attempt_def run_start_def)

definition run_stuck :: task_attempt where
  "run_stuck = requeue_vals 16 0 (cancel_request_vals 15 ''user:9'' run_held)"

lemma run_stuck_fields: "ta_id run_stuck = 200" "ta_company_id run_stuck = 4" "ta_task_id run_stuck = 101"
    "ta_status run_stuck = AQueued" "ta_cancel_requested_at run_stuck = Some 15"
  by (simp_all add: run_stuck_def requeue_vals_def cancel_request_vals_def)

lemma run_tables7c: "wd_attempts run_db7c = [run_stuck]" "wd_tasks run_db7c = [run_busy_row, begin_task 14 run_child]"
proof -
  have "wd_attempts run_db6c = [cancel_request_vals 15 ''user:9'' run_held]" "wd_tasks run_db6c = wd_tasks run_db5"
    by (simp_all add: run_db6c_def cancel_read_def run_eval run_tables5 cancel_request_guard_def ACTIVE_ATTEMPT_STATUSES_def
        cancel_request_vals_def split: option.splits)
  then show "wd_attempts run_db7c = [run_stuck]" "wd_tasks run_db7c = [run_busy_row, begin_task 14 run_child]"
    by (simp_all add: run_db7c_def release_attempt_def run_eval run_tables5 attempt_held_def LEASED_ATTEMPT_STATUSES_def
        cancel_request_vals_def run_stuck_def)
qed

lemma frame_agents [simp]:
  "wd_agents (on_chat f db) = wd_agents db" "wd_agents (stat e db) = wd_agents db"
  "wd_agents (attempt_audit a ac ty who d db) = wd_agents db" "wd_agents (publish_attempt a x db) = wd_agents db"
  "wd_agents (manager_audit c ac wh rt ri d db) = wd_agents db"
  by (simp_all add: on_chat_def stat_def attempt_audit_def publish_attempt_def manager_audit_def)

lemma run_agents3: "wd_agents run_db3 = wd_agents run_db0"
proof -
  have "wd_agents run_db1 = wd_agents run_db0" by (simp add: run_db1_def create_work_order_def Let_def split: option.splits)
  moreover have "wd_agents run_db2 = wd_agents run_db1"
    by (simp add: run_db2_def delegate_to_manager_def Let_def split: option.splits sum.splits)
  moreover have "wd_agents run_db3 = wd_agents run_db2" by (simp add: run_db3_def insert_child_def Let_def)
  ultimately show ?thesis by simp
qed

lemma run_agents6: "wd_agents run_db6 = wd_agents run_db0"
proof -
  have "wd_agents run_db4 = wd_agents run_db3" by (simp add: run_db4_def insert_attempt_def Let_def split: option.splits)
  moreover have "wd_agents run_db5 = wd_agents run_db4" by (simp add: run_db5_def claim_attempt_def Let_def split: option.splits)
  moreover have "wd_agents run_db6 = wd_agents run_db5"
    by (simp add: run_db6_def submit_deliverable_def run_eval run_tables5 submit_guard_def attempt_held_def LEASED_ATTEMPT_STATUSES_def)
  ultimately show ?thesis using run_agents3 by simp
qed

section \<open>They are reachable\<close>

definition run_world :: "work_db \<Rightarrow> task_attempt list \<Rightarrow> work_world" where
  "run_world db as = \<lparr>ww_db = db, ww_tasks = [run_order_row], ww_attempts = as, ww_starts = [(run_start, run_candidate)]\<rparr>"

lemma run_order_read: "run_order_row \<in> set (wd_tasks run_db2)" "is_work_order run_order_row"
  by (simp_all add: run_tables2 is_work_order_def is_work_order_spec_def run_row WORK_ORDER_def)

lemma run_spec_valid: "validate_spec run_spec = Inr run_spec"
  by code_simp

lemma run_employee: "get_employee 4 13 run_db3 = Some (run_agent 13 (Some 12))" "get_employee 4 13 run_db6 = Some (run_agent 13 (Some 12))"
  by (simp_all add: get_employee_def run_agents3 run_agents6 run_db0_def run_agent_def)

lemma run_planned: "plan_start run_registry 13 4 run_start run_db3 = Candidate run_candidate"
  by (simp add: plan_start_def run_start_def run_eval run_tables3 run_child_fields run_busy_fields is_work_order_spec_def parse_work_spec_def
      run_spec_valid by_key_def active_attempt_def plan_number_def run_employee check_employee_def last_number_def
      run_candidate_def max_attempts_def DEFAULT_MAX_ATTEMPTS_def)
    (simp add: run_spec_def run_agent_def UNASSIGNABLE_AGENT_STATUSES_def DEFAULT_MAX_ATTEMPTS_def)

lemma run_started: "work_reachable (run_world run_db4 [])"
proof -
  let ?w = "\<lambda>db ts as ss. \<lparr>ww_db = db, ww_tasks = ts, ww_attempts = as, ww_starts = ss\<rparr>"
  have "work_reachable (?w run_db0 [] [] [])" by (rule work_reachable.start) (simp add: work_start_def run_db0_def)
  then have "work_reachable (?w run_db1 [] [] [])"
    by (rule work_reachable.more)
      (use work_step.order [of run_uuid5 10 4 run_order "?w run_db0 [] [] []", OF prod.collapse [symmetric]] in
        \<open>simp add: run_db1_def run_order_def\<close>)
  then have "work_reachable (?w run_db2 [] [] [])"
    by (rule work_reachable.more)
      (use work_step.delegated [of 11 4 11 12 100 "''agent:11''" "?w run_db1 [] [] []", OF prod.collapse [symmetric]] in
        \<open>simp add: run_db2_def\<close>)
  then have "work_reachable (?w run_db2 [run_order_row] [] [])"
    by (rule work_reachable.more)
      (use work_step.read_task [of run_order_row "?w run_db2 [] [] []"] run_order_read(1) in simp)
  then have "work_reachable (?w run_db3 [run_order_row] [] [])"
    by (rule work_reachable.more)
      (use work_step.child [of run_order_row "?w run_db2 [run_order_row] [] []" run_spec run_spec 12 run_assign 12 run_uuid5 13,
          OF _ run_order_read(2) run_spec_valid prod.collapse [symmetric]] in \<open>simp add: run_db3_def run_child_def\<close>)
  then have "work_reachable (?w run_db3 [run_order_row] [] [(run_start, run_candidate)])"
    by (rule work_reachable.more)
      (use work_step.planned [of run_registry 13 4 run_start "?w run_db3 [run_order_row] [] []" run_candidate] run_planned in simp)
  then show ?thesis unfolding run_world_def
    by (rule work_reachable.more)
      (use work_step.started [of run_start run_candidate "?w run_db3 [run_order_row] [] [(run_start, run_candidate)]",
          OF _ prod.collapse [symmetric]] in \<open>simp add: run_db4_def\<close>)
qed

lemma run_to: "work_reachable (run_world db as) \<Longrightarrow> work_step (run_world db as) (run_world db as\<lparr>ww_db := db'\<rparr>) \<Longrightarrow>
    work_reachable (run_world db' as)"
  using work_reachable.more [of "run_world db as" "run_world db as\<lparr>ww_db := db'\<rparr>"] by (simp add: run_world_def)

lemma run_read: "work_reachable (run_world db as) \<Longrightarrow> a \<in> set (wd_attempts db) \<Longrightarrow> work_reachable (run_world db (a # as))"
  using work_reachable.more [of "run_world db as" "run_world db (a # as)"]
    work_step.read_attempt [of a "run_world db as"] by (simp add: run_world_def)

lemma run_world_simps [simp]: "ww_db (run_world db as) = db" "ww_attempts (run_world db as) = as"
  "ww_tasks (run_world db as) = [run_order_row]"
  by (simp_all add: run_world_def)

lemma run_claimed: "work_reachable (run_world run_db5 [run_held])"
proof -
  have "work_reachable (run_world run_db5 [])"
    by (rule run_to [OF run_started])
      (use work_step.claimed [of default_work_settings 14 200 4 "''w1''" "run_world run_db4 []", OF prod.collapse [symmetric]] in
        \<open>simp add: run_db5_def\<close>)
  moreover have "run_held \<in> set (wd_attempts run_db5)" by (simp add: run_tables5)
  ultimately show ?thesis by (rule run_read)
qed

lemma run_facts: "run_waiting \<in> set (wd_attempts run_db6)" "mode_of run_held = TextMode"
  by (simp_all add: run_tables6 mode_of_def run_spec_def)

lemma run_checked: "review_check 4 run_waiting run_review run_db6 = Inr True"
  by (simp add: review_check_def run_spec_valid run_review_def run_employee awaiting_review_def)
    (simp add: run_spec_def run_agent_def)

lemma run_submitted: "work_reachable (run_world run_db6 [run_waiting, run_held])"
proof -
  have "work_reachable (run_world run_db6 [run_held])"
    by (rule run_to [OF run_claimed])
      (use work_step.submitted [of run_held "run_world run_db5 [run_held]" "\<lambda>s. s" 15 "''w1''" "''The report''" 40 None,
          OF _ run_facts(2) prod.collapse [symmetric]] in \<open>simp add: run_db6_def\<close>)
  then show ?thesis using run_facts(1) by (rule run_read)
qed

lemma run_reviewed: "work_reachable (run_world run_db7 [run_waiting, run_held])"
  by (rule run_to [OF run_submitted])
    (use work_step.reviewed [of run_waiting "run_world run_db6 [run_waiting, run_held]" run_review 16, OF _ _ _ prod.collapse [symmetric]]
      run_checked in \<open>simp add: run_db7_def run_review_def\<close>)

lemma run_finalized: "work_reachable (run_world run_db8 [run_waiting, run_held])"
  by (rule run_to [OF run_reviewed])
    (use work_step.finalized [of run_order_row "run_world run_db7 [run_waiting, run_held]" 17 "''agent:12''" 12,
        OF _ run_order_read(2) prod.collapse [symmetric]] in \<open>simp add: run_db8_def\<close>)

lemma run_released: "work_reachable (run_world run_db7c [run_held])"
proof -
  have "work_reachable (run_world run_db6c [run_held])"
    by (rule run_to [OF run_claimed])
      (use work_step.cancelled [of run_held "run_world run_db5 [run_held]" 15 "\<lparr>ac_kind = ''user'', ac_name = ''user:9''\<rparr>"] in
        \<open>simp add: run_db6c_def\<close>)
  then show ?thesis
    by (rule run_to)
      (use work_step.released [of run_held "run_world run_db6c [run_held]" 16 "''w1''" "''shutdown''", OF _ prod.collapse [symmetric]] in
        \<open>simp add: run_db7c_def\<close>)
qed

end
