(* ===== verification/Work_Laws.thy ===== *)
theory Work_Laws
  imports Work_Run
begin

text \<open>
  What employee work promises: one active attempt per task, ends that are final, text work that
  completes only by review, work orders that complete only with all of their children, bounded
  retries, and what a passed verification means.
\<close>

section \<open>Lookups in a reachable world\<close>

lemma reachable_db: "work_reachable w \<Longrightarrow> dbinv (ww_db w)"
  using work_reachable_inv by (simp add: winv_def)

lemma reachable_row:
  assumes "work_reachable w" and "a \<in> set (wd_attempts (ww_db w))"
  shows "attempt_row_ok a" "has_task (wd_tasks (ww_db w)) a" "number_ok a"
  using dbinvD(5) [OF reachable_db [OF assms(1)] assms(2)] by simp_all

lemma distinct_rows: "distinct (map f xs) \<Longrightarrow> distinct xs"
  by (simp add: distinct_map)

lemma at_most_one:
  assumes "distinct xs" and "\<And>a b. a \<in> set xs \<Longrightarrow> b \<in> set xs \<Longrightarrow> P a \<Longrightarrow> P b \<Longrightarrow> a = b"
  shows "length (filter P xs) \<le> 1"
proof -
  have "card (set (filter P xs)) \<le> 1" using assms(2) by (auto simp: card_le_Suc0_iff_eq)
  then show ?thesis using distinct_card [OF distinct_filter [OF assms(1)], of P] by simp
qed

section \<open>Attempts\<close>

text \<open>
  C4: at most one attempt of a task is queued, claimed, running or being verified, in every
  state that starts, retries, claims, reviews, cancellations and recovery passes can reach
  together, stale reads and racing inserts included.
\<close>

theorem one_active_attempt:
  assumes "work_reachable w"
  shows "length (filter (\<lambda>a. ta_task_id a = tid \<and> ta_status a \<in> set ACTIVE_ATTEMPT_STATUSES) (wd_attempts (ww_db w))) \<le> 1"
proof (rule at_most_one)
  note d = reachable_db [OF assms]
  show "distinct (wd_attempts (ww_db w))" using dbinvD(2) [OF d] by (rule distinct_rows)
  fix a b assume "a \<in> set (wd_attempts (ww_db w))" "b \<in> set (wd_attempts (ww_db w))"
    "ta_task_id a = tid \<and> ta_status a \<in> set ACTIVE_ATTEMPT_STATUSES" "ta_task_id b = tid \<and> ta_status b \<in> set ACTIVE_ATTEMPT_STATUSES"
  then show "a = b" using dbinvD(3) [OF d] by (simp add: attempts_unique_def active_row_def)
qed

theorem one_active_attempt_witness:
  "length (filter (\<lambda>a. ta_task_id a = 101 \<and> ta_status a \<in> set ACTIVE_ATTEMPT_STATUSES) (wd_attempts run_db6)) \<le> 1 \<and>
   run_waiting \<in> set (wd_attempts run_db6) \<and> active_row run_waiting"
  using one_active_attempt [OF run_submitted, of 101] run_facts(1) by (simp add: active_row_def ACTIVE_ATTEMPT_STATUSES_def)



text \<open>
  C6: text work completes only by review. A completed attempt of a text task carries the
  verification a reviewer stamped: state \<open>verified\<close>, passed, and signed.
\<close>

theorem text_work_completes_by_review:
  assumes "work_reachable w" and "a \<in> set (wd_attempts (ww_db w))"
    and "ws_mode (sn_work_spec (ta_snapshot a)) = TextMode" and "ta_status a = ACompleted"
  shows "\<exists>v. ta_verification a = Some v \<and> vr_state v = Some ''verified'' \<and> vr_passed v = Some True \<and> vr_reviewed_by v \<noteq> None"
  using reachable_row(1) [OF assms(1,2)] assms(3,4)
  by (auto simp: attempt_row_ok_def mode_of_def reviewed_ok_def split: option.splits)

theorem text_work_completes_by_review_witness:
  "\<exists>v. ta_verification run_done = Some v \<and> vr_state v = Some ''verified'' \<and> vr_passed v = Some True \<and> vr_reviewed_by v \<noteq> None"
  by (rule text_work_completes_by_review [OF run_reviewed]) (simp_all add: run_tables7 run_spec_def)

text \<open>
  C5: a work order is completed only when its plan is finalized, it has children, and every
  child, seen under any interleaving of assignments, finalization, ends and retries, is completed.
\<close>

theorem order_completes_with_its_children:
  assumes "work_reachable w" and "p \<in> set (wd_tasks (ww_db w))" and "is_work_order p" and "tk_status p = TCompleted"
  shows "is_plan_finalized p \<and> children_of (tk_company_id p) (tk_id p) (ww_db w) \<noteq> [] \<and>
    list_all (\<lambda>t. tk_status t = TCompleted) (children_of (tk_company_id p) (tk_id p) (ww_db w))"
  using dbinvD(4) [OF reachable_db [OF assms(1)]] assms(2-4)
  by (simp add: orders_ok_def order_ok_def child_rows_def children_of_def)

theorem order_completes_with_its_children_witness:
  "\<exists>p. is_work_order p \<and> tk_status p = TCompleted \<and> is_plan_finalized p \<and>
    list_all (\<lambda>t. tk_status t = TCompleted) (children_of (tk_company_id p) (tk_id p) run_db8)"
proof -
  obtain p c where ts: "wd_tasks run_db8 = [p, c]" and st: "tk_status p = TCompleted" "tk_status c = TCompleted"
    using run_tables8(1) by (auto simp: map_eq_Cons_conv)
  have "map tk_id (wd_tasks run_db8) = map tk_id (wd_tasks run_db7)" "map is_work_order (wd_tasks run_db8) = [True, False]"
    by (simp_all add: run_end_orders)
  with ts have o: "is_work_order p" by simp
  with order_completes_with_its_children [OF run_finalized, of p] ts st show ?thesis by auto
qed

lemma valid_attempts: "validate_spec s = Inr spec \<Longrightarrow> 1 \<le> max_attempts spec"
  by (auto simp: validate_spec_def Let_def fields_in_bounds_def int_in_def max_attempts_def DEFAULT_MAX_ATTEMPTS_def
      split: sum.splits path_error.splits spec_error.splits if_splits option.splits)

text \<open>
  C7: the attempts of a text task are numbered from 1 without repetition, so there are never
  more of them than its spec allows, however starts, retries and rejections race.
\<close>

theorem text_attempts_bounded:
  assumes "work_reachable w" and "t \<in> set (wd_tasks (ww_db w))" and "tk_work_spec t = ItemSpec s"
    and "validate_spec s = Inr spec" and "ws_mode spec = TextMode"
  shows "int (length (filter (\<lambda>a. ta_task_id a = tk_id t) (wd_attempts (ww_db w)))) \<le> max_attempts spec"
proof -
  note d = reachable_db [OF assms(1)]
  let ?as = "filter (\<lambda>a. ta_task_id a = tk_id t) (wd_attempts (ww_db w))"
  have spec: "sn_work_spec (ta_snapshot a) = spec" if a: "a \<in> set ?as" for a
  proof -
    have "a \<in> set (wd_attempts (ww_db w))" using a by simp
    from reachable_row(2) [OF assms(1) this] obtain u s' where u: "u \<in> set (wd_tasks (ww_db w))" "tk_id u = ta_task_id a"
      "tk_work_spec u = ItemSpec s'" "validate_spec s' = Inr (sn_work_spec (ta_snapshot a))" unfolding has_task_def by blast
    then have "u = t" using same_key_same_row [OF dbinvD(1) [OF d] u(1) assms(2)] a by simp
    then show ?thesis using u(3,4) assms(3,4) by simp
  qed
  have num: "1 \<le> ta_attempt_number a \<and> ta_attempt_number a \<le> max_attempts spec" if a: "a \<in> set ?as" for a
    using reachable_row(3) [OF assms(1), of a] spec [OF a] a assms(5) by (simp add: number_ok_def mode_of_def)
  have "inj_on ta_attempt_number (set ?as)"
    using dbinvD(3) [OF d] by (auto simp: inj_on_def attempts_unique_def)
  moreover have "ta_attempt_number ` set ?as \<subseteq> {1..max_attempts spec}"
    using num by auto
  ultimately have "card (set ?as) \<le> card {1..max_attempts spec}" by (metis card_image card_mono finite_atLeastAtMost_int)
  moreover have "card (set ?as) = length ?as"
    by (intro distinct_card distinct_filter distinct_rows [OF dbinvD(2) [OF d]])
  moreover have "0 \<le> max_attempts spec" using valid_attempts [OF assms(4)] by simp
  ultimately show ?thesis by auto
qed

theorem text_attempts_bounded_witness:
  "int (length (filter (\<lambda>a. ta_task_id a = 101) (wd_attempts run_db6))) \<le> 2"
proof -
  have "int (length (filter (\<lambda>a. ta_task_id a = tk_id run_review_row) (wd_attempts run_db6))) \<le> max_attempts run_spec"
    using text_attempts_bounded [OF run_submitted _ run_review_fields(5) run_spec_valid]
    by (simp add: run_tables6 run_spec_def)
  then show ?thesis by (simp add: run_review_fields run_spec_def max_attempts_def DEFAULT_MAX_ATTEMPTS_def)
qed

text \<open>
  An idempotency key names one attempt for good. Whoever starts a task again with the key of
  an attempt it has, at any later time, gets that attempt and changes nothing.
\<close>

theorem start_with_known_key_attaches:
  assumes "work_reachable w" and "a \<in> set (wd_attempts (ww_db w))"
    and "st_task_id rq = ta_task_id a" and "st_key rq = ta_idempotency_key a" and "st_key rq \<noteq> []"
  shows "start_attempt registry now (ta_company_id a) rq (ww_db w) = (ww_db w, Inr (a, False))"
proof -
  note d = reachable_db [OF assms(1)]
  obtain t s where t: "t \<in> set (wd_tasks (ww_db w))" "tk_id t = ta_task_id a" "tk_company_id t = ta_company_id a"
    "tk_work_spec t = ItemSpec s" "validate_spec s = Inr (sn_work_spec (ta_snapshot a))"
    using reachable_row(2) [OF assms(1,2)] unfolding has_task_def by blast
  have g: "get_task (ta_company_id a) (ta_task_id a) (ww_db w) = Some t" using get_task_of [OF dbinvD(1) [OF d] t(1)] t(2,3) by simp
  have "by_key (ta_company_id a) (ta_task_id a) (ta_idempotency_key a) (ww_db w) \<noteq> None"
    using assms(2) by (auto simp: by_key_def find_None_iff)
  then obtain b where b: "by_key (ta_company_id a) (ta_task_id a) (ta_idempotency_key a) (ww_db w) = Some b" by blast
  then have "b = a" using dbinvD(3) [OF d] assms(2) by (auto simp: by_key_def attempts_unique_def dest!: find_SomeD)
  then show ?thesis using g b t(4,5) assms(3-5)
    by (simp add: start_attempt_def plan_start_def is_work_order_spec_def parse_work_spec_def)
qed

theorem start_with_known_key_attaches_witness:
  "start_attempt run_registry 99 4 run_start run_db7 = (run_db7, Inr (run_done, False))"
  using start_with_known_key_attaches [OF run_reviewed, of run_done run_start run_registry 99]
  by (simp add: run_tables7 run_start_def run_done_key)

end
