(* ===== verification/Work_Checks.thy ===== *)
theory Work_Checks
  imports Work_Laws
begin

text \<open>
  What a passed verification means, that the work of an attempt is committed once whatever
  crashes, who may review, and two ways an attempt or an order leaves the regular path.
\<close>

section \<open>Acceptance\<close>

text \<open>The contract of a verification, stated without its checks.\<close>

definition criterion_holds :: "verify_env \<Rightarrow> work_spec \<Rightarrow> employee_report \<Rightarrow> criterion \<Rightarrow> bool" where
  "criterion_holds env spec rep c \<longleftrightarrow>
    (case cr_kind c of
       FileExists \<Rightarrow> ve_is_file env (or_empty (cr_path c))
     | CommandPasses \<Rightarrow>
         (\<exists>i < length (ws_verification spec). Some (vs_command (ws_verification spec ! i)) = cr_command c) \<and>
         (\<forall>i < length (ws_verification spec). Some (vs_command (ws_verification spec ! i)) = cr_command c \<longrightarrow>
            ve_run env i (ws_verification spec ! i) = Some 0)
     | PatternCount \<Rightarrow> cr_min_count c \<le> (if ve_is_file env (or_empty (cr_path c))
         then ve_occurs env (or_empty (cr_path c)) (or_empty (cr_pattern c)) else 0)
     | ReportContains \<Rightarrow> substring (ve_lower env (or_empty (cr_text c))) (ve_dumps env (Some rep)))"

definition work_accepted :: "verify_env \<Rightarrow> work_spec \<Rightarrow> bool" where
  "work_accepted env spec \<longleftrightarrow> exited_zero (reply_exit_code (ve_reply env)) \<and>
    (\<exists>body payload raw rep. ve_reply env = Some (body, payload) \<and> ve_final_report env body = Some raw \<and>
       validate_report (ve_str env) (ve_typed env) raw = Inr rep \<and> er_state rep = RsCompleted \<and> er_blockers rep = [] \<and>
       (\<forall>c \<in> set (ws_acceptance_criteria spec). criterion_holds env spec rep c)) \<and>
    (\<forall>p \<in> set (ws_deliverables spec). ve_is_file env p) \<and>
    (\<forall>i < length (ws_verification spec). ve_run env i (ws_verification spec ! i) = Some 0) \<and>
    (ws_mode spec = ReadOnlyMode \<longrightarrow> filter is_work (ve_changed env) = [] \<and>
       (ws_review_of_task_id spec \<noteq> None \<longrightarrow> (\<exists>dirty. ve_reviewed env = Some (False, dirty) \<and> filter is_work dirty = [])))"

lemma run_steps_nth:
  "length (run_steps env spec) = length (ws_verification spec)"
  "i < length (ws_verification spec) \<Longrightarrow>
     run_steps env spec ! i = run_result i (ws_verification spec ! i) (ve_run env i (ws_verification spec ! i))"
  by (simp_all add: run_steps_def nth_enumerate_eq)

lemma set_run_steps:
  "set (run_steps env spec) = (\<lambda>i. run_result i (ws_verification spec ! i) (ve_run env i (ws_verification spec ! i))) ` {..<length (ws_verification spec)}"
proof -
  have "set (run_steps env spec) = (\<lambda>i. run_steps env spec ! i) ` {..<length (run_steps env spec)}"
    by (auto simp: set_conv_nth)
  then show ?thesis by (auto simp: run_steps_nth)
qed

lemma criterion_result_holds: "ck_passed (criterion_result env (run_steps env spec) (Some rep) c) = criterion_holds env spec rep c"
  by (auto simp: criterion_result_def criterion_holds_def check_of_def Let_def filter_empty_conv list_all_iff set_run_steps
      run_result_def split: criterion_kind.splits)

definition left_clean :: "verify_env \<Rightarrow> work_spec \<Rightarrow> bool" where
  "left_clean env spec \<longleftrightarrow> (ws_mode spec = ReadOnlyMode \<longrightarrow> filter is_work (ve_changed env) = [] \<and>
     (ws_review_of_task_id spec \<noteq> None \<longrightarrow> (\<exists>dirty. ve_reviewed env = Some (False, dirty) \<and> filter is_work dirty = [])))"

lemma read_only_pass: "read_only_checks env spec = Some ro \<Longrightarrow> list_all ck_passed ro \<longleftrightarrow> left_clean env spec"
  by (auto simp: left_clean_def read_only_checks_def check_of_def Let_def split: if_splits option.splits)

lemma check_passes [simp]: "ck_passed (check_of n ok d) = ok"
  by (simp add: check_of_def)

lemma commands_pass:
  "(\<forall>r \<in> set (run_steps env spec). cn_passed r) \<longleftrightarrow>
    (\<forall>i < length (ws_verification spec). ve_run env i (ws_verification spec ! i) = Some 0)"
  by (auto simp: set_run_steps run_result_def)

lemma work_checks_pass:
  assumes "work_checks env spec (Some rep) = Some cs"
  shows "list_all ck_passed cs \<longleftrightarrow>
    (\<forall>p \<in> set (ws_deliverables spec). ve_is_file env p) \<and>
    (\<forall>i < length (ws_verification spec). ve_run env i (ws_verification spec ! i) = Some 0) \<and>
    (\<forall>c \<in> set (ws_acceptance_criteria spec). criterion_holds env spec rep c) \<and> left_clean env spec"
proof -
  obtain ro where ro: "read_only_checks env spec = Some ro" using assms by (auto simp: work_checks_def Let_def split: option.splits)
  have cs: "cs = map (\<lambda>rel. check_of (''deliverable:'' @ rel) (ve_is_file env rel) []) (ws_deliverables spec) @
      map (\<lambda>r. check_of (''command:'' @ cn_id r) (cn_passed r) (code_text (cn_exit_code r))) (run_steps env spec) @
      map (criterion_result env (run_steps env spec) (Some rep)) (ws_acceptance_criteria spec) @ ro"
    using assms ro by (simp add: work_checks_def Let_def)
  show ?thesis
    by (simp only: cs list_all_append list.pred_map comp_def check_passes criterion_result_holds read_only_pass [OF ro])
      (simp only: list_all_iff commands_pass)
qed

lemma report_passes: "fst (report_verdict rep) = ACompleted \<longleftrightarrow> er_state rep = RsCompleted \<and> er_blockers rep = []"
  by (auto simp: report_verdict_def PASSED_def)

lemma judge_passes:
  assumes "judge_reply env = (cs, v, rep)" and "fst v = ACompleted"
  obtains body payload raw r where "rep = Some r" "ve_reply env = Some (body, payload)" "ve_final_report env body = Some raw"
    "validate_report (ve_str env) (ve_typed env) raw = Inr r" "er_state r = RsCompleted" "er_blockers r = []"
    "exited_zero (reply_exit_code (ve_reply env))" "list_all ck_passed cs"
  using assms report_passes
  by (auto simp: judge_reply_def Let_def worsen_def check_of_def split: option.splits sum.splits if_splits)

text \<open>
  C11: the verifier passes exactly the work that meets its contract: the CLI exited with 0, the
  reply holds a valid final report that says completed and names no blocker, every deliverable
  is a file, every verification command exited with 0, every acceptance criterion holds, and a
  read-only task left its worktree, and the one it reviewed, clean.
\<close>

theorem passed_exactly_when_accepted:
  assumes "verify now env spec = Some r"
  shows "vr_passed (vs_record r) = Some True \<longleftrightarrow> work_accepted env spec"
proof -
  obtain cs v rep where j: "judge_reply env = (cs, v, rep)" by (cases "judge_reply env") auto
  show ?thesis
  proof (cases "fst v = ACompleted")
    case True
    with j obtain body payload raw rp where r: "rep = Some rp" "ve_reply env = Some (body, payload)"
      "ve_final_report env body = Some raw" "validate_report (ve_str env) (ve_typed env) raw = Inr rp" "er_state rp = RsCompleted"
      "er_blockers rp = []" "exited_zero (reply_exit_code (ve_reply env))" "list_all ck_passed cs" by (rule judge_passes)
    obtain cs2 where c: "work_checks env spec (Some rp) = Some cs2"
      using assms j True r(1) by (auto simp: verify_def split: option.splits)
    have "vr_passed (vs_record r) = Some True \<longleftrightarrow> list_all ck_passed cs2"
      using assms j True r(1,8) c by (cases "list_all ck_passed cs2") (auto simp: verify_def Let_def)
    then show ?thesis using work_checks_pass [OF c] r(2-7) by (auto simp: work_accepted_def left_clean_def)
  next
    case False
    have "\<not> work_accepted env spec"
    proof
      assume "work_accepted env spec"
      then have "fst v = ACompleted"
        using j by (auto simp: work_accepted_def judge_reply_def Let_def PASSED_def report_verdict_def worsen_def)
      with False show "False" by simp
    qed
    with False j assms show ?thesis by (auto simp: verify_def Let_def)
  qed
qed

definition check_spec :: work_spec where
  "check_spec = \<lparr>ws_mode = WriteMode, ws_repository_id = Some 8, ws_base_ref = ''HEAD'', ws_expected_deliverable = None,
     ws_max_deliverable_chars = None, ws_max_attempts = None, ws_review_of_task_id = None, ws_objective = None,
     ws_deliverables = [''a.py''], ws_verification = [\<lparr>vs_command = PyCompile, vs_paths = [''a.py'']\<rparr>],
     ws_acceptance_criteria = [\<lparr>cr_kind = CommandPasses, cr_path = None, cr_command = Some PyCompile, cr_pattern = None,
       cr_min_count = 1, cr_text = None\<rparr>], ws_timeout_seconds = 600\<rparr>"

definition check_report :: employee_report where
  "check_report = \<lparr>er_state = RsCompleted, er_summary = ''done'', er_progress_percent = 100, er_current_step = [],
     er_completed_steps = [], er_next_step = [], er_blockers = [], er_artifacts = [''a.py''], er_tests_run = [],
     er_needs_help = False, er_eta = None\<rparr>"

definition check_env :: "int option \<Rightarrow> verify_env" where
  "check_env code = \<lparr>ve_reply = Some (''done'', Some [(''execution'', JDict [(''cli'', JDict [(''exit_code'', JInt 0)])])]),
     ve_final_report = (\<lambda>t. Some []), ve_str = (\<lambda>j. []), ve_typed = (\<lambda>d. Inr check_report), ve_is_file = (\<lambda>p. p = ''a.py''),
     ve_occurs = (\<lambda>p q. 0), ve_run = (\<lambda>i s. code), ve_dumps = (\<lambda>r. []), ve_lower = (\<lambda>s. s), ve_changed = [''a.py''],
     ve_reviewed = None, ve_sha256 = (\<lambda>s. s), ve_usage = None\<rparr>"

theorem passed_exactly_when_accepted_witness:
  "work_accepted (check_env (Some 0)) check_spec \<and> \<not> work_accepted (check_env (Some 1)) check_spec"
proof -
  have "map_option (\<lambda>r. vr_passed (vs_record r)) (verify 5 (check_env (Some 0)) check_spec) = Some (Some True)"
    "map_option (\<lambda>r. vr_passed (vs_record r)) (verify 5 (check_env (Some 1)) check_spec) = Some (Some False)"
    by code_simp+
  then obtain r q where r: "verify 5 (check_env (Some 0)) check_spec = Some r" "vr_passed (vs_record r) = Some True"
    and q: "verify 5 (check_env (Some 1)) check_spec = Some q" "vr_passed (vs_record q) = Some False" by auto
  from passed_exactly_when_accepted [OF r(1)] passed_exactly_when_accepted [OF q(1)] r(2) q(2) show ?thesis by simp
qed

section \<open>The commit\<close>

text \<open>
  Workers that pick the attempt up again and again, each with a commit hash of its own, over
  whatever changed paths are there, and each crashing after the ledger row, after git, or not
  at all.
\<close>

fun commit_runs :: "task_attempt \<Rightarrow> (nat \<times> string \<times> string list) list \<Rightarrow> work_db \<times> git_branch \<Rightarrow> work_db \<times> git_branch" where
  "commit_runs a [] s = s"
| "commit_runs a ((n, sha, changed) # runs) s = commit_runs a runs (commit_until n sha a (fst s, snd s\<lparr>gb_changed := changed\<rparr>))"

definition commit_inv :: "task_attempt \<Rightarrow> work_db \<times> git_branch \<Rightarrow> bool" where
  "commit_inv a s \<longleftrightarrow> length (filter (\<lambda>c. fst c = commit_key a) (gb_commits (snd s))) \<le> 1 \<and>
     (\<forall>e. find_effect (ta_company_id a) (commit_key a) (fst s) = Some e \<and> we_done e \<longrightarrow>
        commit_result e = map_of (gb_commits (snd s)) (commit_key a))"

lemma no_commit: "map_of cs k = None \<Longrightarrow> filter (\<lambda>c. fst c = k) cs = []"
  by (auto simp: map_of_eq_None_iff filter_empty_conv)

lemma commit_git_count:
  assumes "length (filter (\<lambda>c. fst c = commit_key a) (gb_commits g)) \<le> 1" and "commit_git sha a g = (g', c)"
  shows "length (filter (\<lambda>c. fst c = commit_key a) (gb_commits g')) \<le> 1" "c = map_of (gb_commits g') (commit_key a)"
  using assms by (auto simp: commit_git_def no_commit map_add_def split: option.splits if_splits)

lemma find_open_effect:
  "open_effect a k key db = (db1, e) \<Longrightarrow> find_effect (ta_company_id a) key db1 = Some e \<and>
    (we_done e \<longrightarrow> find_effect (ta_company_id a) key db = Some e)"
  by (auto simp: open_effect_def find_effect_def work_effect_row_def find_append split: option.splits)

lemma find_effect_done:
  assumes "find_effect cid key db = Some e"
  shows "find_effect cid key (effect_done e r db) = Some (e\<lparr>we_done := True, we_result := r\<rparr>)"
proof -
  have e: "we_company_id e = cid" "we_effect_key e = key" using assms by (auto simp: find_effect_def dest: find_SomeD)
  have "find (\<lambda>x. we_company_id x = cid \<and> we_effect_key x = key) es = Some e \<Longrightarrow>
      find (\<lambda>x. we_company_id x = cid \<and> we_effect_key x = key) (update_where
        (\<lambda>r. we_company_id r = cid \<and> we_effect_key r = key) (\<lambda>x. x\<lparr>we_done := True, we_result := r\<rparr>) es) =
      Some (e\<lparr>we_done := True, we_result := r\<rparr>)" for es
    by (induction es) (auto simp: update_where_def split: if_splits)
  with assms e show ?thesis by (simp add: find_effect_def effect_done_def)
qed

lemma commit_work_inv:
  assumes "commit_inv a s" and "commit_work sha a s = (s', c)"
  shows "commit_inv a s'" "c = map_of (gb_commits (snd s')) (commit_key a)"
proof -
  obtain db1 e where o: "open_effect a GitCommit (commit_key a) (fst s) = (db1, e)" by (cases "open_effect a GitCommit (commit_key a) (fst s)")
  note f = find_open_effect [OF o]
  have "commit_inv a s' \<and> c = map_of (gb_commits (snd s')) (commit_key a)"
  proof (cases "we_done e")
    case True
    then have "s' = (db1, snd s)" "c = commit_result e" using assms(2) o by (auto simp: commit_work_def)
    then show ?thesis using f True assms(1) by (auto simp: commit_inv_def)
  next
    case False
    obtain g d where g: "commit_git sha a (snd s) = (g, d)" by (cases "commit_git sha a (snd s)")
    then have s': "s' = (effect_done e (Commit d) db1, g)" "c = d" using assms(2) o False by (auto simp: commit_work_def)
    have "length (filter (\<lambda>c. fst c = commit_key a) (gb_commits (snd s))) \<le> 1" using assms(1) by (simp add: commit_inv_def)
    from commit_git_count [OF this g] show ?thesis
      using s' find_effect_done [of "ta_company_id a" "commit_key a" db1 e "Commit d"] f by (simp add: commit_inv_def commit_result_def)
  qed
  then show "commit_inv a s'" "c = map_of (gb_commits (snd s')) (commit_key a)" by simp_all
qed

lemma commit_until_inv:
  assumes "commit_inv a s"
  shows "commit_inv a (commit_until n sha a s)"
proof -
  obtain db1 e where o: "open_effect a GitCommit (commit_key a) (fst s) = (db1, e)" by (cases "open_effect a GitCommit (commit_key a) (fst s)")
  note f = find_open_effect [OF o]
  obtain g d where g: "commit_git sha a (snd s) = (g, d)" by (cases "commit_git sha a (snd s)")
  have l: "length (filter (\<lambda>c. fst c = commit_key a) (gb_commits (snd s))) \<le> 1" using assms by (simp add: commit_inv_def)
  consider "n = 0" | "n = 1" | "n = 2" | "2 < n" by linarith
  then show ?thesis
  proof cases
    case 2
    then show ?thesis using assms f o by (auto simp: commit_until_def commit_inv_def)
  next
    case 3
    then show ?thesis using assms f o g commit_git_count(1) [OF l g] by (auto simp: commit_until_def commit_inv_def)
  next
    case 4
    obtain s' c where "commit_work sha a s = (s', c)" by (cases "commit_work sha a s")
    with commit_work_inv(1) [OF assms this] 4 show ?thesis by (simp add: commit_until_def)
  qed (use assms in \<open>simp add: commit_until_def\<close>)
qed

lemma commit_runs_inv: "commit_inv a s \<Longrightarrow> commit_inv a (commit_runs a runs s)"
proof (induction runs arbitrary: s)
  case (Cons r runs)
  obtain n sha changed where r: "r = (n, sha, changed)" by (cases r)
  have "commit_inv a (fst s, snd s\<lparr>gb_changed := changed\<rparr>)" using Cons.prems by (simp add: commit_inv_def)
  then show ?case using Cons.IH [OF commit_until_inv] r by simp
qed simp

text \<open>
  C12: the work of an attempt is committed once. However often workers crash and start over, the
  branch has at most one commit with the trailer of the attempt, and the worker that gets through
  reports exactly that commit.
\<close>

theorem work_is_committed_once:
  assumes "find_effect (ta_company_id a) (commit_key a) db = None" and "commit_key a \<notin> fst ` set (gb_commits g)"
    and "commit_work sha a (commit_runs a runs (db, g)) = ((db', g'), c)"
  shows "length (filter (\<lambda>k. fst k = commit_key a) (gb_commits g')) \<le> 1 \<and> c = map_of (gb_commits g') (commit_key a)"
proof -
  have "filter (\<lambda>k. fst k = commit_key a) (gb_commits g) = []" using assms(2) by (force simp: filter_empty_conv)
  then have "commit_inv a (db, g)" using assms(1) by (simp add: commit_inv_def)
  from commit_work_inv [OF commit_runs_inv [OF this] assms(3)] show ?thesis by (simp add: commit_inv_def)
qed

theorem work_is_committed_once_witness:
  "\<exists>db' g' c. commit_work ''s9'' run_done (commit_runs run_done
      [(1, ''s1'', [''a.py'']), (2, ''s2'', [''a.py'']), (2, ''s3'', [''b.py''])] (run_db0, \<lparr>gb_commits = [], gb_changed = []\<rparr>)) = ((db', g'), c) \<and>
    length (filter (\<lambda>k. fst k = commit_key run_done) (gb_commits g')) \<le> 1 \<and> c = map_of (gb_commits g') (commit_key run_done)"
proof -
  obtain db' g' c where r: "commit_work ''s9'' run_done (commit_runs run_done
      [(1, ''s1'', [''a.py'']), (2, ''s2'', [''a.py'']), (2, ''s3'', [''b.py''])] (run_db0, \<lparr>gb_commits = [], gb_changed = []\<rparr>)) = ((db', g'), c)"
    by (metis prod.exhaust)
  with work_is_committed_once [OF _ _ r] show ?thesis by (simp add: find_effect_def run_db0_def)
qed

section \<open>Reviewing\<close>

text \<open>
  C13: a review changes something only when the attempt is text work that waits for a review, and
  an agent that reviews is the manager of the agent that did the work and not that agent; a
  rejection states a reason.
\<close>

theorem review_only_by_the_manager:
  assumes "review registry now cid aid rw ids db = (db', res)" and "db' \<noteq> db"
  shows "\<exists>a spec. get_attempt cid aid db = Some a \<and> ta_status a = AVerifying \<and> ta_claimed_by a = None \<and>
    validate_spec (sn_work_spec (ta_snapshot a)) = Inr spec \<and> ws_mode spec = TextMode \<and>
    (\<forall>r. rw_reviewer rw = Some r \<longrightarrow> r \<noteq> ta_agent_id a \<and>
       (\<exists>e. get_employee cid (ta_agent_id a) db = Some e \<and> em_manager_id e = Some r)) \<and>
    (rw_decision rw = ''reject'' \<longrightarrow> review_reason rw \<noteq> None)"
proof -
  obtain a where a: "get_attempt cid aid db = Some a" "review_check cid a rw db = Inr True"
    using assms by (auto simp: review_def split: if_splits option.splits sum.splits bool.splits)
  then have "awaiting_review a \<and> \<not> (rw_decision rw = ''reject'' \<and> review_reason rw = None)"
    by (auto simp: review_check_def split: if_splits option.splits sum.splits)
  moreover obtain spec where "validate_spec (sn_work_spec (ta_snapshot a)) = Inr spec" "ws_mode spec = TextMode"
    using a(2) by (auto simp: review_check_def split: if_splits option.splits sum.splits)
  moreover have "r \<noteq> ta_agent_id a \<and> (\<exists>e. get_employee cid (ta_agent_id a) db = Some e \<and> em_manager_id e = Some r)"
    if "rw_reviewer rw = Some r" for r
    using a(2) that by (auto simp: review_check_def split: if_splits option.splits sum.splits)
  ultimately show ?thesis using a(1) by (auto simp: awaiting_review_def)
qed

theorem review_only_by_the_manager_witness:
  "\<exists>db' res. review run_registry 16 4 200 run_review (300, []) run_db6 = (db', res) \<and> db' \<noteq> run_db6 \<and>
    (\<exists>e. get_employee 4 (ta_agent_id run_waiting) run_db6 = Some e \<and> em_manager_id e = Some 12)"
proof -
  obtain db' res where r: "review run_registry 16 4 200 run_review (300, []) run_db6 = (db', res)" by (metis prod.exhaust)
  have g: "get_attempt 4 200 run_db6 = Some run_waiting" by (simp add: get_attempt_def run_tables6 attempt_scoped_def)
  have "\<exists>res'. review run_registry 16 4 200 run_review (300, []) run_db6 = (run_db7, res')"
    using g run_checked by (simp add: review_def run_review_def run_db7_def split: prod.splits sum.splits bool.splits)
  with r have "db' = run_db7" by simp
  then have "map ta_status (wd_attempts db') = [ACompleted]" "map ta_status (wd_attempts run_db6) = [AVerifying]"
    by (simp_all add: run_tables7 run_tables6)
  then have "db' \<noteq> run_db6" by auto
  with review_only_by_the_manager [OF r this] r g show ?thesis by (auto simp: run_review_def)
qed

end
