(* ===== verification/Python_Text.thy ===== *)
theory Python_Text
  imports Prelude
begin

text \<open>
  How Python prints what the audit hash covers: \<open>str(uuid)\<close> (lower-case hexadecimal in groups
  of 8, 4, 4, 4 and 12 digits), \<open>datetime.isoformat()\<close> of a naive timestamp, and \<open>None\<close> in an
  f-string. Times count microseconds from 1970-01-01, so the clock is never negative. The
  lemmas say that a printed identifier or timestamp determines what was printed, and contains
  no separator bar.
\<close>

section \<open>Separated text\<close>

lemma split_at_separator:
  assumes "x @ c # r = y @ c # s" and "c \<notin> set x" and "c \<notin> set y"
  shows "x = y \<and> r = s"
  using assms
proof (induction x arbitrary: y)
  case Nil
  then show ?case by (cases y) auto
next
  case (Cons a x)
  then show ?case by (cases y) auto
qed

section \<open>Decimal numbers\<close>

definition is_digit :: "char \<Rightarrow> bool" where
  "is_digit c \<longleftrightarrow> 48 \<le> (of_char c :: nat) \<and> (of_char c :: nat) \<le> 57"

fun digits_value :: "nat \<Rightarrow> string \<Rightarrow> nat" where
  "digits_value acc [] = acc"
| "digits_value acc (c # cs) = digits_value (10 * acc + (of_char c - 48)) cs"

lemma of_char_digit [simp]: "d < 10 \<Longrightarrow> of_char (char_of (48 + d) :: char) = 48 + (d :: nat)"
  by (simp add: of_char_of)

lemma digits_value_append:
  "digits_value acc (xs @ ys) = digits_value (digits_value acc xs) ys"
  by (induction xs arbitrary: acc) simp_all

lemma digits_value_zeros [simp]: "digits_value 0 (replicate k (CHR ''0'')) = 0"
  by (induction k) simp_all

lemma show_nat_value: "digits_value 0 (show_nat n) = n"
proof (induction n rule: show_nat.induct)
  case (1 n)
  then show ?case
    by (subst show_nat.simps) (auto simp: digits_value_append)
qed

lemma show_nat_digits: "list_all is_digit (show_nat n)"
proof (induction n rule: show_nat.induct)
  case (1 n)
  then show ?case
    by (subst show_nat.simps) (cases "n < 10"; simp; simp add: is_digit_def)
qed

text \<open>\<open>"%0wd" % n\<close>.\<close>

definition zero_padded :: "nat \<Rightarrow> nat \<Rightarrow> string" where
  "zero_padded w n = replicate (w - length (show_nat n)) (CHR ''0'') @ show_nat n"

lemma zero_padded_inject [simp]: "zero_padded w n = zero_padded w m \<longleftrightarrow> n = m"
proof
  assume "zero_padded w n = zero_padded w m"
  then have "digits_value 0 (zero_padded w n) = digits_value 0 (zero_padded w m)" by simp
  then show "n = m" by (simp add: zero_padded_def digits_value_append show_nat_value)
qed simp

lemma zero_padded_digits: "list_all is_digit (zero_padded w n)"
  by (auto simp: zero_padded_def show_nat_digits list_all_iff [of _ "replicate _ _"] is_digit_def)

lemma chars_without: "list_all P s \<Longrightarrow> \<not> P c \<Longrightarrow> c \<notin> set s"
  by (auto simp: list_all_iff)

lemma zero_padded_without [simp]: "\<not> is_digit c \<Longrightarrow> c \<notin> set (zero_padded w n)"
  by (rule chars_without [OF zero_padded_digits])

section \<open>Identifiers\<close>

definition hex_digit :: "nat \<Rightarrow> char" where
  "hex_digit d = (if d < 10 then char_of (48 + d) else char_of (87 + d))"

text \<open>The last \<open>k\<close> hexadecimal digits of a number.\<close>

fun hex_text :: "nat \<Rightarrow> nat \<Rightarrow> string" where
  "hex_text 0 n = []"
| "hex_text (Suc k) n = hex_text k (n div 16) @ [hex_digit (n mod 16)]"

definition dashed :: "string \<Rightarrow> string" where
  "dashed h = take 8 h @ ''-'' @ take 4 (drop 8 h) @ ''-'' @ take 4 (drop 12 h) @ ''-'' @
     take 4 (drop 16 h) @ ''-'' @ drop 20 h"

definition uuid_text :: "uuid \<Rightarrow> string" where
  "uuid_text u = dashed (hex_text 32 u)"

definition valid_uuid :: "uuid \<Rightarrow> bool" where
  "valid_uuid u \<longleftrightarrow> u < 2 ^ 128"

definition is_hex :: "char \<Rightarrow> bool" where
  "is_hex c \<longleftrightarrow> is_digit c \<or> 97 \<le> (of_char c :: nat) \<and> (of_char c :: nat) \<le> 102"

lemma of_char_hex [simp]:
  "d < 16 \<Longrightarrow> of_char (hex_digit d) = (if d < 10 then 48 + d else 87 + d)"
  by (simp add: hex_digit_def of_char_of)

lemma hex_digit_inject: "a < 16 \<Longrightarrow> b < 16 \<Longrightarrow> hex_digit a = hex_digit b \<Longrightarrow> a = b"
proof -
  assume b: "a < 16" "b < 16" and "hex_digit a = hex_digit b"
  then have "(of_char (hex_digit a) :: nat) = of_char (hex_digit b)" by simp
  with b show "a = b" by (simp split: if_splits)
qed

lemma is_hex_digit: "d < 16 \<Longrightarrow> is_hex (hex_digit d)"
  by (simp add: is_hex_def is_digit_def)

lemma hex_text_chars: "list_all is_hex (hex_text k n)"
  by (induction k arbitrary: n) (simp_all add: is_hex_digit)

lemma hex_text_without [simp]: "\<not> is_hex c \<Longrightarrow> c \<notin> set (hex_text k n)"
  by (rule chars_without [OF hex_text_chars])

lemma not_hex [simp]:
  "\<not> is_hex (CHR ''-'')" "\<not> is_hex (CHR ''|'')" "\<not> is_hex (CHR ''N'')"
  by (simp_all add: is_hex_def is_digit_def)

lemma length_hex_text [simp]: "length (hex_text k n) = k"
  by (induction k arbitrary: n) simp_all

lemma same_div_mod: "(n :: nat) div d = m div d \<Longrightarrow> n mod d = m mod d \<Longrightarrow> n = m"
  by (metis div_mod_decomp)

lemma hex_text_inject:
  "n < 16 ^ k \<Longrightarrow> m < 16 ^ k \<Longrightarrow> hex_text k n = hex_text k m \<longleftrightarrow> n = m"
proof (induction k arbitrary: n m)
  case 0
  then show ?case by simp
next
  case (Suc k)
  have "n div 16 < 16 ^ k" "m div 16 < 16 ^ k"
    using Suc.prems by (simp_all add: less_mult_imp_div_less mult.commute)
  then show ?case
    using Suc.IH [of "n div 16" "m div 16"] hex_digit_inject [of "n mod 16" "m mod 16"]
    by (auto intro: same_div_mod)
qed

lemma dashed_filter:
  assumes "CHR ''-'' \<notin> set h"
  shows "filter (\<lambda>c. c \<noteq> CHR ''-'') (dashed h) = h"
proof -
  have keep: "filter (\<lambda>c. c \<noteq> CHR ''-'') s = s" if "set s \<subseteq> set h" for s
    using that assms by (auto simp: filter_id_conv)
  have parts: "set (take k (drop j h)) \<subseteq> set h" for j k
    by (meson order_trans set_drop_subset set_take_subset)
  have "filter (\<lambda>c. c \<noteq> CHR ''-'') (dashed h) =
    take 8 h @ take 4 (drop 8 h) @ take 4 (drop 12 h) @ take 4 (drop 16 h) @ drop 20 h"
    by (simp add: dashed_def keep set_take_subset set_drop_subset parts)
  also have "\<dots> = h"
    using append_take_drop_id [of 8 h] append_take_drop_id [of 4 "drop 8 h"]
      append_take_drop_id [of 4 "drop 12 h"] append_take_drop_id [of 4 "drop 16 h"]
    by simp
  finally show ?thesis .
qed

lemma dashed_chars: "c \<in> set (dashed h) \<Longrightarrow> c = CHR ''-'' \<or> c \<in> set h"
  by (auto simp: dashed_def dest: in_set_takeD in_set_dropD)

lemma uuid_text_inject [simp]:
  assumes "valid_uuid u" and "valid_uuid v"
  shows "uuid_text u = uuid_text v \<longleftrightarrow> u = v"
proof
  assume eq: "uuid_text u = uuid_text v"
  have "hex_text 32 u = hex_text 32 v"
    using arg_cong [OF eq, of "filter (\<lambda>c. c \<noteq> CHR ''-'')"] by (simp add: uuid_text_def dashed_filter)
  then show "u = v"
    using hex_text_inject [of u 32 v] assms by (simp add: valid_uuid_def)
qed simp

lemma uuid_text_no_bar [simp]: "CHR ''|'' \<notin> set (uuid_text u)"
  by (auto simp: uuid_text_def dest: dashed_chars)

lemma uuid_text_not_None [simp]: "uuid_text u \<noteq> ''None''"
proof
  assume "uuid_text u = ''None''"
  then have "CHR ''N'' \<in> set (uuid_text u)" by simp
  then show False by (auto simp: uuid_text_def dest: dashed_chars)
qed

section \<open>Timestamps\<close>

definition leap_year :: "nat \<Rightarrow> bool" where
  "leap_year y \<longleftrightarrow> y mod 4 = 0 \<and> (y mod 100 \<noteq> 0 \<or> y mod 400 = 0)"

definition year_days :: "nat \<Rightarrow> nat" where
  "year_days y = (if leap_year y then 366 else 365)"

definition month_days :: "nat \<Rightarrow> nat list" where
  "month_days y = [31, if leap_year y then 29 else 28, 31, 30, 31, 30, 31, 31, 30, 31, 30, 31]"

text \<open>The year and the day in it, and the month and the day in it, counting from 0.\<close>

function year_of :: "nat \<Rightarrow> nat \<Rightarrow> nat \<times> nat" where
  "year_of y n = (if n < year_days y then (y, n) else year_of (y + 1) (n - year_days y))"
  by pat_completeness auto
termination
  by (relation "measure snd") (auto simp: year_days_def)

declare year_of.simps [simp del]

fun month_of :: "nat list \<Rightarrow> nat \<Rightarrow> nat \<times> nat" where
  "month_of [] n = (0, n)"
| "month_of (d # ds) n = (if n < d then (0, n) else let (m, r) = month_of ds (n - d) in (Suc m, r))"

definition date_text :: "nat \<Rightarrow> string" where
  "date_text days =
    (let (y, yd) = year_of 1970 days; (m, d) = month_of (month_days y) yd
     in zero_padded 4 y @ ''-'' @ zero_padded 2 (m + 1) @ ''-'' @ zero_padded 2 (d + 1))"

definition micros_text :: "nat \<Rightarrow> string" where
  "micros_text us = (if us = 0 then [] else ''.'' @ zero_padded 6 us)"

definition clock_text :: "nat \<Rightarrow> string" where
  "clock_text t =
    (let s = t div 1000000
     in zero_padded 2 (s div 3600) @ '':'' @ zero_padded 2 (s div 60 mod 60) @ '':'' @
        zero_padded 2 (s mod 60) @ micros_text (t mod 1000000))"

definition isoformat :: "time \<Rightarrow> string" where
  "isoformat t =
    (let us = nat t in date_text (us div 86400000000) @ ''T'' @ clock_text (us mod 86400000000))"

text \<open>The same with integer division, whose literals are evaluated in binary, and the epoch itself.\<close>

lemma clock_text_int [code]:
  "clock_text t =
    (let s = nat (int t div 1000000)
     in zero_padded 2 (s div 3600) @ '':'' @ zero_padded 2 (s div 60 mod 60) @ '':'' @
        zero_padded 2 (s mod 60) @ micros_text (nat (int t mod 1000000)))"
  by (simp add: clock_text_def nat_div_distrib nat_mod_distrib)

lemma isoformat_epoch: "isoformat 0 = ''1970-01-01T00:00:00''"
  by (simp add: isoformat_def date_text_def clock_text_def micros_text_def zero_padded_def show_nat.simps
      year_of.simps year_days_def leap_year_def month_days_def char_of_def bit_0)

lemma isoformat_int [code]:
  "isoformat t =
    (if t = 0 then ''1970-01-01T00:00:00''
     else let us = max 0 t
          in date_text (nat (us div 86400000000)) @ ''T'' @ clock_text (nat (us mod 86400000000)))"
proof (cases "t = 0")
  case True
  then show ?thesis by (simp only: isoformat_epoch if_True refl)
next
  case False
  then show ?thesis
    by (cases "0 \<le> t") (simp_all add: isoformat_def Let_def nat_div_distrib nat_mod_distrib)
qed

lemma year_of_sum:
  "year_of y n = (y', r) \<Longrightarrow> y \<le> y' \<and> n = (\<Sum>i = y..<y'. year_days i) + r"
proof (induction y n arbitrary: y' r rule: year_of.induct)
  case (1 y n)
  show ?case
  proof (cases "n < year_days y")
    case True
    with "1.prems" show ?thesis by (subst (asm) year_of.simps) simp
  next
    case False
    with "1.prems" have "year_of (y + 1) (n - year_days y) = (y', r)"
      by (subst (asm) year_of.simps) simp
    with "1.IH" [OF False this] False show ?thesis
      by (auto simp: sum.atLeast_Suc_lessThan [of y y'])
  qed
qed

lemma month_of_sum: "month_of ds n = (m, r) \<Longrightarrow> n = sum_list (take m ds) + r"
  by (induction ds n arbitrary: m r rule: month_of.induct) (auto split: if_splits prod.splits)

lemma not_digits [simp]:
  "\<not> is_digit (CHR ''-'')" "\<not> is_digit (CHR ''T'')" "\<not> is_digit (CHR '':'')"
  "\<not> is_digit (CHR ''.'')" "\<not> is_digit (CHR ''|'')"
  by (simp_all add: is_digit_def)

lemma date_text_inject: "date_text n = date_text k \<Longrightarrow> n = k"
proof -
  assume eq: "date_text n = date_text k"
  obtain y yd where y: "year_of 1970 n = (y, yd)" by fastforce
  obtain z zd where z: "year_of 1970 k = (z, zd)" by fastforce
  obtain m d where m: "month_of (month_days y) yd = (m, d)" by fastforce
  obtain l e where l: "month_of (month_days z) zd = (l, e)" by fastforce
  from eq have "y = z \<and> m = l \<and> d = e"
    by (auto simp: date_text_def y z m l dest!: split_at_separator)
  then show "n = k"
    using year_of_sum [OF y] year_of_sum [OF z] month_of_sum [OF m] month_of_sum [OF l] by simp
qed

lemma micros_text_inject: "micros_text a = micros_text b \<longleftrightarrow> a = b"
  by (auto simp: micros_text_def)

lemma digits_then_micros:
  assumes "zero_padded 2 a @ micros_text u = zero_padded 2 b @ micros_text v"
  shows "a = b \<and> u = v"
proof -
  have tw: "takeWhile is_digit (zero_padded 2 n @ micros_text w) = zero_padded 2 n" for n w
    using zero_padded_digits [of 2 n]
    by (subst takeWhile_append2) (auto simp: list_all_iff micros_text_def)
  from assms have "zero_padded 2 a = zero_padded 2 b" by (metis tw)
  with assms show ?thesis by (simp add: micros_text_inject)
qed

lemma clock_text_inject:
  assumes "clock_text a = clock_text b"
  shows "a = b"
proof -
  let ?s = "a div 1000000" and ?t = "b div 1000000"
  have parts: "?s div 3600 = ?t div 3600 \<and> ?s div 60 mod 60 = ?t div 60 mod 60 \<and>
    ?s mod 60 = ?t mod 60 \<and> a mod 1000000 = b mod 1000000"
    using assms by (auto simp: clock_text_def Let_def dest!: split_at_separator digits_then_micros)
  have "n = n div 3600 * 3600 + n div 60 mod 60 * 60 + n mod 60" for n :: nat
  proof -
    have "n div 60 = n div 3600 * 60 + n div 60 mod 60"
      using div_mult2_eq [of n 60 60] div_mod_decomp [of "n div 60" 60] by simp
    moreover have "n = n div 60 * 60 + n mod 60" by (rule div_mod_decomp)
    ultimately show ?thesis by linarith
  qed
  then have "?s = ?t" using parts by metis
  with parts show ?thesis by (blast intro: same_div_mod)
qed

lemma isoformat_inject:
  assumes "isoformat s = isoformat t" and "0 \<le> s" and "0 \<le> t"
  shows "s = t"
proof -
  have no: "CHR ''T'' \<notin> set (date_text n)" for n
    by (auto simp: date_text_def split: prod.splits)
  have "date_text (nat s div 86400000000) = date_text (nat t div 86400000000) \<and>
    clock_text (nat s mod 86400000000) = clock_text (nat t mod 86400000000)"
    using assms(1) by (auto simp: isoformat_def Let_def no dest!: split_at_separator)
  then have "nat s = nat t"
    by (blast intro: same_div_mod dest: date_text_inject clock_text_inject)
  with assms show ?thesis by simp
qed

lemma isoformat_no_bar [simp]: "CHR ''|'' \<notin> set (isoformat t)"
  by (auto simp: isoformat_def date_text_def clock_text_def micros_text_def Let_def split: prod.splits)

section \<open>Options in an f-string\<close>

definition opt_text :: "string option \<Rightarrow> string" where
  "opt_text x = (case x of None \<Rightarrow> ''None'' | Some s \<Rightarrow> s)"

definition opt_uuid_text :: "uuid option \<Rightarrow> string" where
  "opt_uuid_text x = (case x of None \<Rightarrow> ''None'' | Some u \<Rightarrow> uuid_text u)"

lemma opt_text_inject:
  "x \<noteq> Some ''None'' \<Longrightarrow> y \<noteq> Some ''None'' \<Longrightarrow> opt_text x = opt_text y \<longleftrightarrow> x = y"
  by (auto simp: opt_text_def split: option.splits)

lemma opt_uuid_text_inject:
  "pred_option valid_uuid x \<Longrightarrow> pred_option valid_uuid y \<Longrightarrow>
   opt_uuid_text x = opt_uuid_text y \<longleftrightarrow> x = y"
  by (cases x; cases y) (auto simp: opt_uuid_text_def dest: sym)

lemma opt_uuid_text_no_bar [simp]: "CHR ''|'' \<notin> set (opt_uuid_text x)"
  by (simp add: opt_uuid_text_def split: option.splits)

end
