(* ===== verification/Audit_Chain.thy ===== *)
theory Audit_Chain
  imports Python_Text
begin

text \<open>
  The audit log (\<open>governance/audit_persistent.py\<close>, \<open>governance/audit_service.py\<close>, the tables of
  \<open>models/governance.py\<close>): one SHA-256 hash chain per company. \<open>record_audit\<close> reads the tail of
  the chain, stamps the new row with the next sequence number and inserts it under the unique
  constraint on company and sequence number, trying again when it loses; a buffered logger
  computes its links without a lock and inserts a batch. SHA-256 is the parameter \<open>sha\<close>.
\<close>

section \<open>Entries and rows\<close>

record audit_entry =
  pe_id :: uuid
  pe_actor_type :: string
  pe_actor_id :: string
  pe_action :: string
  pe_resource_type :: "string option"
  pe_resource_id :: "string option"
  pe_details :: dict
  pe_company_id :: "uuid option"
  pe_timestamp :: time
  pe_entry_hash :: string
  pe_previous_hash :: string
  pe_sequence_number :: int
  pe_archived_at :: "time option"

record audit_log =
  al_id :: uuid
  al_company_id :: "uuid option"
  al_actor_type :: string
  al_actor_id :: "string option"
  al_action :: string
  al_resource_type :: "string option"
  al_resource_id :: "string option"
  al_details :: "dict option"
  al_ip_address :: "string option"
  al_created_at :: time
  al_sequence_number :: "int option"
  al_entry_hash :: "string option"
  al_previous_hash :: "string option"
  al_archived_at :: "time option"

text \<open>\<open>x or default\<close> for a column that may be NULL.\<close>

definition col_text :: "string option \<Rightarrow> string" where
  "col_text x = (case x of None \<Rightarrow> [] | Some s \<Rightarrow> s)"

definition col_int :: "int option \<Rightarrow> int" where
  "col_int x = (case x of None \<Rightarrow> 0 | Some n \<Rightarrow> n)"

definition entry_from_row :: "audit_log \<Rightarrow> audit_entry" where
  "entry_from_row r =
    \<lparr>pe_id = al_id r, pe_actor_type = al_actor_type r, pe_actor_id = col_text (al_actor_id r),
     pe_action = al_action r, pe_resource_type = al_resource_type r,
     pe_resource_id = al_resource_id r, pe_details = dict_or_empty (al_details r),
     pe_company_id = al_company_id r, pe_timestamp = al_created_at r,
     pe_entry_hash = col_text (al_entry_hash r), pe_previous_hash = col_text (al_previous_hash r),
     pe_sequence_number = col_int (al_sequence_number r), pe_archived_at = al_archived_at r\<rparr>"

definition entry_to_row :: "audit_entry \<Rightarrow> audit_log" where
  "entry_to_row e =
    \<lparr>al_id = pe_id e, al_company_id = pe_company_id e, al_actor_type = pe_actor_type e,
     al_actor_id = text_or_none (pe_actor_id e), al_action = pe_action e,
     al_resource_type = pe_resource_type e, al_resource_id = pe_resource_id e,
     al_details = (if pe_details e = [] then None else Some (pe_details e)), al_ip_address = None,
     al_created_at = pe_timestamp e, al_sequence_number = Some (pe_sequence_number e),
     al_entry_hash = Some (pe_entry_hash e), al_previous_hash = Some (pe_previous_hash e),
     al_archived_at = None\<rparr>"

section \<open>Hashes and the verification of a chain\<close>

definition hash_input :: "audit_entry \<Rightarrow> string \<Rightarrow> string" where
  "hash_input e prev =
    uuid_text (pe_id e) @ ''|'' @ pe_actor_type e @ ''|'' @ pe_actor_id e @ ''|'' @
    pe_action e @ ''|'' @ opt_text (pe_resource_type e) @ ''|'' @ opt_text (pe_resource_id e) @ ''|'' @
    isoformat (pe_timestamp e) @ ''|'' @ opt_uuid_text (pe_company_id e) @ ''|'' @ prev"

definition compute_entry_hash :: "(string \<Rightarrow> string) \<Rightarrow> audit_entry \<Rightarrow> string \<Rightarrow> string" where
  "compute_entry_hash sha e prev = sha (hash_input e prev)"

definition CHAIN_SEALED_ACTION :: string where
  "CHAIN_SEALED_ACTION = ''audit.chain_sealed''"

definition LEGACY_INTACT :: string where
  "LEGACY_INTACT = ''legacy_intact''"

definition GENESIS :: string where
  "GENESIS = ''genesis''"

fun bar_join :: "string list \<Rightarrow> string" where
  "bar_join [] = []"
| "bar_join [s] = s"
| "bar_join (s # ss) = s @ ''|'' @ bar_join ss"

definition legacy_text :: "audit_entry list \<Rightarrow> string" where
  "legacy_text es = ''legacy-global-chain|'' @
     bar_join (map (\<lambda>e. show_int (pe_sequence_number e) @ '':'' @ pe_entry_hash e) es)"

definition legacy_digest :: "(string \<Rightarrow> string) \<Rightarrow> audit_entry list \<Rightarrow> string" where
  "legacy_digest sha es = sha (legacy_text es)"

fun links_intact :: "(string \<Rightarrow> string) \<Rightarrow> string \<Rightarrow> audit_entry list \<Rightarrow> bool" where
  "links_intact sha prev [] = True"
| "links_intact sha prev (e # es) =
    (if pe_previous_hash e \<noteq> prev then False
     else if compute_entry_hash sha e prev \<noteq> pe_entry_hash e then False
     else links_intact sha (pe_entry_hash e) es)"

definition is_seal :: "audit_entry \<Rightarrow> bool" where
  "is_seal e \<longleftrightarrow> pe_action e = CHAIN_SEALED_ACTION"

text \<open>The entries before the first seal, and the rest: \<open>entries[:seal]\<close>, \<open>entries[seal:]\<close>.\<close>

definition chain_is_intact :: "(string \<Rightarrow> string) \<Rightarrow> audit_entry list \<Rightarrow> bool" where
  "chain_is_intact sha entries =
    (let legacy = takeWhile (\<lambda>e. \<not> is_seal e) entries;
         sealed = dropWhile (\<lambda>e. \<not> is_seal e) entries
     in case sealed of
          [] \<Rightarrow> links_intact sha GENESIS entries
        | s # _ \<Rightarrow>
            if pe_resource_id s \<noteq> Some LEGACY_INTACT then False
            else if list_ex (\<lambda>e. compute_entry_hash sha e (pe_previous_hash e) \<noteq> pe_entry_hash e) legacy
            then False
            else links_intact sha (legacy_digest sha legacy) sealed)"

definition in_chain :: "uuid option \<Rightarrow> audit_log \<Rightarrow> bool" where
  "in_chain company r \<longleftrightarrow> al_company_id r = company \<and> al_sequence_number r \<noteq> None"

definition row_seq :: "audit_log \<Rightarrow> int" where
  "row_seq r = col_int (al_sequence_number r)"

definition chain_rows :: "uuid option \<Rightarrow> audit_log list \<Rightarrow> audit_log list" where
  "chain_rows company t = sort_key row_seq (filter (in_chain company) t)"

definition chain_entries :: "uuid option \<Rightarrow> audit_log list \<Rightarrow> audit_entry list" where
  "chain_entries company t = map entry_from_row (chain_rows company t)"

text \<open>\<open>ORDER BY sequence_number DESC LIMIT 1\<close>.\<close>

definition chain_tail :: "uuid option \<Rightarrow> audit_log list \<Rightarrow> audit_log option" where
  "chain_tail company t = (case chain_rows company t of [] \<Rightarrow> None | rs \<Rightarrow> Some (last rs))"

text \<open>\<open>GET .../audit-logs/verify\<close>: the verdict and the number of entries walked.\<close>

definition verify_audit_chain ::
  "(string \<Rightarrow> string) \<Rightarrow> uuid option \<Rightarrow> audit_log list \<Rightarrow> bool \<times> nat" where
  "verify_audit_chain sha company t =
    (chain_is_intact sha (chain_entries company t), length (chain_entries company t))"

section \<open>Inserting a row\<close>

text \<open>
  The primary key, and the partial unique index on \<open>(company_id, sequence_number)\<close> with NULLS
  NOT DISTINCT. The append-only trigger refuses every other change but \<open>archived_at\<close>.
\<close>

definition audit_fits :: "audit_log list \<Rightarrow> audit_log \<Rightarrow> bool" where
  "audit_fits t n \<longleftrightarrow> al_id n \<notin> al_id ` set t \<and>
     (al_sequence_number n \<noteq> None \<longrightarrow>
      (al_company_id n, al_sequence_number n) \<notin> (\<lambda>r. (al_company_id r, al_sequence_number r)) ` set t)"

definition insert_audit :: "audit_log list \<Rightarrow> audit_log \<Rightarrow> audit_log list option" where
  "insert_audit t n = (if audit_fits t n then Some (t @ [n]) else None)"

text \<open>A batch insert is one transaction: all rows or none.\<close>

fun insert_audits :: "audit_log list \<Rightarrow> audit_log list \<Rightarrow> audit_log list option" where
  "insert_audits t [] = Some t"
| "insert_audits t (n # ns) =
    (case insert_audit t n of None \<Rightarrow> None | Some t' \<Rightarrow> insert_audits t' ns)"

section \<open>record_audit\<close>

record audit_request =
  aq_company_id :: "uuid option"
  aq_action :: string
  aq_actor_type :: string
  aq_actor_id :: "string option"
  aq_resource_type :: "string option"
  aq_resource_id :: "string option"
  aq_details :: "dict option"
  aq_ip_address :: "string option"

definition audit_entry_row :: "uuid \<Rightarrow> time \<Rightarrow> audit_request \<Rightarrow> audit_log" where
  "audit_entry_row new_id now q =
    \<lparr>al_id = new_id, al_company_id = aq_company_id q, al_actor_type = aq_actor_type q,
     al_actor_id = aq_actor_id q, al_action = aq_action q, al_resource_type = aq_resource_type q,
     al_resource_id = aq_resource_id q, al_details = aq_details q, al_ip_address = aq_ip_address q,
     al_created_at = now, al_sequence_number = None, al_entry_hash = None, al_previous_hash = None,
     al_archived_at = None\<rparr>"

text \<open>\<open>_chain\<close>: stamp the row with the next link after the tail it reads.\<close>

definition chain_stamp :: "(string \<Rightarrow> string) \<Rightarrow> audit_log list \<Rightarrow> audit_log \<Rightarrow> audit_log" where
  "chain_stamp sha t n =
    (let tail = chain_tail (al_company_id n) t;
         prev = (case tail of None \<Rightarrow> Some GENESIS | Some r \<Rightarrow> al_entry_hash r);
         n1 = n\<lparr>al_sequence_number := Some ((case tail of None \<Rightarrow> 0 | Some r \<Rightarrow> row_seq r) + 1),
                al_previous_hash := prev\<rparr>
     in n1\<lparr>al_entry_hash := Some (compute_entry_hash sha (entry_from_row n1) (opt_text prev))\<rparr>)"

definition unstamp :: "audit_log \<Rightarrow> audit_log" where
  "unstamp n = n\<lparr>al_sequence_number := None, al_previous_hash := None, al_entry_hash := None\<rparr>"

text \<open>Rows other writers commit meanwhile; a row the constraints refuse is not stored.\<close>

fun commit_others :: "audit_log list \<Rightarrow> audit_log list \<Rightarrow> audit_log list" where
  "commit_others t [] = t"
| "commit_others t (n # ns) =
    commit_others (case insert_audit t n of None \<Rightarrow> t | Some t' \<Rightarrow> t') ns"

text \<open>
  What one attempt meets: rows committed before the tail is read, rows committed between that
  read and the insert, and whether the statement fails for a reason of its own (a lock timeout).
\<close>

record audit_weather =
  aw_before :: "audit_log list"
  aw_between :: "audit_log list"
  aw_fails :: bool

definition AUDIT_ATTEMPTS :: nat where
  "AUDIT_ATTEMPTS = 5"

fun chain_retry ::
  "(string \<Rightarrow> string) \<Rightarrow> nat \<Rightarrow> (nat \<Rightarrow> audit_weather) \<Rightarrow> audit_log list \<Rightarrow> audit_log \<Rightarrow>
   audit_log list \<times> bool" where
  "chain_retry sha 0 weather t n = (t, False)"
| "chain_retry sha (Suc k) weather t n =
    (let w = weather k;
         t1 = commit_others t (aw_before w);
         m = chain_stamp sha t1 n;
         t2 = commit_others t1 (aw_between w)
     in if aw_fails w then chain_retry sha k weather t2 (unstamp m)
        else case insert_audit t2 m of
               Some t3 \<Rightarrow> (t3, True)
             | None \<Rightarrow> chain_retry sha k weather t2 (unstamp m))"

text \<open>
  \<open>record_audit\<close>: a failed write is logged and swallowed unless the caller asks for an error.
  Both ways of writing (a savepoint of the caller, a session of its own) run the same loop.
\<close>

datatype audit_outcome = AuditDone | AuditFailed

definition record_audit ::
  "(string \<Rightarrow> string) \<Rightarrow> (nat \<Rightarrow> audit_weather) \<Rightarrow> uuid \<Rightarrow> time \<Rightarrow> audit_request \<Rightarrow> bool \<Rightarrow>
   audit_log list \<Rightarrow> audit_log list \<times> audit_outcome" where
  "record_audit sha weather new_id now q raise_on_error t =
    (let (t', ok) = chain_retry sha AUDIT_ATTEMPTS weather t (audit_entry_row new_id now q)
     in (t', if ok then AuditDone else if raise_on_error then AuditFailed else AuditDone))"

section \<open>The buffered logger\<close>

record audit_logger =
  lg_buffer :: "audit_entry list"
  lg_buffer_size :: int
  lg_last_hash :: string
  lg_sequence :: int
  lg_company_id :: "uuid option"

definition new_logger :: "int \<Rightarrow> string option \<Rightarrow> uuid option \<Rightarrow> audit_logger" where
  "new_logger buffer_size last_hash company =
    \<lparr>lg_buffer = [], lg_buffer_size = buffer_size,
     lg_last_hash = (case last_hash of None \<Rightarrow> GENESIS | Some h \<Rightarrow> h), lg_sequence = 0,
     lg_company_id = company\<rparr>"

text \<open>\<open>row.entry_hash or "genesis"\<close>.\<close>

definition hash_or_genesis :: "string option \<Rightarrow> string" where
  "hash_or_genesis h = (if col_text h = [] then GENESIS else col_text h)"

definition resume :: "audit_log list \<Rightarrow> audit_logger \<Rightarrow> audit_logger \<times> int" where
  "resume t l =
    (let l' = (case chain_tail (lg_company_id l) t of
                 None \<Rightarrow> l
               | Some r \<Rightarrow> l\<lparr>lg_sequence := row_seq r, lg_last_hash := hash_or_genesis (al_entry_hash r)\<rparr>)
     in (l', lg_sequence l'))"

datatype audit_error = OtherCompany | FlushRefused | ArchiveRefused

text \<open>
  A flush hands the entries it finds to the database and awaits the commit; when the commit
  returns, the logger's buffer is replaced by an empty one, whatever it holds by then, and its
  length is the answer. The buffer is kept when the batch is refused. \<open>es\<close> are the entries of the
  start, \<open>l\<close> the logger as it is at the end; without anything between the two they agree.
\<close>

definition flush_commit ::
  "audit_log list \<Rightarrow> audit_entry list \<Rightarrow> audit_logger \<Rightarrow> audit_log list \<times> audit_logger \<times> (audit_error + nat)" where
  "flush_commit t es l =
    (case insert_audits t (map entry_to_row es) of
       None \<Rightarrow> (t, l, Inl FlushRefused)
     | Some t' \<Rightarrow> (t', l\<lparr>lg_buffer := []\<rparr>, Inr (length (lg_buffer l))))"

definition flush_buffer ::
  "audit_log list \<Rightarrow> audit_logger \<Rightarrow> audit_log list \<times> audit_logger \<times> (audit_error + nat)" where
  "flush_buffer t l = (if lg_buffer l = [] then (t, l, Inr 0) else flush_commit t (lg_buffer l) l)"

definition logger_entry ::
  "(string \<Rightarrow> string) \<Rightarrow> uuid \<Rightarrow> time \<Rightarrow> audit_request \<Rightarrow> audit_logger \<Rightarrow> audit_entry" where
  "logger_entry sha new_id now q l =
    (let e = \<lparr>pe_id = new_id, pe_actor_type = aq_actor_type q, pe_actor_id = col_text (aq_actor_id q),
              pe_action = aq_action q, pe_resource_type = aq_resource_type q,
              pe_resource_id = aq_resource_id q, pe_details = dict_or_empty (aq_details q),
              pe_company_id = lg_company_id l, pe_timestamp = now, pe_entry_hash = [],
              pe_previous_hash = lg_last_hash l, pe_sequence_number = lg_sequence l + 1,
              pe_archived_at = None\<rparr>
     in e\<lparr>pe_entry_hash := compute_entry_hash sha e (lg_last_hash l)\<rparr>)"

text \<open>\<open>log_entry\<close> up to the flush of a full buffer, which is the first point where it waits.\<close>

definition append_entry ::
  "(string \<Rightarrow> string) \<Rightarrow> uuid \<Rightarrow> time \<Rightarrow> audit_request \<Rightarrow> audit_logger \<Rightarrow>
   audit_logger \<times> (audit_error + audit_entry)" where
  "append_entry sha new_id now q l =
    (if aq_company_id q \<noteq> None \<and> aq_company_id q \<noteq> lg_company_id l then (l, Inl OtherCompany)
     else let e = logger_entry sha new_id now q l
          in (l\<lparr>lg_sequence := lg_sequence l + 1, lg_last_hash := pe_entry_hash e,
                lg_buffer := lg_buffer l @ [e]\<rparr>, Inr e))"

definition buffer_full :: "audit_logger \<Rightarrow> bool" where
  "buffer_full l \<longleftrightarrow> lg_buffer_size l \<le> int (length (lg_buffer l))"

definition log_entry ::
  "(string \<Rightarrow> string) \<Rightarrow> uuid \<Rightarrow> time \<Rightarrow> audit_request \<Rightarrow> audit_log list \<Rightarrow> audit_logger \<Rightarrow>
   audit_log list \<times> audit_logger \<times> (audit_error + audit_entry)" where
  "log_entry sha new_id now q t l =
    (case append_entry sha new_id now q l of
       (l1, Inl err) \<Rightarrow> (t, l1, Inl err)
     | (l1, Inr e) \<Rightarrow>
         if buffer_full l1
         then let (t', l2, res) = flush_buffer t l1
              in (t', l2, case res of Inl err \<Rightarrow> Inl err | Inr _ \<Rightarrow> Inr e)
         else (t, l1, Inr e))"

definition verify_chain_integrity :: "(string \<Rightarrow> string) \<Rightarrow> audit_log list \<Rightarrow> audit_logger \<Rightarrow> bool" where
  "verify_chain_integrity sha t l =
    chain_is_intact sha (chain_entries (lg_company_id l) t @ lg_buffer l)"

section \<open>Queries and exports\<close>

definition fetch_all :: "audit_log list \<Rightarrow> audit_logger \<Rightarrow> audit_entry list" where
  "fetch_all t l =
    map entry_from_row (sort_key row_seq (sort_key al_created_at t)) @ lg_buffer l"

text \<open>Newest first; \<open>NULL\<close> sequence numbers are ordered as 0 here.\<close>

definition query_by_actor ::
  "string \<Rightarrow> string option \<Rightarrow> nat \<Rightarrow> audit_log list \<Rightarrow> audit_logger \<Rightarrow> audit_entry list" where
  "query_by_actor actor actor_type limit t l =
    (let typed = (\<lambda>s. col_text actor_type = [] \<or> Some s = actor_type);
         stored = map entry_from_row (take limit (rev (sort_key row_seq
           (filter (\<lambda>r. al_actor_id r = Some actor \<and> typed (al_actor_type r)) t))));
         step = (\<lambda>e res. if limit \<le> length res then res
                         else if pe_actor_id e \<noteq> actor then res
                         else if \<not> typed (pe_actor_type e) then res
                         else e # res)
     in take limit (fold step (rev (lg_buffer l)) stored))"

definition query_by_time_range ::
  "time \<Rightarrow> time \<Rightarrow> uuid option \<Rightarrow> nat \<Rightarrow> audit_log list \<Rightarrow> audit_logger \<Rightarrow> audit_entry list" where
  "query_by_time_range start stop company limit t l =
    take (max 1 limit) (filter (\<lambda>e. start \<le> pe_timestamp e \<and> pe_timestamp e \<le> stop \<and>
      (company = None \<or> pe_company_id e = company)) (fetch_all t l))"

definition newline :: string where
  "newline = [char_of (10 :: nat)]"

definition csv_header :: string where
  "csv_header = ''id,actor_type,actor_id,action,resource_type,resource_id,timestamp,'' @
     ''sequence_number,entry_hash''"

definition csv_line :: "audit_entry \<Rightarrow> string" where
  "csv_line e = uuid_text (pe_id e) @ '','' @ pe_actor_type e @ '','' @ pe_actor_id e @ '','' @
     pe_action e @ '','' @ col_text (pe_resource_type e) @ '','' @ col_text (pe_resource_id e) @ '','' @
     isoformat (pe_timestamp e) @ '','' @ show_int (pe_sequence_number e) @ '','' @ pe_entry_hash e"

fun joined_lines :: "string list \<Rightarrow> string" where
  "joined_lines [] = []"
| "joined_lines [s] = s"
| "joined_lines (s # ss) = s @ newline @ joined_lines ss"

definition export_csv :: "audit_entry list option \<Rightarrow> audit_log list \<Rightarrow> audit_logger \<Rightarrow> string" where
  "export_csv es t l =
    joined_lines (csv_header # map csv_line (case es of None \<Rightarrow> fetch_all t l | Some es \<Rightarrow> es))"

text \<open>The records handed to \<open>json.dumps\<close>.\<close>

definition export_record :: "audit_entry \<Rightarrow> json" where
  "export_record e = JDict
    [(''id'', JId (pe_id e)), (''actor_type'', JStr (pe_actor_type e)),
     (''actor_id'', JStr (pe_actor_id e)), (''action'', JStr (pe_action e)),
     (''resource_type'', opt_json JStr (pe_resource_type e)),
     (''resource_id'', opt_json JStr (pe_resource_id e)), (''details'', JDict (pe_details e)),
     (''company_id'', opt_json JId (pe_company_id e)),
     (''timestamp'', JStr (isoformat (pe_timestamp e))), (''entry_hash'', JStr (pe_entry_hash e)),
     (''previous_hash'', JStr (pe_previous_hash e)),
     (''sequence_number'', JInt (pe_sequence_number e))]"

section \<open>Retention\<close>

record retention_policy =
  rp_max_age_days :: int
  rp_archive_enabled :: bool
  rp_company_id :: "uuid option"

type_synonym retention_policies = "uuid option \<rightharpoonup> retention_policy"

definition set_retention_policy ::
  "int \<Rightarrow> bool \<Rightarrow> uuid option \<Rightarrow> retention_policies \<Rightarrow> retention_policies" where
  "set_retention_policy days enabled company ps =
    ps(company \<mapsto> \<lparr>rp_max_age_days = days, rp_archive_enabled = enabled, rp_company_id = company\<rparr>)"

definition policy_for :: "retention_policies \<Rightarrow> uuid option \<Rightarrow> retention_policy option" where
  "policy_for ps company = (case ps company of Some p \<Rightarrow> Some p | None \<Rightarrow> ps None)"

definition past_retention :: "retention_policies \<Rightarrow> time \<Rightarrow> audit_log \<Rightarrow> bool" where
  "past_retention ps now r \<longleftrightarrow> al_archived_at r = None \<and>
     (case policy_for ps (al_company_id r) of
        None \<Rightarrow> False
      | Some p \<Rightarrow> rp_archive_enabled p \<and>
          seconds (rp_max_age_days p * 86400) < now - al_created_at r)"

definition archive_mark :: "time \<Rightarrow> audit_log \<Rightarrow> audit_log" where
  "archive_mark now r = r\<lparr>al_archived_at := Some now\<rparr>"

text \<open>
  The archive table has the columns of the log; a copy is the row with its archival time. The
  source rows are only marked. The pass is one transaction: when the archive already holds the
  id of a selected row (another pass came first), nothing is written.
\<close>

definition enforce_retention ::
  "retention_policies \<Rightarrow> time \<Rightarrow> audit_log list \<Rightarrow> audit_log list \<Rightarrow>
   audit_log list \<times> audit_log list \<times> (audit_error + nat)" where
  "enforce_retention ps now t archive =
    (let due = filter (past_retention ps now) t
     in if list_ex (\<lambda>r. al_id r \<in> al_id ` set archive) due then (t, archive, Inl ArchiveRefused)
        else (update_where (past_retention ps now) (archive_mark now) t,
              archive @ map (archive_mark now) due,
              Inr (matching (past_retention ps now) t)))"

definition get_archived_entries :: "audit_log list \<Rightarrow> audit_entry list" where
  "get_archived_entries archive = map entry_from_row (sort_key row_seq archive)"

definition active_entries :: "audit_log list \<Rightarrow> nat" where
  "active_entries t = length (filter (\<lambda>r. al_archived_at r = None) t)"

end
