(* ===== verification/Audit_System.thy ===== *)
theory Audit_System
  imports Audit_Chain
begin

text \<open>
  The writers of the audit log as a step relation. A writer of \<open>record_audit\<close> reads the tail and
  inserts later, so any number of stamped rows may wait while others commit; buffered loggers
  are opened on the current tail and add entries; a flush reads the buffer in one step and
  commits and empties it in a later one, with anything in between, other flushes of the same
  logger included, but no entry added to that logger; retention marks rows. The invariant: every
  chain verifies, and every waiting link either follows the current tail or its place is already
  taken. An entry added to a logger whose flush awaits the commit is lost, and breaks the chain:
  the last section.
\<close>

section \<open>The step relation\<close>

record audit_world =
  ad_table :: "audit_log list"
  ad_pending :: "audit_log list"
  ad_loggers :: "nat \<rightharpoonup> audit_logger"
  ad_flushing :: "(nat \<times> audit_entry list) list"
  ad_archive :: "audit_log list"

inductive audit_step :: "(string \<Rightarrow> string) \<Rightarrow> audit_world \<Rightarrow> audit_world \<Rightarrow> bool" for sha where
  Read_tail: "aq_action q \<noteq> CHAIN_SEALED_ACTION \<Longrightarrow>
    audit_step sha w
      (w\<lparr>ad_pending := chain_stamp sha (ad_table w) (audit_entry_row i now q) # ad_pending w\<rparr>)"
| Insert_row: "n \<in> set (ad_pending w) \<Longrightarrow> insert_audit (ad_table w) n = Some t' \<Longrightarrow>
    audit_step sha w (w\<lparr>ad_table := t'\<rparr>)"
| Open_logger: "resume (ad_table w) (new_logger bsize None c) = (l, s) \<Longrightarrow>
    k \<notin> fst ` set (ad_flushing w) \<Longrightarrow>
    audit_step sha w (w\<lparr>ad_loggers := (ad_loggers w)(k \<mapsto> l)\<rparr>)"
| Append_entry: "aq_action q \<noteq> CHAIN_SEALED_ACTION \<Longrightarrow> ad_loggers w k = Some l \<Longrightarrow>
    k \<notin> fst ` set (ad_flushing w) \<Longrightarrow> append_entry sha i now q l = (l', res) \<Longrightarrow>
    audit_step sha w (w\<lparr>ad_loggers := (ad_loggers w)(k \<mapsto> l')\<rparr>)"
| Flush_begin: "ad_loggers w k = Some l \<Longrightarrow> lg_buffer l \<noteq> [] \<Longrightarrow>
    audit_step sha w (w\<lparr>ad_flushing := (k, lg_buffer l) # ad_flushing w\<rparr>)"
| Flush_end: "(k, es) \<in> set (ad_flushing w) \<Longrightarrow> ad_loggers w k = Some l \<Longrightarrow>
    flush_commit (ad_table w) es l = (t', l', res') \<Longrightarrow>
    audit_step sha w (w\<lparr>ad_table := t', ad_loggers := (ad_loggers w)(k \<mapsto> l'),
      ad_flushing := remove1 (k, es) (ad_flushing w)\<rparr>)"
| Flush_fails: "audit_step sha w (w\<lparr>ad_flushing := remove1 f (ad_flushing w)\<rparr>)"
| Retain: "enforce_retention ps now (ad_table w) (ad_archive w) = (t', a', res) \<Longrightarrow>
    audit_step sha w (w\<lparr>ad_table := t', ad_archive := a'\<rparr>)"

definition audit_start :: "(string \<Rightarrow> string) \<Rightarrow> audit_world \<Rightarrow> bool" where
  "audit_start sha w \<longleftrightarrow> ad_pending w = [] \<and> ad_loggers w = Map.empty \<and> ad_flushing w = [] \<and>
     (\<forall>c. chain_is_intact sha (chain_entries c (ad_table w)))"

text \<open>A SHA-256 digest is printed as 64 hexadecimal digits.\<close>

definition digest_ok :: "(string \<Rightarrow> string) \<Rightarrow> bool" where
  "digest_ok sha \<longleftrightarrow> (\<forall>x. length (sha x) = 64 \<and> list_all is_hex (sha x))"

section \<open>Chains that grow at the end\<close>

lemma entry_from_row_links [simp]:
  "pe_previous_hash (entry_from_row n) = col_text (al_previous_hash n)"
  "pe_entry_hash (entry_from_row n) = col_text (al_entry_hash n)"
  "pe_action (entry_from_row n) = al_action n"
  by (simp_all add: entry_from_row_def)

lemma col_text_Some [simp]: "col_text (Some s) = s"
  by (simp add: col_text_def)

lemma sort_key_snoc:
  "(\<And>x. x \<in> set xs \<Longrightarrow> f x \<le> f n) \<Longrightarrow> sort_key f (xs @ [n]) = sort_key f xs @ [n]"
  for f :: "'a \<Rightarrow> 'b :: linorder"
proof (induction xs)
  case Nil
  show ?case by simp
next
  case (Cons y ys)
  have "insort_key f y (zs @ [n]) = insort_key f y zs @ [n]" for zs
    using Cons.prems [of y] by (induction zs) auto
  with Cons show ?case by simp
qed

definition last_hash :: "string \<Rightarrow> audit_entry list \<Rightarrow> string" where
  "last_hash prev es = (if es = [] then prev else pe_entry_hash (last es))"

lemma last_hash_simps [simp]:
  "last_hash p [] = p" "last_hash p (es @ [e]) = pe_entry_hash e"
  "last_hash p (e # es) = last_hash (pe_entry_hash e) es"
  by (simp_all add: last_hash_def)

lemma links_append:
  "links_intact sha p (es @ fs) \<longleftrightarrow> links_intact sha p es \<and> links_intact sha (last_hash p es) fs"
  by (induction es arbitrary: p) auto

definition chain_links :: "(string \<Rightarrow> string) \<Rightarrow> string \<Rightarrow> audit_entry \<Rightarrow> bool" where
  "chain_links sha prev e \<longleftrightarrow> pe_previous_hash e = prev \<and>
     compute_entry_hash sha e prev = pe_entry_hash e"

lemma links_single [simp]: "links_intact sha p [e] \<longleftrightarrow> chain_links sha p e"
  by (simp add: chain_links_def)

lemma intact_snoc:
  assumes "chain_is_intact sha es" and "\<not> is_seal e" and "chain_links sha (last_hash GENESIS es) e"
  shows "chain_is_intact sha (es @ [e])"
proof (cases "dropWhile (\<lambda>e. \<not> is_seal e) es")
  case Nil
  then have un: "\<forall>x \<in> set es. \<not> is_seal x" by (simp add: dropWhile_eq_Nil_conv)
  then have "dropWhile (\<lambda>e. \<not> is_seal e) (es @ [e]) = []"
    using assms(2) by (auto simp: dropWhile_eq_Nil_conv)
  with assms Nil show ?thesis by (simp add: chain_is_intact_def links_append chain_links_def)
next
  case (Cons s r)
  then have seal: "\<exists>x \<in> set es. is_seal x"
    by (metis dropWhile_eq_Nil_conv list.distinct(1))
  then have dw: "dropWhile (\<lambda>e. \<not> is_seal e) (es @ [e]) = s # r @ [e]"
    using Cons by (auto simp: dropWhile_append)
  have tw: "takeWhile (\<lambda>e. \<not> is_seal e) (es @ [e]) = takeWhile (\<lambda>e. \<not> is_seal e) es"
    using seal by (auto simp: takeWhile_append)
  obtain u where "es = u @ s # r"
    using Cons takeWhile_dropWhile_id [of "\<lambda>e. \<not> is_seal e" es] by metis
  then have "last_hash p (s # r) = last_hash GENESIS es" for p
    by (auto simp: last_hash_def simp del: last_hash_simps)
  then have "links_intact sha p (s # r @ [e])" if "links_intact sha p (s # r)" for p
    using that assms(3) links_append [of sha p "s # r" "[e]"]
    by (simp del: links_intact.simps last_hash_simps)
  with assms(1) Cons show ?thesis
    by (simp add: chain_is_intact_def Let_def tw dw del: links_intact.simps split: if_splits)
qed

lemma links_hashes: "links_intact sha p es \<Longrightarrow> e \<in> set es \<Longrightarrow> chain_links sha (pe_previous_hash e) e"
  by (induction es arbitrary: p) (auto simp: chain_links_def split: if_splits)

lemma intact_hashes:
  assumes "chain_is_intact sha es" and "e \<in> set es"
  shows "chain_links sha (pe_previous_hash e) e"
proof (cases "dropWhile (\<lambda>e. \<not> is_seal e) es")
  case Nil
  with assms show ?thesis by (auto simp: chain_is_intact_def dest: links_hashes)
next
  case (Cons s r)
  have "e \<in> set (takeWhile (\<lambda>e. \<not> is_seal e) es) \<or> e \<in> set (s # r)"
    using assms(2) Cons by (metis Un_iff set_append takeWhile_dropWhile_id)
  with assms(1) Cons show ?thesis
    by (auto simp: chain_is_intact_def chain_links_def Let_def list_ex_iff simp del: links_intact.simps
        dest: links_hashes split: if_splits)
qed

lemma intact_hash_length:
  "digest_ok sha \<Longrightarrow> chain_is_intact sha es \<Longrightarrow> e \<in> set es \<Longrightarrow> length (pe_entry_hash e) = 64"
  by (drule (1) intact_hashes) (metis chain_links_def compute_entry_hash_def digest_ok_def)

section \<open>The tail, and what follows it\<close>

definition tail_point :: "uuid option \<Rightarrow> audit_log list \<Rightarrow> int \<times> string" where
  "tail_point c t = (case chain_tail c t of
     None \<Rightarrow> (0, GENESIS) | Some r \<Rightarrow> (row_seq r, col_text (al_entry_hash r)))"

definition place_taken :: "uuid option \<Rightarrow> int \<Rightarrow> audit_log list \<Rightarrow> bool" where
  "place_taken c s t \<longleftrightarrow> (\<exists>r \<in> set t. al_company_id r = c \<and> al_sequence_number r = Some s)"

definition follows :: "audit_log list \<Rightarrow> uuid option \<Rightarrow> int \<times> string \<Rightarrow> bool" where
  "follows t c p \<longleftrightarrow> place_taken c (fst p + 1) t \<or> tail_point c t = p"

definition link_row :: "(string \<Rightarrow> string) \<Rightarrow> uuid option \<Rightarrow> int \<times> string \<Rightarrow> audit_log \<Rightarrow> bool" where
  "link_row sha c p n \<longleftrightarrow> al_company_id n = c \<and> al_sequence_number n = Some (fst p + 1) \<and>
     al_previous_hash n = Some (snd p) \<and>
     al_entry_hash n = Some (compute_entry_hash sha (entry_from_row n) (snd p)) \<and>
     al_action n \<noteq> CHAIN_SEALED_ACTION"

lemma set_chain_rows: "set (chain_rows c t) = {r \<in> set t. in_chain c r}"
  by (auto simp: chain_rows_def)

lemma sorted_chain_rows: "sorted (map row_seq (chain_rows c t))"
  by (simp add: chain_rows_def)

lemma tail_is_last:
  "chain_tail c t = (if chain_rows c t = [] then None else Some (last (chain_rows c t)))"
  by (simp add: chain_tail_def split: list.splits)

lemma below_tail:
  assumes "r \<in> set (chain_rows c t)"
  shows "row_seq r \<le> fst (tail_point c t)"
proof -
  obtain i where "i < length (chain_rows c t)" "r = chain_rows c t ! i"
    using assms by (auto simp: in_set_conv_nth)
  then show ?thesis
    using sorted_nth_mono [OF sorted_chain_rows [of c t], of i "length (chain_rows c t) - 1"]
    by (auto simp: tail_point_def tail_is_last last_conv_nth)
qed

lemma tail_hash:
  "snd (tail_point c t) = last_hash GENESIS (chain_entries c t)"
  by (simp add: tail_point_def tail_is_last last_hash_def chain_entries_def last_map)

lemma chain_rows_snoc:
  assumes "al_company_id n = c" and "al_sequence_number n = Some (fst (tail_point c t) + 1)"
  shows "chain_rows c (t @ [n]) = chain_rows c t @ [n]"
proof -
  have "row_seq r \<le> row_seq n" if "r \<in> set (filter (in_chain c) t)" for r
    using below_tail [of r c t] that assms(2) by (auto simp: set_chain_rows row_seq_def col_int_def)
  then have "sort_key row_seq (filter (in_chain c) t @ [n]) = chain_rows c t @ [n]"
    unfolding chain_rows_def by (rule sort_key_snoc)
  with assms show ?thesis by (simp add: chain_rows_def in_chain_def)
qed

lemma chain_rows_other: "al_company_id n \<noteq> c \<Longrightarrow> chain_rows c (t @ [n]) = chain_rows c t"
  by (simp add: chain_rows_def in_chain_def)

lemma tail_point_other: "al_company_id n \<noteq> c \<Longrightarrow> tail_point c (t @ [n]) = tail_point c t"
  by (simp add: tail_point_def tail_is_last chain_rows_other)

lemma fits_not_taken:
  "audit_fits t n \<Longrightarrow> al_sequence_number n = Some s \<Longrightarrow> \<not> place_taken (al_company_id n) s t"
  by (auto simp: audit_fits_def place_taken_def image_iff)

definition all_intact :: "(string \<Rightarrow> string) \<Rightarrow> audit_log list \<Rightarrow> bool" where
  "all_intact sha t \<longleftrightarrow> (\<forall>c. chain_is_intact sha (chain_entries c t))"

text \<open>A link that still fits follows the tail, so its insertion extends the chain.\<close>

lemma insert_link:
  assumes inv: "all_intact sha t" and f: "follows t c p" and n: "link_row sha c p n"
    and ins: "insert_audit t n = Some t'"
  shows "all_intact sha t'" and "tail_point c t' = (fst p + 1, col_text (al_entry_hash n))"
    and "follows t c' q \<Longrightarrow> follows t' c' q"
proof -
  have t': "t' = t @ [n]" and fits: "audit_fits t n"
    using ins by (auto simp: insert_audit_def split: if_splits)
  from fits n have "\<not> place_taken c (fst p + 1) t"
    by (auto simp: link_row_def dest: fits_not_taken)
  with f have tp: "tail_point c t = p" by (simp add: follows_def)
  with n have rows: "chain_rows c t' = chain_rows c t @ [n]"
    by (simp add: t' chain_rows_snoc link_row_def)
  then show tail: "tail_point c t' = (fst p + 1, col_text (al_entry_hash n))"
    using n by (simp add: tail_point_def tail_is_last link_row_def row_seq_def col_int_def)
  have "chain_links sha (last_hash GENESIS (chain_entries c t)) (entry_from_row n)"
    using n tp tail_hash [of c t]
    by (simp add: link_row_def chain_links_def)
  moreover have "\<not> is_seal (entry_from_row n)"
    using n by (simp add: link_row_def is_seal_def)
  ultimately have "chain_is_intact sha (chain_entries c t')"
    using inv by (simp add: chain_entries_def rows all_intact_def intact_snoc)
  then have "chain_is_intact sha (chain_entries d t')" for d
    using inv n by (cases "d = c")
      (simp_all add: t' chain_entries_def chain_rows_other link_row_def all_intact_def)
  then show "all_intact sha t'" by (simp add: all_intact_def)
  show "follows t' c' q" if q: "follows t c' q"
  proof (cases "place_taken c' (fst q + 1) t")
    case True
    then show ?thesis by (auto simp: follows_def place_taken_def t')
  next
    case False
    with q have "tail_point c' t = q" by (simp add: follows_def)
    with n tp show ?thesis
      by (cases "c' = c") (auto simp: follows_def place_taken_def t' link_row_def tail_point_other)
  qed
qed

section \<open>Waiting rows and buffers\<close>

fun buffer_linked ::
  "(string \<Rightarrow> string) \<Rightarrow> uuid option \<Rightarrow> int \<times> string \<Rightarrow> audit_entry list \<Rightarrow> int \<times> string \<Rightarrow> bool" where
  "buffer_linked sha c p [] q \<longleftrightarrow> p = q"
| "buffer_linked sha c p (e # es) q \<longleftrightarrow>
    link_row sha c p (entry_to_row e) \<and> buffer_linked sha c (fst p + 1, pe_entry_hash e) es q"

definition logger_ok :: "(string \<Rightarrow> string) \<Rightarrow> audit_log list \<Rightarrow> audit_logger \<Rightarrow> bool" where
  "logger_ok sha t l \<longleftrightarrow> (\<exists>p. follows t (lg_company_id l) p \<and>
     buffer_linked sha (lg_company_id l) p (lg_buffer l) (lg_sequence l, lg_last_hash l))"

text \<open>
  The entries a flush waits with are the logger's buffer, or the place of the first one is taken,
  because another flush of the same entries came first.
\<close>

definition flight_ok :: "audit_log list \<Rightarrow> audit_logger \<Rightarrow> audit_entry list \<Rightarrow> bool" where
  "flight_ok t l es \<longleftrightarrow> es \<noteq> [] \<and>
     (es = lg_buffer l \<or> place_taken (pe_company_id (hd es)) (pe_sequence_number (hd es)) t)"

definition ad_inv :: "(string \<Rightarrow> string) \<Rightarrow> audit_world \<Rightarrow> bool" where
  "ad_inv sha w \<longleftrightarrow> all_intact sha (ad_table w) \<and>
     (\<forall>n \<in> set (ad_pending w). \<exists>p. follows (ad_table w) (al_company_id n) p \<and>
        link_row sha (al_company_id n) p n) \<and>
     (\<forall>k l. ad_loggers w k = Some l \<longrightarrow> logger_ok sha (ad_table w) l \<and>
        (\<forall>es. (k, es) \<in> set (ad_flushing w) \<longrightarrow> flight_ok (ad_table w) l es))"

text \<open>
  \<open>table_grew\<close>: the chains still verify, whatever followed a tail still does and every place that
  was taken still is.
\<close>

definition table_grew :: "(string \<Rightarrow> string) \<Rightarrow> audit_log list \<Rightarrow> audit_log list \<Rightarrow> bool" where
  "table_grew sha t t' \<longleftrightarrow> (all_intact sha t \<longrightarrow> all_intact sha t') \<and>
     (\<forall>c q. follows t c q \<longrightarrow> follows t' c q) \<and> (\<forall>c s. place_taken c s t \<longrightarrow> place_taken c s t')"

lemma table_grew_refl [simp]: "table_grew sha t t"
  by (simp add: table_grew_def)

lemma table_grew_trans: "table_grew sha t u \<Longrightarrow> table_grew sha u v \<Longrightarrow> table_grew sha t v"
  by (auto simp: table_grew_def)

lemma logger_ok_grew: "logger_ok sha t l \<Longrightarrow> table_grew sha t t' \<Longrightarrow> logger_ok sha t' l"
  unfolding logger_ok_def table_grew_def by blast

lemma flight_ok_grew: "flight_ok t l es \<Longrightarrow> table_grew sha t t' \<Longrightarrow> flight_ok t' l es"
  unfolding flight_ok_def table_grew_def by blast

lemma ad_invD:
  assumes "ad_inv sha w"
  shows "all_intact sha (ad_table w)"
    and "n \<in> set (ad_pending w) \<Longrightarrow> \<exists>p. follows (ad_table w) (al_company_id n) p \<and>
      link_row sha (al_company_id n) p n"
    and "ad_loggers w k = Some l \<Longrightarrow> logger_ok sha (ad_table w) l"
    and "(k, es) \<in> set (ad_flushing w) \<Longrightarrow> ad_loggers w k = Some l \<Longrightarrow> flight_ok (ad_table w) l es"
  using assms unfolding ad_inv_def by blast+

lemma ad_inv_grew:
  assumes "ad_inv sha w" and g: "table_grew sha (ad_table w) t'"
  shows "ad_inv sha (w\<lparr>ad_table := t'\<rparr>)"
proof -
  have "all_intact sha t'" and "\<And>c q. follows (ad_table w) c q \<Longrightarrow> follows t' c q"
    using g ad_invD(1) [OF assms(1)] unfolding table_grew_def by blast+
  moreover have "\<And>k l. ad_loggers w k = Some l \<Longrightarrow> logger_ok sha t' l"
    using logger_ok_grew [OF _ g] ad_invD(3) [OF assms(1)] by blast
  moreover have "\<And>k l es. ad_loggers w k = Some l \<Longrightarrow> (k, es) \<in> set (ad_flushing w) \<Longrightarrow> flight_ok t' l es"
    using flight_ok_grew [OF _ g] ad_invD(4) [OF assms(1)] by blast
  ultimately show ?thesis using ad_invD(2) [OF assms(1)] by (fastforce simp: ad_inv_def)
qed

lemma ad_inv_logger:
  assumes "ad_inv sha w" and "logger_ok sha (ad_table w) l"
    and "\<And>es. (k, es) \<in> set (ad_flushing w) \<Longrightarrow> flight_ok (ad_table w) l es"
  shows "ad_inv sha (w\<lparr>ad_loggers := (ad_loggers w)(k \<mapsto> l)\<rparr>)"
  using assms(2,3) ad_invD [OF assms(1)] unfolding ad_inv_def by simp

lemma ad_inv_fewer:
  "ad_inv sha w \<Longrightarrow> set fs \<subseteq> set (ad_flushing w) \<Longrightarrow> ad_inv sha (w\<lparr>ad_flushing := fs\<rparr>)"
  unfolding ad_inv_def by simp blast

lemma buffer_snoc:
  "buffer_linked sha c p es q \<Longrightarrow> link_row sha c q (entry_to_row e) \<Longrightarrow>
   buffer_linked sha c p (es @ [e]) (fst q + 1, pe_entry_hash e)"
  by (induction es arbitrary: p) auto

lemma batch_grew:
  assumes "all_intact sha t" and "follows t c p" and "buffer_linked sha c p es q" and "es \<noteq> []"
    and "insert_audits t (map entry_to_row es) = Some t'"
  shows "table_grew sha t t' \<and> tail_point c t' = q \<and> all_intact sha t'"
  using assms
proof (induction es arbitrary: t p)
  case Nil
  then show ?case by simp
next
  case (Cons e es)
  then obtain u where u: "insert_audit t (entry_to_row e) = Some u"
    and rest: "insert_audits u (map entry_to_row es) = Some t'"
    by (auto split: option.splits)
  have n: "link_row sha c p (entry_to_row e)" using Cons.prems by simp
  note ins = insert_link [OF Cons.prems(1,2) n u]
  have hash: "col_text (al_entry_hash (entry_to_row e)) = pe_entry_hash e"
    by (simp add: entry_to_row_def)
  have "u = t @ [entry_to_row e]" using u by (simp add: insert_audit_def split: if_splits)
  then have grew: "table_grew sha t u" using ins(1,3) by (auto simp: table_grew_def place_taken_def)
  show ?case
  proof (cases "es = []")
    case True
    with Cons.prems rest ins hash grew show ?thesis by simp
  next
    case False
    have "follows u c (fst p + 1, pe_entry_hash e)" using ins(2) hash by (simp add: follows_def)
    from Cons.IH [OF ins(1) this _ False rest] Cons.prems(3) grew show ?thesis
      by (auto intro: table_grew_trans)
  qed
qed

lemma entry_to_row_place [simp]:
  "al_company_id (entry_to_row e) = pe_company_id e"
  "al_sequence_number (entry_to_row e) = Some (pe_sequence_number e)"
  by (simp_all add: entry_to_row_def)

lemma batch_rows: "insert_audits t ns = Some t' \<Longrightarrow> t' = t @ ns"
proof (induction ns arbitrary: t)
  case (Cons n ns)
  then have "insert_audits (t @ [n]) ns = Some t'" by (auto simp: insert_audit_def split: if_splits)
  from Cons.IH [OF this] show ?case by simp
qed simp

text \<open>A batch whose first place is taken is refused.\<close>

lemma batch_free:
  assumes "insert_audits t (map entry_to_row es) = Some t'" and "es \<noteq> []"
  shows "\<not> place_taken (pe_company_id (hd es)) (pe_sequence_number (hd es)) t"
    and "place_taken (pe_company_id (hd es)) (pe_sequence_number (hd es)) t'"
proof -
  obtain e es' where es: "es = e # es'" using assms(2) by (cases es) auto
  with assms(1) have "audit_fits t (entry_to_row e)" by (auto simp: insert_audit_def split: if_splits)
  from fits_not_taken [OF this] es
  show "\<not> place_taken (pe_company_id (hd es)) (pe_sequence_number (hd es)) t" by simp
  show "place_taken (pe_company_id (hd es)) (pe_sequence_number (hd es)) t'"
    using batch_rows [OF assms(1)] es by (auto simp: place_taken_def intro!: bexI [of _ "entry_to_row e"])
qed

lemma flush_commit_ok:
  assumes f: "flush_commit t es l = (t', l', res)" and inv: "all_intact sha t" and ok: "logger_ok sha t l"
    and fl: "flight_ok t l es"
  shows "table_grew sha t t'" and "logger_ok sha t' l'" and "flight_ok t l fs \<Longrightarrow> flight_ok t' l' fs"
proof -
  have "table_grew sha t t' \<and> logger_ok sha t' l' \<and> (flight_ok t l fs \<longrightarrow> flight_ok t' l' fs)"
  proof (cases "insert_audits t (map entry_to_row es)")
    case None
    with f ok show ?thesis by (simp add: flush_commit_def)
  next
    case (Some u)
    with f have u: "t' = u" and l': "l' = l\<lparr>lg_buffer := []\<rparr>" by (simp_all add: flush_commit_def)
    have ne: "es \<noteq> []" using fl by (simp add: flight_ok_def)
    note free = batch_free [OF Some ne]
    with fl have es: "es = lg_buffer l" by (simp add: flight_ok_def)
    obtain p where p: "follows t (lg_company_id l) p"
      and b: "buffer_linked sha (lg_company_id l) p (lg_buffer l) (lg_sequence l, lg_last_hash l)"
      using ok by (auto simp: logger_ok_def)
    from batch_grew [OF inv p b] ne es Some
    have g: "table_grew sha t u" "tail_point (lg_company_id l) u = (lg_sequence l, lg_last_hash l)" by simp_all
    then have "flight_ok t l fs \<longrightarrow> flight_ok u l' fs"
      using free(2) es by (auto simp: flight_ok_def table_grew_def)
    with g show ?thesis by (auto simp: u logger_ok_def l' follows_def)
  qed
  then show "table_grew sha t t'" and "logger_ok sha t' l'" and "flight_ok t l fs \<Longrightarrow> flight_ok t' l' fs" by auto
qed

lemma stamped_links:
  assumes inv: "all_intact sha t" and d: "digest_ok sha" and a: "al_action n \<noteq> CHAIN_SEALED_ACTION"
  shows "link_row sha (al_company_id n) (tail_point (al_company_id n) t) (chain_stamp sha t n)"
proof (cases "chain_tail (al_company_id n) t")
  case None
  with a show ?thesis
    by (simp add: chain_stamp_def link_row_def tail_point_def Let_def opt_text_def
        compute_entry_hash_def hash_input_def entry_from_row_def)
next
  case (Some r)
  then have "r \<in> set (chain_rows (al_company_id n) t)"
    by (auto simp: tail_is_last split: if_splits)
  then have "entry_from_row r \<in> set (chain_entries (al_company_id n) t)"
    by (simp add: chain_entries_def)
  then have "length (col_text (al_entry_hash r)) = 64"
    using intact_hash_length [OF d] inv by (fastforce simp: all_intact_def)
  then obtain h where h: "al_entry_hash r = Some h" by (cases "al_entry_hash r") (auto simp: col_text_def)
  with a Some show ?thesis
    by (simp add: chain_stamp_def link_row_def tail_point_def Let_def opt_text_def
        compute_entry_hash_def hash_input_def entry_from_row_def)
qed

lemma stamped_company [simp]: "al_company_id (chain_stamp sha t n) = al_company_id n"
  by (simp add: chain_stamp_def Let_def)

lemma resumed_ok:
  assumes inv: "all_intact sha t" and d: "digest_ok sha"
    and r: "resume t (new_logger bsize None c) = (l, s)"
  shows "logger_ok sha t l"
proof -
  have "\<forall>r. chain_tail c t = Some r \<longrightarrow> hash_or_genesis (al_entry_hash r) = col_text (al_entry_hash r)"
  proof (intro allI impI)
    fix r assume "chain_tail c t = Some r"
    then have "entry_from_row r \<in> set (chain_entries c t)"
      by (auto simp: tail_is_last chain_entries_def split: if_splits)
    then have "length (col_text (al_entry_hash r)) = 64"
      using intact_hash_length [OF d] inv by (fastforce simp: all_intact_def)
    then show "hash_or_genesis (al_entry_hash r) = col_text (al_entry_hash r)"
      by (auto simp: hash_or_genesis_def)
  qed
  with r have "tail_point c t = (lg_sequence l, lg_last_hash l) \<and> lg_buffer l = [] \<and> lg_company_id l = c"
    by (auto simp: resume_def new_logger_def tail_point_def Let_def split: option.splits)
  then show ?thesis by (auto simp: logger_ok_def follows_def)
qed

lemma logged_links:
  assumes "aq_action q \<noteq> CHAIN_SEALED_ACTION"
  shows "link_row sha (lg_company_id l) (lg_sequence l, lg_last_hash l)
    (entry_to_row (logger_entry sha i now q l))"
proof -
  have "col_text (text_or_none s) = s" for s by (simp add: text_or_none_def col_text_def)
  with assms show ?thesis
    by (simp add: link_row_def logger_entry_def entry_to_row_def Let_def compute_entry_hash_def
        hash_input_def entry_from_row_def)
qed

lemma appended_ok:
  assumes a: "aq_action q \<noteq> CHAIN_SEALED_ACTION" and ok: "logger_ok sha t l"
    and s: "append_entry sha i now q l = (l', res)"
  shows "logger_ok sha t l'"
proof (cases "l' = l")
  case True
  with ok show ?thesis by simp
next
  case False
  let ?e = "logger_entry sha i now q l"
  from False s have l': "l' = l\<lparr>lg_sequence := lg_sequence l + 1, lg_last_hash := pe_entry_hash ?e,
      lg_buffer := lg_buffer l @ [?e]\<rparr>"
    by (auto simp: append_entry_def Let_def split: if_splits)
  obtain p where p: "follows t (lg_company_id l) p"
    and b: "buffer_linked sha (lg_company_id l) p (lg_buffer l) (lg_sequence l, lg_last_hash l)"
    using ok by (auto simp: logger_ok_def)
  from p buffer_snoc [OF b logged_links [OF a, of sha l i now]] show ?thesis
    unfolding logger_ok_def by (intro exI [of _ p]) (simp add: l')
qed

section \<open>Retention\<close>

text \<open>An entry without the columns the hash does not cover.\<close>

definition bare :: "audit_entry \<Rightarrow> audit_entry" where
  "bare e = e\<lparr>pe_details := [], pe_archived_at := None\<rparr>"

lemma bare_simps [simp]:
  "pe_previous_hash (bare e) = pe_previous_hash e" "pe_entry_hash (bare e) = pe_entry_hash e"
  "pe_resource_id (bare e) = pe_resource_id e" "is_seal (bare e) = is_seal e"
  "pe_sequence_number (bare e) = pe_sequence_number e"
  "compute_entry_hash sha (bare e) p = compute_entry_hash sha e p"
  by (simp_all add: bare_def is_seal_def compute_entry_hash_def hash_input_def)

lemma links_bare: "links_intact sha p (map bare es) = links_intact sha p es"
  by (induction es arbitrary: p) auto

lemma intact_bare: "chain_is_intact sha (map bare es) = chain_is_intact sha es"
proof -
  have "legacy_digest sha (map bare l) = legacy_digest sha l" for l
    by (simp add: legacy_digest_def legacy_text_def comp_def)
  moreover have "(\<lambda>e. \<not> is_seal e) \<circ> bare = (\<lambda>e. \<not> is_seal e)" by auto
  ultimately show ?thesis
    by (cases "dropWhile (\<lambda>e. \<not> is_seal e) es")
      (simp_all add: chain_is_intact_def Let_def takeWhile_map dropWhile_map links_bare list_ex_iff
        links_bare [where es = "_ # _", simplified list.map]
        del: links_intact.simps dropWhile_eq_Nil_conv)
qed

lemma insort_mapped:
  "(\<And>x. f (g x) = f x) \<Longrightarrow> insort_key f (g y) (map g xs) = map g (insort_key f y xs)"
  for f :: "'a \<Rightarrow> 'b :: linorder"
  by (induction xs) auto

lemma sort_mapped:
  "(\<And>x. f (g x) = f x) \<Longrightarrow> sort_key f (map g xs) = map g (sort_key f xs)"
  for f :: "'a \<Rightarrow> 'b :: linorder"
  by (induction xs) (auto simp: insort_mapped)

lemma chain_rows_map:
  assumes "\<And>r. in_chain c (g r) = in_chain c r" and "\<And>r. row_seq (g r) = row_seq r"
  shows "chain_rows c (map g t) = map g (chain_rows c t)"
proof -
  have "filter (in_chain c) (map g t) = map g (filter (in_chain c) t)"
    by (induction t) (simp_all add: assms(1))
  then show ?thesis by (simp add: chain_rows_def sort_mapped assms(2))
qed

text \<open>A rewriting of rows that the hash does not see leaves every verdict.\<close>

lemma verdict_map:
  assumes "\<And>r. in_chain c (g r) = in_chain c r" and "\<And>r. row_seq (g r) = row_seq r"
    and "\<And>r. bare (entry_from_row (g r)) = bare (entry_from_row r)"
  shows "chain_is_intact sha (chain_entries c (map g t)) = chain_is_intact sha (chain_entries c t)"
proof -
  have "map bare (chain_entries c (map g t)) = map bare (chain_entries c t)"
    by (simp add: chain_entries_def chain_rows_map assms comp_def)
  then show ?thesis by (metis intact_bare)
qed

lemma marked_grew: "table_grew sha t (update_where P (archive_mark now) t)"
proof -
  let ?g = "\<lambda>r. if P r then archive_mark now r else r"
  let ?t = "update_where P (archive_mark now) t"
  have g: "in_chain c (?g r) = in_chain c r" "row_seq (?g r) = row_seq r"
    "bare (entry_from_row (?g r)) = bare (entry_from_row r)" for c r
    by (simp_all add: in_chain_def row_seq_def bare_def entry_from_row_def archive_mark_def)
  have intact: "chain_is_intact sha (chain_entries c ?t) = chain_is_intact sha (chain_entries c t)" for c
    unfolding update_where_def by (rule verdict_map) (simp_all only: g)
  have rows: "chain_rows c ?t = map ?g (chain_rows c t)" for c
    unfolding update_where_def by (rule chain_rows_map) (simp_all only: g)
  have "tail_point c ?t = tail_point c t" for c
    by (simp add: tail_point_def tail_is_last rows last_map row_seq_def archive_mark_def)
  moreover have "place_taken c s t \<Longrightarrow> place_taken c s ?t" for c s
  proof -
    assume "place_taken c s t"
    then obtain r where "r \<in> set t" "al_company_id r = c" "al_sequence_number r = Some s"
      by (auto simp: place_taken_def)
    then show "place_taken c s ?t"
      unfolding place_taken_def set_update_where
      by (intro bexI [of _ "?g r"]) (auto simp: archive_mark_def)
  qed
  ultimately show ?thesis
    using intact by (auto simp: table_grew_def all_intact_def follows_def)
qed

section \<open>The invariant\<close>

lemma ad_inv_start: "audit_start sha w \<Longrightarrow> ad_inv sha w"
  by (simp add: audit_start_def ad_inv_def all_intact_def)

lemma ad_inv_step:
  assumes "audit_step sha w w'" and d: "digest_ok sha" and inv: "ad_inv sha w"
  shows "ad_inv sha w'"
  using assms(1)
proof cases
  case (Read_tail q i now)
  let ?n = "audit_entry_row i now q"
  have "link_row sha (al_company_id ?n) (tail_point (al_company_id ?n) (ad_table w))
    (chain_stamp sha (ad_table w) ?n)"
    using inv Read_tail d by (intro stamped_links) (auto simp: ad_inv_def audit_entry_row_def)
  then have "\<exists>p. follows (ad_table w) (al_company_id ?n) p \<and>
      link_row sha (al_company_id ?n) p (chain_stamp sha (ad_table w) ?n)"
    by (intro exI conjI) (simp_all add: follows_def)
  then show ?thesis
    using inv unfolding Read_tail(1) by (simp add: ad_inv_def)
next
  case (Insert_row n t')
  then obtain p where p: "follows (ad_table w) (al_company_id n) p" "link_row sha (al_company_id n) p n"
    using inv by (auto simp: ad_inv_def)
  have "all_intact sha (ad_table w)" using inv by (simp add: ad_inv_def)
  moreover have "t' = ad_table w @ [n]"
    using Insert_row(3) by (simp add: insert_audit_def split: if_splits)
  ultimately have "table_grew sha (ad_table w) t'"
    using insert_link [OF _ p Insert_row(3)] by (auto simp: table_grew_def place_taken_def)
  with inv show ?thesis unfolding Insert_row(1) by (rule ad_inv_grew)
next
  case (Open_logger bsize c l s k)
  have "all_intact sha (ad_table w)" using inv by (simp add: ad_inv_def)
  from ad_inv_logger [OF inv resumed_ok [OF this d Open_logger(2)]] Open_logger(3) show ?thesis
    unfolding Open_logger(1) by force
next
  case (Append_entry q k l i now l' res)
  note ok = appended_ok [OF Append_entry(2) ad_invD(3) [OF inv Append_entry(3)] Append_entry(5)]
  from ad_inv_logger [OF inv ok] Append_entry(4) show ?thesis
    unfolding Append_entry(1) by force
next
  case (Flush_begin k l)
  then have "flight_ok (ad_table w) l (lg_buffer l)" by (simp add: flight_ok_def)
  with inv Flush_begin(2) show ?thesis
    unfolding Flush_begin(1) ad_inv_def by auto
next
  case (Flush_end k es l t' l' res')
  note ok = flush_commit_ok [OF Flush_end(4) ad_invD(1) [OF inv] ad_invD(3) [OF inv Flush_end(3)]
      ad_invD(4) [OF inv Flush_end(2,3)]]
  have "ad_inv sha ((w\<lparr>ad_table := t'\<rparr>)\<lparr>ad_loggers := (ad_loggers w)(k \<mapsto> l')\<rparr>)"
    using ad_inv_logger [OF ad_inv_grew [OF inv ok(1)], of l' k] ok(2,3) ad_invD(4) [OF inv _ Flush_end(3)]
    by simp
  from ad_inv_fewer [OF this, of "remove1 (k, es) (ad_flushing w)"] show ?thesis
    unfolding Flush_end(1) by (simp add: set_remove1_subset)
next
  case (Flush_fails f)
  with ad_inv_fewer [OF inv] show ?thesis by (simp add: set_remove1_subset)
next
  case (Retain ps now t' a' res)
  then have "table_grew sha (ad_table w) t'"
    by (auto simp: enforce_retention_def Let_def marked_grew split: if_splits)
  from ad_inv_grew [OF inv this] show ?thesis
    unfolding Retain(1) by (simp add: ad_inv_def)
qed

lemma ad_inv_reachable:
  assumes "(audit_step sha)\<^sup>*\<^sup>* w w'" and "digest_ok sha" and "ad_inv sha w"
  shows "ad_inv sha w'"
  using assms by (induction rule: rtranclp_induct) (auto intro: ad_inv_step)

end
