(* ===== verification/Audit_Evidence.thy ===== *)
theory Audit_Evidence
  imports Audit_System
begin

text \<open>
  What a verified chain proves about its entries. Two logs that both verify and end in the same
  hash agree on every hashed column of every entry, legacy entries before a seal included, or
  two of the texts hashed while verifying them are a collision of SHA-256. The texts are
  separated by bars, so the entries must not hold bars themselves.
\<close>

section \<open>The hashed columns\<close>

definition hashed_columns :: "audit_entry \<Rightarrow>
  uuid \<times> string \<times> string \<times> string \<times> string option \<times> string option \<times> time \<times> uuid option \<times> string" where
  "hashed_columns e =
    (pe_id e, pe_actor_type e, pe_actor_id e, pe_action e, pe_resource_type e, pe_resource_id e,
     pe_timestamp e, pe_company_id e, pe_previous_hash e)"

definition barless :: "string \<Rightarrow> bool" where
  "barless s \<longleftrightarrow> CHR ''|'' \<notin> set s"

definition plain_entry :: "audit_entry \<Rightarrow> bool" where
  "plain_entry e \<longleftrightarrow> valid_uuid (pe_id e) \<and> pred_option valid_uuid (pe_company_id e) \<and>
     0 \<le> pe_timestamp e \<and> barless (pe_actor_type e) \<and> barless (pe_actor_id e) \<and>
     barless (pe_action e) \<and> pred_option barless (pe_resource_type e) \<and>
     pred_option barless (pe_resource_id e) \<and> pe_resource_type e \<noteq> Some ''None'' \<and>
     pe_resource_id e \<noteq> Some ''None''"

definition entry_text :: "audit_entry \<Rightarrow> string" where
  "entry_text e = hash_input e (pe_previous_hash e)"

definition legacy_part :: "audit_entry list \<Rightarrow> audit_entry list" where
  "legacy_part es = (if list_ex is_seal es then takeWhile (\<lambda>e. \<not> is_seal e) es else [])"

text \<open>Every text that is hashed while the chain is verified.\<close>

definition hashed_texts :: "audit_entry list \<Rightarrow> string list" where
  "hashed_texts es = map entry_text es @ (if list_ex is_seal es then [legacy_text (legacy_part es)] else [])"

definition collision_between :: "(string \<Rightarrow> string) \<Rightarrow> string list \<Rightarrow> string list \<Rightarrow> bool" where
  "collision_between sha xs ys \<longleftrightarrow> list_ex (\<lambda>x. list_ex (\<lambda>y. x \<noteq> y \<and> sha x = sha y) ys) xs"

lemma opt_text_barless: "pred_option barless x \<Longrightarrow> CHR ''|'' \<notin> set (opt_text x)"
  by (cases x) (simp_all add: opt_text_def barless_def)

lemma entry_text_inject:
  assumes "plain_entry e" and "plain_entry f" and "entry_text e = entry_text f"
  shows "hashed_columns e = hashed_columns f"
proof -
  note eq = assms(3) [unfolded entry_text_def hash_input_def append.simps]
  note cut = split_at_separator [where c = "CHR ''|''"]
  have b: "CHR ''|'' \<notin> set (pe_actor_type x)" "CHR ''|'' \<notin> set (pe_actor_id x)"
    "CHR ''|'' \<notin> set (pe_action x)" "CHR ''|'' \<notin> set (opt_text (pe_resource_type x))"
    "CHR ''|'' \<notin> set (opt_text (pe_resource_id x))" if "plain_entry x" for x
    using that by (simp_all add: plain_entry_def barless_def opt_text_barless)
  note be = b [OF assms(1)] and bf = b [OF assms(2)]
  note s1 = cut [OF eq uuid_text_no_bar uuid_text_no_bar]
  note s2 = cut [OF s1 [THEN conjunct2] be(1) bf(1)]
  note s3 = cut [OF s2 [THEN conjunct2] be(2) bf(2)]
  note s4 = cut [OF s3 [THEN conjunct2] be(3) bf(3)]
  note s5 = cut [OF s4 [THEN conjunct2] be(4) bf(4)]
  note s6 = cut [OF s5 [THEN conjunct2] be(5) bf(5)]
  note s7 = cut [OF s6 [THEN conjunct2] isoformat_no_bar isoformat_no_bar]
  note s8 = cut [OF s7 [THEN conjunct2] opt_uuid_text_no_bar opt_uuid_text_no_bar]
  from s1 s2 s3 s4 s5 s6 s7 s8 assms(1,2) show ?thesis
    by (auto simp: hashed_columns_def plain_entry_def opt_text_inject opt_uuid_text_inject
        dest: isoformat_inject)
qed

section \<open>The legacy digest\<close>

lemma show_nat_nonempty [simp]: "show_nat n \<noteq> []"
  by (subst show_nat.simps) simp

lemma show_nat_inject: "show_nat n = show_nat m \<Longrightarrow> n = m"
  by (metis show_nat_value)

lemma show_nat_without: "\<not> is_digit c \<Longrightarrow> c \<notin> set (show_nat n)"
  by (rule chars_without [OF show_nat_digits])

lemma show_int_inject:
  assumes "show_int i = show_int j"
  shows "i = j"
proof -
  have "show_nat n \<noteq> CHR ''-'' # s" for n s
    using show_nat_without [of "CHR ''-''" n] by auto
  with assms show ?thesis
    by (auto simp: show_int_def dest: show_nat_inject split: if_splits) metis+
qed

lemma show_int_without: "c \<noteq> CHR ''-'' \<Longrightarrow> \<not> is_digit c \<Longrightarrow> c \<notin> set (show_int i)"
  by (simp add: show_int_def show_nat_without)

lemma bar_join_inject:
  assumes "\<forall>s \<in> set xs. barless s \<and> s \<noteq> []" and "\<forall>s \<in> set ys. barless s \<and> s \<noteq> []"
    and "bar_join xs = bar_join ys"
  shows "xs = ys"
  using assms
proof (induction xs arbitrary: ys rule: bar_join.induct)
  case 1
  then show ?case by (cases ys rule: bar_join.cases) auto
next
  case (2 s)
  then show ?case by (cases ys rule: bar_join.cases) (auto simp: barless_def)
next
  case (3 s s' ss)
  show ?case
  proof (cases ys rule: bar_join.cases)
    case (3 r r' rs)
    then have "s @ CHR ''|'' # bar_join (s' # ss) = r @ CHR ''|'' # bar_join (r' # rs)"
      using "3.prems" by simp
    from split_at_separator [OF this] "3.prems" 3 "3.IH" [of "r' # rs"] show ?thesis
      by (simp add: barless_def)
  qed (use "3.prems" in \<open>auto simp: barless_def\<close>)
qed

lemma map_image: "map f xs = map f ys \<Longrightarrow> (\<And>x y. f x = f y \<Longrightarrow> g x = g y) \<Longrightarrow> map g xs = map g ys"
proof (induction xs arbitrary: ys)
  case (Cons x xs)
  obtain y zs where ys: "ys = y # zs" "f x = f y" "map f xs = map f zs"
    using Cons.prems(1) by (cases ys) simp_all
  from Cons.IH [OF ys(3) Cons.prems(2)] Cons.prems(2) [OF ys(2)] ys(1) show ?case by simp
qed simp

lemma legacy_text_inject:
  assumes d: "\<forall>e \<in> set xs \<union> set ys. length (pe_entry_hash e) = 64 \<and> list_all is_hex (pe_entry_hash e)"
    and eq: "legacy_text xs = legacy_text ys"
  shows "map pe_entry_hash xs = map pe_entry_hash ys"
proof -
  let ?f = "\<lambda>e. show_int (pe_sequence_number e) @ '':'' @ pe_entry_hash e"
  have ok: "barless (?f e) \<and> ?f e \<noteq> []" if "e \<in> set xs \<union> set ys" for e
  proof -
    have "CHR ''|'' \<notin> set (pe_entry_hash e)" using d that by (intro chars_without [where P = is_hex]) auto
    then show ?thesis by (simp add: barless_def show_int_without)
  qed
  then have "map ?f xs = map ?f ys"
    using eq by (intro bar_join_inject) (auto simp: legacy_text_def)
  moreover have "pe_entry_hash e = pe_entry_hash e'" if "?f e = ?f e'" for e e'
  proof -
    have colon: "CHR '':'' \<notin> set (show_int i)" for i by (simp add: show_int_without)
    from that split_at_separator [OF _ colon colon] show ?thesis by simp
  qed
  ultimately show ?thesis by (rule map_image)
qed

section \<open>Two chains with one last hash\<close>

lemma legacy_text_head: "legacy_text es \<noteq> entry_text e"
proof
  assume "legacy_text es = entry_text e"
  then have h: "hd (legacy_text es) = hd (entry_text e)" by simp
  have "length (uuid_text (pe_id e)) \<noteq> 0" by (simp add: uuid_text_def dashed_def)
  then have "hd (entry_text e) \<in> set (uuid_text (pe_id e))"
    by (simp add: entry_text_def hash_input_def)
  moreover have "hd (legacy_text es) = CHR ''l''" by (simp add: legacy_text_def)
  ultimately have "CHR ''l'' \<in> set (uuid_text (pe_id e))" using h by simp
  then have "CHR ''l'' \<in> set (hex_text 32 (pe_id e))"
    by (auto simp: uuid_text_def dest: dashed_chars)
  then show False using hex_text_without [of "CHR ''l''"] by (simp add: is_hex_def is_digit_def)
qed

definition start_point :: "(string \<Rightarrow> string) \<Rightarrow> audit_entry list \<Rightarrow> string" where
  "start_point sha es = (if list_ex is_seal es then legacy_digest sha (legacy_part es) else GENESIS)"

definition linked_part :: "audit_entry list \<Rightarrow> audit_entry list" where
  "linked_part es = (if list_ex is_seal es then dropWhile (\<lambda>e. \<not> is_seal e) es else es)"

lemma chain_parts: "es = legacy_part es @ linked_part es"
  by (simp add: legacy_part_def linked_part_def)

lemma linked_part_links:
  assumes "chain_is_intact sha es"
  shows "links_intact sha (start_point sha es) (linked_part es)"
    and "last_hash (start_point sha es) (linked_part es) = last_hash GENESIS es"
proof -
  have "links_intact sha (start_point sha es) (linked_part es) \<and>
    last_hash (start_point sha es) (linked_part es) = last_hash GENESIS es"
  proof (cases "dropWhile (\<lambda>e. \<not> is_seal e) es")
    case Nil
    then have "\<not> list_ex is_seal es" by (simp add: list_ex_iff)
    with assms Nil show ?thesis
      by (simp add: chain_is_intact_def Let_def start_point_def linked_part_def
          del: dropWhile_eq_Nil_conv)
  next
    case (Cons s r)
    then have "list_ex is_seal es" by (metis dropWhile_eq_Nil_conv list.distinct(1) list_ex_iff)
    moreover obtain u where "es = u @ s # r"
      using Cons takeWhile_dropWhile_id [of "\<lambda>e. \<not> is_seal e" es] by metis
    ultimately show ?thesis
      using assms Cons
      by (auto simp: chain_is_intact_def Let_def start_point_def linked_part_def legacy_part_def
          last_hash_def simp del: links_intact.simps last_hash_simps split: if_splits)
  qed
  then show "links_intact sha (start_point sha es) (linked_part es)"
    and "last_hash (start_point sha es) (linked_part es) = last_hash GENESIS es" by auto
qed

text \<open>A point from which a chain can start: no entry hashes to it.\<close>

definition unreached :: "(string \<Rightarrow> string) \<Rightarrow> string \<Rightarrow> audit_entry list \<Rightarrow> bool" where
  "unreached sha p es \<longleftrightarrow> (\<forall>e \<in> set es. sha (entry_text e) \<noteq> p)"

lemma links_agree:
  assumes "links_intact sha p xs" and "links_intact sha q ys"
    and "last_hash p xs = last_hash q ys"
    and "unreached sha p ys" and "unreached sha q xs"
    and "\<forall>x \<in> set xs. \<forall>y \<in> set ys. sha (entry_text x) = sha (entry_text y) \<longrightarrow>
      entry_text x = entry_text y"
    and "list_all plain_entry xs" and "list_all plain_entry ys"
  shows "map hashed_columns xs = map hashed_columns ys \<and> p = q"
  using assms
proof (induction xs arbitrary: ys rule: rev_induct)
  case Nil
  then show ?case
    by (cases ys rule: rev_exhaust)
      (auto simp: links_append chain_links_def compute_entry_hash_def entry_text_def unreached_def
        simp del: links_intact.simps)
next
  case (snoc e xs)
  show ?case
  proof (cases ys rule: rev_exhaust)
    case Nil
    with snoc.prems show ?thesis
      by (auto simp: links_append chain_links_def compute_entry_hash_def entry_text_def unreached_def
          simp del: links_intact.simps)
  next
    case (snoc zs f)
    have e: "chain_links sha (last_hash p xs) e" and f: "chain_links sha (last_hash q zs) f"
      using snoc.prems(1,2) snoc by (simp_all add: links_append del: links_intact.simps)
    have "sha (entry_text e) = sha (entry_text f)"
      using e f snoc.prems(3) snoc by (simp add: chain_links_def compute_entry_hash_def entry_text_def)
    then have cols: "hashed_columns e = hashed_columns f"
      using snoc.prems(6,7,8) snoc by (intro entry_text_inject) auto
    then have "last_hash p xs = last_hash q zs"
      using e f by (simp add: chain_links_def hashed_columns_def)
    with snoc.prems snoc snoc.IH [of zs] cols show ?thesis
      by (simp add: links_append unreached_def del: links_intact.simps)
  qed
qed

section \<open>Two logs with one last hash\<close>

lemma in_hashed_texts:
  "e \<in> set es \<Longrightarrow> entry_text e \<in> set (hashed_texts es)"
  "list_ex is_seal es \<Longrightarrow> legacy_text (legacy_part es) \<in> set (hashed_texts es)"
  by (simp_all add: hashed_texts_def)

lemma no_collision:
  "\<not> collision_between sha xs ys \<Longrightarrow> x \<in> set xs \<Longrightarrow> y \<in> set ys \<Longrightarrow> sha x = sha y \<Longrightarrow> x = y"
  by (auto simp: collision_between_def list_ex_iff)

lemma digest_not_genesis: "digest_ok sha \<Longrightarrow> sha x \<noteq> GENESIS"
  by (auto simp: digest_ok_def GENESIS_def dest: spec [of _ x])

lemma start_unreached:
  assumes d: "digest_ok sha" and c: "\<not> collision_between sha (hashed_texts xs) (hashed_texts ys)"
  shows "unreached sha (start_point sha xs) ys"
  unfolding unreached_def
proof
  fix y assume y: "y \<in> set ys"
  show "sha (entry_text y) \<noteq> start_point sha xs"
  proof (cases "list_ex is_seal xs")
    case True
    then show ?thesis
      using no_collision [OF c in_hashed_texts(2) in_hashed_texts(1)] y legacy_text_head
      by (metis legacy_digest_def start_point_def)
  next
    case False
    then show ?thesis using digest_not_genesis [OF d] by (simp add: start_point_def)
  qed
qed

lemma collision_sym: "collision_between sha xs ys \<longleftrightarrow> collision_between sha ys xs"
  unfolding collision_between_def list_ex_iff by metis

lemma in_parts: "e \<in> set (legacy_part es) \<Longrightarrow> e \<in> set es" "e \<in> set (linked_part es) \<Longrightarrow> e \<in> set es"
  using chain_parts [of es] by (metis Un_iff set_append)+

lemma legacy_agree:
  assumes d: "digest_ok sha" and i: "chain_is_intact sha xs" "chain_is_intact sha ys"
    and c: "\<not> collision_between sha (hashed_texts xs) (hashed_texts ys)"
    and p: "start_point sha xs = start_point sha ys"
    and plain: "list_all plain_entry xs" "list_all plain_entry ys"
  shows "map hashed_columns (legacy_part xs) = map hashed_columns (legacy_part ys)"
proof (cases "list_ex is_seal xs \<and> list_ex is_seal ys")
  case True
  have hash: "pe_entry_hash e = sha (entry_text e)" if "e \<in> set xs \<union> set ys" for e
    using that intact_hashes [OF i(1)] intact_hashes [OF i(2)]
    by (auto simp: chain_links_def compute_entry_hash_def entry_text_def)
  have "sha (legacy_text (legacy_part xs)) = sha (legacy_text (legacy_part ys))"
    using True p by (simp add: start_point_def legacy_digest_def)
  then have "legacy_text (legacy_part xs) = legacy_text (legacy_part ys)"
    using no_collision [OF c in_hashed_texts(2) in_hashed_texts(2)] True by blast
  then have h: "map pe_entry_hash (legacy_part xs) = map pe_entry_hash (legacy_part ys)"
    using d hash in_parts(1) by (intro legacy_text_inject) (auto simp: digest_ok_def)
  have len: "length (legacy_part xs) = length (legacy_part ys)" using h map_eq_imp_length_eq by blast
  show ?thesis
  proof (rule nth_equalityI)
    fix k assume "k < length (map hashed_columns (legacy_part xs))"
    then have k: "k < length (legacy_part xs)" "k < length (legacy_part ys)" using len by auto
    let ?x = "legacy_part xs ! k" and ?y = "legacy_part ys ! k"
    have "pe_entry_hash ?x = pe_entry_hash ?y" using h k by (metis nth_map)
    moreover have m: "?x \<in> set xs" "?y \<in> set ys" using k in_parts(1) nth_mem by blast+
    ultimately have "entry_text ?x = entry_text ?y"
      using no_collision [OF c in_hashed_texts(1) in_hashed_texts(1)] hash by (metis Un_iff)
    then have "hashed_columns ?x = hashed_columns ?y"
      using plain m by (intro entry_text_inject) (auto simp: list_all_iff)
    with k show "map hashed_columns (legacy_part xs) ! k = map hashed_columns (legacy_part ys) ! k"
      by simp
  qed (simp add: len)
next
  case False
  then have "\<not> list_ex is_seal xs" "\<not> list_ex is_seal ys"
    using p digest_not_genesis [OF d] by (auto simp: start_point_def legacy_digest_def split: if_splits) metis+
  then show ?thesis by (simp add: legacy_part_def)
qed

lemma agree_or_collide:
  assumes d: "digest_ok sha" and i: "chain_is_intact sha xs" "chain_is_intact sha ys"
    and l: "last_hash GENESIS xs = last_hash GENESIS ys"
    and plain: "list_all plain_entry xs" "list_all plain_entry ys"
    and c: "\<not> collision_between sha (hashed_texts xs) (hashed_texts ys)"
  shows "map hashed_columns xs = map hashed_columns ys"
proof -
  have plain_parts: "list_all plain_entry (linked_part xs)" "list_all plain_entry (linked_part ys)"
    using plain in_parts(2) by (auto simp: list_all_iff)
  have un: "unreached sha (start_point sha xs) (linked_part ys)"
    "unreached sha (start_point sha ys) (linked_part xs)"
    using start_unreached [OF d c] start_unreached [OF d] c collision_sym in_parts(2)
    unfolding unreached_def by blast+
  have "map hashed_columns (linked_part xs) = map hashed_columns (linked_part ys) \<and>
    start_point sha xs = start_point sha ys"
    using linked_part_links [OF i(1)] linked_part_links [OF i(2)] l un plain_parts
      no_collision [OF c in_hashed_texts(1) in_hashed_texts(1)] in_parts(2)
    by (intro links_agree) (auto simp: un)
  with legacy_agree [OF d i c _ plain] show ?thesis
    using chain_parts [of xs] chain_parts [of ys] by (metis map_append)
qed

end
