(* ===== verification/Audit_Laws.thy ===== *)
theory Audit_Laws
  imports Audit_Evidence
begin

text \<open>
  The properties of the audit log: chains verify in every reachable state, what a verified chain
  proves and what it cannot, what \<open>record_audit\<close> guarantees about the row it was asked for, and
  the fate of a buffered logger that lost its place. The concrete witnesses use a toy digest.
\<close>

section \<open>Helpers\<close>

lemma commit_others_set: "set t \<subseteq> set (commit_others t ns) \<and> set (commit_others t ns) \<subseteq> set t \<union> set ns"
proof (induction ns arbitrary: t)
  case (Cons n ns)
  show ?case
    using Cons.IH [of t] Cons.IH [of "t @ [n]"] by (auto simp: insert_audit_def)
qed simp

lemma stamp_columns [simp]:
  "al_id (chain_stamp sha t n) = al_id n"
  "al_sequence_number (chain_stamp sha t n) = Some (fst (tail_point (al_company_id n) t) + 1)"
  "\<exists>h. al_entry_hash (chain_stamp sha t n) = Some h"
  by (auto simp: chain_stamp_def tail_point_def Let_def split: option.splits)

lemma unstamped_stamp: "unstamp (chain_stamp sha t (audit_entry_row i now q)) = audit_entry_row i now q"
  by (simp add: unstamp_def chain_stamp_def audit_entry_row_def Let_def)

lemma next_place_free: "\<not> place_taken c (fst (tail_point c t) + 1) t"
proof
  assume "place_taken c (fst (tail_point c t) + 1) t"
  then obtain r where "r \<in> set t" "al_company_id r = c"
    "al_sequence_number r = Some (fst (tail_point c t) + 1)"
    by (auto simp: place_taken_def)
  then show False using below_tail [of r c t]
    by (simp add: set_chain_rows in_chain_def row_seq_def col_int_def)
qed

lemma stamp_refused:
  assumes "\<not> audit_fits (commit_others t ns) (chain_stamp sha t n)"
    and "al_id n \<notin> al_id ` set t" and "al_id n \<notin> al_id ` set ns"
  shows "\<exists>m \<in> set ns. al_company_id m = al_company_id n"
proof -
  have "al_id n \<notin> al_id ` set (commit_others t ns)"
    using assms(2,3) commit_others_set [of t ns] by auto
  then obtain r where r: "r \<in> set (commit_others t ns)" "al_company_id r = al_company_id n"
    "al_sequence_number r = Some (fst (tail_point (al_company_id n) t) + 1)"
    using assms(1) by (auto simp: audit_fits_def)
  then have "r \<notin> set t" using next_place_free by (auto simp: place_taken_def)
  with r(1,2) commit_others_set [of t ns] show ?thesis by auto
qed

definition id_unused :: "uuid \<Rightarrow> audit_log list \<Rightarrow> (nat \<Rightarrow> audit_weather) \<Rightarrow> bool" where
  "id_unused i t weather \<longleftrightarrow> i \<notin> al_id ` set t \<and>
     (\<forall>k. i \<notin> al_id ` set (aw_before (weather k)) \<and> i \<notin> al_id ` set (aw_between (weather k)))"

text \<open>
  The row a call must store when the tail was read in \<open>t1\<close>: the request's columns, the place after
  the tail, the tail's hash, and the hash of all of it.
\<close>

definition asked_row ::
  "(string \<Rightarrow> string) \<Rightarrow> uuid \<Rightarrow> time \<Rightarrow> audit_request \<Rightarrow> audit_log list \<Rightarrow> audit_log \<Rightarrow> bool" where
  "asked_row sha i now q t1 r \<longleftrightarrow>
    al_id r = i \<and> al_company_id r = aq_company_id q \<and> al_actor_type r = aq_actor_type q \<and>
    al_actor_id r = aq_actor_id q \<and> al_action r = aq_action q \<and>
    al_resource_type r = aq_resource_type q \<and> al_resource_id r = aq_resource_id q \<and>
    al_details r = aq_details q \<and> al_ip_address r = aq_ip_address q \<and> al_created_at r = now \<and>
    al_archived_at r = None \<and>
    al_sequence_number r = Some (fst (tail_point (aq_company_id q) t1) + 1) \<and>
    col_text (al_previous_hash r) = snd (tail_point (aq_company_id q) t1) \<and>
    al_entry_hash r = Some (compute_entry_hash sha (entry_from_row r) (opt_text (al_previous_hash r)))"

lemma stamped_is_asked: "asked_row sha i now q t1 (chain_stamp sha t1 (audit_entry_row i now q))"
  by (simp add: asked_row_def chain_stamp_def audit_entry_row_def tail_point_def Let_def
      compute_entry_hash_def hash_input_def entry_from_row_def split: option.split)

lemma commit_others_append: "\<exists>ms. commit_others t ns = t @ ms \<and> set ms \<subseteq> set ns"
proof (induction ns arbitrary: t)
  case (Cons n ns)
  show ?case
  proof (cases "insert_audit t n")
    case None
    with Cons [of t] show ?thesis by auto
  next
    case (Some u)
    then have "u = t @ [n]" by (simp add: insert_audit_def split: if_splits)
    with Some Cons [of u] show ?thesis by auto
  qed
qed simp

lemma retry_outcome:
  assumes "chain_retry sha n weather t (audit_entry_row i now q) = (t', ok)"
    and "id_unused i t weather"
  shows "if ok then \<exists>ms ns r. t' = t @ ms @ ns @ [r] \<and> asked_row sha i now q (t @ ms) r \<and>
      audit_fits (t @ ms @ ns) r
    else i \<notin> al_id ` set t' \<and> (\<forall>k < n. aw_fails (weather k) \<or>
      (\<exists>m \<in> set (aw_between (weather k)). al_company_id m = aq_company_id q))"
  using assms
proof (induction n arbitrary: t)
  case 0
  then show ?case by (simp add: id_unused_def)
next
  case (Suc n)
  let ?e = "audit_entry_row i now q"
  define t1 where "t1 = commit_others t (aw_before (weather n))"
  define t2 where "t2 = commit_others t1 (aw_between (weather n))"
  have cols: "al_id ?e = i" "al_company_id ?e = aq_company_id q" by (simp_all add: audit_entry_row_def)
  obtain ms where ms: "t1 = t @ ms" "set ms \<subseteq> set (aw_before (weather n))"
    using commit_others_append unfolding t1_def by blast
  obtain ns where ns: "t2 = t1 @ ns" "set ns \<subseteq> set (aw_between (weather n))"
    using commit_others_append unfolding t2_def by blast
  have f1: "i \<notin> al_id ` set t1" using ms Suc.prems(2) by (auto simp: id_unused_def)
  have "al_id ` set ns \<subseteq> al_id ` set (aw_between (weather n))" by (rule image_mono [OF ns(2)])
  with Suc.prems(2) have "i \<notin> al_id ` set ns" unfolding id_unused_def by blast
  with f1 ns(1) Suc.prems(2) have f2: "id_unused i t2 weather" by (simp add: id_unused_def image_Un)
  have step: "chain_retry sha (Suc n) weather t ?e =
    (if aw_fails (weather n) then chain_retry sha n weather t2 ?e
     else case insert_audit t2 (chain_stamp sha t1 ?e) of
       Some t3 \<Rightarrow> (t3, True) | None \<Rightarrow> chain_retry sha n weather t2 ?e)"
    by (simp add: Let_def t1_def t2_def unstamped_stamp split: option.split)
  have again: "chain_retry sha n weather t2 ?e = (t', ok)"
    if "aw_fails (weather n) \<or> \<not> audit_fits t2 (chain_stamp sha t1 ?e)"
    using that Suc.prems(1) unfolding step by (auto simp: insert_audit_def split: if_splits)
  show ?case
  proof (cases "aw_fails (weather n) \<or> \<not> audit_fits t2 (chain_stamp sha t1 ?e)")
    case True
    have beaten: "aw_fails (weather n) \<or>
      (\<exists>m \<in> set (aw_between (weather n)). al_company_id m = aq_company_id q)"
      using True stamp_refused [of t1 "aw_between (weather n)" sha ?e] f1 Suc.prems(2) cols
      by (auto simp: t2_def id_unused_def)
    from Suc.IH [OF again [OF True] f2] show ?thesis
    proof (cases ok)
      case True
      with Suc.IH [OF again [OF \<open>aw_fails (weather n) \<or> \<not> audit_fits t2 (chain_stamp sha t1 ?e)\<close>] f2]
      obtain ms' ns' r where "t' = t2 @ ms' @ ns' @ [r]" "asked_row sha i now q (t2 @ ms') r"
        "audit_fits (t2 @ ms' @ ns') r" by auto
      with ms(1) ns(1) have "t' = t @ (ms @ ns @ ms') @ ns' @ [r] \<and> asked_row sha i now q (t @ (ms @ ns @ ms')) r \<and>
          audit_fits (t @ (ms @ ns @ ms') @ ns') r" by simp
      then show ?thesis unfolding if_P [OF True] by blast
    next
      case False
      with beaten Suc.IH [OF again [OF \<open>aw_fails (weather n) \<or> \<not> audit_fits t2 (chain_stamp sha t1 ?e)\<close>] f2]
      show ?thesis by (auto simp: less_Suc_eq)
    qed
  next
    case False
    then have "t' = t2 @ [chain_stamp sha t1 ?e] \<and> ok"
      using Suc.prems(1) unfolding step by (auto simp: insert_audit_def split: if_splits)
    with False ms(1) ns(1) stamped_is_asked [of sha i now q t1] show ?thesis by auto
  qed
qed

text \<open>A batch that was refused stays refused: rows and their keys are never removed.\<close>

definition audit_keys :: "audit_log list \<Rightarrow> (uuid \<times> uuid option \<times> int option) set" where
  "audit_keys t = (\<lambda>r. (al_id r, al_company_id r, al_sequence_number r)) ` set t"

lemma fits_keys: "audit_fits t n \<longleftrightarrow> (\<forall>(i, c, s) \<in> audit_keys t. i \<noteq> al_id n \<and>
    (s \<noteq> None \<and> s = al_sequence_number n \<longrightarrow> c \<noteq> al_company_id n))"
  by (auto simp: audit_fits_def audit_keys_def image_iff)

lemma fits_more: "audit_keys t \<subseteq> audit_keys u \<Longrightarrow> audit_fits u n \<Longrightarrow> audit_fits t n"
  unfolding fits_keys by blast

lemma refused_more:
  "insert_audits t ns = None \<Longrightarrow> audit_keys t \<subseteq> audit_keys u \<Longrightarrow> insert_audits u (ns @ ms) = None"
proof (induction ns arbitrary: t u)
  case (Cons n ns)
  show ?case
  proof (cases "audit_fits u n")
    case True
    with Cons.prems have "insert_audits (t @ [n]) ns = None"
      by (simp add: insert_audit_def fits_more)
    moreover have "audit_keys (t @ [n]) \<subseteq> audit_keys (u @ [n])"
      using Cons.prems(2) by (auto simp: audit_keys_def)
    ultimately show ?thesis using True by (simp add: insert_audit_def Cons.IH)
  qed (simp add: insert_audit_def)
qed simp

lemma batch_keys: "insert_audits t ns = Some t' \<Longrightarrow> audit_keys t \<subseteq> audit_keys t'"
proof (induction ns arbitrary: t)
  case (Cons n ns)
  then have "audit_keys (t @ [n]) \<subseteq> audit_keys t'"
    by (auto simp: insert_audit_def split: if_splits)
  then show ?case by (auto simp: audit_keys_def)
qed simp

lemma flush_keys: "flush_commit t es l = (t', l', res) \<Longrightarrow> audit_keys t \<subseteq> audit_keys t'"
  by (auto simp: flush_commit_def split: option.splits dest: batch_keys)

lemma marked_keys: "audit_keys (update_where P (archive_mark now) t) = audit_keys t"
  unfolding audit_keys_def set_update_where image_image
  by (rule image_cong) (simp_all add: archive_mark_def)

lemma step_keys:
  assumes "audit_step sha w w'"
  shows "audit_keys (ad_table w) \<subseteq> audit_keys (ad_table w')"
  using assms
proof cases
  case (Insert_row n t')
  then show ?thesis by (auto simp: insert_audit_def audit_keys_def split: if_splits)
next
  case (Flush_end k es l t' l' res')
  then show ?thesis using flush_keys [OF Flush_end(4)] by simp
next
  case (Retain ps now t' a' res)
  then show ?thesis
    by (auto simp: enforce_retention_def Let_def marked_keys split: if_splits)
qed auto

lemma reach_keys:
  "(audit_step sha)\<^sup>*\<^sup>* w w' \<Longrightarrow> audit_keys (ad_table w) \<subseteq> audit_keys (ad_table w')"
  by (induction rule: rtranclp_induct) (use step_keys in blast)+

section \<open>A call of record_audit is a run of the system\<close>

lemma commit_others_steps:
  "set ns \<subseteq> set (ad_pending w) \<Longrightarrow>
   (audit_step sha)\<^sup>*\<^sup>* w (w\<lparr>ad_table := commit_others (ad_table w) ns\<rparr>)"
proof (induction ns arbitrary: w)
  case Nil
  then show ?case by simp
next
  case (Cons n ns)
  show ?case
  proof (cases "insert_audit (ad_table w) n")
    case None
    with Cons show ?thesis by simp
  next
    case (Some u)
    from Cons.prems have n: "n \<in> set (ad_pending w)" by simp
    have "audit_step sha w (w\<lparr>ad_table := u\<rparr>)" by (rule audit_step.Insert_row [OF n Some])
    moreover have "(audit_step sha)\<^sup>*\<^sup>* (w\<lparr>ad_table := u\<rparr>) (w\<lparr>ad_table := commit_others u ns\<rparr>)"
      using Cons.IH [of "w\<lparr>ad_table := u\<rparr>"] Cons.prems by simp
    ultimately show ?thesis using Some by (simp add: converse_rtranclp_into_rtranclp)
  qed
qed

lemma retry_is_steps:
  assumes "aq_action q \<noteq> CHAIN_SEALED_ACTION"
    and "\<And>k. set (aw_before (weather k)) \<subseteq> set (ad_pending w) \<and>
      set (aw_between (weather k)) \<subseteq> set (ad_pending w)"
    and "chain_retry sha n weather (ad_table w) (audit_entry_row i now q) = (t', ok)"
  shows "\<exists>p. (audit_step sha)\<^sup>*\<^sup>* w (w\<lparr>ad_table := t', ad_pending := p\<rparr>)"
  using assms(2,3)
proof (induction n arbitrary: w)
  case 0
  then have "t' = ad_table w" by simp
  then show ?case by (intro exI [of _ "ad_pending w"]) simp
next
  case (Suc n)
  let ?e = "audit_entry_row i now q"
  let ?w1 = "w\<lparr>ad_table := commit_others (ad_table w) (aw_before (weather n))\<rparr>"
  define m where "m = chain_stamp sha (ad_table ?w1) ?e"
  let ?w2 = "?w1\<lparr>ad_pending := m # ad_pending w\<rparr>"
  let ?w3 = "?w2\<lparr>ad_table := commit_others (ad_table ?w1) (aw_between (weather n))\<rparr>"
  have "(audit_step sha)\<^sup>*\<^sup>* w ?w1" using Suc.prems(1) by (intro commit_others_steps) simp
  moreover have "audit_step sha ?w1 ?w2"
    using audit_step.Read_tail [OF assms(1), of sha ?w1 i now] by (simp add: m_def)
  moreover have "(audit_step sha)\<^sup>*\<^sup>* ?w2 ?w3"
    using commit_others_steps [of "aw_between (weather n)" ?w2 sha] Suc.prems(1) by auto
  ultimately have w3: "(audit_step sha)\<^sup>*\<^sup>* w ?w3" by simp
  have fin: "t' = t3" if "insert_audit (ad_table ?w3) m = Some t3" "\<not> aw_fails (weather n)" for t3
    using that Suc.prems(2) by (simp add: Let_def m_def)
  have again: "chain_retry sha n weather (ad_table ?w3) ?e = (t', ok)"
    if "aw_fails (weather n) \<or> insert_audit (ad_table ?w3) m = None"
    using that Suc.prems(2) by (auto simp: Let_def m_def unstamped_stamp split: if_splits)
  show ?case
  proof (cases "aw_fails (weather n) \<or> insert_audit (ad_table ?w3) m = None")
    case True
    have "set (aw_before (weather k)) \<subseteq> set (ad_pending ?w3) \<and>
      set (aw_between (weather k)) \<subseteq> set (ad_pending ?w3)" for k
      using Suc.prems(1) [of k] by auto
    from Suc.IH [OF this again [OF True]] w3 show ?thesis by (auto intro: rtranclp_trans)
  next
    case False
    then obtain t3 where t3: "insert_audit (ad_table ?w3) m = Some t3" by auto
    have "m \<in> set (ad_pending ?w3)" by simp
    from audit_step.Insert_row [OF this t3, of sha] w3 fin [OF t3] False
    have "(audit_step sha)\<^sup>*\<^sup>* w (?w3\<lparr>ad_table := t'\<rparr>)" by auto
    then show ?thesis by (intro exI [of _ "m # ad_pending w"]) (cases w; simp)
  qed
qed

text \<open>
  A whole call of \<open>record_audit\<close> that meets rows of other waiting writers is a run of the system.
\<close>

theorem record_audit_is_steps:
  assumes "aq_action q \<noteq> CHAIN_SEALED_ACTION"
    and "\<And>k. set (aw_before (weather k)) \<subseteq> set (ad_pending w) \<and>
      set (aw_between (weather k)) \<subseteq> set (ad_pending w)"
    and "record_audit sha weather i now q raising (ad_table w) = (t', outcome)"
  shows "\<exists>p. (audit_step sha)\<^sup>*\<^sup>* w (w\<lparr>ad_table := t', ad_pending := p\<rparr>)"
proof -
  obtain u ok where run: "chain_retry sha AUDIT_ATTEMPTS weather (ad_table w)
      (audit_entry_row i now q) = (u, ok)"
    by fastforce
  with assms(3) have "t' = u" by (simp add: record_audit_def)
  with retry_is_steps [OF assms(1,2) run] show ?thesis by simp
qed

text \<open>
  A call of \<open>log_entry\<close> that nothing interrupts, its flush included, is a run of the system.
\<close>

theorem log_entry_is_steps:
  assumes "aq_action q \<noteq> CHAIN_SEALED_ACTION" and l: "ad_loggers w k = Some l"
    and k: "k \<notin> fst ` set (ad_flushing w)"
    and s: "log_entry sha i now q (ad_table w) l = (t', l', res)"
  shows "(audit_step sha)\<^sup>*\<^sup>* w (w\<lparr>ad_table := t', ad_loggers := (ad_loggers w)(k \<mapsto> l')\<rparr>)"
proof -
  obtain l1 r where a: "append_entry sha i now q l = (l1, r)" by fastforce
  let ?w1 = "w\<lparr>ad_loggers := (ad_loggers w)(k \<mapsto> l1)\<rparr>"
  have one: "audit_step sha w ?w1" by (rule audit_step.Append_entry [OF assms(1) l k a])
  have same: "w\<lparr>ad_table := ad_table w, ad_loggers := (ad_loggers w)(k \<mapsto> l1)\<rparr> = ?w1" by (cases w) simp
  show ?thesis
  proof (cases "isl r \<or> \<not> buffer_full l1 \<or> lg_buffer l1 = []")
    case True
    with s a have "t' = ad_table w" "l' = l1"
      by (auto simp: log_entry_def flush_buffer_def split: sum.splits if_splits)
    with one same show ?thesis by simp
  next
    case False
    with s a obtain res' where f: "flush_commit (ad_table w) (lg_buffer l1) l1 = (t', l', res')"
      by (cases r) (auto simp: log_entry_def flush_buffer_def split: prod.splits)
    let ?w2 = "?w1\<lparr>ad_flushing := (k, lg_buffer l1) # ad_flushing ?w1\<rparr>"
    have two: "audit_step sha ?w1 ?w2" by (rule audit_step.Flush_begin) (use False in simp_all)
    have "audit_step sha ?w2 (?w2\<lparr>ad_table := t', ad_loggers := (ad_loggers ?w2)(k \<mapsto> l'),
        ad_flushing := remove1 (k, lg_buffer l1) (ad_flushing ?w2)\<rparr>)"
      by (rule audit_step.Flush_end [where l = l1 and res' = res']) (use f in simp_all)
    then have "audit_step sha ?w2 (w\<lparr>ad_table := t', ad_loggers := (ad_loggers w)(k \<mapsto> l')\<rparr>)"
      by (cases w) simp
    with one two show ?thesis by (meson converse_rtranclp_into_rtranclp rtranclp.rtrancl_refl)
  qed
qed

section \<open>A toy digest and a demo log\<close>

definition demo_sha :: "string \<Rightarrow> string" where
  "demo_sha s = take 64 (map (\<lambda>c. hex_digit (of_char c mod 16)) (rev s) @ replicate 64 (CHR ''0''))"

lemma demo_digest: "digest_ok demo_sha"
proof -
  have "list_all is_hex (demo_sha x)" for x
    unfolding demo_sha_def list_all_iff
    by (auto dest!: in_set_takeD simp: is_hex_digit) (auto simp: is_hex_def is_digit_def)
  moreover have "length (demo_sha x) = 64" for x by (simp add: demo_sha_def)
  ultimately show ?thesis by (simp add: digest_ok_def)
qed

definition demo_request :: audit_request where
  "demo_request = \<lparr>aq_company_id = Some 2, aq_action = ''a'', aq_actor_type = ''u'',
     aq_actor_id = Some ''x'', aq_resource_type = None, aq_resource_id = None, aq_details = None,
     aq_ip_address = None\<rparr>"

definition demo_audit_row :: audit_log where
  "demo_audit_row = chain_stamp demo_sha [] (audit_entry_row 7 0 demo_request)"

definition demo_logger :: audit_logger where
  "demo_logger = fst (resume [] (new_logger 100 None (Some 2)))"

definition demo_full_logger :: audit_logger where
  "demo_full_logger = fst (snd (log_entry demo_sha 8 0 demo_request [] demo_logger))"

definition demo_world :: "audit_log list \<Rightarrow> audit_log list \<Rightarrow> (nat \<rightharpoonup> audit_logger) \<Rightarrow> audit_world" where
  "demo_world t p ls =
    \<lparr>ad_table = t, ad_pending = p, ad_loggers = ls, ad_flushing = [], ad_archive = []\<rparr>"

lemma demo_start: "audit_start sha (demo_world [] [] Map.empty)"
  by (simp add: audit_start_def demo_world_def chain_entries_def chain_rows_def chain_is_intact_def)

lemma demo_seq: "al_sequence_number demo_audit_row = Some 1" "al_company_id demo_audit_row = Some 2"
  "al_id demo_audit_row = 7"
  by (simp_all add: demo_audit_row_def audit_entry_row_def tail_point_def chain_tail_def
      chain_rows_def demo_request_def)

lemma demo_action: "aq_action demo_request \<noteq> CHAIN_SEALED_ACTION"
  by (simp add: demo_request_def CHAIN_SEALED_ACTION_def)

lemma demo_reach:
  "(audit_step demo_sha)\<^sup>*\<^sup>* (demo_world [] [] ls) (demo_world [demo_audit_row] [demo_audit_row] ls)"
proof -
  have "audit_step demo_sha (demo_world [] [] ls) (demo_world [] [demo_audit_row] ls)"
    using audit_step.Read_tail [OF demo_action, of demo_sha "demo_world [] [] ls" 7 0]
    by (simp add: demo_world_def demo_audit_row_def)
  moreover have "audit_step demo_sha (demo_world [] [demo_audit_row] ls)
    (demo_world [demo_audit_row] [demo_audit_row] ls)"
    using audit_step.Insert_row [of demo_audit_row "demo_world [] [demo_audit_row] ls" "[demo_audit_row]" demo_sha]
    by (simp add: demo_world_def insert_audit_def audit_fits_def)
  ultimately show ?thesis by (meson rtranclp.rtrancl_into_rtrancl rtranclp.rtrancl_refl)
qed

section \<open>Properties\<close>

text \<open>
  C37: however writers and buffered loggers of any number of companies race, the hash chain of
  every company, and of the events without a company, verifies in every reachable state, as long
  as no caller writes the reserved action of a seal, and no entry is added to a buffered logger
  while a flush of that logger awaits its commit (\<open>lost_entry_breaks_the_chain\<close> shows what happens
  otherwise). Flushes of one logger may overlap each other and everything else.
\<close>

theorem audit_chains_always_verify:
  assumes "digest_ok sha" and "audit_start sha w0" and "(audit_step sha)\<^sup>*\<^sup>* w0 w"
  shows "fst (verify_audit_chain sha c (ad_table w))"
  using ad_inv_reachable [OF assms(3,1) ad_inv_start [OF assms(2)]]
  by (simp add: ad_inv_def all_intact_def verify_audit_chain_def)

lemma audit_chains_always_verify_witness:
  "fst (verify_audit_chain demo_sha (Some 2) [demo_audit_row])"
  using audit_chains_always_verify [OF demo_digest demo_start demo_reach, of "Some 2"]
  by (simp add: demo_world_def)

text \<open>
  C38: two logs of a company that both verify and end in the same hash agree on every hashed
  column of every entry, those before a seal included, unless two of the texts hashed while
  verifying them collide, provided that in both logs no hashed text column holds the separator or
  is the word None where it may be missing, and ids and times are in range. Without that
  proviso it is false: \<open>bar_moves_between_columns\<close> and \<open>none_is_text\<close>.
\<close>

theorem verified_logs_agree:
  assumes "digest_ok sha"
    and "fst (verify_audit_chain sha c t)" and "fst (verify_audit_chain sha c u)"
    and "snd (tail_point c t) = snd (tail_point c u)"
    and "list_all plain_entry (chain_entries c t)" and "list_all plain_entry (chain_entries c u)"
    and "\<not> collision_between sha (hashed_texts (chain_entries c t)) (hashed_texts (chain_entries c u))"
  shows "map hashed_columns (chain_entries c t) = map hashed_columns (chain_entries c u)"
  using assms by (intro agree_or_collide) (simp_all add: verify_audit_chain_def tail_hash)

definition demo_changed_row :: audit_log where
  "demo_changed_row = demo_audit_row\<lparr>al_details := Some [(''k'', JInt 1)]\<rparr>"

lemma single_chain:
  "al_company_id r = c \<Longrightarrow> al_sequence_number r \<noteq> None \<Longrightarrow> chain_rows c [r] = [r]"
  by (simp add: chain_rows_def in_chain_def)

lemma demo_columns:
  "entry_from_row demo_changed_row = (entry_from_row demo_audit_row)\<lparr>pe_details := [(''k'', JInt 1)]\<rparr>"
  by (simp add: entry_from_row_def demo_changed_row_def dict_or_empty_def)

lemma demo_plain: "plain_entry (entry_from_row demo_audit_row)"
  by (simp add: plain_entry_def entry_from_row_def demo_audit_row_def chain_stamp_def
      audit_entry_row_def demo_request_def valid_uuid_def barless_def col_text_def Let_def)

lemma verified_logs_agree_witness:
  "map hashed_columns (chain_entries (Some 2) [demo_audit_row]) =
   map hashed_columns (chain_entries (Some 2) [demo_changed_row])"
proof -
  have rows: "chain_entries (Some 2) [demo_audit_row] = [entry_from_row demo_audit_row]"
    "chain_entries (Some 2) [demo_changed_row] = [entry_from_row demo_changed_row]"
    by (simp_all add: chain_entries_def single_chain demo_changed_row_def demo_seq)
  have same: "compute_entry_hash sha (e\<lparr>pe_details := d\<rparr>) p = compute_entry_hash sha e p"
    "entry_text (e\<lparr>pe_details := d\<rparr>) = entry_text e"
    "plain_entry (e\<lparr>pe_details := d\<rparr>) = plain_entry e"
    "is_seal (e\<lparr>pe_details := d\<rparr>) = is_seal e" for sha e d p
    by (simp_all add: compute_entry_hash_def entry_text_def hash_input_def plain_entry_def is_seal_def)
  have ok: "chain_is_intact demo_sha [entry_from_row demo_audit_row]"
    using audit_chains_always_verify_witness by (simp add: verify_audit_chain_def rows)
  have seal: "\<not> is_seal (entry_from_row demo_audit_row)"
    by (simp add: is_seal_def demo_audit_row_def chain_stamp_def audit_entry_row_def demo_request_def
        CHAIN_SEALED_ACTION_def Let_def)
  have ok': "chain_is_intact demo_sha [entry_from_row demo_changed_row]"
    using ok seal by (simp add: demo_columns chain_is_intact_def same split: if_splits)
  have "al_entry_hash demo_changed_row = al_entry_hash demo_audit_row"
    by (simp add: demo_changed_row_def)
  then show ?thesis
    by (intro verified_logs_agree [OF demo_digest])
      (simp_all add: verify_audit_chain_def rows ok ok' [unfolded demo_columns] tail_hash last_hash_def collision_between_def
        hashed_texts_def demo_columns same seal demo_plain)
qed

definition rewrite_unhashed ::
  "(uuid \<Rightarrow> dict option) \<Rightarrow> (uuid \<Rightarrow> string option) \<Rightarrow> audit_log \<Rightarrow> audit_log" where
  "rewrite_unhashed d ip r = r\<lparr>al_details := d (al_id r), al_ip_address := ip (al_id r)\<rparr>"

text \<open>
  The hash covers neither the details nor the address of an event: rewriting them in any
  rows, retention marks aside, leaves the verdict on every chain as it was.
\<close>

theorem unhashed_columns_unverified:
  "verify_audit_chain sha c (map (rewrite_unhashed d ip) t) = verify_audit_chain sha c t"
proof -
  let ?g = "rewrite_unhashed d ip"
  have g: "in_chain c (?g r) = in_chain c r" "row_seq (?g r) = row_seq r"
    "bare (entry_from_row (?g r)) = bare (entry_from_row r)" for r
    by (simp_all add: in_chain_def row_seq_def bare_def entry_from_row_def rewrite_unhashed_def)
  have "chain_is_intact sha (chain_entries c (map ?g t)) = chain_is_intact sha (chain_entries c t)"
    by (rule verdict_map) (simp_all only: g)
  then show ?thesis
    by (simp add: verify_audit_chain_def chain_entries_def chain_rows_map g)
qed

text \<open>
  C39: what \<open>record_audit\<close> leaves, with and without \<open>raise_on_error\<close>. Either it stored the row it was
  asked for as the last row of the log: the request's columns, the next number and the hash after
  the tail it read, which is the table at its start with rows other writers committed, no row at
  its place, and it answers that it is done. Or it stored nothing, because in each of its five
  attempts the statement itself failed or another writer of the same company committed between
  the read of the tail and the insert; then it reports a failure if the caller asked for that,
  and otherwise still answers that it is done.
\<close>

theorem audit_row_written_or_raced:
  assumes "record_audit sha weather i now q raising t = (t', outcome)" and "id_unused i t weather"
  shows "(outcome = AuditDone \<and> (\<exists>ms ns r. t' = t @ ms @ ns @ [r] \<and> asked_row sha i now q (t @ ms) r \<and>
       audit_fits (t @ ms @ ns) r)) \<or>
    (outcome = (if raising then AuditFailed else AuditDone) \<and> i \<notin> al_id ` set t' \<and>
     (\<forall>k < AUDIT_ATTEMPTS. aw_fails (weather k) \<or>
        (\<exists>m \<in> set (aw_between (weather k)). al_company_id m = aq_company_id q)))"
proof -
  obtain u ok where "chain_retry sha AUDIT_ATTEMPTS weather t (audit_entry_row i now q) = (u, ok)"
    by fastforce
  from this retry_outcome [OF this assms(2)] assms(1) show ?thesis
    by (cases ok) (auto simp: record_audit_def)
qed

definition rival_weather :: "bool \<Rightarrow> nat \<Rightarrow> audit_weather" where
  "rival_weather fails k = \<lparr>aw_before = [], aw_between = [], aw_fails = fails\<rparr>"

lemma audit_row_written_or_raced_witness:
  "record_audit demo_sha (rival_weather True) 7 0 demo_request True [demo_audit_row\<lparr>al_id := 9\<rparr>] =
     ([demo_audit_row\<lparr>al_id := 9\<rparr>], AuditFailed) \<and>
   7 \<notin> al_id ` set [demo_audit_row\<lparr>al_id := 9\<rparr>] \<and>
   (\<exists>ms ns r. fst (record_audit demo_sha (rival_weather False) 7 0 demo_request False []) = [] @ ms @ ns @ [r] \<and>
      asked_row demo_sha 7 0 demo_request ([] @ ms) r)"
proof -
  let ?t = "[demo_audit_row\<lparr>al_id := 9\<rparr>]"
  have run: "record_audit demo_sha (rival_weather True) 7 0 demo_request True ?t = (?t, AuditFailed)"
    by (simp add: record_audit_def AUDIT_ATTEMPTS_def eval_nat_numeral rival_weather_def Let_def)
  have "id_unused 7 ?t (rival_weather True)" by (simp add: id_unused_def rival_weather_def)
  from audit_row_written_or_raced [OF run this] run
  have first: "7 \<notin> al_id ` set ?t" by simp
  let ?run = "record_audit demo_sha (rival_weather False) 7 0 demo_request False []"
  have "id_unused 7 [] (rival_weather False)" by (simp add: id_unused_def rival_weather_def)
  from audit_row_written_or_raced [of demo_sha "rival_weather False" 7 0 demo_request False "[]"
      "fst ?run" "snd ?run", OF _ this]
  have "(\<exists>ms ns r. fst ?run = [] @ ms @ ns @ [r] \<and> asked_row demo_sha 7 0 demo_request ([] @ ms) r) \<or>
    (\<forall>k < AUDIT_ATTEMPTS. aw_fails (rival_weather False k) \<or>
      (\<exists>m \<in> set (aw_between (rival_weather False k)). al_company_id m = aq_company_id demo_request))"
    by (simp only: prod.collapse) blast
  moreover have "0 < AUDIT_ATTEMPTS" "\<not> (aw_fails (rival_weather False 0) \<or>
      (\<exists>m \<in> set (aw_between (rival_weather False 0)). al_company_id m = aq_company_id demo_request))"
    by (simp_all add: rival_weather_def AUDIT_ATTEMPTS_def)
  ultimately have "\<exists>ms ns r. fst ?run = [] @ ms @ ns @ [r] \<and> asked_row demo_sha 7 0 demo_request ([] @ ms) r"
    by blast
  with run first show ?thesis by blast
qed

text \<open>
  Once a flush of a buffered logger was refused, every later flush of its buffer, however
  many entries were added and whatever else happened, is refused and stores nothing.
\<close>

theorem lost_logger_never_flushes:
  assumes "flush_buffer (ad_table w) l = (t1, l1, Inl FlushRefused)"
    and "(audit_step sha)\<^sup>*\<^sup>* w w'"
  shows "flush_buffer (ad_table w') (l\<lparr>lg_buffer := lg_buffer l @ es\<rparr>) =
    (ad_table w', l\<lparr>lg_buffer := lg_buffer l @ es\<rparr>, Inl FlushRefused)"
proof -
  have "lg_buffer l \<noteq> []" and "insert_audits (ad_table w) (map entry_to_row (lg_buffer l)) = None"
    using assms(1) by (auto simp: flush_buffer_def flush_commit_def split: if_splits option.splits)
  with refused_more [OF _ reach_keys [OF assms(2)]] show ?thesis
    by (simp add: flush_buffer_def flush_commit_def)
qed

lemma lost_logger_never_flushes_witness:
  "snd (snd (flush_buffer [demo_audit_row] (demo_full_logger\<lparr>lg_buffer := lg_buffer demo_full_logger @ []\<rparr>)))
    = Inl FlushRefused"
proof -
  let ?w = "demo_world [demo_audit_row] [demo_audit_row] (Map.empty(0 \<mapsto> demo_full_logger))"
  have log: "demo_full_logger = demo_logger\<lparr>lg_sequence := 1,
      lg_last_hash := pe_entry_hash (logger_entry demo_sha 8 0 demo_request demo_logger),
      lg_buffer := [logger_entry demo_sha 8 0 demo_request demo_logger]\<rparr>"
    by (simp add: demo_full_logger_def log_entry_def append_entry_def buffer_full_def demo_logger_def resume_def new_logger_def
        chain_tail_def chain_rows_def demo_request_def Let_def)
  have "al_sequence_number (entry_to_row (logger_entry demo_sha 8 0 demo_request demo_logger)) = Some 1"
    "al_company_id (entry_to_row (logger_entry demo_sha 8 0 demo_request demo_logger)) = Some 2"
    by (simp_all add: entry_to_row_def logger_entry_def demo_logger_def resume_def new_logger_def
        chain_tail_def chain_rows_def Let_def)
  then have "flush_buffer (ad_table ?w) demo_full_logger = ([demo_audit_row], demo_full_logger, Inl FlushRefused)"
    by (simp add: flush_buffer_def flush_commit_def log insert_audit_def audit_fits_def demo_world_def demo_seq)
  from lost_logger_never_flushes [OF this, of demo_sha ?w "[]"] show ?thesis
    by (simp add: demo_world_def)
qed

text \<open>
  An entry that is added to a logger while its flush awaits the commit was answered with success
  and counted as flushed, but is stored nowhere: it is not among the rows and no longer in the
  buffer, while the logger's next entry links to it.
\<close>

theorem entry_logged_during_a_flush_is_lost:
  assumes "append_entry sha i now q l = (l1, Inr e)"
    and "flush_commit t (lg_buffer l) l1 = (t', l2, Inr n)"
  shows "t' = t @ map entry_to_row (lg_buffer l) \<and> lg_buffer l2 = [] \<and>
    n = Suc (length (lg_buffer l)) \<and> pe_previous_hash (logger_entry sha j now' q' l2) = pe_entry_hash e \<and>
    pe_sequence_number (logger_entry sha j now' q' l2) = pe_sequence_number e + 1"
proof -
  have ins: "insert_audits t (map entry_to_row (lg_buffer l)) = Some t'"
    and l2: "l2 = l1\<lparr>lg_buffer := []\<rparr>" "n = length (lg_buffer l1)"
    using assms(2) by (auto simp: flush_commit_def split: option.splits)
  from assms(1) have e: "e = logger_entry sha i now q l" "l1 = l\<lparr>lg_sequence := lg_sequence l + 1,
      lg_last_hash := pe_entry_hash e, lg_buffer := lg_buffer l @ [e]\<rparr>"
    by (auto simp: append_entry_def Let_def split: if_splits)
  have "pe_sequence_number e = lg_sequence l + 1" by (simp add: e(1) logger_entry_def Let_def)
  with batch_rows [OF ins] l2 e(2) show ?thesis by (simp add: logger_entry_def Let_def)
qed

lemma intact_lastD:
  assumes "chain_is_intact sha (es @ [e])" and "\<not> is_seal e"
  shows "pe_previous_hash e = last_hash GENESIS es"
proof (cases "dropWhile (\<lambda>e. \<not> is_seal e) es")
  case Nil
  then have "dropWhile (\<lambda>e. \<not> is_seal e) (es @ [e]) = []"
    using assms(2) by (auto simp: dropWhile_eq_Nil_conv)
  with assms(1) show ?thesis by (simp add: chain_is_intact_def links_append split: if_splits)
next
  case (Cons s r)
  then have "\<exists>x \<in> set es. is_seal x" by (metis dropWhile_eq_Nil_conv list.distinct(1))
  then have dw: "dropWhile (\<lambda>e. \<not> is_seal e) (es @ [e]) = s # r @ [e]"
    using Cons by (auto simp: dropWhile_append)
  obtain u where "es = u @ s # r"
    using Cons takeWhile_dropWhile_id [of "\<lambda>e. \<not> is_seal e" es] by metis
  then have last: "last_hash p (s # r) = last_hash GENESIS es" for p
    by (auto simp: last_hash_def simp del: last_hash_simps)
  from assms(1) obtain p where "links_intact sha p ((s # r) @ [e])"
    by (auto simp: chain_is_intact_def Let_def dw simp del: links_intact.simps split: if_splits)
  then show ?thesis
    by (simp only: links_append last links_single chain_links_def)
qed

lemma later_row_last:
  assumes "al_company_id n = c" and "al_sequence_number n = Some s" and "fst (tail_point c t) \<le> s"
  shows "chain_rows c (t @ [n]) = chain_rows c t @ [n]"
proof -
  have "row_seq r \<le> row_seq n" if "r \<in> set (filter (in_chain c) t)" for r
    using below_tail [of r c t] that assms(2,3) by (auto simp: set_chain_rows row_seq_def col_int_def)
  then have "sort_key row_seq (filter (in_chain c) t @ [n]) = chain_rows c t @ [n]"
    unfolding chain_rows_def by (rule sort_key_snoc)
  with assms show ?thesis by (simp add: chain_rows_def in_chain_def)
qed

text \<open>
  So once the logger's next entry is flushed the chain of its company no longer verifies: \<open>t'\<close> ends
  where the flush left it, \<open>e\<close> is the lost entry, whose hash is not the one before it.
\<close>

theorem lost_entry_breaks_the_chain:
  assumes "append_entry sha i now q l = (l1, Inr e)"
    and "flush_commit t (lg_buffer l) l1 = (t', l2, Inr n)"
    and "tail_point (lg_company_id l) t' = (lg_sequence l, lg_last_hash l)" and "pe_entry_hash e \<noteq> lg_last_hash l"
    and "append_entry sha j now' q' l2 = (l3, Inr e')" and "aq_action q' \<noteq> CHAIN_SEALED_ACTION"
    and "flush_buffer t' l3 = (u, l4, Inr m)"
  shows "\<not> fst (verify_audit_chain sha (lg_company_id l) u)"
proof
  let ?c = "lg_company_id l" and ?n = "entry_to_row e'"
  note lost = entry_logged_during_a_flush_is_lost [OF assms(1,2), of j now' q']
  from assms(1) have e: "e = logger_entry sha i now q l" by (auto simp: append_entry_def Let_def split: if_splits)
  from assms(1,2) have c: "lg_company_id l2 = ?c"
    by (auto simp: append_entry_def flush_commit_def Let_def split: if_splits option.splits)
  from assms(5) lost have e': "e' = logger_entry sha j now' q' l2" and "lg_buffer l3 = [e']"
    by (auto simp: append_entry_def Let_def split: if_splits)
  with assms(7) have ins: "insert_audits t' (map entry_to_row [e']) = Some u"
    by (auto simp: flush_buffer_def flush_commit_def split: option.splits if_splits)
  have row: "al_company_id ?n = ?c" "al_sequence_number ?n = Some (lg_sequence l + 2)"
    using lost e c by (simp_all add: e' logger_entry_def Let_def)
  have "chain_rows ?c u = chain_rows ?c t' @ [?n]"
    using batch_rows [OF ins] later_row_last [OF row] assms(3) by simp
  then have entries: "chain_entries ?c u = chain_entries ?c t' @ [entry_from_row ?n]"
    by (simp add: chain_entries_def)
  have "\<not> is_seal (entry_from_row ?n)"
    using assms(6) by (simp add: is_seal_def e' entry_to_row_def logger_entry_def Let_def)
  moreover assume "fst (verify_audit_chain sha ?c u)"
  ultimately have "pe_previous_hash (entry_from_row ?n) = last_hash GENESIS (chain_entries ?c t')"
    using entries intact_lastD [of sha "chain_entries ?c t'" "entry_from_row ?n"] unfolding verify_audit_chain_def
    by simp
  moreover have "pe_previous_hash (entry_from_row ?n) = pe_entry_hash e"
    using lost by (simp add: e' entry_to_row_def)
  ultimately show False using assms(3,4) tail_hash [of ?c t'] by simp
qed

text \<open>Dropping the newest rows leaves a chain that still verifies.\<close>

lemma links_prefix: "links_intact sha p (es @ fs) \<Longrightarrow> links_intact sha p es"
  by (simp add: links_append)

text \<open>
  Entries that a bar separates differently are hashed to the same digest, and so are a missing
  resource and the text None.
\<close>

lemma bar_moves_between_columns:
  "compute_entry_hash sha (e\<lparr>pe_actor_type := ''a|b'', pe_actor_id := ''c''\<rparr>) p =
   compute_entry_hash sha (e\<lparr>pe_actor_type := ''a'', pe_actor_id := ''b|c''\<rparr>) p"
  by (simp add: compute_entry_hash_def hash_input_def)

lemma none_is_text:
  "compute_entry_hash sha (e\<lparr>pe_resource_id := None\<rparr>) p =
   compute_entry_hash sha (e\<lparr>pe_resource_id := Some ''None''\<rparr>) p"
  by (simp add: compute_entry_hash_def hash_input_def opt_text_def)

text \<open>Retention keeps every row and archives each of the rows it marks once.\<close>

lemma retention_keeps_rows:
  assumes "enforce_retention ps now t archive = (t', archive', Inr n)"
  shows "map al_id t' = map al_id t" and "n = length archive' - length archive"
    and "\<And>r. r \<in> set archive' \<Longrightarrow> r \<in> set archive \<or> r \<in> set t'"
proof -
  let ?P = "past_retention ps now"
  have r: "t' = update_where ?P (archive_mark now) t"
    "archive' = archive @ map (archive_mark now) (filter ?P t)" "n = matching ?P t"
    using assms by (auto simp: enforce_retention_def Let_def split: if_splits)
  show "map al_id t' = map al_id t"
    by (simp add: r(1) map_update_where archive_mark_def)
  show "n = length archive' - length archive" by (simp add: r matching_def)
  show "r \<in> set archive \<or> r \<in> set t'" if "r \<in> set archive'" for r
    using that by (auto simp: r(1,2) set_update_where)
qed

text \<open>With a full page of stored rows the newer, buffered entries of an actor are not shown.\<close>

lemma full_page_hides_buffer:
  assumes "limit \<le> length (filter (\<lambda>r. al_actor_id r = Some actor \<and>
    (col_text at = [] \<or> Some (al_actor_type r) = at)) t)"
  shows "query_by_actor actor at limit t l = query_by_actor actor at limit t (l\<lparr>lg_buffer := []\<rparr>)"
proof -
  have skip: "fold (\<lambda>e res. if limit \<le> length res then res else F e res) es res = res"
    if "limit \<le> length res" for F :: "audit_entry \<Rightarrow> audit_entry list \<Rightarrow> audit_entry list" and es res
    using that by (induction es) simp_all
  show ?thesis
    unfolding query_by_actor_def Let_def by (subst skip) (use assms in simp_all)
qed

end
