(* ===== verification/Organization.thy ===== *)
theory Organization
  imports Identity "HOL-Library.List_Lexorder" "HOL-Library.Char_ord"
begin

text \<open>
  The reporting lines of a company (\<open>services/ceo_service.py\<close>: \<open>resolve_manager\<close>,
  \<open>release_reports\<close>, \<open>appoint\<close>, \<open>remove\<close>; the routes of \<open>api/routes/agents.py\<close> and
  \<open>services/agent_service.py\<close> that place, move and delete agents; \<open>models/agent.py\<close>). Every
  change runs under the hierarchy lock of its company, so one call is one step; what the
  routes read before they take the lock is an argument. Published events are left out.
\<close>

section \<open>Agents\<close>

record org_agent =
  oa_id :: uuid
  oa_company_id :: uuid
  oa_name :: string
  oa_role :: string
  oa_title :: "string option"
  oa_department_id :: "uuid option"
  oa_team_id :: "uuid option"
  oa_manager_id :: "uuid option"
  oa_is_ceo :: bool
  oa_status :: string
  oa_adapter_type :: string
  oa_adapter_config :: "dict option"
  oa_model :: "string option"
  oa_connection_id :: "uuid option"
  oa_capabilities :: "string list option"
  oa_responsibilities :: "string option"
  oa_objectives :: "string option"
  oa_soul_description :: "string option"
  oa_autonomy_policy :: "dict option"
  oa_budget_monthly_cents :: int
  oa_paused_at :: "time option"
  oa_updated_at :: time

record org_db =
  od_agents :: "org_agent list"
  od_audit :: "audit_row list"
  od_audit_up :: bool

record org_error =
  oe_status :: int
  oe_code :: string

definition org_error :: "int \<Rightarrow> string \<Rightarrow> org_error" where
  "org_error st code = \<lparr>oe_status = st, oe_code = code\<rparr>"

text \<open>
  \<open>record_audit\<close> without \<open>raise_on_error\<close>: a row that cannot be chained is logged as an error and
  left out, and the caller's transaction goes on. \<open>od_audit_up\<close> says whether the log takes rows.
\<close>

definition best_effort_audit :: "audit_row \<Rightarrow> org_db \<Rightarrow> org_db" where
  "best_effort_audit r db = (if od_audit_up db then db\<lparr>od_audit := od_audit db @ [r]\<rparr> else db)"

text \<open>\<open>ms.audit\<close>: the actor's kind is read off the text it starts with.\<close>

definition label_starts :: "string \<Rightarrow> label \<Rightarrow> bool" where
  "label_starts p l = (case l of Txt s # _ \<Rightarrow> starts_with p s | _ \<Rightarrow> False)"

definition label_kind :: "label \<Rightarrow> string" where
  "label_kind l =
    (if label_starts ''agent:'' l \<or> label_starts ''run:'' l then ''agent''
     else if label_starts ''policy:'' l then ''system'' else ''user'')"

definition org_audit :: "uuid \<Rightarrow> string \<Rightarrow> label \<Rightarrow> string \<Rightarrow> uuid \<Rightarrow> dict \<Rightarrow> org_db \<Rightarrow> org_db" where
  "org_audit cid action who rtype rid details db =
    db\<lparr>od_audit := od_audit db @ [\<lparr>au_company_id = cid, au_action = action,
       au_actor_type = label_kind who, au_actor_id = Some who, au_resource_type = rtype,
       au_resource_id = rid, au_details = details\<rparr>]\<rparr>"

definition get_org_agent :: "uuid \<Rightarrow> uuid \<Rightarrow> org_db \<Rightarrow> org_agent option" where
  "get_org_agent cid aid db = find (\<lambda>a. oa_id a = aid \<and> oa_company_id a = cid) (od_agents db)"

definition get_company_agent :: "uuid \<Rightarrow> uuid \<Rightarrow> org_db \<Rightarrow> org_error + org_agent" where
  "get_company_agent cid aid db = (case get_org_agent cid aid db of
     None \<Rightarrow> Inl (org_error 404 ''AGENT_NOT_FOUND'') | Some a \<Rightarrow> Inr a)"

definition direct_reports :: "uuid \<Rightarrow> uuid \<Rightarrow> org_db \<Rightarrow> org_agent list" where
  "direct_reports cid manager db =
    sort_key oa_name (sort_key oa_id
      (filter (\<lambda>a. oa_company_id a = cid \<and> oa_manager_id a = Some manager) (od_agents db)))"

definition current_ceo :: "uuid \<Rightarrow> org_db \<Rightarrow> org_agent option" where
  "current_ceo cid db = find (\<lambda>a. oa_company_id a = cid \<and> oa_is_ceo a) (od_agents db)"

definition designated_ceo :: "uuid \<Rightarrow> uuid option \<Rightarrow> org_db \<Rightarrow> bool" where
  "designated_ceo cid aid db \<longleftrightarrow>
    (case aid of None \<Rightarrow> False
     | Some i \<Rightarrow> list_ex (\<lambda>a. oa_id a = i \<and> oa_company_id a = cid \<and> oa_is_ceo a) (od_agents db))"

definition require_designated :: "uuid \<Rightarrow> uuid option \<Rightarrow> org_db \<Rightarrow> org_error option" where
  "require_designated cid aid db = (if designated_ceo cid aid db then None else Some (org_error 403 ''NOT_CEO''))"

definition require_owner :: "bool \<Rightarrow> principal \<Rightarrow> org_error option" where
  "require_owner bypass p =
    (if p_role p \<noteq> ''admin'' \<or> \<not> is_human bypass p
     then Some (org_error 403 ''CEO_APPOINTMENT_FORBIDDEN'') else None)"

section \<open>Choosing a manager\<close>

definition manager_in :: "org_agent list \<Rightarrow> uuid \<Rightarrow> uuid \<Rightarrow> uuid option" where
  "manager_in as cid aid =
    Option.bind (find (\<lambda>a. oa_id a = aid \<and> oa_company_id a = cid) as) oa_manager_id"

text \<open>The agents a walk has not met, which bound its length.\<close>

definition unseen :: "org_agent list \<Rightarrow> uuid list \<Rightarrow> uuid set" where
  "unseen as seen = oa_id ` set as - set seen"

text \<open>
  Walking up from a manager: \<open>True\<close> when the walk meets \<open>target\<close>. An agent that was seen, or that
  is not in the company, ends it.
\<close>

function walk_up :: "org_agent list \<Rightarrow> uuid \<Rightarrow> uuid option \<Rightarrow> uuid option \<Rightarrow> uuid list \<Rightarrow> bool" where
  "walk_up as cid target cursor seen =
    (case cursor of
       None \<Rightarrow> False
     | Some c \<Rightarrow>
         if c \<in> set seen then False
         else if Some c = target then True
         else walk_up as cid target (manager_in as cid c) (c # seen))"
  by pat_completeness auto

termination
proof (relation "measure (\<lambda>(as, cid, target, cursor, seen).
    2 * card (unseen as seen) + (if cursor = None then 0 else 1))", simp)
  fix as :: "org_agent list" and cid :: uuid and target cursor :: "uuid option" and seen :: "uuid list" and c
  assume c: "cursor = Some c" "c \<notin> set seen"
  show "((as, cid, target, manager_in as cid c, c # seen), as, cid, target, cursor, seen)
    \<in> measure (\<lambda>(as, cid, target, cursor, seen).
      2 * card (unseen as seen) + (if cursor = None then 0 else 1))"
  proof (cases "c \<in> oa_id ` set as")
    case True
    with c(2) have "unseen as (c # seen) \<subset> unseen as seen" by (auto simp: unseen_def)
    then have "card (unseen as (c # seen)) < card (unseen as seen)"
      by (rule psubset_card_mono [rotated]) (simp add: unseen_def)
    with c show ?thesis by simp
  next
    case False
    then have "find (\<lambda>a. oa_id a = c \<and> oa_company_id a = cid) as = None"
      by (auto simp: find_None_iff)
    then have "manager_in as cid c = None" by (simp add: manager_in_def)
    moreover have "card (unseen as (c # seen)) \<le> card (unseen as seen)"
      by (rule card_mono) (auto simp: unseen_def)
    ultimately show ?thesis using c by simp
  qed
qed

declare walk_up.simps [simp del]

definition resolve_manager ::
  "uuid \<Rightarrow> uuid option \<Rightarrow> uuid option \<Rightarrow> org_db \<Rightarrow> org_error + uuid option" where
  "resolve_manager cid aid manager db =
    (let ceo = current_ceo cid db
     in if ceo \<noteq> None \<and> map_option oa_id ceo = aid then
          if manager \<noteq> None then Inl (org_error 409 ''CEO_IS_ROOT'') else Inr None
        else case manager of
          None \<Rightarrow> Inr (map_option oa_id ceo)
        | Some m \<Rightarrow>
            if Some m = aid then Inl (org_error 409 ''MANAGER_CYCLE'')
            else if get_org_agent cid m db = None then Inl (org_error 404 ''MANAGER_NOT_FOUND'')
            else if walk_up (od_agents db) cid aid (Some m) [] then Inl (org_error 409 ''MANAGER_CYCLE'')
            else Inr (Some m))"

section \<open>Placing, moving and deleting agents\<close>

text \<open>The gate of the write routes: \<open>require_permission\<close> and \<open>principal_kinds\<close> of \<open>api/deps.py\<close>.\<close>

definition write_agent_gate :: "principal \<Rightarrow> org_error option" where
  "write_agent_gate p =
    (if \<not> has_permission p ''write'' ''agent'' (Some ''*'') then Some (org_error 403 ''PERMISSION'')
     else if p_kind p \<notin> {User, Service} then Some (org_error 403 ''PRINCIPAL_KIND_FORBIDDEN'')
     else None)"

text \<open>A new agent: the manager is resolved, and a primary key that exists refuses the insert.\<close>

definition create_org_agent :: "org_agent \<Rightarrow> org_db \<Rightarrow> org_error + org_db" where
  "create_org_agent a db =
    (case resolve_manager (oa_company_id a) None (oa_manager_id a) db of
       Inl e \<Rightarrow> Inl e
     | Inr m \<Rightarrow>
         if oa_id a \<in> oa_id ` set (od_agents db) then Inl (org_error 500 ''INTEGRITY'')
         else Inr (db\<lparr>od_agents := od_agents db @ [a\<lparr>oa_manager_id := m, oa_is_ceo := False\<rparr>]\<rparr>))"

definition manager_change :: "uuid \<Rightarrow> uuid option \<Rightarrow> uuid option \<Rightarrow> dict" where
  "manager_change aid before after =
    [(''agent_id'', JId aid), (''previous_manager_id'', opt_json JId before), (''manager_id'', opt_json JId after)]"

definition is_agent :: "uuid \<Rightarrow> uuid \<Rightarrow> org_agent \<Rightarrow> bool" where
  "is_agent cid aid a \<longleftrightarrow> oa_id a = aid \<and> oa_company_id a = cid"

definition move_to :: "time \<Rightarrow> uuid option \<Rightarrow> org_agent \<Rightarrow> org_agent" where
  "move_to now m a = a\<lparr>oa_manager_id := m, oa_updated_at := now\<rparr>"

text \<open>\<open>seen_manager\<close> is the manager of the copy the route read before it took the lock.\<close>

definition set_agent_manager ::
  "time \<Rightarrow> principal \<Rightarrow> uuid \<Rightarrow> uuid \<Rightarrow> uuid option \<Rightarrow> uuid option \<Rightarrow> org_db \<Rightarrow> org_db \<times> (org_error + unit)" where
  "set_agent_manager now p cid aid seen_manager manager db =
    (if write_agent_gate p \<noteq> None then (db, Inl (the (write_agent_gate p)))
     else if get_org_agent cid aid db = None then (db, Inl (org_error 404 ''AGENT_NOT_FOUND''))
     else case resolve_manager cid (Some aid) manager db of
       Inl e \<Rightarrow> (db, Inl e)
     | Inr target \<Rightarrow>
         if seen_manager = target then (db, Inr ())
         else
           let db1 = db\<lparr>od_agents := update_where (is_agent cid aid) (move_to now target) (od_agents db)\<rparr>
           in (best_effort_audit \<lparr>au_company_id = cid, au_action = ''agent.manager_changed'',
                 au_actor_type = ''user'', au_actor_id = map_option (\<lambda>u. [Uid u]) (p_user_id p),
                 au_resource_type = ''agent'', au_resource_id = aid,
                 au_details = manager_change aid seen_manager target\<rparr> db1, Inr ()))"

text \<open>Before an agent is deleted its reports go to the CEO, or become roots.\<close>

definition reports_to :: "uuid \<Rightarrow> uuid \<Rightarrow> org_agent \<Rightarrow> bool" where
  "reports_to cid m a \<longleftrightarrow> oa_company_id a = cid \<and> oa_manager_id a = Some m"

definition release_reports :: "uuid \<Rightarrow> uuid \<Rightarrow> org_db \<Rightarrow> org_db" where
  "release_reports cid aid db =
    (let target = (case current_ceo cid db of
           None \<Rightarrow> None | Some c \<Rightarrow> if oa_id c \<noteq> aid then Some (oa_id c) else None)
     in db\<lparr>od_agents := update_where (reports_to cid aid) (\<lambda>a. a\<lparr>oa_manager_id := target\<rparr>) (od_agents db)\<rparr>)"

text \<open>
  An agent that has a worktree or open work is refused; one that any other row refers to is
  refused by the database, and the rollback undoes the release.
\<close>

definition delete_org_agent ::
  "principal \<Rightarrow> uuid \<Rightarrow> uuid \<Rightarrow> bool \<Rightarrow> bool \<Rightarrow> bool \<Rightarrow> org_db \<Rightarrow> org_db \<times> (org_error + unit)" where
  "delete_org_agent p cid aid has_worktree owns_work referenced db =
    (if write_agent_gate p \<noteq> None then (db, Inl (the (write_agent_gate p)))
     else if get_org_agent cid aid db = None then (db, Inl (org_error 404 ''AGENT_NOT_FOUND''))
     else if has_worktree then (db, Inl (org_error 409 ''AGENT_HAS_WORKTREES''))
     else if owns_work then (db, Inl (org_error 409 ''AGENT_OWNS_ACTIVE_WORK''))
     else
       let db1 = release_reports cid aid db
       in if referenced then (db, Inl (org_error 409 ''AGENT_HAS_HISTORY''))
          else (db1\<lparr>od_agents := filter (\<lambda>a. \<not> is_agent cid aid a) (od_agents db1)\<rparr>, Inr ()))"

section \<open>The CEO\<close>

definition terminated :: "org_agent \<Rightarrow> bool" where
  "terminated a \<longleftrightarrow> oa_status a = ''terminated''"

definition live_root :: "org_agent \<Rightarrow> bool" where
  "live_root a \<longleftrightarrow> oa_manager_id a = None \<and> \<not> terminated a"

definition joining :: "uuid \<Rightarrow> uuid \<Rightarrow> org_agent option \<Rightarrow> org_agent \<Rightarrow> bool" where
  "joining cid aid previous a \<longleftrightarrow> oa_company_id a = cid \<and> oa_id a \<noteq> aid \<and>
     (live_root a \<or> (case previous of None \<Rightarrow> False | Some p \<Rightarrow> oa_manager_id a = Some (oa_id p)))"

text \<open>The rows of the designation: the former CEO loses it, the new one becomes a root.\<close>

definition hand_over :: "time \<Rightarrow> uuid \<Rightarrow> uuid \<Rightarrow> org_agent \<Rightarrow> org_agent" where
  "hand_over now cid aid a =
    (if is_agent cid aid a then a\<lparr>oa_manager_id := None, oa_is_ceo := True, oa_updated_at := now\<rparr>
     else if oa_company_id a = cid \<and> oa_is_ceo a then a\<lparr>oa_is_ceo := False, oa_updated_at := now\<rparr>
     else a)"

definition audit_moves :: "uuid \<Rightarrow> label \<Rightarrow> string \<Rightarrow> dict list \<Rightarrow> org_db \<Rightarrow> org_db" where
  "audit_moves cid who reason changes db =
    fold (\<lambda>c. org_audit cid ''agent.manager_changed'' who ''agent''
        (case map_of c ''agent_id'' of Some (JId u) \<Rightarrow> u | _ \<Rightarrow> 0) (c @ [(''reason'', JStr reason)])) changes db"

definition appoint ::
  "bool \<Rightarrow> time \<Rightarrow> uuid \<Rightarrow> uuid \<Rightarrow> principal \<Rightarrow> uuid option \<Rightarrow> org_db \<Rightarrow> org_db \<times> (org_error + unit)" where
  "appoint bypass now cid aid p replaces db =
    (case require_owner bypass p of
       Some e \<Rightarrow> (db, Inl e)
     | None \<Rightarrow>
         (case get_org_agent cid aid db of
            None \<Rightarrow> (db, Inl (org_error 404 ''AGENT_NOT_FOUND''))
          | Some a \<Rightarrow>
              if terminated a then (db, Inl (org_error 409 ''AGENT_NOT_ACTIVE''))
              else
                let previous = current_ceo cid db
                in if map_option oa_id previous = Some aid then (db, Inr ())
                   else if map_option oa_id previous \<noteq> replaces then (db, Inl (org_error 409 ''CEO_CONFLICT''))
                   else
                     let as1 = map (hand_over now cid aid) (od_agents db);
                         rows = sort_key oa_name (sort_key oa_id (filter (joining cid aid previous) as1));
                         changes = (case oa_manager_id a of None \<Rightarrow> []
                                    | Some m \<Rightarrow> [manager_change aid (Some m) None]) @
                                   map (\<lambda>r. manager_change (oa_id r) (oa_manager_id r) (Some aid)) rows;
                         former = length (filter (\<lambda>r. previous \<noteq> None \<and> oa_manager_id r = map_option oa_id previous) rows);
                         db1 = db\<lparr>od_agents := update_where (joining cid aid previous) (move_to now (Some aid)) as1\<rparr>;
                         db2 = audit_moves cid (display_name p) ''ceo_root'' changes db1
                     in (org_audit cid (if previous \<noteq> None then ''organization.ceo_replaced''
                             else ''organization.ceo_appointed'') (display_name p) ''agent'' aid
                           [(''ceo_id'', JId aid), (''previous_ceo_id'', opt_json JId (map_option oa_id previous)),
                            (''reparented'', JInt (int (length rows))),
                            (''former_ceo_reports'', JInt (int former))] db2, Inr ())))"

definition remove_ceo :: "bool \<Rightarrow> time \<Rightarrow> uuid \<Rightarrow> principal \<Rightarrow> org_db \<Rightarrow> org_db \<times> (org_error + unit)" where
  "remove_ceo bypass now cid p db =
    (case require_owner bypass p of
       Some e \<Rightarrow> (db, Inl e)
     | None \<Rightarrow>
         (case current_ceo cid db of
            None \<Rightarrow> (db, Inl (org_error 404 ''NO_CEO''))
          | Some c \<Rightarrow>
              let as1 = map (\<lambda>a. if is_agent cid (oa_id c) a then a\<lparr>oa_is_ceo := False, oa_updated_at := now\<rparr> else a)
                          (od_agents db);
                  reports = direct_reports cid (oa_id c) (db\<lparr>od_agents := as1\<rparr>);
                  changes = map (\<lambda>r. manager_change (oa_id r) (Some (oa_id c)) None) reports;
                  db1 = db\<lparr>od_agents := update_where (reports_to cid (oa_id c)) (move_to now None) as1\<rparr>;
                  db2 = audit_moves cid (display_name p) ''ceo_removed'' changes db1
              in (org_audit cid ''organization.ceo_removed'' (display_name p) ''agent'' (oa_id c)
                    [(''previous_ceo_id'', JId (oa_id c)), (''released_roots'', JInt (int (length reports)))] db2,
                  Inr ())))"

section \<open>The other writers of agent rows\<close>

text \<open>
  The services that rewrite an agent outside the routes (\<open>AgentService.update_agent\<close>, which refuses
  the designation, the reporting line and the tenant; the orchestrator, the executor, the
  lifecycle manager) change some columns of one row.
\<close>

definition rewrite_agent :: "uuid \<Rightarrow> (org_agent \<Rightarrow> org_agent) \<Rightarrow> org_db \<Rightarrow> org_db" where
  "rewrite_agent aid f db = db\<lparr>od_agents := update_where (\<lambda>a. oa_id a = aid) f (od_agents db)\<rparr>"

definition same_place :: "org_agent \<Rightarrow> org_agent \<Rightarrow> bool" where
  "same_place a b \<longleftrightarrow> oa_id b = oa_id a \<and> oa_company_id b = oa_company_id a \<and>
    oa_manager_id b = oa_manager_id a \<and> oa_is_ceo b = oa_is_ceo a"

definition NEEDS_RECOVERY :: string where
  "NEEDS_RECOVERY = ''needs_recovery''"

text \<open>
  The watchdog closes a stalled run and parks its agent, whatever status the agent had:
  \<open>run_open\<close> says that the run is the agent's and is not finished.
\<close>

definition reclaim_stalled_run :: "uuid \<Rightarrow> uuid \<Rightarrow> bool \<Rightarrow> org_db \<Rightarrow> org_db" where
  "reclaim_stalled_run cid aid run_open db =
    (if run_open then db\<lparr>od_agents := update_where (is_agent cid aid)
         (\<lambda>a. a\<lparr>oa_status := NEEDS_RECOVERY\<rparr>) (od_agents db)\<rparr> else db)"

end
