(* ===== verification/Cli_Backends.thy ===== *)
theory Cli_Backends
  imports Guardrails "HOL-Library.List_Lexorder" "HOL-Library.Char_ord"
begin

text \<open>
  Command-line employees (\<open>adapters/cli_registry.py\<close> and the launch in \<open>adapters/cli_adapter.py\<close>):
  the catalogue of backends, alias resolution and detection, the argument vector of one run,
  the validation of an employee's configuration shared by every hiring path, and what is
  checked and filtered before a process is started. Fields that are only displayed (stability,
  links, notes, default models, instruction path) are left out of a backend's record. Finding a
  command on the path is the parameter \<open>which\<close>; processes are the environment.
\<close>

section \<open>Backends\<close>

record cli_backend =
  cb_id :: string
  cb_name :: string
  cb_command_candidates :: "string list"
  cb_aliases :: "string list"
  cb_execution_supported :: bool
  cb_supports_model :: bool
  cb_model_flag :: string
  cb_supports_resume :: bool
  cb_resume_flag :: string
  cb_supports_interactive :: bool
  cb_prompt_transport :: string
  cb_prompt_flag :: string
  cb_safe_args :: "string list"
  cb_work_args :: "(string \<times> string list) list"
  cb_mcp_config_flag :: string
  cb_mcp_bridge_args :: "string list"
  cb_allow_env :: "string list"
  cb_delete_env :: "string list"

definition backend_defaults :: cli_backend where
  "backend_defaults =
    \<lparr>cb_id = [], cb_name = [], cb_command_candidates = [], cb_aliases = [],
     cb_execution_supported = True, cb_supports_model = False, cb_model_flag = [],
     cb_supports_resume = False, cb_resume_flag = [], cb_supports_interactive = False,
     cb_prompt_transport = ''positional'', cb_prompt_flag = [], cb_safe_args = [],
     cb_work_args = [], cb_mcp_config_flag = [], cb_mcp_bridge_args = [], cb_allow_env = [],
     cb_delete_env = []\<rparr>"

text \<open>\<open>__post_init__\<close>: the command is the first candidate.\<close>

definition cb_command :: "cli_backend \<Rightarrow> string" where
  "cb_command b = (case cb_command_candidates b of [] \<Rightarrow> [] | c # _ \<Rightarrow> c)"

section \<open>The argument vector of one run\<close>

datatype cli_value_error = UnknownWorkMode string | FlagControlled string | BackendMissing
  | CatalogOnly string | ArgsRefused string | NoWorkspace | BatchShim string | LegacyOption string

text \<open>Text work runs with the read-only flags.\<close>

definition work_mode_args :: "cli_backend \<Rightarrow> string \<Rightarrow> cli_value_error + string list" where
  "work_mode_args b mode =
    (case map_of (rev (cb_work_args b)) (if mode = ''text'' then ''read_only'' else mode) of
       None \<Rightarrow> Inl (UnknownWorkMode mode) | Some xs \<Rightarrow> Inr xs)"

definition owned_flags :: "cli_backend \<Rightarrow> string list" where
  "owned_flags b = map flag_of (filter (starts_with ''-'') (concat (map snd (cb_work_args b))))"

definition overrides_owned :: "cli_backend \<Rightarrow> string \<Rightarrow> bool" where
  "overrides_owned b arg \<longleftrightarrow> flag_of arg \<in> set (owned_flags b) \<or>
     starts_with ''--'' (flag_of arg) \<and> 2 < length (flag_of arg) \<and>
     list_ex (starts_with (flag_of arg)) (owned_flags b)"

definition refuse_work_flag_override :: "cli_backend \<Rightarrow> string list \<Rightarrow> cli_value_error option" where
  "refuse_work_flag_override b extra =
    map_option (\<lambda>a. FlagControlled (flag_of a)) (find (overrides_owned b) extra)"

text \<open>A prompt that starts with a dash gets a space in front.\<close>

definition safe_prompt :: "string \<Rightarrow> string" where
  "safe_prompt p = (if starts_with ''-'' p then CHR '' '' # p else p)"

definition work_args_for :: "cli_backend \<Rightarrow> string option \<Rightarrow> string list \<Rightarrow> cli_value_error + string list" where
  "work_args_for b work_mode extra =
    (case work_mode of
       None \<Rightarrow> Inr []
     | Some m \<Rightarrow>
         (case work_mode_args b m of
            Inl e \<Rightarrow> Inl e
          | Inr xs \<Rightarrow>
              (case refuse_work_flag_override b extra of Some e \<Rightarrow> Inl e | None \<Rightarrow> Inr xs)))"

definition build_args ::
  "cli_backend \<Rightarrow> string \<Rightarrow> string list \<Rightarrow> string \<Rightarrow> string option \<Rightarrow> string option \<Rightarrow>
   cli_value_error + string list" where
  "build_args b prompt extra model executable work_mode =
    (let exe = (case executable of Some e \<Rightarrow> if e = [] then cb_command b else e | None \<Rightarrow> cb_command b)
     in case work_args_for b work_mode extra of
          Inl e \<Rightarrow> Inl e
        | Inr work \<Rightarrow>
            Inr ([exe] @ cb_safe_args b @ work @
              (if model \<noteq> [] \<and> cb_supports_model b \<and> cb_model_flag b \<noteq> [] then [cb_model_flag b, model] else []) @
              extra @
              (if cb_prompt_transport b = ''stdin'' then []
               else if cb_prompt_transport b = ''flag'' then [cb_prompt_flag b, safe_prompt prompt]
               else [safe_prompt prompt])))"

section \<open>The catalogue\<close>

definition backend_claude :: cli_backend where
  "backend_claude = backend_defaults
    \<lparr>cb_id := ''claude'',
     cb_name := ''Claude Code'',
     cb_command_candidates := [''claude''],
     cb_aliases := [''claude-code'', ''claude_code'', ''claude-cli'', ''claude_cli''],
     cb_safe_args := [''-p''],
     cb_work_args := [(''write'', [''--permission-mode'', ''acceptEdits'', ''--allowedTools=Bash(python -m pytest:*),Bash(python3 -m pytest:*),Bash(pytest:*)'']),
       (''read_only'', [''--permission-mode'', ''plan''])],
     cb_mcp_config_flag := ''--mcp-config'',
     cb_mcp_bridge_args := [''--strict-mcp-config'', ''--allowedTools=mcp__nexus__*''],
     cb_supports_model := True,
     cb_model_flag := ''--model'',
     cb_supports_resume := True,
     cb_resume_flag := ''--resume'',
     cb_supports_interactive := True,
     cb_allow_env := [''ANTHROPIC_API_KEY'']\<rparr>"

definition backend_codex :: cli_backend where
  "backend_codex = backend_defaults
    \<lparr>cb_id := ''codex'',
     cb_name := ''OpenAI Codex CLI'',
     cb_command_candidates := [''codex''],
     cb_prompt_transport := ''stdin'',
     cb_safe_args := [''exec'', ''--skip-git-repo-check''],
     cb_supports_model := True,
     cb_model_flag := ''-m'',
     cb_allow_env := [''OPENAI_API_KEY'']\<rparr>"

definition backend_gemini :: cli_backend where
  "backend_gemini = backend_defaults
    \<lparr>cb_id := ''gemini'',
     cb_name := ''Gemini CLI'',
     cb_command_candidates := [''gemini''],
     cb_prompt_transport := ''flag'',
     cb_prompt_flag := ''-p'',
     cb_supports_model := True,
     cb_model_flag := ''-m'',
     cb_supports_resume := True,
     cb_resume_flag := ''--resume'',
     cb_allow_env := [''GEMINI_API_KEY'', ''GOOGLE_API_KEY'']\<rparr>"

definition backend_agy :: cli_backend where
  "backend_agy = backend_defaults
    \<lparr>cb_id := ''agy'',
     cb_name := ''Antigravity / Agy'',
     cb_command_candidates := [''agy''],
     cb_aliases := [''antigravity''],
     cb_prompt_transport := ''flag'',
     cb_prompt_flag := ''-p'',
     cb_work_args := [(''write'', [''--mode'', ''accept-edits'']),
       (''read_only'', [''--mode'', ''plan''])],
     cb_supports_model := True,
     cb_model_flag := ''--model'',
     cb_supports_resume := True,
     cb_resume_flag := ''--conversation''\<rparr>"

definition backend_kiro_cli :: cli_backend where
  "backend_kiro_cli = backend_defaults
    \<lparr>cb_id := ''kiro-cli'',
     cb_name := ''Kiro CLI'',
     cb_command_candidates := [''kiro-cli''],
     cb_aliases := [''kiro''],
     cb_safe_args := [''chat'', ''--no-interactive''],
     cb_supports_resume := True,
     cb_resume_flag := ''--resume''\<rparr>"

definition backend_freebuff :: cli_backend where
  "backend_freebuff = backend_defaults
    \<lparr>cb_id := ''freebuff'',
     cb_name := ''FreeBuff'',
     cb_command_candidates := [''freebuff''],
     cb_execution_supported := False\<rparr>"

definition backend_qwen :: cli_backend where
  "backend_qwen = backend_defaults
    \<lparr>cb_id := ''qwen'',
     cb_name := ''Qwen Code'',
     cb_command_candidates := [''qwen''],
     cb_prompt_transport := ''flag'',
     cb_prompt_flag := ''-p'',
     cb_supports_model := True,
     cb_model_flag := ''-m''\<rparr>"

definition backend_kimi :: cli_backend where
  "backend_kimi = backend_defaults
    \<lparr>cb_id := ''kimi'',
     cb_name := ''Kimi Code'',
     cb_command_candidates := [''kimi''],
     cb_execution_supported := False\<rparr>"

definition backend_opencode :: cli_backend where
  "backend_opencode = backend_defaults
    \<lparr>cb_id := ''opencode'',
     cb_name := ''OpenCode'',
     cb_command_candidates := [''opencode''],
     cb_safe_args := [''run''],
     cb_supports_model := True,
     cb_model_flag := ''-m'',
     cb_supports_resume := True,
     cb_resume_flag := ''--session''\<rparr>"

definition backend_aider :: cli_backend where
  "backend_aider = backend_defaults
    \<lparr>cb_id := ''aider'',
     cb_name := ''Aider'',
     cb_command_candidates := [''aider''],
     cb_prompt_transport := ''flag'',
     cb_prompt_flag := ''--message'',
     cb_supports_model := True,
     cb_model_flag := ''--model'',
     cb_allow_env := [''OPENAI_API_KEY'', ''ANTHROPIC_API_KEY'']\<rparr>"

definition backend_copilot :: cli_backend where
  "backend_copilot = backend_defaults
    \<lparr>cb_id := ''copilot'',
     cb_name := ''GitHub Copilot CLI'',
     cb_command_candidates := [''copilot''],
     cb_prompt_transport := ''flag'',
     cb_prompt_flag := ''-p'',
     cb_supports_model := True,
     cb_model_flag := ''--model'',
     cb_supports_resume := True,
     cb_resume_flag := ''--resume''\<rparr>"

definition backend_goose :: cli_backend where
  "backend_goose = backend_defaults
    \<lparr>cb_id := ''goose'',
     cb_name := ''Goose'',
     cb_command_candidates := [''goose''],
     cb_safe_args := [''run'', ''--no-session''],
     cb_prompt_transport := ''flag'',
     cb_prompt_flag := ''-t'',
     cb_supports_model := True,
     cb_model_flag := ''--model''\<rparr>"

definition backend_crush :: cli_backend where
  "backend_crush = backend_defaults
    \<lparr>cb_id := ''crush'',
     cb_name := ''Crush'',
     cb_command_candidates := [''crush''],
     cb_execution_supported := False\<rparr>"

definition backend_pi :: cli_backend where
  "backend_pi = backend_defaults
    \<lparr>cb_id := ''pi'',
     cb_name := ''Pi Coding Agent'',
     cb_command_candidates := [''pi''],
     cb_execution_supported := False\<rparr>"

definition backend_hermes :: cli_backend where
  "backend_hermes = backend_defaults
    \<lparr>cb_id := ''hermes'',
     cb_name := ''Hermes Agent CLI'',
     cb_command_candidates := [''hermes''],
     cb_aliases := [''hermes-cli''],
     cb_prompt_transport := ''flag'',
     cb_prompt_flag := ''-z'',
     cb_supports_model := True,
     cb_model_flag := ''-m'',
     cb_supports_resume := True,
     cb_resume_flag := ''--resume''\<rparr>"

definition backend_amazon_q :: cli_backend where
  "backend_amazon_q = backend_defaults
    \<lparr>cb_id := ''amazon-q'',
     cb_name := ''Amazon Q Developer CLI'',
     cb_command_candidates := [''q''],
     cb_execution_supported := False\<rparr>"

definition backend_cursor_agent :: cli_backend where
  "backend_cursor_agent = backend_defaults
    \<lparr>cb_id := ''cursor-agent'',
     cb_name := ''Cursor Agent'',
     cb_command_candidates := [''cursor-agent''],
     cb_aliases := [''cursor''],
     cb_safe_args := [''-p''],
     cb_supports_model := True,
     cb_model_flag := ''--model''\<rparr>"

definition backend_grok :: cli_backend where
  "backend_grok = backend_defaults
    \<lparr>cb_id := ''grok'',
     cb_name := ''Grok CLI'',
     cb_command_candidates := [''grok''],
     cb_execution_supported := False\<rparr>"

definition DEFAULT_BACKENDS :: "cli_backend list" where
  "DEFAULT_BACKENDS =
    [backend_claude, backend_codex, backend_gemini, backend_agy, backend_kiro_cli, backend_freebuff, backend_qwen, backend_kimi,
     backend_opencode, backend_aider, backend_copilot, backend_goose, backend_crush, backend_pi, backend_hermes,
     backend_amazon_q, backend_cursor_agent, backend_grok]"

section \<open>The registry\<close>

record cli_registry =
  rg_backends :: "(string \<times> cli_backend) list"
  rg_aliases :: "(string \<times> string) list"
  rg_available :: "(string \<times> string) list"
  rg_detected_at :: "time option"

definition DETECTION_TTL :: time where
  "DETECTION_TTL = seconds 30"

definition register_backend :: "cli_backend \<Rightarrow> cli_registry \<Rightarrow> cli_registry" where
  "register_backend b g =
    g\<lparr>rg_backends := AList.update (cb_id b) b (rg_backends g),
      rg_aliases := fold (\<lambda>a. AList.update (lower_text a) (cb_id b)) (cb_aliases b) (rg_aliases g)\<rparr>"

definition empty_registry :: cli_registry where
  "empty_registry = \<lparr>rg_backends = [], rg_aliases = [], rg_available = [], rg_detected_at = None\<rparr>"

definition new_registry :: cli_registry where
  "new_registry = fold register_backend DEFAULT_BACKENDS empty_registry"

definition resolve_backend_id :: "cli_registry \<Rightarrow> string option \<Rightarrow> string option" where
  "resolve_backend_id g name =
    (case name of
       None \<Rightarrow> None
     | Some [] \<Rightarrow> None
     | Some n \<Rightarrow>
         let key = lower_text (py_strip n)
         in if map_of (rg_backends g) key \<noteq> None then Some key else map_of (rg_aliases g) key)"

fun first_command :: "(string \<Rightarrow> string option) \<Rightarrow> string list \<Rightarrow> string option" where
  "first_command which [] = None"
| "first_command which (c # cs) =
    (case which c of
       Some (p # ps) \<Rightarrow> Some (p # ps)
     | _ \<Rightarrow> first_command which cs)"

definition detect_available :: "(string \<Rightarrow> string option) \<Rightarrow> time \<Rightarrow> cli_registry \<Rightarrow> cli_registry" where
  "detect_available which now g =
    g\<lparr>rg_available := List.map_filter (\<lambda>(i, b). map_option (Pair i) (first_command which (cb_command_candidates b)))
        (rg_backends g),
      rg_detected_at := Some now\<rparr>"

definition refresh :: "(string \<Rightarrow> string option) \<Rightarrow> time \<Rightarrow> bool \<Rightarrow> cli_registry \<Rightarrow> cli_registry" where
  "refresh which now force g =
    (if force \<or> (case rg_detected_at g of None \<Rightarrow> True | Some at \<Rightarrow> DETECTION_TTL < now - at)
     then detect_available which now g else g)"

definition get_available :: "cli_registry \<Rightarrow> cli_backend list" where
  "get_available g = List.map_filter (\<lambda>(i, p). map_of (rg_backends g) i) (rg_available g)"

definition get_backend :: "cli_registry \<Rightarrow> string option \<Rightarrow> cli_backend option" where
  "get_backend g name = Option.bind (resolve_backend_id g name) (map_of (rg_backends g))"

definition is_available :: "cli_registry \<Rightarrow> string \<Rightarrow> bool" where
  "is_available g name \<longleftrightarrow>
    (case resolve_backend_id g (Some name) of None \<Rightarrow> False | Some i \<Rightarrow> map_of (rg_available g) i \<noteq> None)"

definition get_path :: "cli_registry \<Rightarrow> string \<Rightarrow> string option" where
  "get_path g name = Option.bind (resolve_backend_id g (Some name)) (map_of (rg_available g))"

section \<open>The configuration of an employee\<close>

datatype cli_config_error = NotCli | UnexpectedKeys "string list" | BackendRequired
  | BackendUnknown string | ArgsForbidden string | TooManyArgs | AutonomyRefused json
  | WorktreeRefused | InteractiveUnsupported string | ModelUnsupported string | ModelInvalid
  | BackendNotExecutable string | BackendUnavailable string

fun config_error_code :: "cli_config_error \<Rightarrow> string" where
  "config_error_code NotCli = ''CLI_CONFIG_INVALID''"
| "config_error_code (UnexpectedKeys _) = ''CLI_CONFIG_INVALID''"
| "config_error_code BackendRequired = ''CLI_BACKEND_REQUIRED''"
| "config_error_code (BackendUnknown _) = ''CLI_BACKEND_UNKNOWN''"
| "config_error_code (ArgsForbidden _) = ''CLI_ARGS_FORBIDDEN''"
| "config_error_code TooManyArgs = ''CLI_ARGS_FORBIDDEN''"
| "config_error_code (AutonomyRefused _) = ''CLI_AUTONOMY_REQUIRES_APPROVAL''"
| "config_error_code WorktreeRefused = ''CLI_CONFIG_INVALID''"
| "config_error_code (InteractiveUnsupported _) = ''CLI_CONFIG_INVALID''"
| "config_error_code (ModelUnsupported _) = ''CLI_MODEL_UNSUPPORTED''"
| "config_error_code ModelInvalid = ''CLI_MODEL_INVALID''"
| "config_error_code (BackendNotExecutable _) = ''CLI_BACKEND_NOT_EXECUTABLE''"
| "config_error_code (BackendUnavailable _) = ''CLI_BACKEND_UNAVAILABLE''"

definition CLI_CONFIG_KEYS :: "string list" where
  "CLI_CONFIG_KEYS = [''backend'', ''interactive'', ''use_worktree'', ''autonomy_mode'', ''extra_args'']"

definition model_char :: "char \<Rightarrow> bool" where
  "model_char c \<longleftrightarrow> (let n = of_char c :: nat in
     97 \<le> n \<and> n \<le> 122 \<or> 65 \<le> n \<and> n \<le> 90 \<or> 48 \<le> n \<and> n \<le> 57) \<or> c \<in> set ''._:/@+-''"

definition model_problem :: "cli_backend \<Rightarrow> string \<Rightarrow> cli_config_error option" where
  "model_problem b model =
    (if model = [] then None
     else if \<not> cb_supports_model b then Some (ModelUnsupported (cb_name b))
     else if 255 < length model \<or> starts_with ''-'' model \<or> \<not> list_all model_char model
     then Some ModelInvalid else None)"

definition config_backend :: "cli_registry \<Rightarrow> dict \<Rightarrow> cli_config_error + cli_backend" where
  "config_backend g config =
    (case map_of config ''backend'' of
       Some (JStr raw) \<Rightarrow>
         if py_strip raw = [] then Inl BackendRequired
         else (case get_backend g (Some raw) of
                 None \<Rightarrow> Inl (BackendUnknown (take 80 raw)) | Some b \<Rightarrow> Inr b)
     | _ \<Rightarrow> Inl BackendRequired)"

text \<open>\<open>config.get("extra_args") or []\<close> and what \<open>check_cli_args\<close> says of it.\<close>

definition config_args :: "dict \<Rightarrow> cli_config_error + string list" where
  "config_args config =
    (let v = (case map_of config ''extra_args'' of None \<Rightarrow> JList []
              | Some v \<Rightarrow> if falsy v then JList [] else v)
     in case check_cli_args (Some v) of
          Some refusal \<Rightarrow> Inl (ArgsForbidden refusal)
        | None \<Rightarrow>
            (case v of
               JList js \<Rightarrow> if 20 < length js then Inl TooManyArgs
                          else Inr (case str_values js of Some xs \<Rightarrow> xs | None \<Rightarrow> [])
             | _ \<Rightarrow> Inr []))"

definition flag_value :: "dict \<Rightarrow> string \<Rightarrow> bool" where
  "flag_value config k = (case map_of config k of None \<Rightarrow> False | Some v \<Rightarrow> \<not> falsy v)"

definition option_problem :: "cli_backend \<Rightarrow> dict \<Rightarrow> cli_config_error option" where
  "option_problem b config =
    (let autonomy = (case map_of config ''autonomy_mode'' of None \<Rightarrow> JStr ''safe'' | Some v \<Rightarrow> v)
     in if autonomy \<noteq> JStr ''safe'' then Some (AutonomyRefused autonomy)
        else if flag_value config ''use_worktree'' then Some WorktreeRefused
        else if flag_value config ''interactive'' \<and> \<not> cb_supports_interactive b
        then Some (InteractiveUnsupported (cb_name b)) else None)"

definition canonical_config :: "cli_backend \<Rightarrow> bool \<Rightarrow> string list \<Rightarrow> dict" where
  "canonical_config b interactive args =
    [(''backend'', JStr (cb_id b)), (''interactive'', JBool interactive),
     (''use_worktree'', JBool False), (''autonomy_mode'', JStr ''safe''),
     (''extra_args'', JList (map JStr args))]"

definition validate_employee_cli_config ::
  "cli_registry \<Rightarrow> string \<Rightarrow> dict option \<Rightarrow> string option \<Rightarrow> bool \<Rightarrow>
   cli_config_error + (dict \<times> bool)" where
  "validate_employee_cli_config g adapter adapter_config model allow_unavailable =
    (if adapter \<noteq> ''cli'' then Inl NotCli
     else
       let config = dict_or_empty adapter_config;
           unexpected = sort (remdups (filter (\<lambda>k. k \<notin> set CLI_CONFIG_KEYS) (map fst config)));
           model = py_strip (case model of None \<Rightarrow> [] | Some m \<Rightarrow> m)
       in if unexpected \<noteq> [] then Inl (UnexpectedKeys unexpected)
          else case config_backend g config of
            Inl e \<Rightarrow> Inl e
          | Inr b \<Rightarrow>
              (case config_args config of
                 Inl e \<Rightarrow> Inl e
               | Inr args \<Rightarrow>
                   (case option_problem b config of
                      Some e \<Rightarrow> Inl e
                    | None \<Rightarrow>
                        (case model_problem b model of
                           Some e \<Rightarrow> Inl e
                         | None \<Rightarrow>
                             let ready = (cb_execution_supported b \<and> is_available g (cb_id b))
                             in if \<not> ready \<and> \<not> allow_unavailable
                                then Inl (if cb_execution_supported b then BackendUnavailable (cb_name b)
                                          else BackendNotExecutable (cb_name b))
                                else Inr (canonical_config b (flag_value config ''interactive'') args, ready)))))"

definition CONFIGURATION_REQUIRED :: string where
  "CONFIGURATION_REQUIRED = ''configuration_required''"

text \<open>\<open>normalize_cli_employee\<close> of \<open>api/routes/agents.py\<close>: the status an unusable backend forces.\<close>

definition normalize_cli_employee ::
  "cli_registry \<Rightarrow> string \<Rightarrow> dict option \<Rightarrow> string option \<Rightarrow> bool \<Rightarrow>
   cli_config_error + (dict \<times> string option)" where
  "normalize_cli_employee g adapter config model allow =
    (case validate_employee_cli_config g adapter config model allow of
       Inl e \<Rightarrow> Inl e
     | Inr (c, ready) \<Rightarrow> Inr (c, if ready then None else Some CONFIGURATION_REQUIRED))"

section \<open>Starting a run\<close>

text \<open>\<open>validate_config\<close> and the refusal of the options that once made worktrees.\<close>

definition validate_adapter_config :: "cli_registry \<Rightarrow> dict \<Rightarrow> cli_value_error option" where
  "validate_adapter_config g config =
    (case map_of config ''backend'' of
       Some (JStr i) \<Rightarrow>
         (case get_backend g (Some i) of
            None \<Rightarrow> Some BackendMissing
          | Some b \<Rightarrow> if cb_execution_supported b then None else Some (CatalogOnly (cb_id b)))
     | _ \<Rightarrow> Some BackendMissing)"

definition legacy_option :: "dict \<Rightarrow> cli_value_error option" where
  "legacy_option config =
    map_option LegacyOption (find (flag_value config) [''use_worktree'', ''auto_merge''])"

definition CMD_SHIM_UNSAFE :: "char list" where
  "CMD_SHIM_UNSAFE = [char_of (34 :: nat)] @ ''%&|<>^!'' @ [char_of (13 :: nat), char_of (10 :: nat)]"

definition shim_unsafe :: "string \<Rightarrow> string list \<Rightarrow> bool" where
  "shim_unsafe executable args \<longleftrightarrow>
    (ends_with ''.cmd'' (lower_text executable) \<or> ends_with ''.bat'' (lower_text executable)) \<and>
    list_ex (list_ex (\<lambda>c. c \<in> set CMD_SHIM_UNSAFE)) args"

text \<open>
  What \<open>_run_cli\<close> decides before it starts a process: the stored and requested arguments, the
  workspace, the backend, the argument vector. The arguments of a manager bridge come from the
  catalogue and the server; a system prompt without an instruction file is put in front of the
  prompt.
\<close>

record cli_run =
  cn_backend :: "string option"
  cn_model :: string
  cn_stored_args :: "string list"
  cn_payload_args :: "string list"
  cn_bridge_args :: "string list"
  cn_prompt :: string
  cn_inline_system :: "string option"
  cn_workspace :: "string option"
  cn_work_mode :: "string option"

definition full_prompt :: "cli_run \<Rightarrow> string" where
  "full_prompt r = (case cn_inline_system r of
     None \<Rightarrow> cn_prompt r
   | Some s \<Rightarrow> s @ [char_of (10 :: nat), char_of (10 :: nat)] @ ''---'' @
       [char_of (10 :: nat), char_of (10 :: nat)] @ cn_prompt r)"

definition launch_args :: "cli_registry \<Rightarrow> cli_run \<Rightarrow> cli_value_error + string list" where
  "launch_args g r =
    (let extra = cn_stored_args r @ cn_payload_args r
     in case check_cli_args (Some (JList (map JStr extra))) of
          Some refusal \<Rightarrow> Inl (ArgsRefused refusal)
        | None \<Rightarrow>
            if cn_workspace r = None \<or> cn_workspace r = Some [] then Inl NoWorkspace
            else case get_backend g (cn_backend r) of
              None \<Rightarrow> Inl BackendMissing
            | Some b \<Rightarrow>
                if \<not> cb_execution_supported b then Inl BackendMissing
                else
                  let exe = (case get_path g (cb_id b) of
                               Some p \<Rightarrow> if p = [] then cb_command b else p | None \<Rightarrow> cb_command b)
                  in case build_args b (full_prompt r) (cn_bridge_args r @ extra) (cn_model r) (Some exe) (cn_work_mode r) of
                       Inl e \<Rightarrow> Inl e
                     | Inr argv \<Rightarrow> if shim_unsafe exe (tl argv) then Inl (BatchShim (cb_name b)) else Inr argv)"

section \<open>The environment of a run\<close>

definition SENSITIVE_ENV :: "string list" where
  "SENSITIVE_ENV = [''OPENAI_API_KEY'', ''ANTHROPIC_API_KEY'', ''SECRET_KEY'', ''DATABASE_URL'',
     ''DB_PASSWORD'', ''AWS_SECRET_ACCESS_KEY'', ''GITHUB_TOKEN'', ''GITLAB_TOKEN'', ''NEXUS_SECRET_KEY'']"

definition SECRET_NAME_MARKERS :: "string list" where
  "SECRET_NAME_MARKERS = [''KEY'', ''TOKEN'', ''SECRET'', ''PASSWORD'', ''PASSWD'', ''CREDENTIAL'']"

definition upper_char :: "char \<Rightarrow> char" where
  "upper_char c = (let n = of_char c :: nat in if 97 \<le> n \<and> n \<le> 122 then char_of (n - 32) else c)"

definition upper_text :: "string \<Rightarrow> string" where
  "upper_text s = map upper_char s"

definition secret_name :: "string \<Rightarrow> bool" where
  "secret_name k \<longleftrightarrow> upper_text k \<in> set SENSITIVE_ENV \<or>
     list_ex (contains (upper_text k)) SECRET_NAME_MARKERS"

definition filter_env :: "(string \<times> string) list \<Rightarrow> string list \<Rightarrow> (string \<times> string) list" where
  "filter_env env allow =
    filter (\<lambda>(k, v). upper_text k \<in> set (map upper_text allow) \<or> \<not> secret_name k) env"

definition run_env ::
  "cli_backend \<Rightarrow> string list \<Rightarrow> (string \<times> string) list \<Rightarrow> (string \<times> string) list \<Rightarrow> (string \<times> string) list" where
  "run_env b operator_allow bridge_env env =
    AList.merge (filter_env (filter (\<lambda>(k, v). k \<notin> set (cb_delete_env b)) env) (cb_allow_env b @ operator_allow)) bridge_env"

end
