(* ===== verification/Agent_Records.thy ===== *)
theory Agent_Records
  imports Organization Cli_Backends Grants
begin

text \<open>
  Creating, editing, cloning, waking and pausing an agent (\<open>api/routes/agents.py\<close>), over the rows
  of Organization: who may set which field, the check of a command-line employee whose adapter,
  model or status changes, and the statuses an agent may be woken or paused from.
\<close>

section \<open>Who may use the write routes\<close>

definition studio_can_write :: "bool \<Rightarrow> principal \<Rightarrow> bool" where
  "studio_can_write bypass p \<longleftrightarrow> is_human bypass p \<and> p_role p = ''admin''"

definition actor_type :: "principal \<Rightarrow> string" where
  "actor_type p = (case p_kind p of User \<Rightarrow> ''user'' | Service \<Rightarrow> ''service'' | Run \<Rightarrow> ''run'')"

text \<open>\<open>str(user_id or agent_id or api_key_id or "")\<close>.\<close>

definition actor_id :: "principal \<Rightarrow> label" where
  "actor_id p = (case (p_user_id p, p_agent_id p, p_api_key_id p) of
     (Some u, _) \<Rightarrow> [Uid u] | (None, Some a, _) \<Rightarrow> [Uid a] | (None, None, Some k) \<Rightarrow> [Uid k]
   | (None, None, None) \<Rightarrow> [])"

definition agent_audit :: "uuid \<Rightarrow> string \<Rightarrow> principal \<Rightarrow> uuid \<Rightarrow> dict \<Rightarrow> org_db \<Rightarrow> org_db" where
  "agent_audit cid action p aid details db =
    best_effort_audit \<lparr>au_company_id = cid, au_action = action,
       au_actor_type = actor_type p, au_actor_id = Some (actor_id p), au_resource_type = ''agent'',
       au_resource_id = aid, au_details = details\<rparr> db"

section \<open>Creating and cloning\<close>

definition PRIVILEGED_ROLE_WORDS :: "string list" where
  "PRIVILEGED_ROLE_WORDS = [''ceo'', ''manager'', ''chief'', ''director'', ''head'', ''admin'', ''owner'']"

definition privileged_role :: "string \<Rightarrow> bool" where
  "privileged_role role = list_ex (contains (lower_text role)) PRIVILEGED_ROLE_WORDS"

record agent_body =
  ab_name :: string
  ab_role :: string
  ab_title :: "string option"
  ab_department_id :: "uuid option"
  ab_team_id :: "uuid option"
  ab_adapter_type :: string
  ab_adapter_config :: "dict option"
  ab_model :: "string option"
  ab_capabilities :: "string list option"
  ab_responsibilities :: "string option"
  ab_objectives :: "string option"
  ab_soul_description :: "string option"
  ab_budget_monthly_cents :: int
  ab_autonomy_policy :: "dict option"
  ab_allow_unavailable_backend :: bool

definition needs_admin :: "agent_body \<Rightarrow> bool" where
  "needs_admin b \<longleftrightarrow> privileged_role (ab_role b) \<or> dict_or_empty (ab_autonomy_policy b) \<noteq> [] \<or>
    ab_budget_monthly_cents b \<noteq> 0"

text \<open>The row of a new agent with the table's defaults; the manager is filled in on insert.\<close>

definition new_agent :: "uuid \<Rightarrow> uuid \<Rightarrow> time \<Rightarrow> agent_body \<Rightarrow> dict option \<Rightarrow> string option \<Rightarrow> string option \<Rightarrow> org_agent" where
  "new_agent aid cid now b config model status =
    \<lparr>oa_id = aid, oa_company_id = cid, oa_name = ab_name b, oa_role = ab_role b, oa_title = ab_title b,
     oa_department_id = ab_department_id b, oa_team_id = ab_team_id b, oa_manager_id = None, oa_is_ceo = False,
     oa_status = (case status of None \<Rightarrow> ''idle'' | Some s \<Rightarrow> s),
     oa_adapter_type = ab_adapter_type b, oa_adapter_config = config, oa_model = model, oa_connection_id = None,
     oa_capabilities = ab_capabilities b, oa_responsibilities = ab_responsibilities b,
     oa_objectives = ab_objectives b, oa_soul_description = ab_soul_description b,
     oa_autonomy_policy = ab_autonomy_policy b, oa_budget_monthly_cents = ab_budget_monthly_cents b,
     oa_paused_at = None, oa_updated_at = now\<rparr>"

definition created_details :: "org_agent \<Rightarrow> dict" where
  "created_details a =
    [(''name'', JStr (oa_name a)), (''role'', JStr (oa_role a)), (''adapter_type'', JStr (oa_adapter_type a)),
     (''cli_backend'', if oa_adapter_type a = ''cli''
        then (case map_of (dict_or_empty (oa_adapter_config a)) ''backend'' of None \<Rightarrow> JNull | Some v \<Rightarrow> v)
        else JNull),
     (''model'', opt_json JStr (oa_model a)), (''status'', JStr (oa_status a))]"

definition insert_agent :: "org_agent \<Rightarrow> string \<Rightarrow> principal \<Rightarrow> dict \<Rightarrow> org_db \<Rightarrow> org_db \<times> (org_error + org_agent)" where
  "insert_agent a action p details db =
    (case create_org_agent a db of
       Inl e \<Rightarrow> (db, Inl e)
     | Inr db1 \<Rightarrow> (agent_audit (oa_company_id a) action p (oa_id a) details db1, Inr a))"

definition create_agent ::
  "cli_registry \<Rightarrow> bool \<Rightarrow> uuid \<Rightarrow> time \<Rightarrow> principal \<Rightarrow> uuid \<Rightarrow> agent_body \<Rightarrow> org_db \<Rightarrow>
   org_db \<times> (org_error + org_agent)" where
  "create_agent g bypass new_id now p cid b db =
    (case write_agent_gate p of
       Some e \<Rightarrow> (db, Inl e)
     | None \<Rightarrow>
         if needs_admin b \<and> \<not> studio_can_write bypass p then (db, Inl (org_error 403 ''HUMAN_ADMIN_REQUIRED''))
         else
           let row = new_agent new_id cid now b
           in if ab_adapter_type b = ''cli'' then
                (case normalize_cli_employee g (ab_adapter_type b) (ab_adapter_config b) (ab_model b)
                        (ab_allow_unavailable_backend b) of
                   Inl e \<Rightarrow> (db, Inl (org_error 422 (config_error_code e)))
                 | Inr (config, status) \<Rightarrow>
                     let a = row (Some config) (Some (py_strip (case ab_model b of None \<Rightarrow> [] | Some m \<Rightarrow> m))) status
                     in insert_agent a ''agent.created'' p (created_details a) db)
              else
                let a = row (ab_adapter_config b) (ab_model b) None
                in insert_agent a ''agent.created'' p (created_details a) db)"

definition CLONE_ADAPTER_KEYS :: "string list" where
  "CLONE_ADAPTER_KEYS = [''backend'', ''interactive'', ''use_worktree'', ''autonomy_mode'', ''extra_args'']"

definition clone_config :: "dict option \<Rightarrow> dict option" where
  "clone_config c = (case filter (\<lambda>(k, v). k \<in> set CLONE_ADAPTER_KEYS) (dict_or_empty c) of
     [] \<Rightarrow> None | d \<Rightarrow> Some d)"

text \<open>A copy names every column it carries; the others have the table's defaults.\<close>

definition cloned :: "uuid \<Rightarrow> time \<Rightarrow> org_agent \<Rightarrow> org_agent" where
  "cloned new_id now s =
    \<lparr>oa_id = new_id, oa_company_id = oa_company_id s, oa_name = oa_name s @ ''-clone'', oa_role = oa_role s,
     oa_title = oa_title s, oa_department_id = oa_department_id s, oa_team_id = oa_team_id s,
     oa_manager_id = None, oa_is_ceo = False, oa_status = ''idle'',
     oa_adapter_type = oa_adapter_type s, oa_adapter_config = clone_config (oa_adapter_config s),
     oa_model = oa_model s, oa_connection_id = None,
     oa_capabilities = (case oa_capabilities s of None \<Rightarrow> None | Some cs \<Rightarrow> if cs = [] then None else Some cs),
     oa_responsibilities = oa_responsibilities s, oa_objectives = oa_objectives s,
     oa_soul_description = oa_soul_description s, oa_autonomy_policy = None,
     oa_budget_monthly_cents = oa_budget_monthly_cents s, oa_paused_at = None, oa_updated_at = now\<rparr>"

definition clone_agent ::
  "bool \<Rightarrow> uuid \<Rightarrow> time \<Rightarrow> principal \<Rightarrow> uuid \<Rightarrow> uuid \<Rightarrow> org_db \<Rightarrow> org_db \<times> (org_error + org_agent)" where
  "clone_agent bypass new_id now p cid aid db =
    (case write_agent_gate p of
       Some e \<Rightarrow> (db, Inl e)
     | None \<Rightarrow>
         if \<not> studio_can_write bypass p then (db, Inl (org_error 403 ''HUMAN_ADMIN_REQUIRED''))
         else case get_org_agent cid aid db of
           None \<Rightarrow> (db, Inl (org_error 404 ''AGENT_NOT_FOUND''))
         | Some s \<Rightarrow> insert_agent (cloned new_id now s) ''agent.cloned'' p [(''source_agent_id'', JId aid)] db)"

section \<open>Editing\<close>

text \<open>\<open>AgentUpdate\<close>: a field that was not sent is \<open>None\<close>, one that was sent as null \<open>Some None\<close>.\<close>

record agent_update =
  up_name :: "string option option"
  up_title :: "string option option"
  up_role :: "string option option"
  up_status :: "string option option"
  up_adapter_type :: "string option option"
  up_model :: "string option option"
  up_capabilities :: "string list option option"
  up_responsibilities :: "string option option"
  up_objectives :: "string option option"
  up_soul_description :: "string option option"
  up_budget_monthly_cents :: "int option option"
  up_autonomy_policy :: "dict option option"

definition no_update :: agent_update where
  "no_update = \<lparr>up_name = None, up_title = None, up_role = None, up_status = None, up_adapter_type = None,
     up_model = None, up_capabilities = None, up_responsibilities = None, up_objectives = None,
     up_soul_description = None, up_budget_monthly_cents = None, up_autonomy_policy = None\<rparr>"

definition update_keys :: "agent_update \<Rightarrow> string list" where
  "update_keys u = map fst (filter snd
    [(''name'', up_name u \<noteq> None), (''title'', up_title u \<noteq> None), (''role'', up_role u \<noteq> None),
     (''status'', up_status u \<noteq> None), (''adapter_type'', up_adapter_type u \<noteq> None),
     (''model'', up_model u \<noteq> None), (''capabilities'', up_capabilities u \<noteq> None),
     (''responsibilities'', up_responsibilities u \<noteq> None), (''objectives'', up_objectives u \<noteq> None),
     (''soul_description'', up_soul_description u \<noteq> None),
     (''budget_monthly_cents'', up_budget_monthly_cents u \<noteq> None),
     (''autonomy_policy'', up_autonomy_policy u \<noteq> None)])"

definition AUTHORITY_FIELDS :: "string list" where
  "AUTHORITY_FIELDS = [''role'', ''status'', ''adapter_type'', ''model'', ''capabilities'',
     ''budget_monthly_cents'', ''autonomy_policy'']"

definition PROFILE_FIELDS :: "string list" where
  "PROFILE_FIELDS = [''name'', ''title'', ''responsibilities'', ''objectives'', ''soul_description'']"

definition clears_required :: "agent_update \<Rightarrow> bool" where
  "clears_required u \<longleftrightarrow> up_role u = Some None \<or> up_status u = Some None \<or> up_adapter_type u = Some None \<or>
    up_budget_monthly_cents u = Some None"

definition enforce_update_policy :: "bool \<Rightarrow> principal \<Rightarrow> agent_update \<Rightarrow> org_error option" where
  "enforce_update_policy bypass p u =
    (if \<not> is_human bypass p then Some (org_error 403 ''HUMAN_REQUIRED'')
     else if list_ex (\<lambda>k. k \<in> set AUTHORITY_FIELDS) (update_keys u) \<and> \<not> studio_can_write bypass p
     then Some (org_error 403 ''HUMAN_ADMIN_REQUIRED'') else None)"

text \<open>\<open>updates.get(key, agent.key)\<close> and the column an UPDATE leaves.\<close>

definition sent_or :: "'a option \<Rightarrow> 'a \<Rightarrow> 'a" where
  "sent_or u x = (case u of None \<Rightarrow> x | Some y \<Rightarrow> y)"

definition required_or :: "'a option option \<Rightarrow> 'a \<Rightarrow> 'a" where
  "required_or u x = (case u of Some (Some y) \<Rightarrow> y | _ \<Rightarrow> x)"

definition setdefault :: "string \<Rightarrow> json \<Rightarrow> dict \<Rightarrow> dict" where
  "setdefault k v d = (if k \<in> fst ` set d then d else d @ [(k, v)])"

definition stored_base :: "org_agent \<Rightarrow> dict" where
  "stored_base a =
    (if oa_adapter_type a = ''cli'' then
       setdefault ''backend'' (JStr ''claude'')
         (List.map_filter (\<lambda>k. map_option (Pair k) (map_of (dict_or_empty (oa_adapter_config a)) k))
            CLONE_ADAPTER_KEYS)
     else [])"

text \<open>
  The check of a command-line employee: the updates it leaves, and the configuration it writes.
\<close>

definition guard_cli_update ::
  "cli_registry \<Rightarrow> org_agent \<Rightarrow> agent_update \<Rightarrow> cli_config_error + (agent_update \<times> dict option)" where
  "guard_cli_update g a u =
    (if up_adapter_type u = None \<and> up_model u = None \<and> up_status u = None then Inr (u, None)
     else
       let adapter = required_or (up_adapter_type u) (oa_adapter_type a);
           new_status = required_or (up_status u) (oa_status a)
       in if adapter \<noteq> ''cli'' then Inr (u, None)
          else case normalize_cli_employee g adapter (Some (stored_base a)) (sent_or (up_model u) (oa_model a))
                      (new_status = CONFIGURATION_REQUIRED) of
            Inl e \<Rightarrow> Inl e
          | Inr (config, override) \<Rightarrow>
              Inr (if override = None \<and> new_status = CONFIGURATION_REQUIRED \<and> up_status u = None
                   then u\<lparr>up_status := Some (Some ''idle'')\<rparr> else u, Some config))"

definition write_update :: "time \<Rightarrow> agent_update \<Rightarrow> dict option \<Rightarrow> org_agent \<Rightarrow> org_agent" where
  "write_update now u config a =
    a\<lparr>oa_name := required_or (up_name u) (oa_name a),
      oa_role := required_or (up_role u) (oa_role a),
      oa_title := sent_or (up_title u) (oa_title a),
      oa_status := required_or (up_status u) (oa_status a),
      oa_adapter_type := required_or (up_adapter_type u) (oa_adapter_type a),
      oa_adapter_config := (case config of None \<Rightarrow> oa_adapter_config a | Some c \<Rightarrow> Some c),
      oa_model := sent_or (up_model u) (oa_model a),
      oa_capabilities := sent_or (up_capabilities u) (oa_capabilities a),
      oa_responsibilities := sent_or (up_responsibilities u) (oa_responsibilities a),
      oa_objectives := sent_or (up_objectives u) (oa_objectives a),
      oa_soul_description := sent_or (up_soul_description u) (oa_soul_description a),
      oa_autonomy_policy := sent_or (up_autonomy_policy u) (oa_autonomy_policy a),
      oa_budget_monthly_cents := required_or (up_budget_monthly_cents u) (oa_budget_monthly_cents a),
      oa_updated_at := now\<rparr>"

text \<open>
  A name sent as null passes the check of the required fields, and the column refuses it.
\<close>

definition apply_agent_update ::
  "cli_registry \<Rightarrow> bool \<Rightarrow> time \<Rightarrow> principal \<Rightarrow> uuid \<Rightarrow> uuid \<Rightarrow> agent_update \<Rightarrow> org_db \<Rightarrow>
   org_db \<times> (org_error + unit)" where
  "apply_agent_update g bypass now p cid aid u db =
    (case write_agent_gate p of
       Some e \<Rightarrow> (db, Inl e)
     | None \<Rightarrow>
         if update_keys u = [] then (db, Inl (org_error 400 ''NO_FIELDS''))
         else if clears_required u then (db, Inl (org_error 422 ''FIELD_NOT_NULLABLE''))
         else case enforce_update_policy bypass p u of
           Some e \<Rightarrow> (db, Inl e)
         | None \<Rightarrow>
             (case get_org_agent cid aid db of
                None \<Rightarrow> (db, Inl (org_error 404 ''AGENT_NOT_FOUND''))
              | Some a \<Rightarrow>
                  (case guard_cli_update g a u of
                     Inl e \<Rightarrow> (db, Inl (org_error 422 (config_error_code e)))
                   | Inr (u', config) \<Rightarrow>
                       if up_name u = Some None then (db, Inl (org_error 500 ''INTEGRITY''))
                       else (agent_audit cid ''agent.updated'' p aid
                               [(''fields'', JList (map JStr (sort (update_keys u))))]
                               (db\<lparr>od_agents := update_where (is_agent cid aid) (write_update now u' config)
                                     (od_agents db)\<rparr>), Inr ()))))"

section \<open>Waking and pausing\<close>

definition wake_agent ::
  "time \<Rightarrow> principal \<Rightarrow> uuid \<Rightarrow> uuid \<Rightarrow> restriction list \<Rightarrow> org_db \<Rightarrow> org_db \<times> (org_error + unit)" where
  "wake_agent now p cid aid rs db =
    (case write_agent_gate p of
       Some e \<Rightarrow> (db, Inl e)
     | None \<Rightarrow>
         (case get_org_agent cid aid db of
            None \<Rightarrow> (db, Inl (org_error 404 ''AGENT_NOT_FOUND''))
          | Some a \<Rightarrow>
              if active_restrictions cid (Some aid) rs \<noteq> [] then (db, Inl (org_error 409 ''AGENT_RESTRICTED''))
              else if oa_status a \<notin> {''idle'', ''paused''} then (db, Inl (org_error 409 ''NOT_WAKEABLE''))
              else (agent_audit cid ''agent.woken'' p aid
                      [(''name'', JStr (oa_name a)), (''new_status'', JStr ''ready'')]
                      (db\<lparr>od_agents := update_where (is_agent cid aid)
                            (\<lambda>a. a\<lparr>oa_status := ''ready'', oa_updated_at := now\<rparr>) (od_agents db)\<rparr>), Inr ())))"

definition pause_agent :: "time \<Rightarrow> principal \<Rightarrow> uuid \<Rightarrow> uuid \<Rightarrow> org_db \<Rightarrow> org_db \<times> (org_error + unit)" where
  "pause_agent now p cid aid db =
    (case write_agent_gate p of
       Some e \<Rightarrow> (db, Inl e)
     | None \<Rightarrow>
         (case get_org_agent cid aid db of
            None \<Rightarrow> (db, Inl (org_error 404 ''AGENT_NOT_FOUND''))
          | Some a \<Rightarrow>
              if terminated a then (db, Inl (org_error 409 ''TERMINATED''))
              else (agent_audit cid ''agent.paused'' p aid
                      [(''name'', JStr (oa_name a)), (''previous_status'', JStr (oa_status a)),
                       (''new_status'', JStr ''paused'')]
                      (db\<lparr>od_agents := update_where (is_agent cid aid)
                            (\<lambda>a. a\<lparr>oa_status := ''paused'', oa_paused_at := Some now, oa_updated_at := now\<rparr>)
                            (od_agents db)\<rparr>), Inr ())))"

text \<open>Who may record a heartbeat: the agent's own run, or a person or key that may write agents.\<close>

definition heartbeat_principal :: "principal \<Rightarrow> uuid \<Rightarrow> org_error option" where
  "heartbeat_principal p aid =
    (if p_kind p = Run \<and> p_agent_id p = Some aid then None
     else if p_kind p \<in> {User, Service} \<and> has_permission p ''write'' ''agent'' (Some ''*'') then None
     else Some (org_error 403 ''HEARTBEAT_FORBIDDEN''))"

end
