(* ===== verification/Hiring.thy ===== *)
theory Hiring
  imports Agent_Records Approvals Tool_Access Budget_Ledger Python_Text "HOL-Library.Monad_Syntax"
begin

text \<open>
  Controlled hiring (\<open>services/hiring_service.py\<close>): a manager asks for a direct report, the
  company's hiring rules decide, a person or a bounded rule approves, and the employee is created
  once. Requests are approvals of type \<open>hire_employee\<close> (Approvals), employees are rows of
  Organization, the command-line backend is checked by Cli_Backends and the manager by
  Tool_Access. Each transaction under the company's hiring lock is one function; UUIDv5 and the
  text of a foreign JSON value are parameters. Notifications carry the columns the call sets.
\<close>

section \<open>Requests\<close>

definition HIRE :: string where
  "HIRE = ''hire_employee''"

definition HIRE_TOOL :: string where
  "HIRE_TOOL = ''manager_request_hire''"

definition AUTO_APPROVED :: string where
  "AUTO_APPROVED = ''auto_approved''"

definition APPROVAL_REQUIRED :: string where
  "APPROVAL_REQUIRED = ''approval_required''"

definition HIRE_REJECTED :: string where
  "HIRE_REJECTED = ''rejected''"

definition HIRE_PRIORITY :: "(string \<times> string) list" where
  "HIRE_PRIORITY = [(''low'', ''low''), (''normal'', ''medium''), (''high'', ''high''), (''critical'', ''critical'')]"

definition MAX_COMMITMENT_CENTS :: int where
  "MAX_COMMITMENT_CENTS = 2 ^ 31 - 1"

record hire_request =
  hq_role :: string
  hq_title :: string
  hq_reason :: string
  hq_backend :: string
  hq_model :: "string option"
  hq_responsibilities :: string
  hq_monthly_cents :: int
  hq_one_time_cents :: int
  hq_urgency :: string
  hq_idempotency_key :: string
  hq_allow_configuration :: bool

text \<open>The constraints of the fields, after \<open>str_strip_whitespace\<close>.\<close>

definition text_fits :: "nat \<Rightarrow> nat \<Rightarrow> string \<Rightarrow> bool" where
  "text_fits least most s \<longleftrightarrow> py_strip s = s \<and> least \<le> length s \<and> length s \<le> most"

definition hire_fits :: "hire_request \<Rightarrow> bool" where
  "hire_fits r \<longleftrightarrow> text_fits 1 100 (hq_role r) \<and> text_fits 1 255 (hq_title r) \<and>
    text_fits 1 2000 (hq_reason r) \<and> text_fits 1 80 (hq_backend r) \<and>
    (case hq_model r of None \<Rightarrow> True | Some m \<Rightarrow> text_fits 0 255 m) \<and>
    text_fits 0 4000 (hq_responsibilities r) \<and>
    0 \<le> hq_monthly_cents r \<and> hq_monthly_cents r \<le> 100000000 \<and>
    0 \<le> hq_one_time_cents r \<and> hq_one_time_cents r \<le> 100000000 \<and>
    hq_urgency r \<in> {''low'', ''normal'', ''high'', ''critical''} \<and>
    text_fits 1 200 (hq_idempotency_key r)"

definition accept_request :: "hire_request \<Rightarrow> hire_request option" where
  "accept_request r =
    (let s = r\<lparr>hq_role := py_strip (hq_role r), hq_title := py_strip (hq_title r),
               hq_reason := py_strip (hq_reason r), hq_backend := py_strip (hq_backend r),
               hq_model := map_option py_strip (hq_model r),
               hq_responsibilities := py_strip (hq_responsibilities r),
               hq_idempotency_key := py_strip (hq_idempotency_key r)\<rparr>
     in if hire_fits s then Some s else None)"

text \<open>\<open>model_dump\<close> and \<open>HireRequest(**stored)\<close>.\<close>

definition hire_json :: "hire_request \<Rightarrow> dict" where
  "hire_json r =
    [(''role'', JStr (hq_role r)), (''title'', JStr (hq_title r)), (''reason'', JStr (hq_reason r)),
     (''backend'', JStr (hq_backend r)), (''model'', opt_json JStr (hq_model r)),
     (''responsibilities'', JStr (hq_responsibilities r)),
     (''estimated_monthly_cents'', JInt (hq_monthly_cents r)),
     (''estimated_one_time_cents'', JInt (hq_one_time_cents r)), (''urgency'', JStr (hq_urgency r)),
     (''idempotency_key'', JStr (hq_idempotency_key r)),
     (''allow_configuration_required'', JBool (hq_allow_configuration r))]"

definition HIRE_FIELDS :: "string list" where
  "HIRE_FIELDS = [''role'', ''title'', ''reason'', ''backend'', ''model'', ''responsibilities'',
     ''estimated_monthly_cents'', ''estimated_one_time_cents'', ''urgency'', ''idempotency_key'',
     ''allow_configuration_required'']"

definition field_or :: "(json \<Rightarrow> 'a option) \<Rightarrow> 'a \<Rightarrow> dict \<Rightarrow> string \<Rightarrow> 'a option" where
  "field_or f z d k = (case map_of d k of None \<Rightarrow> Some z | Some v \<Rightarrow> f v)"

fun json_text :: "json \<Rightarrow> string option" where
  "json_text (JStr s) = Some s"
| "json_text _ = None"

fun json_text_or_null :: "json \<Rightarrow> string option option" where
  "json_text_or_null (JStr s) = Some (Some s)"
| "json_text_or_null JNull = Some None"
| "json_text_or_null _ = None"

fun json_integer :: "json \<Rightarrow> int option" where
  "json_integer (JInt i) = Some i"
| "json_integer _ = None"

fun json_bool :: "json \<Rightarrow> bool option" where
  "json_bool (JBool b) = Some b"
| "json_bool _ = None"

definition read_hire :: "dict \<Rightarrow> hire_request option" where
  "read_hire d =
    (if list_all (\<lambda>(k, v). k \<in> set HIRE_FIELDS) d then
       do {
         role \<leftarrow> Option.bind (map_of d ''role'') json_text;
         title \<leftarrow> Option.bind (map_of d ''title'') json_text;
         reason \<leftarrow> Option.bind (map_of d ''reason'') json_text;
         backend \<leftarrow> Option.bind (map_of d ''backend'') json_text;
         model \<leftarrow> field_or json_text_or_null None d ''model'';
         duties \<leftarrow> field_or json_text [] d ''responsibilities'';
         monthly \<leftarrow> Option.bind (map_of d ''estimated_monthly_cents'') json_integer;
         once \<leftarrow> field_or json_integer 0 d ''estimated_one_time_cents'';
         urgency \<leftarrow> field_or json_text ''normal'' d ''urgency'';
         key \<leftarrow> Option.bind (map_of d ''idempotency_key'') json_text;
         allow \<leftarrow> field_or json_bool False d ''allow_configuration_required'';
         accept_request \<lparr>hq_role = role, hq_title = title, hq_reason = reason, hq_backend = backend,
           hq_model = model, hq_responsibilities = duties, hq_monthly_cents = monthly,
           hq_one_time_cents = once, hq_urgency = urgency, hq_idempotency_key = key,
           hq_allow_configuration = allow\<rparr>
       }
     else None)"

definition commitment_cents :: "hire_request \<Rightarrow> org_error + int" where
  "commitment_cents r =
    (let total = hq_one_time_cents r + 12 * hq_monthly_cents r
     in if 0 \<le> total \<and> total \<le> MAX_COMMITMENT_CENTS then Inr total
        else Inl (org_error 422 ''HIRING_AMOUNT_OUT_OF_RANGE''))"

section \<open>Tables and environment\<close>

record hire_policy =
  hp_id :: uuid
  hp_company_id :: uuid
  hp_rules :: "dict option"
  hp_priority :: int
  hp_enabled :: bool
  hp_version :: int
  hp_created_at :: time

record hire_notice =
  hn_company_id :: uuid
  hn_agent_id :: uuid
  hn_title :: string
  hn_description :: string
  hn_priority :: string
  hn_metadata :: dict

record hire_db =
  hd_org :: org_db
  hd_approvals :: approval_db
  hd_policies :: "hire_policy list"
  hd_access :: access_db
  hd_budgets :: "(uuid \<times> int) list"
  hd_notices :: "hire_notice list"

text \<open>
  \<open>he_uuid5\<close> is UUIDv5 of a namespace and a name (\<open>None\<close> is the constant \<open>_NAMESPACE\<close>), \<open>he_str\<close> the text of a JSON value,
  \<open>he_rule_id\<close> the random id of the default policy of an access check.
\<close>

record hire_env =
  he_uuid5 :: "uuid option \<Rightarrow> label \<Rightarrow> uuid"
  he_str :: "json \<Rightarrow> string"
  he_registry :: cli_registry
  he_enforcement :: string
  he_rule_id :: uuid
  he_now :: time

definition employee_id_for :: "hire_env \<Rightarrow> uuid \<Rightarrow> uuid" where
  "employee_id_for env rid = he_uuid5 env (Some rid) [Txt ''employee'']"

definition request_id_for :: "hire_env \<Rightarrow> uuid \<Rightarrow> uuid \<Rightarrow> string \<Rightarrow> uuid" where
  "request_id_for env cid mid key =
    he_uuid5 env None [Uid cid, Txt '':'', Uid mid, Txt '':'', Txt key]"

definition label_string :: "label \<Rightarrow> string" where
  "label_string l = concat (map (\<lambda>p. case p of Txt s \<Rightarrow> s | Uid u \<Rightarrow> uuid_text u | NoId \<Rightarrow> ''None'') l)"

definition get_hire :: "uuid \<Rightarrow> uuid \<Rightarrow> hire_db \<Rightarrow> approval option" where
  "get_hire cid rid db = find (\<lambda>a. av_id a = rid \<and> av_company_id a = cid \<and> av_type a = HIRE)
     (vd_approvals (hd_approvals db))"

definition get_request :: "uuid \<Rightarrow> uuid \<Rightarrow> uuid option \<Rightarrow> hire_db \<Rightarrow> org_error + approval" where
  "get_request cid rid manager db =
    (case get_hire cid rid db of
       None \<Rightarrow> Inl (org_error 404 ''HIRING_REQUEST_NOT_FOUND'')
     | Some a \<Rightarrow>
         if manager \<noteq> None \<and> manager \<noteq> av_requested_by_agent_id a
         then Inl (org_error 404 ''HIRING_REQUEST_NOT_FOUND'') else Inr a)"

section \<open>The rules\<close>

definition hiring_rules :: "hire_policy \<Rightarrow> dict option" where
  "hiring_rules p = (case map_of (dict_or_empty (hp_rules p)) ''hiring'' of Some (JDict d) \<Rightarrow> Some d | _ \<Rightarrow> None)"

definition company_policy :: "uuid \<Rightarrow> hire_policy list \<Rightarrow> hire_policy option" where
  "company_policy cid ps =
    find (\<lambda>p. hiring_rules p \<noteq> None)
      (sort_key (\<lambda>p. - hp_priority p) (sort_key hp_created_at (sort_key hp_id
        (filter (\<lambda>p. hp_company_id p = cid \<and> hp_enabled p) ps))))"

definition company_rules :: "uuid \<Rightarrow> hire_policy list \<Rightarrow> dict" where
  "company_rules cid ps = dict_or_empty (Option.bind (company_policy cid ps) hiring_rules)"

definition limit_of :: "dict \<Rightarrow> string \<Rightarrow> int option" where
  "limit_of rules key = (case map_of rules key of Some (JInt i) \<Rightarrow> if 0 \<le> i then Some i else None | _ \<Rightarrow> None)"

definition policy_source :: "hire_policy option \<Rightarrow> label" where
  "policy_source p = (case p of
     None \<Rightarrow> [Txt ''policy:default'']
   | Some p \<Rightarrow> [Txt ''policy:'', Uid (hp_id p), Txt '':v'', Txt (show_int (hp_version p))])"

definition approved_hires :: "uuid \<Rightarrow> uuid option \<Rightarrow> approval_db \<Rightarrow> approval list" where
  "approved_hires cid excluded db =
    filter (\<lambda>a. av_company_id a = cid \<and> av_type a = HIRE \<and> av_status a = Approved \<and> Some (av_id a) \<noteq> excluded)
      (vd_approvals db)"

definition stored_request :: "approval \<Rightarrow> dict" where
  "stored_request a = (case map_of (dict_or_empty (av_payload a)) ''request'' of Some (JDict d) \<Rightarrow> d | _ \<Rightarrow> [])"

text \<open>A stored amount; the service alone files these requests, with integers.\<close>

definition stored_cents :: "string \<Rightarrow> approval \<Rightarrow> int" where
  "stored_cents key a = (case map_of (stored_request a) key of Some (JInt i) \<Rightarrow> i | _ \<Rightarrow> 0)"

text \<open>Approved hires whose employee does not exist yet.\<close>

definition committed :: "hire_env \<Rightarrow> uuid \<Rightarrow> uuid option \<Rightarrow> hire_db \<Rightarrow> approval list" where
  "committed env cid excluded db =
    (let pending = fold (\<lambda>a. AList.update (employee_id_for env (av_id a)) a)
           (approved_hires cid excluded (hd_approvals db)) []
     in map snd (filter (\<lambda>(e, a). e \<notin> oa_id ` set (od_agents (hd_org db))) pending))"

definition hired_this_month :: "hire_env \<Rightarrow> uuid \<Rightarrow> uuid option \<Rightarrow> hire_db \<Rightarrow> int" where
  "hired_this_month env cid excluded db =
    sum_list (map (stored_cents ''estimated_one_time_cents'')
      (filter (\<lambda>a. case av_decided_at a of None \<Rightarrow> False
               | Some at \<Rightarrow> calculate_window_start ''monthly'' (he_now env) \<le> at)
        (approved_hires cid excluded (hd_approvals db))))"

definition live_agents :: "uuid \<Rightarrow> hire_db \<Rightarrow> org_agent list" where
  "live_agents cid db = filter (\<lambda>a. oa_company_id a = cid \<and> \<not> terminated a) (od_agents (hd_org db))"

definition headcount :: "hire_env \<Rightarrow> uuid \<Rightarrow> uuid option \<Rightarrow> hire_db \<Rightarrow> int" where
  "headcount env cid excluded db = int (length (live_agents cid db) + length (committed env cid excluded db))"

definition report_count :: "hire_env \<Rightarrow> uuid \<Rightarrow> uuid option \<Rightarrow> uuid \<Rightarrow> hire_db \<Rightarrow> int" where
  "report_count env cid excluded mid db =
    int (length (filter (\<lambda>a. oa_manager_id a = Some mid) (live_agents cid db)) +
         length (filter (\<lambda>a. av_requested_by_agent_id a = Some mid) (committed env cid excluded db)))"

definition recurring_cents :: "hire_env \<Rightarrow> uuid \<Rightarrow> uuid option \<Rightarrow> hire_db \<Rightarrow> int" where
  "recurring_cents env cid excluded db =
    sum_list (map oa_budget_monthly_cents (live_agents cid db)) +
    sum_list (map (stored_cents ''estimated_monthly_cents'') (committed env cid excluded db))"

definition recurring_cap :: "uuid \<Rightarrow> dict \<Rightarrow> hire_db \<Rightarrow> int option" where
  "recurring_cap cid rules db =
    (case limit_of rules ''max_recurring_monthly_cents'' of
       Some c \<Rightarrow> Some c
     | None \<Rightarrow> (case map_of (hd_budgets db) cid of
         Some b \<Rightarrow> if 0 < b then Some b else None | None \<Rightarrow> None))"

section \<open>The policy decision\<close>

type_synonym reason = "string \<times> string"

fun comma_join :: "string \<Rightarrow> string list \<Rightarrow> string" where
  "comma_join sep [] = []"
| "comma_join sep [x] = x"
| "comma_join sep (x # y # zs) = x @ sep @ comma_join sep (y # zs)"

definition in_quotes :: "string \<Rightarrow> string" where
  "in_quotes s = [CHR 0x27] @ s @ [CHR 0x27]"

text \<open>The messages of \<open>validate_employee_cli_config\<close>.\<close>

fun config_error_message :: "(json \<Rightarrow> string) \<Rightarrow> cli_config_error \<Rightarrow> string" where
  "config_error_message str NotCli = ''adapter_type must be '' @ in_quotes ''cli''"
| "config_error_message str (UnexpectedKeys ks) = ''Unsupported adapter_config keys: '' @ comma_join '', '' ks @
     ''. Executables resolve server-side; credentials are never stored.''"
| "config_error_message str BackendRequired = ''adapter_config.backend is required''"
| "config_error_message str (BackendUnknown b) = ''Unknown CLI backend '' @ in_quotes b"
| "config_error_message str (ArgsForbidden why) = why"
| "config_error_message str TooManyArgs = ''At most 20 extra_args are allowed''"
| "config_error_message str (AutonomyRefused v) = ''autonomy_mode '' @ in_quotes (str v) @
     '' requires policy approval; only '' @ in_quotes ''safe'' @ '' is allowed''"
| "config_error_message str WorktreeRefused = ''use_worktree is managed by WorktreeService, not agent config''"
| "config_error_message str (InteractiveUnsupported n) = n @ '' does not support interactive mode''"
| "config_error_message str (ModelUnsupported n) = n @ '' does not accept a model flag''"
| "config_error_message str ModelInvalid = ''Model contains unsupported characters''"
| "config_error_message str (BackendNotExecutable n) =
     n @ '' is catalog-only: its non-interactive invocation is not verified''"
| "config_error_message str (BackendUnavailable n) = n @ '' is not installed on this server''"

record hire_decision =
  hx_outcome :: string
  hx_rule :: label
  hx_reasons :: "reason list"
  hx_backend :: string
  hx_configuration_required :: bool
  hx_amount_cents :: int
  hx_required_signatures :: int
  hx_evaluated_at :: time

definition reason_if :: "bool \<Rightarrow> string \<Rightarrow> string \<Rightarrow> reason list" where
  "reason_if b code msg = (if b then [(code, msg)] else [])"

text \<open>The employees as the access check reads them, and its verdict on the requesting manager.\<close>

definition agent_view :: "org_agent \<Rightarrow> agent" where
  "agent_view a = \<lparr>ag_id = oa_id a, ag_company_id = oa_company_id a, ag_name = oa_name a,
     ag_status = oa_status a, ag_adapter_type = Some (oa_adapter_type a), ag_model = oa_model a,
     ag_connection_id = oa_connection_id a, ag_department_id = oa_department_id a,
     ag_autonomy_policy = oa_autonomy_policy a\<rparr>"

definition hire_access :: "hire_env \<Rightarrow> uuid \<Rightarrow> uuid \<Rightarrow> hire_db \<Rightarrow> access_decision option" where
  "hire_access env cid mid db =
    check_tool_access (he_enforcement env) (he_rule_id env) (he_now env)
      (Some (plain_context cid [Txt ''agent:'', Uid mid] ''agent'' INBOUND_MCP (Some mid) None None None))
      \<lparr>ar_tool_name = HIRE_TOOL, ar_agent_id = None, ar_connection_id = None, ar_endpoint_url = None,
       ar_default_risk = Some ''write'', ar_grant_key = None\<rparr>
      ((hd_access db)\<lparr>ad_agents := map agent_view (od_agents (hd_org db))\<rparr>)"

definition hire_config :: "hire_env \<Rightarrow> hire_request \<Rightarrow> cli_config_error + (dict \<times> string option)" where
  "hire_config env r =
    normalize_cli_employee (he_registry env) ''cli'' (Some [(''backend'', JStr (hq_backend r))])
      (hq_model r) (hq_allow_configuration r)"

definition hire_backend :: "hire_env \<Rightarrow> hire_request \<Rightarrow> string" where
  "hire_backend env r = (case hire_config env r of
     Inl e \<Rightarrow> hq_backend r
   | Inr (config, override) \<Rightarrow> (case dict_str config ''backend'' of Some b \<Rightarrow> b | None \<Rightarrow> []))"

definition hire_override :: "hire_env \<Rightarrow> hire_request \<Rightarrow> string option" where
  "hire_override env r = (case hire_config env r of Inl e \<Rightarrow> None | Inr (config, override) \<Rightarrow> override)"

definition not_listed :: "dict \<Rightarrow> string \<Rightarrow> string \<Rightarrow> string \<Rightarrow> reason list" where
  "not_listed rules key v code =
    (case map_of rules key of
       Some (JList allowed) \<Rightarrow>
         reason_if (JStr v \<notin> set allowed) code (in_quotes v @ '' is not in the policy'' @ [CHR 0x27] @ ''s '' @ key)
     | _ \<Rightarrow> [])"

definition over :: "int option \<Rightarrow> int \<Rightarrow> string \<Rightarrow> (string \<Rightarrow> string) \<Rightarrow> reason list" where
  "over cap n code msg = (case cap of None \<Rightarrow> [] | Some c \<Rightarrow> reason_if (c < n) code (msg (show_int c)))"

text \<open>What counts against a limit.\<close>

definition cap_reasons :: "hire_env \<Rightarrow> uuid \<Rightarrow> uuid \<Rightarrow> hire_request \<Rightarrow> uuid option \<Rightarrow> hire_db \<Rightarrow> reason list" where
  "cap_reasons env cid mid r excluded db =
    (let rules = company_rules cid (hd_policies db) in
       over (limit_of rules ''max_headcount'') (headcount env cid excluded db + 1)
         ''HEADCOUNT_LIMIT'' (\<lambda>c. ''Headcount would exceed '' @ c) @
       over (limit_of rules ''max_direct_reports'') (report_count env cid excluded mid db + 1)
         ''DIRECT_REPORTS_LIMIT'' (\<lambda>c. ''The manager would exceed '' @ c @ '' direct reports'') @
       over (recurring_cap cid rules db) (recurring_cents env cid excluded db + hq_monthly_cents r)
         ''RECURRING_BUDGET_EXCEEDED'' (\<lambda>c. ''Monthly agent budget would exceed '' @ c @ '' cents'') @
       over (limit_of rules ''hiring_budget_monthly_cents'') (hired_this_month env cid excluded db + hq_one_time_cents r)
         ''HIRING_BUDGET_EXCEEDED'' (\<lambda>c. ''This month'' @ [CHR 0x27] @ ''s hiring budget of '' @ c @
            '' cents would be exceeded''))"

definition hire_rejections ::
  "hire_env \<Rightarrow> uuid \<Rightarrow> org_agent \<Rightarrow> bool \<Rightarrow> hire_request \<Rightarrow> uuid option \<Rightarrow> hire_db \<Rightarrow> reason list" where
  "hire_rejections env cid manager denied r excluded db =
    (let rules = company_rules cid (hd_policies db) in
       reason_if (oa_company_id manager \<noteq> cid \<or> terminated manager) ''MANAGER_INACTIVE''
         ''The requesting manager is not an active agent of this company'' @
       reason_if denied ''TOOL_POLICY_DENIED'' (''ToolPolicy does not allow '' @ HIRE_TOOL @ '' for this manager'') @
       (case hire_config env r of
          Inl e \<Rightarrow> [(config_error_code e, config_error_message (he_str env) e)] | Inr c \<Rightarrow> []) @
       not_listed rules ''allowed_roles'' (hq_role r) ''ROLE_NOT_ALLOWED'' @
       not_listed rules ''allowed_backends'' (hire_backend env r) ''BACKEND_NOT_ALLOWED'' @
       not_listed rules ''allowed_models'' (py_strip (case hq_model r of None \<Rightarrow> [] | Some m \<Rightarrow> m)) ''MODEL_NOT_ALLOWED'' @
       cap_reasons env cid (oa_id manager) r excluded db)"

definition auto_approvable :: "hire_policy option \<Rightarrow> dict \<Rightarrow> hire_request \<Rightarrow> bool" where
  "auto_approvable p rules r \<longleftrightarrow>
    (let auto = (case map_of rules ''auto_approve'' of Some (JDict d) \<Rightarrow> d | _ \<Rightarrow> []) in
       p \<noteq> None \<and> map_of auto ''enabled'' = Some (JBool True) \<and>
       (case (limit_of auto ''max_monthly_cents'', limit_of auto ''max_one_time_cents'') of
          (Some monthly, Some once) \<Rightarrow> hq_monthly_cents r \<le> monthly \<and> hq_one_time_cents r \<le> once
        | _ \<Rightarrow> False))"

definition hire_holds :: "hire_env \<Rightarrow> hire_request \<Rightarrow> int \<Rightarrow> int \<Rightarrow> reason list" where
  "hire_holds env r amount quorum =
    reason_if (hire_override env r \<noteq> None) ''CONFIGURATION_REQUIRED''
      (hire_backend env r @ '' is not ready here; the hire needs setup'') @
    reason_if (1 < quorum) ''SIGNATURE_QUORUM_REQUIRED''
      (''A first-year commitment of '' @ show_int amount @ '' cents needs '' @ show_int quorum @ '' signatures'')"

text \<open>\<open>manager\<close> is the copy the caller holds. An access check that raises ends the call.\<close>

definition evaluate ::
  "hire_env \<Rightarrow> uuid \<Rightarrow> org_agent \<Rightarrow> hire_request \<Rightarrow> uuid option \<Rightarrow> hire_db \<Rightarrow> org_error + hire_decision" where
  "evaluate env cid manager r excluded db =
    (case hire_access env cid (oa_id manager) db of
       None \<Rightarrow> Inl (org_error 500 ''INTERNAL'')
     | Some access \<Rightarrow>
         (case commitment_cents r of
            Inl e \<Rightarrow> Inl e
          | Inr amount \<Rightarrow>
              let policy = company_policy cid (hd_policies db);
                  rules = company_rules cid (hd_policies db);
                  rejected = hire_rejections env cid manager (\<not> decision_allowed access) r excluded db;
                  quorum = required_signatures_for HIRE (Some [(''amount_cents'', JInt amount)]);
                  held = hire_holds env r amount quorum;
                  decide = (\<lambda>outcome rule reasons. Inr
                    \<lparr>hx_outcome = outcome, hx_rule = policy_source policy @ [Txt rule], hx_reasons = reasons,
                     hx_backend = hire_backend env r, hx_configuration_required = (hire_override env r \<noteq> None),
                     hx_amount_cents = amount, hx_required_signatures = quorum, hx_evaluated_at = he_now env\<rparr>)
              in if rejected \<noteq> [] then decide HIRE_REJECTED '':hiring'' rejected
                 else if held \<noteq> [] then decide APPROVAL_REQUIRED '':hiring'' held
                 else if auto_approvable policy rules r then decide AUTO_APPROVED '':hiring.auto_approve'' []
                 else decide APPROVAL_REQUIRED '':hiring''
                   [(''HUMAN_APPROVAL_REQUIRED'', ''No bounded auto-approval rule covers this request'')]))"

definition reasons_json :: "reason list \<Rightarrow> json" where
  "reasons_json rs = JList (map (\<lambda>(c, m). JDict [(''code'', JStr c), (''message'', JStr m)]) rs)"

definition decision_json :: "hire_decision \<Rightarrow> dict" where
  "decision_json x =
    [(''outcome'', JStr (hx_outcome x)), (''rule'', JText (hx_rule x)), (''reasons'', reasons_json (hx_reasons x)),
     (''backend'', JStr (hx_backend x)), (''configuration_required'', JBool (hx_configuration_required x)),
     (''amount_cents'', JInt (hx_amount_cents x)), (''required_signatures'', JInt (hx_required_signatures x)),
     (''evaluated_at'', JStr (isoformat (hx_evaluated_at x) @ ''+00:00''))]"

section \<open>Filing a request\<close>

definition hire_audit ::
  "uuid \<Rightarrow> string \<Rightarrow> label \<Rightarrow> string \<Rightarrow> uuid \<Rightarrow> dict \<Rightarrow> hire_db \<Rightarrow> hire_db" where
  "hire_audit cid action who rtype rid details db =
    db\<lparr>hd_org := org_audit cid action who rtype rid details (hd_org db)\<rparr>"

definition hire_common :: "uuid \<Rightarrow> hire_request \<Rightarrow> hire_decision \<Rightarrow> dict" where
  "hire_common mid r x = [(''manager_id'', JId mid), (''role'', JStr (hq_role r)), (''backend'', JStr (hx_backend x))]"

definition same_request_body :: "uuid \<Rightarrow> hire_request \<Rightarrow> approval \<Rightarrow> org_error + approval \<times> bool" where
  "same_request_body mid r a =
    (if av_requested_by_agent_id a \<noteq> Some mid \<or> stored_request a \<noteq> hire_json r
     then Inl (org_error 409 ''IDEMPOTENCY_KEY_REUSED'') else Inr (a, False))"

definition hire_payload :: "hire_request \<Rightarrow> hire_decision \<Rightarrow> dict" where
  "hire_payload r x = [(''request'', JDict (hire_json r)), (''amount_cents'', JInt (hx_amount_cents x)),
     (''policy'', JDict (decision_json x))]"

definition hire_notification :: "uuid \<Rightarrow> org_agent \<Rightarrow> uuid \<Rightarrow> hire_request \<Rightarrow> hire_decision \<Rightarrow> hire_notice" where
  "hire_notification cid manager rid r x =
    \<lparr>hn_company_id = cid, hn_agent_id = oa_id manager,
     hn_title = ''Hiring request needs approval: '' @ hq_title r,
     hn_description = oa_name manager @ '' asks to hire a '' @ hq_role r @ '' on '' @ hx_backend x @ '': '' @
       take 300 (hq_reason r),
     hn_priority = (case map_of HIRE_PRIORITY (hq_urgency r) of Some v \<Rightarrow> v | None \<Rightarrow> []),
     hn_metadata = [(''approval_id'', JId rid)] @ hire_common (oa_id manager) r x @
       [(''reasons'', reasons_json (hx_reasons x))]\<rparr>"

text \<open>
  The transaction under the lock. \<open>manager\<close> is the copy read before the lock was taken. A request
  id that belongs to another kind of approval refuses the insert.
\<close>

definition settle_submission ::
  "hire_env \<Rightarrow> uuid \<Rightarrow> org_agent \<Rightarrow> uuid \<Rightarrow> hire_request \<Rightarrow> hire_decision \<Rightarrow> hire_db \<Rightarrow> (signature_error + hire_db)" where
  "settle_submission env cid manager rid r x db =
    (let note = comma_join ''; '' (map snd (hx_reasons x)); common = hire_common (oa_id manager) r x
     in if hx_outcome x = AUTO_APPROVED then
          (case approve_request (he_now env) rid (label_string (hx_rule x)) (Some ''Auto-approved by policy'')
                  (hd_approvals db) of
             (vs, Inl e) \<Rightarrow> Inl e
           | (vs, Inr a) \<Rightarrow> Inr (hire_audit cid ''hiring.auto_approved'' (hx_rule x) ''approval'' rid
               (common @ [(''rule'', JText (hx_rule x))]) (db\<lparr>hd_approvals := vs\<rparr>)))
        else if hx_outcome x = HIRE_REJECTED then
          Inr (hire_audit cid ''hiring.rejected'' (hx_rule x) ''approval'' rid
            (common @ [(''reason'', JStr note), (''by'', JStr ''policy'')])
            (db\<lparr>hd_approvals := fst (reject_request (he_now env) rid (label_string (hx_rule x)) (Some note)
               (hd_approvals db))\<rparr>))
        else Inr (db\<lparr>hd_notices := hd_notices db @ [hire_notification cid manager rid r x]\<rparr>))"

definition record_submission ::
  "uuid \<Rightarrow> uuid \<Rightarrow> uuid \<Rightarrow> hire_request \<Rightarrow> label \<Rightarrow> hire_decision \<Rightarrow> hire_db \<Rightarrow> hire_db" where
  "record_submission cid mid rid r actor x db =
    hire_audit cid ''hiring.policy_evaluated'' actor ''approval'' rid
      [(''stage'', JStr ''submission''), (''outcome'', JStr (hx_outcome x)),
       (''rule'', JText (hx_rule x)), (''reasons'', reasons_json (hx_reasons x))]
      (hire_audit cid ''hiring.request_submitted'' actor ''approval'' rid
        (hire_common mid r x @ [(''urgency'', JStr (hq_urgency r)),
          (''estimated_monthly_cents'', JInt (hq_monthly_cents r)),
          (''estimated_one_time_cents'', JInt (hq_one_time_cents r))]) db)"

definition file_request ::
  "hire_env \<Rightarrow> uuid \<Rightarrow> org_agent \<Rightarrow> hire_request \<Rightarrow> label \<Rightarrow> hire_db \<Rightarrow>
   hire_db \<times> (org_error + approval \<times> bool)" where
  "file_request env cid manager r actor db =
    (let rid = request_id_for env cid (oa_id manager) (hq_idempotency_key r)
     in case get_hire cid rid db of
          Some a \<Rightarrow> (db, same_request_body (oa_id manager) r a)
        | None \<Rightarrow>
            (case evaluate env cid manager r None db of
               Inl e \<Rightarrow> (db, Inl e)
             | Inr x \<Rightarrow>
                 (case request_approval (he_now env) rid cid HIRE (Some (oa_id manager)) (Some (hire_payload r x)) None
                         (hd_approvals db) of
                    None \<Rightarrow> (db, Inl (org_error 500 ''INTEGRITY''))
                  | Some vs \<Rightarrow>
                      let db2 = record_submission cid (oa_id manager) rid r actor x (db\<lparr>hd_approvals := vs\<rparr>)
                      in (case settle_submission env cid manager rid r x db2 of
                            Inl e \<Rightarrow> (db, Inl (org_error 500 ''INTERNAL''))
                          | Inr db3 \<Rightarrow> (case get_hire cid rid db3 of
                              None \<Rightarrow> (db, Inl (org_error 404 ''HIRING_REQUEST_NOT_FOUND''))
                            | Some a \<Rightarrow> (db3, Inr (a, True)))))))"

section \<open>Creating the employee\<close>

definition hired_row :: "hire_env \<Rightarrow> approval \<Rightarrow> hire_request \<Rightarrow> dict \<Rightarrow> string option \<Rightarrow> org_agent" where
  "hired_row env a r config override =
    \<lparr>oa_id = employee_id_for env (av_id a), oa_company_id = av_company_id a, oa_name = hq_title r,
     oa_role = hq_role r, oa_title = Some (hq_title r), oa_department_id = None, oa_team_id = None,
     oa_manager_id = av_requested_by_agent_id a, oa_is_ceo = False,
     oa_status = (case override of None \<Rightarrow> ''idle'' | Some s \<Rightarrow> s),
     oa_adapter_type = ''cli'', oa_adapter_config = Some config,
     oa_model = Some (py_strip (case hq_model r of None \<Rightarrow> [] | Some m \<Rightarrow> m)), oa_connection_id = None,
     oa_capabilities = None, oa_responsibilities = text_or_none (hq_responsibilities r),
     oa_objectives = None, oa_soul_description = None, oa_autonomy_policy = None,
     oa_budget_monthly_cents = hq_monthly_cents r, oa_paused_at = None, oa_updated_at = he_now env\<rparr>"

definition materialization_failed ::
  "approval \<Rightarrow> label \<Rightarrow> string \<Rightarrow> hire_db \<Rightarrow> hire_db \<times> (org_error + org_agent)" where
  "materialization_failed a actor code db =
    (hire_audit (av_company_id a) ''hiring.materialization_failed'' actor ''approval'' (av_id a)
       [(''code'', JStr code)] db, Inl (org_error 409 ''HIRING_MATERIALIZATION_FAILED''))"

definition employee_created_audits :: "approval \<Rightarrow> label \<Rightarrow> org_agent \<Rightarrow> dict \<Rightarrow> uuid option \<Rightarrow> hire_db \<Rightarrow> hire_db" where
  "employee_created_audits a actor e config manager db =
    hire_audit (av_company_id a) ''hiring.employee_created'' actor ''approval'' (av_id a)
      [(''employee_id'', JId (oa_id e)), (''manager_id'', JText [opt_piece manager])]
      (hire_audit (av_company_id a) ''agent.created'' actor ''agent'' (oa_id e)
        [(''name'', JStr (oa_name e)), (''role'', JStr (oa_role e)), (''adapter_type'', JStr ''cli''),
         (''cli_backend'', case map_of config ''backend'' of Some b \<Rightarrow> b | None \<Rightarrow> JNull),
         (''model'', opt_json JStr (oa_model e)), (''status'', JStr (oa_status e)),
         (''manager_id'', JText [opt_piece manager]), (''hiring_request_id'', JId (av_id a))] db)"

text \<open>
  An employee that exists is returned as it is. A refused manager or backend is recorded, and the
  request stays approved. The text of a refusal in the audit row is left out.
\<close>

definition materialize :: "hire_env \<Rightarrow> approval \<Rightarrow> label \<Rightarrow> hire_db \<Rightarrow> hire_db \<times> (org_error + org_agent)" where
  "materialize env a actor db =
    (case find (\<lambda>e. oa_id e = employee_id_for env (av_id a)) (od_agents (hd_org db)) of
       Some e \<Rightarrow> (db, Inr e)
     | None \<Rightarrow>
         (case read_hire (stored_request a) of
            None \<Rightarrow> (db, Inl (org_error 500 ''INTERNAL''))
          | Some r \<Rightarrow>
              (case resolve_manager (av_company_id a) None (av_requested_by_agent_id a) (hd_org db) of
                 Inl e \<Rightarrow> materialization_failed a actor (oe_code e) db
               | Inr manager \<Rightarrow>
                   (case hire_config env r of
                      Inl e \<Rightarrow> materialization_failed a actor (config_error_code e) db
                    | Inr (config, override) \<Rightarrow>
                        let e = hired_row env a r config override in
                        (case create_org_agent e (hd_org db) of
                           Inl e \<Rightarrow> materialization_failed a actor ''EMPLOYEE_INSERT_FAILED'' db
                         | Inr org \<Rightarrow>
                             (employee_created_audits a actor e config manager (db\<lparr>hd_org := org\<rparr>),
                              Inr (e\<lparr>oa_manager_id := manager\<rparr>)))))))"

section \<open>Deciding\<close>

definition require_human :: "principal \<Rightarrow> org_error option" where
  "require_human p = (if p_agent_id p \<noteq> None \<or> p_kind p = Run then Some (org_error 403 ''HUMAN_DECISION_REQUIRED'')
     else None)"

definition amount_matches :: "approval \<Rightarrow> int \<Rightarrow> bool" where
  "amount_matches a amount \<longleftrightarrow> map_of (dict_or_empty (av_payload a)) ''amount_cents'' = Some (JInt amount) \<and>
    required_signatures_for HIRE (Some [(''amount_cents'', JInt amount)]) \<le> av_required_signatures a"

definition add_payload :: "uuid \<Rightarrow> string \<Rightarrow> json \<Rightarrow> approval_db \<Rightarrow> approval_db" where
  "add_payload rid k v db =
    db\<lparr>vd_approvals := update_where (\<lambda>a. av_id a = rid)
        (\<lambda>a. a\<lparr>av_payload := Some (AList.update k v (dict_or_empty (av_payload a)))\<rparr>) (vd_approvals db)\<rparr>"

text \<open>A pending request under the lock: policy again, then the conditional approval.\<close>

definition approve_pending ::
  "hire_env \<Rightarrow> uuid \<Rightarrow> approval \<Rightarrow> principal \<Rightarrow> string option \<Rightarrow> hire_db \<Rightarrow> hire_db \<times> (org_error + approval)" where
  "approve_pending env cid a p note db =
    (let rid = av_id a; who = display_name p in
     case read_hire (stored_request a) of
       None \<Rightarrow> (db, Inl (org_error 500 ''INTERNAL''))
     | Some r \<Rightarrow>
         (case commitment_cents r of
            Inl e \<Rightarrow> (db, Inl e)
          | Inr amount \<Rightarrow>
              if \<not> amount_matches a amount then (db, Inl (org_error 409 ''HIRING_AMOUNT_MISMATCH''))
              else case Option.bind (av_requested_by_agent_id a) (\<lambda>m. get_org_agent cid m (hd_org db)) of
                None \<Rightarrow> (db, Inl (org_error 404 ''AGENT_NOT_FOUND''))
              | Some manager \<Rightarrow>
                  (case evaluate env cid manager r (Some rid) db of
                     Inl e \<Rightarrow> (db, Inl e)
                   | Inr x \<Rightarrow>
                       let db1 = hire_audit cid ''hiring.policy_evaluated'' who ''approval'' rid
                             [(''stage'', JStr ''approval''), (''outcome'', JStr (hx_outcome x)),
                              (''rule'', JText (hx_rule x)), (''reasons'', reasons_json (hx_reasons x))] db
                       in if hx_outcome x = HIRE_REJECTED then (db1, Inl (org_error 409 ''HIRING_POLICY_REJECTED''))
                          else case approve_request (he_now env) rid (label_string who) note (hd_approvals db) of
                            (vs, Inl e) \<Rightarrow> (db1, Inl (org_error 409 ''APPROVAL_QUORUM_NOT_MET''))
                          | (vs, Inr None) \<Rightarrow> (db, Inl (org_error 409 ''HIRING_REQUEST_DECIDED''))
                          | (vs, Inr (Some a')) \<Rightarrow>
                              if av_status a' \<noteq> Approved then (db, Inl (org_error 409 ''HIRING_REQUEST_DECIDED''))
                              else
                                let vs' = add_payload rid ''approval_policy'' (JDict (decision_json x)) vs;
                                    db2 = hire_audit cid ''hiring.approved'' who ''approval'' rid
                                      [(''manager_id'', opt_json JId (av_requested_by_agent_id a')),
                                       (''rule'', JText (hx_rule x)), (''note'', opt_json JStr note)]
                                      (db1\<lparr>hd_approvals := vs'\<rparr>)
                                in (db2, case get_hire cid rid db2 of
                                      None \<Rightarrow> Inl (org_error 404 ''HIRING_REQUEST_NOT_FOUND'') | Some a'' \<Rightarrow> Inr a''))))"

definition decide_hire ::
  "hire_env \<Rightarrow> uuid \<Rightarrow> uuid \<Rightarrow> principal \<Rightarrow> string option \<Rightarrow> hire_db \<Rightarrow> hire_db \<times> (org_error + approval)" where
  "decide_hire env cid rid p note db =
    (case require_human p of
       Some e \<Rightarrow> (db, Inl e)
     | None \<Rightarrow>
         (case get_request cid rid None db of
            Inl e \<Rightarrow> (db, Inl e)
          | Inr a \<Rightarrow>
              if av_status a = Pending then approve_pending env cid a p note db
              else if av_status a = Approved then (db, Inr a)
              else (db, Inl (org_error 409 ''HIRING_REQUEST_DECIDED''))))"

text \<open>
  A rejection takes no lock: \<open>seen\<close> is the copy read before, and the conditional update may find
  the request decided meanwhile.
\<close>

definition reject_pending ::
  "hire_env \<Rightarrow> uuid \<Rightarrow> approval \<Rightarrow> label \<Rightarrow> string \<Rightarrow> hire_db \<Rightarrow> hire_db \<times> (org_error + approval)" where
  "reject_pending env cid seen who reason db =
    (let rid = av_id seen in
     case reject_request (he_now env) rid (label_string who) (Some reason) (hd_approvals db) of
       (vs, None) \<Rightarrow> (db, Inl (org_error 500 ''INTERNAL''))
     | (vs, Some a) \<Rightarrow>
         let db1 = db\<lparr>hd_approvals := vs\<rparr> in
         if av_status a = Rejected then
           ((if av_decided_by a = Some (label_string who)
             then hire_audit cid ''hiring.rejected'' who ''approval'' rid
               [(''manager_id'', opt_json JId (av_requested_by_agent_id a)), (''reason'', JStr reason),
                (''by'', JStr ''human'')] db1
             else db1), Inr a)
         else (db1, Inl (org_error 409 ''HIRING_REQUEST_DECIDED'')))"

definition reject_hire ::
  "hire_env \<Rightarrow> uuid \<Rightarrow> uuid \<Rightarrow> principal \<Rightarrow> string option \<Rightarrow> (nat \<Rightarrow> hire_db \<Rightarrow> hire_db) \<Rightarrow> hire_db \<Rightarrow>
   hire_db \<times> (org_error + approval)" where
  "reject_hire env cid rid p note others db =
    (let reason = py_strip (case note of None \<Rightarrow> [] | Some n \<Rightarrow> n) in
     case require_human p of
       Some e \<Rightarrow> (db, Inl e)
     | None \<Rightarrow>
         if reason = [] then (db, Inl (org_error 422 ''REJECTION_REASON_REQUIRED''))
         else case get_request cid rid None db of
           Inl e \<Rightarrow> (db, Inl e)
         | Inr a \<Rightarrow>
             if av_status a = Pending then reject_pending env cid a (display_name p) reason (others 0 db)
             else if av_status a = Rejected then (db, Inr a)
             else (db, Inl (org_error 409 ''HIRING_REQUEST_DECIDED'')))"

section \<open>The calls\<close>

text \<open>
  Filing and approving, followed by the creation of the employee. \<open>others i\<close> is what other
  processes do in the i-th gap of a call: before the lock is taken, before a filed request is
  read again, and before the lock of the creation.
\<close>

definition stored_rule :: "approval \<Rightarrow> label" where
  "stored_rule a =
    (case map_of (dict_or_empty (av_payload a)) ''policy'' of
       Some (JDict d) \<Rightarrow> (case map_of d ''rule'' of Some (JText l) \<Rightarrow> l | _ \<Rightarrow> [])
     | _ \<Rightarrow> [])"

definition submit_hire ::
  "hire_env \<Rightarrow> uuid \<Rightarrow> uuid \<Rightarrow> hire_request \<Rightarrow> label \<Rightarrow> (nat \<Rightarrow> hire_db \<Rightarrow> hire_db) \<Rightarrow> hire_db \<Rightarrow>
   hire_db \<times> (org_error + approval \<times> bool)" where
  "submit_hire env cid mid r actor others db =
    (case get_company_agent cid mid (hd_org db) of
       Inl e \<Rightarrow> (db, Inl e)
     | Inr manager \<Rightarrow>
         (case get_hire cid (request_id_for env cid mid (hq_idempotency_key r)) db of
            Some a \<Rightarrow> (db, same_request_body mid r a)
          | None \<Rightarrow>
              (case file_request env cid manager r actor (others 0 db) of
                 (db1, Inl e) \<Rightarrow> (db1, Inl e)
               | (db1, Inr (a, False)) \<Rightarrow> (db1, Inr (a, False))
               | (db1, Inr (a, True)) \<Rightarrow>
                   let db2 = others 1 db1 in
                   (case get_request cid (av_id a) None db2 of
                      Inl e \<Rightarrow> (db2, Inl e)
                    | Inr b \<Rightarrow>
                        if av_status b = Approved then
                          (case materialize env b (stored_rule b) (others 2 db2) of
                             (db3, Inl e) \<Rightarrow> (db3, Inl e)
                           | (db3, Inr x) \<Rightarrow> (db3, Inr (b, True)))
                        else (db2, Inr (b, True))))))"

definition approve_hire ::
  "hire_env \<Rightarrow> uuid \<Rightarrow> uuid \<Rightarrow> principal \<Rightarrow> string option \<Rightarrow> (nat \<Rightarrow> hire_db \<Rightarrow> hire_db) \<Rightarrow> hire_db \<Rightarrow>
   hire_db \<times> (org_error + approval)" where
  "approve_hire env cid rid p note others db =
    (let locked = (case get_request cid rid None db of
           Inl e \<Rightarrow> db
         | Inr a \<Rightarrow> if require_human p = None \<and> av_status a = Pending then others 0 db else db)
     in case decide_hire env cid rid p note locked of
          (db1, Inl e) \<Rightarrow> (db1, Inl e)
        | (db1, Inr a) \<Rightarrow>
            (case materialize env a (display_name p) (others 1 db1) of
               (db2, Inl e) \<Rightarrow> (db2, Inl e)
             | (db2, Inr x) \<Rightarrow> (db2, Inr a)))"

section \<open>Reading\<close>

definition list_requests :: "uuid \<Rightarrow> uuid \<Rightarrow> hire_db \<Rightarrow> org_error + approval list" where
  "list_requests cid mid db =
    (case get_company_agent cid mid (hd_org db) of
       Inl e \<Rightarrow> Inl e
     | Inr m \<Rightarrow> Inr (take 100 (sort_key (\<lambda>a. - av_created_at a) (sort_key av_id
         (filter (\<lambda>a. av_company_id a = cid \<and> av_type a = HIRE \<and> av_requested_by_agent_id a = Some mid)
            (vd_approvals (hd_approvals db)))))))"

definition hire_employee :: "hire_env \<Rightarrow> approval \<Rightarrow> hire_db \<Rightarrow> org_agent option" where
  "hire_employee env a db =
    (if av_status a = Approved
     then find (\<lambda>e. oa_id e = employee_id_for env (av_id a)) (od_agents (hd_org db)) else None)"

definition view_state :: "hire_env \<Rightarrow> approval \<Rightarrow> hire_db \<Rightarrow> string" where
  "view_state env a db =
    (case av_status a of Pending \<Rightarrow> APPROVAL_REQUIRED | Rejected \<Rightarrow> HIRE_REJECTED
     | Approved \<Rightarrow> if hire_employee env a db \<noteq> None then ''hired'' else ''approved'')"

definition agent_ref :: "org_agent \<Rightarrow> dict" where
  "agent_ref e = [(''id'', JId (oa_id e)), (''name'', JStr (oa_name e)), (''title'', opt_json JStr (oa_title e)),
     (''role'', JStr (oa_role e)), (''status'', JStr (oa_status e))]"

fun approval_status_text :: "approval_status \<Rightarrow> string" where
  "approval_status_text Pending = ''pending''"
| "approval_status_text Approved = ''approved''"
| "approval_status_text Rejected = ''rejected''"

definition view_hire :: "hire_env \<Rightarrow> approval \<Rightarrow> hire_db \<Rightarrow> dict" where
  "view_hire env a db =
    (let payload = dict_or_empty (av_payload a);
         policy = (case map_of payload ''policy'' of Some (JDict d) \<Rightarrow> d | _ \<Rightarrow> []);
         get = (\<lambda>d k. case map_of d k of Some v \<Rightarrow> v | None \<Rightarrow> JNull)
     in [(''id'', JId (av_id a)), (''status'', JStr (view_state env a db)),
         (''approval_status'', JStr (approval_status_text (av_status a))),
         (''manager_id'', JText [opt_piece (av_requested_by_agent_id a)]),
         (''request'', JDict (stored_request a)),
         (''policy_decision'', get policy ''outcome''), (''policy_rule'', get policy ''rule''),
         (''policy_reasons'', case map_of policy ''reasons'' of Some v \<Rightarrow> v | None \<Rightarrow> JList []),
         (''amount_cents'', get payload ''amount_cents''),
         (''required_signatures'', JInt (av_required_signatures a)),
         (''decided_by'', opt_json JStr (av_decided_by a)),
         (''decided_at'', opt_json (\<lambda>t. JStr (isoformat t)) (av_decided_at a)),
         (''rejection_reason'', if av_status a = Rejected then opt_json JStr (av_decision_note a) else JNull),
         (''employee'', opt_json (\<lambda>e. JDict (agent_ref e)) (hire_employee env a db)),
         (''created_at'', JStr (isoformat (av_created_at a)))])"

end
