(* ===== verification/Hiring_Laws.thy ===== *)
theory Hiring_Laws
  imports Hiring
begin

text \<open>
  Hiring as a transition system: requests are filed, decided and refused and their employees
  created in any order, each under the company's lock. A limit of the hiring rules counts the
  live agents and the approved hires whose employee does not exist yet. The locale
  \<open>hire_weight\<close> is the contract of such a count; headcount, direct reports and the monthly budget
  interpret it, and every limit that held keeps holding.
\<close>

section \<open>Stored requests\<close>

lemma accept_fitting: "hire_fits r \<Longrightarrow> accept_request r = Some r"
  by (cases "hq_model r") (auto simp: accept_request_def hire_fits_def text_fits_def Let_def)

lemma read_stored: "hire_fits r \<Longrightarrow> read_hire (hire_json r) = Some r"
  by (cases r; cases "hq_model r")
    (simp_all add: read_hire_def hire_json_def HIRE_FIELDS_def field_or_def opt_json_def accept_fitting)

definition hire_row :: "approval \<Rightarrow> bool" where
  "hire_row a \<longleftrightarrow> av_requested_by_agent_id a \<noteq> None \<and> (\<exists>r. hire_fits r \<and> stored_request a = hire_json r)"

definition hire_inv :: "hire_db \<Rightarrow> bool" where
  "hire_inv db \<longleftrightarrow> distinct (map av_id (vd_approvals (hd_approvals db))) \<and>
    (\<forall>a \<in> set (vd_approvals (hd_approvals db)). av_type a = HIRE \<longrightarrow> hire_row a)"

section \<open>Counting one row\<close>

lemma update_new_key: "k \<notin> fst ` set acc \<Longrightarrow> AList.update k v acc = acc @ [(k, v)]"
  by (induction acc) auto

lemma fold_update_fresh:
  "distinct (map fst acc @ map k xs) \<Longrightarrow>
    fold (\<lambda>a. AList.update (k a) a) xs acc = acc @ map (\<lambda>a. (k a, a)) xs"
proof (induction xs arbitrary: acc)
  case (Cons x xs)
  then have "k x \<notin> fst ` set acc" by auto
  then have u: "AList.update (k x) x acc = acc @ [(k x, x)]" by (rule update_new_key)
  from Cons.prems have "distinct (map fst (acc @ [(k x, x)]) @ map k xs)" by auto
  with Cons.IH [of "acc @ [(k x, x)]"] u show ?case by simp
qed simp

lemma sum_one_row:
  fixes g :: "'a \<Rightarrow> int"
  assumes "distinct (map k xs)" and "a \<in> set xs" and "\<And>x. x \<in> set xs \<Longrightarrow> k x \<noteq> k a \<Longrightarrow> g (f x) = g' x"
  shows "sum_list (map (\<lambda>x. g (f x)) xs) = sum_list (map g' xs) + (g (f a) - g' a)"
  using assms
proof (induction xs)
  case (Cons x xs)
  show ?case
  proof (cases "x = a")
    case True
    have "g (f x) = g' x" if "x \<in> set xs" for x
      using that Cons.prems True by (metis distinct.simps(2) image_eqI image_set list.set_intros(2) list.simps(9))
    then have "sum_list (map (\<lambda>x. g (f x)) xs) = sum_list (map g' xs)" by (metis map_cong)
    with True show ?thesis by simp
  next
    case False
    with Cons.prems have a: "a \<in> set xs" by simp
    with Cons.prems(1) False have "k x \<noteq> k a" by (auto simp: image_iff)
    with Cons.prems(3) have "g (f x) = g' x" by simp
    with Cons.IH a Cons.prems show ?thesis by simp
  qed
qed simp

definition counted :: "hire_env \<Rightarrow> uuid \<Rightarrow> hire_db \<Rightarrow> approval \<Rightarrow> bool" where
  "counted env cid db a \<longleftrightarrow> av_company_id a = cid \<and> av_type a = HIRE \<and> av_status a = Approved \<and>
    employee_id_for env (av_id a) \<notin> oa_id ` set (od_agents (hd_org db))"

lemma committed_filter:
  assumes "inj (employee_id_for env)" and "distinct (map av_id (vd_approvals (hd_approvals db)))"
  shows "committed env cid excluded db =
    filter (\<lambda>a. counted env cid db a \<and> Some (av_id a) \<noteq> excluded) (vd_approvals (hd_approvals db))"
proof -
  let ?xs = "approved_hires cid excluded (hd_approvals db)" and ?k = "\<lambda>a. employee_id_for env (av_id a)"
  have "distinct (map av_id ?xs)"
    using assms(2) by (simp add: approved_hires_def distinct_map_filter)
  then have "distinct (map ?k ?xs)"
    using assms(1) by (auto simp: distinct_map inj_on_def inj_def)
  then have "fold (\<lambda>a. AList.update (?k a) a) ?xs [] = map (\<lambda>a. (?k a, a)) ?xs"
    using fold_update_fresh [of "[]" ?k ?xs] by simp
  then show ?thesis
    by (simp add: committed_def Let_def approved_hires_def filter_map comp_def counted_def conj_ac)
qed

definition load ::
  "(org_agent \<Rightarrow> int) \<Rightarrow> (approval \<Rightarrow> int) \<Rightarrow> hire_env \<Rightarrow> uuid \<Rightarrow> uuid option \<Rightarrow> hire_db \<Rightarrow> int" where
  "load wl wc env cid excluded db =
    sum_list (map wl (live_agents cid db)) + sum_list (map wc (committed env cid excluded db))"

definition row_load :: "(approval \<Rightarrow> int) \<Rightarrow> hire_env \<Rightarrow> uuid \<Rightarrow> hire_db \<Rightarrow> approval \<Rightarrow> int" where
  "row_load wc env cid db a = (if counted env cid db a then wc a else 0)"

lemma load_rows:
  assumes "inj (employee_id_for env)" and "distinct (map av_id (vd_approvals (hd_approvals db)))"
  shows "load wl wc env cid None db =
    sum_list (map wl (live_agents cid db)) +
    sum_list (map (row_load wc env cid db) (vd_approvals (hd_approvals db)))"
  by (simp add: load_def committed_filter [OF assms] sum_list_map_filter' row_load_def [abs_def])

text \<open>A request that is not approved may as well be excluded.\<close>

lemma load_excluded:
  assumes "inj (employee_id_for env)" and "hire_inv db"
    and "a \<in> set (vd_approvals (hd_approvals db))" and "av_status a \<noteq> Approved"
  shows "load wl wc env cid (Some (av_id a)) db = load wl wc env cid None db"
proof -
  have d: "distinct (map av_id (vd_approvals (hd_approvals db)))" using assms(2) by (simp add: hire_inv_def)
  have "\<not> counted env cid db b" if "b \<in> set (vd_approvals (hd_approvals db))" "av_id b = av_id a" for b
    using same_key_same_row [OF d that(1) assms(3) that(2)] assms(4) by (simp add: counted_def)
  then have "filter (\<lambda>b. counted env cid db b \<and> Some (av_id b) \<noteq> Some (av_id a)) (vd_approvals (hd_approvals db)) =
      filter (\<lambda>b. counted env cid db b \<and> Some (av_id b) \<noteq> None) (vd_approvals (hd_approvals db))"
    by (intro filter_cong) auto
  then show ?thesis by (simp add: load_def committed_filter [OF assms(1) d])
qed

lemma approved_excluded:
  assumes "hire_inv db" and "a \<in> set (vd_approvals (hd_approvals db))" and "av_status a \<noteq> Approved"
  shows "approved_hires cid (Some (av_id a)) (hd_approvals db) = approved_hires cid None (hd_approvals db)"
proof -
  have "av_id b \<noteq> av_id a" if "b \<in> set (vd_approvals (hd_approvals db))" "av_status b = Approved" for b
    using same_key_same_row [OF _ that(1) assms(2)] assms(1,3) that(2) by (auto simp: hire_inv_def)
  then show ?thesis unfolding approved_hires_def by (intro filter_cong) auto
qed

lemma headcount_load: "headcount env cid excluded db = load (\<lambda>_. 1) (\<lambda>_. 1) env cid excluded db"
  by (simp add: headcount_def load_def sum_list_triv)

lemma length_filter_sum: "int (length (filter P xs)) = sum_list (map (\<lambda>x. of_bool (P x)) xs)"
  by (induction xs) simp_all

lemma report_load:
  "report_count env cid excluded mid db =
    load (\<lambda>a. of_bool (oa_manager_id a = Some mid)) (\<lambda>a. of_bool (av_requested_by_agent_id a = Some mid))
      env cid excluded db"
  by (simp add: report_count_def load_def length_filter_sum)

lemma recurring_load:
  "recurring_cents env cid excluded db =
    load oa_budget_monthly_cents (stored_cents ''estimated_monthly_cents'') env cid excluded db"
  by (simp add: recurring_cents_def load_def)

section \<open>What each transaction does to the tables\<close>

definition kept :: "approval \<Rightarrow> approval \<Rightarrow> bool" where
  "kept a b \<longleftrightarrow> av_id b = av_id a \<and> av_company_id b = av_company_id a \<and> av_type b = av_type a \<and>
    av_requested_by_agent_id b = av_requested_by_agent_id a \<and> stored_request b = stored_request a"

lemma kept_decided [simp]: "kept a (decide_vals now st who note a)"
  by (simp add: kept_def decide_vals_def stored_request_def)

lemma hire_row_kept: "kept a b \<Longrightarrow> hire_row b = hire_row a"
  by (simp add: kept_def hire_row_def)

abbreviation requests :: "hire_db \<Rightarrow> approval list" where
  "requests db \<equiv> vd_approvals (hd_approvals db)"

abbreviation employees :: "hire_db \<Rightarrow> org_agent list" where
  "employees db \<equiv> od_agents (hd_org db)"

text \<open>The tables the limits are read from.\<close>

definition same_rules :: "hire_db \<Rightarrow> hire_db \<Rightarrow> bool" where
  "same_rules db db' \<longleftrightarrow> hd_policies db' = hd_policies db \<and> hd_budgets db' = hd_budgets db"

lemma hire_audit_frame [simp]:
  "employees (hire_audit cid action who rtype rid details db) = employees db"
  "hd_approvals (hire_audit cid action who rtype rid details db) = hd_approvals db"
  "hd_policies (hire_audit cid action who rtype rid details db) = hd_policies db"
  "hd_budgets (hire_audit cid action who rtype rid details db) = hd_budgets db"
  by (simp_all add: hire_audit_def org_audit_def)

lemma get_approval_new: "get_approval rid db = None \<Longrightarrow> a \<in> set (vd_approvals db) \<Longrightarrow> av_id a \<noteq> rid"
  by (auto simp: get_approval_def row_of_None_iff)

lemma decide_new:
  assumes "get_approval rid db = None" and "av_id n = rid" and "av_status n = Pending"
  shows "vd_approvals (decide_approval now st rid who note (db\<lparr>vd_approvals := vd_approvals db @ [n]\<rparr>)) =
    vd_approvals db @ [decide_vals now st who note n]"
  using get_approval_new [OF assms(1)] assms(2,3)
  by (auto simp: decide_approval_def update_where_def decide_guard_def intro!: map_idI)

lemma new_hire_row:
  "hire_fits r \<Longrightarrow> hire_row (new_approval now rid cid HIRE (Some mid) (Some (hire_payload r x)) e)"
  by (auto simp: hire_row_def new_approval_def stored_request_def hire_payload_def dict_or_empty_def)

lemma approve_request_outcome:
  "approve_request now rid who note db = (db', Inr a) \<Longrightarrow> db' = decide_approval now Approved rid who note db \<and>
    a = get_approval rid db'"
  by (auto simp: approve_request_def Let_def split: option.splits if_splits)

lemma settled:
  assumes "settle_submission env cid manager rid r x db = Inr db'"
    and "get_approval rid vs = None" and "av_id n = rid" and "av_status n = Pending"
    and "hd_approvals db = vs\<lparr>vd_approvals := vd_approvals vs @ [n]\<rparr>"
  shows "employees db' = employees db \<and> same_rules db db' \<and>
    (\<exists>n'. kept n n' \<and> requests db' = vd_approvals vs @ [n'] \<and>
      (av_status n' = Approved \<longrightarrow> hx_outcome x = AUTO_APPROVED))"
proof -
  note dn = decide_new [OF assms(2-4)]
  consider "hx_outcome x = AUTO_APPROVED" | "hx_outcome x = HIRE_REJECTED" "hx_outcome x \<noteq> AUTO_APPROVED"
    | "hx_outcome x \<notin> {AUTO_APPROVED, HIRE_REJECTED}" by blast
  then show ?thesis
  proof cases
    case 1
    with assms(1) obtain vs' a where
      "approve_request (he_now env) rid (label_string (hx_rule x)) (Some ''Auto-approved by policy'') (hd_approvals db) =
        (vs', Inr a)" and db': "employees db' = employees db" "hd_approvals db' = vs'" "same_rules db db'"
      by (auto simp: settle_submission_def Let_def same_rules_def split: prod.splits sum.splits)
    with approve_request_outcome [OF this(1)] dn assms(5) 1 kept_decided show ?thesis by metis
  next
    case 2
    with assms(1) have "employees db' = employees db" "same_rules db db'"
      "hd_approvals db' = decide_approval (he_now env) Rejected rid (label_string (hx_rule x))
        (Some (comma_join ''; '' (map snd (hx_reasons x)))) (hd_approvals db)"
      by (auto simp: settle_submission_def Let_def same_rules_def reject_request_def)
    with dn assms(5) kept_decided show ?thesis
      by (intro conjI exI [of _ "decide_vals (he_now env) Rejected (label_string (hx_rule x))
        (Some (comma_join ''; '' (map snd (hx_reasons x)))) n"]) (simp_all add: decide_vals_def)
  next
    case 3
    with assms(1) have "employees db' = employees db" "same_rules db db'" "hd_approvals db' = hd_approvals db"
      by (auto simp: settle_submission_def Let_def same_rules_def)
    with assms(4,5) show ?thesis by (intro conjI exI [of _ n]) (simp_all add: kept_def)
  qed
qed

lemma filing_effect:
  assumes "file_request env cid manager r actor db = (db', res)" and "hire_fits r"
  shows "db' = db \<or> (employees db' = employees db \<and> same_rules db db' \<and>
    (\<exists>n x. requests db' = requests db @ [n] \<and> (\<forall>a \<in> set (requests db). av_id a \<noteq> av_id n) \<and>
      av_company_id n = cid \<and> av_type n = HIRE \<and> av_requested_by_agent_id n = Some (oa_id manager) \<and>
      stored_request n = hire_json r \<and> hire_row n \<and>
      evaluate env cid manager r None db = Inr x \<and>
      (av_status n = Approved \<longrightarrow> hx_outcome x = AUTO_APPROVED)))"
proof (cases "db' = db")
  case False
  let ?rid = "request_id_for env cid (oa_id manager) (hq_idempotency_key r)"
  let ?n = "\<lambda>x. new_approval (he_now env) ?rid cid HIRE (Some (oa_id manager)) (Some (hire_payload r x)) None"
  let ?db2 = "\<lambda>x vs. record_submission cid (oa_id manager) ?rid r actor x (db\<lparr>hd_approvals := vs\<rparr>)"
  from assms(1) False obtain x vs where
    e: "evaluate env cid manager r None db = Inr x"
    and rq: "request_approval (he_now env) ?rid cid HIRE (Some (oa_id manager)) (Some (hire_payload r x)) None
        (hd_approvals db) = Some vs"
    and st: "settle_submission env cid manager ?rid r x (?db2 x vs) = Inr db'"
    by (auto simp: file_request_def Let_def split: option.splits sum.splits)
  have db2: "hd_approvals (?db2 x vs) = vs" "employees (?db2 x vs) = employees db" "same_rules db (?db2 x vs)"
    by (simp_all add: record_submission_def same_rules_def)
  from rq have g: "get_approval ?rid (hd_approvals db) = None"
    and vs: "vs = (hd_approvals db)\<lparr>vd_approvals := requests db @ [?n x]\<rparr>"
    by (auto simp: request_approval_def split: if_splits)
  have n: "av_id (?n x) = ?rid" "av_status (?n x) = Pending" by (simp_all add: new_approval_def)
  from settled [OF st g n] db2(1) vs obtain n' where
    s: "employees db' = employees (?db2 x vs)" "same_rules (?db2 x vs) db'" "kept (?n x) n'"
      "requests db' = requests db @ [n']" "av_status n' = Approved \<longrightarrow> hx_outcome x = AUTO_APPROVED" by auto
  have k: "av_id n' = ?rid" "av_company_id n' = cid" "av_type n' = HIRE"
    "av_requested_by_agent_id n' = Some (oa_id manager)" "stored_request n' = hire_json r"
    using s(3) by (simp_all add: kept_def new_approval_def stored_request_def hire_payload_def dict_or_empty_def)
  have "hire_row n'" using hire_row_kept [OF s(3)] new_hire_row [OF assms(2)] by simp
  with s k db2 e get_approval_new [OF g] show ?thesis by (auto simp: same_rules_def)
qed simp

definition granted :: "time \<Rightarrow> uuid \<Rightarrow> string \<Rightarrow> string option \<Rightarrow> json \<Rightarrow> approval \<Rightarrow> approval" where
  "granted now rid who note j a =
    (if av_id a = rid then
       (let b = (if av_status a = Pending then decide_vals now Approved who note a else a)
        in b\<lparr>av_payload := Some (AList.update ''approval_policy'' j (dict_or_empty (av_payload b)))\<rparr>)
     else a)"

lemma granted_kept: "kept a (granted now rid who note j a)"
  by (auto simp: granted_def Let_def kept_def stored_request_def decide_vals_def dict_or_empty_def update_conv
      split: option.splits)

lemma granted_rows:
  "vd_approvals (add_payload rid ''approval_policy'' j (decide_approval now Approved rid who note db)) =
    map (granted now rid who note j) (vd_approvals db)"
  by (auto simp: add_payload_def decide_approval_def update_where_def granted_def decide_guard_def Let_def decide_vals_def)

lemma get_requestD:
  assumes "get_request cid rid who db = Inr a"
  shows "a \<in> set (requests db)" and "av_id a = rid" and "av_company_id a = cid" and "av_type a = HIRE"
  using assms by (auto simp: get_request_def get_hire_def dest!: find_SomeD split: option.splits if_splits)

lemma hire_invD:
  assumes "hire_inv db"
  shows "distinct (map av_id (requests db))"
    and "a \<in> set (requests db) \<Longrightarrow> av_type a = HIRE \<Longrightarrow> hire_row a"
  using assms by (auto simp: hire_inv_def)

lemma get_org_agent_id: "get_org_agent cid m db = Some a \<Longrightarrow> oa_id a = m"
  by (auto simp: get_org_agent_def dest!: find_SomeD)

lemma decision_effect:
  assumes "decide_hire env cid rid p note db = (db', res)" and inv: "hire_inv db"
  shows "employees db' = employees db \<and> same_rules db db' \<and>
    (requests db' = requests db \<or>
     (\<exists>a f r x manager. a \<in> set (requests db) \<and> av_status a = Pending \<and> av_type a = HIRE \<and> av_company_id a = cid \<and>
       requests db' = map f (requests db) \<and> (\<forall>b. kept b (f b)) \<and>
       (\<forall>b \<in> set (requests db). av_id b \<noteq> av_id a \<longrightarrow> f b = b) \<and>
       av_requested_by_agent_id a = Some (oa_id manager) \<and> stored_request a = hire_json r \<and> hire_fits r \<and>
       evaluate env cid manager r (Some (av_id a)) db = Inr x \<and> hx_outcome x \<noteq> HIRE_REJECTED))"
proof (cases "\<exists>a. get_request cid rid None db = Inr a \<and> av_status a = Pending \<and>
    approve_pending env cid a p note db = (db', res)")
  case False
  with assms(1) show ?thesis
    by (auto simp: decide_hire_def same_rules_def split: option.splits sum.splits if_splits)
next
  case True
  then obtain a where a: "get_request cid rid None db = Inr a" "av_status a = Pending"
    and p: "approve_pending env cid a p note db = (db', res)" by blast
  note g = get_requestD [OF a(1)]
  from hire_invD(2) [OF inv g(1,4)] obtain r where r: "hire_fits r" "stored_request a = hire_json r"
    by (auto simp: hire_row_def)
  note rd = read_stored [OF r(1)]
  show ?thesis
  proof (cases "requests db' = requests db")
    case True
    with p show ?thesis
      by (auto simp: approve_pending_def Let_def same_rules_def
          split: option.splits sum.splits if_splits prod.splits)
  next
    case False
    from p False rd r(2) g(2) obtain m manager x vs a' where
      m: "av_requested_by_agent_id a = Some m" "get_org_agent cid m (hd_org db) = Some manager"
      and e: "evaluate env cid manager r (Some rid) db = Inr x" "hx_outcome x \<noteq> HIRE_REJECTED"
      and ap: "approve_request (he_now env) rid (label_string (display_name p)) note (hd_approvals db) = (vs, Inr (Some a'))"
      and db': "hd_approvals db' = add_payload rid ''approval_policy'' (JDict (decision_json x)) vs"
        "employees db' = employees db" "same_rules db db'"
      by (auto simp: approve_pending_def Let_def same_rules_def bind_eq_Some_conv
          split: option.splits sum.splits if_splits prod.splits)
    have vs: "vs = decide_approval (he_now env) Approved rid (label_string (display_name p)) note (hd_approvals db)"
      using approve_request_outcome [OF ap] by simp
    let ?f = "granted (he_now env) rid (label_string (display_name p)) note (JDict (decision_json x))"
    have "requests db' = map ?f (requests db)" unfolding db'(1) vs by (rule granted_rows)
    moreover have "oa_id manager = m" using get_org_agent_id [OF m(2)] .
    moreover have "\<forall>b. kept b (?f b)" using granted_kept by blast
    moreover have "\<forall>b \<in> set (requests db). av_id b \<noteq> av_id a \<longrightarrow> ?f b = b" using g(2) by (simp add: granted_def)
    ultimately show ?thesis using g a(2) r e db'(2,3) m(1) by blast
  qed
qed

lemma refusal_rows:
  assumes "reject_pending env cid seen who reason db = (db', res)"
  shows "requests db' = requests db \<or> requests db' = map (\<lambda>b. if decide_guard (av_id seen) () b
    then decide_vals (he_now env) Rejected (label_string who) (Some reason) b else b) (requests db)"
  using assms by (auto simp: reject_pending_def reject_request_def decide_approval_def update_where_def Let_def
      split: option.splits if_splits)

lemma refusal_effect:
  assumes "reject_pending env cid seen who reason db = (db', res)"
  shows "employees db' = employees db \<and> same_rules db db' \<and>
    (\<exists>f. requests db' = map f (requests db) \<and>
      (\<forall>b. kept b (f b) \<and> (av_status (f b) = Approved \<longleftrightarrow> av_status b = Approved)))"
proof -
  let ?f = "\<lambda>b. if decide_guard (av_id seen) () b
    then decide_vals (he_now env) Rejected (label_string who) (Some reason) b else b"
  have f: "kept b (?f b) \<and> (av_status (?f b) = Approved \<longleftrightarrow> av_status b = Approved)" for b
    by (auto simp: decide_guard_def decide_vals_def kept_def stored_request_def)
  from refusal_rows [OF assms] have "\<exists>f. requests db' = map f (requests db) \<and>
      (\<forall>b. kept b (f b) \<and> (av_status (f b) = Approved \<longleftrightarrow> av_status b = Approved))"
  proof
    assume "requests db' = requests db"
    then show ?thesis by (intro exI [of _ id]) (simp add: kept_def)
  next
    assume "requests db' = map ?f (requests db)"
    with f show ?thesis by blast
  qed
  moreover have "employees db' = employees db \<and> same_rules db db'"
    using assms by (auto simp: reject_pending_def Let_def same_rules_def split: option.splits if_splits prod.splits)
  ultimately show ?thesis by blast
qed

lemma resolve_new: "resolve_manager cid None (Some m) db = Inr t \<Longrightarrow> t = Some m"
  by (auto simp: resolve_manager_def Let_def split: if_splits)

lemma hired_row_simps [simp]:
  "oa_id (hired_row env a r config override) = employee_id_for env (av_id a)"
  "oa_company_id (hired_row env a r config override) = av_company_id a"
  "oa_manager_id (hired_row env a r config override) = av_requested_by_agent_id a"
  "oa_budget_monthly_cents (hired_row env a r config override) = hq_monthly_cents r"
  "oa_status (hired_row env a r config override) = (case override of None \<Rightarrow> ''idle'' | Some s \<Rightarrow> s)"
  by (simp_all add: hired_row_def)

lemma created_audits_frame [simp]:
  "employees (employee_created_audits a actor e config m db) = employees db"
  "hd_approvals (employee_created_audits a actor e config m db) = hd_approvals db"
  "hd_policies (employee_created_audits a actor e config m db) = hd_policies db"
  "hd_budgets (employee_created_audits a actor e config m db) = hd_budgets db"
  by (simp_all add: employee_created_audits_def)

lemma hire_status: "hire_config env r = Inr (c, override) \<Longrightarrow> override \<in> {None, Some CONFIGURATION_REQUIRED}"
  by (auto simp: hire_config_def normalize_cli_employee_def split: sum.splits prod.splits if_splits)

lemma creation_effect:
  assumes "materialize env a actor db = (db', res)" and "hire_row a"
  shows "requests db' = requests db \<and> same_rules db db' \<and>
    (employees db' = employees db \<or>
     (\<exists>m r config override. av_requested_by_agent_id a = Some m \<and> hire_fits r \<and> stored_request a = hire_json r \<and>
        hire_config env r = Inr (config, override) \<and> employee_id_for env (av_id a) \<notin> oa_id ` set (employees db) \<and>
        employees db' = employees db @ [(hired_row env a r config override)\<lparr>oa_manager_id := Some m, oa_is_ceo := False\<rparr>]))"
proof -
  from assms(2) obtain m r where r: "av_requested_by_agent_id a = Some m" "hire_fits r" "stored_request a = hire_json r"
    by (auto simp: hire_row_def)
  note rd = read_stored [OF r(2)]
  have "requests db' = requests db \<and> same_rules db db'"
    using assms(1) r(3) rd
    by (auto simp: materialize_def materialization_failed_def Let_def same_rules_def
        split: option.splits sum.splits prod.splits)
  moreover have "employees db' = employees db \<or> (\<exists>config override.
      hire_config env r = Inr (config, override) \<and> employee_id_for env (av_id a) \<notin> oa_id ` set (employees db) \<and>
      employees db' = employees db @ [(hired_row env a r config override)\<lparr>oa_manager_id := Some m, oa_is_ceo := False\<rparr>])"
  proof (cases "employees db' = employees db")
    case False
    with assms(1) r(3) rd obtain t config override org where
      t: "resolve_manager (av_company_id a) None (av_requested_by_agent_id a) (hd_org db) = Inr t"
      and cf: "hire_config env r = Inr (config, override)"
      and org: "create_org_agent (hired_row env a r config override) (hd_org db) = Inr org"
      and db': "employees db' = od_agents org"
      by (auto simp: materialize_def materialization_failed_def Let_def
          split: option.splits sum.splits prod.splits)
    from t r(1) have "t = Some m" by (auto dest: resolve_new)
    with t org have "employee_id_for env (av_id a) \<notin> oa_id ` set (employees db) \<and>
        od_agents org = employees db @ [(hired_row env a r config override)\<lparr>oa_manager_id := Some m, oa_is_ceo := False\<rparr>]"
      unfolding create_org_agent_def by (auto split: if_splits)
    with cf show ?thesis unfolding db' by blast
  qed simp
  ultimately show ?thesis using r by blast
qed

section \<open>Weights\<close>

text \<open>
  A limit weighs live agents by \<open>wl\<close> and approved hires without an employee by \<open>wc\<close>. What is asked
  of the weights: a request never weighs less than nothing, only its stored fields count, and its
  employee weighs as much as the request did.
\<close>

locale hire_weight =
  fixes wl :: "org_agent \<Rightarrow> int"
    and wc :: "approval \<Rightarrow> int"
  assumes wc_nonneg: "hire_row a \<Longrightarrow> 0 \<le> wc a"
    and wc_stored: "av_requested_by_agent_id a = av_requested_by_agent_id b \<Longrightarrow>
      stored_request a = stored_request b \<Longrightarrow> wc a = wc b"
    and wl_hired: "av_requested_by_agent_id a = Some m \<Longrightarrow> hire_fits r \<Longrightarrow> stored_request a = hire_json r \<Longrightarrow>
      wl ((hired_row env a r config override)\<lparr>oa_manager_id := Some m, oa_is_ceo := False\<rparr>) = wc a"
begin

lemma wc_kept: "kept a b \<Longrightarrow> wc b = wc a"
  by (rule wc_stored) (simp_all add: kept_def)

lemma refused_load:
  assumes inj: "inj (employee_id_for env)" and inv: "hire_inv db" "hire_inv db'"
    and e: "employees db' = employees db" and rq: "requests db' = map f (requests db)"
    and f: "\<And>b. kept b (f b) \<and> (av_status (f b) = Approved \<longleftrightarrow> av_status b = Approved)"
  shows "load wl wc env cid None db' = load wl wc env cid None db"
proof -
  have "row_load wc env cid db' (f b) = row_load wc env cid db b" for b
    using f [of b] wc_kept [of b "f b"] e by (auto simp: row_load_def counted_def kept_def)
  then show ?thesis
    unfolding load_rows [OF inj hire_invD(1) [OF inv(1)]] load_rows [OF inj hire_invD(1) [OF inv(2)]]
    by (simp add: rq e live_agents_def comp_def)
qed

lemma decided_load:
  assumes inj: "inj (employee_id_for env)" and inv: "hire_inv db" "hire_inv db'"
    and e: "employees db' = employees db" and rq: "requests db' = map f (requests db)"
    and f: "\<And>b. kept b (f b)" "\<And>b. b \<in> set (requests db) \<Longrightarrow> av_id b \<noteq> av_id a \<Longrightarrow> f b = b"
    and a: "a \<in> set (requests db)" "av_status a \<noteq> Approved" "av_type a = HIRE"
  shows "load wl wc env cid None db' \<le> load wl wc env cid None db + (if av_company_id a = cid then wc a else 0)"
proof -
  have "row_load wc env cid db' (f b) = row_load wc env cid db b" if "b \<in> set (requests db)" "av_id b \<noteq> av_id a" for b
    using f(2) [OF that] e by (simp add: row_load_def counted_def)
  from sum_one_row [where k = av_id and g = "row_load wc env cid db'" and f = f and g' = "row_load wc env cid db",
      OF hire_invD(1) [OF inv(1)] a(1) this]
  have "sum_list (map (row_load wc env cid db') (requests db')) =
      sum_list (map (row_load wc env cid db) (requests db)) + row_load wc env cid db' (f a)"
    using a(2) by (simp add: rq comp_def row_load_def counted_def)
  moreover have "row_load wc env cid db' (f a) \<le> (if av_company_id a = cid then wc a else 0)"
    using wc_kept [OF f(1)] wc_nonneg [OF hire_invD(2) [OF inv(1) a(1,3)]] f(1) [of a]
    by (auto simp: row_load_def counted_def kept_def)
  ultimately show ?thesis
    unfolding load_rows [OF inj hire_invD(1) [OF inv(1)]] load_rows [OF inj hire_invD(1) [OF inv(2)]]
    by (simp add: e live_agents_def)
qed

lemma filed_load:
  assumes inj: "inj (employee_id_for env)" and inv: "hire_inv db" "hire_inv db'"
    and e: "employees db' = employees db" and rq: "requests db' = requests db @ [n]"
    and n: "hire_row n"
  shows "load wl wc env cid None db' \<le>
    load wl wc env cid None db + (if av_status n = Approved \<and> av_company_id n = cid then wc n else 0)"
proof -
  have "row_load wc env cid db' = row_load wc env cid db"
    using e by (simp add: fun_eq_iff row_load_def counted_def)
  moreover have "row_load wc env cid db n \<le> (if av_status n = Approved \<and> av_company_id n = cid then wc n else 0)"
    using wc_nonneg [OF n] by (auto simp: row_load_def counted_def)
  ultimately show ?thesis
    unfolding load_rows [OF inj hire_invD(1) [OF inv(1)]] load_rows [OF inj hire_invD(1) [OF inv(2)]]
    by (simp add: rq e live_agents_def)
qed

lemma created_load:
  assumes inj: "inj (employee_id_for env)" and inv: "hire_inv db" "hire_inv db'"
    and a: "a \<in> set (requests db)" "av_status a = Approved" "av_type a = HIRE"
    and rq: "requests db' = requests db"
    and new: "employee_id_for env (av_id a) \<notin> oa_id ` set (employees db)"
      "employees db' = employees db @ [e]"
    and e: "oa_id e = employee_id_for env (av_id a)" "oa_company_id e = av_company_id a" "\<not> terminated e" "wl e = wc a"
  shows "load wl wc env cid None db' = load wl wc env cid None db"
proof -
  note d = hire_invD(1) [OF inv(1)]
  have "row_load wc env cid db' b = row_load wc env cid db b" if "b \<in> set (requests db)" "av_id b \<noteq> av_id a" for b
    using that inj new e(1) by (auto simp: row_load_def counted_def inj_eq)
  from sum_one_row [where k = av_id and g = "row_load wc env cid db'" and f = id and g' = "row_load wc env cid db",
      OF d a(1)] this
  have "sum_list (map (row_load wc env cid db') (requests db)) =
      sum_list (map (row_load wc env cid db) (requests db)) +
      (row_load wc env cid db' a - row_load wc env cid db a)" by simp
  moreover have "row_load wc env cid db' a = 0" using new e(1) by (simp add: row_load_def counted_def)
  moreover have "row_load wc env cid db a = (if av_company_id a = cid then wc a else 0)"
    using new(1) a by (simp add: row_load_def counted_def)
  moreover have "sum_list (map wl (live_agents cid db')) =
      sum_list (map wl (live_agents cid db)) + (if av_company_id a = cid then wc a else 0)"
    using e by (simp add: live_agents_def new(2))
  ultimately show ?thesis
    unfolding load_rows [OF inj d] load_rows [OF inj hire_invD(1) [OF inv(2)]] by (simp add: rq)
qed

end

interpretation heads: hire_weight "\<lambda>_. 1" "\<lambda>_. 1"
  by unfold_locales simp_all

interpretation reports: hire_weight "\<lambda>a. of_bool (oa_manager_id a = Some mid)"
  "\<lambda>a. of_bool (av_requested_by_agent_id a = Some mid)" for mid
  by unfold_locales simp_all

lemma stored_monthly: "stored_request a = hire_json r \<Longrightarrow> stored_cents ''estimated_monthly_cents'' a = hq_monthly_cents r"
  by (simp add: stored_cents_def hire_json_def)

interpretation budgets: hire_weight oa_budget_monthly_cents "stored_cents ''estimated_monthly_cents''"
proof unfold_locales
  show "0 \<le> stored_cents ''estimated_monthly_cents'' a" if "hire_row a" for a
    using that by (auto simp: hire_row_def stored_monthly hire_fits_def)
qed (simp add: stored_cents_def, simp add: stored_monthly)

section \<open>The step relation\<close>

inductive hire_step :: "(uuid option \<Rightarrow> label \<Rightarrow> uuid) \<Rightarrow> hire_db \<Rightarrow> hire_db \<Rightarrow> bool" for u5 where
  submitted: "he_uuid5 env = u5 \<Longrightarrow> hire_fits r \<Longrightarrow> file_request env cid manager r actor db = (db', res1) \<Longrightarrow>
    hire_step u5 db db'"
| decided: "he_uuid5 env = u5 \<Longrightarrow> decide_hire env cid rid p note db = (db', res2) \<Longrightarrow> hire_step u5 db db'"
| refused: "he_uuid5 env = u5 \<Longrightarrow> reject_pending env cid seen who reason db = (db', res2) \<Longrightarrow> hire_step u5 db db'"
| hired: "he_uuid5 env = u5 \<Longrightarrow> a \<in> set (requests db) \<Longrightarrow> av_status a = Approved \<Longrightarrow> av_type a = HIRE \<Longrightarrow>
    materialize env a actor db = (db', res3) \<Longrightarrow> hire_step u5 db db'"

lemma hire_inv_mapped:
  assumes "hire_inv db" and "requests db' = map f (requests db)" and "\<And>b. kept b (f b)"
  shows "hire_inv db'"
proof -
  have f: "av_id (f b) = av_id b" "av_type (f b) = av_type b" "hire_row (f b) = hire_row b" for b
    using assms(3) [of b] hire_row_kept [of b "f b"] by (auto simp: kept_def)
  with assms(1,2) show ?thesis by (auto simp: hire_inv_def comp_def)
qed

lemma filed_inv:
  assumes "file_request env cid manager r actor db = (db', res)" and "hire_fits r" and "hire_inv db"
  shows "hire_inv db'"
proof (cases "db' = db")
  case False
  with filing_effect [OF assms(1,2)] obtain n where
    n: "requests db' = requests db @ [n]" "\<forall>a \<in> set (requests db). av_id a \<noteq> av_id n" "hire_row n" by blast
  from n(2) have "av_id n \<notin> av_id ` set (requests db)" by (metis imageE)
  with n(1,3) assms(3) show ?thesis by (auto simp: hire_inv_def)
qed (use assms(3) in simp)

lemma decided_inv:
  assumes "decide_hire env cid rid p note db = (db', res)" and "hire_inv db"
  shows "hire_inv db'"
proof (cases "requests db' = requests db")
  case True
  with assms(2) show ?thesis by (simp add: hire_inv_def)
next
  case False
  with decision_effect [OF assms] obtain f where "requests db' = map f (requests db)" "\<forall>b. kept b (f b)" by blast
  with assms(2) show ?thesis by (blast intro: hire_inv_mapped)
qed

lemma refused_inv:
  assumes "reject_pending env cid seen who reason db = (db', res)" and "hire_inv db"
  shows "hire_inv db'"
  using refusal_effect [OF assms(1)] hire_inv_mapped [OF assms(2)] by blast

lemma created_inv:
  assumes "materialize env a actor db = (db', res)" and "hire_row a" and "hire_inv db"
  shows "hire_inv db'"
  using creation_effect [OF assms(1,2)] assms(3) by (auto simp: hire_inv_def)

lemma hire_inv_step: "hire_step u5 db db' \<Longrightarrow> hire_inv db \<Longrightarrow> hire_inv db'"
proof (induction rule: hire_step.induct)
  case (hired env a db actor db' res3)
  then show ?case using created_inv hire_invD(2) by blast
qed (blast intro: filed_inv decided_inv refused_inv)+

section \<open>Limits\<close>

definition within_caps :: "hire_env \<Rightarrow> uuid \<Rightarrow> hire_db \<Rightarrow> bool" where
  "within_caps env cid db \<longleftrightarrow> (let rules = company_rules cid (hd_policies db) in
    (\<forall>c. limit_of rules ''max_headcount'' = Some c \<longrightarrow> headcount env cid None db \<le> c) \<and>
    (\<forall>c mid. limit_of rules ''max_direct_reports'' = Some c \<longrightarrow> report_count env cid None mid db \<le> c) \<and>
    (\<forall>c. recurring_cap cid rules db = Some c \<longrightarrow> recurring_cents env cid None db \<le> c))"

lemma committed_env: "he_uuid5 env = he_uuid5 env' \<Longrightarrow> committed env = committed env'"
  by (simp add: fun_eq_iff committed_def employee_id_for_def)

lemma load_env: "he_uuid5 env = he_uuid5 env' \<Longrightarrow> load wl wc env = load wl wc env'"
  by (simp add: fun_eq_iff load_def committed_env [of env env'])

lemmas counts = headcount_load report_load recurring_load

lemma not_rejected_caps:
  assumes "evaluate env cid manager r excluded db = Inr x" and "hx_outcome x \<noteq> HIRE_REJECTED"
  shows "cap_reasons env cid (oa_id manager) r excluded db = []"
  using assms
  by (auto simp: evaluate_def Let_def hire_rejections_def split: option.splits sum.splits if_splits)

lemma within_caps_after:
  assumes rules: "same_rules db db'" and caps: "within_caps env k db"
    and ok: "P \<Longrightarrow> k = cid \<Longrightarrow> cap_reasons env cid m r None db = []"
    and h: "headcount env k None db' \<le> headcount env k None db + (if P \<and> cid = k then 1 else 0)"
    and rp: "\<And>i. report_count env k None i db' \<le> report_count env k None i db + (if P \<and> cid = k then of_bool (m = i) else 0)"
    and rc: "recurring_cents env k None db' \<le> recurring_cents env k None db + (if P \<and> cid = k then hq_monthly_cents r else 0)"
  shows "within_caps env k db'"
proof -
  have r: "company_rules k (hd_policies db') = company_rules k (hd_policies db)"
    "recurring_cap k rs db' = recurring_cap k rs db" for rs
    using rules by (simp_all add: same_rules_def recurring_cap_def cong: option.case_cong)
  show ?thesis
  proof (cases "P \<and> k = cid")
    case False
    with h rp rc have "headcount env k None db' \<le> headcount env k None db"
      "\<And>i. report_count env k None i db' \<le> report_count env k None i db"
      "recurring_cents env k None db' \<le> recurring_cents env k None db" by auto
    with caps show ?thesis unfolding within_caps_def Let_def r by (meson order_trans)
  next
    case True
    with ok have "cap_reasons env k m r None db = []" by blast
    then have c: "limit_of (company_rules k (hd_policies db)) ''max_headcount'' = Some c \<Longrightarrow> headcount env k None db + 1 \<le> c"
      "limit_of (company_rules k (hd_policies db)) ''max_direct_reports'' = Some c \<Longrightarrow> report_count env k None m db + 1 \<le> c"
      "recurring_cap k (company_rules k (hd_policies db)) db = Some c \<Longrightarrow>
        recurring_cents env k None db + hq_monthly_cents r \<le> c" for c
      by (auto simp: cap_reasons_def Let_def over_def reason_if_def split: if_splits)
    have "report_count env k None i db' \<le> c"
      if "limit_of (company_rules k (hd_policies db)) ''max_direct_reports'' = Some c" for i c
    proof (cases "i = m")
      case True
      with rp [of i] c(2) [OF that] \<open>P \<and> k = cid\<close> show ?thesis by simp
    next
      case False
      have "report_count env k None i db \<le> c" using caps that unfolding within_caps_def Let_def by blast
      with rp [of i] False show ?thesis by (simp split: if_splits)
    qed
    with c(1,3) h rc True show ?thesis unfolding within_caps_def Let_def r by force
  qed
qed

lemma load_same:
  "employees db' = employees db \<Longrightarrow> requests db' = requests db \<Longrightarrow>
    load wl wc env k None db' = load wl wc env k None db"
  by (simp add: load_def live_agents_def committed_def approved_hires_def)

lemma weights_after:
  assumes "\<And>wl wc. hire_weight wl wc \<Longrightarrow>
      load wl wc env k None db' \<le> load wl wc env k None db + (if P \<and> cid = k then wc n else 0)"
    and "av_requested_by_agent_id n = Some m" and "stored_request n = hire_json r"
  shows "headcount env k None db' \<le> headcount env k None db + (if P \<and> cid = k then 1 else 0)"
    and "report_count env k None i db' \<le> report_count env k None i db + (if P \<and> cid = k then of_bool (m = i) else 0)"
    and "recurring_cents env k None db' \<le> recurring_cents env k None db + (if P \<and> cid = k then hq_monthly_cents r else 0)"
proof -
  show "headcount env k None db' \<le> headcount env k None db + (if P \<and> cid = k then 1 else 0)"
    using assms(1) [OF heads.hire_weight_axioms] by (simp add: counts)
  show "report_count env k None i db' \<le> report_count env k None i db + (if P \<and> cid = k then of_bool (m = i) else 0)"
    using assms(1) [OF reports.hire_weight_axioms, of i] unfolding counts assms(2) option.inject .
  show "recurring_cents env k None db' \<le> recurring_cents env k None db + (if P \<and> cid = k then hq_monthly_cents r else 0)"
    using assms(1) [OF budgets.hire_weight_axioms] unfolding counts stored_monthly [OF assms(3)] .
qed

lemma unchanged_caps:
  assumes "same_rules db db'" and "within_caps env k db"
    and "\<And>wl wc. hire_weight wl wc \<Longrightarrow> load wl wc env k None db' = load wl wc env k None db"
  shows "within_caps env k db'"
proof (rule within_caps_after [OF assms(1,2), where P = False and cid = k and m = 0 and r = undefined])
  show "headcount env k None db' \<le> headcount env k None db + (if False \<and> k = k then 1 else 0)"
    using assms(3) [OF heads.hire_weight_axioms] by (simp add: counts)
  show "report_count env k None i db' \<le> report_count env k None i db + (if False \<and> k = k then of_bool (0 = i) else 0)" for i
    using assms(3) [OF reports.hire_weight_axioms] by (simp add: counts)
  show "recurring_cents env k None db' \<le> recurring_cents env k None db +
      (if False \<and> k = k then hq_monthly_cents undefined else 0)"
    using assms(3) [OF budgets.hire_weight_axioms] by (simp add: counts)
qed simp

lemma filing_caps:
  assumes f: "file_request env cid manager r actor db = (db', res)" "hire_fits r" and inv: "hire_inv db"
    and inj: "inj (employee_id_for env)" and caps: "within_caps env k db"
  shows "within_caps env k db'"
proof (cases "db' = db")
  case False
  with filing_effect [OF f] obtain n x where
    e: "employees db' = employees db" and s: "same_rules db db'" and rq: "requests db' = requests db @ [n]"
    and n: "av_company_id n = cid" "av_requested_by_agent_id n = Some (oa_id manager)"
      "stored_request n = hire_json r" "hire_row n"
    and x: "evaluate env cid manager r None db = Inr x" "av_status n = Approved \<longrightarrow> hx_outcome x = AUTO_APPROVED"
    by blast
  have load: "load wl wc env k None db' \<le> load wl wc env k None db + (if av_status n = Approved \<and> cid = k then wc n else 0)"
    if "hire_weight wl wc" for wl wc
    using hire_weight.filed_load [OF that inj inv filed_inv [OF f inv] e rq n(4)] n(1) by simp
  have ok: "cap_reasons env cid (oa_id manager) r None db = []" if "av_status n = Approved"
    using not_rejected_caps [OF x(1)] x(2) that by (simp add: AUTO_APPROVED_def HIRE_REJECTED_def)
  show ?thesis
    by (rule within_caps_after [OF s caps _ weights_after [OF load n(2,3)]]) (use ok in simp)
qed (use caps in simp)

lemma decision_caps:
  assumes f: "decide_hire env cid rid p note db = (db', res)" and inv: "hire_inv db"
    and inj: "inj (employee_id_for env)" and caps: "within_caps env k db"
  shows "within_caps env k db'"
proof (cases "requests db' = requests db")
  case True
  from decision_effect [OF f inv] have e: "employees db' = employees db" and s: "same_rules db db'" by blast+
  show ?thesis by (rule unchanged_caps [OF s caps load_same [OF e True]])
next
  case False
  with decision_effect [OF f inv] obtain a g r x manager where
    e: "employees db' = employees db" and s: "same_rules db db'" and rq: "requests db' = map g (requests db)"
    and a: "a \<in> set (requests db)" "av_status a = Pending" "av_type a = HIRE" "av_company_id a = cid"
    and g: "\<forall>b. kept b (g b)" "\<forall>b \<in> set (requests db). av_id b \<noteq> av_id a \<longrightarrow> g b = b"
    and n: "av_requested_by_agent_id a = Some (oa_id manager)" "stored_request a = hire_json r"
    and x: "evaluate env cid manager r (Some (av_id a)) db = Inr x" "hx_outcome x \<noteq> HIRE_REJECTED"
    by blast
  have st: "av_status a \<noteq> Approved" using a(2) by simp
  have load: "load wl wc env k None db' \<le> load wl wc env k None db + (if True \<and> cid = k then wc a else 0)"
    if "hire_weight wl wc" for wl wc
    using hire_weight.decided_load [OF that inj inv decided_inv [OF f inv] e rq _ _ a(1) st a(3)] g a(4) by simp
  have "cap_reasons env cid (oa_id manager) r None db = cap_reasons env cid (oa_id manager) r (Some (av_id a)) db"
    if "hired_this_month env cid None db = hired_this_month env cid (Some (av_id a)) db"
    using that by (simp add: cap_reasons_def counts load_excluded [OF inj inv a(1) st])
  moreover have "hired_this_month env cid None db = hired_this_month env cid (Some (av_id a)) db"
    unfolding hired_this_month_def approved_excluded [OF inv a(1) st] ..
  ultimately have ok: "cap_reasons env cid (oa_id manager) r None db = []"
    using not_rejected_caps [OF x] by simp
  show ?thesis
    by (rule within_caps_after [OF s caps _ weights_after [OF load n]]) (use ok in simp)
qed

lemma refusal_caps:
  assumes f: "reject_pending env cid seen who reason db = (db', res)" and inv: "hire_inv db"
    and inj: "inj (employee_id_for env)" and caps: "within_caps env k db"
  shows "within_caps env k db'"
proof -
  from refusal_effect [OF f] obtain g where
    e: "employees db' = employees db" and s: "same_rules db db'" and rq: "requests db' = map g (requests db)"
    and g: "\<forall>b. kept b (g b) \<and> (av_status (g b) = Approved \<longleftrightarrow> av_status b = Approved)" by blast
  have "load wl wc env k None db' = load wl wc env k None db" if "hire_weight wl wc" for wl wc
    using hire_weight.refused_load [OF that inj inv refused_inv [OF f inv] e rq] g by blast
  then show ?thesis by (rule unchanged_caps [OF s caps])
qed

lemma creation_caps:
  assumes f: "materialize env a actor db = (db', res)" and inv: "hire_inv db"
    and a: "a \<in> set (requests db)" "av_status a = Approved" "av_type a = HIRE"
    and inj: "inj (employee_id_for env)" and caps: "within_caps env k db"
  shows "within_caps env k db'"
proof -
  note row = hire_invD(2) [OF inv a(1,3)]
  note c = creation_effect [OF f row]
  note rq = conjunct1 [OF c] and s = conjunct1 [OF conjunct2 [OF c]] and grown = conjunct2 [OF conjunct2 [OF c]]
  have "load wl wc env k None db' = load wl wc env k None db" if w: "hire_weight wl wc" for wl wc
  proof (cases "employees db' = employees db")
    case True
    then show ?thesis by (rule load_same [OF _ rq])
  next
    case False
    with grown obtain m r config override where
      m: "av_requested_by_agent_id a = Some m" "hire_fits r" "stored_request a = hire_json r"
      and cf: "hire_config env r = Inr (config, override)"
      and new: "employee_id_for env (av_id a) \<notin> oa_id ` set (employees db)"
      and emp: "employees db' = employees db @ [(hired_row env a r config override)\<lparr>oa_manager_id := Some m, oa_is_ceo := False\<rparr>]"
      by blast
    have st: "(case override of None \<Rightarrow> ''idle'' | Some s \<Rightarrow> s) \<noteq> ''terminated''"
      using hire_status [OF cf] by (cases override) (simp_all add: CONFIGURATION_REQUIRED_def)
    show ?thesis
      by (rule hire_weight.created_load [OF w inj inv created_inv [OF f row inv] a rq new emp])
        (simp_all add: hire_weight.wl_hired [OF w m] terminated_def st)
  qed
  then show ?thesis by (rule unchanged_caps [OF s caps])
qed

end
