(* ===== verification/Organization_Laws.thy ===== *)
theory Organization_Laws
  imports Agent_Records
begin

text \<open>
  The reporting lines as a transition system: agents are created, cloned, hired, edited, woken,
  paused, moved and deleted, owners appoint, replace and remove the CEO, the other services rewrite
  columns of an agent's row, the watchdog parks an agent, and the audit log stops or starts taking
  rows, in any order. In every reachable state the lines of a company form a forest inside the
  company, and there is at most one CEO, which reports to no one. While nothing brings a terminated
  agent back, every other live agent of a company that has a CEO reports to someone; an edit and
  the watchdog may bring one back, and break that.
\<close>

section \<open>The step relation\<close>

text \<open>
  With \<open>strict\<close> no edit, no other writer and no reclaimed run gives a terminated agent another status.
\<close>

definition revives :: "uuid \<Rightarrow> uuid \<Rightarrow> agent_update \<Rightarrow> org_db \<Rightarrow> bool" where
  "revives cid aid u db \<longleftrightarrow> up_status u \<noteq> None \<and> up_status u \<noteq> Some (Some ''terminated'') \<and>
    list_ex (\<lambda>a. is_agent cid aid a \<and> terminated a) (od_agents db)"

lemma best_effort_audit_agents [simp]: "od_agents (best_effort_audit r db) = od_agents db"
  by (simp add: best_effort_audit_def)

inductive org_step :: "cli_registry \<Rightarrow> bool \<Rightarrow> bool \<Rightarrow> org_db \<Rightarrow> org_db \<Rightarrow> bool" for g bypass strict where
  create: "create_agent g bypass new_id now p cid b db = (db', res) \<Longrightarrow> org_step g bypass strict db db'"
| clone: "clone_agent bypass new_id now p cid aid db = (db', res2) \<Longrightarrow> org_step g bypass strict db db'"
| hire: "create_org_agent a db = Inr db' \<Longrightarrow> org_step g bypass strict db db'"
| edit: "apply_agent_update g bypass now p cid aid u db = (db', res3) \<Longrightarrow>
    strict \<longrightarrow> \<not> revives cid aid u db \<Longrightarrow> org_step g bypass strict db db'"
| wake: "wake_agent now p cid aid rs db = (db', res3) \<Longrightarrow> org_step g bypass strict db db'"
| pause: "pause_agent now p cid aid db = (db', res3) \<Longrightarrow> org_step g bypass strict db db'"
| move: "set_agent_manager now p cid aid seen m db = (db', res3) \<Longrightarrow> org_step g bypass strict db db'"
| del: "delete_org_agent p cid aid has_worktree owns_work referenced db = (db', res3) \<Longrightarrow> org_step g bypass strict db db'"
| appoint: "appoint bypass now cid aid p replaces db = (db', res3) \<Longrightarrow> org_step g bypass strict db db'"
| remove: "remove_ceo bypass now cid p db = (db', res3) \<Longrightarrow> org_step g bypass strict db db'"
| rewrite: "\<forall>a. same_place a (f a) \<Longrightarrow> strict \<longrightarrow> (\<forall>a. terminated a \<longrightarrow> terminated (f a)) \<Longrightarrow>
    org_step g bypass strict db (rewrite_agent aid f db)"
| reclaim: "strict \<longrightarrow> \<not> list_ex (\<lambda>a. is_agent cid aid a \<and> terminated a) (od_agents db) \<Longrightarrow>
    org_step g bypass strict db (reclaim_stalled_run cid aid run_open db)"
| audit_store: "org_step g bypass strict db (db\<lparr>od_audit_up := up\<rparr>)"

inductive org_reachable :: "cli_registry \<Rightarrow> bool \<Rightarrow> bool \<Rightarrow> org_db \<Rightarrow> bool" for g bypass strict where
  start: "od_agents db = [] \<Longrightarrow> org_reachable g bypass strict db"
| more: "org_reachable g bypass strict db \<Longrightarrow> org_step g bypass strict db db' \<Longrightarrow>
    org_reachable g bypass strict db'"

section \<open>The reporting relation\<close>

definition reporting :: "org_agent list \<Rightarrow> (uuid \<times> uuid) set" where
  "reporting as = {(oa_id a, m) | a m. a \<in> set as \<and> oa_manager_id a = Some m}"

definition in_company :: "org_agent list \<Rightarrow> bool" where
  "in_company as \<longleftrightarrow> (\<forall>a \<in> set as. \<forall>m. oa_manager_id a = Some m \<longrightarrow>
     (\<exists>b \<in> set as. oa_id b = m \<and> oa_company_id b = oa_company_id a))"

definition one_ceo :: "bool \<Rightarrow> org_agent list \<Rightarrow> bool" where
  "one_ceo strict as \<longleftrightarrow> (\<forall>a \<in> set as. oa_is_ceo a \<longrightarrow> oa_manager_id a = None \<and>
     (\<forall>b \<in> set as. oa_company_id b = oa_company_id a \<and> b \<noteq> a \<longrightarrow> \<not> oa_is_ceo b \<and> (strict \<longrightarrow> \<not> live_root b)))"

definition org_inv :: "bool \<Rightarrow> org_agent list \<Rightarrow> bool" where
  "org_inv strict as \<longleftrightarrow> distinct (map oa_id as) \<and> in_company as \<and> one_ceo strict as \<and> acyclic (reporting as)"

lemma org_invD:
  assumes "org_inv strict as"
  shows "distinct (map oa_id as)" "in_company as" "one_ceo strict as" "acyclic (reporting as)"
  using assms by (simp_all add: org_inv_def)

text \<open>New lines that all lead to one root close no cycle.\<close>

lemma acyclic_to_root:
  assumes "acyclic r" and "s \<subseteq> r \<union> {(x, e) | x. True}" and "e \<notin> Domain s"
  shows "acyclic s"
proof -
  have path: "(x, y) \<in> s\<^sup>+ \<Longrightarrow> y \<noteq> e \<Longrightarrow> (x, y) \<in> r\<^sup>+" for x y
  proof (induction rule: trancl_induct)
    case (base y)
    with assms(2) show ?case by auto
  next
    case (step y z)
    with assms(2,3) have "y \<noteq> e" "(y, z) \<in> r" by auto
    with step.IH show ?case by auto
  qed
  show ?thesis
    unfolding acyclic_def
  proof (intro allI notI)
    fix x assume x: "(x, x) \<in> s\<^sup>+"
    then have "x \<in> Domain s" by (metis Domain.intros tranclD)
    with assms(3) have "x \<noteq> e" by auto
    with path x assms(1) show False by (auto simp: acyclic_def)
  qed
qed

lemma get_org_agentD:
  "get_org_agent cid aid db = Some a \<Longrightarrow> a \<in> set (od_agents db) \<and> oa_id a = aid \<and> oa_company_id a = cid"
  by (auto simp: get_org_agent_def dest!: find_SomeD)

lemma current_ceoD:
  "current_ceo cid db = Some c \<Longrightarrow> c \<in> set (od_agents db) \<and> oa_company_id c = cid \<and> oa_is_ceo c"
  by (auto simp: current_ceo_def dest!: find_SomeD)

lemma no_current_ceo:
  "current_ceo cid db = None \<Longrightarrow> a \<in> set (od_agents db) \<Longrightarrow> oa_company_id a = cid \<Longrightarrow> \<not> oa_is_ceo a"
  by (auto simp: current_ceo_def find_None_iff)

lemma same_id: "distinct (map oa_id as) \<Longrightarrow> a \<in> set as \<Longrightarrow> b \<in> set as \<Longrightarrow> oa_id a = oa_id b \<Longrightarrow> a = b"
  by (rule same_key_same_row)

lemma ceo_root: "one_ceo strict as \<Longrightarrow> c \<in> set as \<Longrightarrow> oa_is_ceo c \<Longrightarrow> oa_manager_id c = None"
  by (auto simp: one_ceo_def)

section \<open>The walk finds every cycle\<close>

lemma walk_finds:
  assumes "acyclic (reporting as)" and "distinct (map oa_id as)" and "in_company as"
    and "(c, t) \<in> (reporting as)\<^sup>*" and "\<forall>s \<in> set seen. (s, c) \<in> (reporting as)\<^sup>+"
    and "\<exists>a \<in> set as. oa_id a = c \<and> oa_company_id a = cid"
  shows "walk_up as cid (Some t) (Some c) seen"
  using assms(4-6)
proof (induction c arbitrary: seen rule: converse_rtrancl_induct)
  case base
  then have "t \<notin> set seen" using assms(1) by (auto simp: acyclic_def)
  then show ?case by (subst walk_up.simps) simp
next
  case (step c d)
  then have nc: "c \<notin> set seen" using assms(1) by (auto simp: acyclic_def)
  from step.prems(2) obtain a where a: "a \<in> set as" "oa_id a = c" "oa_company_id a = cid" by blast
  from step.hyps(1) obtain a' where "a' \<in> set as" "oa_id a' = c" "oa_manager_id a' = Some d"
    by (auto simp: reporting_def)
  with a same_id [OF assms(2)] have m: "oa_manager_id a = Some d" by metis
  have "find (\<lambda>x. oa_id x = c \<and> oa_company_id x = cid) as = Some a"
  proof (cases "find (\<lambda>x. oa_id x = c \<and> oa_company_id x = cid) as")
    case None
    with a show ?thesis by (auto simp: find_None_iff)
  next
    case (Some x)
    with a same_id [OF assms(2)] show ?thesis by (auto dest!: find_SomeD)
  qed
  then have mi: "manager_in as cid c = Some d" using m by (simp add: manager_in_def)
  have "\<exists>b \<in> set as. oa_id b = d \<and> oa_company_id b = cid"
    using assms(3) a m by (auto simp: in_company_def)
  moreover have "\<forall>s \<in> set (c # seen). (s, d) \<in> (reporting as)\<^sup>+"
    using step.prems(1) step.hyps(1) by (auto intro: trancl_into_trancl)
  ultimately have "walk_up as cid (Some t) (Some d) (c # seen)" by (rule step.IH [rotated])
  with nc mi show ?case by (subst walk_up.simps) simp
qed

lemma resolved_ok:
  assumes inv: "org_inv strict (od_agents db)" and r: "resolve_manager cid aid m db = Inr (Some t)"
  shows "\<exists>b \<in> set (od_agents db). oa_id b = t \<and> oa_company_id b = cid"
    and "\<And>a. aid = Some a \<Longrightarrow> (t, a) \<notin> (reporting (od_agents db))\<^sup>*"
proof -
  have "(\<exists>b \<in> set (od_agents db). oa_id b = t \<and> oa_company_id b = cid) \<and>
    (\<forall>a. aid = Some a \<longrightarrow> (t, a) \<notin> (reporting (od_agents db))\<^sup>*)"
  proof (cases m)
    case None
    with r obtain c where c: "current_ceo cid db = Some c" "oa_id c = t" "aid \<noteq> Some t"
      by (auto simp: resolve_manager_def Let_def split: if_splits)
    note ceo = current_ceoD [OF c(1)]
    have "oa_manager_id c = None" using ceo_root org_invD(3) [OF inv] ceo by blast
    then have "t \<notin> Domain (reporting (od_agents db))"
      using same_id [OF org_invD(1) [OF inv] _ conjunct1 [OF ceo]] c(2) by (force simp: reporting_def)
    then have "(t, a) \<in> (reporting (od_agents db))\<^sup>* \<Longrightarrow> t = a" for a
      by (meson Not_Domain_rtrancl)
    with c(3) have "\<forall>a. aid = Some a \<longrightarrow> (t, a) \<notin> (reporting (od_agents db))\<^sup>*" by blast
    with ceo c(2) show ?thesis by blast
  next
    case (Some m')
    with r have t: "m' = t" "aid \<noteq> Some t" "get_org_agent cid t db \<noteq> None"
      "\<not> walk_up (od_agents db) cid aid (Some t) []"
      by (auto simp: resolve_manager_def Let_def split: if_splits)
    then obtain b where b: "b \<in> set (od_agents db)" "oa_id b = t" "oa_company_id b = cid"
      using get_org_agentD by blast
    have "(t, a) \<notin> (reporting (od_agents db))\<^sup>*" if "aid = Some a" for a
    proof
      assume "(t, a) \<in> (reporting (od_agents db))\<^sup>*"
      from walk_finds [OF org_invD(4,1,2) [OF inv] this, of "[]" cid] b that t(4) show False by auto
    qed
    with b show ?thesis by blast
  qed
  then show "\<exists>b \<in> set (od_agents db). oa_id b = t \<and> oa_company_id b = cid"
    and "\<And>a. aid = Some a \<Longrightarrow> (t, a) \<notin> (reporting (od_agents db))\<^sup>*" by auto
qed

lemma resolved_none:
  assumes "resolve_manager cid aid m db = Inr None"
  shows "(current_ceo cid db = None) \<or> (\<exists>c. current_ceo cid db = Some c \<and> aid = Some (oa_id c))"
  using assms by (auto simp: resolve_manager_def Let_def split: if_splits option.splits)

section \<open>Every step keeps the invariant\<close>

lemma reporting_append: "reporting (as @ bs) = reporting as \<union> reporting bs"
  by (auto simp: reporting_def)

lemma create_inv:
  assumes inv: "org_inv strict (od_agents db)" and c: "create_org_agent a db = Inr db'"
  shows "org_inv strict (od_agents db')"
proof -
  obtain m where m: "resolve_manager (oa_company_id a) None (oa_manager_id a) db = Inr m"
    and fresh: "oa_id a \<notin> oa_id ` set (od_agents db)"
    and db': "od_agents db' = od_agents db @ [a\<lparr>oa_manager_id := m, oa_is_ceo := False\<rparr>]"
    using c by (auto simp: create_org_agent_def split: sum.splits if_splits)
  let ?as = "od_agents db" and ?n = "a\<lparr>oa_manager_id := m, oa_is_ceo := False\<rparr>"
  have mgr: "\<exists>b \<in> set ?as. oa_id b = t \<and> oa_company_id b = oa_company_id a" if "m = Some t" for t
    using resolved_ok(1) [OF inv] m that by blast
  have "in_company (?as @ [?n])"
    using org_invD(2) [OF inv] mgr by (fastforce simp: in_company_def)
  moreover have "one_ceo strict (?as @ [?n])"
  proof -
    have "m \<noteq> None" if "b \<in> set ?as" "oa_is_ceo b" "oa_company_id b = oa_company_id a" for b
    proof
      assume "m = None"
      with resolved_none [of "oa_company_id a" None] m have "current_ceo (oa_company_id a) db = None" by auto
      with no_current_ceo [OF this that(1,3)] that(2) show False by simp
    qed
    with org_invD(3) [OF inv] show ?thesis by (fastforce simp: one_ceo_def live_root_def)
  qed
  moreover have "acyclic (reporting (?as @ [?n]))"
  proof -
    have r: "reporting (?as @ [?n]) \<subseteq> (case m of None \<Rightarrow> reporting ?as | Some t \<Rightarrow> insert (oa_id a, t) (reporting ?as))"
      by (auto simp: reporting_def split: option.splits)
    have "(t, oa_id a) \<notin> (reporting ?as)\<^sup>*" if "m = Some t" for t
    proof
      assume "(t, oa_id a) \<in> (reporting ?as)\<^sup>*"
      moreover have "t \<noteq> oa_id a"
      proof -
        from mgr [OF that] have "t \<in> oa_id ` set ?as" by blast
        with fresh show ?thesis by blast
      qed
      ultimately obtain y where "(y, oa_id a) \<in> reporting ?as" by (metis rtranclE)
      then obtain x where "x \<in> set ?as" "oa_manager_id x = Some (oa_id a)" by (auto simp: reporting_def)
      with org_invD(2) [OF inv] obtain b where "b \<in> set ?as" "oa_id b = oa_id a"
        unfolding in_company_def by blast
      with fresh show False by (metis image_eqI)
    qed
    then have "acyclic (case m of None \<Rightarrow> reporting ?as | Some t \<Rightarrow> insert (oa_id a, t) (reporting ?as))"
      using org_invD(4) [OF inv] by (simp add: acyclic_insert split: option.splits)
    then show ?thesis using r by (rule acyclic_subset)
  qed
  ultimately show ?thesis using org_invD(1) [OF inv] fresh by (simp add: org_inv_def db')
qed

text \<open>Rewriting rows in place: what is left to check about the new columns.\<close>

lemma rewritten_in_company:
  assumes "in_company as" and f: "\<And>a. oa_id (f a) = oa_id a" "\<And>a. oa_company_id (f a) = oa_company_id a"
    and m: "\<And>a t. a \<in> set as \<Longrightarrow> oa_manager_id (f a) = Some t \<Longrightarrow>
      oa_manager_id a = Some t \<or> (\<exists>b \<in> set as. oa_id b = t \<and> oa_company_id b = oa_company_id a)"
  shows "in_company (map f as)"
  unfolding in_company_def
proof (intro ballI allI impI)
  fix x t assume "x \<in> set (map f as)" and t: "oa_manager_id x = Some t"
  then obtain a where a: "a \<in> set as" "x = f a" by auto
  with m t assms(1) obtain b where "b \<in> set as" "oa_id b = t" "oa_company_id b = oa_company_id a"
    by (fastforce simp: in_company_def)
  with a f show "\<exists>b \<in> set (map f as). oa_id b = t \<and> oa_company_id b = oa_company_id x" by auto
qed

lemma rewritten_ids: "(\<And>a. oa_id (f a) = oa_id a) \<Longrightarrow> map oa_id (map f as) = map oa_id as"
  by simp

text \<open>One CEO: it is enough that roots and designations are accounted for row by row.\<close>

lemma rewritten_one_ceo:
  assumes d: "distinct (map oa_id as)" and f: "\<And>a. oa_id (f a) = oa_id a"
    and c: "\<And>a b. a \<in> set as \<Longrightarrow> oa_is_ceo (f a) \<Longrightarrow> oa_manager_id (f a) = None \<and>
      (b \<in> set as \<longrightarrow> oa_company_id (f b) = oa_company_id (f a) \<longrightarrow> oa_id b \<noteq> oa_id a \<longrightarrow>
        \<not> oa_is_ceo (f b) \<and> (strict \<longrightarrow> \<not> live_root (f b)))"
  shows "one_ceo strict (map f as)"
  using c same_id [OF d] by (auto simp: one_ceo_def)

lemma beside_the_ceo:
  assumes "one_ceo strict as" and "distinct (map oa_id as)" and "a \<in> set as" and "oa_is_ceo a" and "b \<in> set as"
    and "oa_company_id b = oa_company_id a" and "oa_id b \<noteq> oa_id a"
  shows "\<not> oa_is_ceo b \<and> (strict \<longrightarrow> \<not> live_root b)"
proof -
  have "b \<noteq> a" using assms(7) by blast
  with assms(1,3-6) show ?thesis unfolding one_ceo_def by blast
qed

definition moved :: "uuid \<Rightarrow> uuid \<Rightarrow> time \<Rightarrow> uuid option \<Rightarrow> org_agent \<Rightarrow> org_agent" where
  "moved cid aid now m a = (if is_agent cid aid a then move_to now m a else a)"

lemma moved_simps [simp]:
  "oa_id (moved cid aid now m a) = oa_id a" "oa_company_id (moved cid aid now m a) = oa_company_id a"
  "oa_is_ceo (moved cid aid now m a) = oa_is_ceo a" "oa_status (moved cid aid now m a) = oa_status a"
  "oa_manager_id (moved cid aid now m a) = (if is_agent cid aid a then m else oa_manager_id a)"
  by (simp_all add: moved_def move_to_def)

lemma move_inv:
  assumes inv: "org_inv strict (od_agents db)" and s: "set_agent_manager now p cid aid seen m db = (db', res)"
  shows "org_inv strict (od_agents db')"
proof (cases "od_agents db' = od_agents db")
  case True
  with inv show ?thesis by simp
next
  case False
  let ?as = "od_agents db"
  obtain tgt where r: "resolve_manager cid (Some aid) m db = Inr tgt"
    and db': "od_agents db' = map (moved cid aid now tgt) ?as"
    using s False by (auto simp: set_agent_manager_def Let_def update_where_def moved_def
        split: if_splits sum.splits)
  note d = org_invD(1) [OF inv]
  have mgr: "\<exists>b \<in> set ?as. oa_id b = t \<and> oa_company_id b = cid" if "tgt = Some t" for t
    using resolved_ok(1) [OF inv] r that by blast
  have "in_company (map (moved cid aid now tgt) ?as)"
    using mgr by (intro rewritten_in_company org_invD(2) [OF inv]) (auto simp: is_agent_def split: if_splits)
  moreover have "one_ceo strict (map (moved cid aid now tgt) ?as)"
  proof (rule rewritten_one_ceo [OF d])
    fix a b assume a: "a \<in> set ?as" "oa_is_ceo (moved cid aid now tgt a)"
    then have ceo: "oa_is_ceo a" by simp
    have root: "is_agent cid aid a \<Longrightarrow> tgt = None"
    proof -
      assume "is_agent cid aid a"
      then have x: "oa_id a = aid" "oa_company_id a = cid" by (auto simp: is_agent_def)
      then obtain c where "current_ceo cid db = Some c"
        using no_current_ceo a ceo by (cases "current_ceo cid db") auto
      moreover from current_ceoD [OF this] have "c = a"
        using org_invD(3) [OF inv] a(1) ceo x by (auto simp: one_ceo_def)
      ultimately show "tgt = None" using r x by (auto simp: resolve_manager_def Let_def split: if_splits)
    qed
    have "\<not> oa_is_ceo b \<and> (strict \<longrightarrow> \<not> live_root (moved cid aid now tgt b))"
      if b: "b \<in> set ?as" "oa_company_id b = oa_company_id a" "oa_id b \<noteq> oa_id a"
    proof -
      note o = beside_the_ceo [OF org_invD(3) [OF inv] d a(1) ceo b]
      have "tgt \<noteq> None" if "is_agent cid aid b"
      proof
        assume "tgt = None"
        with r resolved_none [of cid "Some aid" m db] have "current_ceo cid db = None \<or> (\<exists>c. current_ceo cid db = Some c \<and> aid = oa_id c)"
          by auto
        then show False
        proof
          assume "current_ceo cid db = None"
          with no_current_ceo a(1) ceo b(2) that show False by (auto simp: is_agent_def)
        next
          assume "\<exists>c. current_ceo cid db = Some c \<and> aid = oa_id c"
          then obtain c where c: "current_ceo cid db = Some c" "aid = oa_id c" by blast
          with current_ceoD [OF c(1)] same_id [OF d b(1)] that o show False by (auto simp: is_agent_def)
        qed
      qed
      with o show ?thesis by (auto simp: live_root_def terminated_def)
    qed
    moreover have "oa_manager_id (moved cid aid now tgt a) = None"
      using root ceo_root [OF org_invD(3) [OF inv] a(1) ceo] by simp
    ultimately show "oa_manager_id (moved cid aid now tgt a) = None \<and>
      (b \<in> set ?as \<longrightarrow> oa_company_id (moved cid aid now tgt b) = oa_company_id (moved cid aid now tgt a) \<longrightarrow>
       oa_id b \<noteq> oa_id a \<longrightarrow> \<not> oa_is_ceo (moved cid aid now tgt b) \<and> (strict \<longrightarrow> \<not> live_root (moved cid aid now tgt b)))"
      by simp
  qed simp
  moreover have "acyclic (reporting (map (moved cid aid now tgt) ?as))"
  proof -
    have "reporting (map (moved cid aid now tgt) ?as) \<subseteq>
      (case tgt of None \<Rightarrow> reporting ?as | Some t \<Rightarrow> insert (aid, t) (reporting ?as))"
      by (auto simp: reporting_def is_agent_def split: option.splits if_splits)
    moreover have "acyclic (case tgt of None \<Rightarrow> reporting ?as | Some t \<Rightarrow> insert (aid, t) (reporting ?as))"
      using org_invD(4) [OF inv] resolved_ok(2) [OF inv] r by (auto simp: acyclic_insert split: option.splits)
    ultimately show ?thesis by (metis acyclic_subset)
  qed
  ultimately show ?thesis using d by (simp add: org_inv_def db' comp_def)
qed

text \<open>Steps that only rewrite other columns.\<close>

lemma reporting_map:
  assumes f: "\<And>a. oa_id (f a) = oa_id a" "\<And>a. oa_manager_id (f a) = oa_manager_id a"
  shows "reporting (map f as) = reporting as"
proof -
  have r: "reporting xs = (\<Union>a \<in> set xs. {(oa_id a, m) | m. oa_manager_id a = Some m})" for xs
    by (auto simp: reporting_def)
  show ?thesis unfolding r using f by simp
qed

lemma columns_inv:
  assumes inv: "org_inv strict as"
    and f: "\<And>a. oa_id (f a) = oa_id a" "\<And>a. oa_company_id (f a) = oa_company_id a"
      "\<And>a. oa_is_ceo (f a) = oa_is_ceo a" "\<And>a. oa_manager_id (f a) = oa_manager_id a"
    and t: "\<And>a. a \<in> set as \<Longrightarrow> strict \<Longrightarrow> terminated a \<Longrightarrow> terminated (f a)"
  shows "org_inv strict (map f as)"
proof -
  have lr: "strict \<Longrightarrow> live_root (f a) \<Longrightarrow> live_root a" if "a \<in> set as" for a
    using t [OF that] f(4) by (auto simp: live_root_def)
  have "in_company (map f as)"
    using org_invD(2) [OF inv] f by (intro rewritten_in_company) simp_all
  moreover have "one_ceo strict (map f as)"
  proof (rule rewritten_one_ceo [OF org_invD(1) [OF inv]])
    fix a b assume a: "a \<in> set as" "oa_is_ceo (f a)"
    then have ceo: "oa_is_ceo a" using f by simp
    have "\<not> oa_is_ceo b \<and> (strict \<longrightarrow> \<not> live_root (f b))"
      if b: "b \<in> set as" "oa_company_id b = oa_company_id a" "oa_id b \<noteq> oa_id a"
      using beside_the_ceo [OF org_invD(3,1) [OF inv] a(1) ceo b] lr [OF b(1)] by blast
    then show "oa_manager_id (f a) = None \<and> (b \<in> set as \<longrightarrow> oa_company_id (f b) = oa_company_id (f a) \<longrightarrow>
       oa_id b \<noteq> oa_id a \<longrightarrow> \<not> oa_is_ceo (f b) \<and> (strict \<longrightarrow> \<not> live_root (f b)))"
      using ceo_root [OF org_invD(3) [OF inv] a(1) ceo] f by simp
  qed (rule f)
  moreover have "reporting (map f as) = reporting as" by (rule reporting_map) (simp_all add: f)
  moreover have "map oa_id (map f as) = map oa_id as" by (simp add: f)
  ultimately show ?thesis using org_invD(1,4) [OF inv] unfolding org_inv_def by (simp del: map_map)
qed

lemma update_where_inv:
  assumes "org_inv strict as"
    and "\<And>a. oa_id (f a) = oa_id a" "\<And>a. oa_company_id (f a) = oa_company_id a"
      "\<And>a. oa_is_ceo (f a) = oa_is_ceo a" "\<And>a. oa_manager_id (f a) = oa_manager_id a"
    and "\<And>a. a \<in> set as \<Longrightarrow> strict \<Longrightarrow> P a \<Longrightarrow> terminated a \<Longrightarrow> terminated (f a)"
  shows "org_inv strict (update_where P f as)"
  unfolding update_where_def using assms by (intro columns_inv) (simp_all split: if_splits)

lemma agent_audit_agents [simp]: "od_agents (agent_audit cid action p aid details db) = od_agents db"
  by (simp add: agent_audit_def)

lemma rewrite_inv:
  assumes "org_inv strict (od_agents db)"
    and "\<forall>a. same_place a (f a)" and "strict \<longrightarrow> (\<forall>a. terminated a \<longrightarrow> terminated (f a))"
  shows "org_inv strict (od_agents (rewrite_agent aid f db))"
  using assms by (simp add: rewrite_agent_def) (rule update_where_inv, auto simp: same_place_def)

lemma audit_store_inv:
  "org_inv strict (od_agents db) \<Longrightarrow> org_inv strict (od_agents (db\<lparr>od_audit_up := up\<rparr>))"
  by simp

lemma reclaim_inv:
  assumes "org_inv strict (od_agents db)"
    and "strict \<longrightarrow> \<not> list_ex (\<lambda>a. is_agent cid aid a \<and> terminated a) (od_agents db)"
  shows "org_inv strict (od_agents (reclaim_stalled_run cid aid run_open db))"
  using assms by (simp add: reclaim_stalled_run_def) (auto simp: list_ex_iff intro!: update_where_inv)

lemma written_columns [simp]:
  "oa_id (write_update now u c a) = oa_id a" "oa_company_id (write_update now u c a) = oa_company_id a"
  "oa_is_ceo (write_update now u c a) = oa_is_ceo a" "oa_manager_id (write_update now u c a) = oa_manager_id a"
  "oa_status (write_update now u c a) = required_or (up_status u) (oa_status a)"
  by (simp_all add: write_update_def)

lemma insert_inv:
  assumes "org_inv strict (od_agents db)" and "insert_agent a action p details db = (db', res)"
  shows "org_inv strict (od_agents db')"
  using assms create_inv by (auto simp: insert_agent_def split: sum.splits)

lemma create_agent_inv:
  assumes "org_inv strict (od_agents db)" and "create_agent g bypass new_id now p cid b db = (db', res)"
  shows "org_inv strict (od_agents db')"
  using assms insert_inv
  by (auto simp: create_agent_def Let_def split: option.splits sum.splits if_splits prod.splits)

lemma clone_agent_inv:
  assumes "org_inv strict (od_agents db)" and "clone_agent bypass new_id now p cid aid db = (db', res)"
  shows "org_inv strict (od_agents db')"
  using assms insert_inv by (auto simp: clone_agent_def split: option.splits if_splits)

lemma guarded_status:
  assumes "guard_cli_update g a u = Inr (u', c)"
  shows "up_status u' = up_status u \<or> (up_status u = None \<and> oa_status a = CONFIGURATION_REQUIRED)"
  using assms
  by (auto simp: guard_cli_update_def Let_def required_or_def split: if_splits sum.splits prod.splits option.splits)

lemma edit_inv:
  assumes inv: "org_inv strict (od_agents db)"
    and e: "apply_agent_update g bypass now p cid aid u db = (db', res)"
    and r: "strict \<longrightarrow> \<not> revives cid aid u db"
  shows "org_inv strict (od_agents db')"
proof (cases "od_agents db' = od_agents db")
  case True
  with inv show ?thesis by simp
next
  case False
  from e False obtain a u' c where a: "get_org_agent cid aid db = Some a" "guard_cli_update g a u = Inr (u', c)"
    and db': "od_agents db' = update_where (is_agent cid aid) (write_update now u' c) (od_agents db)"
    by (auto simp: apply_agent_update_def split: option.splits if_splits sum.splits prod.splits)
  show ?thesis
    unfolding db'
  proof (rule update_where_inv [OF inv])
    fix b assume b: "b \<in> set (od_agents db)" "strict" "is_agent cid aid b" "terminated b"
    have "b = a"
      using same_id [OF org_invD(1) [OF inv] b(1)] get_org_agentD [OF a(1)] b(3) by (auto simp: is_agent_def)
    with b r have "up_status u = None \<or> up_status u = Some (Some ''terminated'')"
      by (auto simp: revives_def list_ex_iff)
    with guarded_status [OF a(2)] b(4) \<open>b = a\<close> show "terminated (write_update now u' c b)"
      by (auto simp: terminated_def required_or_def CONFIGURATION_REQUIRED_def)
  qed simp_all
qed

lemma wake_inv:
  assumes inv: "org_inv strict (od_agents db)" and e: "wake_agent now p cid aid rs db = (db', res)"
  shows "org_inv strict (od_agents db')"
proof (cases "od_agents db' = od_agents db")
  case True
  with inv show ?thesis by simp
next
  case False
  from e False obtain a where a: "get_org_agent cid aid db = Some a" "oa_status a \<in> {''idle'', ''paused''}"
    and db': "od_agents db' = update_where (is_agent cid aid)
      (\<lambda>a. a\<lparr>oa_status := ''ready'', oa_updated_at := now\<rparr>) (od_agents db)"
    by (auto simp: wake_agent_def split: option.splits if_splits)
  show ?thesis
    unfolding db'
  proof (rule update_where_inv [OF inv])
    fix b assume b: "b \<in> set (od_agents db)" "is_agent cid aid b" "terminated b"
    have "b = a"
      using same_id [OF org_invD(1) [OF inv] b(1)] get_org_agentD [OF a(1)] b(2) by (auto simp: is_agent_def)
    with a(2) b(3) show "terminated (b\<lparr>oa_status := ''ready'', oa_updated_at := now\<rparr>)"
      by (auto simp: terminated_def)
  qed simp_all
qed

lemma pause_inv:
  assumes inv: "org_inv strict (od_agents db)" and e: "pause_agent now p cid aid db = (db', res)"
  shows "org_inv strict (od_agents db')"
proof (cases "od_agents db' = od_agents db")
  case True
  with inv show ?thesis by simp
next
  case False
  from e False obtain a where a: "get_org_agent cid aid db = Some a" "\<not> terminated a"
    and db': "od_agents db' = update_where (is_agent cid aid)
      (\<lambda>a. a\<lparr>oa_status := ''paused'', oa_paused_at := Some now, oa_updated_at := now\<rparr>) (od_agents db)"
    by (auto simp: pause_agent_def split: option.splits if_splits)
  show ?thesis
    unfolding db'
  proof (rule update_where_inv [OF inv])
    fix b assume b: "b \<in> set (od_agents db)" "is_agent cid aid b" "terminated b"
    have "b = a"
      using same_id [OF org_invD(1) [OF inv] b(1)] get_org_agentD [OF a(1)] b(2) by (auto simp: is_agent_def)
    with a(2) b(3) show "terminated (b\<lparr>oa_status := ''paused'', oa_paused_at := Some now, oa_updated_at := now\<rparr>)"
      by simp
  qed simp_all
qed

definition released :: "uuid \<Rightarrow> uuid \<Rightarrow> uuid option \<Rightarrow> org_agent \<Rightarrow> org_agent" where
  "released cid aid m a = (if reports_to cid aid a then a\<lparr>oa_manager_id := m\<rparr> else a)"

lemma released_simps [simp]:
  "oa_id (released cid aid m a) = oa_id a" "oa_company_id (released cid aid m a) = oa_company_id a"
  "oa_is_ceo (released cid aid m a) = oa_is_ceo a" "oa_status (released cid aid m a) = oa_status a"
  "oa_manager_id (released cid aid m a) = (if reports_to cid aid a then m else oa_manager_id a)"
  "is_agent cid' aid' (released cid aid m a) = is_agent cid' aid' a"
  by (simp_all add: released_def is_agent_def)

lemma released_agents:
  "update_where (reports_to cid aid) (\<lambda>a. a\<lparr>oa_manager_id := m\<rparr>) as = map (released cid aid m) as"
  by (simp add: update_where_def released_def)

lemma one_ceo_filter:
  assumes d: "distinct (map oa_id as)"
    and f: "\<And>a. oa_id (f a) = oa_id a" "\<And>a. oa_company_id (f a) = oa_company_id a"
      "\<And>a. oa_is_ceo (f a) = oa_is_ceo a" "\<And>a. Q (f a) = Q a"
    and c: "\<And>a b. a \<in> set as \<Longrightarrow> Q a \<Longrightarrow> oa_is_ceo a \<Longrightarrow> oa_manager_id (f a) = None \<and>
      (b \<in> set as \<longrightarrow> oa_company_id b = oa_company_id a \<longrightarrow> oa_id b \<noteq> oa_id a \<longrightarrow>
        \<not> oa_is_ceo b \<and> (strict \<longrightarrow> \<not> live_root (f b)))"
  shows "one_ceo strict (filter Q (map f as))"
  unfolding one_ceo_def
proof (intro ballI impI conjI)
  fix x assume "x \<in> set (filter Q (map f as))" and ceo: "oa_is_ceo x"
  then obtain a where a: "a \<in> set as" "x = f a" "Q a" "oa_is_ceo a" using f by auto
  with c show "oa_manager_id x = None" by simp
  fix y assume "y \<in> set (filter Q (map f as))" and y: "oa_company_id y = oa_company_id x \<and> y \<noteq> x"
  then obtain b where b: "b \<in> set as" "y = f b" by auto
  from y a b have "oa_id b \<noteq> oa_id a" using same_id [OF d b(1) a(1)] by auto
  with c [OF a(1,3,4), of b] b y a(2) f(2) have "\<not> oa_is_ceo b \<and> (strict \<longrightarrow> \<not> live_root (f b))" by auto
  with b f(3) show "\<not> oa_is_ceo y" and "strict \<Longrightarrow> \<not> live_root y" by auto
qed

lemma delete_inv:
  assumes inv: "org_inv strict (od_agents db)" and s: "delete_org_agent p cid aid has_worktree owns_work referenced db = (db', res)"
  shows "org_inv strict (od_agents db')"
proof (cases "od_agents db' = od_agents db")
  case True
  with inv show ?thesis by simp
next
  case False
  let ?as = "od_agents db"
  note d = org_invD(1) [OF inv]
  define tgt where "tgt = (case current_ceo cid db of
    None \<Rightarrow> None | Some c \<Rightarrow> if oa_id c \<noteq> aid then Some (oa_id c) else None)"
  let ?f = "released cid aid tgt" and ?keep = "\<lambda>a. \<not> is_agent cid aid a"
  have db': "od_agents db' = filter ?keep (map ?f ?as)"
    using s False unfolding tgt_def
    by (auto simp: delete_org_agent_def release_reports_def Let_def released_agents split: if_splits)
  have ceo: "\<exists>c. current_ceo cid db = Some c \<and> c \<in> set ?as \<and> oa_company_id c = cid \<and> oa_is_ceo c \<and>
      oa_id c = t \<and> t \<noteq> aid" if "tgt = Some t" for t
    using that current_ceoD by (force simp: tgt_def split: option.splits if_splits)
  have "in_company (filter ?keep (map ?f ?as))"
    unfolding in_company_def
  proof (intro ballI allI impI)
    fix x m assume x: "x \<in> set (filter ?keep (map ?f ?as))" and m: "oa_manager_id x = Some m"
    then obtain a where a: "a \<in> set ?as" "x = ?f a" "\<not> is_agent cid aid a" by auto
    obtain b where b: "b \<in> set ?as" "oa_id b = m" "oa_company_id b = oa_company_id a" "\<not> is_agent cid aid b"
    proof (cases "reports_to cid aid a")
      case True
      with m a(2) have "tgt = Some m" by simp
      from ceo [OF this] True obtain c where "c \<in> set ?as" "oa_id c = m" "oa_company_id c = oa_company_id a" "m \<noteq> aid"
        by (auto simp: reports_to_def)
      then show thesis by (intro that [of c]) (auto simp: is_agent_def)
    next
      case False
      with m a(2) have am: "oa_manager_id a = Some m" by simp
      with org_invD(2) [OF inv] a(1) obtain b where b: "b \<in> set ?as" "oa_id b = m" "oa_company_id b = oa_company_id a"
        unfolding in_company_def by blast
      with False am show thesis by (intro that [of b]) (auto simp: is_agent_def reports_to_def)
    qed
    then have "?f b \<in> set (filter ?keep (map ?f ?as))" by (auto intro!: imageI)
    with b a(2) show "\<exists>b \<in> set (filter ?keep (map ?f ?as)). oa_id b = m \<and> oa_company_id b = oa_company_id x"
      by (intro bexI [of _ "?f b"]) simp_all
  qed
  moreover have "one_ceo strict (filter ?keep (map ?f ?as))"
  proof (rule one_ceo_filter)
    fix a b assume a: "a \<in> set ?as" "\<not> is_agent cid aid a" "oa_is_ceo a"
    note root = ceo_root [OF org_invD(3) [OF inv] a(1,3)]
    have "\<not> oa_is_ceo b \<and> (strict \<longrightarrow> \<not> live_root (?f b))"
      if b: "b \<in> set ?as" "oa_company_id b = oa_company_id a" "oa_id b \<noteq> oa_id a"
    proof -
      note o = beside_the_ceo [OF org_invD(3) [OF inv] d a(1,3) b]
      have "tgt \<noteq> None" if "reports_to cid aid b"
      proof -
        from that b(2) have "oa_company_id a = cid" by (simp add: reports_to_def)
        with no_current_ceo a obtain c where c: "current_ceo cid db = Some c"
          by (cases "current_ceo cid db") auto
        from current_ceoD [OF c] have "c = a"
          using org_invD(3) [OF inv] a(1,3) \<open>oa_company_id a = cid\<close> unfolding one_ceo_def by auto
        with c a(2) \<open>oa_company_id a = cid\<close> show "tgt \<noteq> None" by (auto simp: tgt_def is_agent_def)
      qed
      with o show ?thesis by (auto simp: live_root_def terminated_def)
    qed
    with root show "oa_manager_id (?f a) = None \<and>
      (b \<in> set ?as \<longrightarrow> oa_company_id b = oa_company_id a \<longrightarrow> oa_id b \<noteq> oa_id a \<longrightarrow>
       \<not> oa_is_ceo b \<and> (strict \<longrightarrow> \<not> live_root (?f b)))"
      by (simp add: reports_to_def)
  qed (use d in simp_all)
  moreover have "acyclic (reporting (filter ?keep (map ?f ?as)))"
  proof (cases tgt)
    case None
    have "reporting (filter ?keep (map ?f ?as)) \<subseteq> reporting ?as"
      by (auto simp: reporting_def None split: if_splits)
    then show ?thesis by (rule acyclic_subset [OF org_invD(4) [OF inv]])
  next
    case (Some t)
    from ceo [OF this] obtain c where c: "c \<in> set ?as" "oa_is_ceo c" "oa_id c = t" by blast
    have "t \<notin> Domain (reporting (filter ?keep (map ?f ?as)))"
    proof
      assume "t \<in> Domain (reporting (filter ?keep (map ?f ?as)))"
      then obtain a where a: "a \<in> set ?as" "oa_id a = t" "oa_manager_id (?f a) \<noteq> None"
        by (auto simp: reporting_def)
      with same_id [OF d a(1) c(1)] c ceo_root [OF org_invD(3) [OF inv] c(1,2)] show False
        by (simp add: reports_to_def)
    qed
    moreover have "reporting (filter ?keep (map ?f ?as)) \<subseteq> reporting ?as \<union> {(x, t) | x. True}"
      by (auto simp: reporting_def Some split: if_splits)
    ultimately show ?thesis by (intro acyclic_to_root [OF org_invD(4) [OF inv]])
  qed
  ultimately show ?thesis
    using d by (simp add: org_inv_def db' distinct_map_filter comp_def)
qed

lemma audit_moves_agents [simp]: "od_agents (audit_moves cid who reason changes db) = od_agents db"
  unfolding audit_moves_def
  by (induction changes arbitrary: db) (simp_all add: org_audit_def)

lemma org_audit_agents [simp]: "od_agents (org_audit cid action who rtype rid details db) = od_agents db"
  by (simp add: org_audit_def)

definition crowned :: "time \<Rightarrow> uuid \<Rightarrow> uuid \<Rightarrow> org_agent option \<Rightarrow> org_agent \<Rightarrow> org_agent" where
  "crowned now cid aid previous a =
    (let b = hand_over now cid aid a
     in if joining cid aid previous b then move_to now (Some aid) b else b)"

lemma joining_hand_over:
  "joining cid aid previous (hand_over now cid aid a) \<longleftrightarrow> \<not> is_agent cid aid a \<and> joining cid aid previous a"
  by (auto simp: joining_def hand_over_def is_agent_def live_root_def terminated_def split: option.splits)

lemma crowned_simps [simp]:
  "oa_id (crowned now cid aid previous a) = oa_id a"
  "oa_company_id (crowned now cid aid previous a) = oa_company_id a"
  "oa_status (crowned now cid aid previous a) = oa_status a"
  "oa_is_ceo (crowned now cid aid previous a) \<longleftrightarrow>
    is_agent cid aid a \<or> (oa_company_id a \<noteq> cid \<and> oa_is_ceo a)"
  "oa_manager_id (crowned now cid aid previous a) =
    (if is_agent cid aid a then None else if joining cid aid previous a then Some aid else oa_manager_id a)"
  by (auto simp: crowned_def Let_def joining_hand_over)
    (auto simp: hand_over_def is_agent_def move_to_def split: if_splits)

lemma appointed_agents:
  assumes "appoint bypass now cid aid p replaces db = (db', res)"
  obtains "od_agents db' = od_agents db"
  | previous where "get_org_agent cid aid db \<noteq> None"
    and "od_agents db' = map (crowned now cid aid previous) (od_agents db)"
proof -
  have "od_agents db' = od_agents db \<or> (get_org_agent cid aid db \<noteq> None \<and>
      od_agents db' = map (crowned now cid aid (current_ceo cid db)) (od_agents db))"
    using assms
    by (auto simp: appoint_def Let_def crowned_def update_where_def split: option.splits if_splits)
  with that show ?thesis by blast
qed

lemma appoint_inv:
  assumes inv: "org_inv strict (od_agents db)" and s: "appoint bypass now cid aid p replaces db = (db', res)"
  shows "org_inv strict (od_agents db')"
  using s
proof (cases rule: appointed_agents)
  case 1
  with inv show ?thesis by simp
next
  case (2 previous)
  let ?as = "od_agents db" and ?f = "crowned now cid aid previous"
  note d = org_invD(1) [OF inv]
  from 2(1) obtain e where e: "e \<in> set ?as" "oa_id e = aid" "oa_company_id e = cid"
    using get_org_agentD by blast
  have new: "is_agent cid aid a" if "a \<in> set ?as" "oa_id a = aid" for a
    using same_id [OF d that(1) e(1)] that(2) e by (simp add: is_agent_def)
  have "in_company (map ?f ?as)"
    using e by (intro rewritten_in_company org_invD(2) [OF inv]) (auto simp: joining_def split: if_splits)
  moreover have "one_ceo strict (map ?f ?as)"
  proof (rule rewritten_one_ceo [OF d])
    fix a b assume a: "a \<in> set ?as" "oa_is_ceo (?f a)"
    show "oa_manager_id (?f a) = None \<and> (b \<in> set ?as \<longrightarrow> oa_company_id (?f b) = oa_company_id (?f a) \<longrightarrow>
       oa_id b \<noteq> oa_id a \<longrightarrow> \<not> oa_is_ceo (?f b) \<and> (strict \<longrightarrow> \<not> live_root (?f b)))"
    proof (cases "is_agent cid aid a")
      case True
      then show ?thesis by (auto simp: is_agent_def joining_def live_root_def terminated_def)
    next
      case False
      with a(2) have x: "oa_company_id a \<noteq> cid" "oa_is_ceo a" by auto
      have "\<not> oa_is_ceo (?f b) \<and> (strict \<longrightarrow> \<not> live_root (?f b))"
        if b: "b \<in> set ?as" "oa_company_id b = oa_company_id a" "oa_id b \<noteq> oa_id a"
        using beside_the_ceo [OF org_invD(3) [OF inv] d a(1) x(2) b] b(2) x(1)
        by (auto simp: is_agent_def joining_def live_root_def terminated_def)
      with ceo_root [OF org_invD(3) [OF inv] a(1) x(2)] x(1) False show ?thesis by (simp add: joining_def)
    qed
  qed simp
  moreover have "acyclic (reporting (map ?f ?as))"
  proof (rule acyclic_to_root [OF org_invD(4) [OF inv]])
    show "reporting (map ?f ?as) \<subseteq> reporting ?as \<union> {(x, aid) | x. True}"
      by (auto simp: reporting_def split: if_splits)
    show "aid \<notin> Domain (reporting (map ?f ?as))"
      using new by (auto simp: reporting_def)
  qed
  moreover have "distinct (map oa_id (map ?f ?as))" using d by (simp add: comp_def)
  ultimately show ?thesis unfolding org_inv_def 2(2) by simp
qed

definition uncrowned :: "time \<Rightarrow> uuid \<Rightarrow> uuid \<Rightarrow> org_agent \<Rightarrow> org_agent" where
  "uncrowned now cid c a =
    (let b = (if is_agent cid c a then a\<lparr>oa_is_ceo := False, oa_updated_at := now\<rparr> else a)
     in if reports_to cid c b then move_to now None b else b)"

lemma uncrowned_simps [simp]:
  "oa_id (uncrowned now cid c a) = oa_id a" "oa_company_id (uncrowned now cid c a) = oa_company_id a"
  "oa_status (uncrowned now cid c a) = oa_status a"
  "oa_is_ceo (uncrowned now cid c a) \<longleftrightarrow> \<not> is_agent cid c a \<and> oa_is_ceo a"
  "oa_manager_id (uncrowned now cid c a) = (if reports_to cid c a then None else oa_manager_id a)"
  by (auto simp: uncrowned_def Let_def reports_to_def move_to_def)

lemma removed_agents:
  assumes "remove_ceo bypass now cid p db = (db', res)"
  obtains "od_agents db' = od_agents db"
  | c where "current_ceo cid db = Some c" and "od_agents db' = map (uncrowned now cid (oa_id c)) (od_agents db)"
proof -
  have "od_agents db' = od_agents db \<or> (\<exists>c. current_ceo cid db = Some c \<and>
      od_agents db' = map (uncrowned now cid (oa_id c)) (od_agents db))"
    using assms
    by (auto simp: remove_ceo_def Let_def uncrowned_def update_where_def split: option.splits if_splits)
  with that show ?thesis by blast
qed

lemma remove_inv:
  assumes inv: "org_inv strict (od_agents db)" and s: "remove_ceo bypass now cid p db = (db', res)"
  shows "org_inv strict (od_agents db')"
  using s
proof (cases rule: removed_agents)
  case 1
  with inv show ?thesis by simp
next
  case (2 c)
  let ?as = "od_agents db" and ?f = "uncrowned now cid (oa_id c)"
  note d = org_invD(1) [OF inv] and c = current_ceoD [OF 2(1)]
  have "in_company (map ?f ?as)"
    by (intro rewritten_in_company org_invD(2) [OF inv]) (auto split: if_splits)
  moreover have "one_ceo strict (map ?f ?as)"
  proof (rule rewritten_one_ceo [OF d])
    fix a b assume a: "a \<in> set ?as" "oa_is_ceo (?f a)"
    then have ceo: "oa_is_ceo a" "\<not> is_agent cid (oa_id c) a" by auto
    have other: "oa_company_id a \<noteq> cid"
    proof
      assume "oa_company_id a = cid"
      with beside_the_ceo [OF org_invD(3) [OF inv] d _ _ a(1), of c] c ceo show False
        by (auto simp: is_agent_def)
    qed
    have "\<not> oa_is_ceo (?f b) \<and> (strict \<longrightarrow> \<not> live_root (?f b))"
      if b: "b \<in> set ?as" "oa_company_id b = oa_company_id a" "oa_id b \<noteq> oa_id a"
      using beside_the_ceo [OF org_invD(3) [OF inv] d a(1) ceo(1) b] b(2) other
      by (auto simp: reports_to_def live_root_def terminated_def)
    with ceo_root [OF org_invD(3) [OF inv] a(1) ceo(1)]
    show "oa_manager_id (?f a) = None \<and> (b \<in> set ?as \<longrightarrow> oa_company_id (?f b) = oa_company_id (?f a) \<longrightarrow>
       oa_id b \<noteq> oa_id a \<longrightarrow> \<not> oa_is_ceo (?f b) \<and> (strict \<longrightarrow> \<not> live_root (?f b)))" by simp
  qed simp
  moreover have "reporting (map ?f ?as) \<subseteq> reporting ?as" by (auto simp: reporting_def split: if_splits)
  then have "acyclic (reporting (map ?f ?as))" by (rule acyclic_subset [OF org_invD(4) [OF inv]])
  moreover have "distinct (map oa_id (map ?f ?as))" using d by (simp add: comp_def)
  ultimately show ?thesis unfolding org_inv_def 2(2) by simp
qed

lemma org_inv_step:
  "org_step g bypass strict db db' \<Longrightarrow> org_inv strict (od_agents db) \<Longrightarrow> org_inv strict (od_agents db')"
  by (induction rule: org_step.induct)
    (blast intro: create_agent_inv clone_agent_inv create_inv edit_inv wake_inv pause_inv move_inv
      delete_inv appoint_inv remove_inv rewrite_inv reclaim_inv audit_store_inv)+

lemma org_inv_reachable: "org_reachable g bypass strict db \<Longrightarrow> org_inv strict (od_agents db)"
proof (induction rule: org_reachable.induct)
  case (start db)
  then show ?case by (simp add: org_inv_def in_company_def one_ceo_def reporting_def acyclic_def)
next
  case (more db db')
  show ?case by (rule org_inv_step [OF more.hyps(2) more.IH])
qed

end
