(* ===== verification/Cli_Laws.thy ===== *)
theory Cli_Laws
  imports Cli_Backends
begin

text \<open>
  The properties of command-line employees: what can become an option of a started command,
  that a stored configuration validates again to itself, that every name of the catalogue
  resolves to its backend, and an option the argument check lets through.
\<close>

section \<open>Lemmas\<close>

lemma starts_with_Cons [simp]: "starts_with [c] (d # s) \<longleftrightarrow> c = d"
  by (auto simp: starts_with_def)

lemma starts_with_Nil [simp]: "starts_with (c # p) [] \<longleftrightarrow> False"
  by (simp add: starts_with_def)

lemma safe_prompt_no_option: "\<not> starts_with ''-'' (safe_prompt p)"
  by (cases p) (auto simp: safe_prompt_def)

lemma str_values_strings: "str_values js = Some xs \<Longrightarrow> js = map JStr xs"
  by (induction js arbitrary: xs rule: str_values.induct) auto

lemma str_values_map [simp]: "str_values (map JStr xs) = Some xs"
  by (induction xs) auto

lemma check_args_strings:
  "check_cli_args (Some (JList js)) = None \<longleftrightarrow>
    (\<exists>xs. str_values js = Some xs \<and> (\<forall>x \<in> set xs. flag_of x \<notin> set FORBIDDEN_CLI_FLAGS))"
  by (auto simp: check_cli_args_def find_None_iff split: option.splits)

lemma not_overridden:
  "refuse_work_flag_override b xs = None \<longleftrightarrow> (\<forall>x \<in> set xs. \<not> overrides_owned b x)"
  by (auto simp: refuse_work_flag_override_def find_None_iff)

lemma not_owned:
  assumes "\<not> overrides_owned b x" and "(m, args) \<in> set (cb_work_args b)" and "opt \<in> set args"
    and "starts_with ''-'' opt"
  shows "flag_of x \<noteq> flag_of opt"
    and "starts_with ''--'' (flag_of x) \<Longrightarrow> 2 < length (flag_of x) \<Longrightarrow> \<not> starts_with (flag_of x) (flag_of opt)"
proof -
  from assms(2-4) have "flag_of opt \<in> set (owned_flags b)"
    by (auto simp: owned_flags_def intro!: image_eqI bexI)
  with assms(1) show "flag_of x \<noteq> flag_of opt"
    and "starts_with ''--'' (flag_of x) \<Longrightarrow> 2 < length (flag_of x) \<Longrightarrow> \<not> starts_with (flag_of x) (flag_of opt)"
    by (auto simp: overrides_owned_def list_ex_iff)
qed

lemma work_args_cataloged:
  "work_args_for b mode extra = Inr xs \<Longrightarrow>
    (case mode of None \<Rightarrow> xs = []
     | Some m \<Rightarrow> (if m = ''text'' then ''read_only'' else m, xs) \<in> set (cb_work_args b) \<and>
         (\<forall>x \<in> set extra. \<not> overrides_owned b x))"
  by (auto simp: work_args_for_def work_mode_args_def not_overridden
      split: option.splits sum.splits if_splits dest!: map_of_SomeD)

lemma prompt_at_the_end:
  assumes "build_args b prompt extra model exe mode = Inr argv"
  obtains command work prompt_args where
    "argv = command # cb_safe_args b @ work @
      (if model \<noteq> [] \<and> cb_supports_model b \<and> cb_model_flag b \<noteq> [] then [cb_model_flag b, model] else []) @
      extra @ prompt_args"
    and "work_args_for b mode extra = Inr work"
    and "\<forall>x \<in> set prompt_args. starts_with ''-'' x \<longrightarrow> x = cb_prompt_flag b"
    and "length prompt_args = (if cb_prompt_transport b = ''stdin'' then 0
      else if cb_prompt_transport b = ''flag'' then 2 else 1)"
proof -
  define prompt_args where "prompt_args = (if cb_prompt_transport b = ''stdin'' then []
    else if cb_prompt_transport b = ''flag'' then [cb_prompt_flag b, safe_prompt prompt] else [safe_prompt prompt])"
  have p: "\<forall>x \<in> set prompt_args. starts_with ''-'' x \<longrightarrow> x = cb_prompt_flag b"
    "length prompt_args = (if cb_prompt_transport b = ''stdin'' then 0
      else if cb_prompt_transport b = ''flag'' then 2 else 1)"
    using safe_prompt_no_option [of prompt] by (simp_all add: prompt_args_def)
  from assms obtain command work where
    "argv = command # cb_safe_args b @ work @
      (if model \<noteq> [] \<and> cb_supports_model b \<and> cb_model_flag b \<noteq> [] then [cb_model_flag b, model] else []) @
      extra @ prompt_args" and "work_args_for b mode extra = Inr work"
    by (auto simp: build_args_def prompt_args_def Let_def split: sum.splits)
  with p that show thesis by blast
qed

section \<open>Properties\<close>

text \<open>
  C21: the command line of a started run, argument by argument. After the executable come the
  arguments of the catalogue and of the work mode, the model (as it is) behind the model flag, the
  arguments of the manager bridge, the stored and the sent extra arguments, and then the prompt,
  which contributes no option but the prompt flag, whatever it and the instructions say. No
  stored or sent argument names a forbidden flag; in a work mode none of these and none of the
  bridge's names a flag of any work mode of the backend, or a long abbreviation of one.
\<close>

theorem launch_options_are_accounted_for:
  assumes "launch_args g r = Inr argv" and "get_backend g (cn_backend r) = Some b"
  shows "\<exists>command work prompt_args.
    argv = command # cb_safe_args b @ work @
      (if cn_model r \<noteq> [] \<and> cb_supports_model b \<and> cb_model_flag b \<noteq> []
       then [cb_model_flag b, cn_model r] else []) @
      (cn_bridge_args r @ cn_stored_args r @ cn_payload_args r) @ prompt_args \<and>
    (case cn_work_mode r of None \<Rightarrow> work = []
     | Some m \<Rightarrow> (if m = ''text'' then ''read_only'' else m, work) \<in> set (cb_work_args b) \<and>
         (\<forall>x \<in> set (cn_bridge_args r @ cn_stored_args r @ cn_payload_args r).
          \<forall>(mode, args) \<in> set (cb_work_args b). \<forall>opt \<in> set args. starts_with ''-'' opt \<longrightarrow>
            flag_of x \<noteq> flag_of opt \<and>
            \<not> (starts_with ''--'' (flag_of x) \<and> 2 < length (flag_of x) \<and> starts_with (flag_of x) (flag_of opt)))) \<and>
    (\<forall>x \<in> set (cn_stored_args r @ cn_payload_args r). flag_of x \<notin> set FORBIDDEN_CLI_FLAGS) \<and>
    (\<forall>x \<in> set prompt_args. starts_with ''-'' x \<longrightarrow> x = cb_prompt_flag b) \<and>
    length prompt_args = (if cb_prompt_transport b = ''stdin'' then 0
      else if cb_prompt_transport b = ''flag'' then 2 else 1)"
proof -
  let ?extra = "cn_stored_args r @ cn_payload_args r"
  from assms obtain exe where
    b: "build_args b (full_prompt r) (cn_bridge_args r @ ?extra) (cn_model r) (Some exe) (cn_work_mode r) = Inr argv"
    and c: "check_cli_args (Some (JList (map JStr ?extra))) = None"
    by (auto simp: launch_args_def Let_def simp del: map_append split: option.splits if_splits sum.splits)
  from c have allowed: "\<forall>y \<in> set ?extra. flag_of y \<notin> set FORBIDDEN_CLI_FLAGS"
    using check_args_strings [of "map JStr ?extra"] by (simp del: map_append)
  from prompt_at_the_end [OF b] obtain command work prompt_args where
    argv: "argv = command # cb_safe_args b @ work @
      (if cn_model r \<noteq> [] \<and> cb_supports_model b \<and> cb_model_flag b \<noteq> []
       then [cb_model_flag b, cn_model r] else []) @ (cn_bridge_args r @ ?extra) @ prompt_args"
    and w: "work_args_for b (cn_work_mode r) (cn_bridge_args r @ ?extra) = Inr work"
    and p: "\<forall>x \<in> set prompt_args. starts_with ''-'' x \<longrightarrow> x = cb_prompt_flag b"
      "length prompt_args = (if cb_prompt_transport b = ''stdin'' then 0
        else if cb_prompt_transport b = ''flag'' then 2 else 1)" by blast
  have "case cn_work_mode r of None \<Rightarrow> work = []
     | Some m \<Rightarrow> (if m = ''text'' then ''read_only'' else m, work) \<in> set (cb_work_args b) \<and>
         (\<forall>x \<in> set (cn_bridge_args r @ cn_stored_args r @ cn_payload_args r).
          \<forall>(mode, args) \<in> set (cb_work_args b). \<forall>opt \<in> set args. starts_with ''-'' opt \<longrightarrow>
            flag_of x \<noteq> flag_of opt \<and>
            \<not> (starts_with ''--'' (flag_of x) \<and> 2 < length (flag_of x) \<and> starts_with (flag_of x) (flag_of opt)))"
    using work_args_cataloged [OF w] not_owned [of b] by (cases "cn_work_mode r") fastforce+
  with argv allowed p show ?thesis by blast
qed

section \<open>A configuration validates to itself\<close>

definition registry_ok :: "cli_registry \<Rightarrow> bool" where
  "registry_ok g \<longleftrightarrow> (\<forall>i b. map_of (rg_backends g) i = Some b \<longrightarrow>
     cb_id b = i \<and> py_strip i \<noteq> [] \<and> lower_text (py_strip i) = i)"

lemma get_backend_again:
  assumes "registry_ok g" and "get_backend g name = Some b"
  shows "get_backend g (Some (cb_id b)) = Some b" and "py_strip (cb_id b) \<noteq> []"
proof -
  obtain i where i: "map_of (rg_backends g) i = Some b"
    using assms(2) by (auto simp: get_backend_def bind_eq_Some_conv)
  with assms(1) have ok: "cb_id b = i" "py_strip i \<noteq> []" "lower_text (py_strip i) = i"
    by (auto simp: registry_ok_def)
  then have "i \<noteq> []" by (auto simp: py_strip_def)
  then show "get_backend g (Some (cb_id b)) = Some b" and "py_strip (cb_id b) \<noteq> []"
    using i ok by (auto simp: get_backend_def resolve_backend_id_def split: list.splits)
qed

lemma config_args_shape:
  assumes "config_args config = Inr args"
  shows "check_cli_args (Some (JList (map JStr args))) = None" and "length args \<le> 20"
  using assms
  by (auto simp: config_args_def Let_def check_args_strings
      split: option.splits if_splits json.splits dest: str_values_strings)

lemma config_args_ok:
  assumes "config_args config = Inr args"
  shows "config_args (canonical_config b i args) = Inr args"
  using config_args_shape [OF assms]
  by (cases args) (simp_all add: config_args_def canonical_config_def Let_def falsy_def)

lemma canonical_options:
  "option_problem b config = None \<Longrightarrow>
    option_problem b (canonical_config b (flag_value config ''interactive'') args) = None"
  by (auto simp: option_problem_def canonical_config_def flag_value_def falsy_def Let_def
      split: if_splits option.splits)

lemma canonical_interactive: "flag_value (canonical_config b i args) ''interactive'' = i"
  by (simp add: flag_value_def canonical_config_def falsy_def)

lemma canonical_keys: "map fst (canonical_config b i args) = CLI_CONFIG_KEYS"
  by (simp add: canonical_config_def CLI_CONFIG_KEYS_def)

lemma canonical_backend:
  "registry_ok g \<Longrightarrow> config_backend g config = Inr b \<Longrightarrow>
    config_backend g (canonical_config b i args) = Inr b"
  by (auto simp: config_backend_def canonical_config_def get_backend_again
      split: option.splits json.splits if_splits)

text \<open>
  C24: the configuration the validator stores validates again, with the same model, to itself
  and to the same readiness, in any registry whose ids are lower-case words.
\<close>

theorem stored_config_revalidates:
  assumes "registry_ok g" and "validate_employee_cli_config g adapter config model allow = Inr (stored, ready)"
  shows "validate_employee_cli_config g adapter (Some stored) model allow = Inr (stored, ready)"
proof -
  let ?config = "dict_or_empty config"
  obtain b args where b: "config_backend g ?config = Inr b" and args: "config_args ?config = Inr args"
    and opt: "option_problem b ?config = None"
    and stored: "stored = canonical_config b (flag_value ?config ''interactive'') args"
    using assms(2)
    by (auto simp: validate_employee_cli_config_def Let_def split: if_splits sum.splits option.splits)
  have "dict_or_empty (Some stored) = stored" by (simp add: dict_or_empty_def)
  then show ?thesis
    using assms(2) b args opt canonical_backend [OF assms(1) b] config_args_ok [OF args]
      canonical_options [OF opt]
    by (simp add: validate_employee_cli_config_def Let_def stored canonical_keys canonical_interactive
        split: if_splits option.splits)
qed

section \<open>The catalogue\<close>

definition names_of :: "cli_backend \<Rightarrow> string list" where
  "names_of b = cb_id b # cb_aliases b"

text \<open>One evaluation of the whole registry: its names, and that its entries are keyed by id.\<close>

definition names_resolve :: "cli_registry \<Rightarrow> cli_backend list \<Rightarrow> bool" where
  "names_resolve g bs \<longleftrightarrow> list_all (\<lambda>b. list_all (\<lambda>n. n \<noteq> [] \<and> lower_text (py_strip n) = n \<and>
     map_option cb_id (get_backend g (Some n)) = Some (cb_id b)) (names_of b)) bs \<and>
   list_all (\<lambda>(i, b). cb_id b = i \<and> py_strip i \<noteq> [] \<and> lower_text (py_strip i) = i) (rg_backends g)"

lemma new_registry_names: "names_resolve new_registry DEFAULT_BACKENDS"
  by code_simp

lemma get_backend_key:
  "n \<noteq> [] \<Longrightarrow> get_backend g (Some n) =
    (let key = lower_text (py_strip n)
     in if map_of (rg_backends g) key \<noteq> None then map_of (rg_backends g) key
        else Option.bind (map_of (rg_aliases g) key) (map_of (rg_backends g)))"
  by (auto simp: get_backend_def resolve_backend_id_def Let_def split: list.splits)

lemma registry_ok_new: "registry_ok new_registry"
  using new_registry_names by (auto simp: names_resolve_def registry_ok_def list_all_iff dest!: map_of_SomeD)

text \<open>
  In the server's registry every id and every alias of the catalogue, in any case and with
  any surrounding space, names its own backend and no other.
\<close>

theorem catalogue_names_resolve:
  assumes "b \<in> set DEFAULT_BACKENDS" and "lower_text (py_strip n) \<in> set (names_of b)"
  shows "map_option cb_id (get_backend new_registry (Some n)) = Some (cb_id b)"
proof -
  let ?k = "lower_text (py_strip n)"
  have k: "?k \<noteq> []" "lower_text (py_strip ?k) = ?k"
    "map_option cb_id (get_backend new_registry (Some ?k)) = Some (cb_id b)"
    using new_registry_names assms by (auto simp: names_resolve_def list_all_iff)
  then have "n \<noteq> []" by (auto simp: py_strip_def lower_text_def)
  with k show ?thesis by (simp add: get_backend_key Let_def)
qed

lemma catalogue_names_resolve_witness:
  "map_option cb_id (get_backend new_registry (Some ''  Claude-Code '')) = Some ''claude''"
proof -
  have "lower_text (py_strip ''  Claude-Code '') = ''claude-code''" by code_simp
  then have "lower_text (py_strip ''  Claude-Code '') \<in> set (names_of backend_claude)"
    by (simp add: names_of_def backend_claude_def backend_defaults_def)
  moreover have "backend_claude \<in> set DEFAULT_BACKENDS" by (simp add: DEFAULT_BACKENDS_def)
  ultimately show ?thesis
    using catalogue_names_resolve [of backend_claude] by (simp add: backend_claude_def backend_defaults_def)
qed

section \<open>A concrete server\<close>

text \<open>Codex and Claude Code are installed.\<close>

definition demo_which :: "string \<Rightarrow> string option" where
  "demo_which c = (if c = ''codex'' \<or> c = ''claude'' then Some (''/bin/'' @ c) else None)"

definition demo_backends :: cli_registry where
  "demo_backends = refresh demo_which 0 False (fold register_backend [backend_claude, backend_codex] empty_registry)"

definition demo_cli_run :: "string list \<Rightarrow> cli_run" where
  "demo_cli_run args = \<lparr>cn_backend = Some ''codex'', cn_model = [], cn_stored_args = args,
     cn_payload_args = [], cn_bridge_args = [], cn_prompt = ''-c hi'', cn_inline_system = None,
     cn_workspace = Some ''/w'', cn_work_mode = None\<rparr>"

definition demo_work_run :: cli_run where
  "demo_work_run = (demo_cli_run [''--verbose''])\<lparr>cn_backend := Some ''claude'', cn_work_mode := Some ''text'',
     cn_model := ''opus'', cn_prompt := ''--mode x''\<rparr>"

lemma demo_launch:
  "launch_args demo_backends demo_work_run =
    Inr [''/bin/claude'', ''-p'', ''--permission-mode'', ''plan'', ''--model'', ''opus'', ''--verbose'', '' --mode x'']"
  "get_backend demo_backends (cn_backend demo_work_run) = Some backend_claude"
  by code_simp+

lemma launch_options_are_accounted_for_witness:
  "\<exists>command work prompt_args.
    [''/bin/claude'', ''-p'', ''--permission-mode'', ''plan'', ''--model'', ''opus'', ''--verbose'', '' --mode x''] =
      command # [''-p''] @ work @ [''--model'', ''opus''] @ [''--verbose''] @ prompt_args \<and>
    (''read_only'', work) \<in> set (cb_work_args backend_claude)"
proof -
  have "cb_safe_args backend_claude = [''-p'']" "cb_model_flag backend_claude = ''--model''"
    "cb_supports_model backend_claude" "cn_model demo_work_run = ''opus''"
    "cn_bridge_args demo_work_run @ cn_stored_args demo_work_run @ cn_payload_args demo_work_run = [''--verbose'']"
    "cn_work_mode demo_work_run = Some ''text''" by code_simp+
  with launch_options_are_accounted_for [OF demo_launch] show ?thesis by fastforce
qed

definition demo_cli_config :: "string \<Rightarrow> dict" where
  "demo_cli_config a = [(''backend'', JStr '' CODEX''), (''extra_args'', JList [JStr a])]"

lemma demo_validated:
  "validate_employee_cli_config demo_backends ''cli'' (Some (demo_cli_config ''-q'')) None False =
    Inr (canonical_config backend_codex False [''-q''], True)"
  by code_simp

lemma demo_registry_ok: "registry_ok demo_backends"
proof -
  have "names_resolve demo_backends [backend_claude, backend_codex]" by code_simp
  then show ?thesis
    by (auto simp: names_resolve_def registry_ok_def list_all_iff dest!: map_of_SomeD)
qed

lemma stored_config_revalidates_witness:
  "validate_employee_cli_config demo_backends ''cli'' (Some (canonical_config backend_codex False [''-q''])) None False =
    Inr (canonical_config backend_codex False [''-q''], True)"
  by (rule stored_config_revalidates [OF demo_registry_ok demo_validated])

text \<open>
  The check of extra arguments compares whole flags, so a short flag with its value attached
  passes: \<open>-s danger-full-access\<close> is refused, but \<open>-sdanger-full-access\<close> is stored for a Codex
  employee and stands on the command line of every run.
\<close>

theorem attached_short_flag_passes:
  "check_cli_args (Some (JList [JStr ''-s'', JStr ''danger-full-access''])) \<noteq> None \<and>
   validate_employee_cli_config demo_backends ''cli'' (Some (demo_cli_config ''-sdanger-full-access'')) None False =
     Inr (canonical_config backend_codex False [''-sdanger-full-access''], True) \<and>
   launch_args demo_backends (demo_cli_run [''-sdanger-full-access'']) =
     Inr [''/bin/codex'', ''exec'', ''--skip-git-repo-check'', ''-sdanger-full-access'']"
proof (intro conjI)
  show "check_cli_args (Some (JList [JStr ''-s'', JStr ''danger-full-access''])) \<noteq> None" by code_simp
  show "validate_employee_cli_config demo_backends ''cli'' (Some (demo_cli_config ''-sdanger-full-access'')) None False =
     Inr (canonical_config backend_codex False [''-sdanger-full-access''], True)" by code_simp
  show "launch_args demo_backends (demo_cli_run [''-sdanger-full-access'']) =
     Inr [''/bin/codex'', ''exec'', ''--skip-git-repo-check'', ''-sdanger-full-access'']" by code_simp
qed

section \<open>The environment\<close>

text \<open>A variable of the server reaches a run only under an allowed name or one that looks harmless.\<close>

lemma run_env_secrets:
  assumes "map_of (run_env b allow bridge env) k = Some v" and "k \<notin> set (map fst bridge)"
  shows "(k, v) \<in> set env \<and> k \<notin> set (cb_delete_env b) \<and>
    (upper_text k \<in> set (map upper_text (cb_allow_env b @ allow)) \<or> \<not> secret_name k)"
proof -
  have "map_of bridge k = None" using assms(2) by (simp add: map_of_eq_None_iff)
  then have "map_of (filter_env (filter (\<lambda>(k, v). k \<notin> set (cb_delete_env b)) env) (cb_allow_env b @ allow)) k = Some v"
    using assms(1) by (simp add: run_env_def merge_conv map_add_def)
  then show ?thesis by (auto simp: filter_env_def dest!: map_of_SomeD)
qed

end
