(* ===== verification/Organization_Checks.thy ===== *)
theory Organization_Checks
  imports Organization_Laws Cli_Laws
begin

text \<open>
  What the reporting lines and the agent routes promise, over every reachable state of
  Organization_Laws, and two edits that break a promise of the comments.
\<close>

section \<open>Reporting lines\<close>

lemma finite_reporting: "finite (reporting as)"
proof -
  have "reporting as \<subseteq> (\<lambda>a. (oa_id a, the (oa_manager_id a))) ` set as"
    by (force simp: reporting_def)
  then show ?thesis by (rule finite_subset) simp
qed

lemma climbs_to_root:
  assumes inv: "org_inv strict as" and a: "a \<in> set as"
  shows "\<exists>r \<in> set as. oa_manager_id r = None \<and> oa_company_id r = oa_company_id a \<and>
    (oa_id a, oa_id r) \<in> (reporting as)\<^sup>*"
proof -
  have wf: "wf ((reporting as)\<inverse>)"
    by (rule finite_acyclic_wf_converse [OF finite_reporting org_invD(4) [OF inv]])
  have "\<forall>a \<in> set as. oa_id a = i \<longrightarrow> (\<exists>r \<in> set as. oa_manager_id r = None \<and>
      oa_company_id r = oa_company_id a \<and> (i, oa_id r) \<in> (reporting as)\<^sup>*)" for i
  proof (induction i rule: wf_induct_rule [OF wf])
    case (1 i)
    show ?case
    proof (intro ballI impI)
      fix a assume a: "a \<in> set as" "oa_id a = i"
      show "\<exists>r \<in> set as. oa_manager_id r = None \<and> oa_company_id r = oa_company_id a \<and>
        (i, oa_id r) \<in> (reporting as)\<^sup>*"
      proof (cases "oa_manager_id a")
        case None
        with a show ?thesis by blast
      next
        case (Some m)
        with org_invD(2) [OF inv] a(1) obtain b where
          b: "b \<in> set as" "oa_id b = m" "oa_company_id b = oa_company_id a"
          unfolding in_company_def by blast
        from a Some have e: "(i, m) \<in> reporting as" by (auto simp: reporting_def)
        then have "(m, i) \<in> (reporting as)\<inverse>" by simp
        from 1 [OF this] b obtain r where "r \<in> set as" "oa_manager_id r = None"
          "oa_company_id r = oa_company_id a" "(m, oa_id r) \<in> (reporting as)\<^sup>*" by metis
        with e show ?thesis by (meson converse_rtrancl_into_rtrancl)
      qed
    qed
  qed
  with a show ?thesis by blast
qed

text \<open>
  C14: in every reachable state no agent reports to itself over any number of lines, its manager is
  an agent of its own company, and the lines above it end at a root of that company.
\<close>

theorem reporting_lines_are_a_forest:
  assumes "org_reachable g bypass strict db" and "a \<in> set (od_agents db)"
  shows "(oa_id a, oa_id a) \<notin> (reporting (od_agents db))\<^sup>+ \<and>
    (\<exists>r \<in> set (od_agents db). oa_manager_id r = None \<and> oa_company_id r = oa_company_id a \<and>
       (oa_id a, oa_id r) \<in> (reporting (od_agents db))\<^sup>*) \<and>
    (oa_manager_id a \<noteq> None \<longrightarrow>
      get_org_agent (oa_company_id a) (the (oa_manager_id a)) db \<noteq> None)"
proof (intro conjI impI)
  note inv = org_inv_reachable [OF assms(1)]
  show "(oa_id a, oa_id a) \<notin> (reporting (od_agents db))\<^sup>+"
    using org_invD(4) [OF inv] by (auto simp: acyclic_def)
  show "\<exists>r \<in> set (od_agents db). oa_manager_id r = None \<and> oa_company_id r = oa_company_id a \<and>
       (oa_id a, oa_id r) \<in> (reporting (od_agents db))\<^sup>*"
    by (rule climbs_to_root [OF inv assms(2)])
  assume "oa_manager_id a \<noteq> None"
  then obtain m where m: "oa_manager_id a = Some m" by blast
  with org_invD(2) [OF inv] assms(2) obtain b where
    "b \<in> set (od_agents db)" "oa_id b = m" "oa_company_id b = oa_company_id a"
    unfolding in_company_def by blast
  with m show "get_org_agent (oa_company_id a) (the (oa_manager_id a)) db \<noteq> None"
    by (auto simp: get_org_agent_def find_None_iff)
qed

text \<open>
  C15: in every reachable state a CEO reports to no one and is the only CEO of its company, and as
  long as nothing (an edit, another service that rewrites the row, the watchdog) gave a terminated
  agent another status no other live agent of the company is a root.
\<close>

theorem one_ceo_on_top:
  assumes "org_reachable g bypass strict db"
    and "a \<in> set (od_agents db)" and "oa_is_ceo a"
    and "b \<in> set (od_agents db)" and "oa_company_id b = oa_company_id a"
  shows "oa_manager_id a = None \<and> (oa_is_ceo b \<longrightarrow> b = a) \<and> (strict \<and> live_root b \<longrightarrow> b = a)"
  using org_invD(3) [OF org_inv_reachable [OF assms(1)]] assms(2-5) unfolding one_ceo_def by blast

section \<open>The walk refuses exactly the cycles\<close>

lemma manager_in_line: "manager_in as cid c = Some m \<Longrightarrow> (c, m) \<in> reporting as"
  by (auto simp: manager_in_def bind_eq_Some_conv reporting_def dest!: find_SomeD)

lemma walk_stepD:
  assumes "walk_up as cid (Some t) (Some c) seen" and "c \<noteq> t"
  obtains m where "manager_in as cid c = Some m" and "c \<notin> set seen"
    and "walk_up as cid (Some t) (Some m) (c # seen)"
proof -
  from assms have s: "c \<notin> set seen" and w: "walk_up as cid (Some t) (manager_in as cid c) (c # seen)"
    by (simp_all add: walk_up.simps [of as cid "Some t" "Some c"] split: if_splits)
  from w obtain m where "manager_in as cid c = Some m"
    by (cases "manager_in as cid c") (simp_all add: walk_up.simps)
  with s w that show thesis by simp
qed

lemma walk_sound: "walk_up as cid tgt cursor seen \<Longrightarrow> tgt = Some t \<Longrightarrow> cursor = Some c \<Longrightarrow> (c, t) \<in> (reporting as)\<^sup>*"
proof (induction as cid tgt cursor seen arbitrary: c rule: walk_up.induct)
  case (1 as cid tgt cursor seen)
  show ?case
  proof (cases "c = t")
    case True
    then show ?thesis by simp
  next
    case False
    from 1(2) have "walk_up as cid (Some t) (Some c) seen" unfolding 1(3,4) .
    then obtain m where m: "manager_in as cid c = Some m" "c \<notin> set seen"
      "walk_up as cid (Some t) (Some m) (c # seen)"
      using False by (rule walk_stepD)
    from 1(1) [OF 1(4) m(2), of m] m(1,3) 1(3) False have "(m, t) \<in> (reporting as)\<^sup>*" by simp
    with manager_in_line [OF m(1)] show ?thesis by (rule converse_rtrancl_into_rtrancl)
  qed
qed

text \<open>
  C16: for an agent that is not the CEO (the CEO is refused any manager before the walk), a manager
  of its company is refused as a cycle exactly when that manager already reports to the agent,
  directly or over other agents, and is otherwise kept.
\<close>

theorem manager_refused_iff_cycle:
  assumes "org_reachable g bypass strict db"
    and "get_org_agent cid m db \<noteq> None" and "\<not> designated_ceo cid (Some aid) db"
  shows "resolve_manager cid (Some aid) (Some m) db =
    (if (m, aid) \<in> (reporting (od_agents db))\<^sup>* then Inl (org_error 409 ''MANAGER_CYCLE'') else Inr (Some m))"
proof -
  note inv = org_inv_reachable [OF assms(1)]
  have nc: "\<not> (current_ceo cid db \<noteq> None \<and> map_option oa_id (current_ceo cid db) = Some aid)"
    using assms(3) by (auto simp: designated_ceo_def list_ex_iff dest: current_ceoD)
  obtain b where b: "b \<in> set (od_agents db)" "oa_id b = m" "oa_company_id b = cid"
    using assms(2) get_org_agentD by blast
  have "walk_up (od_agents db) cid (Some aid) (Some m) [] \<longleftrightarrow> (m, aid) \<in> (reporting (od_agents db))\<^sup>*"
    using walk_sound [OF _ refl refl] walk_finds [OF org_invD(4,1,2) [OF inv], of m aid "[]" cid] b by auto
  with assms(2) show ?thesis
    unfolding resolve_manager_def Let_def if_not_P [OF nc] by (cases "m = aid") auto
qed

section \<open>Edits\<close>

text \<open>The authority columns: an edit by anyone but an administrator leaves them as they are.\<close>

definition same_authority :: "org_agent \<Rightarrow> org_agent \<Rightarrow> bool" where
  "same_authority a b \<longleftrightarrow> oa_role b = oa_role a \<and> oa_status b = oa_status a \<and>
    oa_adapter_type b = oa_adapter_type a \<and> oa_adapter_config b = oa_adapter_config a \<and>
    oa_model b = oa_model a \<and> oa_capabilities b = oa_capabilities a \<and>
    oa_budget_monthly_cents b = oa_budget_monthly_cents a \<and> oa_autonomy_policy b = oa_autonomy_policy a"

lemma no_authority_keys:
  assumes "\<not> list_ex (\<lambda>k. k \<in> set AUTHORITY_FIELDS) (update_keys u)"
  shows "up_role u = None" "up_status u = None" "up_adapter_type u = None" "up_model u = None"
    "up_capabilities u = None" "up_budget_monthly_cents u = None" "up_autonomy_policy u = None"
  using assms by (auto simp: update_keys_def AUTHORITY_FIELDS_def split: if_splits)

lemma list_all2_update_where:
  "list_all2 (\<lambda>a b. b = a \<or> (P a \<and> Q a b)) as (update_where P f as)" if "\<And>a. Q a (f a)"
  using that unfolding update_where_def by (induction as) auto

text \<open>
  C22: an edit that changes the agents is made by a person who may write agents, touches the rows of
  that one agent only, never moves it between companies, managers or in and out of the CEO's
  office, and changes what it may do or spend only for an administrator. When the audit log takes
  rows the edit leaves exactly one, which names the editor and the fields; when it does not the
  edit still stands, with no row.
\<close>

theorem edits_need_their_authority:
  assumes "apply_agent_update g bypass now p cid aid u db = (db', res)"
    and "od_agents db' \<noteq> od_agents db"
  shows "is_human bypass p \<and> has_permission p ''write'' ''agent'' (Some ''*'') \<and>
    list_all2 (\<lambda>a b. b = a \<or> (is_agent cid aid a \<and> same_place a b \<and> (p_role p \<noteq> ''admin'' \<longrightarrow> same_authority a b)))
      (od_agents db) (od_agents db') \<and>
    od_audit db' = od_audit db @ (if od_audit_up db then
      [\<lparr>au_company_id = cid, au_action = ''agent.updated'', au_actor_type = actor_type p,
        au_actor_id = Some (actor_id p), au_resource_type = ''agent'', au_resource_id = aid,
        au_details = [(''fields'', JList (map JStr (sort (update_keys u))))]\<rparr>] else [])"
proof -
  from assms obtain a u' c where gate: "write_agent_gate p = None" "enforce_update_policy bypass p u = None"
    and a: "guard_cli_update g a u = Inr (u', c)"
    and db': "db' = agent_audit cid ''agent.updated'' p aid [(''fields'', JList (map JStr (sort (update_keys u))))]
      (db\<lparr>od_agents := update_where (is_agent cid aid) (write_update now u' c) (od_agents db)\<rparr>)"
    by (auto simp: apply_agent_update_def split: option.splits if_splits sum.splits prod.splits)
  have q: "same_place x (write_update now u' c x) \<and>
      (p_role p \<noteq> ''admin'' \<longrightarrow> same_authority x (write_update now u' c x))" for x
  proof (intro conjI impI)
    show "same_place x (write_update now u' c x)" by (simp add: same_place_def)
    assume "p_role p \<noteq> ''admin''"
    with gate(2) have k: "\<not> list_ex (\<lambda>k. k \<in> set AUTHORITY_FIELDS) (update_keys u)"
      by (auto simp: enforce_update_policy_def studio_can_write_def split: if_splits)
    note none = no_authority_keys [OF k]
    with a have "u' = u" "c = None" by (auto simp: guard_cli_update_def)
    with none show "same_authority x (write_update now u' c x)"
      by (simp add: same_authority_def write_update_def required_or_def sent_or_def)
  qed
  have "list_all2 (\<lambda>a b. b = a \<or> (is_agent cid aid a \<and> (same_place a b \<and> (p_role p \<noteq> ''admin'' \<longrightarrow> same_authority a b))))
      (od_agents db) (update_where (is_agent cid aid) (write_update now u' c) (od_agents db))"
    by (rule list_all2_update_where) (rule q)
  with gate db' show ?thesis
    by (simp add: agent_audit_def best_effort_audit_def write_agent_gate_def enforce_update_policy_def
        split: if_splits)
qed

section \<open>Command-line employees\<close>

text \<open>A backend that runs, on this host.\<close>

definition backend_ready :: "cli_registry \<Rightarrow> dict \<Rightarrow> bool" where
  "backend_ready g config \<longleftrightarrow> (case config_backend g config of
     Inl e \<Rightarrow> False | Inr b \<Rightarrow> cb_execution_supported b \<and> is_available g (cb_id b))"

definition routable_ok :: "cli_registry \<Rightarrow> org_agent \<Rightarrow> bool" where
  "routable_ok g a \<longleftrightarrow> oa_adapter_type a = ''cli'' \<longrightarrow> oa_status a = CONFIGURATION_REQUIRED \<or>
     backend_ready g (dict_or_empty (oa_adapter_config a))"

lemma validated_ready:
  assumes "registry_ok g" and "validate_employee_cli_config g adapter config model allow = Inr (c, ready)"
  shows "backend_ready g c = ready" and "\<not> allow \<Longrightarrow> ready"
  using assms
  by (auto simp: validate_employee_cli_config_def Let_def backend_ready_def canonical_backend
      split: if_splits sum.splits option.splits)

lemma normalized_ready:
  assumes "registry_ok g" and "normalize_cli_employee g adapter config model allow = Inr (c, override)"
  shows "backend_ready g c \<longleftrightarrow> override = None" and "override \<noteq> None \<Longrightarrow> override = Some CONFIGURATION_REQUIRED"
    and "\<not> allow \<Longrightarrow> override = None"
  using assms validated_ready [OF assms(1)]
  by (auto simp: normalize_cli_employee_def split: sum.splits prod.splits if_splits)

lemma guarded_routable:
  assumes "registry_ok g" and e: "guard_cli_update g a u = Inr (u', config)"
    and t: "up_adapter_type u \<noteq> None \<or> up_model u \<noteq> None \<or> up_status u \<noteq> None"
  shows "routable_ok g (write_update now u' config a)"
proof (cases "required_or (up_adapter_type u) (oa_adapter_type a) = ''cli''")
  case False
  with e have "u' = u" by (auto simp: guard_cli_update_def Let_def split: if_splits)
  with False show ?thesis by (simp add: routable_ok_def write_update_def)
next
  case True
  let ?new = "required_or (up_status u) (oa_status a)"
  from True e t obtain c override where
    n: "normalize_cli_employee g ''cli'' (Some (stored_base a)) (sent_or (up_model u) (oa_model a))
          (?new = CONFIGURATION_REQUIRED) = Inr (c, override)"
    and u': "u' = (if override = None \<and> ?new = CONFIGURATION_REQUIRED \<and> up_status u = None
      then u\<lparr>up_status := Some (Some ''idle'')\<rparr> else u)" and c: "config = Some c"
    by (auto simp: guard_cli_update_def Let_def split: if_splits sum.splits prod.splits)
  note r = normalized_ready [OF assms(1) n]
  show ?thesis
  proof (cases override)
    case None
    with r(1) c show ?thesis by (simp add: routable_ok_def write_update_def dict_or_empty_def)
  next
    case (Some s)
    with r(3) u' have "?new = CONFIGURATION_REQUIRED" "u' = u" by auto
    then show ?thesis by (simp add: routable_ok_def)
  qed
qed

lemma created_routable:
  assumes "registry_ok g" and "create_agent g bypass new_id now p cid b db = (db', Inr a)"
  shows "routable_ok g a"
proof (cases "ab_adapter_type b = ''cli''")
  case False
  with assms(2) show ?thesis
    by (auto simp: create_agent_def Let_def insert_agent_def routable_ok_def new_agent_def
        split: option.splits if_splits sum.splits)
next
  case True
  with assms(2) obtain c override where
    n: "normalize_cli_employee g ''cli'' (ab_adapter_config b) (ab_model b) (ab_allow_unavailable_backend b) = Inr (c, override)"
    and a: "\<exists>m. a = new_agent new_id cid now b (Some c) m override"
    by (auto simp: create_agent_def Let_def insert_agent_def split: option.splits if_splits sum.splits prod.splits)
  with normalized_ready [OF assms(1) n] show ?thesis
    by (cases override) (auto simp: routable_ok_def new_agent_def dict_or_empty_def)
qed

lemma get_updated:
  assumes "\<And>a. same_place a (f a)" and "od_agents db' = update_where (is_agent cid aid) f (od_agents db)"
    and "get_org_agent cid aid db = Some a"
  shows "get_org_agent cid aid db' = Some (f a)"
proof -
  let ?f = "\<lambda>r. if is_agent cid aid r then f r else r"
  have "oa_id (?f x) = oa_id x \<and> oa_company_id (?f x) = oa_company_id x" for x
    using assms(1) [of x] by (simp add: same_place_def)
  with assms(2,3) get_org_agentD [OF assms(3)] show ?thesis
    by (auto simp: get_org_agent_def update_where_def find_map is_agent_def)
qed

lemma edited_routable:
  assumes "registry_ok g" and old: "get_org_agent cid aid db = Some old" "routable_ok g old \<or> touched u"
    and e: "apply_agent_update g bypass now p cid aid u db = (db', Inr ())"
    and touched: "touched u \<Longrightarrow> up_adapter_type u \<noteq> None \<or> up_model u \<noteq> None \<or> up_status u \<noteq> None"
  shows "\<exists>a. get_org_agent cid aid db' = Some a \<and> routable_ok g a"
proof -
  from e old(1) obtain u' c where c: "guard_cli_update g old u = Inr (u', c)"
    and d: "od_agents db' = update_where (is_agent cid aid) (write_update now u' c) (od_agents db)"
    by (auto simp: apply_agent_update_def split: option.splits if_splits sum.splits prod.splits)
  have new: "get_org_agent cid aid db' = Some (write_update now u' c old)"
    by (rule get_updated [OF _ d old(1)]) (simp add: same_place_def)
  show ?thesis
  proof (cases "up_adapter_type u \<noteq> None \<or> up_model u \<noteq> None \<or> up_status u \<noteq> None")
    case True
    with guarded_routable [OF assms(1) c] new show ?thesis by blast
  next
    case False
    with c touched old(2) have "u' = u" "c = None" "routable_ok g old"
      by (auto simp: guard_cli_update_def)
    with False new show ?thesis by (auto simp: routable_ok_def write_update_def required_or_def)
  qed
qed

lemma woken_routable:
  assumes "get_org_agent cid aid db = Some old" and "routable_ok g old"
    and w: "wake_agent now p cid aid rs db = (db', Inr ())"
  shows "\<exists>a. get_org_agent cid aid db' = Some a \<and> routable_ok g a"
proof -
  let ?f = "\<lambda>a. a\<lparr>oa_status := ''ready'', oa_updated_at := now\<rparr>"
  from w assms(1) have s: "oa_status old \<in> {''idle'', ''paused''}"
    and d: "od_agents db' = update_where (is_agent cid aid) ?f (od_agents db)"
    by (auto simp: wake_agent_def split: option.splits if_splits)
  have "get_org_agent cid aid db' = Some (?f old)"
    by (rule get_updated [OF _ d assms(1)]) (simp add: same_place_def)
  with s assms(2) show ?thesis by (auto simp: routable_ok_def CONFIGURATION_REQUIRED_def)
qed

text \<open>
  C23: what the create route, the edit route and the wake route do about the backend of a
  command-line employee, for a fixed registry of this host. A new employee, and one whose adapter,
  model or status an edit touched, has a backend that runs here or is marked as requiring
  configuration. Any other edit and a wake keep that of an employee that had it. Copying and
  pausing an employee make no such check, and lose it: see
  \<open>clone_of_unusable_employee_is_idle\<close> and \<open>pause_and_wake_skip_the_check\<close>.
\<close>

theorem routable_employees_have_backends:
  assumes "registry_ok g"
  shows "(create_agent g bypass new_id now p cid b db = (db', Inr a) \<longrightarrow> routable_ok g a) \<and>
    (get_org_agent cid aid db = Some old \<and>
     (routable_ok g old \<or> up_adapter_type u \<noteq> None \<or> up_model u \<noteq> None \<or> up_status u \<noteq> None) \<and>
     apply_agent_update g bypass now p cid aid u db = (db'', Inr ()) \<longrightarrow>
     (\<exists>a'. get_org_agent cid aid db'' = Some a' \<and> routable_ok g a')) \<and>
    (get_org_agent cid aid db = Some old \<and> routable_ok g old \<and>
     wake_agent now p cid aid rs db = (db3, Inr ()) \<longrightarrow>
     (\<exists>a'. get_org_agent cid aid db3 = Some a' \<and> routable_ok g a'))"
proof (intro conjI impI)
  assume "create_agent g bypass new_id now p cid b db = (db', Inr a)"
  then show "routable_ok g a" by (rule created_routable [OF assms])
next
  assume "get_org_agent cid aid db = Some old \<and>
     (routable_ok g old \<or> up_adapter_type u \<noteq> None \<or> up_model u \<noteq> None \<or> up_status u \<noteq> None) \<and>
     apply_agent_update g bypass now p cid aid u db = (db'', Inr ())"
  then show "\<exists>a'. get_org_agent cid aid db'' = Some a' \<and> routable_ok g a'"
    using edited_routable [OF assms, of cid aid db old
        "\<lambda>u. up_adapter_type u \<noteq> None \<or> up_model u \<noteq> None \<or> up_status u \<noteq> None" u] by blast
next
  assume "get_org_agent cid aid db = Some old \<and> routable_ok g old \<and>
     wake_agent now p cid aid rs db = (db3, Inr ())"
  then show "\<exists>a'. get_org_agent cid aid db3 = Some a' \<and> routable_ok g a'"
    using woken_routable by blast
qed

section \<open>A company, step by step\<close>

definition demo_owner :: principal where
  "demo_owner = \<lparr>p_kind = User, p_company_id = 1, p_role = ''admin'', p_user_id = Some 9, p_email = ''o'',
     p_session_id = None, p_api_key_id = None, p_run_id = None, p_agent_id = None, p_label = []\<rparr>"

definition demo_body :: "string \<Rightarrow> agent_body" where
  "demo_body n = \<lparr>ab_name = n, ab_role = ''engineer'', ab_title = None, ab_department_id = None, ab_team_id = None, ab_adapter_type = ''langchain'',
     ab_adapter_config = None, ab_model = None, ab_capabilities = None, ab_responsibilities = None,
     ab_objectives = None, ab_soul_description = None, ab_budget_monthly_cents = 0, ab_autonomy_policy = None,
     ab_allow_unavailable_backend = True\<rparr>"

definition cli_body :: agent_body where
  "cli_body = (demo_body ''c'')\<lparr>ab_adapter_type := ''cli'', ab_adapter_config := Some [(''backend'', JStr ''codex'')]\<rparr>"

definition status_edit :: "string \<Rightarrow> agent_update" where
  "status_edit s = no_update\<lparr>up_status := Some (Some s)\<rparr>"

definition no_hosts :: cli_registry where
  "no_hosts = register_backend backend_codex empty_registry"

definition org0 :: org_db where
  "org0 = \<lparr>od_agents = [], od_audit = [], od_audit_up = True\<rparr>"

definition org1 :: org_db where
  "org1 = fst (create_agent no_hosts False 1 0 demo_owner 1 (demo_body ''a'') org0)"

definition org2 :: org_db where
  "org2 = fst (create_agent no_hosts False 2 0 demo_owner 1 (demo_body ''b'') org1)"

definition org3 :: org_db where
  "org3 = fst (set_agent_manager 0 demo_owner 1 2 None (Some 1) org2)"

definition org4 :: org_db where
  "org4 = fst (create_agent no_hosts False 4 0 demo_owner 1 (demo_body ''c'') org3)"

text \<open>The third root is terminated before the CEO is appointed, and brought back afterwards.\<close>

definition org5 :: org_db where
  "org5 = fst (apply_agent_update no_hosts False 1 demo_owner 1 4 (status_edit ''terminated'') org4)"

definition org6 :: org_db where
  "org6 = fst (appoint False 2 1 2 demo_owner None org5)"

definition org7 :: org_db where
  "org7 = fst (apply_agent_update no_hosts False 3 demo_owner 1 4 (status_edit ''idle'') org6)"

lemma fst_step: "x = fst y \<Longrightarrow> y = (x, snd y)"
  by simp

lemma org6_revives_nothing: "\<not> revives 1 4 (status_edit ''terminated'') org4"
  by code_simp

lemma org6_reachable: "org_reachable no_hosts False strict org6"
proof -
  have "org_reachable no_hosts False strict org0" by (rule org_reachable.start) (simp add: org0_def)
  then have "org_reachable no_hosts False strict org1"
    by (rule org_reachable.more) (rule org_step.create [OF fst_step [OF org1_def]])
  then have "org_reachable no_hosts False strict org2"
    by (rule org_reachable.more) (rule org_step.create [OF fst_step [OF org2_def]])
  then have "org_reachable no_hosts False strict org3"
    by (rule org_reachable.more) (rule org_step.move [OF fst_step [OF org3_def]])
  then have "org_reachable no_hosts False strict org4"
    by (rule org_reachable.more) (rule org_step.create [OF fst_step [OF org4_def]])
  then have "org_reachable no_hosts False strict org5"
    by (rule org_reachable.more)
      (rule org_step.edit [OF fst_step [OF org5_def] impI [OF org6_revives_nothing]])
  then show ?thesis
    by (rule org_reachable.more) (rule org_step.appoint [OF fst_step [OF org6_def]])
qed

definition ceo_row :: org_agent where
  "ceo_row = od_agents org6 ! 1"

definition staff_row :: org_agent where
  "staff_row = od_agents org6 ! 0"

lemma org6_rows:
  "length (od_agents org6) = 3" "oa_id staff_row = 1" "oa_manager_id staff_row = Some 2"
  "oa_is_ceo ceo_row" "oa_company_id staff_row = 1" "oa_company_id ceo_row = 1"
  "\<not> oa_is_ceo staff_row" "\<not> designated_ceo 1 (Some 1) org6"
  by code_simp+

lemma org6_in: "ceo_row \<in> set (od_agents org6)" "staff_row \<in> set (od_agents org6)"
  unfolding ceo_row_def staff_row_def by (rule nth_mem, simp add: org6_rows)+

lemma reporting_lines_are_a_forest_witness:
  "(1, 1) \<notin> (reporting (od_agents org6))\<^sup>+ \<and> get_org_agent 1 2 org6 \<noteq> None"
  using reporting_lines_are_a_forest [OF org6_reachable org6_in(2)] by (simp add: org6_rows)

lemma one_ceo_on_top_witness: "oa_manager_id ceo_row = None \<and> staff_row \<noteq> ceo_row \<and> \<not> live_root staff_row"
proof -
  have "staff_row \<noteq> ceo_row" using org6_rows(4,7) by metis
  with one_ceo_on_top [OF org6_reachable [of True] org6_in(1) org6_rows(4) org6_in(2)] org6_rows(5,6)
  show ?thesis by simp
qed

lemma manager_refused_iff_cycle_witness:
  "(1, 1) \<in> (reporting (od_agents org6))\<^sup>* \<and>
   resolve_manager 1 (Some 1) (Some 1) org6 = Inl (org_error 409 ''MANAGER_CYCLE'')"
proof -
  have "get_org_agent 1 1 org6 \<noteq> None" by code_simp
  from manager_refused_iff_cycle [OF org6_reachable [of True] this org6_rows(8)] show ?thesis by simp
qed

lemma edits_need_their_authority_witness:
  "is_human False demo_owner \<and> length (od_audit org5) = Suc (length (od_audit org4))"
proof -
  have "od_agents org5 \<noteq> od_agents org4" by code_simp
  moreover have "od_audit_up org4" by code_simp
  ultimately show ?thesis
    using edits_need_their_authority [OF fst_step [OF org5_def]] by simp
qed

definition demo_created :: "org_db \<times> (org_error + org_agent)" where
  "demo_created = create_agent demo_backends False 1 0 demo_owner 1 cli_body org0"

lemma routable_employees_have_backends_witness:
  "routable_ok demo_backends (projr (snd demo_created))"
proof -
  have "isl (snd demo_created) = False" by code_simp
  then have "snd demo_created = Inr (projr (snd demo_created))" by (cases "snd demo_created") simp_all
  then have "create_agent demo_backends False 1 0 demo_owner 1 cli_body org0 =
      (fst demo_created, Inr (projr (snd demo_created)))"
    unfolding demo_created_def [symmetric] by (metis prod.collapse)
  with routable_employees_have_backends [OF demo_registry_ok, of False 1 0 demo_owner 1 cli_body org0
      "fst demo_created" "projr (snd demo_created)" 0 ceo_row no_update org0 "[]" org0]
  show ?thesis by blast
qed

text \<open>
  An administrator's edit may give a terminated root another status after the CEO was
  appointed, and leaves a live root beside the CEO.
\<close>

theorem revived_root_beside_the_ceo:
  "org_reachable no_hosts False False org7 \<and>
   map (\<lambda>a. (oa_id a, oa_is_ceo a, live_root a)) (od_agents org7) =
     [(1, False, False), (2, True, True), (4, False, True)]"
proof
  show "org_reachable no_hosts False False org7"
    by (rule org_reachable.more [OF org6_reachable])
      (rule org_step.edit [OF fst_step [OF org7_def]], simp)
  show "map (\<lambda>a. (oa_id a, oa_is_ceo a, live_root a)) (od_agents org7) =
     [(1, False, False), (2, True, True), (4, False, True)]" by code_simp
qed

definition org9 :: org_db where
  "org9 = reclaim_stalled_run 1 4 True org6"

text \<open>
  So may the watchdog: a stalled run of an agent that was terminated meanwhile parks it as needing
  recovery, and a root that was terminated before the appointment is live again.
\<close>

theorem watchdog_revives_a_root_beside_the_ceo:
  "org_reachable no_hosts False False org9 \<and>
   map (\<lambda>a. (oa_id a, oa_is_ceo a, live_root a)) (od_agents org6) =
     [(1, False, False), (2, True, True), (4, False, False)] \<and>
   map (\<lambda>a. (oa_id a, oa_is_ceo a, live_root a)) (od_agents org9) =
     [(1, False, False), (2, True, True), (4, False, True)]"
proof (intro conjI)
  show "org_reachable no_hosts False False org9"
    unfolding org9_def by (rule org_reachable.more [OF org6_reachable org_step.reclaim]) simp
qed code_simp+

text \<open>An edit stands when its audit row cannot be written.\<close>

theorem edit_stands_without_its_audit_row:
  "map oa_status (od_agents (fst (apply_agent_update no_hosts False 1 demo_owner 1 4 (status_edit ''terminated'')
      (org4\<lparr>od_audit_up := False\<rparr>)))) = [''idle'', ''idle'', ''terminated''] \<and>
   od_audit (fst (apply_agent_update no_hosts False 1 demo_owner 1 4 (status_edit ''terminated'')
      (org4\<lparr>od_audit_up := False\<rparr>))) = od_audit org4"
  by (rule conjI) code_simp+

definition org8 :: org_db where
  "org8 = fst (clone_agent False 5 3 demo_owner 1 4 (fst (create_agent no_hosts False 4 0 demo_owner 1 cli_body org3)))"

text \<open>
  The copy of an employee that is marked as requiring configuration is idle, though its
  backend is the one no host runs: only the copy of the row skips the check of every other path.
\<close>

theorem clone_of_unusable_employee_is_idle:
  "map (\<lambda>a. (oa_id a, oa_status a = CONFIGURATION_REQUIRED, routable_ok no_hosts a)) (od_agents org8) =
     [(1, False, True), (2, False, True), (4, True, True), (5, False, False)] \<and>
   map oa_status (filter (\<lambda>a. oa_id a = 5) (od_agents org8)) = [''idle'']"
  by (rule conjI) code_simp+

definition org10 :: org_db where
  "org10 = fst (create_agent no_hosts False 4 0 demo_owner 1 cli_body org3)"

definition org11 :: org_db where
  "org11 = fst (wake_agent 2 demo_owner 1 4 [] (fst (pause_agent 1 demo_owner 1 4 org10)))"

text \<open>
  Pausing an employee that is marked as requiring configuration, and waking it again, leaves it
  ready, though waking it in its first status is refused.
\<close>

theorem pause_and_wake_skip_the_check:
  "map (\<lambda>a. (oa_id a, oa_status a, routable_ok no_hosts a)) (filter (\<lambda>a. oa_id a = 4) (od_agents org10)) =
     [(4, CONFIGURATION_REQUIRED, True)] \<and>
   snd (wake_agent 2 demo_owner 1 4 [] org10) = Inl (org_error 409 ''NOT_WAKEABLE'') \<and>
   map (\<lambda>a. (oa_id a, oa_status a, routable_ok no_hosts a)) (filter (\<lambda>a. oa_id a = 4) (od_agents org11)) =
     [(4, ''ready'', False)]"
  by (intro conjI) code_simp+

text \<open>A name sent as null passes the check of the required fields, and only the database refuses it.\<close>

lemma null_name_is_a_server_error:
  "apply_agent_update no_hosts False 1 demo_owner 1 1 (no_update\<lparr>up_name := Some None\<rparr>) org4 =
     (org4, Inl (org_error 500 ''INTEGRITY''))"
  "snd (apply_agent_update no_hosts False 1 demo_owner 1 1 (no_update\<lparr>up_role := Some None\<rparr>) org4) =
     Inl (org_error 422 ''FIELD_NOT_NULLABLE'')"
  by code_simp+

text \<open>
  An employee whose backend no host runs can be given no other status by an edit, not even the
  terminated one.
\<close>

lemma unusable_employee_cannot_be_terminated:
  "snd (apply_agent_update no_hosts False 1 demo_owner 1 4 (status_edit ''terminated'') org8) =
     Inl (org_error 422 ''CLI_BACKEND_UNAVAILABLE'')"
  by code_simp

text \<open>
  A move compares the manager it chose with the copy read before the lock: when a concurrent move
  changed the line in between, setting it back answers success and writes nothing.
\<close>

lemma stale_move_is_lost:
  "set_agent_manager 3 demo_owner 1 2 (Some 1) (Some 1) org2 = (org2, Inr ())"
  "map oa_manager_id (od_agents org2) = [None, None]"
  by code_simp+

end
