(* ===== verification/Hiring_Checks.thy ===== *)
theory Hiring_Checks
  imports Hiring_Laws Organization_Checks
begin

text \<open>
  What controlled hiring promises: its limits hold over every interleaving, a rule approves only
  what it names within its bounds, a request creates one employee, and a concrete company in which
  a deleted hire keeps its place.
\<close>

section \<open>Limits\<close>

lemma within_caps_env:
  assumes "he_uuid5 env = he_uuid5 env'"
  shows "within_caps env k db = within_caps env' k db"
  by (simp add: within_caps_def counts load_env [OF assms])

lemma employee_id_env: "he_uuid5 env = he_uuid5 env' \<Longrightarrow> employee_id_for env = employee_id_for env'"
  by (simp add: fun_eq_iff employee_id_for_def)

lemma step_caps:
  assumes "hire_step u5 db db'" and "he_uuid5 env = u5" and inj: "inj (employee_id_for env)"
    and inv: "hire_inv db" and caps: "within_caps env k db"
  shows "within_caps env k db'"
proof -
  have e: "inj (employee_id_for e)" "within_caps e k db \<longleftrightarrow> within_caps env k db"
    "within_caps e k db' \<longleftrightarrow> within_caps env k db'" if "he_uuid5 e = u5" for e
    using that assms(2) inj employee_id_env [of e env] within_caps_env [of e env] by auto
  from assms(1) show ?thesis
  proof cases
    case (submitted e r cid manager actor res1)
    with e [OF submitted(1)] caps filing_caps [OF submitted(3,2) inv] show ?thesis by blast
  next
    case (decided e cid rid p remark res2)
    with e [OF decided(1)] caps decision_caps [OF decided(2) inv] show ?thesis by blast
  next
    case (refused e cid seen who reason res2)
    with e [OF refused(1)] caps refusal_caps [OF refused(2) inv] show ?thesis by blast
  next
    case (hired e a actor res3)
    with e [OF hired(1)] caps creation_caps [OF hired(5) inv hired(2-4)] show ?thesis by blast
  qed
qed

text \<open>
  C17: whatever requests are filed, decided, refused and carried out in whatever order, a company
  that is within the headcount, the direct reports of every manager and the monthly budget of its
  hiring rules stays within them, hires that are approved but not yet created included.
\<close>

theorem hiring_limits_hold:
  assumes "(hire_step (he_uuid5 env))\<^sup>*\<^sup>* db db'" and "inj (employee_id_for env)"
    and "hire_inv db" and "within_caps env k db"
  shows "within_caps env k db'"
proof -
  from assms(1) have "hire_inv db' \<and> within_caps env k db'"
  proof (induction rule: rtranclp_induct)
    case base
    with assms(3,4) show ?case by blast
  next
    case (step y z)
    with hire_inv_step step_caps [OF step.hyps(2) refl assms(2)] show ?case by blast
  qed
  then show ?thesis ..
qed

section \<open>Auto-approval\<close>

lemma auto_decision:
  assumes "evaluate env cid manager r excluded db = Inr x" and "hx_outcome x = AUTO_APPROVED"
  shows "auto_approvable (company_policy cid (hd_policies db)) (company_rules cid (hd_policies db)) r"
    and "hire_override env r = None"
    and "hq_one_time_cents r + 12 * hq_monthly_cents r < HIGH_RISK_SPEND_CENTS"
    and "\<exists>d. hire_access env cid (oa_id manager) db = Some d \<and>
      hire_rejections env cid manager (\<not> decision_allowed d) r excluded db = []"
  using assms
  by (auto simp: evaluate_def Let_def AUTO_APPROVED_def HIRE_REJECTED_def APPROVAL_REQUIRED_def hire_holds_def
      reason_if_def commitment_cents_def required_signatures_for_def HIRE_def HIGH_RISK_APPROVAL_TYPES_def
      dict_or_empty_def split: option.splits sum.splits if_splits)

lemma auto_bounds:
  assumes "auto_approvable p rules r"
  obtains q auto monthly once where "p = Some q" and "map_of rules ''auto_approve'' = Some (JDict auto)"
    and "map_of auto ''enabled'' = Some (JBool True)"
    and "limit_of auto ''max_monthly_cents'' = Some monthly" and "hq_monthly_cents r \<le> monthly"
    and "limit_of auto ''max_one_time_cents'' = Some once" and "hq_one_time_cents r \<le> once"
  using assms by (auto simp: auto_approvable_def Let_def split: option.splits json.splits)

lemma rejections_nil:
  assumes "hire_rejections env cid manager denied r excluded db = []"
  shows "oa_company_id manager = cid" and "\<not> terminated manager" and "\<not> denied"
    and "cap_reasons env cid (oa_id manager) r excluded db = []"
    and "\<exists>c. hire_config env r = Inr c"
  using assms by (auto simp: hire_rejections_def Let_def reason_if_def split: if_splits sum.splits)

lemma filed_approval:
  assumes "file_request env cid manager r actor db = (db', Inr (a, True))" and "hire_fits r" and "av_status a = Approved"
  shows "\<exists>x. evaluate env cid manager r None db = Inr x \<and> hx_outcome x = AUTO_APPROVED"
proof -
  from assms(1) have h: "get_hire cid (request_id_for env cid (oa_id manager) (hq_idempotency_key r)) db = None"
    and g: "get_hire cid (request_id_for env cid (oa_id manager) (hq_idempotency_key r)) db' = Some a"
    by (auto simp: file_request_def Let_def same_request_body_def split: option.splits sum.splits if_splits)
  then have "db' \<noteq> db" by auto
  with filing_effect [OF assms(1,2)] obtain n x where
    n: "requests db' = requests db @ [n]" "evaluate env cid manager r None db = Inr x"
      "av_status n = Approved \<longrightarrow> hx_outcome x = AUTO_APPROVED" by blast
  from h have "find (\<lambda>a. av_id a = request_id_for env cid (oa_id manager) (hq_idempotency_key r) \<and>
      av_company_id a = cid \<and> av_type a = HIRE) (requests db) = None" by (simp add: get_hire_def)
  with g n(1) have "a = n" by (auto simp: get_hire_def find_append split: if_splits)
  with n assms(3) show ?thesis by blast
qed

text \<open>
  C19: a request that is approved as it is filed comes from an active manager of the company whom
  the tool policy allows to ask, has a backend that runs here, needs no signature quorum, passes
  every limit and lies within both bounds of an enabled auto-approval rule of the company's
  hiring policy.
\<close>

theorem auto_approval_is_bounded:
  assumes "file_request env cid manager r actor db = (db', Inr (a, True))" and "hire_fits r"
    and "av_status a = Approved"
  shows "\<exists>p auto monthly once d. company_policy cid (hd_policies db) = Some p \<and>
    map_of (company_rules cid (hd_policies db)) ''auto_approve'' = Some (JDict auto) \<and>
    map_of auto ''enabled'' = Some (JBool True) \<and>
    limit_of auto ''max_monthly_cents'' = Some monthly \<and> hq_monthly_cents r \<le> monthly \<and>
    limit_of auto ''max_one_time_cents'' = Some once \<and> hq_one_time_cents r \<le> once \<and>
    hq_one_time_cents r + 12 * hq_monthly_cents r < HIGH_RISK_SPEND_CENTS \<and>
    hire_override env r = None \<and> oa_company_id manager = cid \<and> \<not> terminated manager \<and>
    hire_access env cid (oa_id manager) db = Some d \<and> decision_allowed d \<and>
    cap_reasons env cid (oa_id manager) r None db = []"
proof -
  obtain x where x: "evaluate env cid manager r None db = Inr x" "hx_outcome x = AUTO_APPROVED"
    using filed_approval [OF assms] by blast
  note auto = auto_decision [OF x]
  from auto(4) obtain d where d: "hire_access env cid (oa_id manager) db = Some d"
    "hire_rejections env cid manager (\<not> decision_allowed d) r None db = []" by blast
  note nil = rejections_nil [OF d(2)]
  from auto(1) show ?thesis
    using auto(2,3) d(1) nil(1-4) by (elim auto_bounds) blast
qed

section \<open>One employee\<close>

text \<open>
  C20: creating the employee of a request again, by anyone, changes nothing and returns the same
  employee, whose id the request determines.
\<close>

theorem one_employee_per_request:
  assumes "materialize env a actor db = (db1, Inr e)" and "he_uuid5 env' = he_uuid5 env"
  shows "materialize env' a actor' db1 = (db1, Inr e) \<and> oa_id e = employee_id_for env (av_id a) \<and>
    length (filter (\<lambda>x. oa_id x = oa_id e) (employees db1)) \<le> max 1 (length (filter (\<lambda>x. oa_id x = oa_id e) (employees db)))"
proof (cases "find (\<lambda>e. oa_id e = employee_id_for env (av_id a)) (employees db)")
  case (Some x)
  with assms(1) have "db1 = db" "e = x" by (auto simp: materialize_def)
  with Some show ?thesis by (auto simp: materialize_def employee_id_env [OF assms(2)] dest!: find_SomeD)
next
  case None
  with assms(1) obtain r m config override org where
    t: "create_org_agent (hired_row env a r config override) (hd_org db) = Inr org"
    and db1: "employees db1 = od_agents org" and e: "e = (hired_row env a r config override)\<lparr>oa_manager_id := m\<rparr>"
    and rm: "resolve_manager (av_company_id a) None (av_requested_by_agent_id a) (hd_org db) = Inr m"
    by (auto simp: materialize_def materialization_failed_def Let_def split: option.splits sum.splits prod.splits)
  have "e = e\<lparr>oa_is_ceo := False\<rparr>" by (simp add: e hired_row_def)
  with t rm e db1 have emp: "employees db1 = employees db @ [e]"
    by (auto simp: create_org_agent_def split: if_splits)
  have "filter (\<lambda>x. oa_id x = employee_id_for env (av_id a)) (employees db) = []"
    using None by (auto simp: find_None_iff filter_empty_conv)
  with None emp show ?thesis
    by (simp add: materialize_def employee_id_env [OF assms(2)] find_append e)
qed

section \<open>The calls\<close>

lemma kept_by_map: "a \<in> set xs \<Longrightarrow> f a = a \<Longrightarrow> a \<in> set (map f xs)"
  by force

lemma refusal_keeps_approved:
  assumes "reject_pending env cid seen who reason db = (db', res)" and "a \<in> set (requests db)" and "av_status a = Approved"
  shows "a \<in> set (requests db')"
proof -
  define f where "f = (\<lambda>b. if decide_guard (av_id seen) () b
    then decide_vals (he_now env) Rejected (label_string who) (Some reason) b else b)"
  have "f a = a" using assms(3) by (simp add: f_def decide_guard_def)
  with assms(2) have "a \<in> set (map f (requests db))" by (rule kept_by_map)
  with refusal_rows [OF assms(1), folded f_def] assms(2) show ?thesis by metis
qed

lemma decision_keeps_approved:
  assumes "decide_hire env cid rid p note db = (db', res)" and "hire_inv db"
    and a: "a \<in> set (requests db)" "av_status a = Approved"
  shows "a \<in> set (requests db')"
proof (cases "requests db' = requests db")
  case False
  with decision_effect [OF assms(1,2)] obtain b f where
    b: "b \<in> set (requests db)" "av_status b = Pending" "requests db' = map f (requests db)"
      "\<forall>c \<in> set (requests db). av_id c \<noteq> av_id b \<longrightarrow> f c = c" by blast
  from assms(2) have inj: "inj_on av_id (set (requests db))" by (simp add: hire_inv_def distinct_map)
  have "a = b" if "av_id a = av_id b" using inj that a(1) b(1) by (rule inj_onD)
  then have "av_id a \<noteq> av_id b" using a(2) b(2) by (metis approval_status.distinct(1))
  then have "f a = a" using b(4) a(1) by blast
  with a(1) show ?thesis unfolding b(3) by (rule kept_by_map)
qed (use a in simp)

lemma approved_stays_step:
  assumes "hire_step u5 db db'" and "hire_inv db" and a: "a \<in> set (requests db)" "av_status a = Approved"
  shows "a \<in> set (requests db')"
  using assms(1)
proof cases
  case (submitted env r cid manager actor res1)
  with filing_effect [OF submitted(3,2)] a show ?thesis by auto
next
  case (decided env cid rid p remark res2)
  show ?thesis by (rule decision_keeps_approved [OF decided(2) assms(2) a])
next
  case (refused env cid seen who reason res2)
  show ?thesis by (rule refusal_keeps_approved [OF refused(2) a])
next
  case (hired env b actor res3)
  then show ?thesis using creation_effect [OF hired(5)] hire_invD(2) [OF assms(2)] a(1) by metis
qed

lemma steps_keep:
  assumes "(hire_step u5)\<^sup>*\<^sup>* db db'" and "hire_inv db"
  shows "hire_inv db' \<and> {a \<in> set (requests db). av_status a = Approved} \<subseteq> set (requests db')"
  using assms
proof (induction rule: rtranclp_induct)
  case (step y z)
  then have y: "hire_inv y" "{a \<in> set (requests db). av_status a = Approved} \<subseteq> set (requests y)" by blast+
  have "hire_inv z" by (rule hire_inv_step [OF step.hyps(2) y(1)])
  moreover have "a \<in> set (requests z)" if "a \<in> set (requests db)" "av_status a = Approved" for a
    using approved_stays_step [OF step.hyps(2) y(1) _ that(2)] y(2) that by blast
  ultimately show ?case by blast
qed auto

lemma created_by_steps:
  assumes "a \<in> set (requests db)" and "av_status a = Approved" and "av_type a = HIRE" and "hire_inv db"
    and "(hire_step u5)\<^sup>*\<^sup>* db db1" and "he_uuid5 env = u5"
  shows "(hire_step u5)\<^sup>*\<^sup>* db (fst (materialize env a actor db1))"
proof -
  have "a \<in> set (requests db1)" using steps_keep [OF assms(5,4)] assms(1,2) by blast
  then have "hire_step u5 db1 (fst (materialize env a actor db1))"
    by (rule hire_step.hired [OF assms(6) _ assms(2,3) prod.collapse [symmetric]])
  with assms(5) show ?thesis by (rule rtranclp.rtrancl_into_rtrancl)
qed

lemma submit_by_steps:
  assumes "he_uuid5 env = u5" and "hire_fits r" and inv: "hire_inv db"
    and others: "\<And>i d. (hire_step u5)\<^sup>*\<^sup>* d (others i d)"
  shows "(hire_step u5)\<^sup>*\<^sup>* db (fst (submit_hire env cid mid r actor others db))"
proof -
  have filed: "(hire_step u5)\<^sup>*\<^sup>* db (fst (file_request env cid manager r actor (others 0 db)))" for manager
    using others [of db 0] hire_step.submitted [OF assms(1,2) prod.collapse [symmetric]] by (rule rtranclp.rtrancl_into_rtrancl)
  show ?thesis
  proof (cases "submit_hire env cid mid r actor others db")
    case (Pair db' res)
    then consider "db' = db"
      | manager out where "file_request env cid manager r actor (others 0 db) = (db', out)"
      | manager db1 out where "file_request env cid manager r actor (others 0 db) = (db1, out)" "db' = others 1 db1"
      | manager db1 out b i where "file_request env cid manager r actor (others 0 db) = (db1, out)"
          "get_request cid i None (others 1 db1) = Inr b" "av_status b = Approved"
          "db' = fst (materialize env b (stored_rule b) (others 2 (others 1 db1)))"
      by (auto simp: submit_hire_def Let_def split: sum.splits option.splits prod.splits bool.splits if_splits)
    then show ?thesis
    proof cases
      case (2 manager out)
      with filed [of manager] Pair show ?thesis by simp
    next
      case (3 manager db1 out)
      with filed [of manager] others [of db1 1] Pair show ?thesis by simp
    next
      case (4 manager db1 out b i)
      with filed [of manager] others [of db1 1] have to: "(hire_step u5)\<^sup>*\<^sup>* db (others 1 db1)" by simp
      with steps_keep [OF to inv] get_requestD [OF 4(2)] others [of "others 1 db1" 2] 4(3,4) Pair
      show ?thesis using created_by_steps [of b "others 1 db1" u5 _ env] assms(1) by (metis fst_conv rtranclp_trans)
    qed (use Pair in simp)
  qed
qed

lemma decided_request:
  assumes "decide_hire env cid rid p note db = (db1, Inr a)" and inv: "hire_inv db"
  shows "a \<in> set (requests db1) \<and> av_status a = Approved \<and> av_type a = HIRE"
proof -
  from assms(1) obtain a0 where a0: "get_request cid rid None db = Inr a0"
    by (auto simp: decide_hire_def split: option.splits sum.splits)
  note g = get_requestD [OF a0]
  show ?thesis
  proof (cases "av_status a0 = Pending")
    case False
    with assms(1) a0 have "db1 = db" "a = a0" "av_status a0 = Approved"
      by (auto simp: decide_hire_def split: option.splits if_splits)
    with g show ?thesis by simp
  next
    case True
    with assms(1) a0 have "approve_pending env cid a0 p note db = (db1, Inr a)"
      by (auto simp: decide_hire_def split: option.splits)
    then obtain vs a' x where
      ap: "approve_request (he_now env) rid (label_string (display_name p)) note (hd_approvals db) = (vs, Inr (Some a'))"
      and db1: "hd_approvals db1 = add_payload rid ''approval_policy'' (JDict (decision_json x)) vs"
      and a: "get_hire cid rid db1 = Some a"
      using g(2) by (auto simp: approve_pending_def Let_def split: option.splits sum.splits if_splits prod.splits)
    define f where "f = granted (he_now env) rid (label_string (display_name p)) note (JDict (decision_json x))"
    have "vs = decide_approval (he_now env) Approved rid (label_string (display_name p)) note (hd_approvals db)"
      using approve_request_outcome [OF ap] by simp
    with db1 have rows: "requests db1 = map f (requests db)" by (simp add: granted_rows f_def)
    from a have m: "a \<in> set (requests db1)" "av_id a = rid" "av_type a = HIRE"
      by (auto simp: get_hire_def dest!: find_SomeD)
    from m(1) rows obtain b where b: "b \<in> set (requests db)" "a = f b" by auto
    have "kept b (f b)" unfolding f_def by (rule granted_kept)
    with b(2) m(2) have "av_id b = rid" by (simp add: kept_def)
    with b(1) g(1,2) hire_invD(1) [OF inv] have "b = a0" by (auto simp: distinct_map dest: inj_onD)
    with b(2) True g(2) have "av_status a = Approved" by (simp add: f_def granted_def Let_def decide_vals_def)
    with m show ?thesis by blast
  qed
qed

lemma approve_by_steps:
  assumes "he_uuid5 env = u5" and inv: "hire_inv db" and others: "\<And>i d. (hire_step u5)\<^sup>*\<^sup>* d (others i d)"
  shows "(hire_step u5)\<^sup>*\<^sup>* db (fst (approve_hire env cid rid p note others db))"
proof -
  define locked where "locked = (case get_request cid rid None db of Inl e \<Rightarrow> db
    | Inr a \<Rightarrow> if require_human p = None \<and> av_status a = Pending then others 0 db else db)"
  obtain db1 out where d: "decide_hire env cid rid p note locked = (db1, out)" by fastforce
  have start: "(hire_step u5)\<^sup>*\<^sup>* db locked" using others by (auto simp: locked_def split: sum.split)
  have start_inv: "hire_inv locked" using steps_keep [OF start inv] by blast
  from start have to: "(hire_step u5)\<^sup>*\<^sup>* db db1"
    using hire_step.decided [OF assms(1) d] by (rule rtranclp.rtrancl_into_rtrancl)
  show ?thesis
  proof (cases out)
    case (Inl e)
    with to d show ?thesis by (simp add: approve_hire_def Let_def flip: locked_def)
  next
    case (Inr a)
    have a: "a \<in> set (requests db1)" "av_status a = Approved" "av_type a = HIRE"
      using decided_request [OF d [unfolded Inr] start_inv] by blast+
    have "hire_inv db1" using steps_keep [OF to inv] by blast
    with created_by_steps [OF a this others assms(1)] to
    have "(hire_step u5)\<^sup>*\<^sup>* db (fst (materialize env a actor (others 1 db1)))" for actor
      by (blast intro: rtranclp_trans)
    then show ?thesis using d Inr
      by (auto simp: approve_hire_def Let_def simp flip: locked_def split: prod.split sum.split)
        (metis fst_conv)+
  qed
qed

lemma reject_by_steps:
  assumes "he_uuid5 env = u5" and others: "\<And>i d. (hire_step u5)\<^sup>*\<^sup>* d (others i d)"
  shows "(hire_step u5)\<^sup>*\<^sup>* db (fst (reject_hire env cid rid p note others db))"
proof -
  have "(hire_step u5)\<^sup>*\<^sup>* db (fst (reject_pending env cid a who reason (others 0 db)))" for a who reason
    using others [of db 0] hire_step.refused [OF assms(1) prod.collapse [symmetric]] by (rule rtranclp.rtrancl_into_rtrancl)
  then show ?thesis by (auto simp: reject_hire_def Let_def split: option.split sum.split)
qed

text \<open>
  C18: filing, approving and rejecting a hire, with other processes acting in every gap between
  their transactions, are sequences of steps of the hiring system, so what holds in every
  reachable state holds after every call.
\<close>

theorem hiring_calls_are_steps:
  assumes "he_uuid5 env = u5" and "hire_fits r" and "hire_inv db"
    and "\<And>i d. (hire_step u5)\<^sup>*\<^sup>* d (others i d)"
  shows "(hire_step u5)\<^sup>*\<^sup>* db (fst (submit_hire env cid mid r actor others db)) \<and>
    (hire_step u5)\<^sup>*\<^sup>* db (fst (approve_hire env cid rid p note others db)) \<and>
    (hire_step u5)\<^sup>*\<^sup>* db (fst (reject_hire env cid rid p why others db))"
  by (intro conjI submit_by_steps [OF assms(1-3)] approve_by_steps [OF assms(1,3)] reject_by_steps [OF assms(1)] assms(4))

section \<open>A company\<close>

definition demo_uuid5 :: "uuid option \<Rightarrow> label \<Rightarrow> uuid" where
  "demo_uuid5 n l = (case n of Some i \<Rightarrow> i + 50 | None \<Rightarrow> 20 + length l)"

definition hire_demo_env :: hire_env where
  "hire_demo_env = \<lparr>he_uuid5 = demo_uuid5, he_str = (\<lambda>_. []), he_registry = demo_backends,
     he_enforcement = ''enforce'', he_rule_id = 90, he_now = 0\<rparr>"

definition hire_demo_policy :: hire_policy where
  "hire_demo_policy = \<lparr>hp_id = 8, hp_company_id = 1, hp_rules = Some [(''hiring'', JDict
       [(''max_headcount'', JInt 2), (''auto_approve'', JDict [(''enabled'', JBool True),
          (''max_monthly_cents'', JInt 5), (''max_one_time_cents'', JInt 0)])])],
     hp_priority = 1, hp_enabled = True, hp_version = 1, hp_created_at = 0\<rparr>"

definition hire_demo_manager :: org_agent where
  "hire_demo_manager = new_agent 5 1 0 (demo_body ''m'') None None None"

definition hire0 :: hire_db where
  "hire0 = \<lparr>hd_org = \<lparr>od_agents = [hire_demo_manager], od_audit = [], od_audit_up = True\<rparr>,
     hd_approvals = \<lparr>vd_approvals = [], vd_keys = [], vd_signatures = [], vd_queues = []\<rparr>,
     hd_policies = [hire_demo_policy],
     hd_access = \<lparr>ad_agents = [], ad_sessions = [], ad_connections = [], ad_bindings = [], ad_catalog = [],
       ad_policies = [\<lparr>tp_company_id = 1, tp_rule = \<lparr>pr_id = 3, pr_name = ''hire'', pr_priority = 1,
          pr_effect = ''allow'', pr_conditions = [(''tool_name'', JStr HIRE_TOOL)], pr_is_active = True\<rparr>\<rparr>],
       ad_profiles = [], ad_profile_bindings = [],
       ad_grants = \<lparr>gd_grants = [], gd_uses = [], gd_restrictions = []\<rparr>\<rparr>,
     hd_budgets = [], hd_notices = []\<rparr>"

definition hire_demo_request :: hire_request where
  "hire_demo_request = \<lparr>hq_role = ''dev'', hq_title = ''Dev'', hq_reason = ''help'', hq_backend = ''codex'',
     hq_model = None, hq_responsibilities = [], hq_monthly_cents = 1, hq_one_time_cents = 0,
     hq_urgency = ''normal'', hq_idempotency_key = ''k'', hq_allow_configuration = False\<rparr>"

definition hire_filed :: "hire_db \<times> (org_error + approval \<times> bool)" where
  "hire_filed = file_request hire_demo_env 1 hire_demo_manager hire_demo_request [Txt ''agent:m''] hire0"

definition hire1 :: hire_db where
  "hire1 = fst hire_filed"

definition hire1_request :: approval where
  "hire1_request = fst (projr (snd hire_filed))"

definition hire_created :: "hire_db \<times> (org_error + org_agent)" where
  "hire_created = (case hire_filed of (db, Inl e) \<Rightarrow> (db, Inl e)
     | (db, Inr (a, _)) \<Rightarrow> materialize hire_demo_env a [Txt ''policy:8''] db)"

definition hire2 :: hire_db where
  "hire2 = fst hire_created"

definition filed_id :: uuid where
  "filed_id = request_id_for hire_demo_env 1 (oa_id hire_demo_manager) ''k''"

definition hired_id :: uuid where
  "hired_id = employee_id_for hire_demo_env filed_id"

definition hire2_employee :: org_agent where
  "hire2_employee = projr (snd hire_created)"

lemma hire_demo_fits: "hire_fits hire_demo_request"
  by code_simp

lemma hire_filed_result: "\<not> isl (snd hire_filed)"
  by code_simp

lemma hire_filed_new: "snd (projr (snd hire_filed))"
  by code_simp

lemma hire1_approved:
  "file_request hire_demo_env 1 hire_demo_manager hire_demo_request [Txt ''agent:m''] hire0 = (hire1, Inr (hire1_request, True))"
  using hire_filed_result hire_filed_new unfolding hire_filed_def [symmetric]
  by (cases hire_filed; cases "snd hire_filed") (auto simp: hire1_def hire1_request_def prod_eq_iff)

lemma hire1_status: "av_status hire1_request = Approved"
  by code_simp

lemma hire_demo_inj: "inj (employee_id_for hire_demo_env)"
  by (auto simp: inj_def employee_id_for_def hire_demo_env_def demo_uuid5_def)

lemma hire0_ok: "hire_inv hire0" "within_caps hire_demo_env 1 hire0"
proof -
  show "hire_inv hire0" by (simp add: hire_inv_def hire0_def)
  have "limit_of (company_rules 1 (hd_policies hire0)) ''max_headcount'' = Some 2"
    "limit_of (company_rules 1 (hd_policies hire0)) ''max_direct_reports'' = None"
    "recurring_cap 1 (company_rules 1 (hd_policies hire0)) hire0 = None"
    "headcount hire_demo_env 1 None hire0 = 1" by code_simp+
  then show "within_caps hire_demo_env 1 hire0" by (simp add: within_caps_def Let_def)
qed

lemma hire1_step: "hire_step (he_uuid5 hire_demo_env) hire0 hire1"
  by (rule hire_step.submitted [OF refl hire_demo_fits hire1_approved])

lemma hiring_limits_hold_witness: "within_caps hire_demo_env 1 hire1"
  by (rule hiring_limits_hold [OF r_into_rtranclp [of "hire_step (he_uuid5 hire_demo_env)", OF hire1_step]
    hire_demo_inj hire0_ok])

lemma hiring_calls_are_steps_witness:
  "(hire_step demo_uuid5)\<^sup>*\<^sup>* hire0 (fst (submit_hire hire_demo_env 1 5 hire_demo_request [Txt ''agent:m'']
     (\<lambda>_ db. db) hire0)) \<and>
   (hire_step demo_uuid5)\<^sup>*\<^sup>* hire0 (fst (approve_hire hire_demo_env 1 filed_id demo_owner None (\<lambda>_ db. db) hire0)) \<and>
   (hire_step demo_uuid5)\<^sup>*\<^sup>* hire0 (fst (reject_hire hire_demo_env 1 filed_id demo_owner (Some ''no'') (\<lambda>_ db. db) hire0))"
  by (rule hiring_calls_are_steps) (simp_all add: hire_demo_fits hire0_ok(1) hire_demo_env_def)

lemma auto_approval_is_bounded_witness:
  "hq_one_time_cents hire_demo_request + 12 * hq_monthly_cents hire_demo_request < HIGH_RISK_SPEND_CENTS \<and>
   cap_reasons hire_demo_env 1 (oa_id hire_demo_manager) hire_demo_request None hire0 = []"
  using auto_approval_is_bounded [OF hire1_approved hire_demo_fits hire1_status] by blast

lemma hire_created_result: "\<not> isl (snd hire_created)"
  by code_simp

lemma hire_filed_is: "hire_filed = (hire1, Inr (hire1_request, True))"
  using hire1_approved by (simp add: hire_filed_def)

lemma hire2_created:
  "materialize hire_demo_env hire1_request [Txt ''policy:8''] hire1 = (hire2, Inr hire2_employee)"
proof -
  have "hire_created = materialize hire_demo_env hire1_request [Txt ''policy:8''] hire1"
    by (simp add: hire_created_def hire_filed_is)
  with hire_created_result show ?thesis
    by (cases hire_created) (auto simp: hire2_def hire2_employee_def isl_def)
qed

lemma one_employee_per_request_witness:
  "materialize hire_demo_env hire1_request [Txt ''x''] hire2 = (hire2, Inr hire2_employee) \<and>
   oa_id hire2_employee = employee_id_for hire_demo_env (av_id hire1_request)"
  using one_employee_per_request [OF hire2_created refl] by blast

text \<open>The owner deletes the employee again.\<close>

definition hire3 :: hire_db where
  "hire3 = hire2\<lparr>hd_org := fst (delete_org_agent demo_owner 1 hired_id False False False (hd_org hire2))\<rparr>"

lemma hire3_employees: "map oa_id (employees hire3) = [5]"
  by code_simp

lemma hire3_headcount: "headcount hire_demo_env 1 None hire3 = 2"
  by code_simp

lemma hire3_refuses:
  "map fst (hire_rejections hire_demo_env 1 hire_demo_manager False
     (hire_demo_request\<lparr>hq_idempotency_key := ''l''\<rparr>) None hire3) = [''HEADCOUNT_LIMIT'']"
  by code_simp

lemma hire3_returns:
  "map oa_id (employees (fst (approve_hire hire_demo_env 1 filed_id demo_owner None (\<lambda>_ db. db) hire3))) =
   [5, hired_id]"
  by code_simp

text \<open>
  An employee that is deleted keeps its place for ever: its approved request counts as a hire
  not created yet, so the headcount does not fall and the next request is refused, and approving
  the same request once more brings the employee back.
\<close>

theorem deleted_hire_keeps_its_place:
  "map oa_id (employees hire3) = [5] \<and> headcount hire_demo_env 1 None hire3 = 2 \<and>
   map fst (hire_rejections hire_demo_env 1 hire_demo_manager False
     (hire_demo_request\<lparr>hq_idempotency_key := ''l''\<rparr>) None hire3) = [''HEADCOUNT_LIMIT''] \<and>
   map oa_id (employees (fst (approve_hire hire_demo_env 1 filed_id demo_owner None (\<lambda>_ db. db) hire3))) =
     [5, hired_id]"
  using hire3_employees hire3_headcount hire3_refuses hire3_returns by blast

text \<open>An API key that may approve decides a hire, though only a person is said to.\<close>

lemma key_decides_hires: "require_human (demo_owner\<lparr>p_kind := Service, p_user_id := None\<rparr>) = None"
  by code_simp

end
