(* ===== verification/Spec2Isabelle.thy ===== *)
theory Spec2Isabelle
  imports Fencing Bridge_Laws Access_Laws Governed_Replay Budget_Laws Work_Checks Audit_Laws
    Hiring_Checks
begin

text \<open>
  NEXUS runs a company of AI employees: people talk to employees in durable chat turns, the
  employees call tools under governance, and work orders are delegated, executed, verified and
  reviewed. This development models the parts of \<open>src/src/nexus\<close> that decide whether something
  may happen and that keep the durable record of what did happen; every definition is a
  translation of the Python beside it, and the paths below are relative to \<open>src/src/nexus\<close>.

  How the code is represented. A database table is the list of its rows in insertion order
  (\<open>Prelude\<close>); \<open>update_where guard vals t\<close> is one conditional UPDATE and \<open>matching guard t\<close> its
  row count. A database transaction is one function from the state to the state and a result.
  What other processes do between two transactions is not fixed: it is a further step of the
  transition system, an argument of the definition (\<open>rivals\<close>, \<open>others\<close>), or a stale copy of
  a row which the step is given instead of the current one. Exceptions are values of a sum
  (\<open>Inl\<close> the error). Code that is not in the repository is a parameter: cryptography (SHA-256,
  Ed25519, UUIDv5), regular expressions, \<open>str()\<close> of foreign values, processes, files and git.

  Parts, and the theories that hold them:

  \<^item> Identity and roles. \<open>RBAC\<close> (\<open>governance/rbac.py\<close>), \<open>Identity\<close> (\<open>auth/principal.py\<close>,
    \<open>tools/context.py\<close>), \<open>Sessions\<close> (\<open>services/session_service.py\<close>: status, pins, sequence
    numbers of an employee session).
  \<^item> Durable chat turns. \<open>Chat_Turns\<close> holds the rows and every operation of
    \<open>runtime/chat_turns.py\<close> that changes one: \<open>create_turn\<close>, \<open>claim\<close>, \<open>renew\<close>, \<open>mark_running\<close>,
    \<open>finalize\<close>, \<open>release\<close>, \<open>recover\<close>, \<open>request_cancel\<close>. \<open>Turn_Rows\<close> proves what each does to
    the table, \<open>Turn_System\<close> the step relation and the reachability invariant,
    \<open>Turn_Properties\<close> its consequences (one turn at a time, stale workers, one reply over any run
    with a log of the messages stored, idempotent creation, recovery as a sequence of steps,
    liveness of the head of a session). Deleting a session, which takes its turns with it, is not
    a step of this relation; \<open>Fencing\<close> treats the missing row.
  \<^item> The tool effect ledger (\<open>tools/effects.py\<close>). \<open>Tool_Effects\<close> holds the rows, the claim with
    its decision table, settling, expiry and operator recovery; \<open>Ledger_System\<close> the step relation
    with a ghost log of permitted runs, from which at-most-once follows; \<open>Fencing\<close> joins it with
    the turn system: a replaced execution stays refused in every world still reachable, except
    that a first-attempt worker is let in once the row of the turn is gone.
    \<open>Bridge_Slots\<close> and \<open>Bridge_Laws\<close> give an inbound bridge write its slot.
  \<^item> Governance of a tool call. \<open>Tool_Policy\<close> (\<open>tools/policy_engine.py\<close>), \<open>Grants\<close>
    (\<open>tools/governance_overlay.py\<close>), \<open>Tool_Access\<close> and \<open>Access_Laws\<close> (\<open>tools/access.py\<close>),
    \<open>Guardrails\<close> (\<open>guardrails/\<close>), \<open>Approvals\<close> (\<open>services/approval_service.py\<close>,
    \<open>governance/approval_signing.py\<close>), \<open>Autonomy\<close> (\<open>tools/autonomy.py\<close>), \<open>Result_Seal\<close> (the
    stored envelope of a result). \<open>Governed_Call\<close> composes all of them into \<open>guarded_call\<close> of
    \<open>tools/factory.py\<close>; \<open>Governed_Laws\<close> and \<open>Governed_Replay\<close> hold what the composition
    guarantees, with other processes acting between its stages. The approval of a level-3 block
    is filed in a session that is left without a commit (\<open>guard_tool_call\<close> of \<open>factory.py\<close>,
    \<open>request_approval\<close> only flushes), so the model keeps the table as it was.
  \<^item> Budgets. \<open>Budget_Ledger\<close> and \<open>Budget_Laws\<close> (\<open>services/budget_service.py\<close>): reservations
    against a chain of policies, charging, releasing and reaping. The step relation runs each
    operation to its end; that overlapping reaps, and a reconciliation of the counters followed by
    a reap, give a hold back twice is proved beside it.
  \<^item> Employee work. \<open>Work_Spec\<close> (validation of work specs and reports), \<open>Work_Rows\<close> and
    \<open>Task_Attempts\<close> (tasks, attempts and every transaction of \<open>runtime/task_attempts.py\<close> on
    them), \<open>Work_Orders\<close> and \<open>Work_Review\<close> (\<open>services/work_service.py\<close>), \<open>Work_Verify\<close> (the
    verifier, the commit and the drive of an attempt). \<open>Work_System\<close> is the step relation,
    \<open>Work_Moves\<close>, \<open>Work_Invariant\<close>, \<open>Work_Grows\<close> and \<open>Work_Reachable\<close> prove its invariant step
    by step, \<open>Work_Run\<close> evaluates a concrete run, \<open>Work_Laws\<close> and \<open>Work_Checks\<close> hold the
    properties.
  \<^item> The organization. \<open>Organization\<close> (\<open>services/ceo_service.py\<close>: \<open>resolve_manager\<close>,
    \<open>release_reports\<close>, \<open>appoint\<close>, \<open>remove\<close>, and the placing, moving and deleting of
    \<open>api/routes/agents.py\<close>), \<open>Agent_Records\<close> (creating, cloning, editing, waking and pausing an
    agent). Audit rows of these routes are best effort: \<open>od_audit_up\<close> says whether the log takes
    them. \<open>Organization_Laws\<close> is the step relation of both, of the watchdog
    (\<open>runtime/watchdog_service.py\<close>) and of other services that rewrite a row in its place
    (\<open>services/agent_service.py\<close>), with its invariant (unique ids, managers of the company, one
    CEO, no cycle), with and without steps that revive a terminated agent; \<open>Organization_Checks\<close> holds what follows: the forest, the CEO on top, the walk that
    refuses exactly the cycles, who may edit what, and concrete runs.
  \<^item> Controlled hiring (\<open>services/hiring_service.py\<close>). \<open>Hiring\<close> holds the request and its
    validation, the hiring rules of the company's policy, the policy decision, filing, approving,
    rejecting, the creation of the employee and the views; it composes \<open>Approvals\<close>, \<open>Tool_Access\<close>,
    \<open>Cli_Backends\<close> and \<open>Organization\<close>. \<open>Hiring_Laws\<close> is the step relation with its invariant
    and the locale \<open>hire_weight\<close> of a counted limit, which headcount, direct reports and the
    monthly budget interpret; \<open>Hiring_Checks\<close> holds the limits, the bounds of auto-approval, the
    single employee of a request, the calls as sequences of steps, and a concrete company.
  \<^item> Command-line employees. \<open>Cli_Backends\<close> (\<open>adapters/cli_registry.py\<close> with its catalogue,
    and the launch of \<open>adapters/cli_adapter.py\<close>): the registry, the validation of an employee's
    configuration, the argument vector and the environment of a run; \<open>Cli_Laws\<close> holds what
    these promise.
  \<^item> The audit log. \<open>Python_Text\<close> (the text of uuids and timestamps), \<open>Audit_Chain\<close>
    (\<open>governance/audit_persistent.py\<close>, \<open>governance/audit_service.py\<close>), \<open>Audit_System\<close> (writers,
    retention, and buffered loggers whose flush begins and ends in different steps, as a step
    relation, and its invariant: nothing is added to a logger while one of its flushes waits;
    \<open>Audit_Laws\<close> shows what is lost otherwise), \<open>Audit_Evidence\<close>
    (what a verified hash chain fixes) and \<open>Audit_Laws\<close>.

  Interfaces. \<open>pk_update\<close> of \<open>Prelude\<close> is the contract of a guarded single-row UPDATE (the
  guard pins the key, the values keep it); every component interprets it on its own statements
  and takes the row lemmas from it. The other locales state what a client needs of a provider
  in the theory where the provider is defined, and each is interpreted there on the model.

  Bounds and fuel. A slot reservation makes \<open>BRIDGE_ATTEMPTS = 50\<close> attempts, as the code does;
  \<open>reservation_starved_only_by_others\<close> says what running out means. Result bounding has the three
  tiers of the code and then a skeleton. A recovery pass takes the batch size of the code. The
  walk up the reporting lines ends because every step meets an agent not seen before. The other
  recursions are structural, or over the list of rows a query returned.

  Not modelled: the asyncio worker loops and listeners that call the operations (the step
  relations allow any order of their calls), typing done by pydantic, SQL row-level security
  (company scoping is modelled where the code's own WHERE clauses state it), the preparation
  of worktrees, prompts and provider sessions, the adapters of language models and the processes
  of the command-line ones, executive memory and organization snapshots, published events, the
  HTTP routes except those of agents and the fragments of \<open>api/routes/chat.py\<close> that change turn
  rows, the orchestrator and the dashboards.
\<close>

end
